(* ===== verification/Prelude.thy ===== *)
theory Prelude
  imports Complex_Main "HOL-Library.AList" "HOL-Library.Sublist"
begin

text \<open>
  Shared base of the development: the collections of rules the component theories fill,
  lemmas on lists and on association lists, and the model of the JavaScript \<open>Map\<close>.

  A JavaScript \<open>Map\<close> iterates over its entries in insertion order, \<open>set\<close> on a key
  that is present keeps its position, \<open>set\<close> on a new key appends, and \<open>delete\<close> removes the
  entry. An association list with \<open>AList.update\<close> and \<open>AList.delete\<close> behaves exactly so;
  \<open>map_of\<close> is \<open>Map.prototype.get\<close>, \<open>length\<close> is \<open>size\<close>.
\<close>

named_theorems keeps_intros "rules that show that a computation preserves a relation"
named_theorems exec_simps "equations that run a computation of the model"

type_synonym ('k, 'v) js_map = "('k \<times> 'v) list"

definition js_map_ok :: "('k, 'v) js_map \<Rightarrow> bool" where
  "js_map_ok m \<longleftrightarrow> distinct (map fst m)"

lemma js_map_ok_Nil [simp]: "js_map_ok []"
  by (simp add: js_map_ok_def)

lemma js_map_ok_update [simp, intro]: "js_map_ok m \<Longrightarrow> js_map_ok (AList.update k v m)"
  by (simp add: js_map_ok_def distinct_update)

lemma js_map_ok_delete [simp, intro]: "js_map_ok m \<Longrightarrow> js_map_ok (AList.delete k m)"
  by (simp add: js_map_ok_def distinct_delete)

lemma js_map_ok_filter [simp, intro]: "js_map_ok m \<Longrightarrow> js_map_ok (filter P m)"
  unfolding js_map_ok_def by (induction m) auto

lemma js_map_ok_tl [intro]: "js_map_ok (e # m) \<Longrightarrow> js_map_ok m"
  by (simp add: js_map_ok_def)

lemma js_map_ok_drop [simp, intro]: "js_map_ok m \<Longrightarrow> js_map_ok (drop n m)"
  unfolding js_map_ok_def by (simp add: drop_map [symmetric])

lemma map_of_update [simp]: "map_of (AList.update k v m) = (map_of m)(k \<mapsto> v)"
  by (simp add: update_conv')

lemma map_of_delete [simp]: "map_of (AList.delete k m) = (map_of m)(k := None)"
  by (simp add: delete_conv')

lemma js_map_ok_map_of: "js_map_ok m \<Longrightarrow> (k, v) \<in> set m \<Longrightarrow> map_of m k = Some v"
  by (simp add: js_map_ok_def)

lemma map_of_filter_ok:
  assumes "js_map_ok m"
  shows "map_of (filter P m) k =
    (case map_of m k of Some v \<Rightarrow> if P (k, v) then Some v else None | None \<Rightarrow> None)"
  using assms unfolding js_map_ok_def
proof (induction m)
  case Nil
  then show ?case by simp
next
  case (Cons e m)
  have "map_of (filter P m) k = None" if "fst e = k"
    using Cons.prems that by (auto simp: map_of_eq_None_iff)
  with Cons show ?case by (cases e) (auto split: option.splits)
qed

lemma length_update_new: "map_of m k = None \<Longrightarrow> length (AList.update k v m) = Suc (length m)"
  by (induction m) (auto split: if_splits)

lemma length_update_old: "map_of m k \<noteq> None \<Longrightarrow> length (AList.update k v m) = length m"
  by (induction m) (auto split: if_splits)

lemma length_update_le: "length (AList.update k v m) \<le> Suc (length m)"
  by (cases "map_of m k") (simp_all add: length_update_new length_update_old)

lemma update_new_append: "map_of m k = None \<Longrightarrow> AList.update k v m = m @ [(k, v)]"
  by (induction m) (auto split: if_splits)

lemma set_delete_subset: "set (AList.delete k m) \<subseteq> set m"
  by (auto simp: AList.delete_eq)

subsection \<open>Lists\<close>

lemma list_all2_same_take: "n \<le> length xs \<Longrightarrow> take n xs @ drop n xs = xs"
  by simp

lemma take_drop_split: "i \<le> j \<Longrightarrow> take (j - i) (drop i xs) @ drop j xs = drop i xs"
  by (metis append_take_drop_id drop_drop le_add_diff_inverse2)

lemma take_append_take_drop: "i \<le> j \<Longrightarrow> take i xs @ take (j - i) (drop i xs) = take j xs"
  by (metis le_add_diff_inverse take_add)

lemma sorted_wrt_filter_pred: "sorted_wrt R xs \<Longrightarrow> sorted_wrt R (filter P xs)"
  by (induction xs) auto

text \<open>The half-open slice \<open>xs.slice(i, j)\<close> for indices in range.\<close>

definition slice :: "nat \<Rightarrow> nat \<Rightarrow> 'a list \<Rightarrow> 'a list" where
  "slice i j xs = take (j - i) (drop i xs)"

lemma length_slice [simp]: "length (slice i j xs) = min (j - i) (length xs - i)"
  by (simp add: slice_def)

lemma slice_append_drop: "i \<le> j \<Longrightarrow> slice i j xs @ drop j xs = drop i xs"
  by (simp add: slice_def take_drop_split)

lemma take_append_slice: "i \<le> j \<Longrightarrow> take i xs @ slice i j xs = take j xs"
  by (simp add: slice_def take_append_take_drop)

lemma slice_same [simp]: "slice i i xs = []"
  by (simp add: slice_def)

lemma slice_0 [simp]: "slice 0 n xs = take n xs"
  by (simp add: slice_def)

lemma nth_slice: "k < j - i \<Longrightarrow> j \<le> length xs \<Longrightarrow> slice i j xs ! k = xs ! (i + k)"
  by (simp add: slice_def)

lemma slice_all [simp]: "slice 0 (length xs) xs = xs"
  by (simp add: slice_def)

lemma slice_split:
  assumes "i \<le> j" "j \<le> k"
  shows "slice i k xs = slice i j xs @ slice j k xs"
proof -
  obtain a b where "j = i + a" "k = i + a + b"
    using assms by (metis le_Suc_ex)
  then show ?thesis
    by (simp add: slice_def take_add add.commute)
qed

subsection \<open>Results\<close>

text \<open>Sequencing of checks: the first error ends the validation.\<close>

definition andthen :: "'e + 'a \<Rightarrow> ('a \<Rightarrow> 'e + 'b) \<Rightarrow> 'e + 'b" where
  "andthen r f = (case r of Inl e \<Rightarrow> Inl e | Inr x \<Rightarrow> f x)"

lemma andthen_simps [simp]: "andthen (Inl e) f = Inl e" "andthen (Inr x) f = f x"
  by (simp_all add: andthen_def)

lemma andthen_eq_Inr: "andthen r f = Inr y \<longleftrightarrow> (\<exists>x. r = Inr x \<and> f x = Inr y)"
  by (cases r) auto

lemma andthen_eq_Inl: "andthen r f = Inl e \<longleftrightarrow> r = Inl e \<or> (\<exists>x. r = Inr x \<and> f x = Inl e)"
  by (cases r) auto

end
