(* ===== verification/JsValue.thy ===== *)
theory JsValue
  imports JsString
begin

text \<open>
  JavaScript values as the source handles them: what \<open>JSON.parse\<close> returns and what object
  literals build. A number is an exact rational or one of the special values (a double is not
  rounded in the model); an object is the list of its own properties in insertion order; \<open>JUndef\<close>
  is \<open>undefined\<close>, the value of a property that is absent.
\<close>

datatype jnum = Fin rat | PosInf | NegInf | NotNum

datatype jval =
    JUndef
  | JNull
  | JBool bool
  | JNum jnum
  | JStr string
  | JArr "jval list"
  | JObj "(string \<times> jval) list"

abbreviation jint :: "int \<Rightarrow> jval" where
  "jint n \<equiv> JNum (Fin (of_int n))"

abbreviation jnat :: "nat \<Rightarrow> jval" where
  "jnat n \<equiv> JNum (Fin (of_nat n))"

subsection \<open>Numbers\<close>

fun jn_less :: "jnum \<Rightarrow> jnum \<Rightarrow> bool" where
  "jn_less NotNum b = False"
| "jn_less a NotNum = False"
| "jn_less (Fin a) (Fin b) = (a < b)"
| "jn_less NegInf b = (b \<noteq> NegInf)"
| "jn_less a NegInf = False"
| "jn_less PosInf b = False"
| "jn_less a PosInf = True"

definition jn_le :: "jnum \<Rightarrow> jnum \<Rightarrow> bool" where
  "jn_le a b \<longleftrightarrow> jn_less a b \<or> (a = b \<and> a \<noteq> NotNum)"

text \<open>\<open>===\<close> on numbers: \<open>NaN\<close> is different from itself.\<close>

definition jn_eq :: "jnum \<Rightarrow> jnum \<Rightarrow> bool" where
  "jn_eq a b \<longleftrightarrow> a = b \<and> a \<noteq> NotNum"

definition jn_min :: "jnum \<Rightarrow> jnum \<Rightarrow> jnum" where
  "jn_min a b = (if a = NotNum \<or> b = NotNum then NotNum else if jn_less b a then b else a)"

definition jn_max :: "jnum \<Rightarrow> jnum \<Rightarrow> jnum" where
  "jn_max a b = (if a = NotNum \<or> b = NotNum then NotNum else if jn_less a b then b else a)"

fun jn_floor :: "jnum \<Rightarrow> jnum" where
  "jn_floor (Fin q) = Fin (of_int \<lfloor>q\<rfloor>)"
| "jn_floor n = n"

fun jn_add :: "jnum \<Rightarrow> jnum \<Rightarrow> jnum" where
  "jn_add (Fin a) (Fin b) = Fin (a + b)"
| "jn_add NotNum b = NotNum"
| "jn_add a NotNum = NotNum"
| "jn_add PosInf NegInf = NotNum"
| "jn_add NegInf PosInf = NotNum"
| "jn_add PosInf b = PosInf"
| "jn_add NegInf b = NegInf"
| "jn_add a PosInf = PosInf"
| "jn_add a NegInf = NegInf"

fun is_finite_num :: "jnum \<Rightarrow> bool" where
  "is_finite_num (Fin q) = True"
| "is_finite_num n = False"

fun is_integer_num :: "jnum \<Rightarrow> bool" where
  "is_integer_num (Fin q) = (q = of_int \<lfloor>q\<rfloor>)"
| "is_integer_num n = False"

text \<open>\<open>Math.min(hi, Math.max(lo, n))\<close> for constants \<open>lo \<le> hi\<close>.\<close>

definition jn_clamp :: "rat \<Rightarrow> rat \<Rightarrow> jnum \<Rightarrow> jnum" where
  "jn_clamp lo hi n = jn_min (Fin hi) (jn_max (Fin lo) n)"

lemma jn_clamp_Fin:
  "lo \<le> hi \<Longrightarrow> n \<noteq> NotNum \<Longrightarrow> \<exists>q. jn_clamp lo hi n = Fin q \<and> lo \<le> q \<and> q \<le> hi"
  by (cases n) (auto simp: jn_clamp_def jn_min_def jn_max_def)

lemma jn_clamp_id: "lo \<le> q \<Longrightarrow> q \<le> hi \<Longrightarrow> jn_clamp lo hi (Fin q) = Fin q"
  by (auto simp: jn_clamp_def jn_min_def jn_max_def)

lemma jn_floor_NotNum [simp]: "jn_floor n = NotNum \<longleftrightarrow> n = NotNum"
  by (cases n) auto

subsection \<open>Tests on values\<close>

fun truthy :: "jval \<Rightarrow> bool" where
  "truthy JUndef = False"
| "truthy JNull = False"
| "truthy (JBool b) = b"
| "truthy (JNum n) = (n \<noteq> Fin 0 \<and> n \<noteq> NotNum)"
| "truthy (JStr s) = (s \<noteq> [])"
| "truthy (JArr xs) = True"
| "truthy (JObj kvs) = True"

text \<open>\<open>value && typeof value === "object"\<close>: an object or an array.\<close>

fun is_objlike :: "jval \<Rightarrow> bool" where
  "is_objlike (JObj kvs) = True"
| "is_objlike (JArr xs) = True"
| "is_objlike v = False"

text \<open>\<open>value && typeof value === "object" && !Array.isArray(value)\<close>.\<close>

fun is_record :: "jval \<Rightarrow> bool" where
  "is_record (JObj kvs) = True"
| "is_record v = False"

fun is_string :: "jval \<Rightarrow> bool" where
  "is_string (JStr s) = True"
| "is_string v = False"

fun is_number :: "jval \<Rightarrow> bool" where
  "is_number (JNum n) = True"
| "is_number v = False"

fun is_array :: "jval \<Rightarrow> bool" where
  "is_array (JArr xs) = True"
| "is_array v = False"

text \<open>
  The property read \<open>value.key\<close> on a value that is not \<open>undefined\<close> or \<open>null\<close>. The keys the source
  reads are never \<open>length\<close>, an index or a name of \<open>Object.prototype\<close>, so a value that is not an
  object has no such property.
\<close>

fun get_prop :: "jval \<Rightarrow> string \<Rightarrow> jval" where
  "get_prop (JObj kvs) k = (case map_of kvs k of Some v \<Rightarrow> v | None \<Rightarrow> JUndef)"
| "get_prop v k = JUndef"

fun has_own :: "jval \<Rightarrow> string \<Rightarrow> bool" where
  "has_own (JObj kvs) k = (map_of kvs k \<noteq> None)"
| "has_own v k = False"

text \<open>\<open>value ?? other\<close>.\<close>

fun nullish_or :: "jval \<Rightarrow> jval \<Rightarrow> jval" where
  "nullish_or JUndef d = d"
| "nullish_or JNull d = d"
| "nullish_or v d = v"

text \<open>\<open>typeof value === "string" ? value : undefined\<close>, and the same for numbers and arrays.\<close>

fun string_of :: "jval \<Rightarrow> string option" where
  "string_of (JStr s) = Some s"
| "string_of v = None"

fun num_of :: "jval \<Rightarrow> jnum option" where
  "num_of (JNum n) = Some n"
| "num_of v = None"

fun array_of :: "jval \<Rightarrow> jval list option" where
  "array_of (JArr xs) = Some xs"
| "array_of v = None"

fun jopt_str :: "string option \<Rightarrow> jval" where
  "jopt_str None = JNull"
| "jopt_str (Some s) = JStr s"

text \<open>An object literal with the entries of a list, later ones winning: \<open>{...a, ...b}\<close>.\<close>

fun spread :: "(string \<times> jval) list \<Rightarrow> (string \<times> jval) list \<Rightarrow> (string \<times> jval) list" where
  "spread kvs [] = kvs"
| "spread kvs ((k, v) # more) = spread (AList.update k v kvs) more"

text \<open>The own enumerable properties of a value, as spread and \<open>Object.entries\<close> see them.\<close>

definition index_fields :: "jval list \<Rightarrow> (string \<times> jval) list" where
  "index_fields xs = zip (map dec_str [0..<length xs]) xs"

fun fields_of :: "jval \<Rightarrow> (string \<times> jval) list" where
  "fields_of (JObj kvs) = kvs"
| "fields_of (JArr xs) = index_fields xs"
| "fields_of (JStr s) = index_fields (map (\<lambda>c. JStr [c]) s)"
| "fields_of v = []"

text \<open>A property read raises a \<open>TypeError\<close> on \<open>undefined\<close> and \<open>null\<close>.\<close>

definition nullish :: "jval \<Rightarrow> bool" where
  "nullish v \<longleftrightarrow> v = JUndef \<or> v = JNull"

lemma map_of_spread: "js_map_ok more \<Longrightarrow> map_of (spread kvs more) = map_of kvs ++ map_of more"
proof (induction kvs more rule: spread.induct)
  case (2 kvs k v more)
  then have "map_of more k = None" "js_map_ok more"
    by (auto simp: js_map_ok_def map_of_eq_None_iff image_iff)
  with 2 show ?case by (auto simp: map_add_def fun_eq_iff split: option.splits)
qed simp

lemma prop_JObj_update [simp]: "get_prop (JObj (AList.update k v kvs)) k' = (if k' = k then v else get_prop (JObj kvs) k')"
  by simp

text \<open>\<open>asRecordValue\<close>-like reading: the object, or the empty one.\<close>

definition record_or_empty :: "jval \<Rightarrow> jval" where
  "record_or_empty v = (if is_record v then v else JObj [])"

lemma is_record_record_or_empty [simp]: "is_record (record_or_empty v)"
  by (simp add: record_or_empty_def)

lemma is_recordE: "is_record v \<Longrightarrow> (\<And>kvs. v = JObj kvs \<Longrightarrow> P) \<Longrightarrow> P"
  by (cases v) auto

subsection \<open>Strict equality and conversion to strings\<close>

text \<open>
  \<open>===\<close> on primitive values. Two objects are equal only if they are the same reference, which a
  value does not show: the source compares objects nowhere, and the model returns \<open>False\<close>.
\<close>

fun strict_eq :: "jval \<Rightarrow> jval \<Rightarrow> bool" where
  "strict_eq (JNum a) (JNum b) = jn_eq a b"
| "strict_eq (JObj a) b = False"
| "strict_eq (JArr a) b = False"
| "strict_eq a b = (a = b)"

text \<open>
  \<open>String(n)\<close>: the decimal numeral, with the digits after the point (at most 17). This is what
  JavaScript prints for numbers of magnitude between \<open>1e-6\<close> and \<open>1e21\<close> with at most 17 digits.
\<close>

fun frac_digits :: "nat \<Rightarrow> rat \<Rightarrow> string" where
  "frac_digits 0 q = []"
| "frac_digits (Suc n) q =
     (if q = 0 then []
      else digit_char (nat \<lfloor>10 * q\<rfloor>) # frac_digits n (10 * q - of_int \<lfloor>10 * q\<rfloor>))"

fun num_string :: "jnum \<Rightarrow> string" where
  "num_string NotNum = ''NaN''"
| "num_string PosInf = ''Infinity''"
| "num_string NegInf = ''-Infinity''"
| "num_string (Fin q) =
     (let a = \<bar>q\<bar>; w = nat \<lfloor>a\<rfloor>; f = a - of_nat w
      in (if q < 0 then ''-'' else []) @ dec_str w
         @ (if f = 0 then [] else ''.'' @ frac_digits 17 f))"

fun js_string :: "jval \<Rightarrow> string" where
  "js_string JUndef = ''undefined''"
| "js_string JNull = ''null''"
| "js_string (JBool b) = (if b then ''true'' else ''false'')"
| "js_string (JNum n) = num_string n"
| "js_string (JStr s) = s"
| "js_string (JArr xs) =
     join '','' (map (\<lambda>x. case x of JUndef \<Rightarrow> [] | JNull \<Rightarrow> [] | _ \<Rightarrow> js_string x) xs)"
| "js_string (JObj kvs) = ''[object Object]''"

lemma num_string_nat [simp]: "num_string (Fin (of_nat n)) = dec_str n"
  by simp

end
