(* ===== verification/Errors.thy ===== *)
theory Errors
  imports JsValue
begin

text \<open>
  \<open>packages/protocol/src/errors.ts\<close>: the error codes, the table of their defaults, the error class
  and the conversion of an arbitrary exception. Every operation of the model that can fail returns
  a value of \<open>exn + 'a\<close>: \<open>OpError\<close> is an \<open>OperatorError\<close>, \<open>JsError\<close> any other exception with its
  message.
\<close>

datatype error_code =
    E_INVALID_ARGUMENT
  | E_SCHEMA_VALIDATION
  | E_AUTH_FAILED
  | E_INSTANCE_NOT_FOUND
  | E_EMACS_DISCONNECTED
  | E_SESSION_NOT_FOUND
  | E_SESSION_EXPIRED
  | E_TARGET_NOT_FOUND
  | E_TARGET_STALE
  | E_STATE_CONFLICT
  | E_ANALYSIS_UNRESOLVED
  | E_MUTATION_LOCKED
  | E_PERMISSION_DENIED
  | E_POLICY_DENIED
  | E_COMMAND_NOT_FOUND
  | E_COMMAND_NOT_INTERACTIVE
  | E_COMMAND_FAILED
  | E_COMMAND_QUIT
  | E_KEY_PARSE_FAILED
  | E_KEY_UNBOUND
  | E_MINIBUFFER_UNEXPECTED
  | E_COMMAND_TIMEOUT
  | E_WAIT_TIMEOUT
  | E_TRANSACTION_NOT_FOUND
  | E_TRANSACTION_CONFLICT
  | E_ROLLBACK_FAILED
  | E_NATIVE_DRIVER_UNAVAILABLE
  | E_ACCESSIBILITY_NOT_GRANTED
  | E_SCREEN_CAPTURE_NOT_GRANTED
  | E_FOCUS_FAILED
  | E_FRONTMOST_MISMATCH
  | E_USER_INTERFERENCE
  | E_INPUT_INJECTION_FAILED
  | E_CAPTURE_FAILED
  | E_EXTERNAL_SIDE_EFFECT
  | E_INTERNAL

text \<open>The array \<open>ERROR_CODES\<close>, in its order.\<close>

definition ERROR_CODES :: "error_code list" where
  "ERROR_CODES = [
     E_INVALID_ARGUMENT,
     E_SCHEMA_VALIDATION,
     E_AUTH_FAILED,
     E_INSTANCE_NOT_FOUND,
     E_EMACS_DISCONNECTED,
     E_SESSION_NOT_FOUND,
     E_SESSION_EXPIRED,
     E_TARGET_NOT_FOUND,
     E_TARGET_STALE,
     E_STATE_CONFLICT,
     E_ANALYSIS_UNRESOLVED,
     E_MUTATION_LOCKED,
     E_PERMISSION_DENIED,
     E_POLICY_DENIED,
     E_COMMAND_NOT_FOUND,
     E_COMMAND_NOT_INTERACTIVE,
     E_COMMAND_FAILED,
     E_COMMAND_QUIT,
     E_KEY_PARSE_FAILED,
     E_KEY_UNBOUND,
     E_MINIBUFFER_UNEXPECTED,
     E_COMMAND_TIMEOUT,
     E_WAIT_TIMEOUT,
     E_TRANSACTION_NOT_FOUND,
     E_TRANSACTION_CONFLICT,
     E_ROLLBACK_FAILED,
     E_NATIVE_DRIVER_UNAVAILABLE,
     E_ACCESSIBILITY_NOT_GRANTED,
     E_SCREEN_CAPTURE_NOT_GRANTED,
     E_FOCUS_FAILED,
     E_FRONTMOST_MISMATCH,
     E_USER_INTERFERENCE,
     E_INPUT_INJECTION_FAILED,
     E_CAPTURE_FAILED,
     E_EXTERNAL_SIDE_EFFECT,
     E_INTERNAL]"

fun code_name :: "error_code \<Rightarrow> string" where
  "code_name E_INVALID_ARGUMENT = ''E_INVALID_ARGUMENT''"
| "code_name E_SCHEMA_VALIDATION = ''E_SCHEMA_VALIDATION''"
| "code_name E_AUTH_FAILED = ''E_AUTH_FAILED''"
| "code_name E_INSTANCE_NOT_FOUND = ''E_INSTANCE_NOT_FOUND''"
| "code_name E_EMACS_DISCONNECTED = ''E_EMACS_DISCONNECTED''"
| "code_name E_SESSION_NOT_FOUND = ''E_SESSION_NOT_FOUND''"
| "code_name E_SESSION_EXPIRED = ''E_SESSION_EXPIRED''"
| "code_name E_TARGET_NOT_FOUND = ''E_TARGET_NOT_FOUND''"
| "code_name E_TARGET_STALE = ''E_TARGET_STALE''"
| "code_name E_STATE_CONFLICT = ''E_STATE_CONFLICT''"
| "code_name E_ANALYSIS_UNRESOLVED = ''E_ANALYSIS_UNRESOLVED''"
| "code_name E_MUTATION_LOCKED = ''E_MUTATION_LOCKED''"
| "code_name E_PERMISSION_DENIED = ''E_PERMISSION_DENIED''"
| "code_name E_POLICY_DENIED = ''E_POLICY_DENIED''"
| "code_name E_COMMAND_NOT_FOUND = ''E_COMMAND_NOT_FOUND''"
| "code_name E_COMMAND_NOT_INTERACTIVE = ''E_COMMAND_NOT_INTERACTIVE''"
| "code_name E_COMMAND_FAILED = ''E_COMMAND_FAILED''"
| "code_name E_COMMAND_QUIT = ''E_COMMAND_QUIT''"
| "code_name E_KEY_PARSE_FAILED = ''E_KEY_PARSE_FAILED''"
| "code_name E_KEY_UNBOUND = ''E_KEY_UNBOUND''"
| "code_name E_MINIBUFFER_UNEXPECTED = ''E_MINIBUFFER_UNEXPECTED''"
| "code_name E_COMMAND_TIMEOUT = ''E_COMMAND_TIMEOUT''"
| "code_name E_WAIT_TIMEOUT = ''E_WAIT_TIMEOUT''"
| "code_name E_TRANSACTION_NOT_FOUND = ''E_TRANSACTION_NOT_FOUND''"
| "code_name E_TRANSACTION_CONFLICT = ''E_TRANSACTION_CONFLICT''"
| "code_name E_ROLLBACK_FAILED = ''E_ROLLBACK_FAILED''"
| "code_name E_NATIVE_DRIVER_UNAVAILABLE = ''E_NATIVE_DRIVER_UNAVAILABLE''"
| "code_name E_ACCESSIBILITY_NOT_GRANTED = ''E_ACCESSIBILITY_NOT_GRANTED''"
| "code_name E_SCREEN_CAPTURE_NOT_GRANTED = ''E_SCREEN_CAPTURE_NOT_GRANTED''"
| "code_name E_FOCUS_FAILED = ''E_FOCUS_FAILED''"
| "code_name E_FRONTMOST_MISMATCH = ''E_FRONTMOST_MISMATCH''"
| "code_name E_USER_INTERFERENCE = ''E_USER_INTERFERENCE''"
| "code_name E_INPUT_INJECTION_FAILED = ''E_INPUT_INJECTION_FAILED''"
| "code_name E_CAPTURE_FAILED = ''E_CAPTURE_FAILED''"
| "code_name E_EXTERNAL_SIDE_EFFECT = ''E_EXTERNAL_SIDE_EFFECT''"
| "code_name E_INTERNAL = ''E_INTERNAL''"

text \<open>The record \<open>defaults\<close>: category, retryable, recovery.\<close>

definition error_defaults_table :: "(error_code \<times> nat \<times> bool \<times> string) list" where
  "error_defaults_table = [
     (E_INVALID_ARGUMENT, 400, False, ''Correct the tool arguments and retry.''),
     (E_SCHEMA_VALIDATION, 400, False, ''Send arguments that match the published schema.''),
     (E_AUTH_FAILED, 401, False, ''Rediscover the Emacs instance and reconnect using its current token.''),
     (E_INSTANCE_NOT_FOUND, 404, True, ''Call emacs_instances and select a live instance.''),
     (E_EMACS_DISCONNECTED, 503, True, ''Rediscover the Emacs instance and reopen the session.''),
     (E_SESSION_NOT_FOUND, 404, True, ''Open a new Emacs session.''),
     (E_SESSION_EXPIRED, 410, True, ''Open a new Emacs session.''),
     (E_TARGET_NOT_FOUND, 404, True, ''Observe available targets or reopen the session with a valid selector.''),
     (E_TARGET_STALE, 409, True, ''Re-resolve the target and retry.''),
     (E_STATE_CONFLICT, 409, True, ''Call emacs_observe and re-plan the mutation from the new state.''),
     (E_ANALYSIS_UNRESOLVED, 422, True, ''Narrow the analyzed forms or provide explicitly reviewed parameters instead of guessing.''),
     (E_MUTATION_LOCKED, 423, True, ''Close the competing mutation session or wait for its lease to be released.''),
     (E_PERMISSION_DENIED, 403, False, ''Grant the required operating-system permission or use a non-native channel.''),
     (E_POLICY_DENIED, 403, False, ''Use an allowed operation or open a session with an explicitly authorized profile.''),
     (E_COMMAND_NOT_FOUND, 404, True, ''Query capabilities and resolve an available command.''),
     (E_COMMAND_NOT_INTERACTIVE, 400, False, ''Use an interactive command or an allowlisted semantic function.''),
     (E_COMMAND_FAILED, 422, True, ''Observe Emacs state and command messages before retrying.''),
     (E_COMMAND_QUIT, 409, True, ''Observe state. Retry only if the interruption was expected.''),
     (E_KEY_PARSE_FAILED, 400, False, ''Use valid Emacs kbd notation or structured key events.''),
     (E_KEY_UNBOUND, 422, True, ''Resolve the key binding in the target buffer before retrying.''),
     (E_MINIBUFFER_UNEXPECTED, 409, True, ''Observe the minibuffer prompt and provide a complete self-contained key flow.''),
     (E_COMMAND_TIMEOUT, 504, True, ''Inspect Emacs state and retry with an appropriate bounded wait.''),
     (E_WAIT_TIMEOUT, 504, True, ''Observe current state and adjust the wait predicate or timeout.''),
     (E_TRANSACTION_NOT_FOUND, 404, False, ''Create a new checkpoint.''),
     (E_TRANSACTION_CONFLICT, 409, True, ''Preserve user changes, observe state, and create a new checkpoint if appropriate.''),
     (E_ROLLBACK_FAILED, 409, False, ''Do not overwrite external changes. Resolve the conflict manually.''),
     (E_NATIVE_DRIVER_UNAVAILABLE, 503, False, ''Use semantic/internal_keys or install and start the platform host.''),
     (E_ACCESSIBILITY_NOT_GRANTED, 403, True, ''Grant the platform-specific desktop input/focus permission or use internal_keys.''),
     (E_SCREEN_CAPTURE_NOT_GRANTED, 403, True, ''Grant the platform-specific window-capture permission or use semantic observation.''),
     (E_FOCUS_FAILED, 409, True, ''Verify the target Emacs process/window still exists and retry.''),
     (E_FRONTMOST_MISMATCH, 409, True, ''Reacquire the desktop lease, refocus Emacs, and verify the PID.''),
     (E_USER_INTERFERENCE, 409, True, ''Stop native input, release modifiers, and retry only after the desktop is idle.''),
     (E_INPUT_INJECTION_FAILED, 500, True, ''Release all modifiers, verify permissions, and retry.''),
     (E_CAPTURE_FAILED, 500, True, ''Verify screen-capture permissions and target window state.''),
     (E_EXTERNAL_SIDE_EFFECT, 409, False, ''Review the irreversible side effect before taking further action.''),
     (E_INTERNAL, 500, True, ''Inspect audit metadata and retry only after observing current Emacs state.'')]"

definition error_defaults :: "error_code \<Rightarrow> nat \<times> bool \<times> string" where
  "error_defaults c = the (map_of error_defaults_table c)"

record operator_error =
  oe_code :: error_code
  oe_category :: nat
  oe_message :: string
  oe_retryable :: bool
  oe_recovery :: string
  oe_details :: "jval option"

datatype exn = OpError operator_error | JsError string

text \<open>The constructor of \<open>OperatorError\<close>.\<close>

definition new_operator_error :: "error_code \<Rightarrow> string \<Rightarrow> jval option \<Rightarrow> operator_error" where
  "new_operator_error code msg details =
     (case error_defaults code of (category, retryable, recovery) \<Rightarrow>
        \<lparr>oe_code = code, oe_category = category, oe_message = msg, oe_retryable = retryable,
         oe_recovery = recovery, oe_details = details\<rparr>)"

definition op_error :: "error_code \<Rightarrow> string \<Rightarrow> exn" where
  "op_error code msg = OpError (new_operator_error code msg None)"

definition op_error_with :: "error_code \<Rightarrow> string \<Rightarrow> (string \<times> jval) list \<Rightarrow> exn" where
  "op_error_with code msg details = OpError (new_operator_error code msg (Some (JObj details)))"

text \<open>\<open>toJSON\<close>: the shape that is sent to the client.\<close>

definition error_to_json :: "operator_error \<Rightarrow> jval" where
  "error_to_json e = JObj
     ([(''code'', JStr (code_name (oe_code e))), (''category'', jnat (oe_category e)),
       (''message'', JStr (oe_message e)), (''retryable'', JBool (oe_retryable e)),
       (''recovery'', JStr (oe_recovery e))]
      @ (case oe_details e of None \<Rightarrow> [] | Some d \<Rightarrow> [(''details'', d)]))"

fun as_operator_error :: "exn \<Rightarrow> operator_error" where
  "as_operator_error (OpError e) = e"
| "as_operator_error (JsError msg) = new_operator_error E_INTERNAL msg None"

text \<open>The code of a bridge error: a string that is one of \<open>ERROR_CODES\<close>.\<close>

definition code_of_name :: "string \<Rightarrow> error_code option" where
  "code_of_name s = List.find (\<lambda>c. code_name c = s) ERROR_CODES"

definition exn_code :: "exn \<Rightarrow> error_code" where
  "exn_code e = oe_code (as_operator_error e)"

subsection \<open>Lemmas\<close>

lemma new_operator_error_sel [simp]:
  "oe_code (new_operator_error c m d) = c"
  "oe_message (new_operator_error c m d) = m"
  "oe_details (new_operator_error c m d) = d"
  "oe_category (new_operator_error c m d) = fst (error_defaults c)"
  "oe_retryable (new_operator_error c m d) = fst (snd (error_defaults c))"
  "oe_recovery (new_operator_error c m d) = snd (snd (error_defaults c))"
  by (simp_all add: new_operator_error_def split: prod.splits)

lemma exn_code_simps [simp]:
  "exn_code (op_error c m) = c" "exn_code (op_error_with c m ds) = c"
  "exn_code (JsError m) = E_INTERNAL" "exn_code (OpError e) = oe_code e"
  by (simp_all add: exn_code_def op_error_def op_error_with_def)

lemma ERROR_CODES_complete: "c \<in> set ERROR_CODES"
  by (cases c) (simp_all add: ERROR_CODES_def)

lemma distinct_code_names: "distinct (map code_name ERROR_CODES)"
  by code_simp

lemma code_name_eq_iff: "code_name c = code_name c' \<longleftrightarrow> c = c'"
  using distinct_code_names ERROR_CODES_complete
  by (metis distinct_map inj_on_def)

lemma code_of_name_code_name [simp]: "code_of_name (code_name c) = Some c"
proof -
  have "\<exists>c' \<in> set ERROR_CODES. code_name c' = code_name c"
    using ERROR_CODES_complete by blast
  then obtain c' where "List.find (\<lambda>c'. code_name c' = code_name c) ERROR_CODES = Some c'"
    by (cases "List.find (\<lambda>c'. code_name c' = code_name c) ERROR_CODES") (auto simp: find_None_iff)
  then show ?thesis
    unfolding code_of_name_def by (auto simp: find_Some_iff code_name_eq_iff)
qed

lemma code_of_name_SomeD: "code_of_name s = Some c \<Longrightarrow> code_name c = s"
  by (auto simp: code_of_name_def find_Some_iff)

text \<open>The categories are the HTTP-like status classes of client and server errors.\<close>

lemma category_range: "fst (error_defaults c) \<in> {400, 401, 403, 404, 409, 410, 422, 423, 500, 503, 504}"
  by (cases c) (simp_all add: error_defaults_def error_defaults_table_def)

end
