(* ===== verification/Act.thy ===== *)
theory Act
  imports JsValue Errors
begin

text \<open>
  Asynchronous functions as state-passing computations. An \<open>act\<close> takes the state of the server
  and ends with a result or an exception and the new state. The stdio server handles one message
  at a time (\<open>server.ts\<close> chains them in a queue), so an \<open>await\<close> is sequential composition.

  The second part is the proof support: preservation of a relation between the states before and
  after (the locale \<open>run_relation\<close>) and postconditions by cases on the outcome.
\<close>

type_synonym ('s, 'a) act = "'s \<Rightarrow> (exn + 'a) \<times> 's"

definition ret :: "'a \<Rightarrow> ('s, 'a) act" where
  "ret x = (\<lambda>s. (Inr x, s))"

definition throw :: "exn \<Rightarrow> ('s, 'a) act" where
  "throw e = (\<lambda>s. (Inl e, s))"

definition bind :: "('s, 'a) act \<Rightarrow> ('a \<Rightarrow> ('s, 'b) act) \<Rightarrow> ('s, 'b) act" where
  "bind m f = (\<lambda>s. case m s of (Inl e, s') \<Rightarrow> (Inl e, s') | (Inr x, s') \<Rightarrow> f x s')"

text \<open>\<open>m; n\<close>, where the value of \<open>m\<close> is not used.\<close>

definition seq :: "('s, 'a) act \<Rightarrow> ('s, 'b) act \<Rightarrow> ('s, 'b) act" where
  "seq m n = bind m (\<lambda>_. n)"

definition try_catch :: "('s, 'a) act \<Rightarrow> (exn \<Rightarrow> ('s, 'a) act) \<Rightarrow> ('s, 'a) act" where
  "try_catch m h = (\<lambda>s. case m s of (Inl e, s') \<Rightarrow> h e s' | (Inr x, s') \<Rightarrow> (Inr x, s'))"

text \<open>\<open>try { m } finally { f }\<close>: an exception of \<open>f\<close> replaces the outcome of \<open>m\<close>.\<close>

definition try_finally :: "('s, 'a) act \<Rightarrow> ('s, unit) act \<Rightarrow> ('s, 'a) act" where
  "try_finally m f = (\<lambda>s. case m s of (r, s1) \<Rightarrow>
     (case f s1 of (Inl e, s2) \<Rightarrow> (Inl e, s2) | (Inr _, s2) \<Rightarrow> (r, s2)))"

text \<open>A check or a pure function that may throw.\<close>

definition lift :: "exn + 'a \<Rightarrow> ('s, 'a) act" where
  "lift r = (\<lambda>s. (r, s))"

definition gets :: "('s \<Rightarrow> 'a) \<Rightarrow> ('s, 'a) act" where
  "gets f = (\<lambda>s. (Inr (f s), s))"

definition modify :: "('s \<Rightarrow> 's) \<Rightarrow> ('s, unit) act" where
  "modify f = (\<lambda>s. (Inr (), f s))"

text \<open>\<open>if (b) m\<close>, and \<open>if (b) throw e\<close>.\<close>

definition on :: "bool \<Rightarrow> ('s, unit) act \<Rightarrow> ('s, unit) act" where
  "on b m = (if b then m else ret ())"

definition throw_if :: "bool \<Rightarrow> exn \<Rightarrow> ('s, unit) act" where
  "throw_if b e = (if b then throw e else ret ())"

text \<open>\<open>for (const x of xs) m(x)\<close>.\<close>

fun for_each :: "'a list \<Rightarrow> ('a \<Rightarrow> ('s, unit) act) \<Rightarrow> ('s, unit) act" where
  "for_each [] m = ret ()"
| "for_each (x # xs) m = seq (m x) (for_each xs m)"

text \<open>The read \<open>value.key\<close> on a value nothing is known of: a \<open>TypeError\<close> on \<open>undefined\<close> and \<open>null\<close>.\<close>

definition read_prop :: "jval \<Rightarrow> string \<Rightarrow> exn + jval" where
  "read_prop v key =
     (if nullish v then Inl (JsError (''Cannot read properties of '' @ js_string v @ '' (reading '' @
        [SQUOTE] @ key @ [SQUOTE] @ '')''))
      else Inr (get_prop v key))"

definition prop_of :: "jval \<Rightarrow> string \<Rightarrow> ('s, jval) act" where
  "prop_of v key = lift (read_prop v key)"

subsection \<open>Running\<close>

lemma run_simps [exec_simps]:
  "ret x s = (Inr x, s)"
  "throw e s = (Inl e, s)"
  "lift r s = (r, s)"
  "gets f s = (Inr (f s), s)"
  "modify g s = (Inr (), g s)"
  by (simp_all add: ret_def throw_def lift_def gets_def modify_def)

lemma bind_run [exec_simps]:
  "bind m f s = (case m s of (Inl e, s') \<Rightarrow> (Inl e, s') | (Inr x, s') \<Rightarrow> f x s')"
  by (simp add: bind_def)

lemma bind_cases:
  assumes "bind m f s = (r, s')"
  obtains e where "m s = (Inl e, s')" "r = Inl e"
  | x s1 where "m s = (Inr x, s1)" "f x s1 = (r, s')"
  using assms by (auto simp: bind_def split: prod.splits sum.splits)

lemma bind_throw [simp]: "bind (throw e) f = throw e"
  by (simp add: bind_def throw_def fun_eq_iff)

lemma bind_ret [simp]: "bind (ret x) f = f x"
  by (simp add: bind_def ret_def fun_eq_iff)

lemma bind_lift_simps [simp]: "bind (lift (Inl e)) f = throw e" "bind (lift (Inr x)) f = f x"
  by (simp_all add: bind_def lift_def throw_def fun_eq_iff)

lemma bind_ret_right [simp]: "bind m ret = m"
  by (auto simp: bind_def ret_def fun_eq_iff split: prod.splits sum.splits)

lemma bind_assoc: "bind (bind m f) g = bind m (\<lambda>x. bind (f x) g)"
  by (auto simp: bind_def fun_eq_iff split: prod.splits sum.splits)

subsection \<open>Preservation of a relation\<close>

text \<open>
  A reflexive and transitive relation that every single effect of a computation respects holds
  between the state before and the state after the whole computation, however it ends.
\<close>

definition keeps :: "('s \<Rightarrow> 's \<Rightarrow> bool) \<Rightarrow> ('s, 'a) act \<Rightarrow> bool" where
  "keeps R m \<longleftrightarrow> (\<forall>s. R s (snd (m s)))"

locale run_relation =
  fixes R :: "'s \<Rightarrow> 's \<Rightarrow> bool"
  assumes refl: "R s s"
    and trans: "R s t \<Longrightarrow> R t u \<Longrightarrow> R s u"
begin

lemma keeps_ret: "keeps R (ret x)"
  by (simp add: keeps_def ret_def refl)

lemma keeps_throw: "keeps R (throw e)"
  by (simp add: keeps_def throw_def refl)

lemma keeps_lift: "keeps R (lift r)"
  by (simp add: keeps_def lift_def refl)

lemma keeps_prop_of: "keeps R (prop_of v k)"
  by (simp add: prop_of_def keeps_lift)

lemma keeps_gets: "keeps R (gets f)"
  by (simp add: keeps_def gets_def refl)

lemma keeps_bind:
  assumes "keeps R m" "\<And>x. keeps R (f x)"
  shows "keeps R (bind m f)"
  unfolding keeps_def
proof
  fix s
  have m: "R s (snd (m s))" using assms(1) by (simp add: keeps_def)
  show "R s (snd (bind m f s))"
  proof (cases "m s")
    case (Pair r s1)
    with m have 1: "R s s1" by simp
    show ?thesis
    proof (cases r)
      case (Inl e)
      with 1 Pair show ?thesis by (simp add: bind_def)
    next
      case (Inr x)
      have "R s1 (snd (f x s1))" using assms(2) by (simp add: keeps_def)
      with 1 Pair Inr show ?thesis by (auto simp: bind_def intro: trans)
    qed
  qed
qed

lemma keeps_seq: "keeps R m \<Longrightarrow> keeps R n \<Longrightarrow> keeps R (seq m n)"
  unfolding seq_def by (rule keeps_bind)

lemma keeps_try_catch:
  assumes "keeps R m" "\<And>e. keeps R (h e)"
  shows "keeps R (try_catch m h)"
  unfolding keeps_def
proof
  fix s
  have m: "R s (snd (m s))" and h: "R (snd (m s)) (snd (h e (snd (m s))))" for e
    using assms by (simp_all add: keeps_def)
  show "R s (snd (try_catch m h s))"
    using m h by (cases "m s"; cases "fst (m s)") (auto simp: try_catch_def intro: trans)
qed

lemma keeps_try_finally:
  assumes "keeps R m" "keeps R f"
  shows "keeps R (try_finally m f)"
  unfolding keeps_def
proof
  fix s
  have "R s (snd (m s))" "R (snd (m s)) (snd (f (snd (m s))))"
    using assms by (simp_all add: keeps_def)
  then have "R s (snd (f (snd (m s))))" by (rule trans)
  then show "R s (snd (try_finally m f s))"
    by (auto simp: try_finally_def split: prod.splits sum.splits)
qed

lemma keeps_on: "keeps R m \<Longrightarrow> keeps R (on b m)"
  by (simp add: on_def keeps_ret)

lemma keeps_throw_if: "keeps R (throw_if b e)"
  by (simp add: throw_if_def keeps_ret keeps_throw)

lemma keeps_if: "keeps R m \<Longrightarrow> keeps R n \<Longrightarrow> keeps R (if b then m else n)"
  by simp

lemma keeps_option: "keeps R m \<Longrightarrow> (\<And>x. keeps R (f x)) \<Longrightarrow> keeps R (case v of None \<Rightarrow> m | Some x \<Rightarrow> f x)"
  by (cases v) simp_all

lemma keeps_prod: "(\<And>x y. keeps R (f x y)) \<Longrightarrow> keeps R (case p of (x, y) \<Rightarrow> f x y)"
  by (cases p) simp

lemma keeps_for_each: "(\<And>x. keeps R (m x)) \<Longrightarrow> keeps R (for_each xs m)"
  by (induction xs) (simp_all add: keeps_ret keeps_seq)

lemma keeps_modify: "(\<And>s. R s (g s)) \<Longrightarrow> keeps R (modify g)"
  by (simp add: keeps_def modify_def)

lemmas keeps_rules = keeps_ret keeps_throw keeps_lift keeps_prop_of keeps_gets keeps_bind keeps_seq
  keeps_try_catch keeps_try_finally keeps_on keeps_throw_if keeps_if keeps_option keeps_prod
  keeps_for_each

end

text \<open>Preservation of an invariant is the special case of the relation "if before, then after".\<close>

definition invariant_rel :: "('s \<Rightarrow> bool) \<Rightarrow> 's \<Rightarrow> 's \<Rightarrow> bool" where
  "invariant_rel I s s' \<longleftrightarrow> (I s \<longrightarrow> I s')"

lemma run_relation_invariant: "run_relation (invariant_rel I)"
  by unfold_locales (auto simp: invariant_rel_def)

text \<open>Two relations that are kept by themselves are kept together.\<close>

lemma keeps_conj: "keeps R m \<Longrightarrow> keeps Q m \<Longrightarrow> keeps (\<lambda>s s'. R s s' \<and> Q s s') m"
  by (simp add: keeps_def)

subsection \<open>Outcomes\<close>

text \<open>Every normal outcome of the computation satisfies \<open>Q\<close>, in its value and final state.\<close>

definition returns :: "('s, 'a) act \<Rightarrow> ('a \<Rightarrow> 's \<Rightarrow> bool) \<Rightarrow> bool" where
  "returns m Q \<longleftrightarrow> (\<forall>s x s'. m s = (Inr x, s') \<longrightarrow> Q x s')"

lemma returnsD: "returns m Q \<Longrightarrow> m s = (Inr x, s') \<Longrightarrow> Q x s'"
  by (simp add: returns_def)

lemma returns_throw [intro, simp]: "returns (throw e) Q"
  by (simp add: returns_def throw_def)

lemma returns_ret: "(\<And>s. Q x s) \<Longrightarrow> returns (ret x) Q"
  by (simp add: returns_def ret_def)

lemma returns_bind: "(\<And>x. returns (f x) Q) \<Longrightarrow> returns (bind m f) Q"
  by (auto simp: returns_def elim!: bind_cases)

lemma returns_bind2: "returns m P \<Longrightarrow> (\<And>x s r s'. P x s \<Longrightarrow> f x s = (Inr r, s') \<Longrightarrow> Q r s') \<Longrightarrow> returns (bind m f) Q"
  unfolding returns_def by (blast elim: bind_cases)

lemma returns_seq: "returns n Q \<Longrightarrow> returns (seq m n) Q"
  unfolding seq_def by (rule returns_bind)

lemma returns_if: "(b \<Longrightarrow> returns m Q) \<Longrightarrow> (\<not> b \<Longrightarrow> returns n Q) \<Longrightarrow> returns (if b then m else n) Q"
  by simp

lemma returns_prod: "(\<And>x y. returns (f x y) Q) \<Longrightarrow> returns (case p of (x, y) \<Rightarrow> f x y) Q"
  by (cases p) simp

lemma returns_option:
  "(v = None \<Longrightarrow> returns m Q) \<Longrightarrow> (\<And>x. v = Some x \<Longrightarrow> returns (f x) Q) \<Longrightarrow>
     returns (case v of None \<Rightarrow> m | Some x \<Rightarrow> f x) Q"
  by (cases v) simp_all

lemmas returns_rules = returns_throw returns_bind returns_seq returns_if returns_prod returns_option

end
