(* ===== verification/Protocol.thy ===== *)
theory Protocol
  imports Errors
begin

text \<open>
  \<open>packages/protocol/src\<close>: the records that cross component borders (\<open>types.ts\<close>), the tool
  envelope (\<open>envelope.ts\<close>), and the validators of tool arguments (\<open>validation.ts\<close>, \<open>keys.ts\<close>).
  A field that comes from the Emacs side without a check is a \<open>jval\<close>, \<open>JUndef\<close> when it is absent.
\<close>

subsection \<open>Records\<close>

text \<open>\<open>EmacsInstanceRecord\<close>: the fields discovery checks and the rest of the record as JSON.\<close>

record instance_record =
  ir_instance_id :: string
  ir_pid :: jnum
  ir_port :: jnum
  ir_token_file :: string
  ir_heartbeat_at :: string
  ir_json :: jval

record resolved_target =
  rt_frame_id :: jval
  rt_frame_title :: jval
  rt_native_window :: jval
  rt_window_id :: jval
  rt_buffer_id :: jval
  rt_file :: jval
  rt_project_root :: jval

text \<open>\<open>EmacsSession["target"]\<close>; \<open>JUndef\<close> is a property that is not set.\<close>

record session_target =
  st_frame_id :: jval
  st_frame_title :: jval
  st_native_window :: jval
  st_window_id :: jval
  st_buffer_id :: jval
  st_project_root :: jval
  st_file :: jval

record channel_caps =
  cc_semantic :: bool
  cc_internal_keys :: bool
  cc_native_keys :: bool

record session_capabilities =
  sc_channels :: channel_caps
  sc_features :: "(string \<times> jval) list"

text \<open>Times are the milliseconds of \<open>Date.now()\<close>; the source stores them as ISO strings.\<close>

record emacs_session =
  es_session_id :: string
  es_instance_id :: string
  es_default_channel :: string
  es_permission_profile :: string
  es_target :: session_target
  es_capabilities :: session_capabilities
  es_state_seq_at_open :: jnum
  es_created_at :: int
  es_last_used_at :: int
  es_lease_owner :: string

record mutation_precondition =
  mp_state_seq :: "jnum option"
  mp_buffer_id :: "string option"
  mp_buffer_tick :: "jnum option"
  mp_major_mode :: "string option"
  mp_frontmost_pid :: "jnum option"

record state_summary =
  ss_state_seq :: "jnum option"
  ss_buffer_tick :: "jnum option"
  ss_buffer_id :: "string option"
  ss_major_mode :: "string option"
  ss_point :: "jnum option"

definition empty_summary :: state_summary where
  "empty_summary = \<lparr>ss_state_seq = None, ss_buffer_tick = None, ss_buffer_id = None,
     ss_major_mode = None, ss_point = None\<rparr>"

record audit_entry =
  ae_audit_id :: string
  ae_request_id :: string
  ae_session_id :: "string option"
  ae_instance_id :: "string option"
  ae_timestamp :: int
  ae_tool :: string
  ae_mutation :: bool
  ae_ok :: bool
  ae_error_code :: "error_code option"
  ae_duration_ms :: int
  ae_state_before :: "state_summary option"
  ae_state_after :: "state_summary option"

subsection \<open>The tool envelope\<close>

record tool_success =
  ts_request_id :: string
  ts_session_id :: "string option"
  ts_state_before :: "state_summary option"
  ts_state_after :: "state_summary option"
  ts_result :: jval
  ts_warnings :: "string list"
  ts_audit_id :: string

record tool_failure =
  tf_request_id :: string
  tf_session_id :: "string option"
  tf_error :: operator_error
  tf_warnings :: "string list"
  tf_audit_id :: string

datatype tool_envelope = Success tool_success | Failure tool_failure

definition success_envelope ::
  "string \<Rightarrow> string \<Rightarrow> jval \<Rightarrow> string option \<Rightarrow> state_summary option \<Rightarrow> state_summary option \<Rightarrow>
   string list option \<Rightarrow> tool_envelope" where
  "success_envelope request_id audit_id result session_id state_before after warnings =
     Success \<lparr>ts_request_id = request_id, ts_session_id = session_id, ts_state_before = state_before,
       ts_state_after = after, ts_result = result,
       ts_warnings = (case warnings of None \<Rightarrow> [] | Some ws \<Rightarrow> ws), ts_audit_id = audit_id\<rparr>"

definition failure_envelope ::
  "string \<Rightarrow> string \<Rightarrow> exn \<Rightarrow> string option \<Rightarrow> string list option \<Rightarrow> tool_envelope" where
  "failure_envelope request_id audit_id err session_id warnings =
     Failure \<lparr>tf_request_id = request_id, tf_session_id = session_id,
       tf_error = as_operator_error err,
       tf_warnings = (case warnings of None \<Rightarrow> [] | Some ws \<Rightarrow> ws), tf_audit_id = audit_id\<rparr>"

fun env_ok :: "tool_envelope \<Rightarrow> bool" where
  "env_ok (Success e) = True"
| "env_ok (Failure e) = False"

fun env_request_id :: "tool_envelope \<Rightarrow> string" where
  "env_request_id (Success e) = ts_request_id e"
| "env_request_id (Failure e) = tf_request_id e"

fun env_audit_id :: "tool_envelope \<Rightarrow> string" where
  "env_audit_id (Success e) = ts_audit_id e"
| "env_audit_id (Failure e) = tf_audit_id e"

subsection \<open>\<open>validation.ts\<close>\<close>

definition assert_object :: "jval \<Rightarrow> string \<Rightarrow> exn + unit" where
  "assert_object v name =
     (if is_record v then Inr ()
      else Inl (op_error E_SCHEMA_VALIDATION (name @ '' must be an object.'')))"

definition required_string :: "jval \<Rightarrow> string \<Rightarrow> exn + string" where
  "required_string obj key =
     (case get_prop obj key of
        JStr s \<Rightarrow> if s = [] then Inl (op_error E_SCHEMA_VALIDATION (key @ '' must be a non-empty string.''))
                   else Inr s
      | _ \<Rightarrow> Inl (op_error E_SCHEMA_VALIDATION (key @ '' must be a non-empty string.'')))"

definition optional_string :: "jval \<Rightarrow> string \<Rightarrow> exn + string option" where
  "optional_string obj key =
     (case get_prop obj key of
        JUndef \<Rightarrow> Inr None
      | JStr s \<Rightarrow> Inr (Some s)
      | _ \<Rightarrow> Inl (op_error E_SCHEMA_VALIDATION (key @ '' must be a string.'')))"

definition optional_number :: "jval \<Rightarrow> string \<Rightarrow> exn + jnum option" where
  "optional_number obj key =
     (case get_prop obj key of
        JUndef \<Rightarrow> Inr None
      | JNum n \<Rightarrow> if is_finite_num n then Inr (Some n)
                   else Inl (op_error E_SCHEMA_VALIDATION (key @ '' must be a number.''))
      | _ \<Rightarrow> Inl (op_error E_SCHEMA_VALIDATION (key @ '' must be a number.'')))"

definition validate_precondition :: "jval \<Rightarrow> exn + mutation_precondition option" where
  "validate_precondition v =
     (if v = JUndef then Inr None
      else andthen (assert_object v ''precondition'') (\<lambda>_.
           andthen (optional_number v ''expected_state_seq'') (\<lambda>seq.
           andthen (optional_number v ''expected_buffer_tick'') (\<lambda>tick.
           andthen (optional_number v ''expected_frontmost_pid'') (\<lambda>pid.
           andthen (optional_string v ''expected_buffer_id'') (\<lambda>buf.
           andthen (optional_string v ''expected_major_mode'') (\<lambda>mode.
             Inr (Some \<lparr>mp_state_seq = seq, mp_buffer_id = buf, mp_buffer_tick = tick,
                    mp_major_mode = mode, mp_frontmost_pid = pid\<rparr>))))))))"

subsection \<open>\<open>keys.ts\<close>\<close>

definition key_modifiers :: "string list" where
  "key_modifiers = [''control'', ''meta'', ''shift'', ''super'', ''hyper'', ''alt'', ''command'',
     ''option'', ''fn'']"

definition key_event_kinds :: "string list" where
  "key_event_kinds = [''key_down'', ''key_up'', ''key_press'', ''text'']"

fun valid_modifiers :: "jval \<Rightarrow> bool" where
  "valid_modifiers (JArr xs) = list_all (\<lambda>x. case x of JStr s \<Rightarrow> s \<in> set key_modifiers | _ \<Rightarrow> False) xs"
| "valid_modifiers v = False"

definition validate_canonical_key_event :: "jval \<Rightarrow> exn + jval" where
  "validate_canonical_key_event v =
     (if \<not> is_objlike v then Inl (op_error E_SCHEMA_VALIDATION ''Key event must be an object.'')
      else if js_string (get_prop v ''kind'') \<notin> set key_event_kinds
      then Inl (op_error E_SCHEMA_VALIDATION ''Invalid key event kind.'')
      else if get_prop v ''kind'' = JStr ''text'' \<and> \<not> is_string (get_prop v ''text'')
      then Inl (op_error E_SCHEMA_VALIDATION ''Text key event requires text.'')
      else if get_prop v ''modifiers'' \<noteq> JUndef \<and> \<not> valid_modifiers (get_prop v ''modifiers'')
      then Inl (op_error E_SCHEMA_VALIDATION ''Invalid key modifiers.'')
      else Inr v)"

definition validate_key_step :: "nat \<Rightarrow> jval \<Rightarrow> exn + jval" where
  "validate_key_step i raw =
     (let pos = ''steps['' @ dec_str i @ '']''; kind = get_prop raw ''kind'' in
      if \<not> is_objlike raw then Inl (op_error E_SCHEMA_VALIDATION (pos @ '' must be an object.''))
      else if kind = JStr ''keys'' \<or> kind = JStr ''text''
      then if is_string (get_prop raw ''value'') then Inr raw
           else Inl (op_error E_SCHEMA_VALIDATION (pos @ ''.value must be a string.''))
      else if kind = JStr ''event''
      then andthen (validate_canonical_key_event (get_prop raw ''event'')) (\<lambda>_. Inr raw)
      else if kind = JStr ''expect''
      then if is_objlike (get_prop raw ''condition'') then Inr raw
           else Inl (op_error E_SCHEMA_VALIDATION (pos @ ''.condition must be an object.''))
      else Inl (op_error E_SCHEMA_VALIDATION (''Unsupported key step kind at index '' @ dec_str i @ ''.'')))"

fun map_steps :: "nat \<Rightarrow> jval list \<Rightarrow> exn + jval list" where
  "map_steps i [] = Inr []"
| "map_steps i (raw # rest) =
     andthen (validate_key_step i raw) (\<lambda>step.
     andthen (map_steps (Suc i) rest) (\<lambda>steps. Inr (step # steps)))"

definition validate_internal_key_steps :: "jval \<Rightarrow> exn + jval list" where
  "validate_internal_key_steps v =
     (case v of
        JArr xs \<Rightarrow> if xs = [] then Inl (op_error E_SCHEMA_VALIDATION ''steps must be a non-empty array.'')
                    else map_steps 0 xs
      | _ \<Rightarrow> Inl (op_error E_SCHEMA_VALIDATION ''steps must be a non-empty array.''))"

subsection \<open>Lemmas\<close>

lemma required_string_iff:
  "required_string obj key = Inr s \<longleftrightarrow> get_prop obj key = JStr s \<and> s \<noteq> []"
  by (auto simp: required_string_def split: jval.splits)

lemma validate_key_step_id: "validate_key_step i raw = Inr x \<Longrightarrow> x = raw"
  by (auto simp: validate_key_step_def Let_def andthen_eq_Inr split: if_splits)

lemma map_steps_id: "map_steps i xs = Inr ys \<Longrightarrow> ys = xs"
  by (induction xs arbitrary: i ys) (auto simp: andthen_eq_Inr dest: validate_key_step_id)

lemma validators_schema_error:
  "assert_object v name = Inl e \<Longrightarrow> exn_code e = E_SCHEMA_VALIDATION"
  "required_string obj key = Inl e \<Longrightarrow> exn_code e = E_SCHEMA_VALIDATION"
  "optional_string obj key = Inl e \<Longrightarrow> exn_code e = E_SCHEMA_VALIDATION"
  "optional_number obj key = Inl e \<Longrightarrow> exn_code e = E_SCHEMA_VALIDATION"
  by (auto simp: assert_object_def required_string_def optional_string_def optional_number_def
      split: jval.splits if_splits)

lemma validate_precondition_error:
  "validate_precondition v = Inl e \<Longrightarrow> exn_code e = E_SCHEMA_VALIDATION"
  by (auto simp: validate_precondition_def andthen_eq_Inl dest: validators_schema_error split: if_splits)

end
