(* ===== verification/Sessions.thy ===== *)
theory Sessions
  imports Protocol
begin

text \<open>
  \<open>packages/mcp-server/src/sessions/sessionManager.ts\<close>: sessions and the mutation lease. The manager
  keeps the open sessions by identifier and, per Emacs instance, the session that owns the lease.
  \<open>ttl\<close> is the constructor's \<open>ttlMs\<close>, \<open>now\<close> the clock in the call (read once per call; the source
  reads it again when it refreshes \<open>lastUsedAt\<close>). The identifier of a new session is an argument of
  \<open>sm_open\<close> (\<open>crypto.randomUUID\<close>).
\<close>

record session_manager =
  sm_sessions :: "(string, emacs_session) js_map"
  sm_owners :: "(string, string) js_map"

definition empty_manager :: session_manager where
  "empty_manager = \<lparr>sm_sessions = [], sm_owners = []\<rparr>"

record session_open_input =
  so_instance_id :: string
  so_default_channel :: string
  so_permission_profile :: string
  so_target :: resolved_target
  so_capabilities :: session_capabilities
  so_state_seq :: jnum
  so_lease_owner :: "string option"

subsection \<open>Operations\<close>

definition present :: "jval \<Rightarrow> jval" where
  "present v = (if v = JUndef \<or> v = JNull then JUndef else v)"

text \<open>The target of a session, from a resolved target: \<open>null\<close> and absent fields are not set.
  (\<open>frame_id\<close> and \<open>window_id\<close> are tested against \<open>undefined\<close> only.)\<close>

definition session_target_of :: "resolved_target \<Rightarrow> session_target" where
  "session_target_of t = \<lparr>st_frame_id = rt_frame_id t, st_frame_title = present (rt_frame_title t),
     st_native_window = present (rt_native_window t), st_window_id = rt_window_id t,
     st_buffer_id = rt_buffer_id t, st_project_root = present (rt_project_root t),
     st_file = present (rt_file t)\<rparr>"

definition sm_open :: "int \<Rightarrow> string \<Rightarrow> session_open_input \<Rightarrow> session_manager \<Rightarrow> emacs_session \<times> session_manager" where
  "sm_open now uuid input m =
     (let sid = ''ses_'' @ uuid;
          s = \<lparr>es_session_id = sid, es_instance_id = so_instance_id input,
               es_default_channel = so_default_channel input,
               es_permission_profile = so_permission_profile input,
               es_target = session_target_of (so_target input),
               es_capabilities = so_capabilities input,
               es_state_seq_at_open = so_state_seq input,
               es_created_at = now, es_last_used_at = now,
               es_lease_owner = (case so_lease_owner input of None \<Rightarrow> ''mcp-client'' | Some o' \<Rightarrow> o')\<rparr>
      in (s, m\<lparr>sm_sessions := AList.update sid s (sm_sessions m)\<rparr>))"

definition sm_close :: "string \<Rightarrow> session_manager \<Rightarrow> bool \<times> session_manager" where
  "sm_close sid m =
     (case map_of (sm_sessions m) sid of
        None \<Rightarrow> (False, m)
      | Some s \<Rightarrow>
          (True, \<lparr>sm_sessions = AList.delete sid (sm_sessions m),
                  sm_owners = (if map_of (sm_owners m) (es_instance_id s) = Some sid
                               then AList.delete (es_instance_id s) (sm_owners m)
                               else sm_owners m)\<rparr>))"

definition expired :: "int \<Rightarrow> int \<Rightarrow> emacs_session \<Rightarrow> bool" where
  "expired ttl now s \<longleftrightarrow> now - es_last_used_at s > ttl"

definition not_found :: "string \<Rightarrow> exn" where
  "not_found sid = op_error E_SESSION_NOT_FOUND (''Session '' @ sid @ '' does not exist.'')"

definition session_expired :: "string \<Rightarrow> exn" where
  "session_expired sid = op_error E_SESSION_EXPIRED (''Session '' @ sid @ '' expired.'')"

text \<open>\<open>requireMutable\<close>: the session in the table, its use recorded.\<close>

definition sm_require :: "int \<Rightarrow> int \<Rightarrow> string \<Rightarrow> session_manager \<Rightarrow> (exn + emacs_session) \<times> session_manager" where
  "sm_require ttl now sid m =
     (case map_of (sm_sessions m) sid of
        None \<Rightarrow> (Inl (not_found sid), m)
      | Some s \<Rightarrow>
          if expired ttl now s then (Inl (session_expired sid), snd (sm_close sid m))
          else let s' = s\<lparr>es_last_used_at := now\<rparr>
               in (Inr s', m\<lparr>sm_sessions := AList.update sid s' (sm_sessions m)\<rparr>))"

text \<open>\<open>get\<close> does the same and returns a copy.\<close>

definition sm_get :: "int \<Rightarrow> int \<Rightarrow> string \<Rightarrow> session_manager \<Rightarrow> (exn + emacs_session) \<times> session_manager" where
  "sm_get ttl now sid m =
     (case map_of (sm_sessions m) sid of
        None \<Rightarrow> (Inl (not_found sid), m)
      | Some s \<Rightarrow>
          if expired ttl now s then (Inl (session_expired sid), snd (sm_close sid m))
          else let s' = s\<lparr>es_last_used_at := now\<rparr>
               in (Inr s', m\<lparr>sm_sessions := AList.update sid s' (sm_sessions m)\<rparr>))"

definition sm_update_target ::
  "int \<Rightarrow> int \<Rightarrow> string \<Rightarrow> resolved_target \<Rightarrow> session_manager \<Rightarrow> (exn + emacs_session) \<times> session_manager" where
  "sm_update_target ttl now sid target m =
     (case sm_require ttl now sid m of
        (Inl e, m1) \<Rightarrow> (Inl e, m1)
      | (Inr s, m1) \<Rightarrow>
          let s' = s\<lparr>es_target := session_target_of target, es_last_used_at := now\<rparr>
          in (Inr s', m1\<lparr>sm_sessions := AList.update sid s' (sm_sessions m1)\<rparr>))"

definition mutation_locked :: "string \<Rightarrow> string \<Rightarrow> exn" where
  "mutation_locked inst owner =
     op_error_with E_MUTATION_LOCKED ''Another session owns the mutation lease for this Emacs instance.''
       [(''instance_id'', JStr inst), (''owner_session_id'', JStr owner)]"

definition sm_acquire :: "int \<Rightarrow> int \<Rightarrow> string \<Rightarrow> session_manager \<Rightarrow> (exn + unit) \<times> session_manager" where
  "sm_acquire ttl now sid m =
     (case sm_require ttl now sid m of
        (Inl e, m1) \<Rightarrow> (Inl e, m1)
      | (Inr s, m1) \<Rightarrow>
          (case map_of (sm_owners m1) (es_instance_id s) of
             Some owner \<Rightarrow>
               if owner \<noteq> [] \<and> owner \<noteq> sid
               then (Inl (mutation_locked (es_instance_id s) owner), m1)
               else (Inr (), m1\<lparr>sm_owners := AList.update (es_instance_id s) sid (sm_owners m1)\<rparr>)
           | None \<Rightarrow> (Inr (), m1\<lparr>sm_owners := AList.update (es_instance_id s) sid (sm_owners m1)\<rparr>)))"

text \<open>\<open>pruneExpired\<close> closes the expired sessions in the order of the map.\<close>

definition sm_prune :: "int \<Rightarrow> int \<Rightarrow> session_manager \<Rightarrow> session_manager" where
  "sm_prune ttl now m =
     fold (\<lambda>sid m. snd (sm_close sid m))
       (map fst (filter (\<lambda>(sid, s). expired ttl now s) (sm_sessions m))) m"

definition sm_list :: "int \<Rightarrow> int \<Rightarrow> session_manager \<Rightarrow> emacs_session list \<times> session_manager" where
  "sm_list ttl now m = (let m1 = sm_prune ttl now m in (map snd (sm_sessions m1), m1))"

subsection \<open>The invariant\<close>

text \<open>
  Sessions are filed under their own identifier, and the owner of a lease is an open session of
  that very instance. \<open>sm_owners\<close> being a map, an instance has at most one owner.
\<close>

definition sm_ok :: "session_manager \<Rightarrow> bool" where
  "sm_ok m \<longleftrightarrow> js_map_ok (sm_sessions m) \<and> js_map_ok (sm_owners m) \<and>
     (\<forall>sid s. map_of (sm_sessions m) sid = Some s \<longrightarrow> es_session_id s = sid \<and> sid \<noteq> []) \<and>
     (\<forall>inst o'. map_of (sm_owners m) inst = Some o' \<longrightarrow>
        (\<exists>s. map_of (sm_sessions m) o' = Some s \<and> es_instance_id s = inst))"

lemma sm_ok_empty: "sm_ok empty_manager"
  by (simp add: sm_ok_def empty_manager_def)

lemma sm_ok_owner:
  "sm_ok m \<Longrightarrow> map_of (sm_owners m) inst = Some o' \<Longrightarrow>
     \<exists>s. map_of (sm_sessions m) o' = Some s \<and> es_instance_id s = inst"
  by (simp add: sm_ok_def)

lemma sm_ok_sid:
  "sm_ok m \<Longrightarrow> map_of (sm_sessions m) sid = Some s \<Longrightarrow> es_session_id s = sid \<and> sid \<noteq> []"
  by (simp add: sm_ok_def)

lemma sm_okI:
  assumes "js_map_ok (sm_sessions m)" "js_map_ok (sm_owners m)"
    and "\<And>sid s. map_of (sm_sessions m) sid = Some s \<Longrightarrow> es_session_id s = sid \<and> sid \<noteq> []"
    and "\<And>inst o'. map_of (sm_owners m) inst = Some o' \<Longrightarrow>
      \<exists>s. map_of (sm_sessions m) o' = Some s \<and> es_instance_id s = inst"
  shows "sm_ok m"
  using assms by (simp add: sm_ok_def)

lemma sm_close_sel [simp]:
  "map_of (sm_sessions (snd (sm_close sid m))) = (map_of (sm_sessions m))(sid := None)"
  by (cases "map_of (sm_sessions m) sid") (auto simp: sm_close_def fun_upd_idem)

lemma sm_owner_instance:
  "sm_ok m \<Longrightarrow> map_of (sm_owners m) inst = Some sid \<Longrightarrow> map_of (sm_sessions m) sid = Some s \<Longrightarrow>
     es_instance_id s = inst"
  using sm_ok_owner by fastforce

lemma sm_close_owner:
  assumes ok: "sm_ok m"
  shows "map_of (sm_owners (snd (sm_close sid m))) inst =
    (if map_of (sm_owners m) inst = Some sid then None else map_of (sm_owners m) inst)"
proof (cases "map_of (sm_sessions m) sid")
  case None
  then have "\<not> map_of (sm_owners m) inst = Some sid"
    using sm_ok_owner [OF ok, of inst sid] by (metis option.distinct(1))
  then have "(if map_of (sm_owners m) inst = Some sid then None else map_of (sm_owners m) inst)
    = map_of (sm_owners m) inst"
    by (rule if_not_P)
  then show ?thesis by (simp only: sm_close_def None option.case snd_conv)
next
  case (Some s)
  show ?thesis
  proof (cases "map_of (sm_owners m) inst = Some sid")
    case True
    then have "es_instance_id s = inst" by (rule sm_owner_instance [OF ok _ Some])
    with True Some show ?thesis by (simp add: sm_close_def)
  next
    case False
    with Some show ?thesis by (cases "es_instance_id s = inst") (simp_all add: sm_close_def)
  qed
qed

lemma sm_ok_close:
  assumes "sm_ok m"
  shows "sm_ok (snd (sm_close sid m))"
proof (rule sm_okI)
  show "js_map_ok (sm_sessions (snd (sm_close sid m)))" "js_map_ok (sm_owners (snd (sm_close sid m)))"
    using assms by (auto simp: sm_ok_def sm_close_def split: option.splits)
  show "es_session_id s = sid' \<and> sid' \<noteq> []"
    if "map_of (sm_sessions (snd (sm_close sid m))) sid' = Some s" for sid' s
    using that sm_ok_sid [OF assms] by (simp split: if_splits)
  show "\<exists>s. map_of (sm_sessions (snd (sm_close sid m))) o' = Some s \<and> es_instance_id s = inst"
    if "map_of (sm_owners (snd (sm_close sid m))) inst = Some o'" for inst o'
    using that sm_ok_owner [OF assms] by (auto simp: sm_close_owner [OF assms] split: if_splits)
qed

lemma sm_ok_update_session:
  assumes "sm_ok m" "map_of (sm_sessions m) sid = Some s"
    and "es_session_id s' = sid" "es_instance_id s' = es_instance_id s"
  shows "sm_ok (m\<lparr>sm_sessions := AList.update sid s' (sm_sessions m)\<rparr>)"
proof (rule sm_okI)
  show "\<exists>s0. map_of (sm_sessions (m\<lparr>sm_sessions := AList.update sid s' (sm_sessions m)\<rparr>)) o' = Some s0
      \<and> es_instance_id s0 = inst"
    if "map_of (sm_owners (m\<lparr>sm_sessions := AList.update sid s' (sm_sessions m)\<rparr>)) inst = Some o'" for inst o'
    using that sm_ok_owner [OF assms(1)] assms(2,4) by fastforce
qed (use assms in \<open>auto simp: sm_ok_def split: if_splits\<close>)

lemma sm_ok_set_owner:
  assumes "sm_ok m" "map_of (sm_sessions m) sid = Some s"
  shows "sm_ok (m\<lparr>sm_owners := AList.update (es_instance_id s) sid (sm_owners m)\<rparr>)"
proof (rule sm_okI)
  show "\<exists>s0. map_of (sm_sessions (m\<lparr>sm_owners := AList.update (es_instance_id s) sid (sm_owners m)\<rparr>)) o' = Some s0
      \<and> es_instance_id s0 = inst"
    if "map_of (sm_owners (m\<lparr>sm_owners := AList.update (es_instance_id s) sid (sm_owners m)\<rparr>)) inst = Some o'"
    for inst o'
    using that sm_ok_owner [OF assms(1)] assms(2) by (auto split: if_splits)
qed (use assms in \<open>auto simp: sm_ok_def\<close>)

lemma sm_require_Inr:
  "sm_require ttl now sid m = (Inr s, m') \<Longrightarrow>
     (\<exists>s0. map_of (sm_sessions m) sid = Some s0 \<and> \<not> expired ttl now s0 \<and> s = s0\<lparr>es_last_used_at := now\<rparr> \<and>
        m' = m\<lparr>sm_sessions := AList.update sid s (sm_sessions m)\<rparr>)"
  by (auto simp: sm_require_def Let_def split: option.splits if_splits)

lemma sm_get_eq_require: "sm_get = sm_require"
  by (intro ext) (simp add: sm_get_def sm_require_def)

lemma sm_require_Inl:
  "sm_require ttl now sid m = (Inl e, m') \<Longrightarrow> m' = m \<or> m' = snd (sm_close sid m)"
  by (auto simp: sm_require_def Let_def split: option.splits if_splits)

lemma sm_ok_require:
  assumes ok: "sm_ok m"
  shows "sm_ok (snd (sm_require ttl now sid m))"
proof (cases "map_of (sm_sessions m) sid")
  case None
  with ok show ?thesis by (simp add: sm_require_def)
next
  case (Some s)
  have "sm_ok (m\<lparr>sm_sessions := AList.update sid (s\<lparr>es_last_used_at := now\<rparr>) (sm_sessions m)\<rparr>)"
    using ok Some by (rule sm_ok_update_session) (use sm_ok_sid [OF ok Some] in simp_all)
  with Some show ?thesis by (simp add: sm_require_def Let_def sm_ok_close [OF ok])
qed

lemma sm_ok_get: "sm_ok m \<Longrightarrow> sm_ok (snd (sm_get ttl now sid m))"
  by (simp add: sm_get_eq_require sm_ok_require)

lemma sm_require_found:
  "sm_ok m \<Longrightarrow> sm_require ttl now sid m = (Inr s, m') \<Longrightarrow>
     sm_ok m' \<and> map_of (sm_sessions m') sid = Some s \<and> es_session_id s = sid \<and> sm_owners m' = sm_owners m"
  using sm_ok_require [of m ttl now sid] by (auto dest!: sm_require_Inr simp: sm_ok_sid)

lemma sm_ok_update_target:
  assumes ok: "sm_ok m"
  shows "sm_ok (snd (sm_update_target ttl now sid t m))"
proof (cases "sm_require ttl now sid m")
  case (Pair r m1)
  show ?thesis
  proof (cases r)
    case (Inl e)
    with Pair sm_ok_require [OF ok, of ttl now sid] show ?thesis by (simp add: sm_update_target_def)
  next
    case (Inr s)
    with Pair sm_require_found [OF ok] have found: "sm_ok m1" "map_of (sm_sessions m1) sid = Some s"
      "es_session_id s = sid"
      by auto
    have "sm_ok (m1\<lparr>sm_sessions := AList.update sid
        (s\<lparr>es_target := session_target_of t, es_last_used_at := now\<rparr>) (sm_sessions m1)\<rparr>)"
      using found(1,2) by (rule sm_ok_update_session) (use found(3) in simp_all)
    with Pair Inr show ?thesis by (simp add: sm_update_target_def Let_def)
  qed
qed

lemma sm_ok_acquire:
  assumes ok: "sm_ok m"
  shows "sm_ok (snd (sm_acquire ttl now sid m))"
proof (cases "sm_require ttl now sid m")
  case (Pair r m1)
  show ?thesis
  proof (cases r)
    case (Inl e)
    with Pair sm_ok_require [OF ok, of ttl now sid] show ?thesis by (simp add: sm_acquire_def)
  next
    case (Inr s)
    with Pair sm_require_found [OF ok] have found: "sm_ok m1" "map_of (sm_sessions m1) sid = Some s"
      by auto
    show ?thesis
      using found sm_ok_set_owner [OF found] by (simp add: sm_acquire_def Pair Inr split: option.split)
  qed
qed

lemma sm_ok_prune: "sm_ok m \<Longrightarrow> sm_ok (sm_prune ttl now m)"
proof -
  have "sm_ok m \<Longrightarrow> sm_ok (fold (\<lambda>sid m. snd (sm_close sid m)) sids m)" for sids m
    by (induction sids arbitrary: m) (auto intro: sm_ok_close)
  then show "sm_ok m \<Longrightarrow> sm_ok (sm_prune ttl now m)" by (simp add: sm_prune_def)
qed

lemma sm_ok_list: "sm_ok m \<Longrightarrow> sm_ok (snd (sm_list ttl now m))"
  by (simp add: sm_list_def Let_def sm_ok_prune)

lemma sm_ok_open:
  assumes "sm_ok m" "map_of (sm_sessions m) (''ses_'' @ uuid) = None"
  shows "sm_ok (snd (sm_open now uuid input m))"
proof (rule sm_okI)
  show "\<exists>s. map_of (sm_sessions (snd (sm_open now uuid input m))) o' = Some s \<and> es_instance_id s = inst"
    if "map_of (sm_owners (snd (sm_open now uuid input m))) inst = Some o'" for inst o'
    using that sm_ok_owner [OF assms(1)] assms(2) by (fastforce simp: sm_open_def Let_def)
qed (use assms in \<open>auto simp: sm_ok_def sm_open_def Let_def split: if_splits\<close>)

lemmas sm_ok_intros = sm_ok_empty sm_ok_open sm_ok_close sm_ok_get sm_ok_require sm_ok_update_target
  sm_ok_acquire sm_ok_list sm_ok_prune


subsection \<open>Leases over runs\<close>

text \<open>
  The contract of a lease: whoever owns it keeps it over every step, until it is no longer open.
  Identifiers that were closed are not opened again.
\<close>

locale lease_contract =
  fixes step :: "'s \<Rightarrow> 's \<Rightarrow> bool"
    and ok :: "'s \<Rightarrow> bool"
    and owner :: "'s \<Rightarrow> 'i \<Rightarrow> 'h option"
    and is_open :: "'s \<Rightarrow> 'h \<Rightarrow> bool"
    and retired :: "'s \<Rightarrow> 'h \<Rightarrow> bool"
  assumes ok_step: "ok s \<Longrightarrow> step s s' \<Longrightarrow> ok s'"
    and owner_step: "ok s \<Longrightarrow> step s s' \<Longrightarrow> owner s i = Some h \<Longrightarrow> owner s' i = Some h \<or> retired s' h"
    and retired_step: "ok s \<Longrightarrow> step s s' \<Longrightarrow> retired s h \<Longrightarrow> retired s' h"
    and retired_closed: "retired s h \<Longrightarrow> \<not> is_open s h"
begin

lemma ok_run: "step\<^sup>*\<^sup>* s s' \<Longrightarrow> ok s \<Longrightarrow> ok s'"
  by (induction rule: rtranclp_induct) (auto intro: ok_step)

lemma owner_run:
  "step\<^sup>*\<^sup>* s s' \<Longrightarrow> ok s \<Longrightarrow> owner s i = Some h \<Longrightarrow> owner s' i = Some h \<or> retired s' h"
proof (induction rule: rtranclp_induct)
  case base
  then show ?case by simp
next
  case (step s1 s2)
  from step.hyps(1) step.prems(1) have ok1: "ok s1" by (rule ok_run)
  from step.IH [OF step.prems] show ?case
  proof
    assume "owner s1 i = Some h"
    then show ?thesis by (rule owner_step [OF ok1 step.hyps(2)])
  next
    assume "retired s1 h"
    then have "retired s2 h" by (rule retired_step [OF ok1 step.hyps(2)])
    then show ?thesis ..
  qed
qed

lemma owner_while_open: "step\<^sup>*\<^sup>* s s' \<Longrightarrow> ok s \<Longrightarrow> owner s i = Some h \<Longrightarrow> is_open s' h \<Longrightarrow> owner s' i = Some h"
  using owner_run retired_closed by blast

end

text \<open>
  The steps of the manager: any operation at any time, with the identifiers used so far, since
  \<open>crypto.randomUUID\<close> gives a new one to every session.
\<close>

type_synonym manager_state = "session_manager \<times> string set"

inductive sm_step :: "int \<Rightarrow> manager_state \<Rightarrow> manager_state \<Rightarrow> bool" for ttl :: int where
  step_open: "''ses_'' @ uuid \<notin> used \<Longrightarrow>
     sm_step ttl (m, used) (snd (sm_open now uuid input m), insert (''ses_'' @ uuid) used)"
| step_get: "sm_step ttl (m, used) (snd (sm_get ttl now sid m), used)"
| step_update: "sm_step ttl (m, used) (snd (sm_update_target ttl now sid target m), used)"
| step_acquire: "sm_step ttl (m, used) (snd (sm_acquire ttl now sid m), used)"
| step_close: "sm_step ttl (m, used) (snd (sm_close sid m), used)"
| step_list: "sm_step ttl (m, used) (snd (sm_list ttl now m), used)"

definition manager_ok :: "manager_state \<Rightarrow> bool" where
  "manager_ok st \<longleftrightarrow> sm_ok (fst st) \<and> dom (map_of (sm_sessions (fst st))) \<subseteq> snd st"

definition sm_reachable :: "int \<Rightarrow> manager_state \<Rightarrow> bool" where
  "sm_reachable ttl st \<longleftrightarrow> (sm_step ttl)\<^sup>*\<^sup>* (empty_manager, {}) st"

text \<open>No operation but \<open>sm_open\<close> adds a session.\<close>

lemma sm_require_dom:
  "dom (map_of (sm_sessions (snd (sm_require ttl now sid m)))) \<subseteq> dom (map_of (sm_sessions m))"
  by (auto simp: sm_require_def Let_def split: option.splits)

lemma sm_update_target_dom:
  "dom (map_of (sm_sessions (snd (sm_update_target ttl now sid t m)))) \<subseteq> dom (map_of (sm_sessions m))"
proof (cases "sm_require ttl now sid m")
  case (Pair r m1)
  with sm_require_dom [of ttl now sid m] sm_require_Inr [of ttl now sid m] show ?thesis
    by (cases r) (auto simp: sm_update_target_def Let_def)
qed

lemma sm_acquire_dom:
  "dom (map_of (sm_sessions (snd (sm_acquire ttl now sid m)))) \<subseteq> dom (map_of (sm_sessions m))"
proof (cases "sm_require ttl now sid m")
  case (Pair r m1)
  with sm_require_dom [of ttl now sid m] show ?thesis
    by (cases r) (auto simp: sm_acquire_def split: option.splits)
qed

lemma sm_close_dom:
  "dom (map_of (sm_sessions (snd (sm_close sid m)))) \<subseteq> dom (map_of (sm_sessions m))"
  by auto

lemma sm_prune_dom:
  "dom (map_of (sm_sessions (sm_prune ttl now m))) \<subseteq> dom (map_of (sm_sessions m))"
proof -
  have "dom (map_of (sm_sessions (fold (\<lambda>sid m. snd (sm_close sid m)) sids m))) \<subseteq> dom (map_of (sm_sessions m))"
    for sids
  proof (induction sids arbitrary: m)
    case (Cons a sids)
    have "dom (map_of (sm_sessions (fold (\<lambda>sid m. snd (sm_close sid m)) sids (snd (sm_close a m)))))
      \<subseteq> dom (map_of (sm_sessions (snd (sm_close a m))))"
      by (rule Cons.IH)
    also have "\<dots> \<subseteq> dom (map_of (sm_sessions m))" by (rule sm_close_dom)
    finally show ?case by simp
  qed simp
  then show ?thesis by (simp add: sm_prune_def)
qed

text \<open>An owner changes only by closing the owner.\<close>

lemma sm_close_keeps_owner:
  "sm_ok m \<Longrightarrow> map_of (sm_owners m) inst = Some h \<Longrightarrow>
     map_of (sm_owners (snd (sm_close sid m))) inst = Some h \<or>
     map_of (sm_sessions (snd (sm_close sid m))) h = None"
  by (simp add: sm_close_owner)

lemma sm_require_keeps_owner:
  assumes "sm_ok m" "map_of (sm_owners m) inst = Some h"
  shows "map_of (sm_owners (snd (sm_require ttl now sid m))) inst = Some h \<or>
     map_of (sm_sessions (snd (sm_require ttl now sid m))) h = None"
proof (cases "map_of (sm_sessions m) sid")
  case None
  show ?thesis by (simp add: sm_require_def None assms(2))
next
  case (Some s)
  show ?thesis
  proof (cases "expired ttl now s")
    case True
    show ?thesis using sm_close_keeps_owner [OF assms, of sid]
      by (simp only: sm_require_def Some True option.case if_True snd_conv)
  next
    case False
    show ?thesis by (simp add: sm_require_def Some False Let_def assms(2))
  qed
qed

lemma sm_update_target_keeps_owner:
  assumes "sm_ok m" "map_of (sm_owners m) inst = Some h"
  shows "map_of (sm_owners (snd (sm_update_target ttl now sid t m))) inst = Some h \<or>
     map_of (sm_sessions (snd (sm_update_target ttl now sid t m))) h = None"
proof (cases "sm_require ttl now sid m")
  case (Pair r m1)
  with sm_require_keeps_owner [OF assms, of ttl now sid] sm_require_found [OF assms(1)] assms(2)
  show ?thesis by (cases r) (auto simp: sm_update_target_def Let_def)
qed

lemma sm_acquire_keeps_owner:
  assumes "sm_ok m" "map_of (sm_owners m) inst = Some h"
  shows "map_of (sm_owners (snd (sm_acquire ttl now sid m))) inst = Some h \<or>
     map_of (sm_sessions (snd (sm_acquire ttl now sid m))) h = None"
proof (cases "sm_require ttl now sid m")
  case (Pair r m1)
  show ?thesis
  proof (cases r)
    case (Inl e)
    with Pair sm_require_keeps_owner [OF assms, of ttl now sid] show ?thesis
      by (simp add: sm_acquire_def)
  next
    case (Inr s)
    with Pair sm_require_found [OF assms(1)] have own: "sm_owners m1 = sm_owners m" and ok: "sm_ok m1"
      by auto
    have "h \<noteq> []" using sm_ok_owner [OF assms] sm_ok_sid [OF assms(1)] by blast
    then show ?thesis using assms(2) own
      by (cases "es_instance_id s = inst") (auto simp: sm_acquire_def Pair Inr split: option.split)
  qed
qed

lemma sm_prune_keeps_owner:
  assumes "sm_ok m" "map_of (sm_owners m) inst = Some h"
  shows "map_of (sm_owners (sm_prune ttl now m)) inst = Some h \<or>
     map_of (sm_sessions (sm_prune ttl now m)) h = None"
proof -
  let ?f = "fold (\<lambda>sid m. snd (sm_close sid m))"
  have gone: "map_of (sm_sessions m) h = None \<Longrightarrow> map_of (sm_sessions (?f sids m)) h = None" for sids m
    by (induction sids arbitrary: m) auto
  have "sm_ok m \<Longrightarrow> map_of (sm_owners m) inst = Some h \<Longrightarrow>
      map_of (sm_owners (?f sids m)) inst = Some h \<or> map_of (sm_sessions (?f sids m)) h = None" for sids m
  proof (induction sids arbitrary: m)
    case (Cons a sids)
    from sm_close_keeps_owner [OF Cons.prems, of a] show ?case
      using Cons.IH [OF sm_ok_close [OF Cons.prems(1)], of a] gone by auto
  qed simp
  with assms show ?thesis by (simp add: sm_prune_def)
qed

lemma manager_ok_step:
  assumes "manager_ok st" "sm_step ttl st st'"
  shows "manager_ok st'"
proof -
  obtain m used where st: "st = (m, used)" by (cases st)
  have ok: "sm_ok m" and dom: "dom (map_of (sm_sessions m)) \<subseteq> used"
    using assms(1) by (simp_all add: st manager_ok_def)
  have sub: "sm_ok m' \<Longrightarrow> dom (map_of (sm_sessions m')) \<subseteq> dom (map_of (sm_sessions m)) \<Longrightarrow> manager_ok (m', used)"
    for m' using dom by (auto simp: manager_ok_def)
  have "sm_step ttl (m, used) st'" using assms(2) st by simp
  then show ?thesis
  proof (cases rule: sm_step.cases)
    case (step_open uuid now input)
    with dom have new: "map_of (sm_sessions m) (''ses_'' @ uuid) = None" by blast
    have "dom (map_of (sm_sessions (snd (sm_open now uuid input m)))) =
        insert (''ses_'' @ uuid) (dom (map_of (sm_sessions m)))"
      by (simp add: sm_open_def Let_def)
    with dom show ?thesis unfolding step_open(1) manager_ok_def fst_conv snd_conv
      by (intro conjI sm_ok_open ok new) blast
  next
    case (step_get now sid)
    show ?thesis unfolding step_get(1) sm_get_eq_require by (intro sub sm_ok_require ok sm_require_dom)
  next
    case (step_update now sid target)
    show ?thesis unfolding step_update(1) by (intro sub sm_ok_update_target ok sm_update_target_dom)
  next
    case (step_acquire now sid)
    show ?thesis unfolding step_acquire(1) by (intro sub sm_ok_acquire ok sm_acquire_dom)
  next
    case (step_close sid)
    show ?thesis unfolding step_close(1) by (intro sub sm_ok_close ok sm_close_dom)
  next
    case (step_list now)
    show ?thesis unfolding step_list(1) sm_list_def Let_def snd_conv by (intro sub sm_ok_prune ok sm_prune_dom)
  qed
qed

definition lease_owner_of :: "manager_state \<Rightarrow> string \<Rightarrow> string option" where
  "lease_owner_of st inst = map_of (sm_owners (fst st)) inst"

definition session_open_in :: "manager_state \<Rightarrow> string \<Rightarrow> bool" where
  "session_open_in st sid \<longleftrightarrow> map_of (sm_sessions (fst st)) sid \<noteq> None"

definition session_retired :: "manager_state \<Rightarrow> string \<Rightarrow> bool" where
  "session_retired st sid \<longleftrightarrow> sid \<in> snd st \<and> map_of (sm_sessions (fst st)) sid = None"

lemma owner_step_manager:
  assumes "manager_ok st" "sm_step ttl st st'" "lease_owner_of st inst = Some h"
  shows "lease_owner_of st' inst = Some h \<or> session_retired st' h"
proof -
  obtain m used where st: "st = (m, used)" by (cases st)
  have ok: "sm_ok m" and own: "map_of (sm_owners m) inst = Some h"
    using assms(1,3) by (auto simp: st manager_ok_def lease_owner_of_def)
  have used: "h \<in> used"
    using sm_ok_owner [OF ok own] assms(1) by (auto simp: st manager_ok_def)
  note keeps = sm_require_keeps_owner [OF ok own] sm_update_target_keeps_owner [OF ok own]
    sm_acquire_keeps_owner [OF ok own] sm_close_keeps_owner [OF ok own] sm_prune_keeps_owner [OF ok own]
  have keep: "map_of (sm_owners m') inst = Some h \<or> map_of (sm_sessions m') h = None \<Longrightarrow>
      lease_owner_of (m', used) inst = Some h \<or> session_retired (m', used) h" for m'
    using used by (simp add: lease_owner_of_def session_retired_def)
  have "sm_step ttl (m, used) st'" using assms(2) st by simp
  then show ?thesis
  proof (cases rule: sm_step.cases)
    case (step_open uuid now input)
    then show ?thesis using own by (simp add: lease_owner_of_def sm_open_def Let_def)
  next
    case (step_get now sid)
    show ?thesis unfolding step_get(1) sm_get_eq_require by (rule keep) (rule keeps)
  next
    case (step_update now sid target)
    show ?thesis unfolding step_update(1) by (rule keep) (rule keeps)
  next
    case (step_acquire now sid)
    show ?thesis unfolding step_acquire(1) by (rule keep) (rule keeps)
  next
    case (step_close sid)
    show ?thesis unfolding step_close(1) by (rule keep) (rule keeps)
  next
    case (step_list now)
    show ?thesis unfolding step_list(1) sm_list_def Let_def snd_conv by (rule keep) (rule keeps)
  qed
qed

lemma retired_step_manager:
  assumes "sm_step ttl st st'" "session_retired st h"
  shows "session_retired st' h"
proof -
  obtain m used where st: "st = (m, used)" by (cases st)
  with assms(2) have h: "h \<in> used" "map_of (sm_sessions m) h = None"
    by (auto simp: session_retired_def)
  have sub: "dom (map_of (sm_sessions m')) \<subseteq> dom (map_of (sm_sessions m)) \<Longrightarrow> session_retired (m', used) h"
    for m' using h by (auto simp: session_retired_def)
  have "sm_step ttl (m, used) st'" using assms(1) st by simp
  then show ?thesis
  proof (cases rule: sm_step.cases)
    case (step_open uuid now input)
    then show ?thesis using h by (auto simp: session_retired_def sm_open_def Let_def)
  next
    case (step_get now sid)
    show ?thesis unfolding step_get(1) sm_get_eq_require by (rule sub) (rule sm_require_dom)
  next
    case (step_update now sid target)
    show ?thesis unfolding step_update(1) by (rule sub) (rule sm_update_target_dom)
  next
    case (step_acquire now sid)
    show ?thesis unfolding step_acquire(1) by (rule sub) (rule sm_acquire_dom)
  next
    case (step_close sid)
    show ?thesis unfolding step_close(1) by (rule sub) (rule sm_close_dom)
  next
    case (step_list now)
    show ?thesis unfolding step_list(1) sm_list_def Let_def snd_conv by (rule sub) (rule sm_prune_dom)
  qed
qed

lemma retired_not_open: "session_retired st h \<Longrightarrow> \<not> session_open_in st h"
  by (simp add: session_retired_def session_open_in_def)

interpretation lease: lease_contract "sm_step ttl" manager_ok lease_owner_of session_open_in session_retired
  for ttl
  by unfold_locales
    (rule manager_ok_step owner_step_manager retired_step_manager retired_not_open; assumption)+

lemma manager_ok_reachable:
  assumes "sm_reachable ttl st"
  shows "manager_ok st"
proof -
  have "manager_ok (empty_manager, {})"
    by (simp add: manager_ok_def sm_ok_empty) (simp add: empty_manager_def)
  with assms show ?thesis unfolding sm_reachable_def by (rule lease.ok_run)
qed

lemma sm_acquire_Inr:
  assumes "sm_acquire ttl now sid m = (Inr (), m')"
  shows "\<exists>inst. map_of (sm_owners m') inst = Some sid"
proof -
  obtain s m1 where "sm_require ttl now sid m = (Inr s, m1)"
    using assms by (auto simp: sm_acquire_def split: prod.splits sum.splits)
  with assms have "map_of (sm_owners m') (es_instance_id s) = Some sid"
    by (auto simp: sm_acquire_def split: option.splits if_splits)
  then show ?thesis ..
qed

lemma fold_close_sessions:
  "map_of (sm_sessions (fold (\<lambda>sid m. snd (sm_close sid m)) sids m)) =
     (\<lambda>k. if k \<in> set sids then None else map_of (sm_sessions m) k)"
  by (induction sids arbitrary: m) (auto simp: fun_eq_iff)

lemma sm_prune_sessions:
  assumes "sm_ok m"
  shows "map_of (sm_sessions (sm_prune ttl now m)) k =
    (case map_of (sm_sessions m) k of
       Some s \<Rightarrow> if expired ttl now s then None else Some s | None \<Rightarrow> None)"
proof -
  have d: "js_map_ok (sm_sessions m)" using assms by (simp add: sm_ok_def)
  have "k \<in> set (map fst (filter (\<lambda>(sid, s). expired ttl now s) (sm_sessions m))) \<longleftrightarrow>
      (\<exists>s. map_of (sm_sessions m) k = Some s \<and> expired ttl now s)"
    using d by (force simp: js_map_ok_def dest: map_of_SomeD)
  then show ?thesis
    unfolding sm_prune_def fold_close_sessions by (auto split: option.splits)
qed

lemma sm_prune_owners_subset:
  assumes "sm_ok m" "map_of (sm_owners (sm_prune ttl now m)) inst = Some c"
  shows "map_of (sm_owners m) inst = Some c"
proof -
  have "sm_ok m \<Longrightarrow> map_of (sm_owners (fold (\<lambda>sid m. snd (sm_close sid m)) sids m)) inst = Some c \<Longrightarrow>
      map_of (sm_owners m) inst = Some c" for sids m
  proof (induction sids arbitrary: m)
    case (Cons a sids)
    from Cons.IH [OF sm_ok_close [OF Cons.prems(1)], of a] Cons.prems(2)
    have "map_of (sm_owners (snd (sm_close a m))) inst = Some c" by simp
    then show ?case
      unfolding sm_close_owner [OF Cons.prems(1)] by (cases "map_of (sm_owners m) inst = Some a") simp_all
  qed simp
  with assms show ?thesis unfolding sm_prune_def by blast
qed

subsection \<open>Properties\<close>

text \<open>
  C14: in every state the manager can reach by any sequence of open, get, update, acquire, close and
  list calls at any times, each session is filed under its own identifier, and whoever owns the
  mutation lease of an instance is an open session of that very instance: no lease dangles.
\<close>

theorem lease_owner_is_open:
  assumes "sm_reachable ttl (m, used)" "map_of (sm_owners m) inst = Some sid"
  shows "\<exists>s. map_of (sm_sessions m) sid = Some s \<and> es_session_id s = sid \<and> es_instance_id s = inst"
proof -
  have ok: "sm_ok m" using manager_ok_reachable [OF assms(1)] by (simp add: manager_ok_def)
  with sm_ok_owner [OF ok assms(2)] sm_ok_sid [OF ok] show ?thesis by blast
qed

text \<open>Two sessions on the instance \<open>i\<close>, to run examples with; the first acquires the lease.\<close>

definition example_input :: session_open_input where
  "example_input = \<lparr>so_instance_id = ''i'', so_default_channel = ''semantic'',
     so_permission_profile = ''workspace_edit'',
     so_target = \<lparr>rt_frame_id = JUndef, rt_frame_title = JNull, rt_native_window = JUndef,
       rt_window_id = JUndef, rt_buffer_id = JStr ''b'', rt_file = JNull, rt_project_root = JNull\<rparr>,
     so_capabilities = \<lparr>sc_channels = \<lparr>cc_semantic = True, cc_internal_keys = False, cc_native_keys = False\<rparr>,
       sc_features = []\<rparr>,
     so_state_seq = Fin 1, so_lease_owner = None\<rparr>"

definition example_two_sessions :: session_manager where
  "example_two_sessions =
     snd (sm_open 0 ''2'' example_input (snd (sm_open 0 ''1'' example_input empty_manager)))"

definition example_leased :: session_manager where
  "example_leased = snd (sm_acquire 100 50 ''ses_1'' example_two_sessions)"

lemma example_two_reachable: "sm_reachable 100 (example_two_sessions, {''ses_1'', ''ses_2''})"
proof -
  have 1: "sm_step 100 (empty_manager, {}) (snd (sm_open 0 ''1'' example_input empty_manager), {''ses_1''})"
    using step_open [of "''1''" "{}" 100 empty_manager 0 example_input] by simp
  have 2: "sm_step 100 (snd (sm_open 0 ''1'' example_input empty_manager), {''ses_1''})
      (example_two_sessions, {''ses_1'', ''ses_2''})"
    using step_open [of "''2''" "{''ses_1''}" 100 "snd (sm_open 0 ''1'' example_input empty_manager)" 0 example_input]
    by (simp add: example_two_sessions_def insert_commute)
  show ?thesis unfolding sm_reachable_def
    using 1 2 by (meson converse_rtranclp_into_rtranclp rtranclp.rtrancl_refl)
qed

lemma example_leased_step:
  "sm_step 100 (example_two_sessions, {''ses_1'', ''ses_2''}) (example_leased, {''ses_1'', ''ses_2''})"
  unfolding example_leased_def by (rule step_acquire)

lemma example_leased_reachable: "sm_reachable 100 (example_leased, {''ses_1'', ''ses_2''})"
  using example_two_reachable example_leased_step unfolding sm_reachable_def
  by (rule rtranclp.rtrancl_into_rtrancl)

lemmas example_run_simps = example_leased_def example_two_sessions_def example_input_def empty_manager_def
  sm_open_def sm_acquire_def sm_require_def expired_def Let_def

lemma lease_owner_is_open_witness:
  "\<exists>s. map_of (sm_sessions example_leased) ''ses_1'' = Some s \<and> es_session_id s = ''ses_1'' \<and>
     es_instance_id s = ''i''"
proof (rule lease_owner_is_open [OF example_leased_reachable])
  show "map_of (sm_owners example_leased) ''i'' = Some ''ses_1''" by (simp add: example_run_simps)
qed

text \<open>
  C5: mutual exclusion. Once a session has acquired the mutation lease of its instance, then after
  any further sequence of manager calls, as long as that session is still open, an acquire by any
  other live session of the same instance is refused with \<open>E_MUTATION_LOCKED\<close> naming the owner,
  and the owner is unchanged.
\<close>

theorem lease_exclusive:
  assumes "sm_reachable ttl (m, used)"
    and "sm_acquire ttl now1 a m = (Inr (), m1)"
    and "(sm_step ttl)\<^sup>*\<^sup>* (m1, used) (m2, used2)"
    and "map_of (sm_sessions m2) a = Some sa"
    and "map_of (sm_sessions m2) b = Some sb"
    and "es_instance_id sb = es_instance_id sa" "b \<noteq> a" "\<not> expired ttl now2 sb"
  shows "fst (sm_acquire ttl now2 b m2) = Inl (mutation_locked (es_instance_id sa) a) \<and>
    map_of (sm_owners (snd (sm_acquire ttl now2 b m2))) (es_instance_id sa) = Some a"
proof -
  have mok: "manager_ok (m, used)" using assms(1) by (rule manager_ok_reachable)
  have step: "sm_step ttl (m, used) (m1, used)" using step_acquire [of ttl m used now1 a] assms(2) by simp
  have mok1: "manager_ok (m1, used)" using manager_ok_step [OF mok step] .
  have mok2: "manager_ok (m2, used2)" using lease.ok_run [OF assms(3) mok1] .
  obtain inst where own: "map_of (sm_owners m1) inst = Some a"
    using sm_acquire_Inr [OF assms(2)] by blast
  have "lease_owner_of (m2, used2) inst = Some a"
    using lease.owner_while_open [OF assms(3) mok1, of inst a] own assms(4)
    by (simp add: lease_owner_of_def session_open_in_def)
  then have own2: "map_of (sm_owners m2) inst = Some a"
    by (simp add: lease_owner_of_def)
  have ok2: "sm_ok m2" using mok2 by (simp add: manager_ok_def)
  have inst: "es_instance_id sa = inst" using sm_owner_instance [OF ok2 own2 assms(4)] .
  have "a \<noteq> []" using sm_ok_sid [OF ok2 assms(4)] by simp
  with own2 inst assms(5-8) show ?thesis
    by (simp add: sm_acquire_def sm_require_def Let_def)
qed

lemma lease_exclusive_witness:
  "fst (sm_acquire 100 60 ''ses_2'' example_leased) = Inl (mutation_locked ''i'' ''ses_1'')"
proof -
  let ?s = "\<lambda>sid t. fst (sm_open 0 sid example_input empty_manager)\<lparr>es_last_used_at := t\<rparr>"
  have 1: "sm_acquire 100 50 ''ses_1'' example_two_sessions = (Inr (), example_leased)"
    by (simp add: example_run_simps)
  have a: "map_of (sm_sessions example_leased) ''ses_1'' = Some (?s ''1'' 50)"
    by (simp add: example_run_simps)
  have b: "map_of (sm_sessions example_leased) ''ses_2'' = Some (?s ''2'' 0)"
    by (simp add: example_run_simps)
  have "fst (sm_acquire 100 60 ''ses_2'' example_leased) =
      Inl (mutation_locked (es_instance_id (?s ''1'' 50)) ''ses_1'') \<and>
    map_of (sm_owners (snd (sm_acquire 100 60 ''ses_2'' example_leased))) (es_instance_id (?s ''1'' 50)) =
      Some ''ses_1''"
    by (rule lease_exclusive [OF example_two_reachable 1 rtranclp.rtrancl_refl a b])
      (simp_all add: example_run_simps)
  then show ?thesis by (simp add: example_run_simps)
qed

text \<open>
  a lease outlives its session. An owner that has expired, and that nobody has asked for since,
  still blocks every other session of the instance, at any later time: \<open>acquireMutation\<close> looks at
  the owner's identifier only. The lease is released by \<open>list\<close>, after which the same acquire
  succeeds.
\<close>

theorem stale_lease_blocks:
  assumes "sm_ok m"
    and "map_of (sm_owners m) (es_instance_id sb) = Some a" "a \<noteq> b"
    and "map_of (sm_sessions m) a = Some sa" "expired ttl now sa"
    and "map_of (sm_sessions m) b = Some sb" "\<not> expired ttl now sb"
  shows "fst (sm_acquire ttl now b m) = Inl (mutation_locked (es_instance_id sb) a) \<and>
    fst (sm_acquire ttl now b (snd (sm_list ttl now m))) = Inr ()"
proof -
  have "a \<noteq> []" using sm_ok_sid [OF assms(1,4)] by simp
  then have blocked: "fst (sm_acquire ttl now b m) = Inl (mutation_locked (es_instance_id sb) a)"
    using assms by (simp add: sm_acquire_def sm_require_def Let_def)
  let ?m' = "sm_prune ttl now m"
  have live: "map_of (sm_sessions ?m') b = Some sb"
    using sm_prune_sessions [OF assms(1)] assms(6,7) by simp
  have gone: "map_of (sm_sessions ?m') a = None"
    using sm_prune_sessions [OF assms(1)] assms(4,5) by simp
  have "map_of (sm_owners ?m') (es_instance_id sb) = None"
  proof (rule ccontr)
    assume "map_of (sm_owners ?m') (es_instance_id sb) \<noteq> None"
    then obtain c where c: "map_of (sm_owners ?m') (es_instance_id sb) = Some c" by blast
    with sm_prune_owners_subset [OF assms(1)] have "map_of (sm_owners m) (es_instance_id sb) = Some c" by blast
    with assms(2) have "c = a" by simp
    with sm_ok_owner [OF sm_ok_prune [OF assms(1)] c] gone show False by auto
  qed
  with live assms(7) have "fst (sm_acquire ttl now b ?m') = Inr ()"
    by (simp add: sm_acquire_def sm_require_def Let_def)
  with blocked show ?thesis by (simp add: sm_list_def Let_def)
qed

lemma stale_lease_blocks_witness:
  "fst (sm_acquire 100 160 ''ses_2'' (snd (sm_get 100 99 ''ses_2'' example_leased))) =
     Inl (mutation_locked ''i'' ''ses_1'')"
proof -
  let ?s = "\<lambda>sid t. fst (sm_open 0 sid example_input empty_manager)\<lparr>es_last_used_at := t\<rparr>"
  let ?m = "snd (sm_get 100 99 ''ses_2'' example_leased)"
  have ok: "sm_ok ?m"
    using manager_ok_reachable [OF example_leased_reachable] by (simp add: manager_ok_def sm_ok_get)
  have "fst (sm_acquire 100 160 ''ses_2'' ?m) =
      Inl (mutation_locked (es_instance_id (?s ''2'' 99)) ''ses_1'') \<and>
    fst (sm_acquire 100 160 ''ses_2'' (snd (sm_list 100 160 ?m))) = Inr ()"
    by (rule stale_lease_blocks [OF ok, where sa = "?s ''1'' 50"])
      (simp_all add: example_run_simps sm_get_def)
  then show ?thesis by (simp add: example_run_simps)
qed

end
