(* ===== verification/Stores.thy ===== *)
theory Stores
  imports Prelude
begin

text \<open>
  The contract shared by the two expiring stores of the server (the idempotency cache and the
  verification tickets): a JavaScript \<open>Map\<close> whose entries carry an expiry time, from which the
  dead entries are pruned and, when it is full, the oldest entries are evicted until one more fits.
\<close>

text \<open>\<open>while (map.size >= max) map.delete(first key)\<close>.\<close>

fun evict_loop :: "nat \<Rightarrow> ('k, 'e) js_map \<Rightarrow> ('k, 'e) js_map" where
  "evict_loop limit [] = []"
| "evict_loop limit ((k, e) # m) =
     (if limit \<le> length ((k, e) # m) then evict_loop limit m else (k, e) # m)"

lemma evict_loop_drop: "0 < limit \<Longrightarrow> evict_loop limit m = drop (length m - (limit - 1)) m"
proof (induction limit m rule: evict_loop.induct)
  case (2 limit k e m)
  show ?case
  proof (cases "limit \<le> length ((k, e) # m)")
    case True
    with 2 have "length ((k, e) # m) - (limit - 1) = Suc (length m - (limit - 1))"
      by (auto simp: Suc_diff_le)
    with True 2 show ?thesis by simp
  qed (use 2 in auto)
qed simp

lemma js_map_ok_evict_loop [simp]: "js_map_ok m \<Longrightarrow> js_map_ok (evict_loop limit m)"
  by (induction limit m rule: evict_loop.induct) (auto simp: js_map_ok_def)

locale bounded_store =
  fixes prune :: "int \<Rightarrow> ('k, 'e) js_map \<Rightarrow> ('k, 'e) js_map"
    and evict :: "('k, 'e) js_map \<Rightarrow> ('k, 'e) js_map"
    and expires :: "'e \<Rightarrow> int"
    and cap :: nat
  assumes prune_spec: "prune now m = filter (\<lambda>(k, e). now < expires e) m"
    and evict_spec: "evict m = drop (length m - (cap - 1)) m"
    and cap_pos: "0 < cap"
begin

lemma prune_ok [simp]: "js_map_ok m \<Longrightarrow> js_map_ok (prune now m)"
  by (simp add: prune_spec)

lemma evict_ok [simp]: "js_map_ok m \<Longrightarrow> js_map_ok (evict m)"
  by (simp add: evict_spec)

lemma length_evict: "length (evict m) < cap"
  using cap_pos by (auto simp: evict_spec)

lemma evict_id: "length m < cap \<Longrightarrow> evict m = m"
  by (simp add: evict_spec)

lemma put_bounded: "length (AList.update k e (evict m)) \<le> cap"
  using length_update_le [of k e "evict m"] length_evict [of m] by linarith

lemma lookup_prune:
  "js_map_ok m \<Longrightarrow> map_of (prune now m) k =
     (case map_of m k of Some e \<Rightarrow> if now < expires e then Some e else None | None \<Rightarrow> None)"
  unfolding prune_spec by (subst map_of_filter_ok) (auto split: option.splits)

lemma prune_idem: "prune now (prune now m) = prune now m"
  by (simp add: prune_spec)

text \<open>An entry survives the eviction exactly if fewer than \<open>cap\<close> entries are at or after it.\<close>

lemma evict_survivors: "set (evict m) \<subseteq> set m"
  by (simp add: evict_spec set_drop_subset)

lemma evict_oldest:
  assumes "length m = cap"
  shows "evict m = tl m"
proof -
  have "length m - (cap - 1) = 1" using assms cap_pos by simp
  then show ?thesis by (simp add: evict_spec drop_Suc)
qed

lemma lookup_oldest_evicted:
  assumes "js_map_ok m" "m = (k, e) # m'" "length m = cap"
  shows "map_of (evict m) k = None"
  using assms evict_oldest [of m] by (auto simp: js_map_ok_def map_of_eq_None_iff)

end

end
