(* ===== verification/Tickets.thy ===== *)
theory Tickets
  imports Stores Errors
begin

text \<open>
  \<open>packages/mcp-server/src/verificationTickets.ts\<close>: the tickets that guard the repeated evaluation
  of code in a live Lisp image. A ticket belongs to a session, records its attempts and expires.
  \<open>ttl\<close> and \<open>limit\<close> (\<open>maxTickets\<close>) are the constructor's arguments; the identifier of a new ticket
  (\<open>crypto.randomUUID\<close>) is an argument of \<open>ticket_create\<close>.
\<close>

datatype verification_risk = Low | High | Unknown

fun risk_name :: "verification_risk \<Rightarrow> string" where
  "risk_name Low = ''low''"
| "risk_name High = ''high''"
| "risk_name Unknown = ''unknown''"

text \<open>An attempt is an object of which the source reads \<open>completed\<close> and \<open>metadata\<close>.\<close>

type_synonym attempt = jval

definition attempt_completed :: "attempt \<Rightarrow> bool" where
  "attempt_completed a \<longleftrightarrow> get_prop a ''completed'' = JBool True"

record ticket =
  tk_id :: string
  tk_session_id :: string
  tk_adapter :: "string option"
  tk_operation :: string
  tk_timeout_ms :: jnum
  tk_max_attempts :: jnum
  tk_risk :: verification_risk
  tk_allow_risky :: bool
  tk_attempts :: "attempt list"
  tk_created_at :: int
  tk_expires_at :: int

type_synonym tickets = "(string, ticket) js_map"

definition ticket_prune_expired :: "int \<Rightarrow> tickets \<Rightarrow> tickets" where
  "ticket_prune_expired now ts = filter (\<lambda>(i, t). \<not> tk_expires_at t \<le> now) ts"

definition ticket_prune :: "nat \<Rightarrow> int \<Rightarrow> tickets \<Rightarrow> tickets" where
  "ticket_prune limit now ts = evict_loop limit (ticket_prune_expired now ts)"

definition ticket_create :: "int \<Rightarrow> nat \<Rightarrow> int \<Rightarrow> string \<Rightarrow> ticket \<Rightarrow> tickets \<Rightarrow> ticket \<times> tickets" where
  "ticket_create ttl limit now uuid input ts =
     (let ts1 = ticket_prune limit now ts;
          t = input\<lparr>tk_id := ''verify_'' @ uuid, tk_created_at := now, tk_expires_at := now + ttl\<rparr>
      in (t, AList.update (tk_id t) t ts1))"

definition ticket_get :: "nat \<Rightarrow> int \<Rightarrow> string \<Rightarrow> string \<Rightarrow> tickets \<Rightarrow> (exn + ticket) \<times> tickets" where
  "ticket_get limit now tid sid ts =
     (let ts1 = ticket_prune limit now ts in
      (case map_of ts1 tid of
         None \<Rightarrow> (Inl (op_error_with E_TRANSACTION_NOT_FOUND ''Unknown or expired verification ticket.''
                  [(''ticket_id'', JStr tid)]), ts1)
       | Some t \<Rightarrow>
           if tk_session_id t \<noteq> sid
           then (Inl (op_error E_POLICY_DENIED ''Verification ticket belongs to a different session.''), ts1)
           else (Inr t, ts1)))"

definition ticket_append ::
  "int \<Rightarrow> nat \<Rightarrow> int \<Rightarrow> string \<Rightarrow> string \<Rightarrow> attempt \<Rightarrow> tickets \<Rightarrow> (exn + ticket) \<times> tickets" where
  "ticket_append ttl limit now tid sid a ts =
     (case ticket_get limit now tid sid ts of
        (Inl e, ts1) \<Rightarrow> (Inl e, ts1)
      | (Inr t, ts1) \<Rightarrow>
          let t' = t\<lparr>tk_attempts := tk_attempts t @ [a], tk_expires_at := now + ttl\<rparr>
          in (Inr t', AList.update tid t' ts1))"

definition ticket_close :: "nat \<Rightarrow> int \<Rightarrow> string \<Rightarrow> string \<Rightarrow> tickets \<Rightarrow> (exn + unit) \<times> tickets" where
  "ticket_close limit now tid sid ts =
     (case ticket_get limit now tid sid ts of
        (Inl e, ts1) \<Rightarrow> (Inl e, ts1)
      | (Inr t, ts1) \<Rightarrow> (Inr (), AList.delete tid ts1))"

lemma ticket_bounded_store:
  "0 < limit \<Longrightarrow> bounded_store ticket_prune_expired (evict_loop limit) tk_expires_at limit"
  by unfold_locales (auto simp: ticket_prune_expired_def evict_loop_drop not_le)

definition ticket_default_ttl :: int where "ticket_default_ttl = 30 * 60000"
definition ticket_default_max :: nat where "ticket_default_max = 100"

interpretation tickets: bounded_store ticket_prune_expired "evict_loop ticket_default_max"
  tk_expires_at ticket_default_max
  by (rule ticket_bounded_store) (simp add: ticket_default_max_def)

subsection \<open>Lemmas\<close>

text \<open>Well-formed ticket tables: keys are the tickets' own identifiers, each once.\<close>

definition tickets_ok :: "tickets \<Rightarrow> bool" where
  "tickets_ok ts \<longleftrightarrow> js_map_ok ts \<and> (\<forall>(i, t) \<in> set ts. tk_id t = i)"

lemma ticket_prune_subset: "set (ticket_prune limit now ts) \<subseteq> set ts"
proof -
  have "set (evict_loop limit m) \<subseteq> set m" for m :: tickets
    by (induction limit m rule: evict_loop.induct) auto
  then show ?thesis by (force simp: ticket_prune_def ticket_prune_expired_def)
qed

lemma ticket_prune_js_ok [simp]: "js_map_ok ts \<Longrightarrow> js_map_ok (ticket_prune limit now ts)"
  by (simp add: ticket_prune_def ticket_prune_expired_def)

lemma tickets_ok_prune [simp]: "tickets_ok ts \<Longrightarrow> tickets_ok (ticket_prune limit now ts)"
  using ticket_prune_subset [of limit now ts] by (auto simp: tickets_ok_def)

lemma set_update_subset: "set (AList.update k v m) \<subseteq> insert (k, v) (set m)"
  by (induction m) auto

lemma tickets_ok_update [simp]: "tickets_ok ts \<Longrightarrow> tk_id t = i \<Longrightarrow> tickets_ok (AList.update i t ts)"
  using set_update_subset [of i t ts] by (auto simp: tickets_ok_def)

lemma tickets_ok_delete [simp]: "tickets_ok ts \<Longrightarrow> tickets_ok (AList.delete i ts)"
  using set_delete_subset [of i ts] by (auto simp: tickets_ok_def)

lemma ticket_get_Inr:
  "ticket_get limit now tid sid ts = (Inr t, ts') \<Longrightarrow>
     ts' = ticket_prune limit now ts \<and> map_of ts' tid = Some t \<and> tk_session_id t = sid"
  by (auto simp: ticket_get_def Let_def split: option.splits if_splits)

lemma ticket_get_state: "snd (ticket_get limit now tid sid ts) = ticket_prune limit now ts"
  by (auto simp: ticket_get_def Let_def split: option.splits)

lemma tickets_ok_ops [simp]:
  assumes "tickets_ok ts"
  shows "tickets_ok (snd (ticket_create ttl limit now uuid input ts))"
    and "tickets_ok (snd (ticket_get limit now tid sid ts))"
    and "tickets_ok (snd (ticket_append ttl limit now tid sid a ts))"
    and "tickets_ok (snd (ticket_close limit now tid sid ts))"
proof -
  show g: "tickets_ok (snd (ticket_get limit now tid sid ts))" for now
    using assms by (simp add: ticket_get_state)
  show "tickets_ok (snd (ticket_create ttl limit now uuid input ts))"
    using assms by (simp add: ticket_create_def Let_def)
  have id: "tk_id t = tid" if "ticket_get limit now tid sid ts = (Inr t, ts')" for t ts'
    using ticket_get_Inr [OF that] g [of now] that by (auto simp: tickets_ok_def dest: map_of_SomeD)
  show "tickets_ok (snd (ticket_append ttl limit now tid sid a ts))"
    using g [of now] id by (auto simp: ticket_append_def Let_def split: prod.splits sum.splits)
  show "tickets_ok (snd (ticket_close limit now tid sid ts))"
    using g [of now] by (auto simp: ticket_close_def split: prod.splits sum.splits)
qed

lemma length_ticket_prune: "0 < limit \<Longrightarrow> length (ticket_prune limit now ts) < limit"
  unfolding ticket_prune_def by (rule bounded_store.length_evict [OF ticket_bounded_store])

subsection \<open>Properties\<close>

text \<open>
  a ticket can only be read, extended or closed by the session it was made for: every
  operation of another session on a ticket that is found fails with \<open>E_POLICY_DENIED\<close> and leaves
  the ticket in the table unchanged.
\<close>

theorem ticket_foreign_session_denied:
  assumes "map_of (ticket_prune limit now ts) tid = Some t" "tk_session_id t \<noteq> sid"
  shows "ticket_get limit now tid sid ts
      = (Inl (op_error E_POLICY_DENIED ''Verification ticket belongs to a different session.''),
         ticket_prune limit now ts)
    \<and> ticket_append ttl limit now tid sid a ts
      = (Inl (op_error E_POLICY_DENIED ''Verification ticket belongs to a different session.''),
         ticket_prune limit now ts)
    \<and> ticket_close limit now tid sid ts
      = (Inl (op_error E_POLICY_DENIED ''Verification ticket belongs to a different session.''),
         ticket_prune limit now ts)"
  using assms by (simp add: ticket_get_def ticket_append_def ticket_close_def Let_def)

definition sample_ticket :: "string \<Rightarrow> int \<Rightarrow> ticket" where
  "sample_ticket sid expires = \<lparr>tk_id = ''verify_1'', tk_session_id = sid, tk_adapter = None,
     tk_operation = ''eval_defun'', tk_timeout_ms = Fin 1000, tk_max_attempts = Fin 3, tk_risk = Low,
     tk_allow_risky = False, tk_attempts = [], tk_created_at = 0, tk_expires_at = expires\<rparr>"

theorem ticket_foreign_session_denied_witness:
  "ticket_get 3 5 ''verify_1'' ''ses_b'' [(''verify_1'', sample_ticket ''ses_a'' 10)]
    = (Inl (op_error E_POLICY_DENIED ''Verification ticket belongs to a different session.''),
       [(''verify_1'', sample_ticket ''ses_a'' 10)])"
proof -
  have p: "ticket_prune 3 5 [(''verify_1'', sample_ticket ''ses_a'' 10)] = [(''verify_1'', sample_ticket ''ses_a'' 10)]"
    by (simp add: ticket_prune_def ticket_prune_expired_def sample_ticket_def)
  show ?thesis
    using ticket_foreign_session_denied [of 3 5 "[(''verify_1'', sample_ticket ''ses_a'' 10)]" "''verify_1''"
        "sample_ticket ''ses_a'' 10" "''ses_b''"]
    unfolding p by (simp add: sample_ticket_def)
qed

text \<open>
  reading a ticket can destroy one. When the table holds the maximal number of live tickets,
  every lookup (a status query too) evicts the oldest ticket first; asking for that ticket itself
  fails with \<open>E_TRANSACTION_NOT_FOUND\<close>, although it has not expired and belongs to the caller.
\<close>

theorem ticket_get_evicts_oldest:
  assumes "tickets_ok ts" "ts = (tid, t) # rest" "length ts = limit"
    and "\<forall>(i, t) \<in> set ts. now < tk_expires_at t"
  shows "ticket_get limit now tid (tk_session_id t) ts
    = (Inl (op_error_with E_TRANSACTION_NOT_FOUND ''Unknown or expired verification ticket.''
        [(''ticket_id'', JStr tid)]), rest)"
proof -
  have pos: "0 < limit" using assms(2,3) by auto
  have "ticket_prune_expired now ts = ts"
    using assms(4) by (auto simp: ticket_prune_expired_def not_le intro: filter_True)
  moreover have "evict_loop limit ts = rest"
    using bounded_store.evict_oldest [OF ticket_bounded_store [OF pos] assms(3)] assms(2) by simp
  ultimately have "ticket_prune limit now ts = rest"
    by (simp add: ticket_prune_def)
  moreover have "map_of rest tid = None"
    using assms(1,2) by (simp add: tickets_ok_def js_map_ok_def map_of_eq_None_iff)
  ultimately show ?thesis by (simp add: ticket_get_def)
qed

theorem ticket_get_evicts_oldest_witness:
  "ticket_get 1 5 ''verify_1'' ''ses_a'' [(''verify_1'', sample_ticket ''ses_a'' 10)]
    = (Inl (op_error_with E_TRANSACTION_NOT_FOUND ''Unknown or expired verification ticket.''
        [(''ticket_id'', JStr ''verify_1'')]), [])"
  using ticket_get_evicts_oldest [of "[(''verify_1'', sample_ticket ''ses_a'' 10)]" "''verify_1''"
      "sample_ticket ''ses_a'' 10" "[]" 1 5]
  by (simp add: tickets_ok_def sample_ticket_def js_map_ok_def)

end
