(* ===== verification/Idempotency.thy ===== *)
theory Idempotency
  imports Stores
begin

text \<open>
  \<open>packages/mcp-server/src/idempotency.ts\<close>: the cache that returns the stored envelope to a
  repeated request. A store maps a key to a value with its expiry; \<open>ttl\<close> and \<open>limit\<close> (\<open>maxEntries\<close>) are the
  constructor's arguments (\<open>ttlMs > 0\<close>, \<open>maxEntries > 0\<close>, checked by \<open>idem_config_ok\<close>), \<open>now\<close> the
  reading of the clock in the call.
\<close>

record 'v idem_entry =
  ie_value :: 'v
  ie_expires_at :: int

type_synonym 'v idem_cache = "(string, 'v idem_entry) js_map"

definition idem_config_ok :: "int \<Rightarrow> nat \<Rightarrow> bool" where
  "idem_config_ok ttl limit \<longleftrightarrow> 0 < ttl \<and> 0 < limit"

definition idem_prune :: "int \<Rightarrow> 'v idem_cache \<Rightarrow> 'v idem_cache" where
  "idem_prune now c = filter (\<lambda>(k, e). \<not> ie_expires_at e \<le> now) c"

definition idem_get :: "int \<Rightarrow> string \<Rightarrow> 'v idem_cache \<Rightarrow> 'v option \<times> 'v idem_cache" where
  "idem_get now key c =
     (case map_of c key of
        None \<Rightarrow> (None, c)
      | Some hit \<Rightarrow>
          if ie_expires_at hit \<le> now then (None, AList.delete key c)
          else (Some (ie_value hit), c))"

definition idem_set :: "int \<Rightarrow> nat \<Rightarrow> int \<Rightarrow> string \<Rightarrow> 'v \<Rightarrow> 'v idem_cache \<Rightarrow> 'v idem_cache" where
  "idem_set ttl limit now key v c =
     (let c1 = idem_prune now c;
          c2 = (if map_of c1 key \<noteq> None then AList.delete key c1 else c1);
          c3 = evict_loop limit c2
      in AList.update key \<lparr>ie_value = v, ie_expires_at = now + ttl\<rparr> c3)"

lemma idem_bounded_store:
  "0 < limit \<Longrightarrow> bounded_store idem_prune (evict_loop limit) (ie_expires_at :: 'v idem_entry \<Rightarrow> int) limit"
  by unfold_locales (auto simp: idem_prune_def evict_loop_drop not_le)

text \<open>The router's cache: five minutes, a thousand entries.\<close>

definition idem_default_ttl :: int where "idem_default_ttl = 5 * 60 * 1000"
definition idem_default_max :: nat where "idem_default_max = 1000"

interpretation idem: bounded_store idem_prune "evict_loop idem_default_max"
  "ie_expires_at :: 'v idem_entry \<Rightarrow> int" idem_default_max
  by (rule idem_bounded_store) (simp add: idem_default_max_def)

subsection \<open>Lemmas\<close>

lemma delete_if_present: "(if map_of c k \<noteq> None then AList.delete k c else c) = AList.delete k c"
  by (metis delete_id domIff dom_map_of_conv_image_fst)

lemma map_of_drop_None: "map_of c k = None \<Longrightarrow> map_of (drop n c) k = None"
  by (metis map_of_eq_None_iff set_drop_subset image_mono subset_iff)

text \<open>The whole effect of \<open>set\<close>: live entries of other keys in their order, without the oldest
  ones that do not fit, and then the new entry, which is the newest.\<close>

lemma idem_set_eq:
  assumes "0 < limit"
  shows "idem_set ttl limit now key v c =
    (let live = AList.delete key (filter (\<lambda>(k, e). now < ie_expires_at e) c)
     in drop (length live - (limit - 1)) live @ [(key, \<lparr>ie_value = v, ie_expires_at = now + ttl\<rparr>)])"
  unfolding idem_set_def delete_if_present Let_def
  by (subst update_new_append)
    (auto simp: evict_loop_drop [OF assms] map_of_drop_None idem_prune_def not_le)

lemma idem_set_ok [simp]: "js_map_ok c \<Longrightarrow> js_map_ok (idem_set ttl limit now key v c)"
  by (cases "limit = 0") (auto simp: idem_set_def Let_def idem_prune_def)


lemma idem_set_lookup:
  "map_of (idem_set ttl limit now key v c) key = Some \<lparr>ie_value = v, ie_expires_at = now + ttl\<rparr>"
  by (simp add: idem_set_def Let_def)

lemma idem_get_ok [simp]: "js_map_ok c \<Longrightarrow> js_map_ok (snd (idem_get now key c))"
  by (auto simp: idem_get_def split: option.splits)

lemma idem_get_live:
  "map_of c key = Some e \<Longrightarrow> now < ie_expires_at e \<Longrightarrow> idem_get now key c = (Some (ie_value e), c)"
  by (simp add: idem_get_def)

lemma length_filter_mono: "(\<And>x. P x \<Longrightarrow> Q x) \<Longrightarrow> length (filter P xs) \<le> length (filter Q xs)"
  by (induction xs) auto

lemma map_of_append_other: "k \<noteq> key \<Longrightarrow> map_of (m @ [(key, e)]) k = map_of m k"
  by (simp add: map_add_def split: option.splits)

subsection \<open>Properties\<close>

text \<open>
  a value that was stored is returned to every request with the same key until its time to live
  has passed, whatever the cache held before, and the cache never holds more than its maximum number
  of entries.
\<close>

theorem idem_set_get:
  assumes "0 < limit" "now' < now + ttl"
  shows "idem_get now' key (idem_set ttl limit now key v c) = (Some v, idem_set ttl limit now key v c)
    \<and> length (idem_set ttl limit now key v c) \<le> limit"
proof
  show "idem_get now' key (idem_set ttl limit now key v c) = (Some v, idem_set ttl limit now key v c)"
    using assms(2) idem_get_live [OF idem_set_lookup] by simp
  show "length (idem_set ttl limit now key v c) \<le> limit"
    unfolding idem_set_def Let_def
    by (rule bounded_store.put_bounded [OF idem_bounded_store [OF assms(1)]])
qed

theorem idem_set_get_witness:
  "idem_get 150 ''k'' (idem_set 100 2 100 ''k'' (7::nat) []) = (Some 7, idem_set 100 2 100 ''k'' 7 [])
   \<and> length (idem_set 100 2 100 ''k'' (7::nat) []) \<le> 2"
  using idem_set_get [of 2 150 100 100 "''k''" "7::nat" "[]"] by simp

text \<open>
  refreshing a key that is present never evicts another one: in a cache that is within its
  bound, every other entry that has not expired is still found, even when the cache is full.
\<close>

theorem idem_refresh_keeps_others:
  assumes "0 < limit" "js_map_ok c" "length c \<le> limit" "map_of c key \<noteq> None" "k \<noteq> key"
    and "map_of c k = Some e" "now < ie_expires_at e"
  shows "map_of (idem_set ttl limit now key v c) k = Some e"
proof -
  let ?live = "AList.delete key (filter (\<lambda>(k, e). now < ie_expires_at e) c)"
  obtain old where "(key, old) \<in> set c" using assms(4) by (auto dest: map_of_SomeD)
  then have "length (AList.delete key c) < length c"
    by (auto simp: AList.delete_eq intro!: length_filter_less)
  moreover have "length ?live \<le> length (AList.delete key c)"
    unfolding AList.delete_eq filter_filter by (rule length_filter_mono) auto
  ultimately have "length ?live - (limit - 1) = 0" using assms(3) by simp
  then have "idem_set ttl limit now key v c = ?live @ [(key, \<lparr>ie_value = v, ie_expires_at = now + ttl\<rparr>)]"
    by (simp add: idem_set_eq [OF assms(1)] Let_def)
  then show ?thesis
    using assms by (simp add: map_of_append_other map_of_filter_ok)
qed

theorem idem_refresh_keeps_others_witness:
  "map_of (idem_set 100 2 50 ''a'' (9::nat)
      [(''a'', \<lparr>ie_value = 1, ie_expires_at = 60\<rparr>), (''b'', \<lparr>ie_value = 2, ie_expires_at = 70\<rparr>)]) ''b''
    = Some \<lparr>ie_value = 2, ie_expires_at = 70\<rparr>"
  by (rule idem_refresh_keeps_others) (simp_all add: js_map_ok_def)

end
