(* ===== verification/Policy.thy ===== *)
theory Policy
  imports Protocol
begin

text \<open>
  \<open>packages/mcp-server/src/policy/policyEngine.ts\<close>: the permission profiles, and the checks the
  router makes before it acts. Paths are those of a POSIX host; \<open>cwd\<close> is the working directory of
  the server process, against which \<open>path.resolve\<close> reads a relative path.
\<close>

subsection \<open>Profiles\<close>

record permission_profile =
  pp_name :: string
  pp_mutations :: bool
  pp_native_keys :: bool
  pp_native_capture :: bool
  pp_arbitrary_elisp :: bool
  pp_structured_eval :: bool
  pp_save_outside :: bool

definition read_only :: permission_profile where
  "read_only = \<lparr>pp_name = ''read_only'', pp_mutations = False, pp_native_keys = False,
     pp_native_capture = False, pp_arbitrary_elisp = False, pp_structured_eval = False,
     pp_save_outside = False\<rparr>"

definition workspace_edit :: permission_profile where
  "workspace_edit = \<lparr>pp_name = ''workspace_edit'', pp_mutations = True, pp_native_keys = False,
     pp_native_capture = False, pp_arbitrary_elisp = False, pp_structured_eval = False,
     pp_save_outside = False\<rparr>"

definition trusted_local :: permission_profile where
  "trusted_local = \<lparr>pp_name = ''trusted_local'', pp_mutations = True, pp_native_keys = True,
     pp_native_capture = True, pp_arbitrary_elisp = False, pp_structured_eval = True,
     pp_save_outside = True\<rparr>"

text \<open>
  \<open>profiles[name]\<close> on an object literal also finds the members of \<open>Object.prototype\<close>. Such a
  value is no profile, but it is truthy, and all the flags read from it are \<open>undefined\<close>.
\<close>

definition object_prototype_names :: "string list" where
  "object_prototype_names =
     [''constructor'', ''toString'', ''valueOf'', ''hasOwnProperty'', ''isPrototypeOf'',
      ''propertyIsEnumerable'', ''toLocaleString'', ''__proto__'', ''__defineGetter__'',
      ''__defineSetter__'', ''__lookupGetter__'', ''__lookupSetter__'']"

definition no_flags :: permission_profile where
  "no_flags = \<lparr>pp_name = [], pp_mutations = False, pp_native_keys = False,
     pp_native_capture = False, pp_arbitrary_elisp = False, pp_structured_eval = False,
     pp_save_outside = False\<rparr>"

definition profiles :: "(string \<times> permission_profile) list" where
  "profiles = [(''read_only'', read_only), (''workspace_edit'', workspace_edit),
     (''trusted_local'', trusted_local)]"

definition denied :: "string \<Rightarrow> exn" where
  "denied msg = op_error E_POLICY_DENIED msg"

definition profile :: "string \<Rightarrow> exn + permission_profile" where
  "profile name =
     (case map_of profiles name of
        Some p \<Rightarrow> Inr p
      | None \<Rightarrow> if name \<in> set object_prototype_names then Inr no_flags
                else Inl (denied (''Unknown permission profile: '' @ name @ ''.'')))"

subsection \<open>Checks on a session\<close>

definition assert_mutation :: "emacs_session \<Rightarrow> exn + unit" where
  "assert_mutation s =
     andthen (profile (es_permission_profile s)) (\<lambda>p.
       if pp_mutations p then Inr ()
       else Inl (denied (''Permission profile '' @ es_permission_profile s @ '' is read-only.'')))"

text \<open>\<open>channels[channel]\<close> for an arbitrary string, with the members of \<open>Object.prototype\<close> again.\<close>

definition channel_available :: "channel_caps \<Rightarrow> string \<Rightarrow> bool" where
  "channel_available caps channel \<longleftrightarrow>
     (if channel = ''semantic'' then cc_semantic caps
      else if channel = ''internal_keys'' then cc_internal_keys caps
      else if channel = ''native_keys'' then cc_native_keys caps
      else channel \<in> set object_prototype_names)"

definition assert_channel :: "emacs_session \<Rightarrow> string \<Rightarrow> exn + unit" where
  "assert_channel s channel =
     (if \<not> channel_available (sc_channels (es_capabilities s)) channel
      then Inl (denied (''Execution channel '' @ channel @ '' is unavailable for this session.''))
      else if channel = ''native_keys''
      then andthen (profile (es_permission_profile s)) (\<lambda>p.
        if pp_native_keys p then Inr ()
        else Inl (denied ''Native key injection is not authorized by this permission profile.''))
      else Inr ())"

definition assert_capture :: "emacs_session \<Rightarrow> exn + unit" where
  "assert_capture s =
     andthen (profile (es_permission_profile s)) (\<lambda>p.
       if pp_native_capture p then Inr ()
       else Inl (denied ''Screen capture requires the trusted_local permission profile.''))"

definition assert_arbitrary_elisp :: "emacs_session \<Rightarrow> exn + unit" where
  "assert_arbitrary_elisp s =
     andthen (profile (es_permission_profile s)) (\<lambda>p.
       if pp_arbitrary_elisp p then Inr ()
       else Inl (denied ''Arbitrary Emacs Lisp evaluation is disabled by policy.''))"

definition assert_structured_eval :: "emacs_session \<Rightarrow> exn + unit" where
  "assert_structured_eval s =
     andthen (profile (es_permission_profile s)) (\<lambda>p.
       if pp_structured_eval p then Inr ()
       else Inl (denied ''Structured language evaluation requires the trusted_local permission profile.''))"

subsection \<open>Paths\<close>

text \<open>\<open>path.resolve\<close>: the segments of the absolute path, with \<open>.\<close> and \<open>..\<close> worked out.\<close>

definition push_segment :: "string list \<Rightarrow> string \<Rightarrow> string list" where
  "push_segment stack seg =
     (if seg = [] \<or> seg = ''.'' then stack
      else if seg = ''..'' then butlast stack
      else stack @ [seg])"

definition normal_segments :: "string list \<Rightarrow> string list" where
  "normal_segments segs = foldl push_segment [] segs"

definition path_segments :: "string \<Rightarrow> string \<Rightarrow> string list" where
  "path_segments cwd p =
     (if starts_with p ''/'' then normal_segments (split_on CHR ''/'' p)
      else normal_segments (split_on CHR ''/'' cwd @ split_on CHR ''/'' p))"

definition path_resolve :: "string \<Rightarrow> string \<Rightarrow> string" where
  "path_resolve cwd p = ''/'' @ join ''/'' (path_segments cwd p)"

text \<open>\<open>path.relative\<close> on two absolute paths, as segments.\<close>

fun relative_segments :: "string list \<Rightarrow> string list \<Rightarrow> string list" where
  "relative_segments (a # as) (b # bs) =
     (if a = b then relative_segments as bs else replicate (Suc (length as)) ''..'' @ b # bs)"
| "relative_segments as bs = replicate (length as) ''..'' @ bs"

definition path_relative :: "string \<Rightarrow> string \<Rightarrow> string \<Rightarrow> string" where
  "path_relative cwd base file =
     join ''/'' (relative_segments (path_segments cwd base) (path_segments cwd file))"

definition path_arg_error :: exn where
  "path_arg_error = JsError ''The \"paths[0]\" argument must be of type string.''"

definition assert_file_path :: "string \<Rightarrow> emacs_session \<Rightarrow> string \<Rightarrow> exn + unit" where
  "assert_file_path cwd s file =
     andthen (profile (es_permission_profile s)) (\<lambda>p.
       if pp_save_outside p then Inr ()
       else if \<not> truthy (st_project_root (es_target s))
       then Inl (denied ''No workspace/project root is associated with this session.'')
       else (case st_project_root (es_target s) of
          JStr base \<Rightarrow>
            let resolved_root = path_resolve cwd base;
                resolved_file = path_resolve cwd file;
                relative = path_relative cwd resolved_root resolved_file
            in if relative = [] \<or> (\<not> starts_with relative ''..'' \<and> \<not> starts_with relative ''/'')
               then Inr ()
               else Inl (op_error_with E_POLICY_DENIED ''File mutation is outside the authorized workspace.''
                      [(''project_root'', JStr resolved_root), (''file'', JStr resolved_file)])
        | _ \<Rightarrow> Inl path_arg_error))"


text \<open>The check on the file of the session's target, a value the bridge sent: \<open>path.resolve\<close> throws
  when it is not a string.\<close>

definition assert_file_value :: "string \<Rightarrow> emacs_session \<Rightarrow> jval \<Rightarrow> exn + unit" where
  "assert_file_value cwd s v =
     (case v of
        JStr f \<Rightarrow> assert_file_path cwd s f
      | _ \<Rightarrow> andthen (profile (es_permission_profile s)) (\<lambda>p.
          if pp_save_outside p then Inr ()
          else if \<not> truthy (st_project_root (es_target s))
          then Inl (denied ''No workspace/project root is associated with this session.'')
          else Inl path_arg_error))"

subsection \<open>Lemmas on paths\<close>

text \<open>A segment of an absolute path: not empty, neither \<open>.\<close> nor \<open>..\<close>, without a slash.\<close>

definition clean_segment :: "string \<Rightarrow> bool" where
  "clean_segment seg \<longleftrightarrow> seg \<noteq> [] \<and> seg \<noteq> ''.'' \<and> seg \<noteq> ''..'' \<and> CHR ''/'' \<notin> set seg"

lemma clean_push:
  "list_all clean_segment stack \<Longrightarrow> CHR ''/'' \<notin> set seg \<Longrightarrow> list_all clean_segment (push_segment stack seg)"
  by (auto simp: push_segment_def list_all_iff clean_segment_def dest: in_set_butlastD)

lemma clean_fold:
  "list_all clean_segment stack \<Longrightarrow> (\<And>s. s \<in> set segs \<Longrightarrow> CHR ''/'' \<notin> set s) \<Longrightarrow>
     list_all clean_segment (foldl push_segment stack segs)"
  by (induction segs arbitrary: stack) (simp_all add: clean_push)

lemma clean_path_segments: "list_all clean_segment (path_segments cwd p)"
proof -
  have "CHR ''/'' \<notin> set s" if "s \<in> set (split_on CHR ''/'' cwd @ split_on CHR ''/'' p)" for s
    using that split_on_sep_free by fastforce
  then show ?thesis
    by (simp add: path_segments_def normal_segments_def clean_fold)
qed

lemma fold_clean: "list_all clean_segment segs \<Longrightarrow> foldl push_segment stack segs = stack @ segs"
  by (induction segs arbitrary: stack) (auto simp: push_segment_def clean_segment_def)

lemma path_segments_resolve [simp]: "path_segments cwd (path_resolve cwd p) = path_segments cwd p"
proof -
  let ?segs = "path_segments cwd p"
  have clean: "list_all clean_segment ?segs" by (rule clean_path_segments)
  have "normal_segments ([] # split_on CHR ''/'' (join ''/'' ?segs)) = ?segs"
  proof (cases "?segs = []")
    case True
    then show ?thesis by (simp add: normal_segments_def push_segment_def)
  next
    case False
    have "split_on CHR ''/'' (join ''/'' ?segs) = ?segs"
      using False clean by (intro split_on_join) (auto simp: list_all_iff clean_segment_def)
    then show ?thesis
      using fold_clean [OF clean, of "[]"] by (simp add: normal_segments_def push_segment_def)
  qed
  moreover have "path_segments cwd (path_resolve cwd p) =
      normal_segments (split_on CHR ''/'' (''/'' @ join ''/'' ?segs))"
    by (subst path_segments_def) (simp add: path_resolve_def)
  ultimately show ?thesis by simp
qed

lemma relative_prefix: "relative_segments as (as @ bs) = bs"
  by (induction as) (cases bs; simp)+

lemma relative_not_prefix:
  "\<not> prefix as bs \<Longrightarrow> \<exists>more. relative_segments as bs = ''..'' # more"
  by (induction as bs rule: relative_segments.induct) (auto simp: neq_Nil_conv)

lemma join_starts_dots:
  assumes "CHR ''/'' \<notin> set seg" "seg \<noteq> []"
  shows "starts_with (join ''/'' (seg # segs)) ''..'' \<longleftrightarrow> starts_with seg ''..''"
proof -
  obtain c s where seg: "seg = c # s" using assms(2) by (cases seg) auto
  show ?thesis using assms(1) unfolding seg
    by (cases segs; cases s) auto
qed

lemma join_starts_slash:
  assumes "CHR ''/'' \<notin> set seg" "seg \<noteq> []"
  shows "\<not> starts_with (join ''/'' (seg # segs)) ''/''"
proof -
  obtain c s where seg: "seg = c # s" using assms(2) by (cases seg) auto
  show ?thesis using assms(1) unfolding seg by (cases segs) auto
qed

text \<open>What the test on the relative path says about the segments.\<close>

lemma path_relative_inside:
  "(let relative = path_relative cwd (path_resolve cwd base) (path_resolve cwd file)
    in relative = [] \<or> (\<not> starts_with relative ''..'' \<and> \<not> starts_with relative ''/'')) \<longleftrightarrow>
   (\<exists>rest. path_segments cwd file = path_segments cwd base @ rest \<and>
      (rest \<noteq> [] \<longrightarrow> \<not> starts_with (hd rest) ''..''))"
  (is "?L \<longleftrightarrow> ?R")
proof (cases "prefix (path_segments cwd base) (path_segments cwd file)")
  case True
  then obtain rest where rest: "path_segments cwd file = path_segments cwd base @ rest"
    by (auto simp: prefix_def)
  then have rel: "path_relative cwd (path_resolve cwd base) (path_resolve cwd file) = join ''/'' rest"
    by (simp add: path_relative_def relative_prefix)
  show ?thesis
  proof (cases rest)
    case Nil
    then show ?thesis using rel rest by simp
  next
    case (Cons seg more)
    have "clean_segment seg"
      using clean_path_segments [of cwd "file"] rest Cons by simp
    then have seg: "CHR ''/'' \<notin> set seg" "seg \<noteq> []" by (simp_all add: clean_segment_def)
    then have "join ''/'' (seg # more) \<noteq> []" by (cases more) auto
    then show ?thesis
      using rel rest Cons join_starts_dots [OF seg] join_starts_slash [OF seg] by simp
  qed
next
  case False
  then obtain more where "relative_segments (path_segments cwd base) (path_segments cwd file) = ''..'' # more"
    using relative_not_prefix by blast
  then have rel: "path_relative cwd (path_resolve cwd base) (path_resolve cwd file) = join ''/'' (''..'' # more)"
    by (simp add: path_relative_def)
  have "join ''/'' (''..'' # more) \<noteq> []" "starts_with (join ''/'' (''..'' # more)) ''..''"
    by (cases more; simp)+
  then have "\<not> ?L" using rel by simp
  moreover have "\<not> ?R" using False by (auto simp: prefix_def)
  ultimately show ?thesis by blast
qed

subsection \<open>Properties\<close>

text \<open>
  the workspace check is exact. With a profile that may not save outside the workspace, a file
  is accepted only if the session has a project root and the absolute path of the file, with every
  \<open>.\<close> and \<open>..\<close> worked out, lies in the directory tree of that root: no traversal and no sibling
  that shares a name prefix gets through. Conversely every such file is accepted, except those
  whose first component below the root begins with two dots.
\<close>

theorem assert_file_path_iff:
  assumes "profile (es_permission_profile s) = Inr p" "\<not> pp_save_outside p"
  shows "assert_file_path cwd s file = Inr () \<longleftrightarrow>
    (\<exists>base rest. st_project_root (es_target s) = JStr base \<and> base \<noteq> [] \<and>
       path_segments cwd file = path_segments cwd base @ rest \<and>
       (rest \<noteq> [] \<longrightarrow> \<not> starts_with (hd rest) ''..''))"
proof (cases "\<exists>base. st_project_root (es_target s) = JStr base \<and> base \<noteq> []")
  case True
  then obtain base where base: "st_project_root (es_target s) = JStr base" "base \<noteq> []" by blast
  then have "assert_file_path cwd s file = Inr () \<longleftrightarrow>
      (let relative = path_relative cwd (path_resolve cwd base) (path_resolve cwd file)
       in relative = [] \<or> (\<not> starts_with relative ''..'' \<and> \<not> starts_with relative ''/''))"
    using assms by (simp add: assert_file_path_def Let_def)
  then show ?thesis unfolding path_relative_inside using base by auto
next
  case False
  have "assert_file_path cwd s file \<noteq> Inr ()"
    using assms False by (cases "st_project_root (es_target s)") (auto simp: assert_file_path_def)
  with False show ?thesis by blast
qed

definition example_session :: emacs_session where
  "example_session = \<lparr>es_session_id = ''s'', es_instance_id = ''i'', es_default_channel = ''semantic'',
     es_permission_profile = ''workspace_edit'',
     es_target = \<lparr>st_frame_id = JUndef, st_frame_title = JUndef, st_native_window = JUndef,
       st_window_id = JUndef, st_buffer_id = JStr ''b'', st_project_root = JStr ''/work/app'',
       st_file = JStr ''/work/app/x.el''\<rparr>,
     es_capabilities = \<lparr>sc_channels = \<lparr>cc_semantic = True, cc_internal_keys = True,
       cc_native_keys = False\<rparr>, sc_features = []\<rparr>,
     es_state_seq_at_open = Fin 1, es_created_at = 0, es_last_used_at = 0,
     es_lease_owner = ''mcp-client''\<rparr>"

lemma assert_file_path_iff_witness:
  "assert_file_path ''/'' example_session ''/work/app/../app2/x.el'' \<noteq> Inr ()"
proof -
  have segs: "path_segments ''/'' ''/work/app/../app2/x.el'' = [''work'', ''app2'', ''x.el'']"
    "path_segments ''/'' ''/work/app'' = [''work'', ''app'']"
    by (simp_all add: path_segments_def normal_segments_def push_segment_def)
  have "profile (es_permission_profile example_session) = Inr workspace_edit"
    by (simp add: example_session_def profile_def profiles_def)
  moreover have "\<not> pp_save_outside workspace_edit" by (simp add: workspace_edit_def)
  ultimately show ?thesis
    by (subst assert_file_path_iff) (auto simp: example_session_def segs)
qed

text \<open>
  no profile allows arbitrary Emacs Lisp, whatever the name asked for; and a name that is not
  one of the three profiles never allows anything, even when it names a member of
  \<open>Object.prototype\<close> and so is not rejected as unknown.
\<close>

theorem unknown_profile_powerless:
  "(\<forall>name p. profile name = Inr p \<longrightarrow> \<not> pp_arbitrary_elisp p) \<and>
   (\<forall>name p. profile name = Inr p \<and> name \<notin> {''read_only'', ''workspace_edit'', ''trusted_local''} \<longrightarrow>
      \<not> pp_mutations p \<and> \<not> pp_native_keys p \<and> \<not> pp_native_capture p \<and> \<not> pp_structured_eval p \<and>
      \<not> pp_save_outside p) \<and>
   profile ''constructor'' = Inr no_flags"
  by (auto simp: profile_def profiles_def read_only_def workspace_edit_def trusted_local_def
      no_flags_def object_prototype_names_def split: if_splits)

lemma unknown_profile_powerless_witness:
  "\<not> pp_arbitrary_elisp trusted_local \<and> \<not> pp_mutations no_flags"
  using unknown_profile_powerless
  by (auto simp: trusted_local_def no_flags_def)

end
