(* ===== verification/Runtime.thy ===== *)
theory Runtime
  imports Policy "HOL-Library.Multiset"
begin

text \<open>
  \<open>packages/bridge-client/src/runtime.ts\<close> and \<open>packages/mcp-server/src/bridgeRegistry.ts\<close>: finding
  the Emacs instances that published a record in the runtime directory, checking a bridge token
  file, and choosing the record a request is for. The file system, the process table, date parsing
  and the collation order of \<open>localeCompare\<close> are arguments; a file is \<open>None\<close> when it cannot be read
  or is not JSON.
\<close>

subsection \<open>Stable sorting by a comparison\<close>

fun insort_by :: "('a \<Rightarrow> 'a \<Rightarrow> bool) \<Rightarrow> 'a \<Rightarrow> 'a list \<Rightarrow> 'a list" where
  "insort_by le x [] = [x]"
| "insort_by le x (y # ys) = (if le x y then x # y # ys else y # insort_by le x ys)"

text \<open>\<open>Array.prototype.sort\<close> with a comparison function: stable.\<close>

definition sort_by :: "('a \<Rightarrow> 'a \<Rightarrow> bool) \<Rightarrow> 'a list \<Rightarrow> 'a list" where
  "sort_by le xs = foldr (insort_by le) xs []"

lemma mset_insort_by [simp]: "mset (insort_by le x xs) = add_mset x (mset xs)"
  by (induction xs) auto

lemma mset_sort_by [simp]: "mset (sort_by le xs) = mset xs"
  by (induction xs) (simp_all add: sort_by_def)

lemma set_sort_by [simp]: "set (sort_by le xs) = set xs"
  by (metis mset_sort_by set_mset_mset)

lemma sorted_insort_by:
  assumes "\<And>a b. le a b \<or> le b a" "\<And>a b c. le a b \<Longrightarrow> le b c \<Longrightarrow> le a c"
  shows "sorted_wrt le xs \<Longrightarrow> sorted_wrt le (insort_by le x xs)"
proof (induction xs)
  case (Cons y ys)
  have "set (insort_by le x ys) = insert x (set ys)"
    by (metis mset_insort_by set_mset_add_mset_insert set_mset_mset)
  with Cons assms show ?case by auto
qed simp

lemma sorted_sort_by:
  assumes "\<And>a b. le a b \<or> le b a" "\<And>a b c. le a b \<Longrightarrow> le b c \<Longrightarrow> le a c"
  shows "sorted_wrt le (sort_by le xs)"
  using assms by (induction xs) (simp_all add: sort_by_def sorted_insort_by)

subsection \<open>Discovery\<close>

text \<open>\<open>isRecord\<close>: the checks that make a JSON value an instance record.\<close>

definition instance_of_json :: "jval \<Rightarrow> instance_record option" where
  "instance_of_json v =
     (case (is_objlike v, get_prop v ''instance_id'', get_prop v ''pid'', get_prop v ''host'',
            get_prop v ''port'', get_prop v ''token_file'', get_prop v ''heartbeat_at'') of
        (True, JStr i, JNum pid, JStr host, JNum port, JStr tok, JStr beat) \<Rightarrow>
          if host = ''127.0.0.1''
          then Some \<lparr>ir_instance_id = i, ir_pid = pid, ir_port = port, ir_token_file = tok,
                 ir_heartbeat_at = beat, ir_json = v\<rparr>
          else None
      | _ \<Rightarrow> None)"

record discovered =
  di_record :: instance_record
  di_stale :: bool
  di_alive :: bool

text \<open>\<open>/^instance-.*\.json$/\<close>; the dot does not match a line terminator.\<close>

definition instance_file :: "string \<Rightarrow> bool" where
  "instance_file name \<longleftrightarrow> starts_with name ''instance-'' \<and> ends_with name ''.json'' \<and>
     14 \<le> length name \<and> LF \<notin> set name \<and> CR \<notin> set name"

fun jn_sub :: "jnum \<Rightarrow> jnum \<Rightarrow> jnum" where
  "jn_sub a (Fin b) = jn_add a (Fin (- b))"
| "jn_sub a PosInf = jn_add a NegInf"
| "jn_sub a NegInf = jn_add a PosInf"
| "jn_sub a NotNum = NotNum"

definition stale_record :: "int \<Rightarrow> int \<Rightarrow> jnum \<Rightarrow> bool \<Rightarrow> bool" where
  "stale_record stale_after now heartbeat alive \<longleftrightarrow>
     \<not> alive \<or> \<not> is_finite_num heartbeat \<or>
     jn_less (Fin (of_int stale_after)) (jn_sub (Fin (of_int now)) heartbeat)"

definition discover_file ::
  "int \<Rightarrow> int \<Rightarrow> (jnum \<Rightarrow> bool) \<Rightarrow> (string \<Rightarrow> jnum) \<Rightarrow> string \<times> jval option \<Rightarrow> discovered option" where
  "discover_file stale_after now alive date_parse f =
     (if \<not> instance_file (fst f) then None
      else Option.bind (snd f) (\<lambda>raw.
        map_option (\<lambda>r. \<lparr>di_record = r,
             di_stale = stale_record stale_after now (date_parse (ir_heartbeat_at r)) (alive (ir_pid r)),
             di_alive = alive (ir_pid r)\<rparr>)
          (instance_of_json raw)))"

text \<open>The listing is \<open>None\<close> when the runtime directory does not exist.\<close>

definition discover_instances ::
  "int \<Rightarrow> int \<Rightarrow> (jnum \<Rightarrow> bool) \<Rightarrow> (string \<Rightarrow> jnum) \<Rightarrow> (string \<Rightarrow> string \<Rightarrow> bool) \<Rightarrow>
   (string \<times> jval option) list option \<Rightarrow> discovered list" where
  "discover_instances stale_after now alive date_parse collate listing =
     (case listing of
        None \<Rightarrow> []
      | Some files \<Rightarrow>
          sort_by (\<lambda>a b. collate (ir_instance_id (di_record a)) (ir_instance_id (di_record b)))
            (List.map_filter (discover_file stale_after now alive date_parse) files))"

definition default_stale_after :: int where "default_stale_after = 20000"

subsection \<open>The token file\<close>

definition is_hex :: "char \<Rightarrow> bool" where
  "is_hex c \<longleftrightarrow> is_digit c \<or> to_lower_char c \<in> set ''abcdef''"

fun oct_str :: "nat \<Rightarrow> string" where
  "oct_str n = (if n < 8 then [digit_char n] else oct_str (n div 8) @ [digit_char (n mod 8)])"

declare oct_str.simps [simp del]

text \<open>The mode bits of the file, and its content; \<open>None\<close> stands for a file that does not exist.\<close>

definition read_instance_token :: "bool \<Rightarrow> string \<Rightarrow> (nat \<times> string) option \<Rightarrow> exn + string" where
  "read_instance_token win32 token_file file =
     (case file of
        None \<Rightarrow> Inl (JsError ''ENOENT: no such file or directory'')
      | Some (mode, content) \<Rightarrow>
          if \<not> win32 \<and> mode mod 64 \<noteq> 0
          then Inl (op_error_with E_AUTH_FAILED ''Emacs bridge token file permissions are too broad.''
                 [(''token_file'', JStr token_file), (''mode'', JStr (oct_str (mode mod 512)))])
          else (let token = trim content in
            if length token = 64 \<and> list_all is_hex token then Inr token
            else Inl (op_error E_AUTH_FAILED ''Bridge token file is malformed.'')))"

subsection \<open>Choosing an instance\<close>

definition find_record :: "string option \<Rightarrow> discovered list \<Rightarrow> exn + instance_record" where
  "find_record instance_id found =
     (let live = filter (\<lambda>d. \<not> di_stale d) found;
          wanted = (case instance_id of Some i \<Rightarrow> if i = [] then None else Some i | None \<Rightarrow> None)
      in (case wanted of
          Some i \<Rightarrow>
            (case List.find (\<lambda>d. ir_instance_id (di_record d) = i) live of
               None \<Rightarrow> Inl (op_error E_INSTANCE_NOT_FOUND (''No live Emacs instance named '' @ i @ ''.''))
             | Some d \<Rightarrow> Inr (di_record d))
        | None \<Rightarrow>
            (case live of
               [] \<Rightarrow> Inl (op_error E_INSTANCE_NOT_FOUND ''No live Emacs Operator bridge instance was discovered.'')
             | [d] \<Rightarrow> Inr (di_record d)
             | _ \<Rightarrow> Inl (op_error_with E_INVALID_ARGUMENT
                     ''Multiple Emacs instances are available; selector.instance_id is required.''
                     [(''instance_ids'', JArr (map (\<lambda>d. JStr (ir_instance_id (di_record d))) live))]))))"

subsection \<open>Properties\<close>

lemma find_SomeD: "List.find P xs = Some x \<Longrightarrow> x \<in> set xs \<and> P x"
  by (metis find_Some_iff nth_mem)

lemma find_record_live:
  "find_record i found = Inr r \<Longrightarrow> \<exists>d \<in> set found. di_record d = r \<and> \<not> di_stale d"
  by (fastforce simp: find_record_def Let_def filter_eq_Cons_iff dest: find_SomeD
      split: option.splits if_splits list.splits)

lemma discover_checked:
  assumes "d \<in> set (discover_instances stale_after now alive date_parse collate listing)"
  shows "\<exists>files name raw. listing = Some files \<and> (name, Some raw) \<in> set files \<and> instance_file name \<and>
    instance_of_json raw = Some (di_record d) \<and> di_alive d = alive (ir_pid (di_record d)) \<and>
    di_stale d = stale_record stale_after now (date_parse (ir_heartbeat_at (di_record d))) (di_alive d)"
proof -
  obtain files f where files: "listing = Some files" "f \<in> set files"
    and d: "discover_file stale_after now alive date_parse f = Some d"
    using assms by (auto simp: discover_instances_def List.map_filter_def split: option.splits)
  obtain name content where f: "f = (name, content)" by (cases f)
  from d f show ?thesis using files
    by (auto 0 4 simp: discover_file_def bind_eq_Some_conv split: if_splits)
qed

end
