(* ===== verification/Server.thy ===== *)
theory Server
  imports Act Sessions Tickets Idempotency Runtime
begin

text \<open>
  The state of the tool router of \<open>packages/mcp-server/src/tools/toolRouter.ts\<close> and the effects its
  handlers are made of: clock, identifiers, sessions, tickets, audit log, bridge requests (with
  \<open>bridgeRegistry.ts\<close>), native driver. Whatever answers from outside the server (Emacs behind the
  bridge, the native host, the file system, the clock) is a field of the record \<open>env\<close> over an
  abstract world \<open>'w\<close>; an answer may be any value or error.
\<close>

subsection \<open>The environment\<close>

record 'w env =
  ev_now :: "'w \<Rightarrow> int \<times> 'w"  \<comment> \<open>\<open>Date.now()\<close>\<close>
  ev_iso :: "int \<Rightarrow> string"  \<comment> \<open>\<open>toISOString\<close>\<close>
  ev_uuid :: "nat \<Rightarrow> string"  \<comment> \<open>the \<open>n\<close>-th \<open>crypto.randomUUID()\<close>\<close>
  ev_cwd :: string
  ev_listing :: "'w \<Rightarrow> (string \<times> jval option) list option"  \<comment> \<open>the runtime directory\<close>
  ev_alive :: "'w \<Rightarrow> jnum \<Rightarrow> bool"
  ev_date_parse :: "string \<Rightarrow> jnum"
  ev_collate :: "string \<Rightarrow> string \<Rightarrow> bool"
  ev_connect :: "instance_record \<Rightarrow> 'w \<Rightarrow> (exn + nat \<times> jval) \<times> 'w"  \<comment> \<open>a new connection and its handshake\<close>
  ev_close :: "nat \<Rightarrow> 'w \<Rightarrow> 'w"
  ev_request :: "nat \<Rightarrow> string \<Rightarrow> jval \<Rightarrow> jnum option \<Rightarrow> 'w \<Rightarrow> (exn + jval) \<times> 'w"  \<comment> \<open>\<open>BridgeClient.request\<close>\<close>
  ev_driver_init :: "'w \<Rightarrow> (exn + jval) \<times> 'w"
  ev_driver_keys :: "jval \<Rightarrow> jval \<Rightarrow> jval \<Rightarrow> 'w \<Rightarrow> (exn + jval) \<times> 'w"
  ev_driver_restore :: "jval \<Rightarrow> 'w \<Rightarrow> (exn + jval) \<times> 'w"
  ev_driver_capture :: "jval \<Rightarrow> jval \<Rightarrow> 'w \<Rightarrow> (exn + jval) \<times> 'w"
  ev_consume_png :: "jval \<Rightarrow> 'w \<Rightarrow> (exn + jval) \<times> 'w"
  ev_audit_append :: "audit_entry \<Rightarrow> 'w \<Rightarrow> (exn + unit) \<times> 'w"  \<comment> \<open>\<open>fs.appendFileSync\<close>\<close>

subsection \<open>The state\<close>

record call_hooks =
  hk_before :: "state_summary option"
  hk_after :: "state_summary option"
  hk_mutation :: bool
  hk_instance :: "string option"

definition no_hooks :: call_hooks where
  "no_hooks = \<lparr>hk_before = None, hk_after = None, hk_mutation = False, hk_instance = None\<rparr>"

record client_entry =
  ce_handle :: nat
  ce_pid :: jnum
  ce_port :: jnum

text \<open>What leaves the server: a request on a bridge connection, or input through the native host.\<close>

datatype wire_event =
    Bridge_Request nat string jval
  | Native_Keys jval jval
  | Native_Restore jval

text \<open>A step of a workflow: the tool, its arguments, and the result if it succeeded.\<close>

record step_event =
  sp_tool :: string
  sp_args :: "(string \<times> jval) list"
  sp_result :: "jval option"

text \<open>
  \<open>sv_wire\<close> and \<open>sv_steps\<close> are histories: nothing reads them. The other fields are those of the
  \<open>ToolRouter\<close> object (\<open>sv_audit\<close> is the content of the audit file); \<open>sv_hooks\<close> holds the variables
  \<open>before\<close>, \<open>after\<close>, \<open>mutation\<close> and \<open>instanceId\<close> of the running call.
\<close>

record 'w server =
  sv_sessions :: session_manager
  sv_idem :: "tool_envelope idem_cache"
  sv_tickets :: tickets
  sv_audit :: "audit_entry list"
  sv_clients :: "(string, client_entry) js_map"
  sv_hooks :: call_hooks
  sv_uuids :: nat
  sv_wire :: "wire_event list"
  sv_steps :: "step_event list"
  sv_world :: 'w

type_synonym ('w, 'a) handler = "('w server, 'a) act"

definition initial_server :: "'w \<Rightarrow> 'w server" where
  "initial_server w = \<lparr>sv_sessions = empty_manager, sv_idem = [], sv_tickets = [], sv_audit = [],
     sv_clients = [], sv_hooks = no_hooks, sv_uuids = 0, sv_wire = [], sv_steps = [], sv_world = w\<rparr>"

subsection \<open>Basic effects\<close>

definition world :: "('w \<Rightarrow> 'a \<times> 'w) \<Rightarrow> ('w, 'a) handler" where
  "world f = (\<lambda>s. case f (sv_world s) of (x, w) \<Rightarrow> (Inr x, s\<lparr>sv_world := w\<rparr>))"

definition world_try :: "('w \<Rightarrow> (exn + 'a) \<times> 'w) \<Rightarrow> ('w, 'a) handler" where
  "world_try f = (\<lambda>s. case f (sv_world s) of (r, w) \<Rightarrow> (r, s\<lparr>sv_world := w\<rparr>))"

definition clock :: "'w env \<Rightarrow> ('w, int) handler" where
  "clock env = world (ev_now env)"

definition fresh_uuid :: "'w env \<Rightarrow> ('w, string) handler" where
  "fresh_uuid env = (\<lambda>s. (Inr (ev_uuid env (sv_uuids s)), s\<lparr>sv_uuids := Suc (sv_uuids s)\<rparr>))"

definition on_sessions :: "(session_manager \<Rightarrow> (exn + 'a) \<times> session_manager) \<Rightarrow> ('w, 'a) handler" where
  "on_sessions f = (\<lambda>s. case f (sv_sessions s) of (r, m) \<Rightarrow> (r, s\<lparr>sv_sessions := m\<rparr>))"

definition on_tickets :: "(tickets \<Rightarrow> (exn + 'a) \<times> tickets) \<Rightarrow> ('w, 'a) handler" where
  "on_tickets f = (\<lambda>s. case f (sv_tickets s) of (r, ts) \<Rightarrow> (r, s\<lparr>sv_tickets := ts\<rparr>))"

definition update_hooks :: "(call_hooks \<Rightarrow> call_hooks) \<Rightarrow> ('w, unit) handler" where
  "update_hooks f = modify (\<lambda>s. s\<lparr>sv_hooks := f (sv_hooks s)\<rparr>)"

definition set_before :: "state_summary option \<Rightarrow> ('w, unit) handler" where
  "set_before v = update_hooks (hk_before_update (\<lambda>_. v))"

definition set_after :: "state_summary option \<Rightarrow> ('w, unit) handler" where
  "set_after v = update_hooks (hk_after_update (\<lambda>_. v))"

definition mark_mutation :: "('w, unit) handler" where
  "mark_mutation = update_hooks (hk_mutation_update (\<lambda>_. True))"

definition set_instance :: "string \<Rightarrow> ('w, unit) handler" where
  "set_instance v = update_hooks (hk_instance_update (\<lambda>_. Some v))"

subsection \<open>Sessions\<close>

definition session_ttl :: int where "session_ttl = 30 * 60 * 1000"

definition get_session :: "'w env \<Rightarrow> string \<Rightarrow> ('w, emacs_session) handler" where
  "get_session env sid = bind (clock env) (\<lambda>now. on_sessions (sm_get session_ttl now sid))"

definition update_target :: "'w env \<Rightarrow> string \<Rightarrow> resolved_target \<Rightarrow> ('w, emacs_session) handler" where
  "update_target env sid target =
     bind (clock env) (\<lambda>now. on_sessions (sm_update_target session_ttl now sid target))"

definition acquire_mutation :: "'w env \<Rightarrow> string \<Rightarrow> ('w, unit) handler" where
  "acquire_mutation env sid = bind (clock env) (\<lambda>now. on_sessions (sm_acquire session_ttl now sid))"

definition close_session :: "string \<Rightarrow> ('w, bool) handler" where
  "close_session sid = on_sessions (\<lambda>m. case sm_close sid m of (b, m') \<Rightarrow> (Inr b, m'))"

definition open_session_entry :: "'w env \<Rightarrow> session_open_input \<Rightarrow> ('w, emacs_session) handler" where
  "open_session_entry env input =
     bind (clock env) (\<lambda>now. bind (fresh_uuid env) (\<lambda>uuid.
       on_sessions (\<lambda>m. case sm_open now uuid input m of (s, m') \<Rightarrow> (Inr s, m'))))"

subsection \<open>The bridge\<close>

definition discover :: "'w env \<Rightarrow> ('w, discovered list) handler" where
  "discover env = bind (clock env) (\<lambda>now. gets (\<lambda>s.
     discover_instances default_stale_after now (ev_alive env (sv_world s)) (ev_date_parse env)
       (ev_collate env) (ev_listing env (sv_world s))))"

definition find_live_record :: "'w env \<Rightarrow> string option \<Rightarrow> ('w, instance_record) handler" where
  "find_live_record env i = bind (discover env) (\<lambda>found. lift (find_record i found))"

definition same_endpoint :: "client_entry \<Rightarrow> instance_record \<Rightarrow> bool" where
  "same_endpoint c r \<longleftrightarrow> jn_eq (ce_pid c) (ir_pid r) \<and> jn_eq (ce_port c) (ir_port r)"

definition close_client :: "'w env \<Rightarrow> client_entry option \<Rightarrow> ('w, unit) handler" where
  "close_client env c =
     (case c of None \<Rightarrow> ret () | Some c \<Rightarrow> world (\<lambda>w. ((), ev_close env (ce_handle c) w)))"

text \<open>A new client for the record, after the old one is closed.\<close>

definition new_client :: "'w env \<Rightarrow> string \<Rightarrow> instance_record \<Rightarrow> client_entry option \<Rightarrow> ('w, nat \<times> jval) handler" where
  "new_client env i r cached =
     seq (close_client env cached)
     (bind (world_try (ev_connect env r)) (\<lambda>(h, init).
        seq (modify (\<lambda>s. s\<lparr>sv_clients := AList.update i
               \<lparr>ce_handle = h, ce_pid = ir_pid r, ce_port = ir_port r\<rparr> (sv_clients s)\<rparr>))
        (ret (h, init))))"

definition bridge_client :: "'w env \<Rightarrow> string \<Rightarrow> ('w, nat) handler" where
  "bridge_client env i =
     bind (find_live_record env (Some i)) (\<lambda>r.
     bind (gets (\<lambda>s. map_of (sv_clients s) i)) (\<lambda>cached.
       (case cached of
          Some c \<Rightarrow> if same_endpoint c r then ret (ce_handle c)
                     else bind (new_client env i r cached) (\<lambda>(h, init). ret h)
        | None \<Rightarrow> bind (new_client env i r cached) (\<lambda>(h, init). ret h))))"

text \<open>A request: it is recorded as sent, then the bridge answers.\<close>

definition request :: "'w env \<Rightarrow> nat \<Rightarrow> string \<Rightarrow> jval \<Rightarrow> jnum option \<Rightarrow> ('w, jval) handler" where
  "request env c method params timeout =
     seq (modify (\<lambda>s. s\<lparr>sv_wire := sv_wire s @ [Bridge_Request c method params]\<rparr>))
     (world_try (ev_request env c method params timeout))"

definition connect_record :: "'w env \<Rightarrow> instance_record \<Rightarrow> ('w, nat \<times> jval) handler" where
  "connect_record env r =
     bind (gets (\<lambda>s. map_of (sv_clients s) (ir_instance_id r))) (\<lambda>cached.
       (case cached of
          Some c \<Rightarrow>
            if same_endpoint c r
            then bind (request env (ce_handle c) ''instance.describe'' (JObj []) None) (\<lambda>init. ret (ce_handle c, init))
            else new_client env (ir_instance_id r) r cached
        | None \<Rightarrow> new_client env (ir_instance_id r) r cached))"

subsection \<open>Helper functions of \<open>toolRouter.ts\<close>\<close>

definition opt_field :: "string \<Rightarrow> jval \<Rightarrow> (string \<times> jval) list" where
  "opt_field k v = (if truthy v then [(k, v)] else [])"

definition snake_target :: "emacs_session \<Rightarrow> jval" where
  "snake_target s = (let t = es_target s in JObj
     (opt_field ''frame_id'' (st_frame_id t) @ opt_field ''window_id'' (st_window_id t)
      @ opt_field ''buffer_id'' (st_buffer_id t) @ opt_field ''project_root'' (st_project_root t)
      @ opt_field ''file'' (st_file t)))"

definition override :: "jval \<Rightarrow> jval \<Rightarrow> jval" where
  "override v d = (if is_string v \<and> v \<noteq> JStr [] then v else d)"

definition native_target :: "emacs_session \<Rightarrow> jnum \<Rightarrow> jval \<Rightarrow> jval \<Rightarrow> jval" where
  "native_target s pid title identifier = JObj
     ([(''pid'', JNum pid)] @ opt_field ''window_title'' (override title (st_frame_title (es_target s)))
      @ opt_field ''window_identifier'' (override identifier (st_native_window (es_target s))))"

definition policy_context :: "emacs_session \<Rightarrow> jval" where
  "policy_context s = JObj
     [(''profile'', JStr (es_permission_profile s)),
      (''project_root'', nullish_or (st_project_root (es_target s)) JNull)]"

definition as_record_value :: "jval \<Rightarrow> jval" where
  "as_record_value v = record_or_empty v"

definition str_or_null :: "jval \<Rightarrow> jval" where
  "str_or_null v = (if is_string v then v else JNull)"

definition normalize_structured_evaluation :: "jval \<Rightarrow> exn + attempt" where
  "normalize_structured_evaluation response =
     andthen (read_prop response ''evaluation'') (\<lambda>ev.
       let dispatch = as_record_value ev;
           res = as_record_value (nullish_or (get_prop dispatch ''result'') dispatch)
       in Inr (JObj (spread (fields_of res)
            [(''adapter'', if is_string (get_prop dispatch ''adapter'') then get_prop dispatch ''adapter''
                else str_or_null (get_prop res ''adapter'')),
             (''completed'', JBool (get_prop res ''completed'' = JBool True)),
             (''metadata'', as_record_value (get_prop res ''metadata''))])))"

definition finite_num :: "jval \<Rightarrow> jnum option" where
  "finite_num v = (case v of JNum n \<Rightarrow> if is_finite_num n then Some n else None | _ \<Rightarrow> None)"

record fingerprint =
  fp_sha :: "string option"
  fp_start :: "jnum option"
  fp_bounds :: "(jnum \<times> jnum) option"

definition source_start_from_metadata :: "jval \<Rightarrow> jnum option" where
  "source_start_from_metadata m =
     (case finite_num (get_prop m ''source_start'') of
        Some n \<Rightarrow> Some n
      | None \<Rightarrow> (case get_prop m ''source_bounds'' of JArr [a, b] \<Rightarrow> finite_num a | _ \<Rightarrow> None))"

definition source_bounds_of :: "jval \<Rightarrow> (jnum \<times> jnum) option" where
  "source_bounds_of v =
     (case v of
        JArr [a, b] \<Rightarrow> (case (finite_num a, finite_num b) of (Some x, Some y) \<Rightarrow> Some (x, y) | _ \<Rightarrow> None)
      | _ \<Rightarrow> None)"

definition analysis_fingerprint :: "jval \<Rightarrow> exn + fingerprint" where
  "analysis_fingerprint response =
     andthen (read_prop response ''analysis'') (\<lambda>a.
       let level1 = as_record_value a;
           level2 = as_record_value (nullish_or (get_prop level1 ''result'')
                      (nullish_or (get_prop level1 ''analysis'') level1));
           level3 = as_record_value (nullish_or (get_prop level2 ''analysis'') level2);
           bounds = source_bounds_of (get_prop level3 ''source_bounds'')
       in Inr \<lparr>fp_sha = string_of (get_prop level3 ''source_sha256''),
            fp_start = (case finite_num (get_prop level3 ''source_start'') of
               Some n \<Rightarrow> Some n | None \<Rightarrow> map_option fst bounds),
            fp_bounds = bounds\<rparr>)"

definition summary_of :: "jval \<Rightarrow> state_summary option" where
  "summary_of observed =
     (if \<not> is_objlike observed then None
      else (let buffer = get_prop observed ''buffer''; cursor = get_prop observed ''cursor'' in
        Some \<lparr>ss_state_seq = num_of (get_prop observed ''state_seq''),
          ss_buffer_tick = num_of (get_prop buffer ''buffer_tick''),
          ss_buffer_id = string_of (get_prop buffer ''id''),
          ss_major_mode = string_of (get_prop buffer ''major_mode''),
          ss_point = num_of (get_prop cursor ''point'')\<rparr>))"

definition observe_compact :: "'w env \<Rightarrow> nat \<Rightarrow> emacs_session \<Rightarrow> ('w, jval) handler" where
  "observe_compact env c s = request env c ''state.observe''
     (JObj [(''target'', snake_target s), (''scope'', JArr [JStr ''compact'']), (''around_chars'', jint 256)]) None"

text \<open>\<open>hooks.setBefore(stateSummary(await this.observeCompact(...)))\<close>, and the same for \<open>after\<close>.\<close>

definition observe_before :: "'w env \<Rightarrow> nat \<Rightarrow> emacs_session \<Rightarrow> ('w, jval) handler" where
  "observe_before env c s =
     bind (observe_compact env c s) (\<lambda>o'. seq (set_before (summary_of o')) (ret o'))"

definition observe_after :: "'w env \<Rightarrow> nat \<Rightarrow> emacs_session \<Rightarrow> ('w, jval) handler" where
  "observe_after env c s =
     bind (observe_compact env c s) (\<lambda>o'. seq (set_after (summary_of o')) (ret o'))"

text \<open>\<open>typeof v === "number" ? f(v) : d\<close>.\<close>

definition num_arg :: "jval \<Rightarrow> (jnum \<Rightarrow> jnum) \<Rightarrow> jnum \<Rightarrow> jnum" where
  "num_arg v f d = (case v of JNum n \<Rightarrow> f n | _ \<Rightarrow> d)"

definition floor_clamp :: "rat \<Rightarrow> rat \<Rightarrow> jnum \<Rightarrow> jnum" where
  "floor_clamp lo hi n = jn_clamp lo hi (jn_floor n)"

definition null_or :: "jval \<Rightarrow> jval" where
  "null_or v = nullish_or v JNull"

end
