(* ===== verification/UnifiedDiff.thy ===== *)
theory UnifiedDiff
  imports Errors
begin

text \<open>
  \<open>packages/protocol/src/unifiedDiff.ts\<close>: the parser of unified diffs and their application to a
  text. The model follows the two loops of the source; \<open>patch_spec\<close> is the declarative meaning of a
  list of hunks, and \<open>apply_hunks_iff\<close> says that the loop computes exactly that.
\<close>

datatype hunk_line = Context string | Add string | Remove string

record hunk =
  old_start :: nat
  old_count :: nat
  new_start :: nat
  new_count :: nat
  hunk_lines :: "hunk_line list"

subsection \<open>The header \<open>@@ -a,b +c,d @@\<close>\<close>

text \<open>One \<open>(\d+)(?:,(\d+))?\<close> of the regular expression, a missing count being 1.\<close>

definition parse_range :: "string \<Rightarrow> ((nat \<times> nat) \<times> string) option" where
  "parse_range s =
     (let ds = takeWhile is_digit s; r = dropWhile is_digit s in
      if ds = [] then None
      else case r of
          [] \<Rightarrow> Some ((dec_val ds, 1), r)
        | c # r' \<Rightarrow>
            if c = CHR '','' \<and> takeWhile is_digit r' \<noteq> []
            then Some ((dec_val ds, dec_val (takeWhile is_digit r')), dropWhile is_digit r')
            else Some ((dec_val ds, 1), r))"

definition strip_prefix :: "string \<Rightarrow> string \<Rightarrow> string option" where
  "strip_prefix p s = (if starts_with s p then Some (drop (length p) s) else None)"

definition parse_header :: "string \<Rightarrow> hunk option" where
  "parse_header line =
     (case strip_prefix ''@@ -'' line of
        None \<Rightarrow> None
      | Some s1 \<Rightarrow>
          (case parse_range s1 of
             None \<Rightarrow> None
           | Some ((os, oc), s2) \<Rightarrow>
               (case strip_prefix '' +'' s2 of
                  None \<Rightarrow> None
                | Some s3 \<Rightarrow>
                    (case parse_range s3 of
                       None \<Rightarrow> None
                     | Some ((ns, nc), s4) \<Rightarrow>
                         if starts_with s4 '' @@''
                         then Some \<lparr>old_start = os, old_count = oc, new_start = ns, new_count = nc,
                                hunk_lines = []\<rparr>
                         else None))))"

subsection \<open>\<open>parseHunks\<close>\<close>

definition push_line :: "hunk_line \<Rightarrow> hunk \<Rightarrow> hunk" where
  "push_line l h = h\<lparr>hunk_lines := hunk_lines h @ [l]\<rparr>"

definition no_newline_marker :: string where
  "no_newline_marker = BACKSLASH # '' No newline at end of file''"

text \<open>The loop over the lines; the hunks are kept newest first, so \<open>current\<close> is the head.\<close>

fun parse_loop :: "hunk list \<Rightarrow> string list \<Rightarrow> exn + hunk list" where
  "parse_loop hunks [] = Inr (rev hunks)"
| "parse_loop hunks (line # rest) =
     (case parse_header line of
        Some h \<Rightarrow> parse_loop (h # hunks) rest
      | None \<Rightarrow>
          (case hunks of
             [] \<Rightarrow> parse_loop [] rest
           | current # older \<Rightarrow>
               if starts_with line no_newline_marker then parse_loop hunks rest
               else (case line of
                   [] \<Rightarrow> parse_loop hunks rest
                 | c # text \<Rightarrow>
                     (if c = CHR '' '' then parse_loop (push_line (Context text) current # older) rest
                     else if c = CHR ''+'' then parse_loop (push_line (Add text) current # older) rest
                     else if c = CHR ''-'' then parse_loop (push_line (Remove text) current # older) rest
                     else Inl (op_error E_INVALID_ARGUMENT (''Invalid unified diff line: '' @ line))))))"

definition parse_hunks :: "string \<Rightarrow> exn + hunk list" where
  "parse_hunks diff =
     (case parse_loop [] (split_on LF (crlf_to_lf diff)) of
        Inl e \<Rightarrow> Inl e
      | Inr hunks \<Rightarrow>
          if hunks = [] then Inl (op_error E_INVALID_ARGUMENT ''Unified diff contains no hunks.'')
          else Inr hunks)"

subsection \<open>\<open>applyUnifiedDiff\<close>\<close>

text \<open>The mutable variables of the two loops.\<close>

record apply_state =
  out_lines :: "string list"
  source_index :: nat
  old_seen :: nat
  new_seen :: nat

definition line_at :: "string list \<Rightarrow> nat \<Rightarrow> string option" where
  "line_at lines i = (if i < length lines then Some (lines ! i) else None)"

definition conflict :: "string \<Rightarrow> string list \<Rightarrow> nat \<Rightarrow> string \<Rightarrow> exn" where
  "conflict msg lines i expected =
     op_error_with E_STATE_CONFLICT msg
       [(''line'', jnat (i + 1)), (''expected'', JStr expected), (''actual'', jopt_str (line_at lines i))]"

fun apply_lines :: "string list \<Rightarrow> hunk_line list \<Rightarrow> apply_state \<Rightarrow> exn + apply_state" where
  "apply_lines lines [] st = Inr st"
| "apply_lines lines (Context text # ls) st =
     (if line_at lines (source_index st) \<noteq> Some text
      then Inl (conflict ''Unified diff context does not match current buffer.'' lines (source_index st) text)
      else apply_lines lines ls
        (st\<lparr>out_lines := out_lines st @ [text], source_index := source_index st + 1,
            old_seen := old_seen st + 1, new_seen := new_seen st + 1\<rparr>))"
| "apply_lines lines (Remove text # ls) st =
     (if line_at lines (source_index st) \<noteq> Some text
      then Inl (conflict ''Unified diff removal does not match current buffer.'' lines (source_index st) text)
      else apply_lines lines ls
        (st\<lparr>source_index := source_index st + 1, old_seen := old_seen st + 1\<rparr>))"
| "apply_lines lines (Add text # ls) st =
     apply_lines lines ls (st\<lparr>out_lines := out_lines st @ [text], new_seen := new_seen st + 1\<rparr>)"

definition target_index :: "hunk \<Rightarrow> nat" where
  "target_index h = old_start h - 1"

definition apply_hunk :: "string list \<Rightarrow> hunk \<Rightarrow> string list \<times> nat \<Rightarrow> exn + string list \<times> nat" where
  "apply_hunk lines h acc =
     (case acc of (out, src) \<Rightarrow>
      if target_index h < src
      then Inl (op_error E_INVALID_ARGUMENT ''Unified diff hunks overlap or are out of order.'')
      else case apply_lines lines (hunk_lines h)
             \<lparr>out_lines = out @ slice src (target_index h) lines, source_index = target_index h,
              old_seen = 0, new_seen = 0\<rparr> of
          Inl e \<Rightarrow> Inl e
        | Inr st \<Rightarrow>
            if old_seen st \<noteq> old_count h \<or> new_seen st \<noteq> new_count h
            then Inl (op_error_with E_INVALID_ARGUMENT ''Unified diff hunk counts do not match hunk body.''
                   [(''old_seen'', jnat (old_seen st)), (''old_count'', jnat (old_count h)),
                    (''new_seen'', jnat (new_seen st)), (''new_count'', jnat (new_count h))])
            else Inr (out_lines st, source_index st))"

fun apply_hunks :: "string list \<Rightarrow> hunk list \<Rightarrow> string list \<times> nat \<Rightarrow> exn + string list" where
  "apply_hunks lines [] (out, src) = Inr (out @ drop src lines)"
| "apply_hunks lines (h # hs) (out, src) =
     (case apply_hunk lines h (out, src) of Inl e \<Rightarrow> Inl e | Inr acc \<Rightarrow> apply_hunks lines hs acc)"

definition original_lines :: "string \<Rightarrow> string list" where
  "original_lines original =
     (let lines = split_on LF (crlf_to_lf original)
      in if ends_with original [LF] then butlast lines else lines)"

definition apply_unified_diff :: "string \<Rightarrow> string \<Rightarrow> exn + string" where
  "apply_unified_diff original diff =
     (case parse_hunks diff of
        Inl e \<Rightarrow> Inl e
      | Inr hunks \<Rightarrow>
          (case apply_hunks (original_lines original) hunks ([], 0) of
             Inl e \<Rightarrow> Inl e
           | Inr out \<Rightarrow> Inr (join [LF] out @ (if ends_with original [LF] then [LF] else []))))"

subsection \<open>What a list of hunks means\<close>

text \<open>
  The old and the new side of a hunk, and the declarative meaning of a patch: the text is cut at
  the positions the hunks name, each hunk's old side is found there and replaced by its new side,
  and everything between is kept.
\<close>

fun old_side :: "hunk_line list \<Rightarrow> string list" where
  "old_side [] = []"
| "old_side (Context t # ls) = t # old_side ls"
| "old_side (Remove t # ls) = t # old_side ls"
| "old_side (Add t # ls) = old_side ls"

fun new_side :: "hunk_line list \<Rightarrow> string list" where
  "new_side [] = []"
| "new_side (Context t # ls) = t # new_side ls"
| "new_side (Remove t # ls) = new_side ls"
| "new_side (Add t # ls) = t # new_side ls"

definition counts_ok :: "hunk \<Rightarrow> bool" where
  "counts_ok h \<longleftrightarrow> length (old_side (hunk_lines h)) = old_count h \<and> length (new_side (hunk_lines h)) = new_count h"

text \<open>
  \<open>patch_spec pos text hs out\<close>: \<open>text\<close> is the part of the original from line \<open>pos\<close> (counted from 0)
  on, and \<open>out\<close> what the hunks make of it.
\<close>

inductive patch_spec :: "nat \<Rightarrow> string list \<Rightarrow> hunk list \<Rightarrow> string list \<Rightarrow> bool" where
  patch_nil: "patch_spec pos text [] text"
| patch_hunk:
    "pos \<le> target_index h \<Longrightarrow> counts_ok h \<Longrightarrow>
     drop (target_index h - pos) text = old_side (hunk_lines h) @ rest \<Longrightarrow>
     patch_spec (target_index h + length (old_side (hunk_lines h))) rest hs out \<Longrightarrow>
     patch_spec pos text (h # hs)
       (take (target_index h - pos) text @ new_side (hunk_lines h) @ out)"

inductive_simps patch_spec_Nil: "patch_spec pos text [] out"
inductive_simps patch_spec_Cons: "patch_spec pos text (h # hs) out"

lemma line_at_drop: "line_at lines i = Some t \<longleftrightarrow> drop i lines = t # drop (Suc i) lines"
proof
  assume "line_at lines i = Some t"
  then show "drop i lines = t # drop (Suc i) lines"
    by (auto simp: line_at_def Cons_nth_drop_Suc split: if_splits)
next
  assume eq: "drop i lines = t # drop (Suc i) lines"
  then have "i < length lines"
    by (metis drop_all linorder_not_less list.distinct(1))
  with eq show "line_at lines i = Some t"
    by (metis line_at_def Cons_nth_drop_Suc list.inject)
qed

lemma starts_with_head: "starts_with (drop i xs) (x # p) \<Longrightarrow> drop i xs = x # drop (Suc i) xs"
  by (cases "drop i xs") (auto simp: drop_Suc drop_tl [symmetric] dest: arg_cong [where f = tl])

text \<open>A hunk's loop succeeds exactly when the old side stands at the source index.\<close>

lemma apply_lines_iff:
  "apply_lines lines ls st = Inr st' \<longleftrightarrow>
     starts_with (drop (source_index st) lines) (old_side ls) \<and>
     st' = \<lparr>out_lines = out_lines st @ new_side ls,
            source_index = source_index st + length (old_side ls),
            old_seen = old_seen st + length (old_side ls),
            new_seen = new_seen st + length (new_side ls)\<rparr>"
proof (induction lines ls st rule: apply_lines.induct)
  case (1 lines st)
  then show ?case by (cases st) auto
next
  case (2 lines x ls st)
  then show ?case
    by (cases "line_at lines (source_index st) = Some x")
      (auto simp: line_at_drop dest: starts_with_head)
next
  case (3 lines x ls st)
  then show ?case
    by (cases "line_at lines (source_index st) = Some x")
      (auto simp: line_at_drop dest: starts_with_head)
next
  case (4 lines x ls st)
  then show ?case by auto
qed


lemma apply_hunk_iff:
  "apply_hunk lines h (out, src) = Inr (out', src') \<longleftrightarrow>
     src \<le> target_index h \<and> counts_ok h \<and>
     starts_with (drop (target_index h) lines) (old_side (hunk_lines h)) \<and>
     out' = out @ slice src (target_index h) lines @ new_side (hunk_lines h) \<and>
     src' = target_index h + length (old_side (hunk_lines h))"
  (is "?lhs \<longleftrightarrow> ?rhs")
proof (cases "apply_lines lines (hunk_lines h)
    \<lparr>out_lines = out @ slice src (target_index h) lines, source_index = target_index h,
     old_seen = 0, new_seen = 0\<rparr>")
  case (Inl e)
  then have "\<not> starts_with (drop (target_index h) lines) (old_side (hunk_lines h))"
    using apply_lines_iff [of lines "hunk_lines h"] by (metis Inl_Inr_False apply_state.select_convs(2))
  with Inl show ?thesis by (auto simp: apply_hunk_def)
next
  case (Inr st)
  note st = Inr [unfolded apply_lines_iff, simplified]
  from st Inr show ?thesis
    by (auto simp: apply_hunk_def counts_ok_def)
qed

lemma apply_hunks_iff_gen:
  "apply_hunks lines hs (pre, src) = Inr res \<longleftrightarrow>
     (\<exists>out. res = pre @ out \<and> patch_spec src (drop src lines) hs out)"
proof (induction hs arbitrary: pre src res)
  case Nil
  then show ?case by (auto simp: patch_spec_Nil)
next
  case (Cons h hs)
  let ?t = "target_index h" and ?old = "old_side (hunk_lines h)"
  have drop_t: "drop (?t - src) (drop src lines) = drop ?t lines" if "src \<le> ?t"
    using that by simp
  have pre: "starts_with (drop ?t lines) ?old \<longleftrightarrow> (\<exists>rest. drop ?t lines = ?old @ rest)"
    by (auto simp: starts_with_prefix prefix_def)
  have rest: "drop ?t lines = ?old @ rest \<Longrightarrow> rest = drop (?t + length ?old) lines" for rest
    by (metis add.commute append_eq_conv_conj drop_drop)
  show ?case
  proof (cases "apply_hunk lines h (pre, src)")
    case (Inl e)
    then have "\<not> (src \<le> ?t \<and> counts_ok h \<and> starts_with (drop ?t lines) ?old)"
      using apply_hunk_iff by (metis Inl_Inr_False)
    with Inl show ?thesis by (auto simp: patch_spec_Cons pre)
  next
    case (Inr acc)
    obtain out' src' where acc: "acc = (out', src')" by (cases acc)
    with Inr have ok: "src \<le> ?t" "counts_ok h" "starts_with (drop ?t lines) ?old"
      and out': "out' = pre @ slice src ?t lines @ new_side (hunk_lines h)"
      and src': "src' = ?t + length ?old"
      by (simp_all add: apply_hunk_iff)
    have drop_t': "drop ?t lines = ?old @ drop src' lines"
      using ok(3) rest by (auto simp: pre src')
    have step: "patch_spec src (drop src lines) (h # hs) o1 \<longleftrightarrow>
        (\<exists>o2. o1 = slice src ?t lines @ new_side (hunk_lines h) @ o2 \<and> patch_spec src' (drop src' lines) hs o2)"
      for o1
      unfolding patch_spec_Cons drop_t [OF ok(1)] drop_t' slice_def src' [symmetric]
      using ok(1,2) by auto
    have "apply_hunks lines (h # hs) (pre, src) = apply_hunks lines hs (out', src')"
      by (simp add: Inr acc)
    then have "apply_hunks lines (h # hs) (pre, src) = Inr res \<longleftrightarrow>
        (\<exists>o2. res = out' @ o2 \<and> patch_spec src' (drop src' lines) hs o2)"
      by (simp only: Cons.IH)
    then show ?thesis
      unfolding step out' by auto
  qed
qed

text \<open>The two loops of the source compute exactly the declarative meaning.\<close>

lemma apply_hunks_iff:
  "apply_hunks lines hs ([], 0) = Inr out \<longleftrightarrow> patch_spec 0 lines hs out"
  by (simp add: apply_hunks_iff_gen)

lemma patch_spec_unique: "patch_spec pos body hs out \<Longrightarrow> patch_spec pos body hs out' \<Longrightarrow> out = out'"
proof (induction arbitrary: out' rule: patch_spec.induct)
  case (patch_nil pos body)
  then show ?case by (simp add: patch_spec_Nil)
next
  case (patch_hunk pos h body rest hs out)
  from patch_hunk.prems obtain rest' o2
    where r: "drop (target_index h - pos) body = old_side (hunk_lines h) @ rest'"
      and o2: "patch_spec (target_index h + length (old_side (hunk_lines h))) rest' hs o2"
      and out': "out' = take (target_index h - pos) body @ new_side (hunk_lines h) @ o2"
    unfolding patch_spec_Cons by blast
  from r patch_hunk.hyps(3) have "rest' = rest" by simp
  with o2 have "out = o2" by (intro patch_hunk.IH) simp
  with out' show ?case by simp
qed

subsection \<open>Reversing a patch\<close>

fun invert_line :: "hunk_line \<Rightarrow> hunk_line" where
  "invert_line (Context t) = Context t"
| "invert_line (Add t) = Remove t"
| "invert_line (Remove t) = Add t"

definition invert_hunk :: "hunk \<Rightarrow> hunk" where
  "invert_hunk h = \<lparr>old_start = new_start h, old_count = new_count h, new_start = old_start h,
     new_count = old_count h, hunk_lines = map invert_line (hunk_lines h)\<rparr>"

lemma sides_invert [simp]:
  "old_side (map invert_line ls) = new_side ls" "new_side (map invert_line ls) = old_side ls"
  by (induction ls rule: old_side.induct) auto

lemma counts_ok_invert [simp]: "counts_ok (invert_hunk h) \<longleftrightarrow> counts_ok h"
  by (auto simp: counts_ok_def invert_hunk_def)

text \<open>
  \<open>placed n p q hs\<close>: in a text of \<open>n\<close> lines, with the old text consumed up to \<open>p\<close> and the new one
  written up to \<open>q\<close>, every hunk lies inside the text and its new start is the position at which
  its new side is written. Diff tools produce such hunks; the source never reads \<open>newStart\<close>.
\<close>

fun placed :: "nat \<Rightarrow> nat \<Rightarrow> nat \<Rightarrow> hunk list \<Rightarrow> bool" where
  "placed n p q [] = True"
| "placed n p q (h # hs) =
     (p \<le> target_index h \<and> target_index h \<le> n \<and> 1 \<le> new_start h \<and>
      new_start h - 1 = q + (target_index h - p) \<and>
      placed n (target_index h + length (old_side (hunk_lines h)))
        (new_start h - 1 + length (new_side (hunk_lines h))) hs)"

lemma patch_spec_invert:
  "patch_spec pos body hs out \<Longrightarrow> placed (pos + length body) pos q hs \<Longrightarrow>
     patch_spec q out (map invert_hunk hs) body"
proof (induction arbitrary: q rule: patch_spec.induct)
  case (patch_nil pos body)
  then show ?case by (simp add: patch_spec_Nil)
next
  case (patch_hunk pos h body rest hs out)
  let ?k = "take (target_index h - pos) body" and ?t = "target_index h"
  let ?old = "old_side (hunk_lines h)" and ?new = "new_side (hunk_lines h)"
  from patch_hunk.prems have le: "pos \<le> ?t" "?t \<le> pos + length body" "1 \<le> new_start h"
    and ns: "new_start h - 1 = q + (?t - pos)"
    and pl: "placed (pos + length body) (?t + length ?old) (new_start h - 1 + length ?new) hs"
    by auto
  have len_k: "length ?k = ?t - pos"
    using le by auto
  have body: "body = ?k @ ?old @ rest"
    using patch_hunk.hyps(3) by (metis append_take_drop_id)
  have "length body = (?t - pos) + length ?old + length rest"
    by (subst body) (simp add: len_k [simplified])
  then have "pos + length body = ?t + length ?old + length rest"
    using le by linarith
  with pl patch_hunk.IH [of "new_start h - 1 + length ?new"]
  have IH: "patch_spec (new_start h - 1 + length ?new) out (map invert_hunk hs) rest"
    by simp
  have tgt: "target_index (invert_hunk h) = q + (?t - pos)"
    using ns by (simp add: target_index_def invert_hunk_def)
  have "patch_spec q (?k @ ?new @ out) (invert_hunk h # map invert_hunk hs)
      (take (target_index (invert_hunk h) - q) (?k @ ?new @ out) @
       new_side (hunk_lines (invert_hunk h)) @ rest)"
  proof (rule patch_spec.patch_hunk [where rest = out])
    show "q \<le> target_index (invert_hunk h)" using tgt by simp
    show "counts_ok (invert_hunk h)" using patch_hunk.hyps(2) by simp
    show "drop (target_index (invert_hunk h) - q) (?k @ ?new @ out)
      = old_side (hunk_lines (invert_hunk h)) @ out"
      unfolding tgt using len_k by (simp add: invert_hunk_def)
    show "patch_spec (target_index (invert_hunk h) + length (old_side (hunk_lines (invert_hunk h))))
      out (map invert_hunk hs) rest"
      using IH ns by (simp add: tgt) (simp add: invert_hunk_def)
  qed
  moreover have "take (target_index (invert_hunk h) - q) (?k @ ?new @ out) = ?k"
    unfolding tgt using len_k by simp
  moreover have "new_side (hunk_lines (invert_hunk h)) = ?old"
    by (simp add: invert_hunk_def)
  ultimately have "patch_spec q (?k @ ?new @ out) (map invert_hunk (h # hs)) (?k @ ?old @ rest)"
    by (simp only: list.map)
  then show ?case
    by (simp only: body [symmetric])
qed


subsection \<open>Printing a patch\<close>

text \<open>The text of a list of hunks in the format the parser reads.\<close>

fun line_text :: "hunk_line \<Rightarrow> string" where
  "line_text (Context t) = CHR '' '' # t"
| "line_text (Add t) = CHR ''+'' # t"
| "line_text (Remove t) = CHR ''-'' # t"

fun line_body :: "hunk_line \<Rightarrow> string" where
  "line_body (Context t) = t"
| "line_body (Add t) = t"
| "line_body (Remove t) = t"

definition range_text :: "nat \<Rightarrow> nat \<Rightarrow> string" where
  "range_text a b = dec_str a @ '','' @ dec_str b"

definition header_text :: "hunk \<Rightarrow> string" where
  "header_text h = ''@@ -'' @ range_text (old_start h) (old_count h)
     @ '' +'' @ range_text (new_start h) (new_count h) @ '' @@''"

definition hunk_text :: "hunk \<Rightarrow> string list" where
  "hunk_text h = header_text h # map line_text (hunk_lines h)"

definition render_hunks :: "hunk list \<Rightarrow> string" where
  "render_hunks hs = join [LF] (concat (map hunk_text hs))"

definition clean_lines :: "hunk \<Rightarrow> bool" where
  "clean_lines h \<longleftrightarrow> (\<forall>l \<in> set (hunk_lines h). LF \<notin> set (line_body l) \<and> CR \<notin> set (line_body l))"

lemma takeWhile_dec_str:
  "s = [] \<or> \<not> is_digit (hd s) \<Longrightarrow> takeWhile is_digit (dec_str n @ s) = dec_str n"
  by (cases s) (auto simp: takeWhile_append dec_str_digits)

lemma dropWhile_dec_str:
  "s = [] \<or> \<not> is_digit (hd s) \<Longrightarrow> dropWhile is_digit (dec_str n @ s) = s"
  by (cases s) (auto simp: dropWhile_append dec_str_digits)

lemma parse_range_text:
  assumes "s = [] \<or> \<not> is_digit (hd s)"
  shows "parse_range (range_text a b @ s) = Some ((a, b), s)"
proof -
  have comma: "\<not> is_digit (CHR '','')" by (simp add: is_digit_def)
  then show ?thesis
    using assms
    by (simp add: parse_range_def range_text_def takeWhile_dec_str dropWhile_dec_str)
qed

lemma parse_header_text:
  "parse_header (header_text h) = Some (h\<lparr>hunk_lines := []\<rparr>)"
proof -
  have space: "\<not> is_digit (CHR '' '')" by (simp add: is_digit_def)
  have strip: "strip_prefix p (p @ s) = Some s" for p s
    by (simp add: strip_prefix_def)
  have "parse_header (''@@ -'' @ range_text (old_start h) (old_count h)
      @ '' +'' @ range_text (new_start h) (new_count h) @ '' @@'')
    = Some \<lparr>old_start = old_start h, old_count = old_count h, new_start = new_start h,
        new_count = new_count h, hunk_lines = []\<rparr>"
    unfolding parse_header_def strip
    using space by (simp add: parse_range_text strip_prefix_def starts_with_def)
  then show ?thesis by (simp add: header_text_def)
qed

lemma parse_header_None: "line = [] \<or> hd line \<noteq> CHR ''@'' \<Longrightarrow> parse_header line = None"
  by (cases line) (auto simp: parse_header_def strip_prefix_def)

lemma parse_loop_lines:
  "parse_loop (h # hs) (map line_text ls @ rest) =
     parse_loop (h\<lparr>hunk_lines := hunk_lines h @ ls\<rparr> # hs) rest"
proof (induction ls arbitrary: h)
  case Nil
  then show ?case by simp
next
  case (Cons l ls)
  show ?case
    by (cases l) (simp_all add: parse_header_None no_newline_marker_def Cons.IH push_line_def)
qed

lemma parse_loop_hunks:
  "parse_loop acc (concat (map hunk_text hs)) = Inr (rev acc @ hs)"
proof (induction hs arbitrary: acc)
  case Nil
  then show ?case by simp
next
  case (Cons h hs)
  then show ?case by (simp add: hunk_text_def parse_header_text parse_loop_lines)
qed

lemma range_text_clean: "c \<in> set (range_text a b) \<Longrightarrow> is_digit c \<or> c = CHR '',''"
  by (auto simp: range_text_def dec_str_digits)

lemma header_text_clean: "LF \<notin> set (header_text h)" "CR \<notin> set (header_text h)"
  using range_text_clean [of LF] range_text_clean [of CR]
  by (auto simp: header_text_def is_digit_def)

lemma hunk_text_clean:
  "clean_lines h \<Longrightarrow> l \<in> set (hunk_text h) \<Longrightarrow> LF \<notin> set l \<and> CR \<notin> set l"
proof -
  have "set (line_text x) \<subseteq> insert (CHR '' '') (insert (CHR ''+'') (insert (CHR ''-'') (set (line_body x))))" for x
    by (cases x) auto
  then have "LF \<in> set (line_text x) \<Longrightarrow> LF \<in> set (line_body x)"
    "CR \<in> set (line_text x) \<Longrightarrow> CR \<in> set (line_body x)" for x
    by fastforce+
  then show "clean_lines h \<Longrightarrow> l \<in> set (hunk_text h) \<Longrightarrow> LF \<notin> set l \<and> CR \<notin> set l"
    by (auto simp: hunk_text_def header_text_clean clean_lines_def)
qed

text \<open>Parsing inverts printing.\<close>

lemma parse_render:
  assumes "hs \<noteq> []" "\<forall>h \<in> set hs. clean_lines h"
  shows "parse_hunks (render_hunks hs) = Inr hs"
proof -
  let ?ls = "concat (map hunk_text hs)"
  have ne: "?ls \<noteq> []" using assms(1) by (cases hs) (auto simp: hunk_text_def)
  have clean: "LF \<notin> set l \<and> CR \<notin> set l" if "l \<in> set ?ls" for l
    using that assms(2) by (auto dest: hunk_text_clean)
  have "CR \<notin> set (render_hunks hs)"
    using set_join [of "[LF]" ?ls] clean by (auto simp: render_hunks_def)
  then have "split_on LF (crlf_to_lf (render_hunks hs)) = ?ls"
    using split_on_join [OF ne] clean by (metis crlf_to_lf_id render_hunks_def)
  then show ?thesis
    using assms(1) by (simp add: parse_hunks_def parse_loop_hunks)
qed

lemma clean_lines_invert: "clean_lines h \<Longrightarrow> clean_lines (invert_hunk h)"
proof -
  have "line_body (invert_line l) = line_body l" for l by (cases l) auto
  then show "clean_lines h \<Longrightarrow> clean_lines (invert_hunk h)"
    by (auto simp: clean_lines_def invert_hunk_def)
qed

lemma set_patch_spec:
  "patch_spec pos body hs out \<Longrightarrow>
     set out \<subseteq> set body \<union> (\<Union>h \<in> set hs. set (new_side (hunk_lines h)))"
proof (induction rule: patch_spec.induct)
  case (patch_nil pos body)
  then show ?case by simp
next
  case (patch_hunk pos h body rest hs out)
  have "set rest \<subseteq> set (drop (target_index h - pos) body)"
    by (simp add: patch_hunk.hyps(3))
  then have "set rest \<subseteq> set body" using set_drop_subset by fast
  with patch_hunk.IH show ?case by (auto dest: in_set_takeD)
qed

lemma new_side_clean: "clean_lines h \<Longrightarrow> t \<in> set (new_side (hunk_lines h)) \<Longrightarrow> LF \<notin> set t \<and> CR \<notin> set t"
proof -
  have "t \<in> set (new_side ls) \<Longrightarrow> \<exists>l \<in> set ls. line_body l = t" for ls
    by (induction ls rule: new_side.induct) auto
  then show "clean_lines h \<Longrightarrow> t \<in> set (new_side (hunk_lines h)) \<Longrightarrow> LF \<notin> set t \<and> CR \<notin> set t"
    by (auto simp: clean_lines_def)
qed

text \<open>Reading back the lines of a text that was written with a final newline.\<close>

lemma original_lines_join:
  assumes "out \<noteq> []" "\<And>l. l \<in> set out \<Longrightarrow> LF \<notin> set l \<and> CR \<notin> set l"
  shows "original_lines (join [LF] out @ [LF]) = out"
proof -
  have eq: "join [LF] out @ [LF] = join [LF] (out @ [[]])"
    using assms(1) by (rule join_snoc_newline)
  have "CR \<notin> set (join [LF] out @ [LF])"
    using set_join [of "[LF]" out] assms(2) by auto
  moreover have "split_on LF (join [LF] out @ [LF]) = out @ [[]]"
    unfolding eq by (rule split_on_join) (auto simp: assms(2))
  ultimately show ?thesis
    by (simp add: original_lines_def crlf_to_lf_id ends_with_def)
qed

lemma original_lines_clean:
  assumes "ends_with s [LF]" "CR \<notin> set s"
  shows "s = join [LF] (original_lines s) @ [LF]"
    and "original_lines s = [] \<Longrightarrow> s = [LF]"
    and "l \<in> set (original_lines s) \<Longrightarrow> LF \<notin> set l \<and> CR \<notin> set l"
proof -
  obtain s0 where s: "s = s0 @ [LF]"
    using assms(1) by (auto simp: ends_with_def) (metis append_take_drop_id)
  have CR0: "CR \<notin> set s0" using assms(2) s by simp
  have "split_on LF s = split_on LF s0 @ [[]]"
    unfolding s by (induction s0) (auto split: list.splits)
  then have ol: "original_lines s = split_on LF s0"
    using assms by (simp add: original_lines_def crlf_to_lf_id)
  then show "s = join [LF] (original_lines s) @ [LF]" by (simp add: s)
  show "original_lines s = [] \<Longrightarrow> s = [LF]" using ol by simp
  have "set (join [LF] (split_on LF s0)) = set s0" by simp
  moreover have "x \<in> set (split_on LF s0) \<Longrightarrow> set x \<subseteq> set (join [LF] (split_on LF s0))" for x
    using in_set_join by blast
  ultimately show "l \<in> set (original_lines s) \<Longrightarrow> LF \<notin> set l \<and> CR \<notin> set l"
    using ol CR0 split_on_sep_free by auto
qed


lemma apply_unified_diff_render:
  assumes "hs \<noteq> []" "\<forall>h \<in> set hs. clean_lines h"
  shows "apply_unified_diff original (render_hunks hs) = Inr result \<longleftrightarrow>
    (\<exists>out. patch_spec 0 (original_lines original) hs out \<and>
       result = join [LF] out @ (if ends_with original [LF] then [LF] else []))"
  unfolding apply_unified_diff_def parse_render [OF assms]
  by (auto simp: apply_hunks_iff [symmetric] split: sum.splits)

subsection \<open>Properties\<close>


text \<open>
  a patch can be undone: if a diff with consistent positions applies to a text that ends with a
  newline, the printed diff with its hunks inverted applies to the result and gives the original
  text back.
\<close>

theorem apply_unified_diff_reversible:
  assumes "apply_unified_diff original (render_hunks hs) = Inr result"
    and "hs \<noteq> []" "\<forall>h \<in> set hs. clean_lines h"
    and "ends_with original [LF]" "CR \<notin> set original" "result \<noteq> [LF]"
    and "placed (length (original_lines original)) 0 0 hs"
  shows "apply_unified_diff result (render_hunks (map invert_hunk hs)) = Inr original"
proof -
  obtain out where out: "patch_spec 0 (original_lines original) hs out"
      and res: "result = join [LF] out @ [LF]"
    using assms(1,4) by (auto simp: apply_unified_diff_render [OF assms(2,3)])
  have undo: "patch_spec 0 out (map invert_hunk hs) (original_lines original)"
    using patch_spec_invert [OF out] assms(7) by simp
  have clean: "LF \<notin> set l \<and> CR \<notin> set l" if "l \<in> set out" for l
    using that set_patch_spec [OF out] assms(3)
      original_lines_clean(3) [OF assms(4,5)] new_side_clean by blast
  have "out \<noteq> []" using res assms(6) by auto
  then have "original_lines result = out"
    unfolding res using clean by (rule original_lines_join)
  moreover have "ends_with result [LF]" by (simp add: res ends_with_def)
  moreover have "\<forall>h \<in> set (map invert_hunk hs). clean_lines h" "map invert_hunk hs \<noteq> []"
    using assms(2,3) clean_lines_invert by auto
  ultimately show ?thesis
    using undo original_lines_clean(1) [OF assms(4,5)]
    by (auto simp: apply_unified_diff_render)
qed

definition sample_hunk :: hunk where
  "sample_hunk = \<lparr>old_start = 2, old_count = 2, new_start = 2, new_count = 3,
     hunk_lines = [Context ''b'', Remove ''c'', Add ''x'', Add ''y'']\<rparr>"

definition sample_text :: string where
  "sample_text = ''a'' @ [LF] @ ''b'' @ [LF] @ ''c'' @ [LF]"

definition sample_result :: string where
  "sample_result = ''a'' @ [LF] @ ''b'' @ [LF] @ ''x'' @ [LF] @ ''y'' @ [LF]"

theorem apply_unified_diff_reversible_witness:
  "apply_unified_diff sample_text (render_hunks [sample_hunk]) = Inr sample_result \<and>
   apply_unified_diff sample_result (render_hunks [invert_hunk sample_hunk]) = Inr sample_text"
proof -
  have run: "apply_unified_diff sample_text (render_hunks [sample_hunk]) = Inr sample_result"
    by code_simp
  have ok: "\<forall>h \<in> set [sample_hunk]. clean_lines h" "ends_with sample_text [LF]"
    "CR \<notin> set sample_text" "sample_result \<noteq> [LF]"
    "placed (length (original_lines sample_text)) 0 0 [sample_hunk]"
    by code_simp+
  from apply_unified_diff_reversible [OF run _ ok] run show ?thesis by simp
qed

text \<open>
  a hunk that only adds lines puts them before the line its header names: with the header
  \<open>@@ -n,0 +m,1 @@\<close> the new line becomes line \<open>n\<close>. (The unified format means the position after
  line \<open>n\<close> when the old count is 0, as \<open>diff -U0\<close> prints it.)
\<close>

theorem insertion_hunk_before_line:
  assumes "1 \<le> n" "n \<le> length lines"
  shows "apply_hunks lines
      [\<lparr>old_start = n, old_count = 0, new_start = m, new_count = 1, hunk_lines = [Add x]\<rparr>] ([], 0)
    = Inr (take (n - 1) lines @ [x] @ drop (n - 1) lines)"
  by (simp add: apply_hunk_def target_index_def)

theorem insertion_hunk_before_line_witness:
  "apply_hunks [''a'', ''b'']
      [\<lparr>old_start = 1, old_count = 0, new_start = 2, new_count = 1, hunk_lines = [Add ''x'']\<rparr>] ([], 0)
    = Inr [''x'', ''a'', ''b'']"
  using insertion_hunk_before_line [of 1 "[''a'', ''b'']" 2 "''x''"] by simp

end
