(* ===== verification/Scanner.thy ===== *)
theory Scanner
  imports JsValue
begin

text \<open>
  \<open>packages/refactor-intelligence/src/scanner.ts\<close>: the Lisp tokenizer and the delimiter check.
  The source walks an index through the text; the model walks the rest of the text and counts
  the offset along. Offsets are those of the characters in the text.
\<close>

subsection \<open>Symbols\<close>

definition DELIMITERS :: "char set" where
  "DELIMITERS = {CHR ''('', CHR '')'', CHR ''['', CHR '']'', CHR ''{'', CHR ''}'', SQUOTE,
     CHR 0x60, CHR '','', DQUOTE, CHR '';''}"

text \<open>\<open>/^[+-]?(?:\d+(?:\.\d*)?|\.\d+)$/\<close>.\<close>

definition unsigned_number :: "string \<Rightarrow> bool" where
  "unsigned_number s =
     (let digits = takeWhile is_digit s; rest = dropWhile is_digit s
      in if digits \<noteq> [] then rest = [] \<or> (hd rest = CHR ''.'' \<and> list_all is_digit (tl rest))
         else rest \<noteq> [] \<and> hd rest = CHR ''.'' \<and> tl rest \<noteq> [] \<and> list_all is_digit (tl rest))"

fun is_numeric :: "string \<Rightarrow> bool" where
  "is_numeric [] = False"
| "is_numeric (c # s) =
     (if c = CHR ''+'' \<or> c = CHR ''-'' then unsigned_number s else unsigned_number (c # s))"

text \<open>The message of the \<open>TypeError\<close>, or the name.\<close>

definition validate_lisp_symbol :: "string \<Rightarrow> string \<Rightarrow> string + string" where
  "validate_lisp_symbol name label =
     (if name = [] \<or> length name > 256
      then Inl (label @ '' must be a non-empty string of at most 256 characters'')
      else if list_ex is_ws name \<or> list_ex (\<lambda>c. c \<in> DELIMITERS) name
      then Inl (label @ '' contains Lisp delimiter or whitespace characters'')
      else if is_numeric name then Inl (label @ '' must not be numeric'')
      else Inr name)"

subsection \<open>Tokens\<close>

datatype token_type = Comment_Token | String_Token | Reader_Discard | Reader_Token | Delimiter_Token
  | Number_Token | Symbol_Token

record token =
  tok_type :: token_type
  tok_value :: string
  tok_start :: nat
  tok_end :: nat
  tok_position :: "(nat \<times> nat) option"  \<comment> \<open>line and column\<close>

record diagnostic =
  dg_code :: string
  dg_offset :: nat

fun position_from :: "nat \<Rightarrow> nat \<Rightarrow> string \<Rightarrow> nat \<times> nat" where
  "position_from line column [] = (line, column)"
| "position_from line column (c # s) =
     (if c = LF then position_from (Suc line) 0 s else position_from line (Suc column) s)"

definition position_for :: "string \<Rightarrow> nat \<Rightarrow> nat \<times> nat" where
  "position_for src offset = position_from 1 0 (take offset src)"

text \<open>The characters \<open>skipBlockComment\<close> passes after the opening \<open>#|\<close>, and whether it closed.\<close>

fun skip_block :: "nat \<Rightarrow> string \<Rightarrow> nat \<times> bool" where
  "skip_block 0 s = (0, True)"
| "skip_block (Suc d) [] = (0, False)"
| "skip_block (Suc d) [c] = (1, False)"
| "skip_block (Suc d) (c # e # s) =
     (if c = CHR ''#'' \<and> e = CHR ''|'' then apfst ((+) 2) (skip_block (Suc (Suc d)) s)
      else if c = CHR ''|'' \<and> e = CHR ''#'' then apfst ((+) 2) (skip_block d s)
      else apfst ((+) 1) (skip_block (Suc d) (e # s)))"

text \<open>The characters of a string literal after the opening quote.\<close>

fun skip_string :: "string \<Rightarrow> nat \<times> bool" where
  "skip_string [] = (0, False)"
| "skip_string [c] = (1, c = DQUOTE)"
| "skip_string (c # e # s) =
     (if c = BACKSLASH then apfst ((+) 2) (skip_string s)
      else if c = DQUOTE then (1, True)
      else apfst ((+) 1) (skip_string (e # s)))"

fun take_symbol :: "string \<Rightarrow> string" where
  "take_symbol [] = []"
| "take_symbol (c # s) =
     (if is_ws c \<or> c \<in> DELIMITERS \<or> starts_with (c # s) ''#|'' then [] else c # take_symbol s)"

definition plain_delimiters :: string where
  "plain_delimiters = ''()[]{}'' @ [SQUOTE, CHR 0x60, CHR '','']"

definition trivia :: "bool \<Rightarrow> token_type \<Rightarrow> string \<Rightarrow> nat \<Rightarrow> nat \<Rightarrow> token list" where
  "trivia on ty s i n =
     (if on then [\<lparr>tok_type = ty, tok_value = take n s, tok_start = i, tok_end = i + n, tok_position = None\<rparr>]
      else [])"

text \<open>One round of the loop: the tokens and diagnostics it adds and the characters it passes.\<close>

definition scan_step :: "bool \<Rightarrow> string \<Rightarrow> nat \<Rightarrow> string \<Rightarrow> token list \<times> diagnostic list \<times> nat" where
  "scan_step trivia_on src i s =
     (let ch = hd s in
      if is_ws ch then ([], [], 1)
      else if ch = CHR '';'' then
        (let n = length (takeWhile (\<lambda>c. c \<noteq> LF) s) in (trivia trivia_on Comment_Token s i n, [], n))
      else if starts_with s ''#|'' then
        (case skip_block 1 (drop 2 s) of (k, isclosed) \<Rightarrow>
          (trivia trivia_on Comment_Token s i (k + 2),
           if isclosed then [] else [\<lparr>dg_code = ''unterminated_block_comment'', dg_offset = i\<rparr>], k + 2))
      else if ch = DQUOTE then
        (case skip_string (tl s) of (k, isclosed) \<Rightarrow>
          (trivia trivia_on String_Token s i (k + 1),
           if isclosed then [] else [\<lparr>dg_code = ''unterminated_string'', dg_offset = i\<rparr>], k + 1))
      else if starts_with s ''#_'' then
        ([\<lparr>tok_type = Reader_Discard, tok_value = ''#_'', tok_start = i, tok_end = i + 2, tok_position = None\<rparr>],
         [\<lparr>dg_code = ''reader_discard_requires_conservative_analysis'', dg_offset = i\<rparr>], 2)
      else if starts_with s '',@'' then
        ([\<lparr>tok_type = Reader_Token, tok_value = '',@'', tok_start = i, tok_end = i + 2, tok_position = None\<rparr>], [], 2)
      else if starts_with s [CHR ''#'', SQUOTE] then
        ([\<lparr>tok_type = Reader_Token, tok_value = [CHR ''#'', SQUOTE], tok_start = i, tok_end = i + 2,
           tok_position = None\<rparr>], [], 2)
      else if ch \<in> set plain_delimiters then
        ([\<lparr>tok_type = Delimiter_Token, tok_value = [ch], tok_start = i, tok_end = i + 1, tok_position = None\<rparr>], [], 1)
      else
        (let value = take_symbol s in
         if value = [] then ([], [], 1)
         else ([\<lparr>tok_type = (if is_numeric value then Number_Token else Symbol_Token), tok_value = value,
                 tok_start = i, tok_end = i + length value, tok_position = Some (position_for src i)\<rparr>],
               [], length value)))"

text \<open>Every round passes at least one character, so the loop ends.\<close>

lemma takeWhile_comment: "s \<noteq> [] \<Longrightarrow> hd s = CHR '';'' \<Longrightarrow> 0 < length (takeWhile (\<lambda>c. c \<noteq> LF) s)"
  by (cases s) auto

lemma scan_step_progress:
  assumes "s \<noteq> []" "scan_step trivia_on src i s = (ts, ds, n)"
  shows "0 < n"
  using assms takeWhile_comment [OF assms(1)]
  by (auto simp: scan_step_def Let_def split: if_splits prod.splits)

lemma scan_step_shrinks:
  "s \<noteq> [] \<Longrightarrow> (ts, ds, n) = scan_step trivia_on src i s \<Longrightarrow> length s - n < length s"
  using scan_step_progress [of s trivia_on src i ts ds n] by simp

function scan_from :: "bool \<Rightarrow> string \<Rightarrow> nat \<Rightarrow> string \<Rightarrow> token list \<times> diagnostic list" where
  "scan_from trivia_on src i s =
     (if s = [] then ([], [])
      else case scan_step trivia_on src i s of (ts, ds, n) \<Rightarrow>
        (case scan_from trivia_on src (i + n) (drop n s) of (ts', ds') \<Rightarrow> (ts @ ts', ds @ ds')))"
  by pat_completeness auto

termination
  by (relation "measure (\<lambda>(trivia_on, src, i, s). length s)")
    (auto intro: scan_step_shrinks)

declare scan_from.simps [simp del]

definition scan_lisp :: "bool \<Rightarrow> string \<Rightarrow> token list \<times> diagnostic list" where
  "scan_lisp trivia_on src = scan_from trivia_on src 0 src"

subsection \<open>The delimiter check\<close>

definition opening_of :: "string \<Rightarrow> string" where
  "opening_of v = (if v = '')'' then ''('' else if v = '']'' then ''['' else ''{'')"

definition closing_of :: "string \<Rightarrow> string" where
  "closing_of v = (if v = ''('' then '')'' else if v = ''['' then '']'' else ''}'')"

record balance_diagnostic =
  bd_code :: string
  bd_offset :: nat
  bd_expected :: string

text \<open>The loop over the tokens with the stack of the open delimiters, top first.\<close>

fun balance_loop :: "token list \<Rightarrow> token list \<Rightarrow> balance_diagnostic list \<times> token list" where
  "balance_loop stack [] = ([], stack)"
| "balance_loop stack (t # ts) =
     (if tok_type t \<noteq> Delimiter_Token then balance_loop stack ts
      else if tok_value t \<in> {''('', ''['', ''{''} then balance_loop (t # stack) ts
      else if tok_value t \<notin> {'')'', '']'', ''}''} then balance_loop stack ts
      else (case stack of
          [] \<Rightarrow> apfst (Cons \<lparr>bd_code = ''unmatched_closing_delimiter'', bd_offset = tok_start t,
                   bd_expected = opening_of (tok_value t)\<rparr>) (balance_loop [] ts)
        | opener # rest \<Rightarrow>
            if tok_value opener \<noteq> opening_of (tok_value t)
            then apfst (Cons \<lparr>bd_code = ''mismatched_closing_delimiter'', bd_offset = tok_start t,
                   bd_expected = closing_of (tok_value opener)\<rparr>) (balance_loop rest ts)
            else balance_loop rest ts))"

definition unclosed :: "token \<Rightarrow> balance_diagnostic" where
  "unclosed t = \<lparr>bd_code = ''unclosed_opening_delimiter'', bd_offset = tok_start t,
     bd_expected = closing_of (tok_value t)\<rparr>"

definition scan_diagnostic :: "diagnostic \<Rightarrow> balance_diagnostic" where
  "scan_diagnostic d = \<lparr>bd_code = dg_code d, bd_offset = dg_offset d, bd_expected = []\<rparr>"

definition check_lisp_balance :: "string \<Rightarrow> bool \<times> balance_diagnostic list" where
  "check_lisp_balance src =
     (case scan_lisp False src of (ts, ds) \<Rightarrow>
       (case balance_loop [] ts of (bs, stack) \<Rightarrow>
         (let diagnostics = map scan_diagnostic ds @ bs @ map unclosed stack
          in (diagnostics = [], diagnostics))))"

definition symbol_occurrences :: "string \<Rightarrow> string \<Rightarrow> string + token list \<times> diagnostic list" where
  "symbol_occurrences src symbol =
     (case validate_lisp_symbol symbol ''symbol'' of
        Inl msg \<Rightarrow> Inl msg
      | Inr _ \<Rightarrow>
          (case scan_lisp False src of (ts, ds) \<Rightarrow>
            Inr (filter (\<lambda>t. tok_type t = Symbol_Token \<and> tok_value t = symbol) ts, ds)))"

end
