(* ===== verification/SymbolSemantics.thy ===== *)
theory SymbolSemantics
  imports Scanner
begin

text \<open>
  \<open>packages/refactor-intelligence/src/symbol-semantics.ts\<close>: what a Lisp symbol means in its dialect
  (namespace or package, keyword, reader syntax) and whether renaming one to another is safe.
\<close>

datatype lisp_language = Generic | Elisp | Clojure | Common_Lisp

fun language_str :: "lisp_language \<Rightarrow> string" where
  "language_str Generic = ''generic''"
| "language_str Elisp = ''elisp''"
| "language_str Clojure = ''clojure''"
| "language_str Common_Lisp = ''common_lisp''"

text \<open>An error is a message with the \<open>code\<close> and \<open>details\<close> the source may attach to it.\<close>

record symbol_error =
  se_message :: string
  se_code :: "string option"
  se_details :: jval

definition type_error :: "string \<Rightarrow> symbol_error" where
  "type_error msg = \<lparr>se_message = msg, se_code = None, se_details = JUndef\<rparr>"

definition language_name :: "string option \<Rightarrow> symbol_error + lisp_language" where
  "language_name value =
     (case value of
        None \<Rightarrow> Inr Generic
      | Some v \<Rightarrow>
          if v = ''generic'' then Inr Generic
          else if v = ''elisp'' then Inr Elisp
          else if v = ''clojure'' then Inr Clojure
          else if v = ''common_lisp'' \<or> v = ''common-lisp'' then Inr Common_Lisp
          else Inl (type_error (''unsupported Lisp language: '' @ v)))"

record descriptor =
  ds_raw :: string
  ds_language :: lisp_language
  ds_kind :: string
  ds_qualifier :: "string option"
  ds_separator :: "string option"
  ds_name :: string
  ds_keyword :: bool
  ds_renameable :: bool
  ds_reason :: "string option"
  ds_identity :: string

definition base :: "string \<Rightarrow> lisp_language \<Rightarrow> descriptor" where
  "base raw lang = \<lparr>ds_raw = raw, ds_language = lang, ds_kind = ''plain_symbol'',
     ds_qualifier = None, ds_separator = None, ds_name = raw, ds_keyword = False,
     ds_renameable = True, ds_reason = None,
     ds_identity = (if lang = Common_Lisp then to_upper raw else raw)\<rparr>"

definition split_once :: "string \<Rightarrow> string \<Rightarrow> (string \<times> string) option" where
  "split_once raw sep =
     map_option (\<lambda>i. (take i raw, drop (i + length sep) raw)) (index_of sep raw)"

definition refused :: "string \<Rightarrow> string \<Rightarrow> descriptor \<Rightarrow> descriptor" where
  "refused kind reason d = d\<lparr>ds_kind := kind, ds_renameable := False, ds_reason := Some reason\<rparr>"

text \<open>The clauses of \<open>describeLispSymbol\<close>, one function per dialect.\<close>

definition describe_plain :: "string \<Rightarrow> lisp_language \<Rightarrow> descriptor" where
  "describe_plain raw lang =
     (if starts_with raw '':''
      then (refused ''keyword'' ''keyword_rename_requires_explicit_data_migration'' (base raw lang))
             \<lparr>ds_name := drop 1 raw, ds_keyword := True\<rparr>
      else base raw lang)"

definition clojure_keyword :: "string \<Rightarrow> string \<Rightarrow> string \<Rightarrow> string \<Rightarrow> string \<Rightarrow> descriptor" where
  "clojure_keyword raw body kind qualified_kind reason =
     (let parts = split_once body ''/''
      in (refused (if parts = None then kind else qualified_kind) reason (base raw Clojure))
           \<lparr>ds_qualifier := map_option fst parts,
            ds_separator := (if parts = None then None else Some ''/''),
            ds_name := (case parts of None \<Rightarrow> body | Some (q, n) \<Rightarrow> n),
            ds_keyword := True\<rparr>)"

definition describe_clojure :: "string \<Rightarrow> descriptor" where
  "describe_clojure raw =
     (let d = base raw Clojure in
      if starts_with raw ''::''
      then clojure_keyword raw (drop 2 raw) ''auto_resolved_keyword'' ''auto_resolved_qualified_keyword''
             ''auto_resolved_keyword_depends_on_namespace_context''
      else if starts_with raw '':''
      then clojure_keyword raw (drop 1 raw) ''keyword'' ''qualified_keyword''
             ''keyword_rename_requires_explicit_data_migration''
      else if starts_with raw ''#''
      then refused ''reader_sensitive'' ''reader_prefixed_symbol_requires_clojure_reader'' d
      else if raw \<noteq> ''/'' \<and> contains raw ''/''
      then (let first = the (index_of ''/'' raw) in
            if first = 0 \<or> Some first \<noteq> last_index_of ''/'' raw \<or> Suc first = length raw
            then refused ''invalid_qualified_symbol'' ''invalid_clojure_namespace_qualification'' d
            else d\<lparr>ds_kind := ''qualified_symbol'', ds_qualifier := Some (take first raw),
                   ds_separator := Some ''/'', ds_name := drop (first + 1) raw\<rparr>)
      else if ends_with raw ''#''
      then refused ''auto_gensym_symbol'' ''auto_gensym_is_reader_scoped'' d
      else d)"

definition describe_common_lisp :: "string \<Rightarrow> descriptor" where
  "describe_common_lisp raw =
     (let d = base raw Common_Lisp in
      if starts_with raw ''#:''
      then (refused ''uninterned_symbol'' ''uninterned_symbol_has_no_stable_project_identity'' d)
             \<lparr>ds_name := drop 2 raw\<rparr>
      else if starts_with raw '':''
      then (refused ''keyword'' ''keyword_rename_requires_explicit_data_migration'' d)
             \<lparr>ds_name := drop 1 raw, ds_keyword := True\<rparr>
      else (case index_of ''::'' raw of
        Some i \<Rightarrow>
          if i = 0 \<or> Some i \<noteq> last_index_of ''::'' raw \<or> i + 2 \<ge> length raw \<or> contains (drop (i + 2) raw) '':''
          then refused ''invalid_package_symbol'' ''invalid_common_lisp_package_qualification'' d
          else d\<lparr>ds_kind := ''package_internal_symbol'', ds_qualifier := Some (take i raw),
                 ds_separator := Some ''::'', ds_name := drop (i + 2) raw,
                 ds_identity := to_upper (take i raw) @ ''::'' @ to_upper (drop (i + 2) raw)\<rparr>
      | None \<Rightarrow>
          (case index_of '':'' raw of
             Some i \<Rightarrow>
               if i = 0 \<or> Some i \<noteq> last_index_of '':'' raw \<or> Suc i = length raw
               then refused ''invalid_package_symbol'' ''invalid_common_lisp_package_qualification'' d
               else d\<lparr>ds_kind := ''package_external_symbol'', ds_qualifier := Some (take i raw),
                      ds_separator := Some '':'', ds_name := drop (i + 1) raw,
                      ds_identity := to_upper (take i raw) @ '':'' @ to_upper (drop (i + 1) raw)\<rparr>
           | None \<Rightarrow> d\<lparr>ds_identity := to_upper raw\<rparr>)))"

definition describe_lisp_symbol :: "string \<Rightarrow> lisp_language \<Rightarrow> symbol_error + descriptor" where
  "describe_lisp_symbol raw lang =
     (case validate_lisp_symbol raw ''symbol'' of
        Inl msg \<Rightarrow> Inl (type_error msg)
      | Inr _ \<Rightarrow>
          Inr (if contains raw ''|'' \<or> contains raw [BACKSLASH]
               then refused ''escaped_or_reader_sensitive'' ''escaped_symbol_requires_reader_aware_backend''
                      (base raw lang)
               else if lang = Generic \<or> lang = Elisp then describe_plain raw lang
               else if lang = Clojure then describe_clojure raw
               else describe_common_lisp raw))"

fun descriptor_json :: "descriptor \<Rightarrow> jval" where
  "descriptor_json d = JObj
     [(''raw'', JStr (ds_raw d)), (''language'', JStr (language_str (ds_language d))),
      (''kind'', JStr (ds_kind d)), (''qualifier'', jopt_str (ds_qualifier d)),
      (''separator'', jopt_str (ds_separator d)), (''name'', JStr (ds_name d)),
      (''keyword'', JBool (ds_keyword d)), (''renameable'', JBool (ds_renameable d)),
      (''reason'', jopt_str (ds_reason d)), (''normalized_identity'', JStr (ds_identity d))]"

definition reconstruct :: "descriptor \<Rightarrow> string \<Rightarrow> string" where
  "reconstruct d leaf =
     (case (ds_separator d, ds_qualifier d) of
        (Some sep, Some q) \<Rightarrow> if sep \<noteq> [] \<and> q \<noteq> [] then q @ sep @ leaf else leaf
      | _ \<Rightarrow> leaf)"

subsection \<open>Preparing a rename\<close>

definition POLICIES :: "string list" where
  "POLICIES = [''exact'', ''preserve_qualification'', ''leaf_only'']"

record prepared_rename =
  pr_language :: lisp_language
  pr_policy :: string
  pr_old :: descriptor
  pr_requested_new :: descriptor
  pr_new :: descriptor
  pr_effective_new :: string

definition not_renameable :: "string \<Rightarrow> descriptor \<Rightarrow> symbol_error" where
  "not_renameable which d = \<lparr>se_message = which @ '' symbol is not safely renameable: ''
       @ js_string (jopt_str (ds_reason d)),
     se_code = Some ''E_SYMBOL_NOT_RENAMEABLE'', se_details = descriptor_json d\<rparr>"

definition rename_policy :: "lisp_language \<Rightarrow> string option \<Rightarrow> string" where
  "rename_policy lang p =
     (case p of Some p \<Rightarrow> p
      | None \<Rightarrow> if lang = Generic \<or> lang = Elisp then ''exact'' else ''preserve_qualification'')"

text \<open>The qualifier as it is compared: Common Lisp reads package names in upper case.\<close>

definition compared_qualifier :: "lisp_language \<Rightarrow> descriptor \<Rightarrow> string option" where
  "compared_qualifier lang d =
     (if lang = Common_Lisp then map_option to_upper (ds_qualifier d) else ds_qualifier d)"

definition check_rename ::
  "lisp_language \<Rightarrow> string \<Rightarrow> descriptor \<Rightarrow> descriptor \<Rightarrow> descriptor \<Rightarrow> string \<Rightarrow> symbol_error + prepared_rename" where
  "check_rename lang policy old requested new effective =
     (if \<not> ds_renameable new then Inl (not_renameable ''new'' new)
      else if ds_identity old = ds_identity new
      then Inl \<lparr>se_message = ''old and new symbols have the same language-level identity'',
             se_code = Some ''E_SYMBOL_IDENTITY_UNCHANGED'',
             se_details = JObj [(''old'', descriptor_json old), (''new'', descriptor_json new)]\<rparr>
      else if (policy = ''preserve_qualification'' \<or> policy = ''leaf_only'') \<and>
        (ds_kind old \<noteq> ds_kind new \<or> compared_qualifier lang old \<noteq> compared_qualifier lang new \<or>
         ds_separator old \<noteq> ds_separator new)
      then Inl \<lparr>se_message = ''rename would change namespace/package qualification semantics'',
             se_code = Some ''E_SYMBOL_QUALIFICATION_CHANGE'',
             se_details = JObj [(''old'', descriptor_json old), (''requested_new'', descriptor_json requested),
               (''effective_new'', descriptor_json new), (''policy'', JStr policy)]\<rparr>
      else Inr \<lparr>pr_language = lang, pr_policy = policy, pr_old = old, pr_requested_new = requested,
             pr_new = new, pr_effective_new = effective\<rparr>)"

definition prepare_symbol_rename ::
  "string \<Rightarrow> string \<Rightarrow> string option \<Rightarrow> string option \<Rightarrow> symbol_error + prepared_rename" where
  "prepare_symbol_rename old_symbol new_symbol language qualification =
     andthen (language_name language) (\<lambda>lang.
       let policy = rename_policy lang qualification in
       if policy \<notin> set POLICIES
       then Inl (type_error (''unsupported qualification policy: '' @ policy))
       else
       andthen (describe_lisp_symbol old_symbol lang) (\<lambda>old.
       andthen (describe_lisp_symbol new_symbol lang) (\<lambda>requested.
         if \<not> ds_renameable old then Inl (not_renameable ''old'' old)
         else if policy = ''leaf_only'' \<and> ds_qualifier old \<noteq> None \<and> ds_qualifier old \<noteq> Some [] \<and>
           ds_qualifier requested = None \<and> ds_renameable requested
         then (let effective = reconstruct old (ds_name requested) in
           andthen (describe_lisp_symbol effective lang) (\<lambda>new.
             check_rename lang policy old requested new effective))
         else check_rename lang policy old requested requested new_symbol)))"

definition prepared_json :: "prepared_rename \<Rightarrow> jval" where
  "prepared_json p = JObj
     [(''language'', JStr (language_str (pr_language p))), (''qualification_policy'', JStr (pr_policy p)),
      (''old'', descriptor_json (pr_old p)), (''requested_new'', descriptor_json (pr_requested_new p)),
      (''new'', descriptor_json (pr_new p)), (''effective_new_symbol'', JStr (pr_effective_new p))]"

end
