(* ===== verification/Tools.thy ===== *)
theory Tools
  imports Server UnifiedDiff SymbolSemantics
begin

text \<open>
  The tools of \<open>ToolRouter.dispatch\<close>, one definition per tool, in the order of the source. Each takes
  the session and the bridge client that \<open>dispatch\<close> looked up, and the arguments of the call.
\<close>

subsection \<open>Tools without a session\<close>

definition EMACS_OPERATOR_VERSION :: string where
  "EMACS_OPERATOR_VERSION = ''0.1.0-alpha.16''"

text \<open>\<open>a && b\<close> on values.\<close>

definition js_and :: "jval \<Rightarrow> jval \<Rightarrow> jval" where
  "js_and a b = (if truthy a then b else a)"

definition driver_init :: "'w env \<Rightarrow> ('w, jval) handler" where
  "driver_init env = world_try (ev_driver_init env)"

definition phases :: jval where
  "phases = JArr (map jnat [0..<9])"

definition tool_health :: "'w env \<Rightarrow> ('w, jval) handler" where
  "tool_health env = bind (driver_init env) (\<lambda>driver. ret (JObj
     [(''status'', JStr ''ok''), (''version'', JStr EMACS_OPERATOR_VERSION),
      (''implemented_phases'', phases), (''source_phases'', phases),
      (''verification'', JObj [(''typescript_runtime'', JBool True), (''emacs_runtime_required'', JBool True),
         (''macos_native_runtime_required'', JBool True), (''linux_native_runtime_required'', JBool True)]),
      (''channels'', JObj [(''semantic'', JBool True), (''internal_keys'', JBool True),
         (''native_keys'', js_and (get_prop driver ''connected'') (get_prop driver ''native_keyboard''))]),
      (''native_driver'', driver)]))"

definition instance_json :: "discovered \<Rightarrow> jval" where
  "instance_json d = JObj (spread (fields_of (ir_json (di_record d)))
     [(''stale'', JBool (di_stale d)), (''process_alive'', JBool (di_alive d))])"

definition tool_instances :: "'w env \<Rightarrow> ('w, jval) handler" where
  "tool_instances env =
     bind (driver_init env) (\<lambda>driver.
     bind (discover env) (\<lambda>found.
       ret (JObj [(''instances'', JArr (map instance_json found)), (''native_driver'', driver)])))"

definition tool_session_close :: "'w env \<Rightarrow> jval \<Rightarrow> ('w, jval) handler" where
  "tool_session_close env args =
     bind (lift (required_string args ''session_id'')) (\<lambda>sid.
     bind (get_session env sid) (\<lambda>s.
     seq (set_instance (es_instance_id s))
     (bind (close_session sid) (\<lambda>b. ret (JObj [(''closed'', JBool b)])))))"

subsection \<open>Opening a session\<close>

definition opt_set :: "string \<Rightarrow> jval \<Rightarrow> (string \<times> jval) list" where
  "opt_set k v = (if v = JUndef then [] else [(k, v)])"

definition channels_json :: "channel_caps \<Rightarrow> jval" where
  "channels_json c = JObj [(''semantic'', JBool (cc_semantic c)), (''internal_keys'', JBool (cc_internal_keys c)),
     (''native_keys'', JBool (cc_native_keys c))]"

definition capabilities_json :: "session_capabilities \<Rightarrow> jval" where
  "capabilities_json c = JObj [(''channels'', channels_json (sc_channels c)), (''features'', JObj (sc_features c))]"

definition session_json :: "'w env \<Rightarrow> emacs_session \<Rightarrow> jval" where
  "session_json env s = (let t = es_target s in JObj
     [(''sessionId'', JStr (es_session_id s)), (''instanceId'', JStr (es_instance_id s)),
      (''defaultChannel'', JStr (es_default_channel s)), (''permissionProfile'', JStr (es_permission_profile s)),
      (''target'', JObj (opt_set ''bufferId'' (st_buffer_id t) @ opt_set ''frameId'' (st_frame_id t)
         @ opt_set ''frameTitle'' (st_frame_title t) @ opt_set ''nativeWindowIdentifier'' (st_native_window t)
         @ opt_set ''windowId'' (st_window_id t) @ opt_set ''projectRoot'' (st_project_root t)
         @ opt_set ''file'' (st_file t))),
      (''capabilities'', capabilities_json (es_capabilities s)),
      (''stateSeqAtOpen'', JNum (es_state_seq_at_open s)), (''createdAt'', JStr (ev_iso env (es_created_at s))),
      (''lastUsedAt'', JStr (ev_iso env (es_last_used_at s))), (''leaseOwner'', JStr (es_lease_owner s))])"

definition resolved_target_of :: "jval \<Rightarrow> resolved_target" where
  "resolved_target_of v = \<lparr>rt_frame_id = get_prop v ''frame_id'', rt_frame_title = get_prop v ''frame_title'',
     rt_native_window = get_prop v ''native_window_identifier'', rt_window_id = get_prop v ''window_id'',
     rt_buffer_id = get_prop v ''buffer_id'', rt_file = get_prop v ''file'',
     rt_project_root = get_prop v ''project_root''\<rparr>"

definition open_capabilities :: "jval \<Rightarrow> jval \<Rightarrow> jval \<Rightarrow> session_capabilities" where
  "open_capabilities channels features driver =
     \<lparr>sc_channels =
        \<lparr>cc_semantic = (get_prop channels ''semantic'' \<noteq> JBool False),
         cc_internal_keys = (get_prop channels ''internal_keys'' \<noteq> JBool False),
         cc_native_keys = truthy (js_and (get_prop driver ''connected'') (get_prop driver ''native_keyboard''))\<rparr>,
      sc_features = spread (fields_of features)
        [(''native_driver'', get_prop driver ''connected''),
         (''native_window_focus'', get_prop driver ''window_focus''),
         (''native_window_capture'', get_prop driver ''window_capture''),
         (''accessibility_trusted'', get_prop driver ''accessibility_trusted''),
         (''screen_recording_granted'', get_prop driver ''screen_recording_granted'')]\<rparr>"

definition objlike_or_empty :: "jval \<Rightarrow> jval" where
  "objlike_or_empty v = (if is_objlike v then v else JObj [])"

definition str_default :: "jval \<Rightarrow> string \<Rightarrow> string" where
  "str_default v d = (case v of JStr s \<Rightarrow> s | _ \<Rightarrow> d)"

definition open_session :: "'w env \<Rightarrow> jval \<Rightarrow> ('w, jval) handler" where
  "open_session env args =
     (let selector = get_prop args ''selector'';
          permission_profile = str_default (get_prop args ''permission_profile'') ''workspace_edit'';
          default_channel = str_default (get_prop args ''default_channel'') ''semantic'' in
     seq (lift (assert_object selector ''selector''))
     (bind (find_live_record env (string_of (get_prop selector ''instance_id''))) (\<lambda>r.
     seq (set_instance (ir_instance_id r))
     (seq (lift (profile permission_profile))
     (bind (connect_record env r) (\<lambda>(c, init).
     bind (request env c ''session.target.resolve'' (JObj [(''selector'', selector)]) None) (\<lambda>target.
     bind (prop_of init ''channels'') (\<lambda>ch.
     bind (prop_of init ''features'') (\<lambda>fe.
     bind (driver_init env) (\<lambda>driver.
     let caps = open_capabilities (objlike_or_empty ch) (objlike_or_empty fe) driver in
     bind (prop_of target ''frame_id'') (\<lambda>frame_id.
     bind (request env c ''state.observe'' (JObj
        [(''target'', JObj (opt_field ''frame_id'' frame_id @ opt_field ''window_id'' (get_prop target ''window_id'')
            @ [(''buffer_id'', get_prop target ''buffer_id'')])),
         (''scope'', JArr [JStr ''compact'']), (''around_chars'', jint 256)]) None) (\<lambda>observed.
     seq (throw_if (\<not> channel_available (sc_channels caps) default_channel)
            (denied (''Requested default channel '' @ default_channel @ '' is unavailable.'')))
     (bind (open_session_entry env \<lparr>so_instance_id = ir_instance_id r, so_default_channel = default_channel,
          so_permission_profile = permission_profile, so_target = resolved_target_of target,
          so_capabilities = caps,
          so_state_seq = (case Option.bind (summary_of observed) ss_state_seq of Some n \<Rightarrow> n | None \<Rightarrow> Fin 0),
          so_lease_owner = None\<rparr>) (\<lambda>session.
       ret (JObj [(''session'', session_json env session), (''target'', target),
         (''capabilities'', capabilities_json caps), (''state'', observed)])))))))))))))))"

subsection \<open>Reading tools\<close>

definition tool_observe :: "'w env \<Rightarrow> emacs_session \<Rightarrow> nat \<Rightarrow> jval \<Rightarrow> ('w, jval) handler" where
  "tool_observe env session c args =
     bind (request env c ''state.observe'' (JObj
       [(''target'', snake_target session),
        (''scope'', nullish_or (get_prop args ''scope'') (JArr [JStr ''compact'', JStr ''context''])),
        (''around_chars'', JNum (num_arg (get_prop args ''around_chars'') (jn_clamp 0 16384) (Fin 1600))),
        (''since_state_seq'', null_or (get_prop args ''since_state_seq''))]) None) (\<lambda>r.
     seq (set_after (summary_of r)) (ret r))"

text \<open>The bounds of \<open>emacs_read\<close>: from the observed buffer, and from the arguments.\<close>

definition read_point_min :: "jval \<Rightarrow> jnum" where
  "read_point_min buffer = num_arg (get_prop buffer ''point_min'') jn_floor (Fin 1)"

definition read_point_max :: "jval \<Rightarrow> jnum option" where
  "read_point_max buffer =
     (case get_prop buffer ''point_max'' of
        JNum n \<Rightarrow> Some (jn_floor n)
      | _ \<Rightarrow> (case get_prop buffer ''size'' of
                 JNum n \<Rightarrow> Some (jn_add (read_point_min buffer) (jn_floor n))
               | _ \<Rightarrow> None))"

definition read_max_chars :: "jval \<Rightarrow> jnum" where
  "read_max_chars args = num_arg (get_prop args ''max_chars'') (floor_clamp 1 262144) (Fin 32768)"

definition read_result :: "jval \<Rightarrow> jnum \<Rightarrow> jnum \<Rightarrow> jnum \<Rightarrow> jnum \<Rightarrow> jval" where
  "read_result resource point_min point_max requested_end actual_end =
     JObj (spread (fields_of resource)
       [(''point_min'', JNum point_min), (''point_max'', JNum point_max),
        (''requested_end'', JNum requested_end),
        (''truncated'', JBool (jn_less actual_end requested_end)),
        (''next_start'', if jn_less actual_end requested_end then JNum actual_end else JNull)])"

definition tool_read :: "'w env \<Rightarrow> emacs_session \<Rightarrow> nat \<Rightarrow> jval \<Rightarrow> ('w, jval) handler" where
  "tool_read env session c args =
     bind (observe_compact env c session) (\<lambda>observed.
     bind (prop_of observed ''buffer'') (\<lambda>b.
     let buffer = objlike_or_empty b; point_min = read_point_min buffer in
     (case read_point_max buffer of
        None \<Rightarrow> throw (op_error E_INTERNAL ''Bridge observation did not provide buffer bounds.'')
      | Some point_max \<Rightarrow>
     (let max_chars = read_max_chars args;
          start = num_arg (get_prop args ''start'') jn_floor point_min;
          requested_end = num_arg (get_prop args ''end'') jn_floor point_max in
     seq (throw_if (jn_less start point_min \<or> jn_less point_max start)
       (op_error_with E_INVALID_ARGUMENT ''Read start is outside the accessible buffer.''
          [(''start'', JNum start), (''point_min'', JNum point_min), (''point_max'', JNum point_max)]))
     (seq (throw_if (jn_less requested_end start \<or> jn_less point_max requested_end)
       (op_error_with E_INVALID_ARGUMENT ''Read end is outside the accessible buffer or precedes start.''
          [(''start'', JNum start), (''end'', JNum requested_end), (''point_min'', JNum point_min),
           (''point_max'', JNum point_max)]))
     (let stop = jn_min requested_end (jn_add start max_chars) in
     bind (request env c ''resource.read'' (JObj [(''target'', snake_target session),
         (''start'', JNum start), (''end'', JNum stop)]) None) (\<lambda>resource.
     bind (prop_of resource ''end'') (\<lambda>e.
     seq (set_after (summary_of observed))
     (ret (read_result resource point_min point_max requested_end (num_arg e id stop)))))))))))"

definition tool_navigate :: "'w env \<Rightarrow> emacs_session \<Rightarrow> nat \<Rightarrow> jval \<Rightarrow> ('w, jval) handler" where
  "tool_navigate env session c args =
     seq (lift (validate_precondition (get_prop args ''precondition'')))
     (seq (observe_before env c session)
     (bind (lift (required_string args ''operation'')) (\<lambda>operation.
     bind (request env c ''navigation.execute'' (JObj
       [(''target'', snake_target session), (''operation'', JStr operation),
        (''position'', null_or (get_prop args ''position'')), (''line'', null_or (get_prop args ''line'')),
        (''query'', null_or (get_prop args ''query'')), (''regex'', JBool (get_prop args ''regex'' = JBool True)),
        (''case_sensitive'', JBool (get_prop args ''case_sensitive'' = JBool True)),
        (''count'', nullish_or (get_prop args ''count'') (jint 1)), (''bound'', null_or (get_prop args ''bound'')),
        (''precondition'', null_or (get_prop args ''precondition''))]) None) (\<lambda>r.
     bind (observe_after env c session) (\<lambda>after.
       ret (JObj [(''execution'', r), (''observed'', after)]))))))"

definition tool_capabilities :: "'w env \<Rightarrow> emacs_session \<Rightarrow> nat \<Rightarrow> jval \<Rightarrow> ('w, jval) handler" where
  "tool_capabilities env session c args =
     bind (lift (required_string args ''operation'')) (\<lambda>operation.
       request env c ''capabilities.query'' (JObj
         [(''target'', snake_target session), (''operation'', JStr operation),
          (''key'', null_or (get_prop args ''key'')), (''command'', null_or (get_prop args ''command'')),
          (''feature'', null_or (get_prop args ''feature'')),
          (''adapter'', null_or (get_prop args ''adapter''))]) None)"

definition tool_validate :: "'w env \<Rightarrow> emacs_session \<Rightarrow> nat \<Rightarrow> jval \<Rightarrow> ('w, jval) handler" where
  "tool_validate env session c args =
     seq (observe_before env c session)
     (bind (request env c ''adapter.validate'' (JObj
       [(''target'', snake_target session),
        (''adapter'', if is_string (get_prop args ''adapter'') \<and> get_prop args ''adapter'' \<noteq> JStr []
            then get_prop args ''adapter'' else JNull),
        (''options'', objlike_or_empty (get_prop args ''options''))]) None) (\<lambda>r.
     bind (observe_after env c session) (\<lambda>after.
       ret (JObj [(''validation'', r), (''observed'', after)]))))"

definition wait_timeout :: "jval \<Rightarrow> jnum" where
  "wait_timeout args = num_arg (get_prop args ''timeout_ms'') (jn_clamp 1 10000) (Fin 5000)"

definition tool_wait :: "'w env \<Rightarrow> emacs_session \<Rightarrow> nat \<Rightarrow> jval \<Rightarrow> ('w, jval) handler" where
  "tool_wait env session c args =
     request env c ''wait.condition'' (JObj
       [(''target'', snake_target session), (''condition'', get_prop args ''condition''),
        (''timeout_ms'', JNum (wait_timeout args))]) (Some (jn_add (wait_timeout args) (Fin 500)))"

definition tool_analyze :: "'w env \<Rightarrow> emacs_session \<Rightarrow> nat \<Rightarrow> jval \<Rightarrow> ('w, jval) handler" where
  "tool_analyze env session c args =
     bind (lift (required_string args ''operation'')) (\<lambda>operation.
     let requested = str_or_null (get_prop args ''adapter'') in
     bind (request env c ''adapter.analyze'' (JObj
       [(''target'', snake_target session), (''adapter'', requested), (''operation'', JStr operation),
        (''params'', objlike_or_empty (get_prop args ''params''))]) None) (\<lambda>response.
     bind (prop_of response ''analysis'') (\<lambda>a.
     let dispatch = as_record_value a;
         res = as_record_value (nullish_or (get_prop dispatch ''analysis'') dispatch) in
     ret (JObj [(''analysis'', JObj
       [(''operation'', JStr (str_default (get_prop response ''operation'') operation)),
        (''adapter'', if is_string (get_prop dispatch ''adapter'') then get_prop dispatch ''adapter'' else requested),
        (''result'', res),
        (''buffer_id'', str_or_null (get_prop response ''buffer_id'')),
        (''buffer_tick'', if is_number (get_prop response ''buffer_tick'')
            then get_prop response ''buffer_tick'' else JNull)])]))))"

definition tool_capture :: "'w env \<Rightarrow> emacs_session \<Rightarrow> nat \<Rightarrow> jval \<Rightarrow> ('w, jval) handler" where
  "tool_capture env session c args =
     seq (lift (assert_capture session))
     (bind (driver_init env) (\<lambda>caps.
     seq (throw_if (\<not> truthy (get_prop caps ''connected''))
       (op_error E_NATIVE_DRIVER_UNAVAILABLE ''No native platform driver is connected.''))
     (seq (throw_if (\<not> truthy (get_prop caps ''screen_recording_granted''))
       (op_error E_SCREEN_CAPTURE_NOT_GRANTED ''Native window capture permission is not available to the connected Emacs Operator Host.''))
     (seq (throw_if (\<not> truthy (get_prop caps ''window_capture''))
       (op_error E_CAPTURE_FAILED ''The connected native host does not advertise window capture.''))
     (bind (find_live_record env (Some (es_instance_id session))) (\<lambda>r.
     bind (world_try (ev_driver_capture env
         (native_target session (ir_pid r) (get_prop args ''window_title'') (get_prop args ''window_identifier''))
         (JObj [(''max_width'', JNum (num_arg (get_prop args ''max_width'') (floor_clamp 256 4096) (Fin 2048))),
           (''include_cursor'', JBool (get_prop args ''include_cursor'' = JBool True))]))) (\<lambda>captured.
     bind (prop_of captured ''path'') (\<lambda>path.
     bind (world_try (ev_consume_png env path)) (\<lambda>image.
       ret (JObj [(''width'', get_prop captured ''width''), (''height'', get_prop captured ''height''),
         (''bytes'', get_prop image ''bytes''), (''mime_type'', get_prop image ''mime_type''),
         (''image_data'', get_prop image ''data''), (''transient_file_consumed'', JBool True)]))))))))))"

end
