(* ===== verification/Mutations.thy ===== *)
theory Mutations
  imports Tools
begin

text \<open>
  The tools of \<open>ToolRouter.dispatch\<close> that change something: evaluation, verification tickets,
  project rename, key sequences, commands, edits, checkpoints and rollback. Each begins with the
  guards of the source: the policy check, the mutation lease, the check of the target file.
\<close>

subsection \<open>Guards\<close>

text \<open>\<open>hooks.markMutation(); policy.assertMutation(session); sessions.acquireMutation(...)\<close>.\<close>

definition begin_mutation :: "'w env \<Rightarrow> emacs_session \<Rightarrow> ('w, unit) handler" where
  "begin_mutation env session =
     seq mark_mutation
     (seq (lift (assert_mutation session))
     (acquire_mutation env (es_session_id session)))"

text \<open>\<open>if (session.target.file) policy.assertFilePath(session, session.target.file)\<close>.\<close>

definition check_target_file :: "'w env \<Rightarrow> emacs_session \<Rightarrow> ('w, unit) handler" where
  "check_target_file env session =
     on (truthy (st_file (es_target session)))
       (lift (assert_file_value (ev_cwd env) session (st_file (es_target session))))"

definition check_precondition :: "jval \<Rightarrow> ('w, unit) handler" where
  "check_precondition args =
     seq (lift (validate_precondition (get_prop args ''precondition''))) (ret ())"

subsection \<open>\<open>emacs_eval\<close>\<close>

definition tool_eval :: "'w env \<Rightarrow> emacs_session \<Rightarrow> nat \<Rightarrow> jval \<Rightarrow> ('w, jval) handler" where
  "tool_eval env session c args =
     seq (begin_mutation env session)
     (seq (check_target_file env session)
     (bind (lift (required_string args ''language'')) (\<lambda>language.
     if language = ''elisp'' then
       seq (lift (assert_arbitrary_elisp session))
       (throw (denied ''Arbitrary Emacs Lisp source evaluation is disabled in this build.''))
     else
     seq (lift (assert_structured_eval session))
     (bind (lift (required_string args ''operation'')) (\<lambda>operation.
     seq (throw_if (str_default (get_prop args ''code'') [] \<noteq> [])
       (denied ''Source-string evaluation is disabled. Use a structured operation on code already present in the target buffer.''))
     (seq (check_precondition args)
     (seq (observe_before env c session)
     (bind (request env c ''adapter.eval'' (JObj
       [(''target'', snake_target session), (''language'', JStr language), (''operation'', JStr operation),
        (''adapter'', null_or (get_prop args ''adapter'')),
        (''timeout_ms'', case get_prop args ''timeout_ms'' of JNum n \<Rightarrow> JNum (floor_clamp 1 30000 n) | _ \<Rightarrow> JNull),
        (''code'', JStr []), (''precondition'', null_or (get_prop args ''precondition'')),
        (''policy'', policy_context session)]) None) (\<lambda>r.
     bind (observe_after env c session) (\<lambda>after.
       ret (JObj [(''execution'', r), (''observed'', after)])))))))))))"

subsection \<open>\<open>emacs_workflow\<close>\<close>

definition tool_workflow ::
  "(emacs_session \<Rightarrow> jval \<Rightarrow> ('w, jval) handler) \<Rightarrow> 'w env \<Rightarrow> emacs_session \<Rightarrow> nat \<Rightarrow> jval \<Rightarrow> ('w, jval) handler" where
  "tool_workflow execute env session c args =
     seq (begin_mutation env session)
     (seq (check_target_file env session)
     (seq (check_precondition args)
     (seq (observe_before env c session)
     (bind (execute session args) (\<lambda>r.
     bind (get_session env (es_session_id session)) (\<lambda>current.
     bind (observe_after env c current) (\<lambda>after.
       ret (JObj [(''workflow'', r), (''observed'', after)]))))))))"

subsection \<open>\<open>emacs_verification\<close>\<close>

definition get_ticket :: "'w env \<Rightarrow> string \<Rightarrow> string \<Rightarrow> ('w, ticket) handler" where
  "get_ticket env tid sid = bind (clock env) (\<lambda>now. on_tickets (ticket_get ticket_default_max now tid sid))"

definition close_ticket :: "'w env \<Rightarrow> string \<Rightarrow> string \<Rightarrow> ('w, unit) handler" where
  "close_ticket env tid sid = bind (clock env) (\<lambda>now. on_tickets (ticket_close ticket_default_max now tid sid))"

definition append_ticket :: "'w env \<Rightarrow> string \<Rightarrow> string \<Rightarrow> attempt \<Rightarrow> ('w, ticket) handler" where
  "append_ticket env tid sid a = bind (clock env) (\<lambda>now.
     on_tickets (ticket_append ticket_default_ttl ticket_default_max now tid sid a))"

definition create_ticket :: "'w env \<Rightarrow> ticket \<Rightarrow> ('w, ticket) handler" where
  "create_ticket env input = bind (clock env) (\<lambda>now. bind (fresh_uuid env) (\<lambda>uuid.
     on_tickets (\<lambda>ts. case ticket_create ticket_default_ttl ticket_default_max now uuid input ts of
       (t, ts') \<Rightarrow> (Inr t, ts'))))"

definition ticket_json :: "ticket \<Rightarrow> jval" where
  "ticket_json t = JObj
     [(''sessionId'', JStr (tk_session_id t)), (''adapter'', jopt_str (tk_adapter t)),
      (''operation'', JStr (tk_operation t)), (''timeoutMs'', JNum (tk_timeout_ms t)),
      (''maxAttempts'', JNum (tk_max_attempts t)), (''sideEffectRisk'', JStr (risk_name (tk_risk t))),
      (''allowRiskyRerun'', JBool (tk_allow_risky t)), (''attempts'', JArr (tk_attempts t)),
      (''ticketId'', JStr (tk_id t)), (''createdAt'', jint (tk_created_at t)),
      (''expiresAt'', jint (tk_expires_at t))]"

text \<open>\<open>ticket.attempts.at(-1)\<close>.\<close>

definition last_attempt :: "ticket \<Rightarrow> jval" where
  "last_attempt t = (if tk_attempts t = [] then JUndef else last (tk_attempts t))"

definition verification_json :: "(string \<times> jval) list \<Rightarrow> jval" where
  "verification_json kvs = JObj [(''verification'', JObj kvs)]"

definition stopped :: "string \<Rightarrow> string \<Rightarrow> ticket \<Rightarrow> (string \<times> jval) list \<Rightarrow> jval" where
  "stopped reason tid t extra = verification_json
     ([(''status'', JStr ''stopped''), (''reason'', JStr reason), (''ticket_id'', JStr tid),
       (''attempts'', JArr (tk_attempts t))] @ extra)"

definition run_evaluation ::
  "'w env \<Rightarrow> emacs_session \<Rightarrow> nat \<Rightarrow> string \<Rightarrow> string option \<Rightarrow> jnum \<Rightarrow> ('w, attempt) handler" where
  "run_evaluation env session c operation adapter timeout =
     bind (request env c ''adapter.eval'' (JObj
       [(''target'', snake_target session), (''language'', JStr ''buffer_language''),
        (''operation'', JStr operation), (''adapter'', jopt_str adapter), (''timeout_ms'', JNum timeout),
        (''code'', JStr []), (''precondition'', JNull), (''policy'', policy_context session)]) None) (\<lambda>response.
       lift (normalize_structured_evaluation response))"

definition evaluation_operations :: "string list" where
  "evaluation_operations = [''eval_last_sexp'', ''eval_defun'', ''eval_region'']"

definition risk_of :: "jval \<Rightarrow> verification_risk" where
  "risk_of v = (if js_string v = ''low'' then Low else if js_string v = ''high'' then High else Unknown)"

definition attempt_status :: "attempt \<Rightarrow> jval" where
  "attempt_status a = JStr (if attempt_completed a then ''completed'' else ''failed'')"

definition verification_start :: "'w env \<Rightarrow> emacs_session \<Rightarrow> nat \<Rightarrow> jval \<Rightarrow> ('w, jval) handler" where
  "verification_start env session c args =
     bind (lift (required_string args ''operation'')) (\<lambda>operation.
     seq (throw_if (operation \<notin> set evaluation_operations)
       (op_error E_INVALID_ARGUMENT ''Verification operation is not allowlisted.''))
     (let timeout = num_arg (get_prop args ''timeout_ms'') (floor_clamp 1 30000) (Fin 10000);
          max_attempts = num_arg (get_prop args ''max_attempts'') (floor_clamp 1 3) (Fin 3);
          risk = risk_of (get_prop args ''side_effect_risk'');
          adapter = string_of (get_prop args ''adapter'') in
     bind (run_evaluation env session c operation adapter timeout) (\<lambda>attempt.
     bind (create_ticket env \<lparr>tk_id = [], tk_session_id = es_session_id session, tk_adapter = adapter,
         tk_operation = operation, tk_timeout_ms = timeout, tk_max_attempts = max_attempts, tk_risk = risk,
         tk_allow_risky = (get_prop args ''allow_risky_rerun'' = JBool True), tk_attempts = [attempt],
         tk_created_at = 0, tk_expires_at = 0\<rparr>) (\<lambda>t.
     bind (observe_after env c session) (\<lambda>after.
       ret (JObj [(''verification'', JObj
          [(''status'', attempt_status attempt), (''ticket_id'', JStr (tk_id t)), (''attempt_count'', jint 1),
           (''attempt'', attempt), (''rerun_requires_source_change'', JBool True),
           (''side_effect_risk'', JStr (risk_name risk))]), (''observed'', after)]))))))"

text \<open>The decision of \<open>rerun\<close> before it asks the bridge: the reason to stop, if any.\<close>

definition rerun_blocked :: "string \<Rightarrow> ticket \<Rightarrow> jval option" where
  "rerun_blocked tid t =
     (if attempt_completed (last_attempt t)
      then Some (verification_json [(''status'', JStr ''completed''), (''reason'', JStr ''already_completed''),
             (''ticket_id'', JStr tid), (''attempts'', JArr (tk_attempts t))])
      else if \<not> jn_less (Fin (of_nat (length (tk_attempts t)))) (tk_max_attempts t)
      then Some (stopped ''max_attempts'' tid t [])
      else if tk_risk t \<noteq> Low \<and> \<not> tk_allow_risky t
      then Some (stopped ''runtime_side_effect_risk'' tid t [])
      else None)"

definition bounds_json :: "(jnum \<times> jnum) option \<Rightarrow> jval" where
  "bounds_json b = (case b of None \<Rightarrow> JNull | Some (x, y) \<Rightarrow> JArr [JNum x, JNum y])"

text \<open>The decision after the bridge told the fingerprint of the source: the reason to stop, if any.\<close>

definition rerun_unchanged :: "string \<Rightarrow> ticket \<Rightarrow> fingerprint \<Rightarrow> jval option" where
  "rerun_unchanged tid t fp =
     (let meta = get_prop (last_attempt t) ''metadata'';
          previous_sha = string_of (get_prop meta ''source_sha256'');
          previous_start = source_start_from_metadata (as_record_value meta) in
      (case (fp_sha fp, previous_sha) of
         (Some current, Some previous) \<Rightarrow>
           if current = [] \<or> previous = [] then Some (stopped ''source_fingerprint_unavailable'' tid t [])
           else (case (fp_start fp, previous_start) of
             (Some start, Some old) \<Rightarrow>
               if \<not> jn_eq start old
               then Some (stopped ''source_target_changed'' tid t
                      [(''previous_source_start'', JNum old), (''current_source_start'', JNum start),
                       (''current_source_bounds'', bounds_json (fp_bounds fp))])
               else if current = previous
               then Some (stopped ''source_unchanged'' tid t
                      [(''source_sha256'', JStr current), (''source_start'', JNum old)])
               else None
           | _ \<Rightarrow> Some (stopped ''source_locator_unavailable'' tid t []))
       | _ \<Rightarrow> Some (stopped ''source_fingerprint_unavailable'' tid t [])))"

definition verification_rerun :: "'w env \<Rightarrow> emacs_session \<Rightarrow> nat \<Rightarrow> jval \<Rightarrow> ('w, jval) handler" where
  "verification_rerun env session c args =
     bind (lift (required_string args ''ticket_id'')) (\<lambda>tid.
     bind (get_ticket env tid (es_session_id session)) (\<lambda>t.
     (case rerun_blocked tid t of
        Some r \<Rightarrow> ret r
      | None \<Rightarrow>
     bind (request env c ''adapter.analyze'' (JObj
       [(''target'', snake_target session), (''adapter'', JStr ''lisp''),
        (''operation'', JStr ''evaluation_source_fingerprint''),
        (''params'', JObj [(''evaluation_operation'', JStr (tk_operation t))])]) None) (\<lambda>response.
     bind (lift (analysis_fingerprint response)) (\<lambda>fp.
     (case rerun_unchanged tid t fp of
        Some r \<Rightarrow> ret r
      | None \<Rightarrow>
     bind (run_evaluation env session c (tk_operation t) (tk_adapter t) (tk_timeout_ms t)) (\<lambda>attempt.
     bind (append_ticket env tid (es_session_id session) attempt) (\<lambda>updated.
     bind (observe_after env c session) (\<lambda>after.
       ret (JObj [(''verification'', JObj
          [(''status'', attempt_status attempt), (''ticket_id'', JStr tid),
           (''attempt_count'', jnat (length (tk_attempts updated))), (''attempt'', attempt),
           (''attempts'', JArr (tk_attempts updated))]), (''observed'', after)]))))))))))"

definition tool_verification :: "'w env \<Rightarrow> emacs_session \<Rightarrow> nat \<Rightarrow> jval \<Rightarrow> ('w, jval) handler" where
  "tool_verification env session c args =
     bind (lift (required_string args ''action'')) (\<lambda>action.
     seq (throw_if (action \<notin> {''start'', ''rerun'', ''status'', ''close''})
       (op_error E_INVALID_ARGUMENT ''Unsupported verification action.''))
     (if action = ''status'' \<or> action = ''close'' then
       bind (lift (required_string args ''ticket_id'')) (\<lambda>tid.
       bind (get_ticket env tid (es_session_id session)) (\<lambda>t.
       if action = ''close'' then
         seq (close_ticket env tid (es_session_id session))
         (ret (verification_json [(''status'', JStr ''closed''), (''ticket_id'', JStr tid)]))
       else ret (verification_json
         [(''status'', JStr (if attempt_completed (last_attempt t) then ''completed'' else ''open'')),
          (''ticket'', ticket_json t)])))
     else
       seq mark_mutation
       (seq (lift (assert_mutation session))
       (seq (lift (assert_structured_eval session))
       (seq (acquire_mutation env (es_session_id session))
       (seq (check_target_file env session)
       (seq (observe_before env c session)
       (if action = ''start'' then verification_start env session c args
        else verification_rerun env session c args))))))))"

end
