(* ===== verification/Editing.thy ===== *)
theory Editing
  imports Mutations
begin

text \<open>
  The second half of the changing tools of \<open>ToolRouter.dispatch\<close>: project rename, key sequences,
  commands, edits, checkpoints and rollback.
\<close>

subsection \<open>\<open>emacs_project_rename\<close>\<close>

definition rename_languages :: "string list" where
  "rename_languages = [''generic'', ''elisp'', ''clojure'', ''common_lisp'']"

definition infer_rename_language :: "jval \<Rightarrow> jval \<Rightarrow> exn + string" where
  "infer_rename_language args observed =
     (case get_prop args ''language'' of
        JStr l \<Rightarrow>
          if l \<in> set rename_languages then Inr l
          else Inl (op_error_with E_INVALID_ARGUMENT ''Unsupported project rename language.'' [(''language'', JStr l)])
      | _ \<Rightarrow> andthen (read_prop observed ''buffer'') (\<lambda>b.
          let major_mode = str_default (get_prop (as_record_value b) ''major_mode'') [] in
          Inr (if major_mode \<in> {''emacs-lisp-mode'', ''lisp-interaction-mode''} then ''elisp''
               else if major_mode \<in> {''clojure-mode'', ''clojurescript-mode'', ''clojurec-mode''} then ''clojure''
               else if major_mode \<in> {''lisp-mode'', ''common-lisp-mode'', ''sly-mrepl-mode'', ''slime-repl-mode''}
               then ''common_lisp''
               else ''generic'')))"

definition prepare_rename_symbols :: "jval \<Rightarrow> jval \<Rightarrow> exn + (string \<times> jval) list" where
  "prepare_rename_symbols args observed =
     andthen (required_string args ''old_symbol'') (\<lambda>old.
     andthen (required_string args ''new_symbol'') (\<lambda>new.
     andthen (infer_rename_language args observed) (\<lambda>language.
     let q = string_of (get_prop args ''qualification_policy'');
         given = (case q of Some p \<Rightarrow> if p = [] then None else Some p | None \<Rightarrow> None) in
     (case prepare_symbol_rename old new (Some language) given of
        Inr p \<Rightarrow> Inr
          [(''old_symbol'', JStr old), (''requested_new_symbol'', JStr new),
           (''new_symbol'', JStr (pr_effective_new p)), (''language'', JStr (language_str (pr_language p))),
           (''qualification_policy'', JStr (pr_policy p)), (''symbol_semantics'', prepared_json p)]
      | Inl e \<Rightarrow> Inl (op_error_with E_INVALID_ARGUMENT (se_message e)
          ([(''semantic_code'', JStr (case se_code e of Some c \<Rightarrow> c | None \<Rightarrow> ''E_SYMBOL_SEMANTICS''))]
           @ (if is_record (se_details e) then [(''semantic_details'', se_details e)] else [])
           @ [(''language'', JStr language), (''qualification_policy'', jopt_str q),
              (''old_symbol'', JStr old), (''requested_new_symbol'', JStr new)]))))))"

definition rename_actions :: "string list" where
  "rename_actions = [''plan'', ''preview'', ''apply'', ''status'', ''rollback'', ''commit'']"

definition mutating_rename :: "string \<Rightarrow> bool" where
  "mutating_rename action \<longleftrightarrow> action \<in> {''apply'', ''rollback'', ''commit''}"

definition tool_project_rename :: "'w env \<Rightarrow> emacs_session \<Rightarrow> nat \<Rightarrow> jval \<Rightarrow> ('w, jval) handler" where
  "tool_project_rename env session c args =
     bind (lift (required_string args ''action'')) (\<lambda>action.
     seq (throw_if (action \<notin> set rename_actions)
       (op_error E_INVALID_ARGUMENT ''Unsupported project rename action.''))
     (seq (on (mutating_rename action) (begin_mutation env session))
     (seq (check_precondition args)
     (bind (observe_before env c session) (\<lambda>earlier.
     bind (lift (if action = ''plan'' then prepare_rename_symbols args earlier else Inr [])) (\<lambda>semantics.
     bind (request env c ''refactor.project_rename'' (JObj (spread
         (spread [(''target'', snake_target session), (''action'', JStr action)] semantics)
       [(''include_definitions'', JBool (get_prop args ''include_definitions'' \<noteq> JBool False)),
        (''plan_id'', str_or_null (get_prop args ''plan_id'')),
        (''journal_id'', str_or_null (get_prop args ''journal_id'')),
        (''max_preview_edits'', case get_prop args ''max_preview_edits'' of
            JNum n \<Rightarrow> JNum (floor_clamp 1 200 n) | _ \<Rightarrow> JNull),
        (''precondition'', null_or (get_prop args ''precondition'')),
        (''policy'', policy_context session)])) None) (\<lambda>r.
     bind (observe_after env c session) (\<lambda>after.
       ret (JObj [(''project_rename'', r), (''observed'', after)])))))))))"

subsection \<open>\<open>emacs_key_sequence\<close>\<close>

definition if_type :: "(jval \<Rightarrow> bool) \<Rightarrow> string \<Rightarrow> jval \<Rightarrow> (string \<times> jval) list" where
  "if_type P k v = (if P v then [(k, v)] else [])"

definition native_event :: "jval \<Rightarrow> exn + jval" where
  "native_event step =
     (if get_prop step ''kind'' = JStr ''text''
      then Inr (JObj [(''kind'', JStr ''text''),
             (''text'', JStr (js_string (nullish_or (get_prop step ''value'') (JStr []))))])
      else if get_prop step ''kind'' \<noteq> JStr ''event'' \<or> \<not> is_objlike (get_prop step ''event'')
      then Inl (op_error E_INVALID_ARGUMENT ''native_keys accepts structured event or text steps. Use internal_keys for Emacs kbd notation and expect steps.'')
      else (let event = get_prop step ''event'' in Inr (JObj
        ([(''kind'', JStr (js_string (nullish_or (get_prop event ''kind'') (JStr []))))]
         @ if_type is_string ''key'' (get_prop event ''key'')
         @ if_type is_string ''code'' (get_prop event ''code'')
         @ if_type is_string ''text'' (get_prop event ''text'')
         @ if_type is_array ''modifiers'' (get_prop event ''modifiers'')
         @ if_type is_number ''repeat_count'' (get_prop event ''repeat'')
         @ if_type is_number ''delay_after_milliseconds'' (get_prop event ''delayAfterMs'')))))"

fun native_events :: "jval list \<Rightarrow> exn + jval list" where
  "native_events [] = Inr []"
| "native_events (x # xs) =
     andthen (native_event x) (\<lambda>e. andthen (native_events xs) (\<lambda>es. Inr (e # es)))"

definition verify_native_execution :: "jval \<Rightarrow> jval \<Rightarrow> exn + jval" where
  "verify_native_execution observed verify =
     (case get_prop verify ''expected_command'' of
        JStr expected \<Rightarrow>
          if expected = [] then Inr (JObj [(''matched'', JBool True)])
          else andthen (read_prop observed ''interaction'') (\<lambda>interaction.
            let first = (case get_prop observed ''recent_commands'' of JArr (x # xs) \<Rightarrow> x | _ \<Rightarrow> JUndef);
                actual = (if is_string (get_prop first ''command'') then get_prop first ''command''
                          else str_or_null (get_prop interaction ''last_command''))
            in if actual \<noteq> JStr expected
               then Inl (op_error_with E_COMMAND_FAILED
                 (''Native key sequence completed but Emacs reported ''
                   @ js_string (nullish_or actual (JStr ''no command'')) @ '' instead of '' @ expected @ ''.'')
                 [(''expected_command'', JStr expected), (''observed_command'', actual)])
               else Inr (JObj [(''matched'', JBool True), (''expected_command'', JStr expected),
                      (''observed_command'', actual)]))
      | _ \<Rightarrow> Inr (JObj [(''matched'', JBool True)]))"

definition send_native_keys :: "'w env \<Rightarrow> jval \<Rightarrow> jval \<Rightarrow> ('w, jval) handler" where
  "send_native_keys env target events =
     seq (modify (\<lambda>s. s\<lparr>sv_wire := sv_wire s @ [Native_Keys target events]\<rparr>))
     (world_try (ev_driver_keys env target events (JObj
       [(''raise_window'', JBool True), (''restore_frontmost'', JBool False), (''timeout_milliseconds'', jint 1500)])))"

definition restore_application :: "'w env \<Rightarrow> jval \<Rightarrow> ('w, unit) handler" where
  "restore_application env app =
     seq (modify (\<lambda>s. s\<lparr>sv_wire := sv_wire s @ [Native_Restore app]\<rparr>))
     (seq (world_try (ev_driver_restore env app)) (ret ()))"

definition native_key_sequence :: "'w env \<Rightarrow> emacs_session \<Rightarrow> nat \<Rightarrow> jval \<Rightarrow> ('w, jval) handler" where
  "native_key_sequence env session c args =
     bind (find_live_record env (Some (es_instance_id session))) (\<lambda>r.
     bind (lift (native_events (case get_prop args ''steps'' of JArr xs \<Rightarrow> xs | _ \<Rightarrow> []))) (\<lambda>events.
     bind (send_native_keys env (native_target session (ir_pid r) JUndef JUndef) (JArr events)) (\<lambda>res.
       try_finally
         (bind (observe_after env c session) (\<lambda>after.
          bind (lift (verify_native_execution after (get_prop args ''verify''))) (\<lambda>v.
            ret (JObj [(''execution'', res), (''verification'', v), (''observed'', after)]))))
         (on (get_prop args ''restore_frontmost'' \<noteq> JBool False)
           (bind (prop_of res ''previous_frontmost'') (\<lambda>previous.
             on (truthy previous) (restore_application env previous)))))))"

text \<open>\<open>if (result.target && typeof result.target === "object") sessions.updateTarget(...)\<close>.\<close>

definition follow_target :: "'w env \<Rightarrow> emacs_session \<Rightarrow> jval \<Rightarrow> ('w, unit) handler" where
  "follow_target env session r =
     bind (prop_of r ''target'') (\<lambda>t.
       on (is_objlike t)
         (seq (update_target env (es_session_id session) (resolved_target_of t)) (ret ())))"

definition tool_key_sequence :: "'w env \<Rightarrow> emacs_session \<Rightarrow> nat \<Rightarrow> jval \<Rightarrow> ('w, jval) handler" where
  "tool_key_sequence env session c args =
     seq (begin_mutation env session)
     (seq (check_target_file env session)
     (let channel = str_default (get_prop args ''channel'') (es_default_channel session) in
     seq (throw_if (channel \<noteq> ''internal_keys'' \<and> channel \<noteq> ''native_keys'')
       (op_error E_INVALID_ARGUMENT ''emacs_key_sequence requires internal_keys or native_keys channel.''))
     (seq (lift (assert_channel session channel))
     (seq (lift (validate_internal_key_steps (get_prop args ''steps'')))
     (seq (check_precondition args)
     (seq (observe_before env c session)
     (if channel = ''native_keys'' then native_key_sequence env session c args
      else
     bind (request env c ''keys.execute'' (JObj
       [(''target'', snake_target session), (''steps'', get_prop args ''steps''),
        (''precondition'', null_or (get_prop args ''precondition'')),
        (''verify'', null_or (get_prop args ''verify'')), (''preserve_user_selection'', JBool True),
        (''policy'', policy_context session)]) None) (\<lambda>r.
     seq (follow_target env session r)
     (bind (get_session env (es_session_id session)) (\<lambda>updated.
     bind (observe_after env c updated) (\<lambda>after.
       ret (JObj [(''execution'', r), (''observed'', after)]))))))))))))"

subsection \<open>\<open>emacs_command\<close>\<close>

definition tool_command :: "'w env \<Rightarrow> emacs_session \<Rightarrow> nat \<Rightarrow> jval \<Rightarrow> ('w, jval) handler" where
  "tool_command env session c args =
     seq (begin_mutation env session)
     (seq (check_target_file env session)
     (seq (check_precondition args)
     (seq (observe_before env c session)
     (bind (lift (required_string args ''command'')) (\<lambda>command.
     bind (request env c ''command.execute'' (JObj
       [(''target'', snake_target session), (''command'', JStr command),
        (''interactive'', JBool (get_prop args ''interactive'' \<noteq> JBool False)),
        (''prefix'', null_or (get_prop args ''prefix'')),
        (''arguments'', if is_array (get_prop args ''arguments'') then get_prop args ''arguments'' else JArr []),
        (''precondition'', null_or (get_prop args ''precondition'')),
        (''preserve_user_selection'', JBool True), (''policy'', policy_context session)]) None) (\<lambda>r.
     seq (follow_target env session r)
     (bind (get_session env (es_session_id session)) (\<lambda>current.
     bind (observe_after env c current) (\<lambda>after.
       ret (JObj [(''execution'', r), (''observed'', after)]))))))))))"

subsection \<open>\<open>emacs_edit\<close>\<close>

text \<open>The full text of the buffer and its bounds, as \<open>apply_unified_diff\<close> reads them.\<close>

definition full_buffer :: "jval \<Rightarrow> exn + string \<times> jnum \<times> jnum" where
  "full_buffer resource =
     andthen (read_prop resource ''text'') (\<lambda>t.
       (case (t, get_prop resource ''start'', get_prop resource ''end'') of
          (JStr txt', JNum start, JNum stop) \<Rightarrow> Inr (txt', start, stop)
        | _ \<Rightarrow> Inl (op_error E_INTERNAL ''Bridge returned an invalid full-buffer resource response.'')))"

definition diff_edit_request :: "emacs_session \<Rightarrow> jval \<Rightarrow> jval \<Rightarrow> jnum \<Rightarrow> jnum \<Rightarrow> string \<Rightarrow> jval" where
  "diff_edit_request session args resource start stop next_text = JObj
     [(''target'', snake_target session), (''operation'', JStr ''replace_range''),
      (''start'', JNum start), (''end'', JNum stop), (''text'', JStr next_text),
      (''precondition'', nullish_or (get_prop args ''precondition'')
         (JObj [(''expected_buffer_tick'', nullish_or (get_prop resource ''buffer_tick'') JUndef)])),
      (''policy'', policy_context session)]"

definition edit_request :: "'w env \<Rightarrow> emacs_session \<Rightarrow> nat \<Rightarrow> jval \<Rightarrow> string \<Rightarrow> ('w, jval) handler" where
  "edit_request env session c args operation =
     (if operation = ''apply_unified_diff'' then
        bind (lift (required_string args ''diff'')) (\<lambda>diff.
        bind (request env c ''resource.read''
            (JObj [(''target'', snake_target session), (''range'', JStr ''full'')]) None) (\<lambda>resource.
        bind (lift (full_buffer resource)) (\<lambda>(txt', start, stop).
        bind (lift (apply_unified_diff txt' diff)) (\<lambda>next_text.
          ret (diff_edit_request session args resource start stop next_text)))))
      else ret (JObj
        [(''target'', snake_target session), (''operation'', JStr operation),
         (''position'', null_or (get_prop args ''position'')), (''start'', null_or (get_prop args ''start'')),
         (''end'', null_or (get_prop args ''end'')), (''text'', nullish_or (get_prop args ''text'') (JStr [])),
         (''precondition'', null_or (get_prop args ''precondition'')), (''policy'', policy_context session)]))"

definition tool_edit :: "'w env \<Rightarrow> emacs_session \<Rightarrow> nat \<Rightarrow> jval \<Rightarrow> ('w, jval) handler" where
  "tool_edit env session c args =
     seq (begin_mutation env session)
     (seq (check_target_file env session)
     (seq (check_precondition args)
     (seq (observe_before env c session)
     (bind (lift (required_string args ''operation'')) (\<lambda>operation.
     bind (edit_request env session c args operation) (\<lambda>req.
     bind (request env c ''edit.apply'' req None) (\<lambda>r.
     bind (observe_after env c session) (\<lambda>after.
       ret (JObj [(''execution'', r), (''observed'', after)])))))))))"

subsection \<open>\<open>emacs_checkpoint\<close> and \<open>emacs_rollback\<close>\<close>

definition tool_checkpoint :: "'w env \<Rightarrow> emacs_session \<Rightarrow> nat \<Rightarrow> jval \<Rightarrow> ('w, jval) handler" where
  "tool_checkpoint env session c args =
     seq (begin_mutation env session)
     (bind (observe_before env c session) (\<lambda>earlier.
     if str_default (get_prop args ''action'') ''create'' = ''commit'' then
       bind (lift (required_string args ''checkpoint_id'')) (\<lambda>cid.
       bind (request env c ''checkpoint.commit''
           (JObj [(''target'', snake_target session), (''checkpoint_id'', JStr cid)]) None) (\<lambda>r.
       seq (observe_after env c session) (ret r)))
     else
       bind (request env c ''checkpoint.create'' (JObj [(''target'', snake_target session),
           (''scope'', nullish_or (get_prop args ''scope'') (JStr ''buffer''))]) None) (\<lambda>r.
       seq (set_after (summary_of earlier)) (ret r))))"

definition tool_rollback :: "'w env \<Rightarrow> emacs_session \<Rightarrow> nat \<Rightarrow> jval \<Rightarrow> ('w, jval) handler" where
  "tool_rollback env session c args =
     seq (begin_mutation env session)
     (seq (observe_before env c session)
     (bind (lift (required_string args ''checkpoint_id'')) (\<lambda>cid.
     bind (request env c ''checkpoint.rollback''
         (JObj [(''target'', snake_target session), (''checkpoint_id'', JStr cid)]) None) (\<lambda>r.
     seq (observe_after env c session) (ret r)))))"

end
