(* ===== verification/Workflows.thy ===== *)
theory Workflows
  imports Editing
begin

text \<open>
  The semantic workflows of \<open>toolRouter.ts\<close> (\<open>executeSemanticWorkflow\<close> and the \<open>workflow*\<close> methods).
  A workflow runs tools of the same router through \<open>workflowStep\<close>; here the nested \<open>this.call\<close> is the
  argument \<open>call\<close>, and \<open>step\<close> is \<open>workflowStep\<close> for the session at hand.

  A workflow whose proposal fails does \<open>return this.workflowProposalFailure(...)\<close> inside its \<open>try\<close>.
  The promise is returned without \<open>await\<close>, so its rejection is not caught by that \<open>try\<close>: the body of
  the \<open>try\<close> is an act that returns an act, and the latter runs after the handler has been left
  (\<open>checkpointed\<close>).
\<close>

type_synonym 'w stepper = "string \<Rightarrow> (string \<times> jval) list \<Rightarrow> ('w, jval) handler"

subsection \<open>Steps\<close>

definition log_step :: "string \<Rightarrow> (string \<times> jval) list \<Rightarrow> jval option \<Rightarrow> ('w, unit) handler" where
  "log_step name args r = modify (\<lambda>s. s\<lparr>sv_steps := sv_steps s @ [\<lparr>sp_tool = name, sp_args = args, sp_result = r\<rparr>]\<rparr>)"

definition step_error :: "string \<Rightarrow> tool_failure \<Rightarrow> exn" where
  "step_error name f =
     (let e = tf_error f in OpError (new_operator_error (oe_code e) (oe_message e)
       (Some (JObj (spread (case oe_details e of None \<Rightarrow> [] | Some d \<Rightarrow> fields_of d)
         [(''workflow_step'', JStr name), (''workflow_audit_id'', JStr (tf_audit_id f))])))))"

definition workflow_step ::
  "'w env \<Rightarrow> (string \<Rightarrow> jval \<Rightarrow> ('w, tool_envelope) handler) \<Rightarrow> string \<Rightarrow> 'w stepper" where
  "workflow_step env call sid name args =
     bind (fresh_uuid env) (\<lambda>uuid.
     bind (try_catch
        (call name (JObj (spread args [(''session_id'', JStr sid), (''request_id'', JStr (''wf_'' @ uuid))])))
        (\<lambda>e. seq (log_step name args None) (throw e))) (\<lambda>envelope.
       (case envelope of
          Failure f \<Rightarrow> seq (log_step name args None) (throw (step_error name f))
        | Success e \<Rightarrow> seq (log_step name args (Some (ts_result e))) (ret (ts_result e)))))"

definition workflow_record :: "jval \<Rightarrow> string \<Rightarrow> exn + jval" where
  "workflow_record v label =
     (if is_record v then Inr v else Inl (op_error E_INTERNAL (label @ '' was not an object.'')))"

definition workflow_validation :: "jval \<Rightarrow> string \<Rightarrow> exn + jval" where
  "workflow_validation r adapter =
     andthen (workflow_record r ''workflow validation result'') (\<lambda>t.
     andthen (workflow_record (get_prop t ''validation'') ''workflow validation bridge result'') (\<lambda>b.
     andthen (workflow_record (get_prop b ''validations'') ''workflow adapter validations'') (\<lambda>v.
       workflow_record (get_prop v adapter) (adapter @ '' validation''))))"

definition workflow_evaluation :: "jval \<Rightarrow> exn + jval" where
  "workflow_evaluation r =
     andthen (workflow_record r ''workflow evaluation result'') (\<lambda>t.
     andthen (workflow_record (get_prop t ''execution'') ''workflow evaluation execution'') (\<lambda>x.
     andthen (workflow_record (get_prop x ''evaluation'') ''workflow adapter evaluation'') (\<lambda>e.
       workflow_record (get_prop e ''result'') ''workflow adapter evaluation result'')))"

definition wrong_analyzer :: "string \<Rightarrow> string \<Rightarrow> exn" where
  "wrong_analyzer expected got =
     op_error E_INTERNAL (''Expected '' @ expected @ '' analyzer but received '' @ got @ ''.'')"

definition check_analyzer :: "jval \<Rightarrow> string \<Rightarrow> exn + unit" where
  "check_analyzer v adapter =
     (case get_prop v ''adapter'' of
        JStr a \<Rightarrow> if a \<noteq> adapter then Inl (wrong_analyzer adapter a) else Inr ()
      | _ \<Rightarrow> Inr ())"

definition workflow_analysis :: "jval \<Rightarrow> string \<Rightarrow> exn + jval" where
  "workflow_analysis r adapter =
     andthen (workflow_record r ''workflow analysis result'') (\<lambda>t.
     andthen (workflow_record (get_prop t ''analysis'') ''workflow analysis payload'') (\<lambda>analysis.
     andthen (check_analyzer analysis adapter) (\<lambda>_.
     if is_record (get_prop analysis ''result'') then Inr (get_prop analysis ''result'')
     else
       andthen (workflow_record (get_prop analysis ''analysis'') ''workflow adapter analysis dispatch'') (\<lambda>dispatch.
       andthen (check_analyzer dispatch adapter) (\<lambda>_.
         workflow_record (get_prop dispatch ''analysis'') (adapter @ '' analysis''))))))"

definition workflow_command_return :: "jval \<Rightarrow> exn + jval" where
  "workflow_command_return r =
     andthen (workflow_record r ''workflow command result'') (\<lambda>t.
     andthen (workflow_record (get_prop t ''execution'') ''workflow command execution'') (\<lambda>x.
       Inr (get_prop x ''return_value'')))"

definition workflow_bounds :: "jval \<Rightarrow> string \<Rightarrow> exn + jnum \<times> jnum" where
  "workflow_bounds v label =
     (case v of
        JArr [JNum a, JNum b] \<Rightarrow> Inr (jn_floor a, jn_floor b)
      | _ \<Rightarrow> Inl (op_error E_INTERNAL (label @ '' did not contain numeric [start,end] bounds.'')))"

definition workflow_observation :: "string \<Rightarrow> string \<Rightarrow> jval \<Rightarrow> exn + jval" where
  "workflow_observation adapter label r =
     andthen (workflow_record r ''adapter observation'') (\<lambda>t.
     andthen (workflow_record (get_prop t ''adapters'') ''adapter observation map'') (\<lambda>a.
       workflow_record (get_prop a adapter) label))"

definition workflow_lisp_observation :: "jval \<Rightarrow> exn + jval" where
  "workflow_lisp_observation = workflow_observation ''lisp'' ''Lisp adapter observation''"

definition workflow_org_observation :: "jval \<Rightarrow> exn + jval" where
  "workflow_org_observation = workflow_observation ''org'' ''Org adapter observation''"

subsection \<open>Checkpoint, commit and rollback\<close>

definition workflow_rollback :: "'w stepper \<Rightarrow> string \<Rightarrow> ('w, jval) handler" where
  "workflow_rollback step cid =
     try_catch (step ''emacs_rollback'' [(''checkpoint_id'', JStr cid)]) (\<lambda>e.
       throw (op_error_with E_ROLLBACK_FAILED ''Semantic workflow failed and its automatic rollback also failed.''
         [(''checkpoint_id'', JStr cid), (''rollback_error'', error_to_json (as_operator_error e))]))"

definition transaction_scope :: "bool \<Rightarrow> jval" where
  "transaction_scope runtime = JObj
     ([(''buffer'', JStr ''checkpoint_managed''),
       (''runtime'', JStr (if runtime then ''not_transactional'' else ''not_touched_by_workflow_evaluation''))]
      @ (if runtime then [(''warning'', JStr ''Buffer rollback does not guarantee reversal of Lisp REPL, Babel, filesystem, process, network, or other runtime side effects already produced by evaluation.'')]
         else []))"

definition proposal_failure ::
  "'w stepper \<Rightarrow> string \<Rightarrow> string \<Rightarrow> string \<Rightarrow> (string \<times> jval) list \<Rightarrow> bool \<Rightarrow> ('w, jval) handler" where
  "proposal_failure step cid operation reason details runtime =
     bind (workflow_rollback step cid) (\<lambda>rollback. ret (JObj (spread
       [(''operation'', JStr operation), (''status'', JStr ''rolled_back''), (''reason'', JStr reason),
        (''checkpoint_id'', JStr cid), (''transaction_scope'', transaction_scope runtime),
        (''rollback'', rollback)] details)))"

definition create_checkpoint :: "'w stepper \<Rightarrow> string \<Rightarrow> ('w, string) handler" where
  "create_checkpoint step label =
     bind (step ''emacs_checkpoint'' [(''action'', JStr ''create'')]) (\<lambda>r.
     bind (lift (workflow_record r label)) (\<lambda>checkpoint.
       lift (required_string checkpoint ''checkpoint_id'')))"

definition commit_checkpoint :: "'w stepper \<Rightarrow> string \<Rightarrow> ('w, jval) handler" where
  "commit_checkpoint step cid =
     step ''emacs_checkpoint'' [(''action'', JStr ''commit''), (''checkpoint_id'', JStr cid)]"

text \<open>The \<open>try\<close> block of a workflow, and the outcome it returns, run outside the handler.\<close>

definition checkpointed :: "'w stepper \<Rightarrow> string \<Rightarrow> ('w, ('w, jval) handler) handler \<Rightarrow> ('w, jval) handler" where
  "checkpointed step cid body =
     bind (try_catch body (\<lambda>e. seq (workflow_rollback step cid) (throw e))) (\<lambda>outcome. outcome)"

text \<open>The end of the \<open>try\<close> block: commit, then return the result made from the answer.\<close>

definition commit_and_return ::
  "'w stepper \<Rightarrow> string \<Rightarrow> (jval \<Rightarrow> ('w, jval) handler) \<Rightarrow> ('w, ('w, jval) handler) handler" where
  "commit_and_return step cid result = bind (commit_checkpoint step cid) (\<lambda>commit. ret (result commit))"

subsection \<open>Evaluations of a workflow\<close>

definition evaluation_request :: "jval \<Rightarrow> string \<Rightarrow> exn + jval" where
  "evaluation_request v label =
     andthen (assert_object v label) (\<lambda>_.
     andthen (required_string v ''operation'') (\<lambda>operation.
     if operation \<notin> set evaluation_operations
     then Inl (op_error E_INVALID_ARGUMENT (label @ ''.operation must be eval_last_sexp, eval_defun, or eval_region.''))
     else
     (let timeout = num_arg (get_prop v ''timeout_ms'') (floor_clamp 1 30000) (Fin 5000);
          adapter = str_default (get_prop v ''adapter'') [];
          fixed = [(''language'', JStr ''buffer_language''), (''operation'', JStr operation),
            (''adapter'', JStr (if adapter \<noteq> [] then adapter else ''lisp'')), (''timeout_ms'', JNum timeout)];
          expected = (if get_prop v ''expected_value'' = JUndef then []
            else [(''expected_value'', JStr (js_string (get_prop v ''expected_value'')))]) in
      if get_prop v ''navigation'' = JUndef then Inr (JObj (fixed @ expected))
      else andthen (assert_object (get_prop v ''navigation'') (label @ ''.navigation'')) (\<lambda>_.
        Inr (JObj (fixed @ expected @ [(''navigation'', get_prop v ''navigation'')]))))))"

fun map_requests :: "nat \<Rightarrow> jval list \<Rightarrow> exn + jval list" where
  "map_requests i [] = Inr []"
| "map_requests i (x # xs) =
     andthen (evaluation_request x (''evaluation.steps['' @ dec_str i @ '']'')) (\<lambda>r.
     andthen (map_requests (Suc i) xs) (\<lambda>rs. Inr (r # rs)))"

definition evaluation_requests :: "jval \<Rightarrow> exn + jval list" where
  "evaluation_requests v =
     (if nullish v then Inr []
      else andthen (assert_object v ''evaluation'') (\<lambda>_.
        (case get_prop v ''steps'' of
           JArr xs \<Rightarrow>
             if xs = [] \<or> length xs > 8
             then Inl (op_error E_INVALID_ARGUMENT ''evaluation.steps must contain 1 to 8 structured evaluation steps.'')
             else map_requests 0 xs
         | _ \<Rightarrow> andthen (evaluation_request v ''evaluation'') (\<lambda>r. Inr [r]))))"

record evaluation_run =
  er_results :: "jval list"
  er_failure :: "(string \<times> string option) option"  \<comment> \<open>reason, expected value\<close>

definition without :: "string list \<Rightarrow> jval \<Rightarrow> (string \<times> jval) list" where
  "without ks v = filter (\<lambda>(k, x). k \<notin> set ks) (fields_of v)"

fun run_evaluations :: "'w stepper \<Rightarrow> jval list \<Rightarrow> jval list \<Rightarrow> ('w, evaluation_run) handler" where
  "run_evaluations step [] acc = ret \<lparr>er_results = acc, er_failure = None\<rparr>"
| "run_evaluations step (req # rest) acc =
     seq (on (get_prop req ''navigation'' \<noteq> JUndef)
       (seq (lift (assert_object (get_prop req ''navigation'') ''evaluation navigation''))
       (seq (step ''emacs_navigate'' (fields_of (get_prop req ''navigation''))) (ret ()))))
     (bind (step ''emacs_eval'' (without [''expected_value'', ''navigation''] req)) (\<lambda>evaluated.
     bind (lift (workflow_evaluation evaluated)) (\<lambda>r.
     let results = acc @ [r]; expected = get_prop req ''expected_value'' in
     if get_prop r ''completed'' \<noteq> JBool True
     then ret \<lparr>er_results = results, er_failure = Some (''runtime_condition'', None)\<rparr>
     else if expected \<noteq> JUndef \<and> js_string (get_prop r ''value'') \<noteq> js_string expected
     then ret \<lparr>er_results = results, er_failure = Some (''unexpected_value'', Some (js_string expected))\<rparr>
     else run_evaluations step rest results)))"

definition expected_field :: "string option \<Rightarrow> (string \<times> jval) list" where
  "expected_field e = (case e of None \<Rightarrow> [] | Some v \<Rightarrow> [(''expected_value'', JStr v)])"

definition evaluation_fields :: "jval list \<Rightarrow> (string \<times> jval) list" where
  "evaluation_fields results =
     (if length results = 1 then [(''evaluation'', hd results)] else [])
     @ (if length results > 1 then [(''evaluations'', JArr results)] else [])"

text \<open>
  \<open>if (evaluations.length > 0) { run them; on a failure return the proposal failure }\<close>, then go on.
  \<open>details\<close> are the details of the failure before the evaluations, \<open>earlier\<close> the earlier results.
\<close>

definition with_evaluations ::
  "'w stepper \<Rightarrow> string \<Rightarrow> string \<Rightarrow> (string \<times> jval) list \<Rightarrow> jval list \<Rightarrow> jval list \<Rightarrow>
   (jval list \<Rightarrow> ('w, ('w, jval) handler) handler) \<Rightarrow> ('w, ('w, jval) handler) handler" where
  "with_evaluations step cid operation details earlier evaluations continue =
     (if evaluations = [] then continue earlier
      else bind (run_evaluations step evaluations []) (\<lambda>run.
        let results = earlier @ er_results run in
        (case er_failure run of
           Some (reason, expected) \<Rightarrow> ret (proposal_failure step cid operation reason
             (details @ [(''evaluations'', JArr results)] @ expected_field expected) True)
         | None \<Rightarrow> continue results)))"

definition with_precondition :: "jval \<Rightarrow> (string \<times> jval) list \<Rightarrow> (string \<times> jval) list" where
  "with_precondition args kvs = (if get_prop args ''precondition'' = JUndef then kvs
     else spread kvs [(''precondition'', get_prop args ''precondition'')])"

definition validate_adapter :: "'w stepper \<Rightarrow> jval \<Rightarrow> string \<Rightarrow> ('w, jval) handler" where
  "validate_adapter step args adapter =
     bind (step ''emacs_validate'' [(''adapter'', JStr adapter),
       (''options'', objlike_or_empty (get_prop args ''validate_options''))]) (\<lambda>validated.
       lift (workflow_validation validated adapter))"

definition is_valid :: "jval \<Rightarrow> bool" where
  "is_valid v \<longleftrightarrow> get_prop v ''valid'' = JBool True"

definition checked_evaluations :: "emacs_session \<Rightarrow> jval \<Rightarrow> ('w, jval list) handler" where
  "checked_evaluations session args =
     bind (lift (evaluation_requests (get_prop args ''evaluation''))) (\<lambda>evaluations.
     seq (on (evaluations \<noteq> []) (lift (assert_structured_eval session))) (ret evaluations))"

definition committed ::
  "string \<Rightarrow> string \<Rightarrow> bool \<Rightarrow> (string \<times> jval) list \<Rightarrow> jval \<Rightarrow> ('w, jval) handler" where
  "committed operation cid runtime kvs commit = ret (JObj
     ([(''operation'', JStr operation), (''status'', JStr ''committed''), (''checkpoint_id'', JStr cid),
       (''transaction_scope'', transaction_scope runtime)] @ kvs @ [(''commit'', commit)]))"

end
