(* ===== verification/WorkflowOps.thy ===== *)
theory WorkflowOps
  imports Workflows
begin

text \<open>
  The eight semantic workflows of \<open>toolRouter.ts\<close> and \<open>executeSemanticWorkflow\<close>, which chooses one.
\<close>

subsection \<open>Shared parts\<close>

definition nonempty_string :: "jval \<Rightarrow> string option" where
  "nonempty_string v = (case v of JStr s \<Rightarrow> if s = [] then None else Some s | _ \<Rightarrow> None)"

definition name_conflict :: "string \<Rightarrow> string \<Rightarrow> jval \<Rightarrow> string \<Rightarrow> string \<Rightarrow> exn" where
  "name_conflict msg expected actual expected_key actual_key =
     op_error_with E_STATE_CONFLICT msg [(expected_key, JStr expected), (actual_key, null_or actual)]"

definition observe_adapters :: "'w stepper \<Rightarrow> ('w, jval) handler" where
  "observe_adapters step = step ''emacs_capabilities'' [(''operation'', JStr ''adapter_observe'')]"

text \<open>The check of \<open>expected_name\<close> against the current defun, made before the checkpoint.\<close>

definition check_expected_name :: "'w stepper \<Rightarrow> string option \<Rightarrow> string \<Rightarrow> ('w, unit) handler" where
  "check_expected_name step expected msg =
     (case expected of
        None \<Rightarrow> ret ()
      | Some n \<Rightarrow>
          bind (observe_adapters step) (\<lambda>observed.
          bind (lift (workflow_lisp_observation observed)) (\<lambda>lisp.
            throw_if (get_prop lisp ''defun_name'' \<noteq> JStr n)
              (name_conflict msg n (get_prop lisp ''defun_name'') ''expected_name'' ''actual_name''))))"

definition goto_position :: "'w stepper \<Rightarrow> jnum \<Rightarrow> ('w, unit) handler" where
  "goto_position step n =
     seq (step ''emacs_navigate'' [(''operation'', JStr ''goto_position''), (''position'', JNum n)]) (ret ())"

definition lisp_command :: "string \<Rightarrow> jval list \<Rightarrow> (string \<times> jval) list" where
  "lisp_command command args = [(''command'', JStr command), (''interactive'', JBool False), (''arguments'', JArr args)]"

definition size_limit :: nat where "size_limit = 262144"

subsection \<open>\<open>repair_lisp\<close>\<close>

definition workflow_repair_lisp :: "'w stepper \<Rightarrow> emacs_session \<Rightarrow> jval \<Rightarrow> ('w, jval) handler" where
  "workflow_repair_lisp step session args =
     (let edit = get_prop args ''edit'' in
     seq (lift (assert_object edit ''edit''))
     (bind (lift (required_string edit ''operation'')) (\<lambda>operation.
     seq (throw_if (operation \<notin> {''insert'', ''replace_range'', ''delete_range'', ''apply_unified_diff''})
       (op_error E_INVALID_ARGUMENT ''repair_lisp edit operation must be insert, replace_range, delete_range, or apply_unified_diff.''))
     (bind (checked_evaluations session args) (\<lambda>evaluations.
     bind (create_checkpoint step ''repair checkpoint'') (\<lambda>cid.
     checkpointed step cid
       (bind (step ''emacs_edit'' (with_precondition args
           (spread (fields_of edit) [(''operation'', JStr operation)]))) (\<lambda>edited.
        bind (validate_adapter step args ''lisp'') (\<lambda>v.
        let kvs = [(''edit'', edited), (''validation'', v)] in
        if \<not> is_valid v
        then ret (proposal_failure step cid ''repair_lisp'' ''validation_failed'' kvs False)
        else with_evaluations step cid ''repair_lisp'' kvs [] evaluations (\<lambda>results.
          commit_and_return step cid
            (committed ''repair_lisp'' cid (results \<noteq> []) (kvs @ evaluation_fields results))))))))))))"

subsection \<open>\<open>refactor_defun\<close>\<close>

definition workflow_refactor_defun :: "'w stepper \<Rightarrow> emacs_session \<Rightarrow> jval \<Rightarrow> ('w, jval) handler" where
  "workflow_refactor_defun step session args =
     bind (lift (required_string args ''replacement'')) (\<lambda>replacement.
     seq (throw_if (utf8_length replacement > size_limit)
       (op_error E_INVALID_ARGUMENT ''refactor_defun replacement exceeds the 256 KiB safety bound.''))
     (bind (observe_adapters step) (\<lambda>observed.
     bind (lift (workflow_lisp_observation observed)) (\<lambda>earlier.
     bind (lift (workflow_bounds (get_prop earlier ''defun_bounds'') ''Lisp defun observation'')) (\<lambda>(start, stop).
     let expected = nonempty_string (get_prop args ''expected_name'') in
     seq (throw_if (expected \<noteq> None \<and> get_prop earlier ''defun_name'' \<noteq> JStr (the expected))
       (name_conflict ''The current Lisp defun does not match expected_name.'' (the expected)
          (get_prop earlier ''defun_name'') ''expected_name'' ''actual_name''))
     (bind (checked_evaluations session args) (\<lambda>evaluations.
     bind (create_checkpoint step ''refactor checkpoint'') (\<lambda>cid.
     checkpointed step cid
       (bind (step ''emacs_edit'' (with_precondition args
           [(''operation'', JStr ''replace_range''), (''start'', JNum start), (''end'', JNum stop),
            (''text'', JStr replacement)])) (\<lambda>edited.
        bind (validate_adapter step args ''lisp'') (\<lambda>v.
        if \<not> is_valid v
        then ret (proposal_failure step cid ''refactor_defun'' ''validation_failed''
          [(''defun_bounds_before'', JArr [JNum start, JNum stop]), (''edit'', edited), (''validation'', v)] False)
        else
        seq (goto_position step start)
        (bind (observe_adapters step) (\<lambda>observed_after.
        bind (lift (workflow_lisp_observation observed_after)) (\<lambda>after.
        if expected \<noteq> None \<and> get_prop after ''defun_name'' \<noteq> JStr (the expected)
        then ret (proposal_failure step cid ''refactor_defun'' ''defun_identity_changed''
          [(''expected_name'', JStr (the expected)), (''actual_name'', null_or (get_prop after ''defun_name'')),
           (''validation'', v)] False)
        else with_evaluations step cid ''refactor_defun'' [(''validation'', v)] [] evaluations (\<lambda>results.
          commit_and_return step cid
            (committed ''refactor_defun'' cid (results \<noteq> [])
              ([(''defun_bounds_before'', JArr [JNum start, JNum stop]),
                (''defun_name'', null_or (get_prop after ''defun_name'')), (''validation'', v)]
               @ evaluation_fields results)))))))))))))))))"

subsection \<open>\<open>rename_symbol\<close>\<close>

definition workflow_rename_symbol :: "'w stepper \<Rightarrow> emacs_session \<Rightarrow> jval \<Rightarrow> ('w, jval) handler" where
  "workflow_rename_symbol step session args =
     bind (lift (required_string args ''old_symbol'')) (\<lambda>old.
     bind (lift (required_string args ''new_symbol'')) (\<lambda>new.
     seq (throw_if (utf8_length old > 512 \<or> utf8_length new > 512)
       (op_error E_INVALID_ARGUMENT ''Lisp symbol tokens are limited to 512 bytes.''))
     (let scope = str_default (get_prop args ''scope'') ''current_defun'';
          max_replacements = num_arg (get_prop args ''max_replacements'') jn_floor (Fin 10000);
          expected = nonempty_string (get_prop args ''expected_name'') in
     seq (throw_if (scope \<notin> {''current_defun'', ''buffer''})
       (op_error E_INVALID_ARGUMENT ''rename_symbol scope must be current_defun or buffer.''))
     (seq (throw_if (jn_less max_replacements (Fin 1) \<or> jn_less (Fin 10000) max_replacements)
       (op_error E_INVALID_ARGUMENT ''max_replacements must be from 1 to 10000.''))
     (seq (throw_if (expected \<noteq> None \<and> scope \<noteq> ''current_defun'')
       (op_error E_INVALID_ARGUMENT ''rename_symbol expected_name is only valid with scope=current_defun.''))
     (seq (check_expected_name step expected ''The current Lisp defun does not match expected_name for rename_symbol.'')
     (bind (checked_evaluations session args) (\<lambda>evaluations.
     bind (create_checkpoint step ''rename checkpoint'') (\<lambda>cid.
     checkpointed step cid
       (bind (step ''emacs_command'' (with_precondition args (lisp_command ''emacs-operator-lisp-rename-symbol''
           [JStr old, JStr new, JStr scope, JNum max_replacements]))) (\<lambda>mutated.
        bind (lift (workflow_command_return mutated)) (\<lambda>returned.
        bind (lift (workflow_record returned ''rename_symbol return value'')) (\<lambda>mutation.
        if jn_less (num_arg (get_prop mutation ''replacements'') jn_floor (Fin 0)) (Fin 1)
        then ret (proposal_failure step cid ''rename_symbol'' ''symbol_not_found'' [(''mutation'', mutation)] False)
        else
        bind (validate_adapter step args ''lisp'') (\<lambda>v.
        let kvs = [(''mutation'', mutation), (''validation'', v)] in
        if \<not> is_valid v
        then ret (proposal_failure step cid ''rename_symbol'' ''validation_failed'' kvs False)
        else with_evaluations step cid ''rename_symbol'' kvs [] evaluations (\<lambda>results.
          commit_and_return step cid
            (committed ''rename_symbol'' cid (results \<noteq> []) (kvs @ evaluation_fields results)))))))))))))))))"

subsection \<open>\<open>extract_function\<close>\<close>

definition valid_parameters :: "jval \<Rightarrow> bool" where
  "valid_parameters v =
     (case v of
        JArr xs \<Rightarrow> length xs \<le> 128 \<and>
          list_all (\<lambda>x. case x of JStr s \<Rightarrow> s \<noteq> [] \<and> utf8_length s \<le> 512 | _ \<Rightarrow> False) xs
      | _ \<Rightarrow> False)"

text \<open>The parameters of the new function, given or inferred, with the analysis if there was one.\<close>

definition extract_parameters :: "'w stepper \<Rightarrow> jval \<Rightarrow> jnum \<Rightarrow> jnum \<Rightarrow> ('w, jval \<times> jval option) handler" where
  "extract_parameters step args start stop =
     (if get_prop args ''parameters'' \<noteq> JUndef then ret (get_prop args ''parameters'', None)
      else
      bind (step ''emacs_analyze'' [(''adapter'', JStr ''lisp''), (''operation'', JStr ''infer_extract_parameters''),
        (''params'', JObj [(''bounds'', JArr [JNum start, JNum stop])])]) (\<lambda>analyzed.
      bind (lift (workflow_analysis analyzed ''lisp'')) (\<lambda>analysis.
      let unresolved = (case get_prop analysis ''unresolved'' of JArr xs \<Rightarrow> filter is_string xs | _ \<Rightarrow> []) in
      seq (throw_if (unresolved \<noteq> [])
        (op_error_with E_ANALYSIS_UNRESOLVED ''extract_function parameter inference is unresolved; provide explicit parameters or narrow the selected forms.''
          [(''unresolved'', JArr unresolved), (''analysis'', analysis)]))
      (ret (if is_array (get_prop analysis ''parameters'') then get_prop analysis ''parameters'' else JArr [],
            Some analysis)))))"

text \<open>Evaluating one definition: go there, evaluate, and the result of the evaluation.\<close>

definition evaluate_definition_at :: "'w stepper \<Rightarrow> jnum \<Rightarrow> ('w, jval) handler" where
  "evaluate_definition_at step start =
     seq (goto_position step start)
     (bind (step ''emacs_eval'' [(''language'', JStr ''buffer_language''), (''operation'', JStr ''eval_defun''),
        (''adapter'', JStr ''lisp''), (''timeout_ms'', jint 5000)]) (\<lambda>evaluated.
       lift (workflow_evaluation evaluated)))"

text \<open>\<open>if (wanted) { evaluate the definition; on a condition return the proposal failure }\<close>.\<close>

definition with_definition ::
  "'w stepper \<Rightarrow> string \<Rightarrow> bool \<Rightarrow> exn + jnum \<Rightarrow> (string \<times> jval) list \<Rightarrow> jval list \<Rightarrow>
   (jval list \<Rightarrow> ('w, ('w, jval) handler) handler) \<Rightarrow> ('w, ('w, jval) handler) handler" where
  "with_definition step cid wanted place details earlier continue =
     (if \<not> wanted then continue earlier
      else bind (lift place) (\<lambda>start.
        bind (evaluate_definition_at step start) (\<lambda>r.
        let results = earlier @ [r] in
        if get_prop r ''completed'' \<noteq> JBool True
        then ret (proposal_failure step cid ''extract_function'' ''runtime_condition''
          (details @ [(''evaluations'', JArr results)]) True)
        else continue results)))"

definition workflow_extract_function :: "'w stepper \<Rightarrow> emacs_session \<Rightarrow> jval \<Rightarrow> ('w, jval) handler" where
  "workflow_extract_function step session args =
     (let rng = get_prop args ''range'';
          start = num_arg (get_prop rng ''start'') jn_floor NotNum;
          stop = num_arg (get_prop rng ''end'') jn_floor NotNum in
     seq (lift (assert_object rng ''range''))
     (seq (throw_if (\<not> is_integer_num start \<or> \<not> is_integer_num stop \<or> jn_less start (Fin 1) \<or> \<not> jn_less start stop)
       (op_error E_INVALID_ARGUMENT ''extract_function requires range.start < range.end with positive integer positions.''))
     (bind (lift (required_string args ''name'')) (\<lambda>name.
     seq (throw_if (utf8_length name > 512)
       (op_error E_INVALID_ARGUMENT ''Extracted function name exceeds 512 bytes.''))
     (bind (extract_parameters step args start stop) (\<lambda>(parameters, analysis).
     seq (throw_if (\<not> valid_parameters parameters)
       (op_error E_INVALID_ARGUMENT ''extract_function parameters must contain at most 128 non-empty symbol strings of at most 512 bytes.''))
     (seq (check_expected_name step (nonempty_string (get_prop args ''expected_name''))
       ''The current Lisp defun does not match expected_name for extract_function.'')
     (bind (lift (evaluation_requests (get_prop args ''evaluation''))) (\<lambda>evaluations.
     let evaluate_definition = (get_prop args ''evaluate_definition'' = JBool True);
         evaluate_enclosing = (get_prop args ''evaluate_enclosing_definition'' = JBool True) in
     seq (throw_if (evaluate_enclosing \<and> \<not> evaluate_definition)
       (op_error E_INVALID_ARGUMENT ''evaluate_enclosing_definition requires evaluate_definition=true so the extracted helper is loaded first.''))
     (seq (on (evaluate_definition \<or> evaluate_enclosing \<or> evaluations \<noteq> []) (lift (assert_structured_eval session)))
     (bind (create_checkpoint step ''extract checkpoint'') (\<lambda>cid.
     checkpointed step cid
       (bind (step ''emacs_command'' (with_precondition args (lisp_command ''emacs-operator-lisp-extract-function''
           [JNum start, JNum stop, JStr name, parameters]))) (\<lambda>mutated.
        bind (lift (workflow_command_return mutated)) (\<lambda>returned.
        bind (lift (workflow_record returned ''extract_function return value'')) (\<lambda>mutation.
        bind (validate_adapter step args ''lisp'') (\<lambda>v.
        let kvs = [(''mutation'', mutation), (''validation'', v)] in
        if \<not> is_valid v
        then ret (proposal_failure step cid ''extract_function'' ''validation_failed'' kvs False)
        else
        with_definition step cid evaluate_definition
          (andthen (workflow_bounds (get_prop mutation ''new_definition_bounds'') ''extracted definition bounds'')
            (\<lambda>(s, e). Inr s)) kvs [] (\<lambda>results1.
        with_definition step cid evaluate_enclosing
          (andthen (workflow_bounds (get_prop mutation ''enclosing_definition_bounds'') ''enclosing definition bounds'') (\<lambda>_.
           andthen (workflow_bounds (get_prop mutation ''call_bounds'') ''extracted call bounds'') (\<lambda>(s, e). Inr s)))
          kvs results1 (\<lambda>results2.
        with_evaluations step cid ''extract_function'' kvs results2 evaluations (\<lambda>results.
          commit_and_return step cid
            (committed ''extract_function'' cid (results \<noteq> [])
              (kvs @ (case analysis of None \<Rightarrow> [] | Some a \<Rightarrow> [(''analysis'', a)]) @ evaluation_fields results))))))))))))))))))))))"

subsection \<open>\<open>move_form\<close> and \<open>transform_sexp\<close>\<close>

definition workflow_validated_command ::
  "'w stepper \<Rightarrow> emacs_session \<Rightarrow> string \<Rightarrow> string \<Rightarrow> jval list \<Rightarrow> jval \<Rightarrow> ('w, jval) handler" where
  "workflow_validated_command step session operation command arguments args =
     bind (checked_evaluations session args) (\<lambda>evaluations.
     bind (create_checkpoint step (operation @ '' checkpoint'')) (\<lambda>cid.
     checkpointed step cid
       (bind (step ''emacs_command'' (with_precondition args (lisp_command command arguments))) (\<lambda>mutated.
        bind (lift (workflow_command_return mutated)) (\<lambda>mutation.
        bind (validate_adapter step args ''lisp'') (\<lambda>v.
        let kvs = [(''mutation'', mutation), (''validation'', v)] in
        if \<not> is_valid v
        then ret (proposal_failure step cid operation ''validation_failed'' kvs False)
        else with_evaluations step cid operation kvs [] evaluations (\<lambda>results.
          commit_and_return step cid
            (committed operation cid (results \<noteq> []) (kvs @ evaluation_fields results)))))))))"

definition bad_count :: "jnum \<Rightarrow> bool" where
  "bad_count n \<longleftrightarrow> jn_less n (Fin 1) \<or> jn_less (Fin 100) n"

definition workflow_move_form :: "'w stepper \<Rightarrow> emacs_session \<Rightarrow> jval \<Rightarrow> ('w, jval) handler" where
  "workflow_move_form step session args =
     (let direction = str_default (get_prop args ''direction'') ''down'';
          count = num_arg (get_prop args ''count'') jn_floor (Fin 1) in
     seq (throw_if (direction \<notin> {''up'', ''down'', ''backward'', ''forward''})
       (op_error E_INVALID_ARGUMENT ''move_form direction must be up, down, backward, or forward.''))
     (seq (throw_if (bad_count count) (op_error E_INVALID_ARGUMENT ''move_form count must be from 1 to 100.''))
     (workflow_validated_command step session ''move_form'' ''emacs-operator-lisp-move-top-level-form''
        [JStr direction, JNum count] args)))"

definition transforms :: "string list" where
  "transforms = [''slurp_forward'', ''barf_forward'', ''splice'', ''wrap_round'', ''raise'', ''split'', ''join'',
     ''indent_defun'']"

definition workflow_transform_sexp :: "'w stepper \<Rightarrow> emacs_session \<Rightarrow> jval \<Rightarrow> ('w, jval) handler" where
  "workflow_transform_sexp step session args =
     bind (lift (required_string args ''transform'')) (\<lambda>transform.
     seq (throw_if (transform \<notin> set transforms)
       (op_error E_INVALID_ARGUMENT (''Unsupported structural transform: '' @ transform @ ''.'')))
     (let count = num_arg (get_prop args ''count'') jn_floor (Fin 1) in
     seq (throw_if (bad_count count) (op_error E_INVALID_ARGUMENT ''transform_sexp count must be from 1 to 100.''))
     (workflow_validated_command step session ''transform_sexp'' ''emacs-operator-lisp-structural-edit''
        [JStr transform, JNum count] args)))"

end
