(* ===== verification/OrgWorkflows.thy ===== *)
theory OrgWorkflows
  imports WorkflowOps
begin

text \<open>
  The two Org workflows of \<open>toolRouter.ts\<close>, \<open>org_rewrite_subtree\<close> and \<open>org_build_section\<close>, and
  \<open>executeSemanticWorkflow\<close>, which chooses the workflow.
\<close>

subsection \<open>\<open>org_rewrite_subtree\<close>\<close>

definition mutable_keys :: "string list" where
  "mutable_keys = [''title'', ''todo'', ''tags'', ''properties'', ''body'', ''move'']"

text \<open>\<open>runCommand\<close>: the precondition goes with the first command; the mutations are collected.\<close>

definition run_command :: "'w stepper \<Rightarrow> jval \<Rightarrow> jval list \<Rightarrow> string \<Rightarrow> jval list \<Rightarrow> ('w, jval list) handler" where
  "run_command step args mutations command arguments =
     (let kvs = lisp_command command arguments in
     bind (step ''emacs_command'' (if mutations = [] then with_precondition args kvs else kvs)) (\<lambda>r.
     bind (lift (workflow_command_return r)) (\<lambda>v. ret (mutations @ [v]))))"

definition property_error :: "string \<Rightarrow> exn" where
  "property_error p = op_error E_SCHEMA_VALIDATION (''Org property '' @ p @ '' must be a string.'')"

fun rewrite_properties :: "'w stepper \<Rightarrow> jval \<Rightarrow> (string \<times> jval) list \<Rightarrow> jval list \<Rightarrow> ('w, jval list) handler" where
  "rewrite_properties step args [] mutations = ret mutations"
| "rewrite_properties step args ((p, v) # rest) mutations =
     (case v of
        JStr s \<Rightarrow> bind (run_command step args mutations ''emacs-operator-org-set-property'' [JStr p, JStr s])
          (rewrite_properties step args rest)
      | _ \<Rightarrow> throw (property_error p))"

definition rewrite_title :: "'w stepper \<Rightarrow> jval \<Rightarrow> jval \<Rightarrow> jval list \<Rightarrow> ('w, jval list) handler" where
  "rewrite_title step args rw ms =
     (if is_string (get_prop rw ''title'')
      then run_command step args ms ''emacs-operator-org-set-title'' [get_prop rw ''title'']
      else ret ms)"

definition rewrite_todo :: "'w stepper \<Rightarrow> jval \<Rightarrow> jval \<Rightarrow> jval list \<Rightarrow> ('w, jval list) handler" where
  "rewrite_todo step args rw ms =
     (if has_own rw ''todo''
      then seq (throw_if (get_prop rw ''todo'' \<noteq> JNull \<and> \<not> is_string (get_prop rw ''todo''))
             (op_error E_SCHEMA_VALIDATION ''rewrite.todo must be a string or null.''))
           (run_command step args ms ''emacs-operator-org-set-todo'' [null_or (get_prop rw ''todo'')])
      else ret ms)"

definition rewrite_tags :: "'w stepper \<Rightarrow> jval \<Rightarrow> jval \<Rightarrow> jval list \<Rightarrow> ('w, jval list) handler" where
  "rewrite_tags step args rw ms =
     (if get_prop rw ''tags'' \<noteq> JUndef
      then seq (throw_if (\<not> is_array (get_prop rw ''tags''))
             (op_error E_SCHEMA_VALIDATION ''rewrite.tags must be an array.''))
           (run_command step args ms ''emacs-operator-org-set-tags'' [get_prop rw ''tags''])
      else ret ms)"

definition rewrite_body :: "'w stepper \<Rightarrow> jval \<Rightarrow> jval \<Rightarrow> jval list \<Rightarrow> ('w, jval list) handler" where
  "rewrite_body step args rw ms =
     (if is_string (get_prop rw ''body'')
      then run_command step args ms ''emacs-operator-org-rewrite-section-body'' [get_prop rw ''body'']
      else ret ms)"

definition rewrite_move :: "'w stepper \<Rightarrow> jval \<Rightarrow> jval \<Rightarrow> jval list \<Rightarrow> ('w, jval list) handler" where
  "rewrite_move step args rw ms =
     (if get_prop rw ''move'' \<noteq> JUndef
      then (let move = get_prop rw ''move''; count = num_arg (get_prop move ''count'') jn_floor (Fin 1) in
        bind (lift (required_string move ''direction'')) (\<lambda>direction.
        seq (throw_if (direction \<notin> {''up'', ''down''})
          (op_error E_INVALID_ARGUMENT ''Org subtree move direction must be up or down.''))
        (seq (throw_if (bad_count count)
          (op_error E_INVALID_ARGUMENT ''Org subtree move count must be from 1 to 100.''))
        (run_command step args ms
          (if direction = ''up'' then ''emacs-operator-org-move-subtree-up'' else ''emacs-operator-org-move-subtree-down'')
          [JNum count]))))
      else ret ms)"

definition workflow_org_rewrite_subtree :: "'w stepper \<Rightarrow> emacs_session \<Rightarrow> jval \<Rightarrow> ('w, jval) handler" where
  "workflow_org_rewrite_subtree step session args =
     (let rw = get_prop args ''rewrite'' in
     seq (lift (assert_object rw ''rewrite''))
     (seq (throw_if (\<not> list_ex (has_own rw) mutable_keys)
       (op_error E_INVALID_ARGUMENT ''org_rewrite_subtree requires at least one mutation field.''))
     (seq (throw_if (utf8_length (str_default (get_prop rw ''body'') []) > size_limit)
       (op_error E_INVALID_ARGUMENT ''Org rewrite body exceeds the 256 KiB safety bound.''))
     (bind (observe_adapters step) (\<lambda>observed.
     bind (lift (workflow_org_observation observed)) (\<lambda>org.
     let title = get_prop (get_prop org ''heading'') ''title'';
         expected = nonempty_string (get_prop rw ''expected_title'') in
     seq (throw_if (expected \<noteq> None \<and> title \<noteq> JStr (the expected))
       (name_conflict ''The current Org subtree does not match expected_title.'' (the expected) title
          ''expected_title'' ''actual_title''))
     (seq (on (get_prop rw ''properties'' \<noteq> JUndef)
       (lift (assert_object (get_prop rw ''properties'') ''rewrite.properties'')))
     (seq (on (get_prop rw ''move'' \<noteq> JUndef) (lift (assert_object (get_prop rw ''move'') ''rewrite.move'')))
     (bind (create_checkpoint step ''Org rewrite checkpoint'') (\<lambda>cid.
     checkpointed step cid
       (bind (rewrite_title step args rw []) (\<lambda>m1.
        bind (rewrite_todo step args rw m1) (\<lambda>m2.
        bind (rewrite_tags step args rw m2) (\<lambda>m3.
        bind (rewrite_properties step args (fields_of (get_prop rw ''properties'')) m3) (\<lambda>m4.
        bind (rewrite_body step args rw m4) (\<lambda>m5.
        bind (rewrite_move step args rw m5) (\<lambda>mutations.
        bind (validate_adapter step args ''org'') (\<lambda>v.
        let kvs = [(''mutations'', JArr mutations), (''validation'', v)] in
        if \<not> is_valid v
        then ret (proposal_failure step cid ''org_rewrite_subtree'' ''validation_failed'' kvs False)
        else commit_and_return step cid (committed ''org_rewrite_subtree'' cid False kvs)))))))))))))))))))"

subsection \<open>\<open>org_build_section\<close>\<close>

fun build_properties :: "'w stepper \<Rightarrow> (string \<times> jval) list \<Rightarrow> ('w, unit) handler" where
  "build_properties step [] = ret ()"
| "build_properties step ((p, v) # rest) =
     (case v of
        JStr s \<Rightarrow> seq (step ''emacs_command'' (lisp_command ''emacs-operator-org-set-property'' [JStr p, JStr s]))
          (build_properties step rest)
      | _ \<Rightarrow> throw (property_error p))"

text \<open>The point the bridge reports in \<open>observed.cursor.point\<close> of a step.\<close>

definition observed_cursor :: "jval \<Rightarrow> string \<Rightarrow> string \<Rightarrow> string \<Rightarrow> exn + jval" where
  "observed_cursor r label label_observed label_cursor =
     andthen (workflow_record r label) (\<lambda>a.
     andthen (workflow_record (get_prop a ''observed'') label_observed) (\<lambda>b.
       workflow_record (get_prop b ''cursor'') label_cursor))"

definition insert_body :: "'w stepper \<Rightarrow> string option \<Rightarrow> jnum \<Rightarrow> ('w, jnum) handler" where
  "insert_body step body point =
     (case body of
        None \<Rightarrow> ret point
      | Some b \<Rightarrow>
          if b = [] then ret point
          else
          bind (step ''emacs_edit'' [(''operation'', JStr ''insert''), (''position'', JNum point),
            (''text'', JStr ([LF] @ b @ (if ends_with b [LF] then [] else [LF])))]) (\<lambda>r.
          bind (lift (observed_cursor r ''Org body insertion'' ''Org body observed state'' ''Org body cursor'')) (\<lambda>cursor.
            ret (num_arg (get_prop cursor ''point'') jn_floor point))))"

definition insert_table :: "'w stepper \<Rightarrow> jval \<Rightarrow> jnum \<Rightarrow> ('w, jval option \<times> jnum) handler" where
  "insert_table step t point =
     (if t = JUndef then ret (None, point)
      else
      seq (lift (assert_object t ''section.table''))
      (seq (throw_if (\<not> is_array (get_prop t ''headers'') \<or> \<not> is_array (get_prop t ''rows''))
        (op_error E_SCHEMA_VALIDATION ''Org table requires headers and rows arrays.''))
      (seq (goto_position step point)
      (bind (step ''emacs_command'' (lisp_command ''emacs-operator-org-insert-table''
          [get_prop t ''headers'', get_prop t ''rows''])) (\<lambda>r.
      bind (lift (workflow_command_return r)) (\<lambda>returned.
      bind (lift (workflow_record returned ''Org table return value'')) (\<lambda>tr.
      bind (lift (workflow_record (get_prop tr ''table'') ''Org table metadata'')) (\<lambda>table.
      bind (lift (workflow_bounds (get_prop table ''bounds'') ''Org table bounds'')) (\<lambda>(s, e).
        ret (Some r, e))))))))))"

definition insert_source :: "'w stepper \<Rightarrow> jval \<Rightarrow> jnum \<Rightarrow> ('w, jval option) handler" where
  "insert_source step source point =
     (if source = JUndef then ret None
      else
      bind (lift (required_string source ''language'')) (\<lambda>language.
      let source_body = str_default (get_prop source ''body'') [] in
      seq (throw_if (utf8_length source_body > size_limit)
        (op_error E_INVALID_ARGUMENT ''Org source block exceeds the 256 KiB safety bound.''))
      (seq (goto_position step point)
      (bind (step ''emacs_command'' (lisp_command ''emacs-operator-org-insert-src-block''
          [JStr language, JStr source_body, JStr (str_default (get_prop source ''headers'') [])])) (\<lambda>r.
        ret (Some r))))))"

text \<open>The result of a committed section; reading the commands' return values may still throw.\<close>

definition section_result ::
  "string \<Rightarrow> jval \<Rightarrow> jval option \<Rightarrow> jval option \<Rightarrow> jval option \<Rightarrow> jval \<Rightarrow> jval \<Rightarrow> exn + jval" where
  "section_result cid heading table source babel v commit =
     andthen (case table of None \<Rightarrow> Inr []
       | Some r \<Rightarrow> andthen (workflow_command_return r) (\<lambda>x. Inr [(''table'', x)])) (\<lambda>tf.
     andthen (case source of None \<Rightarrow> Inr []
       | Some r \<Rightarrow> andthen (workflow_command_return r) (\<lambda>x. Inr [(''source_block'', x)])) (\<lambda>sf.
       Inr (JObj ([(''operation'', JStr ''org_build_section''), (''status'', JStr ''committed''),
         (''checkpoint_id'', JStr cid), (''transaction_scope'', transaction_scope (babel \<noteq> None)),
         (''heading'', heading)] @ tf @ sf
         @ (case babel of None \<Rightarrow> [] | Some b \<Rightarrow> [(''evaluation'', b)])
         @ [(''validation'', v), (''commit'', commit)]))))"

text \<open>After the evaluation: validate again, then commit.\<close>

definition finish_section ::
  "'w stepper \<Rightarrow> string \<Rightarrow> jval \<Rightarrow> jval \<Rightarrow> jval option \<Rightarrow> jval option \<Rightarrow> jval option \<Rightarrow>
   ('w, ('w, jval) handler) handler" where
  "finish_section step cid args heading table source babel =
     bind (validate_adapter step args ''org'') (\<lambda>v.
     if \<not> is_valid v
     then ret (proposal_failure step cid ''org_build_section'' ''post_evaluation_validation_failed''
       ([(''heading'', heading), (''validation'', v)]
        @ (case babel of None \<Rightarrow> [] | Some b \<Rightarrow> [(''evaluation'', b)])) (babel \<noteq> None))
     else
     bind (commit_checkpoint step cid) (\<lambda>commit.
     bind (lift (section_result cid heading table source babel v commit)) (\<lambda>r. ret (ret r))))"

text \<open>The evaluation of the source block, if it is asked for.\<close>

definition execute_babel ::
  "'w stepper \<Rightarrow> string \<Rightarrow> jval \<Rightarrow> jval \<Rightarrow> bool \<Rightarrow> jval \<Rightarrow>
   (jval option \<Rightarrow> ('w, ('w, jval) handler) handler) \<Rightarrow> ('w, ('w, jval) handler) handler" where
  "execute_babel step cid heading source execute v continue =
     (if source = JUndef \<or> \<not> execute then continue None
      else
      bind (step ''emacs_eval'' [(''language'', JStr ''buffer_language''), (''operation'', JStr ''execute_babel''),
        (''adapter'', JStr ''org''),
        (''timeout_ms'', JNum (num_arg (get_prop source ''timeout_ms'') (floor_clamp 1 30000) (Fin 5000)))]) (\<lambda>evaluated.
      bind (lift (workflow_evaluation evaluated)) (\<lambda>babel.
      let kvs = [(''heading'', heading), (''validation'', v), (''evaluation'', babel)];
          expected = get_prop source ''expected_value'' in
      if get_prop babel ''completed'' \<noteq> JBool True
      then ret (proposal_failure step cid ''org_build_section'' ''babel_condition'' kvs True)
      else if expected \<noteq> JUndef \<and> js_string (get_prop babel ''value'') \<noteq> js_string expected
      then ret (proposal_failure step cid ''org_build_section'' ''unexpected_babel_value''
        (kvs @ [(''expected_value'', JStr (js_string expected))]) True)
      else continue (Some babel))))"

definition build_section_body ::
  "'w stepper \<Rightarrow> string \<Rightarrow> jval \<Rightarrow> jval \<Rightarrow> string \<Rightarrow> jnum \<Rightarrow> string \<Rightarrow> string option \<Rightarrow> jval \<Rightarrow> bool \<Rightarrow>
   ('w, ('w, jval) handler) handler" where
  "build_section_body step cid args section' title level placement body source execute =
     seq (on (placement = ''buffer_end'')
       (seq (step ''emacs_navigate'' [(''operation'', JStr ''buffer_end'')]) (ret ())))
     (bind (step ''emacs_command'' (with_precondition args (lisp_command ''emacs-operator-org-create-heading''
         [JStr title, JNum level, null_or (get_prop section' ''todo''),
          if is_array (get_prop section' ''tags'') then get_prop section' ''tags'' else JNull]))) (\<lambda>hc.
     bind (lift (workflow_command_return hc)) (\<lambda>returned.
     bind (lift (workflow_record returned ''Org create heading return value'')) (\<lambda>heading.
     seq (on (get_prop section' ''properties'' \<noteq> JUndef)
       (seq (lift (assert_object (get_prop section' ''properties'') ''section.properties''))
            (build_properties step (fields_of (get_prop section' ''properties'')))))
     (seq (case get_prop heading ''start'' of JNum n \<Rightarrow> goto_position step (jn_floor n) | _ \<Rightarrow> ret ())
     (bind (step ''emacs_navigate'' [(''operation'', JStr ''line_end'')]) (\<lambda>le.
     bind (lift (observed_cursor le ''heading line navigation'' ''heading line observed state'' ''heading line cursor'')) (\<lambda>cursor.
     (case get_prop cursor ''point'' of
        JNum p \<Rightarrow>
     bind (insert_body step body (jn_floor p)) (\<lambda>point1.
     bind (insert_table step (get_prop section' ''table'') point1) (\<lambda>(table, point2).
     bind (insert_source step source point2) (\<lambda>src.
     bind (validate_adapter step args ''org'') (\<lambda>v.
     if \<not> is_valid v
     then ret (proposal_failure step cid ''org_build_section'' ''validation_failed''
       [(''heading'', heading), (''validation'', v)] False)
     else execute_babel step cid heading source execute v (\<lambda>babel.
       finish_section step cid args heading table src babel)))))
      | _ \<Rightarrow> throw (op_error E_INTERNAL ''Org heading navigation did not report point.''))))))))))"

definition workflow_org_build_section :: "'w stepper \<Rightarrow> emacs_session \<Rightarrow> jval \<Rightarrow> ('w, jval) handler" where
  "workflow_org_build_section step session args =
     (let section' = get_prop args ''section'' in
     seq (lift (assert_object section' ''section''))
     (bind (lift (required_string section' ''title'')) (\<lambda>title.
     let level = num_arg (get_prop section' ''level'') jn_floor (Fin 1);
         placement = str_default (get_prop section' ''placement'') ''buffer_end'';
         body = string_of (get_prop section' ''body'');
         source = get_prop section' ''source_block'';
         execute = (get_prop source ''execute'' = JBool True) in
     seq (throw_if (jn_less level (Fin 1) \<or> jn_less (Fin 50) level)
       (op_error E_INVALID_ARGUMENT ''Org section level must be from 1 to 50.''))
     (seq (throw_if (placement \<noteq> ''buffer_end'' \<and> placement \<noteq> ''at_point'')
       (op_error E_INVALID_ARGUMENT ''Org section placement must be buffer_end or at_point.''))
     (seq (throw_if (body \<noteq> None \<and> utf8_length (the body) > size_limit)
       (op_error E_INVALID_ARGUMENT ''Org section body exceeds the 256 KiB safety bound.''))
     (seq (on (source \<noteq> JUndef) (lift (assert_object source ''section.source_block'')))
     (seq (on execute (lift (assert_structured_eval session)))
     (bind (create_checkpoint step ''Org workflow checkpoint'') (\<lambda>cid.
     checkpointed step cid
       (build_section_body step cid args section' title level placement body source execute))))))))))"

subsection \<open>The choice of the workflow\<close>

definition workflow_operations :: "string list" where
  "workflow_operations = [''repair_lisp'', ''refactor_defun'', ''rename_symbol'', ''extract_function'',
     ''move_form'', ''transform_sexp'', ''org_build_section'', ''org_rewrite_subtree'']"

definition execute_semantic_workflow :: "'w stepper \<Rightarrow> emacs_session \<Rightarrow> jval \<Rightarrow> ('w, jval) handler" where
  "execute_semantic_workflow step session args =
     bind (lift (required_string args ''operation'')) (\<lambda>operation.
     seq (throw_if (operation \<notin> set workflow_operations)
       (op_error E_INVALID_ARGUMENT (''Unknown semantic workflow operation: '' @ operation @ ''.'')))
     (if operation = ''repair_lisp'' then workflow_repair_lisp step session args
      else if operation = ''refactor_defun'' then workflow_refactor_defun step session args
      else if operation = ''rename_symbol'' then workflow_rename_symbol step session args
      else if operation = ''extract_function'' then workflow_extract_function step session args
      else if operation = ''move_form'' then workflow_move_form step session args
      else if operation = ''transform_sexp'' then workflow_transform_sexp step session args
      else if operation = ''org_rewrite_subtree'' then workflow_org_rewrite_subtree step session args
      else workflow_org_build_section step session args))"

end
