(* ===== verification/Router.thy ===== *)
theory Router
  imports OrgWorkflows
begin

text \<open>
  \<open>ToolRouter.dispatch\<close> and \<open>ToolRouter.call\<close>. A workflow calls the router again, but never with
  \<open>emacs_workflow\<close> (its steps are fixed tool names), so the recursion of the source is two levels deep:
  \<open>step_call\<close> is \<open>call\<close> for the steps, where \<open>emacs_workflow\<close> cannot occur, and \<open>call\<close> the
  router with the workflows on top of it.
\<close>

subsection \<open>Dispatch\<close>

definition unknown_tool :: "string \<Rightarrow> exn" where
  "unknown_tool name = op_error E_INVALID_ARGUMENT (''Unknown tool: '' @ name @ ''.'')"

text \<open>The tools that work on a session, after \<open>dispatch\<close> has found the session and its client.\<close>

definition session_tool ::
  "(emacs_session \<Rightarrow> jval \<Rightarrow> ('w, jval) handler) \<Rightarrow> 'w env \<Rightarrow> string \<Rightarrow> emacs_session \<Rightarrow> nat \<Rightarrow> jval \<Rightarrow>
   ('w, jval) handler" where
  "session_tool workflow env name s c args =
     (if name = ''emacs_observe'' then tool_observe env s c args
      else if name = ''emacs_read'' then tool_read env s c args
      else if name = ''emacs_navigate'' then tool_navigate env s c args
      else if name = ''emacs_capabilities'' then tool_capabilities env s c args
      else if name = ''emacs_validate'' then tool_validate env s c args
      else if name = ''emacs_wait'' then tool_wait env s c args
      else if name = ''emacs_analyze'' then tool_analyze env s c args
      else if name = ''emacs_capture'' then tool_capture env s c args
      else if name = ''emacs_eval'' then tool_eval env s c args
      else if name = ''emacs_workflow'' then tool_workflow workflow env s c args
      else if name = ''emacs_verification'' then tool_verification env s c args
      else if name = ''emacs_project_rename'' then tool_project_rename env s c args
      else if name = ''emacs_key_sequence'' then tool_key_sequence env s c args
      else if name = ''emacs_command'' then tool_command env s c args
      else if name = ''emacs_edit'' then tool_edit env s c args
      else if name = ''emacs_checkpoint'' then tool_checkpoint env s c args
      else if name = ''emacs_rollback'' then tool_rollback env s c args
      else throw (unknown_tool name))"

definition with_session ::
  "'w env \<Rightarrow> jval \<Rightarrow> (emacs_session \<Rightarrow> nat \<Rightarrow> ('w, 'a) handler) \<Rightarrow> ('w, 'a) handler" where
  "with_session env args f =
     bind (lift (required_string args ''session_id'')) (\<lambda>sid.
     bind (get_session env sid) (\<lambda>s.
     seq (set_instance (es_instance_id s))
     (bind (bridge_client env (es_instance_id s)) (\<lambda>c. f s c))))"

definition dispatch ::
  "(emacs_session \<Rightarrow> jval \<Rightarrow> ('w, jval) handler) \<Rightarrow> 'w env \<Rightarrow> string \<Rightarrow> jval \<Rightarrow> ('w, jval) handler" where
  "dispatch workflow env name args =
     (if name = ''emacs_health'' then tool_health env
      else if name = ''emacs_instances'' then tool_instances env
      else if name = ''emacs_session_open'' then open_session env args
      else if name = ''emacs_session_close'' then tool_session_close env args
      else with_session env args (\<lambda>s c. session_tool workflow env name s c args))"

subsection \<open>A call\<close>

definition idem_key :: "string \<Rightarrow> string \<Rightarrow> string" where
  "idem_key name request_id = name @ '':'' @ request_id"

definition lookup_cached :: "'w env \<Rightarrow> string \<Rightarrow> ('w, tool_envelope option) handler" where
  "lookup_cached env key = bind (clock env) (\<lambda>now.
     (\<lambda>s. case idem_get now key (sv_idem s) of (hit, c) \<Rightarrow> (Inr hit, s\<lparr>sv_idem := c\<rparr>)))"

definition store_cached :: "'w env \<Rightarrow> string \<Rightarrow> tool_envelope \<Rightarrow> ('w, unit) handler" where
  "store_cached env key e = bind (clock env) (\<lambda>now.
     modify (\<lambda>s. s\<lparr>sv_idem := idem_set idem_default_ttl idem_default_max now key e (sv_idem s)\<rparr>))"

definition audit_append :: "'w env \<Rightarrow> audit_entry \<Rightarrow> ('w, unit) handler" where
  "audit_append env entry =
     seq (world_try (ev_audit_append env entry))
     (modify (\<lambda>s. s\<lparr>sv_audit := sv_audit s @ [entry]\<rparr>))"

text \<open>The request at hand: what \<open>call\<close> reads before it dispatches.\<close>

record request_info =
  rq_tool :: string
  rq_request_id :: string
  rq_audit_id :: string
  rq_session_id :: "string option"
  rq_started :: int

definition truthy_id :: "string option \<Rightarrow> string option" where
  "truthy_id i = (case i of Some s \<Rightarrow> if s = [] then None else Some s | None \<Rightarrow> None)"

text \<open>\<open>auditEntry\<close>, with the times at which the call ended and the entry was made.\<close>

definition audit_entry_of ::
  "request_info \<Rightarrow> bool \<Rightarrow> error_code option \<Rightarrow> call_hooks \<Rightarrow> int \<Rightarrow> int \<Rightarrow> audit_entry" where
  "audit_entry_of rq ok code hk finished timestamp =
     \<lparr>ae_audit_id = rq_audit_id rq, ae_request_id = rq_request_id rq,
      ae_session_id = truthy_id (rq_session_id rq), ae_instance_id = truthy_id (hk_instance hk),
      ae_timestamp = timestamp, ae_tool = rq_tool rq, ae_mutation = hk_mutation hk,
      ae_ok = ok, ae_error_code = code, ae_duration_ms = finished - rq_started rq,
      ae_state_before = hk_before hk, ae_state_after = hk_after hk\<rparr>"

text \<open>Append the entry of the call to the audit log and store its envelope.\<close>

definition finish_call ::
  "'w env \<Rightarrow> request_info \<Rightarrow> tool_envelope \<Rightarrow> error_code option \<Rightarrow> ('w, tool_envelope) handler" where
  "finish_call env rq envelope code =
     bind (gets sv_hooks) (\<lambda>hk.
     bind (clock env) (\<lambda>finished.
     bind (clock env) (\<lambda>timestamp.
     seq (audit_append env (audit_entry_of rq (env_ok envelope) code hk finished timestamp))
     (seq (store_cached env (idem_key (rq_tool rq) (rq_request_id rq)) envelope)
     (ret envelope)))))"

definition succeed :: "'w env \<Rightarrow> request_info \<Rightarrow> jval \<Rightarrow> ('w, tool_envelope) handler" where
  "succeed env rq result =
     bind (gets sv_hooks) (\<lambda>hk.
       finish_call env rq (success_envelope (rq_request_id rq) (rq_audit_id rq) result
         (truthy_id (rq_session_id rq)) (hk_before hk) (hk_after hk) None) None)"

definition fail_call :: "'w env \<Rightarrow> request_info \<Rightarrow> exn \<Rightarrow> ('w, tool_envelope) handler" where
  "fail_call env rq e =
     finish_call env rq (failure_envelope (rq_request_id rq) (rq_audit_id rq) e
       (truthy_id (rq_session_id rq)) None) (Some (exn_code e))"

text \<open>The variables of the call are fresh; those of the caller come back when it ends.\<close>

definition in_fresh_call :: "('w, 'a) handler \<Rightarrow> ('w, 'a) handler" where
  "in_fresh_call m = (\<lambda>s. case m (s\<lparr>sv_hooks := no_hooks\<rparr>) of (r, s') \<Rightarrow> (r, s'\<lparr>sv_hooks := sv_hooks s\<rparr>))"

definition request_id_of :: "'w env \<Rightarrow> jval \<Rightarrow> ('w, string) handler" where
  "request_id_of env args =
     (case truthy_id (string_of (get_prop args ''request_id'')) of
        Some r \<Rightarrow> ret r
      | None \<Rightarrow> bind (fresh_uuid env) (\<lambda>uuid. ret (''req_'' @ uuid)))"

definition run_tool ::
  "(emacs_session \<Rightarrow> jval \<Rightarrow> ('w, jval) handler) \<Rightarrow> 'w env \<Rightarrow> request_info \<Rightarrow> jval \<Rightarrow> ('w, tool_envelope) handler" where
  "run_tool workflow env rq args =
     in_fresh_call (try_catch
       (bind (dispatch workflow env (rq_tool rq) args) (\<lambda>r. succeed env rq r))
       (\<lambda>e. fail_call env rq e))"

definition call_with ::
  "(emacs_session \<Rightarrow> jval \<Rightarrow> ('w, jval) handler) \<Rightarrow> 'w env \<Rightarrow> string \<Rightarrow> jval \<Rightarrow> ('w, tool_envelope) handler" where
  "call_with workflow env name raw =
     bind (clock env) (\<lambda>started.
     let args = (if raw = JUndef then JObj [] else raw) in
     seq (lift (assert_object args ''arguments''))
     (bind (request_id_of env args) (\<lambda>request_id.
     bind (lookup_cached env (idem_key name request_id)) (\<lambda>cached.
     (case cached of
        Some envelope \<Rightarrow> ret envelope
      | None \<Rightarrow>
          bind (fresh_uuid env) (\<lambda>uuid.
            run_tool workflow env \<lparr>rq_tool = name, rq_request_id = request_id, rq_audit_id = ''aud_'' @ uuid,
              rq_session_id = string_of (get_prop args ''session_id''), rq_started = started\<rparr> args))))))"

definition no_workflow :: "emacs_session \<Rightarrow> jval \<Rightarrow> ('w, jval) handler" where
  "no_workflow s args = throw (JsError ''a workflow step is no workflow'')"

definition step_call :: "'w env \<Rightarrow> string \<Rightarrow> jval \<Rightarrow> ('w, tool_envelope) handler" where
  "step_call env = call_with no_workflow env"

definition router_step :: "'w env \<Rightarrow> string \<Rightarrow> 'w stepper" where
  "router_step env sid = workflow_step env (step_call env) sid"

definition run_workflow :: "'w env \<Rightarrow> emacs_session \<Rightarrow> jval \<Rightarrow> ('w, jval) handler" where
  "run_workflow env session args =
     execute_semantic_workflow (router_step env (es_session_id session)) session args"

definition call :: "'w env \<Rightarrow> string \<Rightarrow> jval \<Rightarrow> ('w, tool_envelope) handler" where
  "call env = call_with (run_workflow env) env"

end
