(* ===== verification/StepRelation.thy ===== *)
theory StepRelation
  imports Router
begin

text \<open>
  What every workflow inherits from its steps: a reflexive and transitive relation between server
  states that each step keeps is kept by every workflow. The locale \<open>step_relation\<close> proves it once;
  the safety theories instantiate the relation.
\<close>

text \<open>The tools the steps of a workflow use.\<close>

definition step_tools :: "string list" where
  "step_tools = [''emacs_capabilities'', ''emacs_checkpoint'', ''emacs_edit'', ''emacs_validate'',
     ''emacs_navigate'', ''emacs_eval'', ''emacs_command'', ''emacs_analyze'', ''emacs_rollback'']"

text \<open>The body of a \<open>try\<close> block keeps the relation, and so does the act it returns.\<close>

definition promises :: "('s \<Rightarrow> 's \<Rightarrow> bool) \<Rightarrow> ('s, ('s, 'a) act) act \<Rightarrow> bool" where
  "promises R b \<longleftrightarrow> keeps R b \<and> returns b (\<lambda>p s'. keeps R p)"

locale step_relation = run_relation R for R :: "'w server \<Rightarrow> 'w server \<Rightarrow> bool" +
  fixes step :: "'w stepper"
  assumes step: "tool \<in> set step_tools \<Longrightarrow> keeps R (step tool args)"
begin

lemma promises_throw: "promises R (throw e)"
  by (simp add: promises_def keeps_throw)

lemma promises_ret: "keeps R p \<Longrightarrow> promises R (ret p)"
  by (simp add: promises_def keeps_ret returns_ret)

lemma promises_bind: "keeps R m \<Longrightarrow> (\<And>x. promises R (f x)) \<Longrightarrow> promises R (bind m f)"
  by (simp add: promises_def keeps_bind returns_bind)

lemma promises_seq: "keeps R m \<Longrightarrow> promises R n \<Longrightarrow> promises R (seq m n)"
  by (simp add: promises_def keeps_seq returns_seq)

lemma promises_if: "promises R m \<Longrightarrow> promises R n \<Longrightarrow> promises R (if b then m else n)"
  by simp

lemma promises_prod: "(\<And>x y. promises R (f x y)) \<Longrightarrow> promises R (case p of (x, y) \<Rightarrow> f x y)"
  by (cases p) simp

lemma promises_option:
  "promises R m \<Longrightarrow> (\<And>x. promises R (f x)) \<Longrightarrow> promises R (case v of None \<Rightarrow> m | Some x \<Rightarrow> f x)"
  by (cases v) simp_all

lemmas promises_rules = promises_throw promises_ret promises_bind promises_seq promises_if promises_prod
  promises_option

lemma steps:
  "keeps R (step ''emacs_capabilities'' args)" "keeps R (step ''emacs_checkpoint'' args)"
  "keeps R (step ''emacs_edit'' args)" "keeps R (step ''emacs_validate'' args)"
  "keeps R (step ''emacs_navigate'' args)" "keeps R (step ''emacs_eval'' args)"
  "keeps R (step ''emacs_command'' args)" "keeps R (step ''emacs_analyze'' args)"
  "keeps R (step ''emacs_rollback'' args)"
  by (rule step, simp add: step_tools_def)+

lemma rollback: "keeps R (workflow_rollback step cid)"
  unfolding workflow_rollback_def by (intro keeps_rules steps)

lemma proposal_failure: "keeps R (proposal_failure step cid operation reason details runtime)"
  unfolding proposal_failure_def by (intro keeps_rules rollback)

lemma create_checkpoint: "keeps R (create_checkpoint step label)"
  unfolding create_checkpoint_def by (intro keeps_rules steps)

lemma commit_checkpoint: "keeps R (commit_checkpoint step cid)"
  unfolding commit_checkpoint_def by (rule steps)

lemma committed: "keeps R (committed operation cid runtime kvs c)"
  unfolding committed_def by (rule keeps_ret)

lemma checkpointed:
  assumes "promises R body"
  shows "keeps R (checkpointed step cid body)"
  unfolding keeps_def
proof
  fix s
  let ?h = "\<lambda>e. seq (workflow_rollback step cid) (throw e) :: ('w, ('w, jval) handler) handler"
  have kh: "keeps R (?h e)" for e by (rule keeps_seq [OF rollback keeps_throw])
  have h: "R t (snd (?h e t))" for e t using kh [of e] unfolding keeps_def by blast
  have "R s (snd (body s))" using assms by (simp add: promises_def keeps_def)
  show "R s (snd (checkpointed step cid body s))"
  proof (cases "body s")
    case (Pair r s1)
    show ?thesis
    proof (cases r)
      case (Inl e)
      have "fst (?h e s1) \<noteq> Inr p" for p
        by (auto simp: seq_def bind_def throw_def split: prod.splits sum.splits)
      then have "snd (checkpointed step cid body s) = snd (?h e s1)"
        unfolding checkpointed_def try_catch_def bind_def Pair Inl prod.case sum.case
        by (cases "?h e s1"; cases "fst (?h e s1)") auto
      with h [of s1 e] Pair \<open>R s (snd (body s))\<close> show ?thesis by (auto intro: trans)
    next
      case (Inr p)
      then have "keeps R p" using assms Pair by (auto simp: promises_def returns_def)
      then have "R s1 (snd (p s1))" by (simp add: keeps_def)
      moreover have "checkpointed step cid body s = p s1"
        by (simp add: checkpointed_def try_catch_def bind_def Pair Inr)
      ultimately show ?thesis using Pair \<open>R s (snd (body s))\<close> by (auto intro: trans)
    qed
  qed
qed

lemma commit_and_return: "(\<And>c. keeps R (f c)) \<Longrightarrow> promises R (commit_and_return step cid f)"
  unfolding commit_and_return_def by (intro promises_rules commit_checkpoint)

lemma run_evaluations: "keeps R (run_evaluations step reqs acc)"
proof (induction reqs arbitrary: acc)
  case Nil
  show ?case by (simp add: keeps_ret)
next
  case (Cons r reqs)
  then show ?case unfolding run_evaluations.simps Let_def by (intro keeps_rules steps)
qed

lemma with_evaluations:
  "(\<And>rs. promises R (continue rs)) \<Longrightarrow>
     promises R (with_evaluations step cid operation details earlier evaluations continue)"
  unfolding with_evaluations_def Let_def
  by (intro promises_rules run_evaluations proposal_failure)

lemma validate_adapter: "keeps R (validate_adapter step args adapter)"
  unfolding validate_adapter_def by (intro keeps_rules steps)

lemma checked_evaluations: "keeps R (checked_evaluations session args)"
  unfolding checked_evaluations_def by (intro keeps_rules)

lemma observe_adapters: "keeps R (observe_adapters step)"
  unfolding observe_adapters_def by (rule steps)

lemma check_expected_name: "keeps R (check_expected_name step expected msg)"
  unfolding check_expected_name_def by (intro keeps_rules observe_adapters)

lemma goto_position: "keeps R (goto_position step n)"
  unfolding goto_position_def by (intro keeps_rules steps)

lemmas parts = steps create_checkpoint checkpointed commit_and_return committed with_evaluations
  proposal_failure validate_adapter checked_evaluations observe_adapters check_expected_name goto_position

subsubsection \<open>The workflows\<close>

lemma repair_lisp: "keeps R (workflow_repair_lisp step session args)"
  unfolding workflow_repair_lisp_def Let_def by (intro keeps_rules promises_rules parts)

lemma refactor_defun: "keeps R (workflow_refactor_defun step session args)"
  unfolding workflow_refactor_defun_def Let_def by (intro keeps_rules promises_rules parts)

lemma rename_symbol: "keeps R (workflow_rename_symbol step session args)"
  unfolding workflow_rename_symbol_def Let_def by (intro keeps_rules promises_rules parts)

lemma extract_parameters: "keeps R (extract_parameters step args start stop)"
  unfolding extract_parameters_def Let_def by (intro keeps_rules steps)

lemma with_definition:
  "(\<And>rs. promises R (continue rs)) \<Longrightarrow>
     promises R (with_definition step cid wanted place details earlier continue)"
  unfolding with_definition_def evaluate_definition_at_def Let_def
  by (intro keeps_rules promises_rules parts)

lemma extract_function: "keeps R (workflow_extract_function step session args)"
  unfolding workflow_extract_function_def Let_def
  by (intro keeps_rules promises_rules parts extract_parameters with_definition)

lemma validated_command: "keeps R (workflow_validated_command step session operation command arguments args)"
  unfolding workflow_validated_command_def Let_def by (intro keeps_rules promises_rules parts)

lemma move_form: "keeps R (workflow_move_form step session args)"
  unfolding workflow_move_form_def Let_def by (intro keeps_rules validated_command)

lemma transform_sexp: "keeps R (workflow_transform_sexp step session args)"
  unfolding workflow_transform_sexp_def Let_def by (intro keeps_rules validated_command)

lemma run_command: "keeps R (run_command step args ms command arguments)"
  unfolding run_command_def Let_def by (intro keeps_rules steps)

lemma rewrite_properties: "keeps R (rewrite_properties step args kvs ms)"
proof (induction kvs arbitrary: ms)
  case Nil
  show ?case by (simp add: keeps_ret)
next
  case (Cons kv kvs)
  then show ?case
    by (cases kv; cases "snd kv") (auto intro: keeps_bind run_command keeps_throw)
qed

lemma rewrite_parts:
  "keeps R (rewrite_title step args rw ms)" "keeps R (rewrite_todo step args rw ms)"
  "keeps R (rewrite_tags step args rw ms)" "keeps R (rewrite_body step args rw ms)"
  "keeps R (rewrite_move step args rw ms)"
  unfolding rewrite_title_def rewrite_todo_def rewrite_tags_def rewrite_body_def rewrite_move_def Let_def
  by (intro keeps_rules run_command)+

lemma org_rewrite_subtree: "keeps R (workflow_org_rewrite_subtree step session args)"
  unfolding workflow_org_rewrite_subtree_def Let_def
  by (intro keeps_rules promises_rules parts rewrite_parts rewrite_properties)

lemma build_properties: "keeps R (build_properties step kvs)"
proof (induction kvs)
  case Nil
  show ?case by (simp add: keeps_ret)
next
  case (Cons kv kvs)
  then show ?case by (cases kv; cases "snd kv") (auto intro: keeps_seq steps keeps_throw)
qed

lemma inserts:
  "keeps R (insert_body step body p)" "keeps R (insert_table step t p)" "keeps R (insert_source step src p)"
  unfolding insert_body_def insert_table_def insert_source_def Let_def
  by (intro keeps_rules parts)+

lemma finish_section: "promises R (finish_section step cid args heading table source babel)"
  unfolding finish_section_def by (intro keeps_rules promises_rules parts commit_checkpoint)

lemma execute_babel:
  "(\<And>b. promises R (continue b)) \<Longrightarrow> promises R (execute_babel step cid heading source execute v continue)"
  unfolding execute_babel_def Let_def by (intro keeps_rules promises_rules parts)

lemma build_section_body:
  "promises R (build_section_body step cid args sec title level placement body source execute)"
proof -
  have start: "keeps R (case get_prop heading ''start'' of JNum n \<Rightarrow> goto_position step (jn_floor n) | _ \<Rightarrow> ret ())"
    for heading
    by (cases "get_prop heading ''start''") (simp_all add: goto_position keeps_ret)
  have point: "(\<And>p. promises R (f p)) \<Longrightarrow> promises R (case v of JNum p \<Rightarrow> f p | _ \<Rightarrow> throw e)" for f v e
    by (cases v) (simp_all add: promises_throw)
  show ?thesis
    unfolding build_section_body_def
    by (intro keeps_rules promises_rules parts build_properties start point inserts execute_babel finish_section)
qed

lemma org_build_section: "keeps R (workflow_org_build_section step session args)"
  unfolding workflow_org_build_section_def Let_def
  by (intro keeps_rules promises_rules parts build_section_body)

lemma semantic_workflow: "keeps R (execute_semantic_workflow step session args)"
  unfolding execute_semantic_workflow_def
  by (intro keeps_rules repair_lisp refactor_defun rename_symbol extract_function move_form transform_sexp
      org_rewrite_subtree org_build_section)

end

end
