(* ===== verification/RouterEffects.thy ===== *)
theory RouterEffects
  imports StepRelation
begin

text \<open>
  Relations between the states of the server that every effect of a handler respects. The locale
  \<open>effect_relation\<close> lists the effects (clock, identifiers, tickets, hooks, clients, requests, sessions)
  and concludes that every tool respects the relation; \<open>call_relation\<close> adds the end of a call, where
  the audit log and the idempotency cache change, and \<open>router_relation\<close> the session changes of the
  remaining tools, and concludes the same of every call, workflows included.
\<close>

subsection \<open>Requests that are allowed\<close>

definition allows :: "(wire_event \<Rightarrow> bool) \<Rightarrow> string list \<Rightarrow> bool" where
  "allows P methods \<longleftrightarrow> (\<forall>m \<in> set methods. \<forall>c p. P (Bridge_Request c m p))"

lemma allowsD: "allows P methods \<Longrightarrow> m \<in> set methods \<Longrightarrow> P (Bridge_Request c m p)"
  by (simp add: allows_def)

subsection \<open>Effects\<close>

text \<open>
  \<open>P\<close> says which requests may be sent, \<open>mine\<close> which sessions a handler may use.
\<close>

locale effect_relation = run_relation R for R :: "'w server \<Rightarrow> 'w server \<Rightarrow> bool" +
  fixes P :: "wire_event \<Rightarrow> bool" and mine :: "string \<Rightarrow> bool"
  assumes world_changes: "R s (s\<lparr>sv_world := w\<rparr>)"
    and uuid_used: "R s (s\<lparr>sv_uuids := Suc (sv_uuids s)\<rparr>)"
    and tickets_change: "R s (s\<lparr>sv_tickets := ts\<rparr>)"
    and hooks_change: "R s (s\<lparr>sv_hooks := h\<rparr>)"
    and clients_change: "R s (s\<lparr>sv_clients := cs\<rparr>)"
    and sent: "P e \<Longrightarrow> R s (s\<lparr>sv_wire := sv_wire s @ [e]\<rparr>)"
    and session_found: "mine sid \<Longrightarrow> R s (s\<lparr>sv_sessions := snd (sm_get session_ttl now sid (sv_sessions s))\<rparr>)"
    and lease_acquired: "mine sid \<Longrightarrow> R s (s\<lparr>sv_sessions := snd (sm_acquire session_ttl now sid (sv_sessions s))\<rparr>)"
begin

lemma world: "keeps R (world f)"
  by (auto simp: keeps_def world_def intro: world_changes split: prod.splits)

lemma world_try: "keeps R (world_try f)"
  by (auto simp: keeps_def world_try_def intro: world_changes split: prod.splits)

lemma clock: "keeps R (clock env)"
  by (simp add: clock_def world)

lemma fresh_uuid: "keeps R (fresh_uuid env)"
  by (simp add: keeps_def fresh_uuid_def uuid_used)

lemma on_tickets: "keeps R (on_tickets f)"
  by (auto simp: keeps_def on_tickets_def intro: tickets_change split: prod.splits)

lemma update_hooks: "keeps R (update_hooks f)"
  unfolding update_hooks_def by (rule keeps_modify) (rule hooks_change)

lemma on_sessions:
  "(\<And>s. R s (s\<lparr>sv_sessions := snd (f (sv_sessions s))\<rparr>)) \<Longrightarrow> keeps R (on_sessions f)"
  by (simp add: keeps_def on_sessions_def case_prod_beta)

lemma request_with: "P (Bridge_Request c method params) \<Longrightarrow> keeps R (request env c method params t)"
  unfolding request_def by (rule keeps_seq [OF keeps_modify world_try]) (rule sent)

lemma request: "(\<And>p. P (Bridge_Request c method p)) \<Longrightarrow> keeps R (request env c method params t)"
  by (rule request_with)

lemmas hooks = set_before_def set_after_def mark_mutation_def set_instance_def

lemma hook_effects:
  "keeps R (set_before v)" "keeps R (set_after v)" "keeps R mark_mutation" "keeps R (set_instance i)"
  by (simp_all add: hooks update_hooks)

lemma get_session: "mine sid \<Longrightarrow> keeps R (get_session env sid)"
  unfolding get_session_def by (intro keeps_bind clock on_sessions session_found)

lemma acquire_mutation: "mine sid \<Longrightarrow> keeps R (acquire_mutation env sid)"
  unfolding acquire_mutation_def by (intro keeps_bind clock on_sessions lease_acquired)

lemma discover: "keeps R (discover env)"
  unfolding discover_def by (intro keeps_rules clock)

lemma find_live_record: "keeps R (find_live_record env i)"
  unfolding find_live_record_def by (intro keeps_rules discover)

lemma new_client: "keeps R (new_client env i r cached)"
  unfolding new_client_def close_client_def
  by (intro keeps_rules world world_try keeps_modify clients_change)

lemma bridge_client: "keeps R (bridge_client env i)"
  unfolding bridge_client_def by (intro keeps_rules find_live_record new_client)

lemma driver_init: "keeps R (driver_init env)"
  by (simp add: driver_init_def world_try)

lemmas effects = world world_try clock fresh_uuid on_tickets update_hooks hook_effects discover find_live_record new_client bridge_client driver_init


lemma observe:
  assumes "allows P [''state.observe'']"
  shows "keeps R (observe_compact env c s)" "keeps R (observe_before env c s)" "keeps R (observe_after env c s)"
proof -
  show 1: "keeps R (observe_compact env c s)"
    unfolding observe_compact_def by (rule request) (rule allowsD [OF assms], simp)
  show "keeps R (observe_before env c s)" "keeps R (observe_after env c s)"
    unfolding observe_before_def observe_after_def by (intro keeps_rules effects 1)+
qed

subsubsection \<open>Tools that need no session\<close>

lemma tool_health: "keeps R (tool_health env)"
  unfolding tool_health_def by (intro keeps_rules effects)

lemma tool_instances: "keeps R (tool_instances env)"
  unfolding tool_instances_def by (intro keeps_rules effects)

subsubsection \<open>Reading tools\<close>

lemma tool_observe: "allows P [''state.observe''] \<Longrightarrow> keeps R (tool_observe env s c args)"
  unfolding tool_observe_def by (intro keeps_rules effects request) (simp add: allows_def)

lemma tool_read: "allows P [''state.observe'', ''resource.read''] \<Longrightarrow> keeps R (tool_read env s c args)"
  unfolding tool_read_def Let_def
  by (intro keeps_rules effects request observe) (simp_all add: allows_def)

lemma check_precondition: "keeps R (check_precondition args)"
  unfolding check_precondition_def by (intro keeps_rules)

lemma tool_navigate:
  "allows P [''state.observe'', ''navigation.execute''] \<Longrightarrow> keeps R (tool_navigate env s c args)"
  unfolding tool_navigate_def
  by (intro keeps_rules effects request observe) (simp_all add: allows_def)

lemma tool_capabilities: "allows P [''capabilities.query''] \<Longrightarrow> keeps R (tool_capabilities env s c args)"
  unfolding tool_capabilities_def by (intro keeps_rules request) (simp add: allows_def)

lemma tool_validate:
  "allows P [''state.observe'', ''adapter.validate''] \<Longrightarrow> keeps R (tool_validate env s c args)"
  unfolding tool_validate_def
  by (intro keeps_rules effects request observe) (simp_all add: allows_def)

lemma tool_wait: "allows P [''wait.condition''] \<Longrightarrow> keeps R (tool_wait env s c args)"
  unfolding tool_wait_def by (intro request) (simp add: allows_def)

lemma tool_analyze: "allows P [''adapter.analyze''] \<Longrightarrow> keeps R (tool_analyze env s c args)"
  unfolding tool_analyze_def Let_def by (intro keeps_rules request) (simp add: allows_def)

lemma tool_capture: "keeps R (tool_capture env s c args)"
  unfolding tool_capture_def by (intro keeps_rules effects)

lemmas reading_tools = tool_observe tool_read tool_navigate tool_capabilities tool_validate tool_wait
  tool_analyze tool_capture

subsubsection \<open>Changing tools\<close>

lemma begin_mutation: "mine (es_session_id s) \<Longrightarrow> keeps R (begin_mutation env s)"
  unfolding begin_mutation_def by (intro keeps_rules effects acquire_mutation)

lemma check_target_file: "keeps R (check_target_file env s)"
  unfolding check_target_file_def by (intro keeps_rules)

lemmas guards = begin_mutation check_target_file check_precondition

lemma tool_eval:
  assumes "mine (es_session_id s)" "allows P [''state.observe'', ''adapter.eval'']"
  shows "keeps R (tool_eval env s c args)"
  unfolding tool_eval_def
  by (intro keeps_rules effects request observe guards)
    (use assms in \<open>simp_all add: allows_def\<close>)

lemma tickets:
  "keeps R (get_ticket env tid i)" "keeps R (close_ticket env tid i)" "keeps R (append_ticket env tid i a)"
  "keeps R (create_ticket env input)"
  unfolding get_ticket_def close_ticket_def append_ticket_def create_ticket_def
  by (intro keeps_rules effects)+

lemma run_evaluation:
  "allows P [''adapter.eval''] \<Longrightarrow> keeps R (run_evaluation env s c operation adapter t)"
  unfolding run_evaluation_def by (intro keeps_rules request) (simp add: allows_def)

lemma verification_start:
  "allows P [''state.observe'', ''adapter.eval''] \<Longrightarrow> keeps R (verification_start env s c args)"
  unfolding verification_start_def Let_def
  by (intro keeps_rules effects tickets observe run_evaluation) (simp_all add: allows_def)

lemma verification_rerun:
  "allows P [''state.observe'', ''adapter.eval'', ''adapter.analyze''] \<Longrightarrow> keeps R (verification_rerun env s c args)"
  unfolding verification_rerun_def Let_def
  by (intro keeps_rules effects tickets observe request run_evaluation) (simp_all add: allows_def)

lemma tool_verification:
  assumes "mine (es_session_id s)" "allows P [''state.observe'', ''adapter.eval'', ''adapter.analyze'']"
  shows "keeps R (tool_verification env s c args)"
  unfolding tool_verification_def
  by (intro keeps_rules effects acquire_mutation tickets observe check_target_file verification_start verification_rerun)
    (use assms in \<open>simp_all add: allows_def\<close>)

lemma tool_project_rename:
  assumes "mine (es_session_id s)" "allows P [''state.observe'', ''refactor.project_rename'']"
  shows "keeps R (tool_project_rename env s c args)"
  unfolding tool_project_rename_def
  by (intro keeps_rules effects request observe guards) (use assms in \<open>simp_all add: allows_def\<close>)

lemma edit_request:
  "allows P [''resource.read''] \<Longrightarrow> keeps R (edit_request env s c args operation)"
  unfolding edit_request_def by (intro keeps_rules request) (simp add: allows_def)

lemma tool_edit:
  assumes "mine (es_session_id s)" "allows P [''state.observe'', ''resource.read'', ''edit.apply'']"
  shows "keeps R (tool_edit env s c args)"
  unfolding tool_edit_def
  by (intro keeps_rules effects request observe guards edit_request)
    (use assms in \<open>simp_all add: allows_def\<close>)

lemma tool_checkpoint:
  assumes "mine (es_session_id s)" "allows P [''state.observe'', ''checkpoint.create'', ''checkpoint.commit'']"
  shows "keeps R (tool_checkpoint env s c args)"
  unfolding tool_checkpoint_def
  by (intro keeps_rules effects request observe guards) (use assms in \<open>simp_all add: allows_def\<close>)

lemma tool_rollback:
  assumes "mine (es_session_id s)" "allows P [''state.observe'', ''checkpoint.rollback'']"
  shows "keeps R (tool_rollback env s c args)"
  unfolding tool_rollback_def
  by (intro keeps_rules effects request observe guards) (use assms in \<open>simp_all add: allows_def\<close>)

subsubsection \<open>Opening a session\<close>

lemma open_session:
  assumes "\<And>input. keeps R (open_session_entry env input)"
    and "allows P [''instance.describe'', ''session.target.resolve'', ''state.observe'']"
  shows "keeps R (open_session env args)"
proof -
  have "keeps R (connect_record env r)" for r
    unfolding connect_record_def
    by (intro keeps_rules request new_client) (use assms(2) in \<open>simp add: allows_def\<close>)
  then show ?thesis
    unfolding open_session_def Let_def
    by (intro keeps_rules effects assms(1) request) (use assms(2) in \<open>simp_all add: allows_def\<close>)
qed

subsubsection \<open>Around the tools\<close>

lemma in_fresh_call:
  assumes "keeps R m"
  shows "keeps R (in_fresh_call m)"
  unfolding keeps_def
proof
  fix s
  let ?s = "s\<lparr>sv_hooks := no_hooks\<rparr> :: 'w server"
  obtain r and s' :: "'w server" where m: "m ?s = (r, s')" by fastforce
  have "R s ?s" "R ?s s'" "R s' (s'\<lparr>sv_hooks := sv_hooks s\<rparr>)"
    using assms m by (simp_all add: keeps_def hooks_change) (metis snd_conv)
  with m show "R s (snd (in_fresh_call m s))" by (auto simp: in_fresh_call_def intro: trans)
qed

lemma request_id_of: "keeps R (request_id_of env args)"
  unfolding request_id_of_def by (intro keeps_rules effects)

end

subsection \<open>The end of a call\<close>

locale call_relation = effect_relation +
  fixes env :: "'w env"
  assumes call_kept: "keeps R (dispatch workflow env name (if raw = JUndef then JObj [] else raw)) \<Longrightarrow>
    keeps R (call_with workflow env name raw)"

text \<open>Relations that any audit entry and any change of the cache respect.\<close>

locale log_relation = effect_relation +
  assumes audit_grows: "R s (s\<lparr>sv_audit := sv_audit s @ [entry]\<rparr>)"
    and cache_changes: "R s (s\<lparr>sv_idem := c\<rparr>)"
begin

lemma audit_append: "keeps R (audit_append env entry)"
  unfolding audit_append_def
  by (intro keeps_rules effects keeps_modify audit_grows)

lemma store_cached: "keeps R (store_cached env key e)"
  unfolding store_cached_def
  by (intro keeps_rules effects keeps_modify cache_changes)

lemma lookup_cached: "keeps R (lookup_cached env key)"
proof -
  have "keeps R (\<lambda>s. case idem_get now key (sv_idem s) of (hit, c) \<Rightarrow> (Inr hit, s\<lparr>sv_idem := c\<rparr>))" for now
    by (auto simp: keeps_def intro: cache_changes split: prod.splits)
  then show ?thesis unfolding lookup_cached_def by (intro keeps_rules effects)
qed

lemma finish_call: "keeps R (finish_call env rq e code)"
  unfolding finish_call_def by (intro keeps_rules effects audit_append store_cached)

lemma run_tool: "keeps R (dispatch workflow env (rq_tool rq) args) \<Longrightarrow> keeps R (run_tool workflow env rq args)"
  unfolding run_tool_def succeed_def fail_call_def
  by (intro in_fresh_call keeps_rules finish_call)

lemma call_with:
  assumes "keeps R (dispatch workflow env name (if raw = JUndef then JObj [] else raw))"
  shows "keeps R (call_with workflow env name raw)"
proof -
  let ?args = "if raw = JUndef then JObj [] else raw"
  have tool: "keeps R (run_tool workflow env \<lparr>rq_tool = name, rq_request_id = i, rq_audit_id = a,
      rq_session_id = v, rq_started = n\<rparr> ?args)" for i a v n
    using assms by (intro run_tool) simp
  show ?thesis
    unfolding call_with_def Let_def
    by (intro keeps_bind keeps_seq keeps_option keeps_ret keeps_lift
        effects request_id_of lookup_cached tool)
qed

end

sublocale log_relation \<subseteq> call_relation R P mine env for env
  by unfold_locales (rule call_with)

subsection \<open>Tools that follow the target\<close>

locale target_relation = effect_relation +
  assumes target_followed:
    "mine sid \<Longrightarrow> R s (s\<lparr>sv_sessions := snd (sm_update_target session_ttl now sid t (sv_sessions s))\<rparr>)"
begin

lemma follow_target: "mine (es_session_id s) \<Longrightarrow> keeps R (follow_target env s r)"
  unfolding follow_target_def update_target_def
  by (intro keeps_rules effects on_sessions target_followed)

lemma session_again: "mine (es_session_id s) \<Longrightarrow> keeps R (get_session env (es_session_id s))"
  by (simp add: get_session)

lemma native_key_sequence:
  assumes "allows P [''state.observe'']" "\<And>t es. P (Native_Keys t es)" "\<And>app. P (Native_Restore app)"
  shows "keeps R (native_key_sequence env s c args)"
proof -
  have "keeps R (send_native_keys env t es)" for t es
    unfolding send_native_keys_def
    by (rule keeps_seq [OF keeps_modify world_try]) (rule sent [OF assms(2)])
  moreover have "keeps R (restore_application env app)" for app
    unfolding restore_application_def
    by (rule keeps_seq [OF keeps_modify keeps_seq [OF world_try keeps_ret]]) (rule sent [OF assms(3)])
  ultimately show ?thesis
    unfolding native_key_sequence_def by (intro keeps_rules effects observe [OF assms(1)])
qed

lemma tool_key_sequence:
  assumes "mine (es_session_id s)" "allows P [''state.observe'', ''keys.execute'']"
    and "\<And>t es. P (Native_Keys t es)" "\<And>app. P (Native_Restore app)"
  shows "keeps R (tool_key_sequence env s c args)"
proof -
  have "allows P [''state.observe'']" using assms(2) by (simp add: allows_def)
  then show ?thesis
    unfolding tool_key_sequence_def Let_def
    by (intro keeps_rules effects request observe guards follow_target session_again
        native_key_sequence assms(1,3,4)) (use assms(2) in \<open>simp_all add: allows_def\<close>)
qed

lemma tool_command:
  assumes "mine (es_session_id s)" "allows P [''state.observe'', ''command.execute'']"
  shows "keeps R (tool_command env s c args)"
  unfolding tool_command_def
  by (intro keeps_rules effects request observe guards follow_target session_again assms(1))
    (use assms(2) in \<open>simp_all add: allows_def\<close>)

lemma tool_workflow:
  assumes "mine (es_session_id s)" "allows P [''state.observe'']" "keeps R (workflow s args)"
  shows "keeps R (tool_workflow workflow env s c args)"
  unfolding tool_workflow_def
  by (intro keeps_rules effects observe guards session_again assms)

end

end
