(* ===== verification/RouterSafety.thy ===== *)
theory RouterSafety
  imports RouterEffects
begin

text \<open>
  What may leave the server. \<open>guarded_rel P G\<close> relates two states when, as long as \<open>G\<close> holds of the
  sessions, everything sent in between satisfies \<open>P\<close>, and \<open>G\<close> holds in the end. The locale
  \<open>wire_guard\<close> shows of every tool which requests it can send; its interpretations are the safety
  properties of the router.
\<close>

subsection \<open>What is sent\<close>

definition sends :: "(wire_event \<Rightarrow> bool) \<Rightarrow> 'w server \<Rightarrow> 'w server \<Rightarrow> bool" where
  "sends P s s' \<longleftrightarrow> (\<exists>new. sv_wire s' = sv_wire s @ new \<and> list_all P new)"

definition guarded_rel ::
  "(wire_event \<Rightarrow> bool) \<Rightarrow> (session_manager \<Rightarrow> bool) \<Rightarrow> 'w server \<Rightarrow> 'w server \<Rightarrow> bool" where
  "guarded_rel P G s s' \<longleftrightarrow> (G (sv_sessions s) \<longrightarrow> G (sv_sessions s') \<and> sends P s s')"

lemma sends_same: "sv_wire s' = sv_wire s \<Longrightarrow> sends P s s'"
  by (simp add: sends_def)

lemma sends_trans: "sends P s t \<Longrightarrow> sends P t u \<Longrightarrow> sends P s u"
  by (auto simp: sends_def)

lemma sends_one: "P e \<Longrightarrow> sv_wire s' = sv_wire s @ [e] \<Longrightarrow> sends P s s'"
  by (simp add: sends_def)

lemma sendsD: "sends P s s' \<Longrightarrow> sv_wire s' = sv_wire s @ new \<Longrightarrow> e \<in> set new \<Longrightarrow> P e"
  by (auto simp: sends_def list_all_iff)

lemma guarded_relI: "sv_wire s' = sv_wire s \<Longrightarrow> sv_sessions s' = sv_sessions s \<Longrightarrow> guarded_rel P G s s'"
  by (simp add: guarded_rel_def sends_same)

interpretation guarded: run_relation "guarded_rel P G" for P :: "wire_event \<Rightarrow> bool" and G
  by unfold_locales (auto simp: guarded_rel_def sends_same intro: sends_trans)

text \<open>A computation that cannot end normally while \<open>G\<close> holds hides what follows it.\<close>

lemma keeps_guarded_blocked:
  assumes "keeps (guarded_rel P G) m" "\<And>s. G (sv_sessions s) \<Longrightarrow> \<exists>e s'. m s = (Inl e, s')"
  shows "keeps (guarded_rel P G) (bind m f)"
  unfolding keeps_def
proof
  fix s
  have m: "guarded_rel P G s (snd (m s))" using assms(1) by (simp add: keeps_def)
  show "guarded_rel P G s (snd (bind m f s))"
  proof (cases "G (sv_sessions s)")
    case True
    then obtain e s' where "m s = (Inl e, s')" using assms(2) by blast
    with m show ?thesis by (simp add: bind_def)
  qed (simp add: guarded_rel_def)
qed

text \<open>A bind whose second part may rely on what \<open>G\<close> says of the value of the first.\<close>

lemma keeps_guarded_value:
  assumes "keeps (guarded_rel P G) m"
    and "\<And>s x s'. G (sv_sessions s) \<Longrightarrow> m s = (Inr x, s') \<Longrightarrow> Q x"
    and "\<And>x. Q x \<Longrightarrow> keeps (guarded_rel P G) (f x)"
  shows "keeps (guarded_rel P G) (bind m f)"
  unfolding keeps_def
proof
  fix s
  have m: "guarded_rel P G s (snd (m s))" using assms(1) by (simp add: keeps_def)
  show "guarded_rel P G s (snd (bind m f s))"
  proof (cases "G (sv_sessions s)")
    case True
    show ?thesis
    proof (cases "m s")
      case (Pair r s1)
      show ?thesis
      proof (cases r)
        case (Inl e)
        with m Pair show ?thesis by (simp add: bind_def)
      next
        case (Inr x)
        then have "guarded_rel P G s1 (snd (f x s1))"
          using assms(2) [OF True] assms(3) Pair by (simp add: keeps_def)
        with m Pair Inr show ?thesis by (auto simp: bind_def intro: guarded.trans)
      qed
    qed
  qed (simp add: guarded_rel_def)
qed

subsection \<open>Guards\<close>

locale wire_guard =
  fixes P :: "wire_event \<Rightarrow> bool" and G :: "session_manager \<Rightarrow> bool" and sid :: string
  assumes get: "G m \<Longrightarrow> G (snd (sm_get session_ttl now sid m))"
    and acquire: "G m \<Longrightarrow> G (snd (sm_acquire session_ttl now sid m))"
begin

abbreviation R :: "'w server \<Rightarrow> 'w server \<Rightarrow> bool" where
  "R \<equiv> guarded_rel P G"

end

sublocale wire_guard \<subseteq> log_relation "guarded_rel P G" P "\<lambda>i. i = sid"
  by unfold_locales (auto simp: guarded_rel_def sends_same get acquire intro: sends_one)

subsection \<open>Calls on one session\<close>

definition reading_methods :: "string list" where
  "reading_methods = [''state.observe'', ''resource.read'', ''navigation.execute'', ''capabilities.query'',
     ''adapter.validate'', ''wait.condition'', ''adapter.analyze'']"

text \<open>\<open>G\<close> says something (\<open>Q\<close>) of the session \<open>sid\<close> whenever it is found.\<close>

locale wire_session = wire_guard +
  fixes Q :: "emacs_session \<Rightarrow> bool"
  assumes closed_session: "G m \<Longrightarrow> G (snd (sm_close sid m))"
    and found: "G m \<Longrightarrow> sm_get session_ttl now sid m = (Inr s, m') \<Longrightarrow> Q s"
    and same_id: "Q s \<Longrightarrow> es_session_id s = sid"
begin

lemma get_session_value:
  assumes "G (sv_sessions s)" "get_session env sid s = (Inr x, s')"
  shows "Q x"
proof -
  obtain now w where "ev_now env (sv_world s) = (now, w)" by fastforce
  with assms(2) obtain m' where "sm_get session_ttl now sid (sv_sessions s) = (Inr x, m')"
    by (auto simp: get_session_def clock_def world_def on_sessions_def bind_run split: prod.splits)
  with assms(1) show ?thesis by (rule found)
qed

lemma with_session:
  assumes "\<And>s c. Q s \<Longrightarrow> keeps R (f s c)" "get_prop args ''session_id'' = JStr sid"
  shows "keeps R (with_session env args f)"
proof -
  have "keeps R (bind (get_session env sid) (\<lambda>s.
     seq (set_instance (es_instance_id s)) (bind (bridge_client env (es_instance_id s)) (\<lambda>c. f s c))))"
    by (rule keeps_guarded_value [OF get_session [OF HOL.refl] get_session_value])
      (assumption | intro guarded.keeps_rules effects assms(1))+
  then show ?thesis
    using assms(2) by (cases "sid = []")
      (simp_all add: with_session_def required_string_def guarded.keeps_throw)
qed

lemma session_close:
  assumes "get_prop args ''session_id'' = JStr sid"
  shows "keeps R (tool_session_close env args)"
proof -
  have "keeps R (close_session sid)"
    unfolding close_session_def
    by (rule on_sessions) (auto dest: closed_session simp: guarded_rel_def sends_same case_prod_beta)
  then have "keeps R (bind (get_session env sid) (\<lambda>s. seq (set_instance (es_instance_id s))
      (bind (close_session sid) (\<lambda>b. ret (JObj [(''closed'', JBool b)])))))"
    by (intro guarded.keeps_rules effects get_session HOL.refl)
  then show ?thesis
    using assms by (cases "sid = []")
      (simp_all add: tool_session_close_def required_string_def guarded.keeps_throw)
qed

lemma dispatch:
  assumes "\<And>s c. Q s \<Longrightarrow> keeps R (session_tool workflow env name s c args)"
    and "get_prop args ''session_id'' = JStr sid" "name \<noteq> ''emacs_session_open''"
  shows "keeps R (dispatch workflow env name args)"
  unfolding dispatch_def if_not_P [OF assms(3)]
  by (intro guarded.keeps_if tool_health tool_instances session_close with_session assms(1,2))

text \<open>The tools, given what the guarded ones send.\<close>

lemma session_tool:
  assumes "allows P reading_methods"
    and "keeps R (tool_eval env s c args)" "keeps R (tool_workflow workflow env s c args)"
    and "keeps R (tool_verification env s c args)" "keeps R (tool_project_rename env s c args)"
    and "keeps R (tool_key_sequence env s c args)" "keeps R (tool_command env s c args)"
    and "keeps R (tool_edit env s c args)" "keeps R (tool_checkpoint env s c args)"
    and "keeps R (tool_rollback env s c args)"
  shows "keeps R (session_tool workflow env name s c args)"
proof -
  have "allows P [''state.observe'']" "allows P [''state.observe'', ''resource.read'']"
    "allows P [''state.observe'', ''navigation.execute'']" "allows P [''capabilities.query'']"
    "allows P [''state.observe'', ''adapter.validate'']" "allows P [''wait.condition'']"
    "allows P [''adapter.analyze'']"
    using assms(1) by (simp_all add: allows_def reading_methods_def)
  then show ?thesis
    unfolding session_tool_def by (intro guarded.keeps_if guarded.keeps_throw reading_tools assms(2-))
qed

end

text \<open>The steps of a workflow are calls on the same session.\<close>

context wire_session
begin

lemma step_calls:
  assumes "\<And>s c args. Q s \<Longrightarrow> keeps R (session_tool no_workflow env tool s c args)"
    and "tool \<in> set step_tools"
  shows "keeps R (router_step env sid tool args)"
proof -
  have "keeps R (step_call env tool (JObj (spread args
      [(''session_id'', JStr sid), (''request_id'', JStr (''wf_'' @ uuid))])))" for uuid
    unfolding step_call_def
    by (rule call_with, rule dispatch) (use assms in \<open>auto simp: step_tools_def\<close>)
  moreover have "keeps R (log_step tool args res)" for res :: "jval option"
    unfolding log_step_def by (rule guarded.keeps_modify) (simp add: guarded_relI)
  moreover have "keeps R m \<Longrightarrow> (\<And>e. keeps R (n e)) \<Longrightarrow>
      keeps R (case v of Success e \<Rightarrow> n e | Failure f \<Rightarrow> m)" for m v and n :: "_ \<Rightarrow> ('a, jval) handler"
    by (cases v) simp_all
  ultimately show ?thesis
    unfolding router_step_def workflow_step_def
    by (intro guarded.keeps_rules effects) (auto split: tool_envelope.split intro: guarded.keeps_rules)
qed

lemma workflows:
  assumes "\<And>tool s c args. Q s \<Longrightarrow> keeps R (session_tool no_workflow env tool s c args)" "Q session"
  shows "keeps R (run_workflow env session args)"
  unfolding run_workflow_def same_id [OF assms(2)]
  by (rule step_relation.semantic_workflow, unfold_locales, rule step_calls, rule assms(1)) assumption+

text \<open>All calls of the router, given its tools for any workflow that stays within bounds.\<close>

lemma routed_calls:
  assumes tools: "\<And>workflow name s c args. Q s \<Longrightarrow> (\<And>args. keeps R (workflow s args)) \<Longrightarrow>
      keeps R (session_tool workflow env name s c args)"
    and "get_prop raw ''session_id'' = JStr sid" "name \<noteq> ''emacs_session_open''"
  shows "keeps R (call env name raw)"
proof -
  have steps: "Q s \<Longrightarrow> keeps R (session_tool no_workflow env tool s c args)" for tool s c args
    by (rule tools) (simp_all add: no_workflow_def guarded.keeps_throw)
  have "keeps R (session_tool (run_workflow env) env tool s c args)" if "Q s" for tool s c args
    using that workflows [OF steps that] by (rule tools)
  then show ?thesis
    unfolding call_def using assms(2,3) by (intro call_with dispatch) auto
qed

end

text \<open>Guards that also survive a change of the session's target.\<close>

locale wire_session_update = wire_session +
  assumes update: "G m \<Longrightarrow> G (snd (sm_update_target session_ttl now sid t m))"

sublocale wire_session_update \<subseteq> target_relation "guarded_rel P G" P "\<lambda>i. i = sid"
  by unfold_locales (auto simp: guarded_rel_def sends_same update)

text \<open>A check that fails hides what follows it.\<close>

lemma keeps_failed_check: "r = Inl e \<Longrightarrow> keeps (guarded_rel P G) (seq (lift r) n)"
  by (simp add: seq_def guarded.keeps_throw)

lemma sum_case_eq_Inr:
  "(case r of Inl e \<Rightarrow> Inl (f e) | Inr x \<Rightarrow> Inr (g x)) = Inr y \<longleftrightarrow> (\<exists>x. r = Inr x \<and> g x = y)"
  by (cases r) auto

lemma prepare_rename_symbols_keys:
  "prepare_rename_symbols args b = Inr kvs \<Longrightarrow> map_of kvs ''action'' = None \<and> js_map_ok kvs"
  unfolding prepare_rename_symbols_def andthen_eq_Inr Let_def sum_case_eq_Inr
  by (elim exE conjE) (clarsimp simp: js_map_ok_def)

text \<open>
  A guard that blocks every mutation of the session: no tool gets past \<open>begin_mutation\<close>. What is left
  is reading, and the actions of a project rename that change nothing.
\<close>

locale mutation_blocked = wire_session +
  assumes reading: "allows P reading_methods"
    and passive_rename: "get_prop params ''action'' \<noteq> JStr ''apply'' \<Longrightarrow>
      get_prop params ''action'' \<noteq> JStr ''rollback'' \<Longrightarrow> get_prop params ''action'' \<noteq> JStr ''commit'' \<Longrightarrow>
      P (Bridge_Request c ''refactor.project_rename'' params)"
    and blocked: "Q s \<Longrightarrow> G m \<Longrightarrow> assert_mutation s = Inr () \<Longrightarrow>
      \<exists>e m'. sm_acquire session_ttl now sid m = (Inl e, m')"
begin

lemma acquire_blocked:
  assumes "Q s" "assert_mutation s = Inr ()" "G (sv_sessions t)"
  shows "\<exists>e t'. acquire_mutation env sid t = (Inl e, t')"
proof -
  obtain now w where "ev_now env (sv_world t) = (now, w)" by fastforce
  moreover obtain e m' where "sm_acquire session_ttl now sid (sv_sessions t) = (Inl e, m')"
    using blocked [OF assms(1,3,2)] by blast
  ultimately show ?thesis
    by (simp add: acquire_mutation_def clock_def world_def on_sessions_def bind_run)
qed

lemma begin_blocked:
  assumes "Q s" "G (sv_sessions t)"
  shows "\<exists>e t'. begin_mutation env s t = (Inl e, t')"
proof (cases "assert_mutation s")
  case (Inl e)
  then show ?thesis
    by (simp add: begin_mutation_def seq_def mark_mutation_def update_hooks_def exec_simps)
next
  case (Inr u)
  let ?t = "t\<lparr>sv_hooks := hk_mutation_update (\<lambda>_. True) (sv_hooks t)\<rparr>"
  obtain e t' where "acquire_mutation env sid ?t = (Inl e, t')"
    using acquire_blocked [of s ?t env] assms Inr by auto
  then show ?thesis using Inr same_id [OF assms(1)]
    by (simp add: begin_mutation_def seq_def mark_mutation_def update_hooks_def exec_simps)
qed

lemma after_begin: "Q s \<Longrightarrow> keeps R (seq (begin_mutation env s) n)"
  unfolding seq_def
  by (rule keeps_guarded_blocked) (auto intro: begin_mutation same_id begin_blocked)

lemma verification_blocked:
  assumes "Q s"
  shows "keeps R (tool_verification env s c args)"
proof -
  have acq: "keeps R (seq (acquire_mutation env sid) n)" if "assert_mutation s = Inr ()" for n
    unfolding seq_def
    by (rule keeps_guarded_blocked) (auto intro: acquire_mutation acquire_blocked [OF assms that])
  have start: "keeps R (seq (lift (assert_mutation s)) (seq (lift (assert_structured_eval s))
      (seq (acquire_mutation env (es_session_id s)) n)))" for n
    by (cases "assert_mutation s")
      (auto simp: seq_def [of "lift (Inl _)"] seq_def [of "lift (Inr _)"] same_id [OF assms]
        intro: guarded.keeps_throw guarded.keeps_seq guarded.keeps_lift acq)
  show ?thesis
    unfolding tool_verification_def
    by (intro guarded.keeps_rules effects tickets start)
qed

lemma rename_blocked:
  assumes "Q s"
  shows "keeps R (tool_project_rename env s c args)"
proof (cases "required_string args ''action''")
  case (Inl e)
  then show ?thesis by (simp add: tool_project_rename_def guarded.keeps_throw)
next
  case (Inr action)
  show ?thesis
  proof (cases "mutating_rename action")
    case True
    then have begin_on: "on (mutating_rename action) m = m" for m :: "('w server, unit) act"
      by (simp add: on_def)
    show ?thesis
      unfolding tool_project_rename_def Inr bind_lift_simps begin_on
      by (rule guarded.keeps_seq [OF guarded.keeps_throw_if after_begin [OF assms]])
  next
    case False
    have sem: "map_of kvs ''action'' = None \<and> js_map_ok kvs"
      if "lift (if action = ''plan'' then prepare_rename_symbols args b else Inr []) t = (Inr kvs, t')"
      for b kvs t t'
      using that prepare_rename_symbols_keys by (auto simp: lift_def split: if_splits)
    have act: "get_prop (JObj (spread (spread [(''target'', x), (''action'', JStr action)] kvs) rest)) ''action'' = JStr action"
      if "map_of kvs ''action'' = None \<and> js_map_ok kvs" "map_of rest ''action'' = None \<and> js_map_ok rest" for x kvs rest
      using that by (simp add: map_of_spread map_add_def)
    have inert: "P (Bridge_Request c ''refactor.project_rename'' params)"
      if "get_prop params ''action'' = JStr action" for params
      using that False by (intro passive_rename) (auto simp: mutating_rename_def)
    have obs: "allows P [''state.observe'']"
      using reading by (simp add: allows_def reading_methods_def)
    show ?thesis
      unfolding tool_project_rename_def Inr bind_lift_simps
      by (rule guarded.keeps_seq [OF guarded.keeps_throw_if], rule guarded.keeps_seq,
          simp add: on_def False guarded.keeps_ret, rule guarded.keeps_seq [OF check_precondition],
          rule guarded.keeps_bind [OF observe(2) [OF obs]], rule keeps_guarded_value [OF guarded.keeps_lift sem],
          assumption, rule guarded.keeps_bind, rule request_with, rule inert, rule act, assumption,
          simp add: js_map_ok_def, rule guarded.keeps_bind [OF observe(3) [OF obs]], rule guarded.keeps_ret)
  qed
qed

lemma session_tools: "Q s \<Longrightarrow> keeps R (session_tool workflow env name s c args)"
  by (rule session_tool [OF reading])
    (auto simp: tool_eval_def tool_workflow_def tool_key_sequence_def tool_command_def tool_edit_def
      tool_checkpoint_def tool_rollback_def intro: after_begin verification_blocked rename_blocked)

lemma calls:
  assumes "get_prop raw ''session_id'' = JStr sid" "name \<noteq> ''emacs_session_open''"
  shows "keeps R (call_with workflow env name raw)"
  by (rule call_with, rule dispatch) (use assms in \<open>auto intro: session_tools\<close>)

end

end
