(* ===== verification/ExampleServer.thy ===== *)
theory ExampleServer
  imports Router
begin

text \<open>
  A small Emacs to run the router against: one instance, a bridge that answers each request with the
  fields the router reads, a native host that sends keys. The witnesses of the router theorems are
  runs of the router in this environment.
\<close>

definition example_record :: jval where
  "example_record = JObj [(''instance_id'', JStr ''i''), (''pid'', JNum (Fin 7)), (''host'', JStr ''127.0.0.1''),
     (''port'', JNum (Fin 9)), (''token_file'', JStr ''t''), (''heartbeat_at'', JStr ''now'')]"

definition example_evaluation :: jval where
  "example_evaluation = JObj [(''evaluation'', JObj [(''adapter'', JStr ''lisp''),
     (''result'', JObj [(''completed'', JBool True), (''value'', JStr ''3'')])])]"

definition example_reply :: "string \<Rightarrow> jval" where
  "example_reply method =
     (if method = ''checkpoint.create'' then JObj [(''checkpoint_id'', JStr ''cp'')]
      else if method = ''adapter.validate''
      then JObj [(''validations'', JObj [(''lisp'', JObj [(''valid'', JBool True)])])]
      else if method = ''adapter.eval'' then example_evaluation
      else JObj [(''state_seq'', JNum (Fin 1))])"

definition example_env :: "unit env" where
  "example_env = \<lparr>ev_now = (\<lambda>w. (0, w)), ev_iso = (\<lambda>_. ''t''), ev_uuid = dec_str, ev_cwd = ''/'',
     ev_listing = (\<lambda>_. Some [(''instance-i.json'', Some example_record)]), ev_alive = (\<lambda>_ _. True),
     ev_date_parse = (\<lambda>_. Fin 0), ev_collate = (\<lambda>_ _. True),
     ev_connect = (\<lambda>_ w. (Inr (1, JObj []), w)), ev_close = (\<lambda>_ w. w),
     ev_request = (\<lambda>_ m _ _ w. (Inr (example_reply m), w)),
     ev_driver_init = (\<lambda>w. (Inr (JObj []), w)), ev_driver_keys = (\<lambda>_ _ _ w. (Inr (JObj []), w)),
     ev_driver_restore = (\<lambda>_ w. (Inr JNull, w)), ev_driver_capture = (\<lambda>_ _ w. (Inr (JObj []), w)),
     ev_consume_png = (\<lambda>_ w. (Inr (JObj []), w)), ev_audit_append = (\<lambda>_ w. (Inr (), w))\<rparr>"

text \<open>The router with one open session, of the given profile, working on the given file.\<close>

definition example_open :: "string \<Rightarrow> jval \<Rightarrow> session_open_input" where
  "example_open profile_name file = \<lparr>so_instance_id = ''i'', so_default_channel = ''semantic'',
     so_permission_profile = profile_name,
     so_target = \<lparr>rt_frame_id = JUndef, rt_frame_title = JNull, rt_native_window = JUndef,
       rt_window_id = JUndef, rt_buffer_id = JStr ''b'', rt_file = file, rt_project_root = JStr ''/work''\<rparr>,
     so_capabilities = \<lparr>sc_channels = \<lparr>cc_semantic = True, cc_internal_keys = True, cc_native_keys = True\<rparr>,
       sc_features = []\<rparr>,
     so_state_seq = Fin 1, so_lease_owner = None\<rparr>"

definition example_server :: "string \<Rightarrow> jval \<Rightarrow> unit server" where
  "example_server profile_name file = (initial_server ())
     \<lparr>sv_sessions := snd (sm_open 0 ''1'' (example_open profile_name file) empty_manager), sv_uuids := 2\<rparr>"

definition example_args :: "(string \<times> jval) list \<Rightarrow> jval" where
  "example_args kvs = JObj ([(''session_id'', JStr ''ses_1''), (''request_id'', JStr ''r'')] @ kvs)"


definition example_session_of :: "string \<Rightarrow> jval \<Rightarrow> emacs_session" where
  "example_session_of profile_name file = fst (sm_open 0 ''1'' (example_open profile_name file) empty_manager)"

lemma example_session:
  "map_of (sm_sessions (sv_sessions (example_server p f))) ''ses_1'' = Some (example_session_of p f)"
  "es_permission_profile (example_session_of p f) = p" "st_file (es_target (example_session_of p f)) = present f"
  "es_session_id (example_session_of p f) = ''ses_1''" "es_instance_id (example_session_of p f) = ''i''"
  by (simp_all add: example_server_def example_session_of_def sm_open_def empty_manager_def Let_def example_open_def
      session_target_of_def)

lemma example_args_session: "get_prop (example_args kvs) ''session_id'' = JStr ''ses_1''"
  by (simp add: example_args_def)

lemma example_wire: "sv_wire (example_server p f) = []"
  by (simp add: example_server_def initial_server_def)

lemma example_ok: "sm_ok (sv_sessions (example_server p f))"
  using sm_ok_open [OF sm_ok_empty, of "''1''" 0 "example_open p f"]
  by (simp add: example_server_def empty_manager_def)

lemmas example_facts = example_ok example_args_session example_session(1) example_wire

end
