(* ===== verification/RouterProps.thy ===== *)
theory RouterProps
  imports RouterSafety ExampleServer
begin

text \<open>
  The safety properties of the router: who may make it change something, from interpretations of
  the locales of \<open>RouterSafety\<close> on what the sessions of the router say.
\<close>

subsection \<open>What stays true of a session\<close>

text \<open>\<open>D\<close> holds of the session filed under \<open>sid\<close>, if there is one, and it carries that identifier.\<close>

definition session_sat :: "string \<Rightarrow> (emacs_session \<Rightarrow> bool) \<Rightarrow> session_manager \<Rightarrow> bool" where
  "session_sat sid D m \<longleftrightarrow> (\<forall>s. map_of (sm_sessions m) sid = Some s \<longrightarrow> es_session_id s = sid \<and> D s)"

definition unaffected_by_use :: "(emacs_session \<Rightarrow> bool) \<Rightarrow> bool" where
  "unaffected_by_use D \<longleftrightarrow> (\<forall>s t. D (s\<lparr>es_last_used_at := t\<rparr>) = D s)"

lemma session_sat_close: "session_sat sid D m \<Longrightarrow> session_sat sid D (snd (sm_close sid' m))"
  by (simp add: session_sat_def)

lemma session_sat_require:
  assumes "session_sat sid D m" "unaffected_by_use D"
  shows "session_sat sid D (snd (sm_require ttl now sid m))"
proof (cases "sm_require ttl now sid m")
  case (Pair r m')
  show ?thesis
  proof (cases r)
    case (Inl e)
    with sm_require_Inl [of ttl now sid m e m'] Pair assms(1) session_sat_close show ?thesis by auto
  next
    case (Inr s)
    with sm_require_Inr [of ttl now sid m s m'] Pair assms show ?thesis
      by (auto simp: session_sat_def unaffected_by_use_def)
  qed
qed

lemma session_sat_get:
  "session_sat sid D m \<Longrightarrow> unaffected_by_use D \<Longrightarrow> session_sat sid D (snd (sm_get ttl now sid m))"
  by (simp add: sm_get_eq_require session_sat_require)

lemma session_sat_found:
  "session_sat sid D m \<Longrightarrow> unaffected_by_use D \<Longrightarrow> sm_get ttl now sid m = (Inr s, m') \<Longrightarrow>
     es_session_id s = sid \<and> D s"
  unfolding sm_get_eq_require by (drule sm_require_Inr) (auto simp: session_sat_def unaffected_by_use_def)

lemma sm_acquire_sessions:
  "sm_sessions (snd (sm_acquire ttl now sid m)) = sm_sessions (snd (sm_require ttl now sid m))"
  by (auto simp: sm_acquire_def split: prod.splits sum.splits option.splits)

lemma session_sat_acquire:
  "session_sat sid D m \<Longrightarrow> unaffected_by_use D \<Longrightarrow> session_sat sid D (snd (sm_acquire ttl now sid m))"
  using session_sat_require [of sid D m ttl now] by (simp add: session_sat_def sm_acquire_sessions)

lemmas session_sat_rules = session_sat_close session_sat_get session_sat_found session_sat_acquire

text \<open>A session that a well-formed manager holds satisfies what it satisfies.\<close>

lemma session_satI: "sm_ok m \<Longrightarrow> map_of (sm_sessions m) sid = Some s \<Longrightarrow> D s \<Longrightarrow> session_sat sid D m"
  by (auto simp: session_sat_def dest: sm_ok_sid)

subsection \<open>Changing requests\<close>

fun mutating :: "wire_event \<Rightarrow> bool" where
  "mutating (Bridge_Request c method params) \<longleftrightarrow>
     method \<in> {''adapter.eval'', ''keys.execute'', ''command.execute'', ''edit.apply'', ''checkpoint.create'',
       ''checkpoint.commit'', ''checkpoint.rollback''} \<or>
     (method = ''refactor.project_rename'' \<and>
       get_prop params ''action'' \<in> {JStr ''apply'', JStr ''rollback'', JStr ''commit''})"
| "mutating (Native_Keys target events) \<longleftrightarrow> True"
| "mutating (Native_Restore app) \<longleftrightarrow> True"

definition quiet :: "wire_event \<Rightarrow> bool" where
  "quiet e \<longleftrightarrow> \<not> mutating e"

lemma quiet_reading: "allows quiet reading_methods"
  by (simp add: allows_def quiet_def reading_methods_def)

text \<open>Opening a session changes nothing, whatever the arguments are.\<close>

interpretation at_open: wire_guard quiet "\<lambda>_. True" sid for sid
  by unfold_locales simp_all

lemma open_session_quiet: "keeps (guarded_rel quiet (\<lambda>_. True)) (open_session env args)"
proof (rule at_open.open_session)
  show "keeps (guarded_rel quiet (\<lambda>_. True)) (open_session_entry env input)" for input
    unfolding open_session_entry_def
    by (intro guarded.keeps_bind at_open.clock at_open.fresh_uuid at_open.on_sessions)
      (simp add: guarded_rel_def sends_same)
qed (simp add: allows_def quiet_def)

subsection \<open>Permission profile\<close>

definition may_mutate :: "string \<Rightarrow> bool" where
  "may_mutate name \<longleftrightarrow> (\<exists>p. profile name = Inr p \<and> pp_mutations p)"

lemma assert_mutation_iff: "assert_mutation s = Inr () \<longleftrightarrow> may_mutate (es_permission_profile s)"
  by (auto simp: assert_mutation_def may_mutate_def andthen_eq_Inr)

definition powerless :: "string \<Rightarrow> string \<Rightarrow> session_manager \<Rightarrow> bool" where
  "powerless sid name m \<longleftrightarrow> \<not> may_mutate name \<and> session_sat sid (\<lambda>s. es_permission_profile s = name) m"

interpretation by_profile: mutation_blocked quiet "powerless sid name" sid
  "\<lambda>s. es_session_id s = sid \<and> es_permission_profile s = name \<and> \<not> may_mutate name" for sid name
proof unfold_locales
  have use: "unaffected_by_use (\<lambda>s. es_permission_profile s = name)" by (simp add: unaffected_by_use_def)
  show "powerless sid name (snd (sm_get session_ttl now sid m))" if "powerless sid name m" for m now
    using that session_sat_get [OF _ use] by (auto simp: powerless_def)
  show "powerless sid name (snd (sm_acquire session_ttl now sid m))" if "powerless sid name m" for m now
    using that session_sat_acquire [OF _ use] by (auto simp: powerless_def)
  show "powerless sid name (snd (sm_close sid m))" if "powerless sid name m" for m
    using that session_sat_close by (auto simp: powerless_def)
  show "es_session_id s = sid \<and> es_permission_profile s = name \<and> \<not> may_mutate name"
    if "powerless sid name m" "sm_get session_ttl now sid m = (Inr s, m')" for m now s m'
    using that session_sat_found [OF _ use] by (auto simp: powerless_def)
qed (auto simp: quiet_reading quiet_def assert_mutation_iff)

subsection \<open>Lease\<close>

definition leased_elsewhere :: "string \<Rightarrow> string \<Rightarrow> session_manager \<Rightarrow> bool" where
  "leased_elsewhere sid inst m \<longleftrightarrow> session_sat sid (\<lambda>s. es_instance_id s = inst) m \<and>
     (\<exists>owner. map_of (sm_owners m) inst = Some owner \<and> owner \<noteq> [] \<and> owner \<noteq> sid)"

lemma close_keeps_other_owner:
  "map_of (sm_owners m) inst = Some owner \<Longrightarrow> owner \<noteq> sid \<Longrightarrow>
     map_of (sm_owners (snd (sm_close sid m))) inst = Some owner"
  by (auto simp: sm_close_def split: option.splits)

lemma require_keeps_other_owner:
  assumes "map_of (sm_owners m) inst = Some owner" "owner \<noteq> sid"
  shows "map_of (sm_owners (snd (sm_require ttl now sid m))) inst = Some owner"
proof (cases "sm_require ttl now sid m")
  case (Pair r m')
  show ?thesis
  proof (cases r)
    case (Inl e)
    with sm_require_Inl [of ttl now sid m e m'] Pair assms close_keeps_other_owner [OF assms] show ?thesis by auto
  next
    case (Inr s)
    with sm_require_Inr [of ttl now sid m s m'] Pair assms show ?thesis by auto
  qed
qed

lemma instance_unaffected: "unaffected_by_use (\<lambda>s. es_instance_id s = inst)"
  by (simp add: unaffected_by_use_def)

lemma acquire_refused:
  assumes "leased_elsewhere sid inst m"
  shows "\<exists>e m'. sm_acquire ttl now sid m = (Inl e, m') \<and> m' = snd (sm_require ttl now sid m)"
proof -
  obtain owner where owner: "map_of (sm_owners m) inst = Some owner" "owner \<noteq> []" "owner \<noteq> sid"
    using assms by (auto simp: leased_elsewhere_def)
  show ?thesis
  proof (cases "sm_require ttl now sid m")
    case (Pair r m')
    show ?thesis
    proof (cases r)
      case (Inl e)
      with Pair show ?thesis by (simp add: sm_acquire_def)
    next
      case (Inr s)
      have "es_instance_id s = inst"
        using session_sat_found [OF _ instance_unaffected, of sid inst m ttl now s m'] assms Pair Inr
        by (simp add: leased_elsewhere_def sm_get_eq_require)
      moreover have "map_of (sm_owners m') inst = Some owner"
        using require_keeps_other_owner [OF owner(1,3), of ttl now] Pair by simp
      ultimately show ?thesis using owner by (simp add: sm_acquire_def Pair Inr)
    qed
  qed
qed

lemma leased_elsewhere_require:
  assumes "leased_elsewhere sid inst m"
  shows "leased_elsewhere sid inst (snd (sm_require ttl now sid m))"
  using assms session_sat_require [OF _ instance_unaffected, of sid inst m ttl now]
    require_keeps_other_owner [of m inst _ sid ttl now]
  by (auto simp: leased_elsewhere_def)

lemma leased_elsewhere_close:
  assumes "leased_elsewhere sid inst m"
  shows "leased_elsewhere sid inst (snd (sm_close sid m))"
proof -
  obtain owner where owner: "map_of (sm_owners m) inst = Some owner" "owner \<noteq> []" "owner \<noteq> sid"
    and sat: "session_sat sid (\<lambda>s. es_instance_id s = inst) m"
    using assms by (auto simp: leased_elsewhere_def)
  show ?thesis
    unfolding leased_elsewhere_def
    using session_sat_close [OF sat] close_keeps_other_owner [OF owner(1,3)] owner by blast
qed

interpretation by_lease: mutation_blocked quiet "leased_elsewhere sid inst" sid
  "\<lambda>s. es_session_id s = sid \<and> es_instance_id s = inst" for sid inst
proof unfold_locales
  show "leased_elsewhere sid inst (snd (sm_get session_ttl now sid m))" if "leased_elsewhere sid inst m" for m now
    using leased_elsewhere_require [OF that] by (simp add: sm_get_eq_require)
  show "leased_elsewhere sid inst (snd (sm_acquire session_ttl now sid m))" if "leased_elsewhere sid inst m" for m now
    using acquire_refused [OF that, of session_ttl now] leased_elsewhere_require [OF that, of session_ttl now] by auto
  show "leased_elsewhere sid inst (snd (sm_close sid m))" if "leased_elsewhere sid inst m" for m
    using that by (rule leased_elsewhere_close)
  show "es_session_id s = sid \<and> es_instance_id s = inst"
    if "leased_elsewhere sid inst m" "sm_get session_ttl now sid m = (Inr s, m')" for m now s m'
    using that(1) session_sat_found [OF _ instance_unaffected [of inst] that(2)] by (simp add: leased_elsewhere_def)
  show "\<exists>e m'. sm_acquire session_ttl now sid m = (Inl e, m')" if "leased_elsewhere sid inst m" for m now
    using acquire_refused [OF that] by blast
qed (auto simp: quiet_reading quiet_def)

subsection \<open>Calls without authority\<close>

text \<open>Calls that find no session send nothing that changes something.\<close>

lemma call_open_quiet: "keeps (guarded_rel quiet (\<lambda>_. True)) (call_with workflow env ''emacs_session_open'' raw)"
  by (rule at_open.call_with) (simp add: dispatch_def open_session_quiet)

lemma required_session_id:
  "get_prop args ''session_id'' = JStr sid \<or> (\<exists>e. required_string args ''session_id'' = Inl e)"
  if "\<And>sid'. get_prop args ''session_id'' = JStr sid' \<Longrightarrow> sid' = sid"
  using that by (cases "get_prop args ''session_id''") (auto simp: required_string_def)

lemma call_quiet_if:
  assumes "G (sv_sessions s)"
    and "name \<noteq> ''emacs_session_open'' \<Longrightarrow> keeps (guarded_rel quiet G) (call_with workflow env name raw)"
  shows "sends quiet s (snd (call_with workflow env name raw s))"
proof (cases "name = ''emacs_session_open''")
  case True
  show ?thesis using call_open_quiet unfolding True by (auto simp: keeps_def guarded_rel_def)
next
  case False
  with assms show ?thesis by (auto simp: keeps_def guarded_rel_def)
qed

text \<open>
  C1: authority to change anything. Whenever a call of a tool on a session sends a changing request
  (evaluation, keys, command, edit, checkpoint or rollback, a mutating rename action, native input),
  directly or through the steps of a workflow, the permission profile of that session allows
  mutations and no other session owns the mutation lease of its Emacs instance. In particular no
  call on a \<open>read_only\<close> session, whatever its name and arguments are, changes anything.
\<close>

theorem changing_requests_have_authority:
  assumes "sm_ok (sv_sessions s)" "call env name raw s = (r, s')"
    and "get_prop raw ''session_id'' = JStr sid"
    and "map_of (sm_sessions (sv_sessions s)) sid = Some session"
    and "sv_wire s' = sv_wire s @ new" "e \<in> set new" "mutating e"
  shows "may_mutate (es_permission_profile session) \<and>
    (\<forall>owner. map_of (sm_owners (sv_sessions s)) (es_instance_id session) = Some owner \<longrightarrow> owner = sid)"
proof (rule ccontr)
  assume no: "\<not> ?thesis"
  have s': "snd (call_with (run_workflow env) env name raw s) = s'"
    using assms(2) by (simp add: call_def)
  have "sends quiet s s'"
  proof (cases "may_mutate (es_permission_profile session)")
    case False
    then have "powerless sid (es_permission_profile session) (sv_sessions s)"
      using session_satI [OF assms(1,4)] by (simp add: powerless_def)
    then show ?thesis
      using call_quiet_if [OF _ by_profile.calls [OF assms(3)]] s' by blast
  next
    case True
    with no obtain owner where owner: "map_of (sm_owners (sv_sessions s)) (es_instance_id session) = Some owner"
      "owner \<noteq> sid" by blast
    then have "owner \<noteq> []" using sm_ok_owner [OF assms(1) owner(1)] sm_ok_sid [OF assms(1)] by blast
    with owner have "leased_elsewhere sid (es_instance_id session) (sv_sessions s)"
      using session_satI [OF assms(1,4)] by (auto simp: leased_elsewhere_def)
    then show ?thesis
      using call_quiet_if [OF _ by_lease.calls [OF assms(3)]] s' by blast
  qed
  then have "quiet e" by (rule sendsD [OF _ assms(5,6)])
  with assms(7) show False by (simp add: quiet_def)
qed


lemma example_rollback_changes:
  "list_ex mutating (sv_wire (snd (call example_env ''emacs_rollback'' (example_args [(''checkpoint_id'', JStr ''cp'')])
     (example_server ''trusted_local'' JNull))))"
  by code_simp

theorem changing_requests_have_authority_witness:
  "may_mutate ''trusted_local'' \<and>
   list_ex mutating (sv_wire (snd (call example_env ''emacs_rollback'' (example_args [(''checkpoint_id'', JStr ''cp'')])
     (example_server ''trusted_local'' JNull))))"
proof -
  let ?s = "example_server ''trusted_local'' JNull"
  let ?run = "call example_env ''emacs_rollback'' (example_args [(''checkpoint_id'', JStr ''cp'')]) ?s"
  obtain e where e: "e \<in> set (sv_wire (snd ?run))" "mutating e"
    using example_rollback_changes by (auto simp: list_ex_iff)
  have "may_mutate (es_permission_profile (example_session_of ''trusted_local'' JNull)) \<and>
    (\<forall>owner. map_of (sm_owners (sv_sessions ?s)) (es_instance_id (example_session_of ''trusted_local'' JNull)) = Some owner
       \<longrightarrow> owner = ''ses_1'')"
    by (rule changing_requests_have_authority [OF example_ok surjective_pairing [of ?run]
          example_args_session example_session(1) _ e]) (simp add: example_wire)
  with example_rollback_changes show ?thesis by (simp only: example_session)
qed

end
