(* ===== verification/RouterTrust.thy ===== *)
theory RouterTrust
  imports RouterProps
begin

text \<open>
  The finer permissions of a session: structured evaluation, native input, and changes to a file
  outside the workspace. Unlike the mutation flag they stop some tools only, so the workflows are
  followed step by step (\<open>routed_calls\<close>).
\<close>

subsection \<open>What changes of the target leave alone\<close>

definition profile_is :: "string \<Rightarrow> string \<Rightarrow> session_manager \<Rightarrow> bool" where
  "profile_is sid name = session_sat sid (\<lambda>s. es_permission_profile s = name)"

lemma profile_unaffected: "unaffected_by_use (\<lambda>s. es_permission_profile s = name)"
  by (simp add: unaffected_by_use_def)

lemma profile_update_target:
  assumes "profile_is sid name m"
  shows "profile_is sid name (snd (sm_update_target ttl now sid t m))"
proof (cases "sm_require ttl now sid m")
  case (Pair r m')
  have 1: "profile_is sid name m'"
    using session_sat_require [OF _ profile_unaffected, of sid name m ttl now] assms Pair by (simp add: profile_is_def)
  show ?thesis
  proof (cases r)
    case (Inl e)
    with 1 Pair show ?thesis by (simp add: sm_update_target_def)
  next
    case (Inr s)
    have "es_session_id s = sid \<and> es_permission_profile s = name"
      using session_sat_found [OF _ profile_unaffected, of sid name m ttl now s m'] assms Pair Inr
      by (simp add: profile_is_def sm_get_eq_require)
    with 1 Pair Inr show ?thesis
      by (auto simp: sm_update_target_def Let_def profile_is_def session_sat_def)
  qed
qed

definition lacking :: "(permission_profile \<Rightarrow> bool) \<Rightarrow> string \<Rightarrow> string \<Rightarrow> session_manager \<Rightarrow> bool" where
  "lacking right sid name m \<longleftrightarrow> (\<forall>p. profile name = Inr p \<longrightarrow> \<not> right p) \<and> profile_is sid name m"

lemma lacking_kept:
  "(profile_is sid name m \<Longrightarrow> profile_is sid name m') \<Longrightarrow> lacking right sid name m \<Longrightarrow> lacking right sid name m'"
  by (simp add: lacking_def)

lemma profile_kept:
  assumes "profile_is sid name m"
  shows "profile_is sid name (snd (sm_get ttl now sid m))" "profile_is sid name (snd (sm_acquire ttl now sid m))"
    "profile_is sid name (snd (sm_close sid m))"
  using session_sat_get [OF _ profile_unaffected] session_sat_acquire [OF _ profile_unaffected]
    session_sat_close assms unfolding profile_is_def by fast+

text \<open>The session has the profile \<open>name\<close>, which lacks the right.\<close>

definition lacking_session :: "(permission_profile \<Rightarrow> bool) \<Rightarrow> string \<Rightarrow> string \<Rightarrow> emacs_session \<Rightarrow> bool" where
  "lacking_session right sid name s \<longleftrightarrow> (\<forall>p. profile name = Inr p \<longrightarrow> \<not> right p) \<and>
     es_session_id s = sid \<and> es_permission_profile s = name"

interpretation by_right: wire_session_update P "lacking right sid name" sid "lacking_session right sid name"
  for P right sid name
proof (unfold_locales, goal_cases)
  case (1 m now)
  from profile_kept(1) 1 show ?case by (rule lacking_kept)
next
  case (2 m now)
  from profile_kept(2) 2 show ?case by (rule lacking_kept)
next
  case (3 m)
  from profile_kept(3) 3 show ?case by (rule lacking_kept)
next
  case (4 m now s m')
  then have "session_sat sid (\<lambda>s. es_permission_profile s = name) m"
    by (simp add: lacking_def profile_is_def)
  from session_sat_found [OF this profile_unaffected 4(2)] 4(1) show ?case
    by (simp add: lacking_def lacking_session_def)
next
  case (5 s)
  then show ?case by (simp add: lacking_session_def)
next
  case (6 m now t)
  from profile_update_target 6 show ?case by (rule lacking_kept)
qed

lemma lackingI:
  "sm_ok m \<Longrightarrow> map_of (sm_sessions m) sid = Some s \<Longrightarrow>
     \<not> (\<exists>p. profile (es_permission_profile s) = Inr p \<and> right p) \<Longrightarrow>
     lacking right sid (es_permission_profile s) m"
  by (auto simp: lacking_def profile_is_def intro: session_satI)

subsection \<open>Structured evaluation\<close>

fun evaluating :: "wire_event \<Rightarrow> bool" where
  "evaluating (Bridge_Request c method params) \<longleftrightarrow> method = ''adapter.eval''"
| "evaluating (Native_Keys target events) \<longleftrightarrow> False"
| "evaluating (Native_Restore app) \<longleftrightarrow> False"

definition no_eval :: "wire_event \<Rightarrow> bool" where
  "no_eval e \<longleftrightarrow> \<not> evaluating e"

lemma no_eval_allows: "''adapter.eval'' \<notin> set ms \<Longrightarrow> allows no_eval ms"
  by (auto simp: allows_def no_eval_def)

lemma quiet_no_eval: "quiet e \<Longrightarrow> no_eval e"
  by (cases e) (auto simp: quiet_def no_eval_def)

lemma eval_refused:
  "lacking_session pp_structured_eval sid name s \<Longrightarrow> \<exists>e. assert_structured_eval s = Inl e"
  by (cases "profile name") (auto simp: lacking_session_def assert_structured_eval_def)

lemma eval_tools:
  assumes "lacking_session pp_structured_eval sid name s"
    and "\<And>args. keeps (guarded_rel no_eval (lacking pp_structured_eval sid name)) (workflow s args)"
  shows "keeps (guarded_rel no_eval (lacking pp_structured_eval sid name))
    (session_tool workflow env tool s c args)"
proof -
  have sid: "es_session_id s = sid" using assms(1) by (simp add: lacking_session_def)
  obtain e where e: "assert_structured_eval s = Inl e" using eval_refused [OF assms(1)] by blast
  note blocked = keeps_failed_check [OF e]
  show ?thesis
  proof (rule by_right.session_tool)
    show "keeps (guarded_rel no_eval (lacking pp_structured_eval sid name)) (tool_eval env s c args)"
      unfolding tool_eval_def by (intro guarded.keeps_rules by_right.effects by_right.guards blocked sid)
    show "keeps (guarded_rel no_eval (lacking pp_structured_eval sid name)) (tool_verification env s c args)"
      unfolding tool_verification_def
      by (intro guarded.keeps_rules by_right.effects by_right.tickets blocked)
  qed (intro by_right.tool_workflow by_right.tool_project_rename by_right.tool_key_sequence by_right.tool_command
      by_right.tool_edit by_right.tool_checkpoint by_right.tool_rollback sid no_eval_allows assms(2);
      simp add: no_eval_def reading_methods_def)+
qed


text \<open>The steps of a workflow on such a session send no evaluation either, so no workflow does.\<close>

interpretation eval_steps: step_relation "guarded_rel no_eval (lacking pp_structured_eval sid name)"
  "router_step env sid" for sid name and env :: "'w env"
  by unfold_locales (rule by_right.step_calls, rule eval_tools, assumption,
    simp add: no_workflow_def guarded.keeps_throw)

text \<open>A call on a session sends what its tools send, with the guard as it was before.\<close>

lemma routed_sends:
  assumes "\<And>workflow name s c args. lacking_session right sid pname s \<Longrightarrow>
      (\<And>args. keeps (guarded_rel P (lacking right sid pname)) (workflow s args)) \<Longrightarrow>
      keeps (guarded_rel P (lacking right sid pname)) (session_tool workflow env name s c args)"
    and "get_prop raw ''session_id'' = JStr sid" "lacking right sid pname (sv_sessions s)"
    and "name \<noteq> ''emacs_session_open''" "call env name raw s = (r, s')"
  shows "sends P s s'"
  using by_right.routed_calls [OF assms(1,2,4)] assms(3,5) by (auto simp: keeps_def guarded_rel_def)

lemma open_sends:
  "(\<And>e. quiet e \<Longrightarrow> P e) \<Longrightarrow> call env ''emacs_session_open'' raw s = (r, s') \<Longrightarrow> sends P s s'"
  using call_open_quiet [of "run_workflow env" env raw]
  by (auto simp: keeps_def guarded_rel_def call_def sends_def list_all_iff dest!: spec [of _ s])

text \<open>
  C2: evaluation needs trust. A call sends an \<open>adapter.eval\<close> request, directly (\<open>emacs_eval\<close>,
  \<open>emacs_verification\<close>) or through an evaluation step of a workflow, only if the permission profile
  of its session allows structured evaluation. Neither \<open>read_only\<close> nor \<open>workspace_edit\<close> does.
\<close>

theorem evaluation_needs_structured_eval:
  assumes "sm_ok (sv_sessions s)" "call env name raw s = (r, s')"
    and "get_prop raw ''session_id'' = JStr sid"
    and "map_of (sm_sessions (sv_sessions s)) sid = Some session"
    and "sv_wire s' = sv_wire s @ new" "e \<in> set new" "evaluating e"
  shows "\<exists>p. profile (es_permission_profile session) = Inr p \<and> pp_structured_eval p"
proof (rule ccontr)
  assume no: "\<not> ?thesis"
  have "sends no_eval s s'"
  proof (cases "name = ''emacs_session_open''")
    case True
    show ?thesis
      by (rule open_sends [OF _ assms(2) [unfolded True]]) (erule quiet_no_eval)
  next
    case False
    from eval_tools assms(3) lackingI [OF assms(1,4) no] False assms(2) show ?thesis by (rule routed_sends)
  qed
  from sendsD [OF this assms(5,6)] assms(7) show False by (simp add: no_eval_def)
qed

lemma example_eval_sent:
  "list_ex evaluating (sv_wire (snd (call example_env ''emacs_eval'' (example_args [(''language'', JStr ''buffer_language''),
        (''operation'', JStr ''eval_defun'')]) (example_server ''trusted_local'' JNull))))"
  by code_simp

theorem evaluation_needs_structured_eval_witness:
  "(\<exists>p. profile ''trusted_local'' = Inr p \<and> pp_structured_eval p) \<and>
   list_ex evaluating (sv_wire (snd (call example_env ''emacs_eval''
      (example_args [(''language'', JStr ''buffer_language''), (''operation'', JStr ''eval_defun'')])
      (example_server ''trusted_local'' JNull))))"
proof -
  let ?run = "call example_env ''emacs_eval'' (example_args [(''language'', JStr ''buffer_language''),
      (''operation'', JStr ''eval_defun'')]) (example_server ''trusted_local'' JNull)"
  obtain e where e: "e \<in> set (sv_wire (snd ?run))" "evaluating e"
    using example_eval_sent by (auto simp: list_ex_iff)
  have "\<exists>p. profile (es_permission_profile (example_session_of ''trusted_local'' JNull)) = Inr p \<and> pp_structured_eval p"
    by (rule evaluation_needs_structured_eval [OF example_ok surjective_pairing [of ?run]
          example_args_session example_session(1) _ e]) (simp add: example_wire)
  with example_eval_sent show ?thesis by (simp only: example_session)
qed

subsection \<open>Native input\<close>

fun native_input :: "wire_event \<Rightarrow> bool" where
  "native_input (Bridge_Request c method params) \<longleftrightarrow> False"
| "native_input (Native_Keys target events) \<longleftrightarrow> True"
| "native_input (Native_Restore app) \<longleftrightarrow> True"

definition no_native :: "wire_event \<Rightarrow> bool" where
  "no_native e \<longleftrightarrow> \<not> native_input e"

lemma no_native_allows: "allows no_native ms"
  by (auto simp: allows_def no_native_def)

lemma native_channel_refused:
  "lacking_session pp_native_keys sid name s \<Longrightarrow> \<exists>e. assert_channel s ''native_keys'' = Inl e"
  by (cases "profile name") (auto simp: lacking_session_def assert_channel_def)

lemma native_tools:
  assumes "lacking_session pp_native_keys sid name s"
    and "\<And>args. keeps (guarded_rel no_native (lacking pp_native_keys sid name)) (workflow s args)"
  shows "keeps (guarded_rel no_native (lacking pp_native_keys sid name))
    (session_tool workflow env tool s c args)"
proof -
  have sid: "es_session_id s = sid" using assms(1) by (simp add: lacking_session_def)
  obtain e where e: "assert_channel s ''native_keys'' = Inl e" using native_channel_refused [OF assms(1)] by blast
  have channel: "keeps (guarded_rel no_native (lacking pp_native_keys sid name))
      (seq (lift (assert_channel s channel)) m)"
    if "channel \<noteq> ''native_keys'' \<Longrightarrow> keeps (guarded_rel no_native (lacking pp_native_keys sid name)) m"
    for channel and m :: "('w, jval) handler"
    using that keeps_failed_check [OF e] by (cases "channel = ''native_keys''")
      (auto intro: guarded.keeps_seq guarded.keeps_lift)
  have other: "keeps (guarded_rel no_native (lacking pp_native_keys sid name)) n \<Longrightarrow> \<not> b \<Longrightarrow>
      keeps (guarded_rel no_native (lacking pp_native_keys sid name)) (if b then m else n)"
    for b and m n :: "('w, jval) handler" by simp
  show ?thesis
  proof (rule by_right.session_tool)
    show "keeps (guarded_rel no_native (lacking pp_native_keys sid name)) (tool_key_sequence env s c args)"
      unfolding tool_key_sequence_def Let_def
      by (intro guarded.keeps_seq guarded.keeps_bind channel by_right.guards guarded.keeps_throw_if
          guarded.keeps_lift by_right.observe no_native_allows other by_right.request
          by_right.follow_target by_right.session_again guarded.keeps_ret sid)
        (simp_all add: no_native_def)
  qed (intro by_right.tool_eval by_right.tool_verification by_right.tool_workflow by_right.tool_project_rename
      by_right.tool_command by_right.tool_edit by_right.tool_checkpoint by_right.tool_rollback sid
      no_native_allows assms(2))+
qed


text \<open>
  C4: native input needs trust. Keys leave through the native host (and a window of the desktop is
  activated through it) only in a call on a session whose profile authorizes native keys.
\<close>

theorem native_input_needs_authorization:
  assumes "sm_ok (sv_sessions s)" "call env name raw s = (r, s')"
    and "get_prop raw ''session_id'' = JStr sid"
    and "map_of (sm_sessions (sv_sessions s)) sid = Some session"
    and "sv_wire s' = sv_wire s @ new" "e \<in> set new" "native_input e"
  shows "\<exists>p. profile (es_permission_profile session) = Inr p \<and> pp_native_keys p"
proof (rule ccontr)
  assume no: "\<not> ?thesis"
  have native: "quiet e \<Longrightarrow> no_native e" for e
    by (cases e) (auto simp: quiet_def no_native_def)
  have "sends no_native s s'"
  proof (cases "name = ''emacs_session_open''")
    case True
    show ?thesis by (rule open_sends [OF native assms(2) [unfolded True]])
  next
    case False
    from native_tools assms(3) lackingI [OF assms(1,4) no] False assms(2) show ?thesis by (rule routed_sends)
  qed
  from sendsD [OF this assms(5,6)] assms(7) show False by (simp add: no_native_def)
qed

definition example_keys :: jval where
  "example_keys = example_args [(''channel'', JStr ''native_keys''),
     (''steps'', JArr [JObj [(''kind'', JStr ''text''), (''value'', JStr ''x'')]])]"

lemma example_native_sent:
  "list_ex native_input (sv_wire (snd (call example_env ''emacs_key_sequence'' example_keys (example_server ''trusted_local'' JNull))))"
  by code_simp

theorem native_input_needs_authorization_witness:
  "(\<exists>p. profile ''trusted_local'' = Inr p \<and> pp_native_keys p) \<and>
   list_ex native_input (sv_wire (snd (call example_env ''emacs_key_sequence'' example_keys
      (example_server ''trusted_local'' JNull))))"
proof -
  let ?run = "call example_env ''emacs_key_sequence'' example_keys (example_server ''trusted_local'' JNull)"
  obtain e where e: "e \<in> set (sv_wire (snd ?run))" "native_input e"
    using example_native_sent by (auto simp: list_ex_iff)
  have "get_prop example_keys ''session_id'' = JStr ''ses_1''"
    unfolding example_keys_def by (rule example_args_session)
  then have "\<exists>p. profile (es_permission_profile (example_session_of ''trusted_local'' JNull)) = Inr p \<and> pp_native_keys p"
    by (rule native_input_needs_authorization [OF example_ok surjective_pairing [of ?run] _
          example_session(1) _ e]) (simp add: example_wire)
  with example_native_sent show ?thesis by (simp only: example_session)
qed

subsection \<open>The workspace\<close>

text \<open>The file the session works on is not in its workspace, and the profile does not allow others.\<close>

definition outside :: "string \<Rightarrow> emacs_session \<Rightarrow> bool" where
  "outside cwd s \<longleftrightarrow> truthy (st_file (es_target s)) \<and>
     (\<exists>e. assert_file_value cwd s (st_file (es_target s)) = Inl e)"

lemma file_check_of_use:
  "assert_file_path cwd (s\<lparr>es_last_used_at := t\<rparr>) f = assert_file_path cwd s f"
  "assert_file_value cwd (s\<lparr>es_last_used_at := t\<rparr>) v = assert_file_value cwd s v"
proof -
  have same: "es_target (s\<lparr>es_last_used_at := t\<rparr>) = es_target s"
    "es_permission_profile (s\<lparr>es_last_used_at := t\<rparr>) = es_permission_profile s" by simp_all
  show 1: "assert_file_path cwd (s\<lparr>es_last_used_at := t\<rparr>) f = assert_file_path cwd s f" for f
    unfolding assert_file_path_def same by (rule refl)
  show "assert_file_value cwd (s\<lparr>es_last_used_at := t\<rparr>) v = assert_file_value cwd s v"
    unfolding assert_file_value_def same 1 by (rule refl)
qed

lemma outside_unaffected: "unaffected_by_use (outside cwd)"
  by (simp add: unaffected_by_use_def outside_def file_check_of_use)

definition outside_session :: "string \<Rightarrow> string \<Rightarrow> session_manager \<Rightarrow> bool" where
  "outside_session cwd sid = session_sat sid (outside cwd)"

interpretation by_file: wire_session P "outside_session cwd sid" sid "\<lambda>s. es_session_id s = sid \<and> outside cwd s"
  for P cwd sid
proof (unfold_locales, goal_cases)
  case (1 m now)
  then show ?case unfolding outside_session_def by (rule session_sat_get [OF _ outside_unaffected])
next
  case (2 m now)
  then show ?case unfolding outside_session_def by (rule session_sat_acquire [OF _ outside_unaffected])
next
  case (3 m)
  then show ?case unfolding outside_session_def by (rule session_sat_close)
next
  case (4 m now s m')
  then show ?case unfolding outside_session_def by (blast dest: session_sat_found [OF _ outside_unaffected])
qed simp

text \<open>Requests that change the text of the file or run something in its buffer.\<close>

fun touching :: "wire_event \<Rightarrow> bool" where
  "touching (Bridge_Request c method params) \<longleftrightarrow>
     method \<in> {''adapter.eval'', ''keys.execute'', ''command.execute'', ''edit.apply''}"
| "touching (Native_Keys target events) \<longleftrightarrow> True"
| "touching (Native_Restore app) \<longleftrightarrow> True"

definition untouched :: "wire_event \<Rightarrow> bool" where
  "untouched e \<longleftrightarrow> \<not> touching e"

lemma untouched_allows:
  "\<forall>m \<in> set ms. m \<notin> {''adapter.eval'', ''keys.execute'', ''command.execute'', ''edit.apply''} \<Longrightarrow> allows untouched ms"
  by (simp add: allows_def untouched_def)

lemma file_check_fails:
  assumes "outside (ev_cwd env) s"
  shows "keeps (guarded_rel P G) (seq (check_target_file env s) n)"
proof -
  obtain e where "assert_file_value (ev_cwd env) s (st_file (es_target s)) = Inl e" "truthy (st_file (es_target s))"
    using assms by (auto simp: outside_def)
  then show ?thesis by (simp add: check_target_file_def on_def keeps_failed_check)
qed

lemma file_tools:
  assumes "es_session_id s = sid \<and> outside (ev_cwd env) s"
  shows "keeps (guarded_rel untouched (outside_session (ev_cwd env) sid)) (session_tool workflow env tool s c args)"
proof -
  have sid: "es_session_id s = sid" using assms by simp
  note blocked = file_check_fails [OF conjunct2 [OF assms]]
  show ?thesis
  proof (rule by_file.session_tool)
    show "keeps (guarded_rel untouched (outside_session (ev_cwd env) sid)) (tool_verification env s c args)"
      unfolding tool_verification_def
      by (intro guarded.keeps_rules by_file.effects by_file.acquire_mutation by_file.tickets blocked sid)
  qed (simp_all only: tool_eval_def tool_workflow_def tool_key_sequence_def tool_command_def tool_edit_def,
      (intro guarded.keeps_seq by_file.begin_mutation blocked by_file.tool_project_rename
        by_file.tool_checkpoint by_file.tool_rollback sid untouched_allows; simp add: reading_methods_def)+)
qed


lemma example_outside:
  "assert_file_path (ev_cwd example_env) (example_session_of ''workspace_edit'' (JStr ''/etc/f'')) ''/etc/f'' \<noteq> Inr ()"
  by code_simp

lemma example_outside_sends:
  "sv_wire (snd (call example_env ''emacs_checkpoint'' (example_args []) (example_server ''workspace_edit'' (JStr ''/etc/f''))))
     \<noteq> []"
  by code_simp


end
