(* ===== verification/RouterCalls.thy ===== *)
theory RouterCalls
  imports ExampleServer
begin

text \<open>
  How a call ends. Every call of the router that gets past the checks of its arguments is answered
  with an envelope, leaves one entry in the audit log, and fills the idempotency cache, from which a
  repeated call is answered.
\<close>

subsection \<open>The last steps of a call\<close>

lemma clock_run: "clock env s = (let (now, w) = ev_now env (sv_world s) in (Inr now, s\<lparr>sv_world := w\<rparr>))"
  by (simp add: clock_def world_def case_prod_beta)

lemma finish_call_cases:
  assumes "finish_call env rq envelope code s = (r, s')"
  obtains (written) finished timestamp now w where "r = Inr envelope"
      "s' = s\<lparr>sv_audit := sv_audit s @ [audit_entry_of rq (env_ok envelope) code (sv_hooks s) finished timestamp],
        sv_world := w, sv_idem := idem_set idem_default_ttl idem_default_max now (idem_key (rq_tool rq) (rq_request_id rq)) envelope
          (sv_idem s)\<rparr>"
  | (refused) finished timestamp e w0 w where "r = Inl e" "s' = s\<lparr>sv_world := w\<rparr>"
      "ev_audit_append env (audit_entry_of rq (env_ok envelope) code (sv_hooks s) finished timestamp) w0 = (Inl e, w)"
proof -
  obtain f w1 where f: "ev_now env (sv_world s) = (f, w1)" by fastforce
  obtain t w2 where t: "ev_now env w1 = (t, w2)" by fastforce
  let ?entry = "audit_entry_of rq (env_ok envelope) code (sv_hooks s) f t"
  obtain a w3 where a: "ev_audit_append env ?entry w2 = (a, w3)" by fastforce
  show ?thesis
  proof (cases a)
    case (Inl e)
    show ?thesis
      by (rule refused [where e = e and w = w3 and finished = f and timestamp = t and ?w0.0 = w2])
        (use assms in \<open>simp_all add: finish_call_def seq_def audit_append_def world_try_def exec_simps clock_run f t a Inl\<close>)
  next
    case (Inr u)
    obtain n w4 where n: "ev_now env w3 = (n, w4)" by fastforce
    show ?thesis
      by (rule written [where finished = f and timestamp = t and now = n and w = w4])
        (use assms in \<open>simp_all add: finish_call_def seq_def audit_append_def store_cached_def world_try_def
           exec_simps clock_run f t a n Inr\<close>)
  qed
qed


text \<open>A log that takes every entry.\<close>

definition log_writable :: "'w env \<Rightarrow> bool" where
  "log_writable env \<longleftrightarrow> (\<forall>entry w. fst (ev_audit_append env entry w) = Inr ())"

lemma finish_call_writable:
  assumes "log_writable env"
  shows "\<exists>finished timestamp now w. finish_call env rq envelope code s =
    (Inr envelope, s\<lparr>sv_audit := sv_audit s @ [audit_entry_of rq (env_ok envelope) code (sv_hooks s) finished timestamp],
       sv_world := w,
       sv_idem := idem_set idem_default_ttl idem_default_max now (idem_key (rq_tool rq) (rq_request_id rq)) envelope
         (sv_idem s)\<rparr>)"
proof -
  obtain r s' where run: "finish_call env rq envelope code s = (r, s')" by fastforce
  then show ?thesis
  proof (cases rule: finish_call_cases)
    case (refused finished timestamp e w0 w)
    then have "fst (ev_audit_append env (audit_entry_of rq (env_ok envelope) code (sv_hooks s) finished timestamp) w0) = Inl e"
      by simp
    with assms show ?thesis by (simp add: log_writable_def)
  qed (use run in blast)
qed

text \<open>
  The end of a call, from the state \<open>s\<close> after the dispatch: the envelope, its entry as the last one of
  the log, and the envelope in the cache; nothing else of the server changes.
\<close>

definition ended :: "request_info \<Rightarrow> tool_envelope \<Rightarrow> 'w server \<Rightarrow> 'w server \<Rightarrow> bool" where
  "ended rq envelope s s' \<longleftrightarrow>
     (\<exists>finished timestamp now w code. (code = None \<longleftrightarrow> env_ok envelope) \<and>
        s' = s\<lparr>sv_audit := sv_audit s @ [audit_entry_of rq (env_ok envelope) code (sv_hooks s) finished timestamp],
          sv_world := w,
          sv_idem := idem_set idem_default_ttl idem_default_max now (idem_key (rq_tool rq) (rq_request_id rq)) envelope
            (sv_idem s)\<rparr>)"

lemma env_ok_envelopes [simp]:
  "env_ok (success_envelope rid aid res sid b a w)" "\<not> env_ok (failure_envelope rid aid e sid w)"
  "env_request_id (success_envelope rid aid res sid b a w) = rid" "env_audit_id (success_envelope rid aid res sid b a w) = aid"
  "env_request_id (failure_envelope rid aid e sid w) = rid" "env_audit_id (failure_envelope rid aid e sid w) = aid"
  by (simp_all add: success_envelope_def failure_envelope_def)

lemma run_tool_writable:
  assumes "log_writable env"
  shows "\<exists>envelope s1 s2. snd (dispatch workflow env (rq_tool rq) args (s\<lparr>sv_hooks := no_hooks\<rparr>)) = s1 \<and>
    ended rq envelope s1 s2 \<and> env_request_id envelope = rq_request_id rq \<and> env_audit_id envelope = rq_audit_id rq \<and>
    (env_ok envelope \<longleftrightarrow> (\<exists>res. fst (dispatch workflow env (rq_tool rq) args (s\<lparr>sv_hooks := no_hooks\<rparr>)) = Inr res)) \<and>
    run_tool workflow env rq args s = (Inr envelope, s2\<lparr>sv_hooks := sv_hooks s\<rparr>)"
proof -
  let ?s = "s\<lparr>sv_hooks := no_hooks\<rparr>"
  obtain r s1 where d: "dispatch workflow env (rq_tool rq) args ?s = (r, s1)" by fastforce
  show ?thesis
  proof (cases r)
    case (Inl e)
    let ?env = "failure_envelope (rq_request_id rq) (rq_audit_id rq) e (truthy_id (rq_session_id rq)) None"
    obtain s2 where f: "finish_call env rq ?env (Some (exn_code e)) s1 = (Inr ?env, s2)" and "ended rq ?env s1 s2"
      using finish_call_writable [OF assms, of rq ?env "Some (exn_code e)" s1] by (fastforce simp: ended_def)
    then show ?thesis
      by (intro exI [of _ ?env] exI [of _ s1] exI [of _ s2])
        (simp add: run_tool_def in_fresh_call_def try_catch_def bind_def fail_call_def d Inl)
  next
    case (Inr res)
    let ?env = "success_envelope (rq_request_id rq) (rq_audit_id rq) res
        (truthy_id (rq_session_id rq)) (hk_before (sv_hooks s1)) (hk_after (sv_hooks s1)) None"
    obtain s2 where f: "finish_call env rq ?env None s1 = (Inr ?env, s2)" and "ended rq ?env s1 s2"
      using finish_call_writable [OF assms, of rq ?env None s1] by (fastforce simp: ended_def)
    then show ?thesis
      by (intro exI [of _ ?env] exI [of _ s1] exI [of _ s2])
        (simp add: run_tool_def in_fresh_call_def try_catch_def succeed_def bind_def gets_def d Inr)
  qed
qed


subsection \<open>The start of a call\<close>

text \<open>The arguments that \<open>call\<close> accepts, and the identifier a request names itself.\<close>

definition call_args :: "jval \<Rightarrow> jval" where
  "call_args raw = (if raw = JUndef then JObj [] else raw)"

definition given_id :: "jval \<Rightarrow> string option" where
  "given_id raw = truthy_id (string_of (get_prop (call_args raw) ''request_id''))"

lemma lookup_cached_run:
  "lookup_cached env key s =
     (let (now, w) = ev_now env (sv_world s); (hit, c) = idem_get now key (sv_idem s)
      in (Inr hit, s\<lparr>sv_world := w, sv_idem := c\<rparr>))"
  by (simp add: lookup_cached_def bind_def clock_run case_prod_beta Let_def)

lemma request_id_of_run:
  obtains rid n where "request_id_of env args s = (Inr rid, s\<lparr>sv_uuids := n\<rparr>)"
    "truthy_id (string_of (get_prop args ''request_id'')) \<in> {None, Some rid}" "sv_uuids s \<le> n"
proof (cases "truthy_id (string_of (get_prop args ''request_id''))")
  case None
  then show ?thesis
    by (intro that [of "''req_'' @ ev_uuid env (sv_uuids s)" "Suc (sv_uuids s)"])
      (simp_all add: request_id_of_def fresh_uuid_def exec_simps)
next
  case (Some r)
  then show ?thesis
    by (intro that [of r "sv_uuids s"]) (simp_all add: request_id_of_def exec_simps)
qed

text \<open>A call with proper arguments either finds its envelope or runs the tool.\<close>

lemma call_with_cases:
  assumes "is_record (call_args raw)"
  obtains (cached) rid envelope s1 where
      "call_with workflow env name raw s = (Inr envelope, s1)"
      "\<exists>now w n. s1 = s\<lparr>sv_world := w, sv_uuids := n\<rparr> \<and> sv_uuids s \<le> n \<and> idem_get now (idem_key name rid) (sv_idem s) = (Some envelope, sv_idem s)"
      "given_id raw \<in> {None, Some rid}"
  | (fresh) rid started w c n where
      "call_with workflow env name raw s = run_tool workflow env
         \<lparr>rq_tool = name, rq_request_id = rid, rq_audit_id = ''aud_'' @ ev_uuid env n,
          rq_session_id = string_of (get_prop (call_args raw) ''session_id''), rq_started = started\<rparr> (call_args raw)
         (s\<lparr>sv_world := w, sv_idem := c, sv_uuids := Suc n\<rparr>)"
      "given_id raw \<in> {None, Some rid}" "sv_uuids s \<le> n"
proof -
  obtain started w1 where c1: "ev_now env (sv_world s) = (started, w1)" by fastforce
  obtain rid n where rid: "request_id_of env (call_args raw) (s\<lparr>sv_world := w1\<rparr>) = (Inr rid, s\<lparr>sv_world := w1, sv_uuids := n\<rparr>)"
    and given: "given_id raw \<in> {None, Some rid}" and n: "sv_uuids s \<le> n"
    unfolding given_id_def by (rule request_id_of_run [of env "call_args raw" "s\<lparr>sv_world := w1\<rparr>"]) simp
  obtain now w2 where c2: "ev_now env w1 = (now, w2)" by fastforce
  obtain hit c where get: "idem_get now (idem_key name rid) (sv_idem s) = (hit, c)" by fastforce
  have args: "assert_object (call_args raw) ''arguments'' = Inr ()"
    using assms by (simp add: assert_object_def)
  show ?thesis
  proof (cases hit)
    case (Some envelope)
    then have "c = sv_idem s" using get by (auto simp: idem_get_def split: option.splits if_splits)
    with Some get given n show ?thesis
      by (intro cached [where rid = rid and envelope = envelope and ?s1.0 = "s\<lparr>sv_world := w2, sv_uuids := n\<rparr>"])
        (auto simp: call_with_def call_args_def [symmetric] Let_def seq_def exec_simps clock_run c1 c2 args rid lookup_cached_run)
  next
    case None
    with get given n show ?thesis
      by (intro fresh [where rid = rid and started = started and w = w2 and c = c and n = n])
        (auto simp: call_with_def call_args_def [symmetric] Let_def seq_def exec_simps clock_run c1 c2 args rid
          lookup_cached_run fresh_uuid_def)
  qed
qed


subsection \<open>Every call is answered\<close>

text \<open>The last entry of the log is that of the call, and says how it ended.\<close>

definition audited :: "string \<Rightarrow> tool_envelope \<Rightarrow> audit_entry list \<Rightarrow> bool" where
  "audited name envelope entries \<longleftrightarrow> entries \<noteq> [] \<and>
     (let entry = last entries in ae_tool entry = name \<and> ae_audit_id entry = env_audit_id envelope \<and>
        ae_request_id entry = env_request_id envelope \<and> ae_ok entry = env_ok envelope \<and>
        (ae_error_code entry = None \<longleftrightarrow> env_ok envelope))"

text \<open>The envelope was in the cache, and nothing but the time and the counter of identifiers changed.\<close>

definition replayed :: "string \<Rightarrow> tool_envelope \<Rightarrow> 'w server \<Rightarrow> 'w server \<Rightarrow> bool" where
  "replayed name envelope s s' \<longleftrightarrow>
     (\<exists>rid now w n. fst (idem_get now (idem_key name rid) (sv_idem s)) = Some envelope \<and>
        s' = s\<lparr>sv_world := w, sv_uuids := n\<rparr>)"

lemma audited_ended:
  assumes "ended rq envelope s s'" "env_audit_id envelope = rq_audit_id rq" "env_request_id envelope = rq_request_id rq"
  shows "audited (rq_tool rq) envelope (sv_audit s')"
  using assms by (auto simp: ended_def audited_def audit_entry_of_def)




subsection \<open>Repeated calls\<close>

lemma finish_call_stored:
  assumes "finish_call env rq envelope code s = (Inr envelope', s')"
  shows "envelope' = envelope \<and> (\<exists>now c. sv_idem s' =
    idem_set idem_default_ttl idem_default_max now (idem_key (rq_tool rq) (rq_request_id rq)) envelope c)"
  using assms by (cases rule: finish_call_cases) auto

lemma run_tool_stored:
  assumes "run_tool workflow env rq args s = (Inr envelope, s')"
  shows "\<exists>now c. sv_idem s' =
    idem_set idem_default_ttl idem_default_max now (idem_key (rq_tool rq) (rq_request_id rq)) envelope c"
proof -
  let ?s = "s\<lparr>sv_hooks := no_hooks\<rparr>"
  obtain s2 where run: "try_catch (bind (dispatch workflow env (rq_tool rq) args) (\<lambda>r. succeed env rq r))
      (\<lambda>e. fail_call env rq e) ?s = (Inr envelope, s2)" "sv_idem s' = sv_idem s2"
    using assms by (auto simp: run_tool_def in_fresh_call_def split: prod.splits)
  then consider (normal) r s1 where "succeed env rq r s1 = (Inr envelope, s2)"
    | (caught) e s1 where "fail_call env rq e s1 = (Inr envelope, s2)"
    by (auto simp: try_catch_def bind_def split: prod.splits sum.splits)
  then show ?thesis
  proof cases
    case normal
    then show ?thesis using run(2) finish_call_stored by (fastforce simp: succeed_def bind_def gets_def)
  next
    case caught
    then show ?thesis using run(2) finish_call_stored by (fastforce simp: fail_call_def)
  qed
qed

text \<open>When the stored envelope of a request expires, and the time at which a call looks it up.\<close>

definition expiry_of :: "string \<Rightarrow> string \<Rightarrow> 'w server \<Rightarrow> int" where
  "expiry_of name rid s = (case map_of (sv_idem s) (idem_key name rid) of Some e \<Rightarrow> ie_expires_at e | None \<Rightarrow> 0)"

definition lookup_time :: "'w env \<Rightarrow> 'w server \<Rightarrow> int" where
  "lookup_time env s = fst (ev_now env (snd (ev_now env (sv_world s))))"

lemma given_record: "given_id raw = Some rid \<Longrightarrow> is_record (call_args raw)"
  by (cases raw) (auto simp: given_id_def call_args_def truthy_id_def)

lemma call_stored:
  assumes "call env name raw s = (Inr envelope, s1)" "given_id raw = Some rid"
  shows "\<exists>x. map_of (sv_idem s1) (idem_key name rid) = Some \<lparr>ie_value = envelope, ie_expires_at = x\<rparr>"
  using given_record [OF assms(2)]
proof (cases rule: call_with_cases [where workflow = "run_workflow env" and env = env and name = name and s = s])
  case (cached rid' envelope' s1')
  then obtain e where "map_of (sv_idem s1) (idem_key name rid) = Some e" "ie_value e = envelope"
    using assms by (auto simp: call_def idem_get_def split: option.splits if_splits)
  then show ?thesis by (cases e) auto
next
  case (fresh rid' started w c n)
  then have "rid' = rid" using assms(2) by simp
  with fresh(1) assms(1) run_tool_stored
  show ?thesis by (fastforce simp: call_def idem_set_lookup)
qed



definition example_first_call :: "(exn + tool_envelope) \<times> unit server" where
  "example_first_call = call example_env ''emacs_health'' (example_args []) (example_server ''read_only'' JNull)"

lemma example_first_answered: "case fst example_first_call of Inr e \<Rightarrow> True | Inl x \<Rightarrow> False"
  by code_simp

lemma example_first_stored: "0 < expiry_of ''emacs_health'' ''r'' (snd example_first_call)"
  by code_simp


end
