(* ===== verification/RouterRuns.thy ===== *)
theory RouterRuns
  imports RouterEffects RouterCalls
begin

text \<open>
  What holds over whole runs of the router. \<open>step_call_relation\<close> concludes from the effects that every
  call a step makes respects a relation, whatever the tool, the session and the arguments are, and
  \<open>router_relation\<close> the same of every call, workflows included; its interpretations are the invariants
  of the reachable states.
\<close>

locale step_call_relation = target_relation R "\<lambda>_. True" "\<lambda>_. True" + call_relation R "\<lambda>_. True" "\<lambda>_. True" env
  for R :: "'w server \<Rightarrow> 'w server \<Rightarrow> bool" and env +
  assumes session_closed: "R s (s\<lparr>sv_sessions := snd (sm_close sid (sv_sessions s))\<rparr>)"
    and session_opened: "keeps R (open_session_entry env input)"
begin

lemma all_allowed: "allows (\<lambda>_. True) ms"
  by (simp add: allows_def)

lemma close_session: "keeps R (close_session sid)"
  unfolding close_session_def by (rule on_sessions) (simp add: session_closed case_prod_beta)

lemma session_tool:
  "keeps R (workflow s args) \<Longrightarrow> keeps R (session_tool workflow env name s c args)"
  unfolding session_tool_def
  by (intro keeps_if reading_tools tool_eval tool_workflow tool_verification tool_project_rename
      tool_key_sequence tool_command tool_edit tool_checkpoint tool_rollback keeps_throw all_allowed TrueI)

lemma dispatch: "(\<And>s args. keeps R (workflow s args)) \<Longrightarrow> keeps R (dispatch workflow env name args)"
  unfolding dispatch_def with_session_def tool_session_close_def
  by (intro keeps_if keeps_rules effects get_session session_tool tool_health tool_instances
      open_session session_opened close_session all_allowed TrueI)

lemma step_call: "keeps R (step_call env tool raw)"
  unfolding step_call_def by (intro call_kept dispatch) (simp add: no_workflow_def keeps_throw)

end

locale router_relation = step_call_relation +
  assumes steps_change: "R s (s\<lparr>sv_steps := ps\<rparr>)"
begin

lemma log_step: "keeps R (log_step tool args res)"
  unfolding log_step_def by (rule keeps_modify) (rule steps_change)

lemma step: "keeps R (router_step env sid tool args)"
  unfolding router_step_def workflow_step_def
  by (intro keeps_rules effects log_step step_call)
    (auto split: tool_envelope.split intro!: keeps_rules log_step)

lemma workflow: "keeps R (run_workflow env s args)"
  unfolding run_workflow_def
  by (rule step_relation.semantic_workflow, unfold_locales) (rule step)

lemma router_call: "keeps R (call env name raw)"
  unfolding call_def by (intro call_kept dispatch workflow)

end


subsection \<open>Identifiers\<close>

text \<open>
  The sessions are well formed and were named by identifiers handed out before; the entries that the
  audit log gained in between carry identifiers handed out in between, all different.
\<close>

definition named_before :: "(nat \<Rightarrow> string) \<Rightarrow> nat \<Rightarrow> session_manager \<Rightarrow> bool" where
  "named_before uuid n m \<longleftrightarrow> sm_ok m \<and> dom (map_of (sm_sessions m)) \<subseteq> (\<lambda>i. ''ses_'' @ uuid i) ` {..<n}"

definition logged_between :: "(nat \<Rightarrow> string) \<Rightarrow> nat \<Rightarrow> nat \<Rightarrow> audit_entry list \<Rightarrow> bool" where
  "logged_between uuid a b es \<longleftrightarrow>
     (\<exists>ns. map ae_audit_id es = map (\<lambda>i. ''aud_'' @ uuid i) ns \<and> distinct ns \<and> set ns \<subseteq> {a..<b})"

definition progress :: "(nat \<Rightarrow> string) \<Rightarrow> 'w server \<Rightarrow> 'w server \<Rightarrow> bool" where
  "progress uuid s s' \<longleftrightarrow> sv_uuids s \<le> sv_uuids s' \<and>
     (inj uuid \<longrightarrow> named_before uuid (sv_uuids s) (sv_sessions s) \<longrightarrow> named_before uuid (sv_uuids s') (sv_sessions s')) \<and>
     (\<exists>es. sv_audit s' = sv_audit s @ es \<and> logged_between uuid (sv_uuids s) (sv_uuids s') es)"

lemma logged_Nil: "logged_between uuid a b []"
  by (auto simp: logged_between_def)

lemma logged_append:
  assumes "logged_between uuid a b xs" "logged_between uuid b c ys" "a \<le> b" "b \<le> c"
  shows "logged_between uuid a c (xs @ ys)"
proof -
  obtain ms ns where "map ae_audit_id xs = map (\<lambda>i. ''aud_'' @ uuid i) ms" "distinct ms" "set ms \<subseteq> {a..<b}"
    "map ae_audit_id ys = map (\<lambda>i. ''aud_'' @ uuid i) ns" "distinct ns" "set ns \<subseteq> {b..<c}"
    using assms(1,2) by (auto simp: logged_between_def)
  then show ?thesis
    unfolding logged_between_def using assms(3,4) by (intro exI [of _ "ms @ ns"]) fastforce
qed

lemma logged_mono: "logged_between uuid a b es \<Longrightarrow> a' \<le> a \<Longrightarrow> b \<le> b' \<Longrightarrow> logged_between uuid a' b' es"
  unfolding logged_between_def by fastforce

lemma progress_refl: "progress uuid s s"
  by (simp add: progress_def logged_Nil)

lemma progress_trans:
  assumes "progress uuid s t" "progress uuid t u"
  shows "progress uuid s u"
proof -
  obtain xs ys where "sv_audit t = sv_audit s @ xs" "logged_between uuid (sv_uuids s) (sv_uuids t) xs"
    "sv_audit u = sv_audit t @ ys" "logged_between uuid (sv_uuids t) (sv_uuids u) ys"
    using assms by (auto simp: progress_def)
  then have "\<exists>es. sv_audit u = sv_audit s @ es \<and> logged_between uuid (sv_uuids s) (sv_uuids u) es"
    using assms by (auto simp: progress_def intro: logged_append)
  then show ?thesis using assms by (auto simp: progress_def)
qed

interpretation progress: run_relation "progress uuid" for uuid
  by unfold_locales (rule progress_refl, erule progress_trans)

lemma progress_sessions:
  "named_before uuid (sv_uuids s) (sv_sessions s) \<longrightarrow> named_before uuid (sv_uuids s) m \<Longrightarrow>
     progress uuid s (s\<lparr>sv_sessions := m\<rparr>)"
  by (simp add: progress_def logged_Nil)

lemma named_before_mono: "named_before uuid n m \<Longrightarrow> n \<le> n' \<Longrightarrow> named_before uuid n' m"
  by (fastforce simp: named_before_def)


subsection \<open>The end of a call makes progress\<close>

lemma finish_call_log:
  assumes "finish_call env rq envelope code s = (r, s')"
  shows "sv_sessions s' = sv_sessions s \<and> sv_uuids s' = sv_uuids s \<and>
    ((\<exists>e. r = Inl e) \<and> sv_audit s' = sv_audit s \<or>
     (\<exists>x. r = Inr x) \<and> (\<exists>entry. sv_audit s' = sv_audit s @ [entry] \<and> ae_audit_id entry = rq_audit_id rq))"
  using assms by (cases rule: finish_call_cases) (auto simp: audit_entry_of_def)

lemma end_of_call_log:
  fixes s1 :: "'w server"
  assumes "try_catch (bind d (\<lambda>r. succeed env rq r)) (\<lambda>e. fail_call env rq e) s = (r, s')" "d s = (r1, s1)"
  shows "sv_sessions s' = sv_sessions s1 \<and> sv_uuids s' = sv_uuids s1 \<and>
    (sv_audit s' = sv_audit s1 \<or> (\<exists>entry. sv_audit s' = sv_audit s1 @ [entry] \<and> ae_audit_id entry = rq_audit_id rq))"
proof (cases r1)
  case (Inl e)
  then have "fail_call env rq e s1 = (r, s')" using assms by (simp add: try_catch_def bind_def)
  then show ?thesis unfolding fail_call_def by (auto dest: finish_call_log)
next
  case (Inr res)
  obtain r2 s2 where "succeed env rq res s1 = (r2, s2)" by fastforce
  then have 2: "sv_sessions s2 = sv_sessions s1 \<and> sv_uuids s2 = sv_uuids s1 \<and>
    ((\<exists>e. r2 = Inl e) \<and> sv_audit s2 = sv_audit s1 \<or>
     (\<exists>x. r2 = Inr x) \<and> (\<exists>entry. sv_audit s2 = sv_audit s1 @ [entry] \<and> ae_audit_id entry = rq_audit_id rq))"
    unfolding succeed_def by (auto simp: bind_def gets_def dest: finish_call_log)
  show ?thesis
  proof (cases r2)
    case (Inl e)
    then have "fail_call env rq e s2 = (r, s')"
      using assms \<open>r1 = Inr res\<close> \<open>succeed env rq res s1 = (r2, s2)\<close> by (simp add: try_catch_def bind_def)
    with 2 Inl show ?thesis unfolding fail_call_def by (auto dest: finish_call_log)
  next
    case (Inr x)
    then have "s' = s2"
      using assms \<open>r1 = Inr res\<close> \<open>succeed env rq res s1 = (r2, s2)\<close> by (simp add: try_catch_def bind_def)
    with 2 Inr show ?thesis by auto
  qed
qed

lemma logged_snoc:
  assumes "logged_between uuid (Suc n) b es" "ae_audit_id entry = ''aud_'' @ uuid n" "n < b"
  shows "logged_between uuid n b (es @ [entry])"
proof -
  obtain ns where "map ae_audit_id es = map (\<lambda>i. ''aud_'' @ uuid i) ns" "distinct ns" "set ns \<subseteq> {Suc n..<b}"
    using assms(1) by (auto simp: logged_between_def)
  then show ?thesis
    unfolding logged_between_def using assms(2,3) by (intro exI [of _ "ns @ [n]"]) auto
qed

lemma run_tool_progress:
  assumes "keeps (progress (ev_uuid env)) (dispatch workflow env (rq_tool rq) args)"
    and "rq_audit_id rq = ''aud_'' @ ev_uuid env n" "sv_uuids s = n"
  shows "progress (ev_uuid env) s (snd (run_tool workflow env rq args (s\<lparr>sv_world := w, sv_idem := c, sv_uuids := Suc n\<rparr>)))"
proof -
  let ?u = "ev_uuid env" and ?s = "s\<lparr>sv_world := w, sv_idem := c, sv_uuids := Suc n, sv_hooks := no_hooks\<rparr>"
  obtain r1 s1 where d: "dispatch workflow env (rq_tool rq) args ?s = (r1, s1)" by fastforce
  then have p: "progress ?u ?s s1" using assms(1) by (metis keeps_def snd_conv)
  then obtain es where es: "sv_audit s1 = sv_audit s @ es" "logged_between ?u (Suc n) (sv_uuids s1) es"
    and n: "n < sv_uuids s1"
    by (auto simp: progress_def)
  obtain r s2 where e: "try_catch (bind (dispatch workflow env (rq_tool rq) args) (\<lambda>r. succeed env rq r))
      (\<lambda>e. fail_call env rq e) ?s = (r, s2)" by fastforce
  note end_of_call_log [OF e d]
  moreover have "logged_between ?u n (sv_uuids s1) es" using es(2) by (rule logged_mono) simp_all
  moreover have "logged_between ?u n (sv_uuids s1) (es @ [entry])" if "ae_audit_id entry = rq_audit_id rq" for entry
    using logged_snoc [OF es(2) _ n] that assms(2) by simp
  moreover have "named_before ?u n (sv_sessions s) \<Longrightarrow> named_before ?u (Suc n) (sv_sessions s)"
    by (erule named_before_mono) simp
  ultimately have "progress ?u s (s2\<lparr>sv_hooks := sv_hooks s\<rparr>)"
    using p es(1) n assms(3) by (auto simp: progress_def)
  then show ?thesis using e by (simp add: run_tool_def in_fresh_call_def)
qed


lemma named_before_sub:
  "named_before uuid n m \<Longrightarrow> sm_ok m' \<Longrightarrow> dom (map_of (sm_sessions m')) \<subseteq> dom (map_of (sm_sessions m)) \<Longrightarrow>
     named_before uuid n m'"
  by (auto simp: named_before_def)

lemma named_before_ok: "named_before uuid n m \<Longrightarrow> sm_ok m"
  by (simp add: named_before_def)

lemma named_before_kept:
  assumes "named_before uuid n m"
  shows "named_before uuid n (snd (sm_get ttl now sid m))" "named_before uuid n (snd (sm_acquire ttl now sid m))"
    "named_before uuid n (snd (sm_update_target ttl now sid t m))" "named_before uuid n (snd (sm_close sid m))"
proof -
  note ok = named_before_ok [OF assms]
  show "named_before uuid n (snd (sm_get ttl now sid m))"
    using assms sm_ok_get [OF ok] sm_require_dom unfolding sm_get_eq_require by (rule named_before_sub)
  show "named_before uuid n (snd (sm_acquire ttl now sid m))"
    using assms sm_ok_acquire [OF ok] sm_acquire_dom by (rule named_before_sub)
  show "named_before uuid n (snd (sm_update_target ttl now sid t m))"
    using assms sm_ok_update_target [OF ok] sm_update_target_dom by (rule named_before_sub)
  show "named_before uuid n (snd (sm_close sid m))"
    using assms sm_ok_close [OF ok] sm_close_dom by (rule named_before_sub)
qed

lemma named_before_open:
  assumes "named_before uuid n m" "inj uuid"
  shows "named_before uuid (Suc n) (snd (sm_open now (uuid n) input m))"
proof -
  have "map_of (sm_sessions m) (''ses_'' @ uuid n) = None"
  proof (rule ccontr)
    assume "map_of (sm_sessions m) (''ses_'' @ uuid n) \<noteq> None"
    then obtain i where "i < n" "uuid n = uuid i"
      using assms(1) by (auto simp: named_before_def)
    with assms(2) show False by (simp add: inj_eq)
  qed
  then have "sm_ok (snd (sm_open now (uuid n) input m))" using assms(1) by (intro sm_ok_open) (auto simp: named_before_def)
  then show ?thesis using assms(1) by (fastforce simp: named_before_def sm_open_def Let_def)
qed

lemma open_session_progress:
  fixes env :: "'w env"
  shows "keeps (progress (ev_uuid env)) (open_session_entry env input)"
  unfolding keeps_def
proof
  fix s :: "'w server"
  obtain now w where "ev_now env (sv_world s) = (now, w)" by fastforce
  then have "snd (open_session_entry env input s) = s\<lparr>sv_world := w, sv_uuids := Suc (sv_uuids s),
      sv_sessions := snd (sm_open now (ev_uuid env (sv_uuids s)) input (sv_sessions s))\<rparr>"
    by (simp add: open_session_entry_def clock_run bind_def fresh_uuid_def on_sessions_def case_prod_beta)
  then show "progress (ev_uuid env) s (snd (open_session_entry env input s))"
    by (simp add: progress_def logged_Nil named_before_open)
qed

lemma call_with_progress:
  fixes env :: "'w env"
  assumes "keeps (progress (ev_uuid env)) (dispatch workflow env name (call_args raw))"
  shows "keeps (progress (ev_uuid env)) (call_with workflow env name raw)"
  unfolding keeps_def
proof
  fix s :: "'w server"
  have same: "progress (ev_uuid env) s (s\<lparr>sv_world := w, sv_uuids := n\<rparr>)" if "sv_uuids s \<le> n" for w n
    using that by (auto simp: progress_def logged_Nil intro: named_before_mono)
  show "progress (ev_uuid env) s (snd (call_with workflow env name raw s))"
  proof (cases "is_record (call_args raw)")
    case False
    obtain now w where "ev_now env (sv_world s) = (now, w)" by fastforce
    with False same [of "sv_uuids s" w] show ?thesis
      by (simp add: call_with_def call_args_def [symmetric] assert_object_def seq_def exec_simps clock_run)
  next
    case True
    then show ?thesis
    proof (cases rule: call_with_cases [where workflow = workflow and env = env and name = name and s = s])
      case (cached rid envelope s1)
      then show ?thesis using same by auto
    next
      case (fresh rid started w c n)
      let ?rq = "\<lparr>rq_tool = name, rq_request_id = rid, rq_audit_id = ''aud_'' @ ev_uuid env n,
          rq_session_id = string_of (get_prop (call_args raw) ''session_id''), rq_started = started\<rparr>"
      have "progress (ev_uuid env) (s\<lparr>sv_uuids := n\<rparr>) (snd (run_tool workflow env ?rq (call_args raw)
          (s\<lparr>sv_uuids := n, sv_world := w, sv_idem := c, sv_uuids := Suc n\<rparr>)))"
        using assms by (intro run_tool_progress) simp_all
      moreover have "progress (ev_uuid env) s (s\<lparr>sv_uuids := n\<rparr>)" using same [OF fresh(3), of "sv_world s"] by simp
      ultimately show ?thesis unfolding fresh(1) by (simp add: progress_trans)
    qed
  qed
qed

interpretation progress: router_relation "progress (ev_uuid env)" env for env
proof (unfold_locales, goal_cases)
  case (10 workflow name raw)
  then show ?case by (intro call_with_progress) (simp add: call_args_def)
next
  case (12 input)
  show ?case by (rule open_session_progress)
qed (auto simp: progress_def logged_Nil named_before_kept intro: named_before_mono)


subsection \<open>Reachable states\<close>

text \<open>Calls, one after the other; in between anything may happen outside the server.\<close>

inductive router_reachable :: "'w env \<Rightarrow> 'w server \<Rightarrow> bool" for env :: "'w env" where
  started: "router_reachable env (initial_server w)"
| outside: "router_reachable env s \<Longrightarrow> router_reachable env (s\<lparr>sv_world := w\<rparr>)"
| called: "router_reachable env s \<Longrightarrow> router_reachable env (snd (call env name raw s))"

inductive_cases router_reachableE: "router_reachable env s"

lemma call_progress: "progress (ev_uuid env) s (snd (call env name raw s))"
  using progress.router_call [of env name raw] unfolding keeps_def by blast

lemma reachable_progress: "router_reachable env s \<Longrightarrow> \<exists>w. progress (ev_uuid env) (initial_server w) s"
proof (induction rule: router_reachable.induct)
  case (started w)
  then show ?case using progress_refl by blast
next
  case (outside s w)
  then obtain w0 where "progress (ev_uuid env) (initial_server w0) s" by blast
  moreover have "progress (ev_uuid env) s (s\<lparr>sv_world := w\<rparr>)" by (simp add: progress_def logged_Nil)
  ultimately show ?case by (blast intro: progress_trans)
next
  case (called s name raw)
  then show ?case using call_progress by (blast intro: progress_trans)
qed

lemma logged_distinct: "inj uuid \<Longrightarrow> logged_between uuid a b es \<Longrightarrow> distinct (map ae_audit_id es)"
  by (elim logged_between_def [THEN iffD1, elim_format] exE conjE)
    (simp only: distinct_map, simp add: inj_on_def)

text \<open>
  C10: what every run of the router preserves. If identifiers are never handed out twice, then after any
  sequence of calls, of any tools with any arguments, whatever happens outside in between, the sessions
  are well formed, every mutation lease belongs to an open session of its instance, and no two entries
  of the audit log have the same identifier, those of workflow steps included.
\<close>

theorem reachable_router_consistent:
  assumes "inj (ev_uuid env)" "router_reachable env s"
  shows "sm_ok (sv_sessions s) \<and> distinct (map ae_audit_id (sv_audit s)) \<and>
    (\<forall>inst sid. map_of (sm_owners (sv_sessions s)) inst = Some sid \<longrightarrow>
       (\<exists>session. map_of (sm_sessions (sv_sessions s)) sid = Some session \<and> es_session_id session = sid \<and>
          es_instance_id session = inst))"
proof -
  obtain w where "progress (ev_uuid env) (initial_server w) s" using reachable_progress [OF assms(2)] by blast
  moreover have "named_before (ev_uuid env) 0 (sv_sessions (initial_server w))"
    by (simp add: initial_server_def named_before_def sm_ok_empty) (simp add: empty_manager_def)
  ultimately have "named_before (ev_uuid env) (sv_uuids s) (sv_sessions s)" and
    "\<exists>es. sv_audit s = es \<and> logged_between (ev_uuid env) 0 (sv_uuids s) es"
    using assms(1) by (auto simp: progress_def initial_server_def)
  then have ok: "sm_ok (sv_sessions s)" and "distinct (map ae_audit_id (sv_audit s))"
    using logged_distinct [OF assms(1)] by (auto simp: named_before_def)
  with sm_ok_owner [OF ok] sm_ok_sid [OF ok] show ?thesis by blast
qed

lemma example_uuids: "inj (ev_uuid example_env)"
  by (rule injI) (metis dec_val_dec_str example_env_def env.select_convs(3))

theorem reachable_router_consistent_witness:
  "distinct (map ae_audit_id (sv_audit (snd (call example_env ''emacs_health'' JUndef
     (snd (call example_env ''emacs_instances'' JUndef (initial_server ())))))))"
  using reachable_router_consistent [OF example_uuids] by (blast intro: router_reachable.intros)

text \<open>
  the audit log is append-only: no call, whatever its tool, arguments and outcome, changes or
  removes an entry that was written before.
\<close>

theorem audit_log_append_only:
  "prefix (sv_audit s) (sv_audit (snd (call env name raw s)))"
  using call_progress [of env s name raw] by (auto simp: progress_def)

end
