(* ===== verification/StepTrace.thy ===== *)
theory StepTrace
  imports RouterRuns
begin

text \<open>
  The workflows as transactions. Every step of a workflow is logged in \<open>sv_steps\<close>; a run of a workflow
  is transactional when nothing is changed before a checkpoint exists, and the last step closes that
  checkpoint in agreement with the result. The proof follows the structure of the source: the part
  before the checkpoint (\<open>transactional\<close>), the \<open>try\<close> block (\<open>settled\<close>) and the whole block with its
  handler (\<open>closes\<close>).
\<close>

subsection \<open>The log of steps\<close>

definition extends :: "(step_event \<Rightarrow> bool) \<Rightarrow> 'w server \<Rightarrow> 'w server \<Rightarrow> bool" where
  "extends P s s' \<longleftrightarrow> (\<exists>new. sv_steps s' = sv_steps s @ new \<and> list_all P new)"

interpretation extends: run_relation "extends P" for P
  by unfold_locales (auto simp: extends_def)

definition step_event_of :: "string \<Rightarrow> (string \<times> jval) list \<Rightarrow> exn + jval \<Rightarrow> step_event" where
  "step_event_of tool args r = \<lparr>sp_tool = tool, sp_args = args,
     sp_result = (case r of Inl e \<Rightarrow> None | Inr v \<Rightarrow> Some v)\<rparr>"

lemma step_event_sel [simp]:
  "sp_tool (step_event_of tool args r) = tool" "sp_args (step_event_of tool args r) = args"
  "sp_result (step_event_of tool args (Inl e)) = None" "sp_result (step_event_of tool args (Inr v)) = Some v"
  by (simp_all add: step_event_of_def)

text \<open>The tools a workflow may use before there is a checkpoint: they change no text.\<close>

definition preparing :: "step_event \<Rightarrow> bool" where
  "preparing e \<longleftrightarrow> sp_tool e \<in> {''emacs_capabilities'', ''emacs_analyze'', ''emacs_checkpoint''}"

definition checkpoint_created :: "string \<Rightarrow> step_event \<Rightarrow> bool" where
  "checkpoint_created cid e \<longleftrightarrow> sp_tool e = ''emacs_checkpoint'' \<and> sp_args e = [(''action'', JStr ''create'')] \<and>
     (\<exists>res. sp_result e = Some res \<and> get_prop res ''checkpoint_id'' = JStr cid)"

definition commit_step :: "string \<Rightarrow> step_event \<Rightarrow> bool" where
  "commit_step cid e \<longleftrightarrow> sp_tool e = ''emacs_checkpoint'' \<and>
     sp_args e = [(''action'', JStr ''commit''), (''checkpoint_id'', JStr cid)]"

definition rollback_step :: "string \<Rightarrow> step_event \<Rightarrow> bool" where
  "rollback_step cid e \<longleftrightarrow> sp_tool e = ''emacs_rollback'' \<and> sp_args e = [(''checkpoint_id'', JStr cid)]"

text \<open>The last step agrees with how the workflow ended.\<close>

definition closing :: "string \<Rightarrow> exn + jval \<Rightarrow> step_event \<Rightarrow> bool" where
  "closing cid r e \<longleftrightarrow>
     (case r of
        Inl x \<Rightarrow> rollback_step cid e \<and> (sp_result e = None \<longrightarrow> exn_code x = E_ROLLBACK_FAILED)
      | Inr v \<Rightarrow> sp_result e \<noteq> None \<and>
          (get_prop v ''status'' = JStr ''committed'' \<and> commit_step cid e \<or>
           get_prop v ''status'' = JStr ''rolled_back'' \<and> rollback_step cid e))"

definition closes :: "string \<Rightarrow> ('w server, jval) act \<Rightarrow> bool" where
  "closes cid m \<longleftrightarrow> (\<forall>s r s'. m s = (r, s') \<longrightarrow>
     (\<exists>new. sv_steps s' = sv_steps s @ new \<and> new \<noteq> [] \<and> closing cid r (last new)))"

definition settled :: "string \<Rightarrow> ('w server, ('w server, jval) act) act \<Rightarrow> bool" where
  "settled cid body \<longleftrightarrow> (\<forall>s r s1. body s = (r, s1) \<longrightarrow> (\<exists>new. sv_steps s1 = sv_steps s @ new \<and>
     (\<forall>p r' s2. r = Inr p \<longrightarrow> p s1 = (r', s2) \<longrightarrow>
        (\<exists>new'. sv_steps s2 = sv_steps s1 @ new' \<and> new @ new' \<noteq> [] \<and> closing cid r' (last (new @ new'))))))"

definition transactional :: "('w server, jval) act \<Rightarrow> bool" where
  "transactional m \<longleftrightarrow> (\<forall>s r s'. m s = (r, s') \<longrightarrow>
     (\<exists>pre body. sv_steps s' = sv_steps s @ pre @ body \<and> list_all preparing pre \<and>
        (if body = [] then \<exists>e. r = Inl e
         else \<exists>cid. pre \<noteq> [] \<and> checkpoint_created cid (last pre) \<and> closing cid r (last body))))"

subsection \<open>Rules\<close>

lemma closes_settled: "closes cid m \<Longrightarrow> settled cid (ret m)"
  by (auto simp: closes_def settled_def ret_def)

lemma settled_throw: "settled cid (throw e)"
  by (simp add: settled_def throw_def)

lemma settledD:
  assumes "settled cid body" "body s = (r, s1)"
  obtains new where "sv_steps s1 = sv_steps s @ new"
    "\<forall>p r' s2. r = Inr p \<longrightarrow> p s1 = (r', s2) \<longrightarrow>
        (\<exists>new'. sv_steps s2 = sv_steps s1 @ new' \<and> new @ new' \<noteq> [] \<and> closing cid r' (last (new @ new')))"
  using assms unfolding settled_def by (elim allE impE) (assumption, elim exE conjE, rule that)

lemma settled_bind:
  assumes "keeps (extends (\<lambda>_. True)) m" "\<And>x. settled cid (f x)"
  shows "settled cid (bind m f)"
  unfolding settled_def
proof (intro allI impI)
  fix s r s1
  assume run: "bind m f s = (r, s1)"
  obtain r0 s0 where m: "m s = (r0, s0)" by fastforce
  then obtain new0 where 0: "sv_steps s0 = sv_steps s @ new0"
    using assms(1) by (auto simp: keeps_def extends_def dest!: spec [of _ s])
  show "\<exists>new. sv_steps s1 = sv_steps s @ new \<and>
     (\<forall>p r' s2. r = Inr p \<longrightarrow> p s1 = (r', s2) \<longrightarrow>
        (\<exists>new'. sv_steps s2 = sv_steps s1 @ new' \<and> new @ new' \<noteq> [] \<and> closing cid r' (last (new @ new'))))"
  proof (cases r0)
    case (Inl e)
    with run m 0 show ?thesis by (auto simp: bind_def)
  next
    case (Inr x)
    then have "f x s0 = (r, s1)" using run m by (simp add: bind_def)
    from settledD [OF assms(2) this] obtain new where 1: "sv_steps s1 = sv_steps s0 @ new" and
      2: "\<forall>p r' s2. r = Inr p \<longrightarrow> p s1 = (r', s2) \<longrightarrow>
        (\<exists>new'. sv_steps s2 = sv_steps s1 @ new' \<and> new @ new' \<noteq> [] \<and> closing cid r' (last (new @ new')))"
      by blast
    have "\<exists>new'. sv_steps s2 = sv_steps s1 @ new' \<and> (new0 @ new) @ new' \<noteq> [] \<and>
        closing cid r' (last ((new0 @ new) @ new'))" if p: "r = Inr p" "p s1 = (r', s2)" for p r' s2
    proof -
      obtain new' where 3: "sv_steps s2 = sv_steps s1 @ new'" and "new @ new' \<noteq> []"
        and "closing cid r' (last (new @ new'))"
        using 2 [THEN spec, THEN spec, THEN spec, THEN mp, OF p(1), THEN mp, OF p(2)] by (elim exE conjE)
      then have "new0 @ new @ new' \<noteq> []" "closing cid r' (last (new0 @ new @ new'))"
        by (simp_all only: last_append append_is_Nil_conv if_False simp_thms)
      with 3 show ?thesis by (metis append_assoc)
    qed
    then show ?thesis using 0 1 by - (rule exI [of _ "new0 @ new"], simp)
  qed
qed

lemma settled_seq: "keeps (extends (\<lambda>_. True)) m \<Longrightarrow> settled cid n \<Longrightarrow> settled cid (seq m n)"
  unfolding seq_def by (rule settled_bind)

lemma settled_if: "settled cid m \<Longrightarrow> settled cid n \<Longrightarrow> settled cid (if b then m else n)"
  by simp

lemma settled_prod: "(\<And>x y. settled cid (f x y)) \<Longrightarrow> settled cid (case p of (x, y) \<Rightarrow> f x y)"
  by (cases p) simp

lemma settled_option:
  "settled cid m \<Longrightarrow> (\<And>x. settled cid (f x)) \<Longrightarrow> settled cid (case v of None \<Rightarrow> m | Some x \<Rightarrow> f x)"
  by (cases v) simp_all

lemma transactional_throw: "transactional (throw e)"
  by (simp add: transactional_def throw_def)

lemma transactional_bind:
  assumes "keeps (extends preparing) m" "\<And>x. transactional (f x)"
  shows "transactional (bind m f)"
  unfolding transactional_def
proof (intro allI impI)
  fix s r s'
  assume run: "bind m f s = (r, s')"
  obtain r0 s0 where m: "m s = (r0, s0)" by fastforce
  then obtain pre0 where 0: "sv_steps s0 = sv_steps s @ pre0" "list_all preparing pre0"
    using assms(1) by (auto simp: keeps_def extends_def dest!: spec [of _ s])
  show "\<exists>pre body. sv_steps s' = sv_steps s @ pre @ body \<and> list_all preparing pre \<and>
        (if body = [] then \<exists>e. r = Inl e
         else \<exists>cid. pre \<noteq> [] \<and> checkpoint_created cid (last pre) \<and> closing cid r (last body))"
  proof (cases r0)
    case (Inl e)
    with run m 0 have "sv_steps s' = sv_steps s @ pre0 @ []" "\<exists>e. r = Inl e" by (auto simp: bind_def)
    with 0 show ?thesis by (intro exI [of _ pre0] exI [of _ "[] :: step_event list"]) simp
  next
    case (Inr x)
    then have "f x s0 = (r, s')" using run m by (simp add: bind_def)
    then obtain pre body where "sv_steps s' = sv_steps s0 @ pre @ body" "list_all preparing pre"
      "if body = [] then \<exists>e. r = Inl e
         else \<exists>cid. pre \<noteq> [] \<and> checkpoint_created cid (last pre) \<and> closing cid r (last body)"
      using assms(2) [of x] unfolding transactional_def by blast
    with 0 have "sv_steps s' = sv_steps s @ (pre0 @ pre) @ body" "list_all preparing (pre0 @ pre)"
      "if body = [] then \<exists>e. r = Inl e
         else \<exists>cid. pre0 @ pre \<noteq> [] \<and> checkpoint_created cid (last (pre0 @ pre)) \<and> closing cid r (last body)"
      by (auto split: if_splits)
    then show ?thesis by blast
  qed
qed

lemma transactional_seq: "keeps (extends preparing) m \<Longrightarrow> transactional n \<Longrightarrow> transactional (seq m n)"
  unfolding seq_def by (rule transactional_bind)

lemma transactional_if: "transactional m \<Longrightarrow> transactional n \<Longrightarrow> transactional (if b then m else n)"
  by simp

lemma transactional_prod: "(\<And>x y. transactional (f x y)) \<Longrightarrow> transactional (case p of (x, y) \<Rightarrow> f x y)"
  by (cases p) simp

text \<open>The transaction starts when the checkpoint has been created.\<close>

lemma map_of_spread_absent: "k \<notin> fst ` set kvs2 \<Longrightarrow> map_of (spread kvs kvs2) k = map_of kvs k"
  by (induction kvs kvs2 rule: spread.induct) (auto simp: update_conv)

lemmas transactional_rules = transactional_throw transactional_bind transactional_seq transactional_if
  transactional_prod

lemmas settled_rules = settled_throw settled_bind settled_seq settled_if settled_prod settled_option

subsection \<open>Steps that are logged\<close>

locale logged_steps =
  fixes step :: "'w stepper"
  assumes logged: "step tool args s = (r, s') \<Longrightarrow> sv_steps s' = sv_steps s @ [step_event_of tool args r]"
begin

lemma step_extends: "(\<And>r. P (step_event_of tool args r)) \<Longrightarrow> keeps (extends P) (step tool args)"
  unfolding keeps_def extends_def
proof
  fix s
  assume P: "\<And>r. P (step_event_of tool args r)"
  obtain r s' where "step tool args s = (r, s')" by fastforce
  with logged [OF this] P show "\<exists>new. sv_steps (snd (step tool args s)) = sv_steps s @ new \<and> list_all P new"
    by (intro exI [of _ "[step_event_of tool args r]"]) simp
qed

end

sublocale logged_steps \<subseteq> all: step_relation "extends (\<lambda>_. True)" step
  by unfold_locales (rule step_extends, simp)

context logged_steps
begin

lemma rollback_closing:
  assumes "workflow_rollback step cid s = (r, s')"
  obtains e where "sv_steps s' = sv_steps s @ [e]" "rollback_step cid e"
    "case r of Inl x \<Rightarrow> sp_result e = None \<and> exn_code x = E_ROLLBACK_FAILED | Inr v \<Rightarrow> sp_result e \<noteq> None"
proof -
  obtain r0 s0 where run: "step ''emacs_rollback'' [(''checkpoint_id'', JStr cid)] s = (r0, s0)" by fastforce
  let ?e = "step_event_of ''emacs_rollback'' [(''checkpoint_id'', JStr cid)] r0"
  have "sv_steps s' = sv_steps s @ [?e]" "rollback_step cid ?e"
    "case r of Inl x \<Rightarrow> sp_result ?e = None \<and> exn_code x = E_ROLLBACK_FAILED | Inr v \<Rightarrow> sp_result ?e \<noteq> None"
    using assms run logged [OF run]
    by (auto simp: workflow_rollback_def try_catch_def throw_def rollback_step_def split: sum.splits)
  then show thesis by (rule that)
qed

lemma proposal_failure_closes:
  assumes "''status'' \<notin> fst ` set details"
  shows "closes cid (proposal_failure step cid operation reason details runtime)"
  unfolding closes_def
proof (intro allI impI)
  fix s r s'
  assume "proposal_failure step cid operation reason details runtime s = (r, s')"
  then obtain r0 where run: "workflow_rollback step cid s = (r0, s')"
    and r: "case r0 of Inl e \<Rightarrow> r = Inl e | Inr v \<Rightarrow> \<exists>w. r = Inr w \<and> get_prop w ''status'' = JStr ''rolled_back''"
    unfolding proposal_failure_def using assms
    by (auto simp: ret_def map_of_spread_absent elim!: bind_cases)
  from rollback_closing [OF run] obtain e where e: "sv_steps s' = sv_steps s @ [e]" "rollback_step cid e"
    "case r0 of Inl x \<Rightarrow> sp_result e = None \<and> exn_code x = E_ROLLBACK_FAILED | Inr v \<Rightarrow> sp_result e \<noteq> None" .
  then have "closing cid r e" using r by (auto simp: closing_def split: sum.splits)
  with e show "\<exists>new. sv_steps s' = sv_steps s @ new \<and> new \<noteq> [] \<and> closing cid r (last new)"
    by (intro exI [of _ "[e]"]) simp
qed

lemma checkpointed_closes:
  assumes "settled cid body"
  shows "closes cid (checkpointed step cid body)"
  unfolding closes_def
proof (intro allI impI)
  fix s r s'
  assume run: "checkpointed step cid body s = (r, s')"
  obtain r1 s1 where body: "body s = (r1, s1)" by fastforce
  from settledD [OF assms this] obtain new where new: "sv_steps s1 = sv_steps s @ new"
    and good: "\<forall>p r' s2. r1 = Inr p \<longrightarrow> p s1 = (r', s2) \<longrightarrow>
        (\<exists>new'. sv_steps s2 = sv_steps s1 @ new' \<and> new @ new' \<noteq> [] \<and> closing cid r' (last (new @ new')))" .
  show "\<exists>new. sv_steps s' = sv_steps s @ new \<and> new \<noteq> [] \<and> closing cid r (last new)"
  proof (cases r1)
    case (Inr p)
    then have "p s1 = (r, s')" using run body by (simp add: checkpointed_def try_catch_def bind_def)
    with good Inr obtain new' where "sv_steps s' = sv_steps s1 @ new'" and "new @ new' \<noteq> []"
      and "closing cid r (last (new @ new'))" by blast
    with new show ?thesis by (intro exI [of _ "new @ new'"]) simp
  next
    case (Inl e)
    obtain r2 s2 where roll: "workflow_rollback step cid s1 = (r2, s2)" by fastforce
    from rollback_closing [OF this] obtain ev where ev: "sv_steps s2 = sv_steps s1 @ [ev]" "rollback_step cid ev"
      "case r2 of Inl x \<Rightarrow> sp_result ev = None \<and> exn_code x = E_ROLLBACK_FAILED | Inr v \<Rightarrow> sp_result ev \<noteq> None" .
    have "s' = s2" "closing cid r ev"
      using run ev body Inl roll
      by (auto simp: checkpointed_def try_catch_def bind_def seq_def throw_def closing_def split: sum.splits)
    with ev new show ?thesis by (intro exI [of _ "new @ [ev]"]) simp
  qed
qed

lemma commit_settled:
  assumes pure: "\<And>c s. snd (g c s) = s"
    and made: "\<And>c s p. fst (g c s) = Inr p \<Longrightarrow> \<exists>v. p = ret v \<and> get_prop v ''status'' = JStr ''committed''"
  shows "settled cid (bind (commit_checkpoint step cid) g)"
  unfolding settled_def
proof (intro allI impI)
  fix s r s1
  assume run: "bind (commit_checkpoint step cid) g s = (r, s1)"
  obtain r0 s0 where commit: "commit_checkpoint step cid s = (r0, s0)" by fastforce
  let ?e = "step_event_of ''emacs_checkpoint'' [(''action'', JStr ''commit''), (''checkpoint_id'', JStr cid)] r0"
  have "sv_steps s0 = sv_steps s @ [?e]" using logged [OF commit [unfolded commit_checkpoint_def]] .
  moreover have "s1 = s0" using run commit pure by (cases r0) (auto simp: bind_def dest: arg_cong [of _ _ snd])
  ultimately have log: "sv_steps s1 = sv_steps s @ [?e]" by simp
  have closed: "sv_steps s2 = sv_steps s1 @ [] \<and> [?e] @ [] \<noteq> [] \<and> closing cid r' (last ([?e] @ []))"
    if p: "r = Inr p" "p s1 = (r', s2)" for p r' s2
  proof -
    obtain c where c: "r0 = Inr c" "fst (g c s0) = Inr p"
      using run commit p(1) by (cases r0) (auto simp: bind_def)
    with made [OF c(2)] p(2) show ?thesis by (auto simp: closing_def commit_step_def ret_def)
  qed
  have "\<exists>new'. sv_steps s2 = sv_steps s1 @ new' \<and> [?e] @ new' \<noteq> [] \<and> closing cid r' (last ([?e] @ new'))"
    if "r = Inr p" "p s1 = (r', s2)" for p r' s2
    by (rule exI [of _ "[]"]) (rule closed [OF that])
  with log show "\<exists>new. sv_steps s1 = sv_steps s @ new \<and> (\<forall>p r' s2. r = Inr p \<longrightarrow> p s1 = (r', s2) \<longrightarrow>
        (\<exists>new'. sv_steps s2 = sv_steps s1 @ new' \<and> new @ new' \<noteq> [] \<and> closing cid r' (last (new @ new'))))"
    by - (rule exI [of _ "[?e]"], rule conjI, assumption, intro allI impI, blast)
qed

lemma committed_settled: "settled cid (commit_and_return step cid (committed operation cid' runtime kvs))"
  unfolding commit_and_return_def by (rule commit_settled) (auto simp: committed_def ret_def)

lemma failure_settled:
  "''status'' \<notin> fst ` set details \<Longrightarrow> settled cid (ret (proposal_failure step cid operation reason details runtime))"
  by (intro closes_settled proposal_failure_closes)

lemma start:
  assumes "\<And>cid. closes cid (f cid)"
  shows "transactional (bind (create_checkpoint step label) f)"
  unfolding transactional_def
proof (intro allI impI)
  fix s r s'
  assume run: "bind (create_checkpoint step label) f s = (r, s')"
  obtain r0 s0 where create: "step ''emacs_checkpoint'' [(''action'', JStr ''create'')] s = (r0, s0)" by fastforce
  let ?e = "step_event_of ''emacs_checkpoint'' [(''action'', JStr ''create'')] r0"
  have log: "sv_steps s0 = sv_steps s @ [?e]" and prep: "preparing ?e" using logged [OF create] by (simp_all add: preparing_def)
  from run show "\<exists>pre body. sv_steps s' = sv_steps s @ pre @ body \<and> list_all preparing pre \<and>
        (if body = [] then \<exists>e. r = Inl e
         else \<exists>cid. pre \<noteq> [] \<and> checkpoint_created cid (last pre) \<and> closing cid r (last body))"
  proof (cases rule: bind_cases)
    case (1 e)
    then have "s' = s0"
      using create by (auto simp: create_checkpoint_def bind_def lift_def split: sum.splits)
    with log prep 1(2) show ?thesis
      by - (rule exI [of _ "[?e]"], rule exI [of _ "[]"], simp)
  next
    case (2 cid s1)
    then obtain v where v: "r0 = Inr v" "s1 = s0" and "get_prop v ''checkpoint_id'' = JStr cid"
      using create
      by (auto simp: create_checkpoint_def bind_def lift_def workflow_record_def required_string_iff
          split: sum.splits if_splits)
    then have made: "checkpoint_created cid ?e" by (simp add: checkpoint_created_def)
    from 2(2) v assms [of cid] obtain new where "sv_steps s' = sv_steps s0 @ new" "new \<noteq> []" "closing cid r (last new)"
      unfolding closes_def by blast
    with log prep made show ?thesis
      by - (rule exI [of _ "[?e]"], rule exI [of _ new], auto)
  qed
qed

subsubsection \<open>The parts of the workflows\<close>

lemma prepares:
  "keeps (extends preparing) (step ''emacs_capabilities'' args)"
  "keeps (extends preparing) (step ''emacs_analyze'' args)"
  by (rule step_extends, simp add: preparing_def)+

lemma prepare_parts:
  "keeps (extends preparing) (observe_adapters step)"
  "keeps (extends preparing) (check_expected_name step expected msg)"
  "keeps (extends preparing) (checked_evaluations session args)"
  "keeps (extends preparing) (extract_parameters step args start' stop)"
  unfolding observe_adapters_def check_expected_name_def checked_evaluations_def extract_parameters_def Let_def
  by (intro extends.keeps_rules prepares)+

lemma expected_field_status [simp]: "''status'' \<notin> fst ` set (expected_field e)"
  by (cases e) (simp_all add: expected_field_def)

lemma evaluation_fields_status [simp]: "''status'' \<notin> fst ` set (evaluation_fields rs)"
  by (auto simp: evaluation_fields_def)

lemma with_evaluations_settled:
  "''status'' \<notin> fst ` set details \<Longrightarrow> (\<And>rs. settled cid (continue rs)) \<Longrightarrow>
     settled cid (with_evaluations step cid operation details earlier evaluations continue)"
  unfolding with_evaluations_def Let_def
  by (rule settled_rules all.run_evaluations failure_settled | assumption | (simp add: image_Un; fail))+

lemmas settled_parts = committed_settled with_evaluations_settled failure_settled all.validate_adapter
  all.goto_position all.steps all.observe_adapters

lemma with_definition_settled:
  "''status'' \<notin> fst ` set details \<Longrightarrow> (\<And>rs. settled cid (continue rs)) \<Longrightarrow>
     settled cid (with_definition step cid wanted place details earlier continue)"
  unfolding with_definition_def evaluate_definition_at_def Let_def
  by (rule settled_rules failure_settled all.steps all.goto_position extends.keeps_rules | assumption
      | (simp add: image_Un; fail))+

lemmas workflow_rules = start checkpointed_closes transactional_rules settled_parts with_definition_settled
  settled_rules prepare_parts extends.keeps_rules

lemma lisp_workflows:
  "transactional (workflow_repair_lisp step session args)"
  "transactional (workflow_refactor_defun step session args)"
  "transactional (workflow_rename_symbol step session args)"
  "transactional (workflow_extract_function step session args)"
  "transactional (workflow_validated_command step session operation command arguments args)"
  unfolding workflow_repair_lisp_def workflow_refactor_defun_def workflow_rename_symbol_def
    workflow_extract_function_def workflow_validated_command_def Let_def
  by (rule workflow_rules prepares | (simp; fail))+

lemma command_workflows:
  "transactional (workflow_move_form step session args)"
  "transactional (workflow_transform_sexp step session args)"
  unfolding workflow_move_form_def workflow_transform_sexp_def Let_def
  by (rule workflow_rules lisp_workflows)+

lemma org_rewrite_subtree: "transactional (workflow_org_rewrite_subtree step session args)"
  unfolding workflow_org_rewrite_subtree_def Let_def
  by (rule workflow_rules all.rewrite_parts all.rewrite_properties | (simp; fail))+

subsubsection \<open>\<open>org_build_section\<close>\<close>

lemma section_result_status:
  "section_result cid heading table source babel v commit = Inr r \<Longrightarrow> get_prop r ''status'' = JStr ''committed''"
  by (auto simp: section_result_def andthen_def split: sum.splits)

lemma finish_section: "settled cid (finish_section step cid args heading table source babel)"
proof -
  have commits: "settled cid (bind (commit_checkpoint step cid) (\<lambda>commit.
      bind (lift (section_result cid heading table source babel v commit)) (\<lambda>r. ret (ret r))))" for v
    by (rule commit_settled)
      (auto simp: bind_def lift_def ret_def split: sum.splits dest: section_result_status)
  show ?thesis
    unfolding finish_section_def
    by (rule commits settled_rules failure_settled all.validate_adapter | (cases babel; simp; fail))+
qed

lemma execute_babel:
  "(\<And>b. settled cid (continue b)) \<Longrightarrow> settled cid (execute_babel step cid heading source execute v continue)"
  unfolding execute_babel_def Let_def
  by (rule settled_rules failure_settled all.steps extends.keeps_rules | assumption | (simp; fail))+

lemma build_section_body:
  "settled cid (build_section_body step cid args sec title level placement body source execute)"
proof -
  have start': "keeps (extends (\<lambda>_. True)) (case v of JNum n \<Rightarrow> goto_position step (jn_floor n) | _ \<Rightarrow> ret ())" for v
    by (cases v) (simp_all add: all.goto_position extends.keeps_ret)
  have point: "(\<And>p. settled cid (f p)) \<Longrightarrow> settled cid (case v of JNum p \<Rightarrow> f p | _ \<Rightarrow> throw e)" for f v e
    by (cases v) (simp_all add: settled_throw)
  show ?thesis
    unfolding build_section_body_def
    by (rule settled_rules failure_settled point start' all.steps all.inserts all.build_properties
        all.validate_adapter execute_babel finish_section extends.keeps_rules | (simp; fail))+
qed

lemma org_build_section: "transactional (workflow_org_build_section step session args)"
  unfolding workflow_org_build_section_def Let_def
  by (rule workflow_rules build_section_body)+

lemma semantic_workflow: "transactional (execute_semantic_workflow step session args)"
  unfolding execute_semantic_workflow_def
  by (rule workflow_rules lisp_workflows command_workflows org_rewrite_subtree org_build_section)+

end

end
