(* ===== verification/Transactions.thy ===== *)
theory Transactions
  imports StepTrace
begin

text \<open>
  The steps of a workflow are logged one by one: a call made by a step adds nothing to the log, and
  \<open>workflowStep\<close> adds exactly one event. With \<open>StepTrace\<close> this makes every workflow of the router a
  transaction.
\<close>

definition same_steps :: "'w server \<Rightarrow> 'w server \<Rightarrow> bool" where
  "same_steps s s' \<longleftrightarrow> sv_steps s' = sv_steps s"

interpretation logs_none: log_relation same_steps "\<lambda>_. True" "\<lambda>_. True"
  by unfold_locales (simp_all add: same_steps_def)

lemma open_session_entry_steps: "keeps same_steps (open_session_entry env input)"
  unfolding open_session_entry_def
  by (intro logs_none.keeps_rules logs_none.effects logs_none.on_sessions) (simp_all add: same_steps_def)

interpretation steps_kept: step_call_relation same_steps env for env
proof (unfold_locales, goal_cases)
  case 1 then show ?case by (simp add: same_steps_def)
next
  case 2 then show ?case by (simp add: same_steps_def)
qed (rule open_session_entry_steps)

lemma log_step_run:
  "log_step name args r s = (Inr (), s\<lparr>sv_steps := sv_steps s @ [\<lparr>sp_tool = name, sp_args = args, sp_result = r\<rparr>]\<rparr>)"
  by (simp add: log_step_def modify_def)

lemma workflow_step_logged:
  assumes kept: "\<And>raw. keeps same_steps (call' name raw)" and step: "workflow_step env call' sid name args s = (r, s')"
  shows "sv_steps s' = sv_steps s @ [step_event_of name args r]"
proof -
  let ?raw = "JObj (spread args [(''session_id'', JStr sid), (''request_id'', JStr (''wf_'' @ ev_uuid env (sv_uuids s)))])"
  obtain r1 s1 where call: "call' name ?raw (s\<lparr>sv_uuids := Suc (sv_uuids s)\<rparr>) = (r1, s1)" by fastforce
  then have same: "sv_steps s1 = sv_steps s"
    using kept [of ?raw] unfolding keeps_def same_steps_def by (auto dest: spec [of _ "s\<lparr>sv_uuids := Suc (sv_uuids s)\<rparr>"])
  note run = step [unfolded workflow_step_def fresh_uuid_def bind_def try_catch_def prod.case sum.case call]
  show ?thesis
  proof (cases r1)
    case (Inl e)
    with run same show ?thesis by (auto simp: seq_def bind_def log_step_run throw_def step_event_of_def)
  next
    case (Inr envelope)
    with run same show ?thesis
      by (cases envelope) (auto simp: seq_def bind_def log_step_run throw_def ret_def step_event_of_def)
  qed
qed

interpretation steps_logged: logged_steps "router_step env sid" for env sid
proof
  fix tool args s r s'
  assume step: "router_step env sid tool args s = (r, s')"
  show "sv_steps s' = sv_steps s @ [step_event_of tool args r]"
    by (rule workflow_step_logged, rule steps_kept.step_call) (rule step [unfolded router_step_def])
qed


end
