(* ===== verification/JsNumber.thy ===== *)
theory JsNumber
  imports JsValue
begin

text \<open>
  \<open>Number(s)\<close> for a string (the \<open>StringNumericLiteral\<close> grammar: white space around, an empty string
  is 0, radix prefixes without a sign, signed decimals with fraction and exponent, \<open>Infinity\<close>), and
  \<open>Number.isSafeInteger\<close>. The value is the exact one; a double is not rounded in the model.
\<close>

definition digit_of :: "nat \<Rightarrow> char \<Rightarrow> nat option" where
  "digit_of radix c =
     (let n = (of_char (to_lower_char c) :: nat);
          d = (if is_digit c then n - 48 else if 97 \<le> n \<and> n \<le> 122 then n - 87 else radix) in
      if d < radix then Some d else None)"

fun radix_value :: "nat \<Rightarrow> nat \<Rightarrow> string \<Rightarrow> nat option" where
  "radix_value radix acc [] = Some acc"
| "radix_value radix acc (c # s) =
     (case digit_of radix c of None \<Rightarrow> None | Some d \<Rightarrow> radix_value radix (acc * radix + d) s)"

definition scale :: "rat \<Rightarrow> string \<Rightarrow> rat option" where
  "scale q rest =
     (case rest of
        [] \<Rightarrow> Some q
      | c # ds \<Rightarrow>
          if c \<noteq> CHR ''e'' \<and> c \<noteq> CHR ''E'' then None
          else (let neg = starts_with ds ''-'';
                    digits = (if neg \<or> starts_with ds ''+'' then tl ds else ds) in
                if digits = [] \<or> \<not> list_all is_digit digits then None
                else Some (if neg then q / 10 ^ dec_val digits else q * 10 ^ dec_val digits)))"

definition unsigned_decimal :: "string \<Rightarrow> rat option" where
  "unsigned_decimal s =
     (let i = takeWhile is_digit s; r = dropWhile is_digit s in
      if starts_with r ''.''
      then (let f = takeWhile is_digit (tl r) in
            if i = [] \<and> f = [] then None
            else scale (of_nat (dec_val (i @ f)) / 10 ^ length f) (dropWhile is_digit (tl r)))
      else if i = [] then None else scale (of_nat (dec_val i)) r)"

definition number_of :: "string \<Rightarrow> jnum" where
  "number_of s =
     (let t = trim s; body = (if starts_with t ''-'' \<or> starts_with t ''+'' then tl t else t);
          neg = starts_with t ''-'';
          radix = (if starts_with (to_lower t) ''0x'' then 16 else if starts_with (to_lower t) ''0o'' then 8
            else if starts_with (to_lower t) ''0b'' then 2 else 0) in
      if t = [] then Fin 0
      else if radix \<noteq> 0
      then (if length t = 2 then NotNum
            else case radix_value radix 0 (drop 2 t) of Some n \<Rightarrow> Fin (of_nat n) | None \<Rightarrow> NotNum)
      else if body = ''Infinity'' then (if neg then NegInf else PosInf)
      else case unsigned_decimal body of
             Some q \<Rightarrow> Fin (if neg then - q else q)
           | None \<Rightarrow> NotNum)"

definition is_safe_integer :: "jnum \<Rightarrow> bool" where
  "is_safe_integer n = (case n of Fin q \<Rightarrow> q = of_int \<lfloor>q\<rfloor> \<and> \<bar>q\<bar> \<le> 9007199254740991 | _ \<Rightarrow> False)"

lemma dec_str_digits_all: "list_all is_digit (dec_str n)"
  by (simp add: list_all_iff dec_str_digits)

lemma digit_first:
  "is_digit c \<Longrightarrow> c \<noteq> CHR ''-'' \<and> c \<noteq> CHR ''+'' \<and> c \<noteq> CHR ''I'' \<and> c \<noteq> CHR ''x'' \<and> c \<noteq> CHR ''o'' \<and> c \<noteq> CHR ''b''"
  by (auto simp: is_digit_def)

lemma to_lower_digit: "is_digit c \<Longrightarrow> to_lower_char c = c"
  by (auto simp: is_digit_def to_lower_char_def Let_def)

lemma to_lower_digits: "list_all is_digit s \<Longrightarrow> to_lower s = s"
  by (induction s) (simp_all add: to_lower_def to_lower_digit)

lemma takeWhile_digits: "list_all is_digit s \<Longrightarrow> takeWhile is_digit s = s \<and> dropWhile is_digit s = []"
  by (simp add: list_all_iff takeWhile_eq_all_conv dropWhile_eq_Nil_conv)

lemma unsigned_decimal_digits:
  assumes "list_all is_digit s" "s \<noteq> []"
  shows "unsigned_decimal s = Some (of_nat (dec_val s))"
  using assms(2) takeWhile_digits [OF assms(1)] unfolding unsigned_decimal_def scale_def Let_def
  by (elim conjE) (simp only: starts_with_Nil_Cons if_False list.case)

lemma number_of_digits:
  assumes "list_all is_digit s" "s \<noteq> []"
  shows "number_of s = Fin (of_nat (dec_val s))"
proof -
  have t: "trim s = s"
    using assms by (intro trim_id) (auto simp: list_all_iff dest: digit_not_ws)
  obtain c r where s: "s = c # r" "is_digit c" using assms by (cases s) auto
  have nox: "\<not> starts_with s (CHR ''0'' # x # [])" if "x \<in> set ''xob''" for x
    using s(1) assms(1) that by (cases r) (auto simp: is_digit_def)
  have "\<not> starts_with s ''-''" "\<not> starts_with s ''+''" "s \<noteq> ''Infinity''"
    using s digit_first by auto
  moreover have "to_lower s = s" using assms(1) by (rule to_lower_digits)
  ultimately show ?thesis
    using t assms(2) nox by (simp add: number_of_def unsigned_decimal_digits [OF assms])
qed

lemma number_of_dec_str [simp]: "number_of (dec_str n) = Fin (of_nat n)"
  by (simp add: number_of_digits dec_str_digits_all)

lemma is_safe_integer_nat: "n \<le> 9007199254740991 \<Longrightarrow> is_safe_integer (Fin (of_nat n))"
  using of_nat_mono [of n 9007199254740991, where ?'a = rat] by (simp add: is_safe_integer_def)

end
