(* ===== verification/Framing.thy ===== *)
theory Framing
  imports JsNumber Errors
begin

text \<open>
  The framing of the bridge protocol, \<open>bridge-client/src/framing.ts\<close>: \<open>ContentLengthParser\<close> takes the
  bytes of the socket in chunks and returns the bodies of the messages that are complete,
  \<open>encodeContentLengthFrame\<close> writes one message. A body is kept as its bytes; the \<open>toString("utf8")\<close>
  of the source belongs to whoever reads it. \<open>JSON.stringify\<close> followed by the UTF-8 encoding is the
  argument of the encoder.
\<close>

definition CRLF :: string where "CRLF = [CR, LF]"

definition header_terminator :: string where "header_terminator = [CR, LF, CR, LF]"

text \<open>\<open>header.split("\r\n")\<close>.\<close>

fun split_crlf :: "string \<Rightarrow> string list" where
  "split_crlf [] = [[]]"
| "split_crlf [c] = [[c]]"
| "split_crlf (c # d # s) =
     (if c = CR \<and> d = LF then [] # split_crlf s
      else case split_crlf (d # s) of [] \<Rightarrow> [[c]] | p # ps \<Rightarrow> (c # p) # ps)"

text \<open>\<open>toString("ascii")\<close> drops the high bit of each byte.\<close>

definition ascii_text :: "string \<Rightarrow> string" where
  "ascii_text = map (\<lambda>c. char_of ((of_char c :: nat) mod 128))"

subsection \<open>The parser\<close>

record content_parser =
  cp_buffer :: string
  cp_max :: nat

definition new_parser :: "nat \<Rightarrow> content_parser" where
  "new_parser max_bytes = \<lparr>cp_buffer = [], cp_max = max_bytes\<rparr>"

definition default_max_bytes :: nat where
  "default_max_bytes = 1024 * 1024"

text \<open>The name and the value of a header line; a line without a colon is skipped.\<close>

definition header_field :: "string \<Rightarrow> (string \<times> string) option" where
  "header_field line =
     (case index_of '':'' line of
        None \<Rightarrow> None
      | Some i \<Rightarrow> Some (to_lower (trim (take i line)), trim (drop (i + 1) line)))"

definition valid_length :: "jnum \<Rightarrow> bool" where
  "valid_length n \<longleftrightarrow> is_safe_integer n \<and> \<not> jn_less n (Fin 0)"

definition length_of :: "jnum \<Rightarrow> nat" where
  "length_of n = (case n of Fin q \<Rightarrow> nat \<lfloor>q\<rfloor> | _ \<Rightarrow> 0)"

text \<open>The loop over the header lines: the last \<open>Content-Length\<close> counts, each must be valid.\<close>

fun content_length :: "string list \<Rightarrow> nat option \<Rightarrow> exn + nat option" where
  "content_length [] found = Inr found"
| "content_length (line # lines) found =
     (case header_field line of
        None \<Rightarrow> content_length lines found
      | Some (name, value) \<Rightarrow>
          if name = ''content-length''
          then (if valid_length (number_of value)
                then content_length lines (Some (length_of (number_of value)))
                else Inl (op_error E_INVALID_ARGUMENT ''Invalid Content-Length header.''))
          else content_length lines found)"

definition too_large :: "nat \<Rightarrow> nat \<Rightarrow> exn" where
  "too_large n max_bytes = op_error_with E_INVALID_ARGUMENT ''Bridge message exceeds configured size limit.''
     [(''content_length'', jnat n), (''max_message_bytes'', jnat max_bytes)]"

text \<open>The length of the body that a header announces.\<close>

definition frame_length :: "nat \<Rightarrow> string \<Rightarrow> exn + nat" where
  "frame_length max_bytes header =
     andthen (content_length (split_crlf (ascii_text header)) None) (\<lambda>found.
     (case found of
        None \<Rightarrow> Inl (op_error E_INVALID_ARGUMENT ''Missing Content-Length header.'')
      | Some n \<Rightarrow> if n > max_bytes then Inl (too_large n max_bytes) else Inr n))"

text \<open>One turn of the loop of \<open>push\<close>: the body of the first frame and the bytes after it, if it is complete.\<close>

definition next_frame :: "nat \<Rightarrow> string \<Rightarrow> exn + (string \<times> string) option" where
  "next_frame max_bytes buf =
     (case index_of header_terminator buf of
        None \<Rightarrow> Inr None
      | Some header_end \<Rightarrow>
          andthen (frame_length max_bytes (take header_end buf)) (\<lambda>n.
          let body_start = header_end + 4 in
          if length buf < body_start + n then Inr None
          else Inr (Some (slice body_start (body_start + n) buf, drop (body_start + n) buf))))"

lemma frame_length_le: "frame_length m header = Inr n \<Longrightarrow> n \<le> m"
  unfolding frame_length_def andthen_def by (simp split: sum.splits option.splits if_splits)

lemma next_frame_body:
  assumes "next_frame m buf = Inr (Some (body, rest))"
  obtains h n where "index_of header_terminator buf = Some h" "frame_length m (take h buf) = Inr n"
    "h + 4 + n \<le> length buf" "body = slice (h + 4) (h + 4 + n) buf" "rest = drop (h + 4 + n) buf"
  using assms unfolding next_frame_def andthen_def Let_def
  by (simp split: option.splits sum.splits if_splits)

lemma next_frame_length:
  assumes "next_frame m buf = Inr (Some (body, rest))"
  shows "length body \<le> m \<and> length rest + length body + 4 \<le> length buf"
  using assms by (rule next_frame_body) (simp add: frame_length_le)

text \<open>The loop of \<open>push\<close>; the buffer that is left is the state, also when the loop throws.\<close>

function frames :: "nat \<Rightarrow> string \<Rightarrow> string list \<Rightarrow> (exn + string list) \<times> string" where
  "frames max_bytes buf out =
     (case next_frame max_bytes buf of
        Inl e \<Rightarrow> (Inl e, buf)
      | Inr None \<Rightarrow> (Inr out, buf)
      | Inr (Some (body, rest)) \<Rightarrow> frames max_bytes rest (out @ [body]))"
  by pat_completeness auto

termination
proof (relation "measure (\<lambda>(max_bytes, buf, out). length buf)", goal_cases)
  case 1
  show ?case by simp
next
  case (2 max_bytes buf out v w body rest)
  then show ?case using next_frame_length [of max_bytes buf body rest] by simp
qed

declare frames.simps [simp del]

definition push :: "string \<Rightarrow> content_parser \<Rightarrow> (exn + string list) \<times> content_parser" where
  "push chunk p =
     (case frames (cp_max p) (cp_buffer p @ chunk) [] of (r, buf) \<Rightarrow> (r, p\<lparr>cp_buffer := buf\<rparr>))"

definition buffered_bytes :: "content_parser \<Rightarrow> nat" where
  "buffered_bytes p = length (cp_buffer p)"

subsection \<open>The encoder\<close>

definition frame_header :: "nat \<Rightarrow> string" where
  "frame_header n = ''Content-Length: '' @ dec_str n @ CRLF @ ''Content-Type: application/json'' @ header_terminator"

definition encode_content_length_frame :: "(jval \<Rightarrow> string) \<Rightarrow> jval \<Rightarrow> string" where
  "encode_content_length_frame stringify v =
     (let body = stringify v in frame_header (length body) @ body)"

subsection \<open>More bytes do not change what is complete\<close>

lemma index_of_append: "index_of needle hay = Some i \<Longrightarrow> index_of needle (hay @ more') = Some i"
proof (induction needle hay arbitrary: i rule: index_of.induct)
  case (1 needle)
  then show ?case by (cases more') (auto split: if_splits)
next
  case (2 needle c hay)
  show ?case
  proof (cases "starts_with (c # hay) needle")
    case True
    then have "starts_with (c # hay @ more') needle"
      unfolding starts_with_prefix by (metis append_Cons prefix_prefix)
    with True 2 show ?thesis by auto
  next
    case False
    with 2 obtain j where j: "index_of needle hay = Some j" "i = Suc j" by (auto split: if_splits)
    then have bound: "Suc j + length needle \<le> length (c # hay)" using index_of_SomeD by fastforce
    then have "take (length needle) ((c # hay) @ more') = take (length needle) (c # hay)"
      by (simp only: take_append) simp
    then have "\<not> starts_with (c # hay @ more') needle"
      using False unfolding starts_with_def append_Cons by simp
    with 2 False j show ?thesis by auto
  qed
qed

lemma header_append:
  assumes "index_of header_terminator buf = Some h"
  shows "take h (buf @ more') = take h buf"
  using index_of_SomeD [OF assms] by (simp add: header_terminator_def)

lemma next_frame_error_append:
  assumes "next_frame m buf = Inl e"
  shows "next_frame m (buf @ more') = Inl e"
proof -
  obtain h where h: "index_of header_terminator buf = Some h" "frame_length m (take h buf) = Inl e"
    using assms by (auto simp: next_frame_def andthen_eq_Inl Let_def split: option.splits if_splits)
  then show ?thesis
    by (simp add: next_frame_def index_of_append [OF h(1)] header_append [OF h(1)] del: take_append)
qed

lemma next_frame_body_append:
  assumes "next_frame m buf = Inr (Some (body, rest))"
  shows "next_frame m (buf @ more') = Inr (Some (body, rest @ more'))"
proof -
  obtain h n where h: "index_of header_terminator buf = Some h" and "frame_length m (take h buf) = Inr n"
    "h + 4 + n \<le> length buf" "body = slice (h + 4) (h + 4 + n) buf" "rest = drop (h + 4 + n) buf"
    using assms by (rule next_frame_body)
  then show ?thesis
    by (simp add: next_frame_def index_of_append [OF h] header_append [OF h] slice_def Let_def)
qed

lemma frames_Inl [simp]: "next_frame m buf = Inl e \<Longrightarrow> frames m buf out = (Inl e, buf)"
  by (simp add: frames.simps)

lemma frames_None [simp]: "next_frame m buf = Inr None \<Longrightarrow> frames m buf out = (Inr out, buf)"
  by (simp add: frames.simps)

lemma frames_Some [simp]:
  "next_frame m buf = Inr (Some (body, rest)) \<Longrightarrow> frames m buf out = frames m rest (out @ [body])"
  by (subst frames.simps) simp

lemma frames_step_cases:
  obtains (bad) e where "next_frame m buf = Inl e"
    | (finished) "next_frame m buf = Inr None"
    | (body) b rest where "next_frame m buf = Inr (Some (b, rest))"
  by (metis option.exhaust_sel prod.exhaust_sel sum.exhaust_sel)

lemma frames_append:
  "frames m buf out = (Inr out1, buf1) \<Longrightarrow> frames m (buf @ more') out = frames m (buf1 @ more') out1"
proof (induction m buf out rule: frames.induct)
  case (1 m buf out)
  show ?case
  proof (cases m buf rule: frames_step_cases)
    case (body b rest)
    then show ?thesis using 1 by (simp add: next_frame_body_append [of m buf b rest more'])
  qed (use 1 in auto)
qed

lemma frames_error_append:
  "frames m buf out = (Inl e, buf1) \<Longrightarrow> frames m (buf @ more') out = (Inl e, buf1 @ more')"
proof (induction m buf out rule: frames.induct)
  case (1 m buf out)
  show ?case
  proof (cases m buf rule: frames_step_cases)
    case (bad e')
    then show ?thesis using 1 next_frame_error_append [OF bad] by auto
  next
    case (body b rest)
    then show ?thesis using 1 by (simp add: next_frame_body_append [of m buf b rest more'])
  qed (use 1 in auto)
qed

lemma frames_stops:
  "frames m buf out = (r, buf1) \<Longrightarrow> (case r of Inl e \<Rightarrow> next_frame m buf1 = Inl e | Inr _ \<Rightarrow> next_frame m buf1 = Inr None)"
proof (induction m buf out rule: frames.induct)
  case (1 m buf out)
  then show ?case by (cases m buf rule: frames_step_cases) auto
qed

lemma frames_out:
  "frames m buf out = (Inr out1, buf1) \<Longrightarrow>
     \<exists>new. out1 = out @ new \<and> list_all (\<lambda>b. length b \<le> m) new \<and> length buf1 + sum_list (map length new) \<le> length buf"
proof (induction m buf out rule: frames.induct)
  case (1 m buf out)
  show ?case
  proof (cases m buf rule: frames_step_cases)
    case (body b rest)
    then obtain new where "out1 = (out @ [b]) @ new" "list_all (\<lambda>b. length b \<le> m) new"
      "length buf1 + sum_list (map length new) \<le> length rest"
      using 1(1) [OF body refl refl] 1(2) body by auto
    with next_frame_length [OF body] show ?thesis by (intro exI [of _ "b # new"]) auto
  qed (use 1 in auto)
qed

lemma frames_prefix: "frames m buf (pre @ out) = map_prod (map_sum id ((@) pre)) id (frames m buf out)"
proof (induction m buf out rule: frames.induct)
  case (1 m buf out)
  then show ?case by (cases m buf rule: frames_step_cases) auto
qed

subsection \<open>Chunks\<close>

text \<open>The client pushes the chunks as they arrive and stops at the first error.\<close>

fun push_all :: "string list \<Rightarrow> content_parser \<Rightarrow> (exn + string list) \<times> content_parser" where
  "push_all [] p = (Inr [], p)"
| "push_all (c # cs) p =
     (case push c p of
        (Inl e, p1) \<Rightarrow> (Inl e, p1)
      | (Inr out, p1) \<Rightarrow> (case push_all cs p1 of (r, p2) \<Rightarrow> (map_sum id ((@) out) r, p2)))"

lemma push_split:
  "push (c @ d) p = (case push c p of
     (Inl e, p1) \<Rightarrow> (Inl e, p1\<lparr>cp_buffer := cp_buffer p1 @ d\<rparr>)
   | (Inr out, p1) \<Rightarrow> map_prod (map_sum id ((@) out)) id (push d p1))"
proof (cases "frames (cp_max p) (cp_buffer p @ c) []")
  case (Pair r buf)
  show ?thesis
  proof (cases r)
    case (Inl e)
    with Pair show ?thesis by (simp add: push_def frames_error_append [of _ "cp_buffer p @ c", simplified])
  next
    case (Inr out)
    with Pair have "frames (cp_max p) (cp_buffer p @ c @ d) [] = frames (cp_max p) (buf @ d) (out @ [])"
      by (simp add: frames_append [of _ "cp_buffer p @ c", simplified])
    with Pair Inr show ?thesis unfolding frames_prefix
      by (simp add: push_def split: prod.splits)
  qed
qed

end
