(* ===== verification/BridgeClient.thy ===== *)
theory BridgeClient
  imports Framing
begin

text \<open>
  The JSON-RPC client of the bridge, \<open>bridge-client/src/client.ts\<close>, as a state machine: what the
  process does (\<open>connect\<close>, \<open>request\<close>, \<open>initialize\<close>, \<open>close\<close>) and what happens to it (the socket connects,
  receives bytes, fails, closes; a timer fires). A request is numbered; the number stands for its
  promise and for its timer. The promise is settled at most once, the first call counts.

  \<open>JSON.stringify\<close> with the UTF-8 encoding, \<open>toString("utf8")\<close> with \<open>JSON.parse\<close>, and the random
  identifiers are the arguments \<open>stringify\<close>, \<open>parse\<close> and \<open>uuid\<close>.
\<close>

record active_timer =
  at_request :: nat
  at_id :: string
  at_method :: string
  at_timeout :: jnum

record rpc_client =
  bc_socket :: bool                                 \<comment> \<open>a socket has been created\<close>
  bc_destroyed :: bool                              \<comment> \<open>\<open>socket.destroy()\<close> has been called\<close>
  bc_parser :: content_parser
  bc_pending :: "(string, nat) js_map"
  bc_timers :: "active_timer list"
  bc_connected :: bool
  bc_initialized :: bool
  bc_requests :: nat                                \<comment> \<open>how many requests have been made\<close>
  bc_settled :: "(nat, exn + jval) js_map"          \<comment> \<open>how their promises were settled\<close>
  bc_sent :: "string list"                          \<comment> \<open>what was written to the socket\<close>

definition new_client_state :: rpc_client where
  "new_client_state = \<lparr>bc_socket = False, bc_destroyed = False, bc_parser = new_parser default_max_bytes,
     bc_pending = [], bc_timers = [], bc_connected = False, bc_initialized = False, bc_requests = 0,
     bc_settled = [], bc_sent = []\<rparr>"

subsection \<open>Promises and timers\<close>

definition settle :: "nat \<Rightarrow> exn + jval \<Rightarrow> rpc_client \<Rightarrow> rpc_client" where
  "settle n r c =
     (if map_of (bc_settled c) n = None then c\<lparr>bc_settled := AList.update n r (bc_settled c)\<rparr> else c)"

definition clear_timer :: "nat \<Rightarrow> rpc_client \<Rightarrow> rpc_client" where
  "clear_timer n c = c\<lparr>bc_timers := filter (\<lambda>t. at_request t \<noteq> n) (bc_timers c)\<rparr>"

definition disconnected :: "string \<Rightarrow> exn" where
  "disconnected msg = op_error E_EMACS_DISCONNECTED msg"

text \<open>\<open>rejectAll\<close>.\<close>

definition reject_all :: "exn \<Rightarrow> rpc_client \<Rightarrow> rpc_client" where
  "reject_all e c =
     (fold (\<lambda>(i, n) c. settle n (Inl e) (clear_timer n c)) (bc_pending c) c)\<lparr>bc_pending := []\<rparr>"

subsection \<open>What the process does\<close>

definition client_connect :: "rpc_client \<Rightarrow> rpc_client" where
  "client_connect c = (if bc_connected c then c else c\<lparr>bc_socket := True, bc_destroyed := False\<rparr>)"

definition request_message :: "string \<Rightarrow> string \<Rightarrow> jval \<Rightarrow> jval" where
  "request_message i method params =
     JObj [(''jsonrpc'', JStr ''2.0''), (''id'', JStr i), (''method'', JStr method), (''params'', params)]"

definition default_timeout :: jnum where
  "default_timeout = Fin 10000"

definition client_request ::
  "(jval \<Rightarrow> string) \<Rightarrow> (nat \<Rightarrow> string) \<Rightarrow> string \<Rightarrow> jval \<Rightarrow> jnum option \<Rightarrow> string option \<Rightarrow> rpc_client \<Rightarrow>
   (exn + nat) \<times> rpc_client" where
  "client_request stringify uuid method params timeout request_id c =
     (if \<not> bc_connected c then (Inl (disconnected ''Bridge socket is not connected.''), c)
      else if \<not> bc_initialized c \<and> method \<noteq> ''initialize''
      then (Inl (op_error E_AUTH_FAILED ''Bridge connection must be initialized before other requests.''), c)
      else
      (let n = bc_requests c;
           i = (case request_id of Some i \<Rightarrow> i | None \<Rightarrow> ''rpc_'' @ uuid n);
           ms = (case timeout of Some t \<Rightarrow> t | None \<Rightarrow> default_timeout) in
       (Inr n, c\<lparr>bc_requests := n + 1,
          bc_timers := bc_timers c @ [\<lparr>at_request = n, at_id = i, at_method = method, at_timeout = ms\<rparr>],
          bc_pending := AList.update i n (bc_pending c),
          bc_sent := bc_sent c @ [encode_content_length_frame stringify (request_message i method params)]\<rparr>)))"

text \<open>\<open>initialize\<close>: the request, and what follows when its promise has been resolved.\<close>

definition initialize_params :: "string \<Rightarrow> jval" where
  "initialize_params token = JObj [(''token'', JStr token),
     (''client'', JObj [(''name'', JStr ''emacs-operator-mcp-server''), (''version'', JStr ''0.1.0'')])]"

definition client_initialize ::
  "(jval \<Rightarrow> string) \<Rightarrow> (nat \<Rightarrow> string) \<Rightarrow> string \<Rightarrow> rpc_client \<Rightarrow> (exn + nat) \<times> rpc_client" where
  "client_initialize stringify uuid token c =
     client_request stringify uuid ''initialize'' (initialize_params token) None None c"

definition initialize_resolved :: "nat \<Rightarrow> rpc_client \<Rightarrow> rpc_client" where
  "initialize_resolved n c =
     (case map_of (bc_settled c) n of Some (Inr v) \<Rightarrow> c\<lparr>bc_initialized := True\<rparr> | _ \<Rightarrow> c)"

definition client_close :: "rpc_client \<Rightarrow> rpc_client" where
  "client_close c =
     reject_all (disconnected ''Bridge connection closed.'')
       (c\<lparr>bc_destroyed := bc_destroyed c \<or> bc_socket c, bc_connected := False, bc_initialized := False\<rparr>)"

subsection \<open>What happens to it\<close>

definition on_connect :: "rpc_client \<Rightarrow> rpc_client" where
  "on_connect c = c\<lparr>bc_connected := True\<rparr>"

text \<open>How the error object of an answer becomes an exception.\<close>

definition rpc_exception :: "jval \<Rightarrow> exn" where
  "rpc_exception err =
     (let data = get_prop err ''data''; code = get_prop data ''code''; msg = get_prop err ''message'';
          details = get_prop data ''details'' in
      case code of
        JStr s \<Rightarrow>
          (case code_of_name s of
             Some k \<Rightarrow> OpError (new_operator_error k (js_string (nullish_or msg code))
               (if details = JUndef then None else Some details))
           | None \<Rightarrow> op_error_with E_COMMAND_FAILED
               (js_string (nullish_or msg (JStr ''Bridge JSON-RPC error.'')))
               [(''rpc_code'', nullish_or (get_prop err ''code'') JNull)])
      | _ \<Rightarrow> op_error_with E_COMMAND_FAILED
          (js_string (nullish_or msg (JStr ''Bridge JSON-RPC error.'')))
          [(''rpc_code'', nullish_or (get_prop err ''code'') JNull)])"

definition outcome_of :: "jval \<Rightarrow> exn + jval" where
  "outcome_of message =
     (if is_objlike (get_prop message ''error'') then Inl (rpc_exception (get_prop message ''error''))
      else Inr (get_prop message ''result''))"

text \<open>
  The rest of \<open>onData\<close> and the callback of the timer are the same text in the client of the platform
  driver; what an answer means and the error of a timeout are arguments.

  One message of a chunk; reading \<open>id\<close> of \<open>null\<close> throws.\<close>

definition on_message :: "(jval \<Rightarrow> exn + jval) \<Rightarrow> jval \<Rightarrow> rpc_client \<Rightarrow> rpc_client" where
  "on_message outcome message c =
     (case get_prop message ''id'' of
        JStr i \<Rightarrow>
          (case map_of (bc_pending c) i of
             None \<Rightarrow> c
           | Some n \<Rightarrow> settle n (outcome message) (clear_timer n (c\<lparr>bc_pending := AList.delete i (bc_pending c)\<rparr>)))
      | _ \<Rightarrow> c)"

fun on_messages ::
  "(jval \<Rightarrow> exn + jval) \<Rightarrow> (string \<Rightarrow> exn + jval) \<Rightarrow> string list \<Rightarrow> rpc_client \<Rightarrow> exn option \<times> rpc_client" where
  "on_messages outcome parse [] c = (None, c)"
| "on_messages outcome parse (body # bodies) c =
     (case parse body of
        Inl e \<Rightarrow> (Some e, c)
      | Inr message \<Rightarrow>
          if nullish message
          then (Some (JsError (''Cannot read properties of '' @ js_string message @ '' (reading '' @
            [SQUOTE] @ ''id'' @ [SQUOTE] @ '')'')), c)
          else on_messages outcome parse bodies (on_message outcome message c))"

definition on_data :: "(jval \<Rightarrow> exn + jval) \<Rightarrow> (string \<Rightarrow> exn + jval) \<Rightarrow> string \<Rightarrow> rpc_client \<Rightarrow> rpc_client" where
  "on_data outcome parse chunk c =
     (case push chunk (bc_parser c) of (r, p) \<Rightarrow>
      let c1 = c\<lparr>bc_parser := p\<rparr> in
      (case r of
         Inl e \<Rightarrow> (reject_all e c1)\<lparr>bc_destroyed := bc_destroyed c1 \<or> bc_socket c1\<rparr>
       | Inr bodies \<Rightarrow>
           (case on_messages outcome parse bodies c1 of
              (None, c2) \<Rightarrow> c2
            | (Some e, c2) \<Rightarrow> (reject_all e c2)\<lparr>bc_destroyed := bc_destroyed c2 \<or> bc_socket c2\<rparr>)))"

definition on_close :: "rpc_client \<Rightarrow> rpc_client" where
  "on_close c = reject_all (disconnected ''Emacs bridge disconnected.'')
     (c\<lparr>bc_connected := False, bc_initialized := False\<rparr>)"

definition on_socket_error :: "string \<Rightarrow> rpc_client \<Rightarrow> rpc_client" where
  "on_socket_error msg c = reject_all (disconnected msg) c"

definition timeout_error :: "active_timer \<Rightarrow> exn" where
  "timeout_error t = op_error_with E_COMMAND_TIMEOUT (''Bridge method '' @ at_method t @ '' timed out.'')
     [(''timeout_ms'', JNum (at_timeout t))]"

text \<open>The timer of a request fires, if it is still set.\<close>

definition on_timer :: "(active_timer \<Rightarrow> exn) \<Rightarrow> nat \<Rightarrow> rpc_client \<Rightarrow> rpc_client" where
  "on_timer expired n c =
     (case List.find (\<lambda>t. at_request t = n) (bc_timers c) of
        None \<Rightarrow> c
      | Some t \<Rightarrow> settle n (Inl (expired t))
          (clear_timer n (c\<lparr>bc_pending := AList.delete (at_id t) (bc_pending c)\<rparr>)))"

subsection \<open>Runs\<close>

datatype client_event =
    Connect | Connected | Request string jval "jnum option" "string option" | Initialize string
  | InitializeResolved nat | Close | Data string | Closed | SocketError string | Timer nat

fun client_step ::
  "(jval \<Rightarrow> string) \<Rightarrow> (string \<Rightarrow> exn + jval) \<Rightarrow> (nat \<Rightarrow> string) \<Rightarrow> client_event \<Rightarrow> rpc_client \<Rightarrow> rpc_client" where
  "client_step stringify parse uuid Connect = client_connect"
| "client_step stringify parse uuid Connected = on_connect"
| "client_step stringify parse uuid (Request method params timeout i) =
     (\<lambda>c. snd (client_request stringify uuid method params timeout i c))"
| "client_step stringify parse uuid (Initialize token) = (\<lambda>c. snd (client_initialize stringify uuid token c))"
| "client_step stringify parse uuid (InitializeResolved n) = initialize_resolved n"
| "client_step stringify parse uuid Close = client_close"
| "client_step stringify parse uuid (Data chunk) = on_data outcome_of parse chunk"
| "client_step stringify parse uuid Closed = on_close"
| "client_step stringify parse uuid (SocketError msg) = on_socket_error msg"
| "client_step stringify parse uuid (Timer n) = on_timer timeout_error n"

inductive client_reachable ::
  "(jval \<Rightarrow> string) \<Rightarrow> (string \<Rightarrow> exn + jval) \<Rightarrow> (nat \<Rightarrow> string) \<Rightarrow> rpc_client \<Rightarrow> bool"
  for stringify parse uuid where
  created: "client_reachable stringify parse uuid new_client_state"
| stepped: "client_reachable stringify parse uuid c \<Longrightarrow>
     client_reachable stringify parse uuid (client_step stringify parse uuid e c)"

inductive_cases client_reachableE: "client_reachable stringify parse uuid c"

end
