(* ===== verification/PendingRequests.thy ===== *)
theory PendingRequests
  imports BridgeClient
begin

text \<open>
  The account of the requests of a JSON-RPC client: each is settled or has its timer set, never both, and
  every operation that \<open>BridgeClient\<close> and the client of the platform driver share keeps it. The locale
  \<open>rpc_steps\<close> states what the steps of a client promise and derives what holds after every run.
\<close>

abbreviation settled_of :: "rpc_client \<Rightarrow> nat \<Rightarrow> (exn + jval) option" where
  "settled_of c \<equiv> map_of (bc_settled c)"

definition timed :: "rpc_client \<Rightarrow> nat set" where
  "timed c = at_request ` set (bc_timers c)"

text \<open>Every request is settled or timed, not both; the pending ones are timed.\<close>

definition accounted :: "rpc_client \<Rightarrow> bool" where
  "accounted c \<longleftrightarrow> dom (settled_of c) \<union> timed c = {..<bc_requests c} \<and> dom (settled_of c) \<inter> timed c = {}"

definition pending_ok :: "rpc_client \<Rightarrow> bool" where
  "pending_ok c \<longleftrightarrow> (\<forall>i n. map_of (bc_pending c) i = Some n \<longrightarrow>
     (\<exists>t \<in> set (bc_timers c). at_request t = n \<and> at_id t = i))"

definition client_ok :: "rpc_client \<Rightarrow> bool" where
  "client_ok c \<longleftrightarrow> accounted c \<and> distinct (map at_request (bc_timers c)) \<and>
     js_map_ok (bc_pending c) \<and> pending_ok c"

lemma accounted_frame [simp]:
  "accounted (c\<lparr>bc_pending := p\<rparr>) = accounted c" "accounted (c\<lparr>bc_parser := q\<rparr>) = accounted c"
  "accounted (c\<lparr>bc_destroyed := b\<rparr>) = accounted c"
  by (simp_all add: accounted_def timed_def)

subsection \<open>Finishing a request\<close>

abbreviation finish :: "nat \<Rightarrow> exn + jval \<Rightarrow> rpc_client \<Rightarrow> rpc_client" where
  "finish n r c \<equiv> settle n r (clear_timer n c)"

lemma finish_frame [simp]:
  "bc_requests (finish n r c) = bc_requests c" "bc_pending (finish n r c) = bc_pending c"
  "bc_timers (finish n r c) = filter (\<lambda>t. at_request t \<noteq> n) (bc_timers c)"
  "bc_parser (finish n r c) = bc_parser c"
  by (simp_all add: settle_def clear_timer_def)

lemma finish_settled:
  "settled_of (finish n r c) = (if settled_of c n = None then (settled_of c)(n \<mapsto> r) else settled_of c)"
  by (simp add: settle_def clear_timer_def)

lemma finish_timed: "timed (finish n r c) = timed c - {n}"
  by (auto simp: timed_def)

lemma finish_accounted: "accounted c \<Longrightarrow> n < bc_requests c \<Longrightarrow> accounted (finish n r c)"
  unfolding accounted_def finish_timed finish_settled by (auto simp: dom_def split: if_splits)

lemma finish_all:
  fixes ps :: "(string \<times> nat) list" and r :: "exn + jval"
  defines "g \<equiv> fold (\<lambda>(i, n) c. finish n r c) ps"
  shows "bc_requests (g c) = bc_requests c \<and> bc_pending (g c) = bc_pending c \<and>
    bc_timers (g c) = filter (\<lambda>t. at_request t \<notin> snd ` set ps) (bc_timers c) \<and>
    (accounted c \<longrightarrow> (\<forall>n \<in> snd ` set ps. n < bc_requests c) \<longrightarrow> accounted (g c)) \<and>
    (\<forall>n. settled_of (g c) n = (if settled_of c n = None \<and> n \<in> snd ` set ps then Some r else settled_of c n))"
  unfolding g_def
proof (induction ps arbitrary: c)
  case Nil
  then show ?case by simp
next
  case (Cons p ps)
  obtain i m where p: "p = (i, m)" by fastforce
  show ?case
    using Cons.IH [of "finish m r c"] finish_accounted [of c m r] p
    by (auto simp: finish_settled conj_commute)
qed

lemma pending_request:
  assumes "client_ok c" "map_of (bc_pending c) i = Some n"
  shows "n \<in> timed c" "n < bc_requests c" "settled_of c n = None"
proof -
  obtain t where "t \<in> set (bc_timers c)" "at_request t = n"
    using assms unfolding client_ok_def pending_ok_def by blast
  then show n: "n \<in> timed c" unfolding timed_def by blast
  with assms(1) show "n < bc_requests c" "settled_of c n = None"
    unfolding client_ok_def accounted_def by (blast, auto)
qed

lemma pending_unique:
  assumes "client_ok c" "map_of (bc_pending c) i = Some n" "map_of (bc_pending c) j = Some n"
  shows "i = j"
  using assms unfolding client_ok_def pending_ok_def by (metis distinct_map inj_on_def)

lemma pending_values: "js_map_ok m \<Longrightarrow> n \<in> snd ` set m \<longleftrightarrow> (\<exists>i. map_of m i = Some n)"
  by (force simp: js_map_ok_def)

subsection \<open>The steps keep the account\<close>

lemma reject_all_frame [simp]:
  "bc_requests (reject_all e c) = bc_requests c" "bc_pending (reject_all e c) = []"
  using finish_all [where ps = "bc_pending c" and c = c and r = "Inl e"] by (simp_all add: reject_all_def)

lemma reject_all_settled:
  assumes "client_ok c"
  shows "settled_of (reject_all e c) n =
    (if \<exists>i. map_of (bc_pending c) i = Some n then Some (Inl e) else settled_of c n)"
  using finish_all [where ps = "bc_pending c" and c = c and r = "Inl e"] assms pending_request(3) [OF assms]
  by (auto simp: reject_all_def client_ok_def pending_values)

lemma reject_all_ok:
  assumes "client_ok c"
  shows "client_ok (reject_all e c)"
proof -
  have "\<forall>n \<in> snd ` set (bc_pending c). n < bc_requests c"
    using assms pending_request(2) [OF assms] unfolding client_ok_def by (auto dest: js_map_ok_map_of)
  then show ?thesis
    using finish_all [where ps = "bc_pending c" and c = c and r = "Inl e"] assms
    by (simp add: reject_all_def client_ok_def pending_ok_def distinct_map_filter)
qed

lemma answer_ok:
  assumes ok: "client_ok c" and n: "\<exists>t \<in> set (bc_timers c). at_request t = n \<and> at_id t = i"
  shows "client_ok (finish n r (c\<lparr>bc_pending := AList.delete i (bc_pending c)\<rparr>))"
proof -
  have "accounted (c\<lparr>bc_pending := AList.delete i (bc_pending c)\<rparr>)" "n < bc_requests c"
    using ok n by (auto simp: client_ok_def accounted_def timed_def)
  then have "accounted (finish n r (c\<lparr>bc_pending := AList.delete i (bc_pending c)\<rparr>))"
    by (intro finish_accounted) simp_all
  moreover have "at_request t \<noteq> n" if "t \<in> set (bc_timers c)" "at_id t \<noteq> i" for t
    using ok n that unfolding client_ok_def by (metis distinct_map inj_on_def)
  then have "pending_ok (finish n r (c\<lparr>bc_pending := AList.delete i (bc_pending c)\<rparr>))"
    using ok unfolding client_ok_def pending_ok_def by (fastforce split: if_splits)
  ultimately show ?thesis
    using ok by (simp add: client_ok_def distinct_map_filter)
qed

lemma client_ok_frame [simp]:
  "client_ok (c\<lparr>bc_parser := q\<rparr>) = client_ok c" "client_ok (c\<lparr>bc_destroyed := b\<rparr>) = client_ok c"
  "client_ok (c\<lparr>bc_connected := b\<rparr>) = client_ok c" "client_ok (c\<lparr>bc_initialized := b\<rparr>) = client_ok c"
  "client_ok (c\<lparr>bc_socket := b\<rparr>) = client_ok c"
  by (simp_all add: client_ok_def accounted_def timed_def pending_ok_def)

lemma on_message_cases:
  obtains (skipped) "on_message outcome m c = c"
  | (answered) i n where "get_prop m ''id'' = JStr i" "map_of (bc_pending c) i = Some n"
      "on_message outcome m c = finish n (outcome m) (c\<lparr>bc_pending := AList.delete i (bc_pending c)\<rparr>)"
  by (cases "get_prop m ''id''"; cases "map_of (bc_pending c) (the (string_of (get_prop m ''id'')))")
    (auto simp: on_message_def)

lemma on_message_ok:
  assumes "client_ok c"
  shows "client_ok (on_message outcome m c)"
proof (cases rule: on_message_cases [of outcome m c])
  case (answered i n)
  have "\<exists>t \<in> set (bc_timers c). at_request t = n \<and> at_id t = i"
    using assms answered(2) by (simp add: client_ok_def pending_ok_def)
  with assms answered(3) show ?thesis by (simp only: answer_ok)
qed (use assms in simp)

lemma on_messages_ok: "on_messages outcome parse bodies c = (r, c') \<Longrightarrow> client_ok c \<Longrightarrow> client_ok c'"
  by (induction outcome parse bodies c rule: on_messages.induct) (auto simp: on_message_ok split: sum.splits if_splits)

lemma on_data_ok: "client_ok c \<Longrightarrow> client_ok (on_data outcome parse chunk c)"
  by (auto simp: on_data_def Let_def reject_all_ok dest!: on_messages_ok split: prod.split sum.split option.split)

lemma on_timer_ok:
  assumes "client_ok c"
  shows "client_ok (on_timer expired n c)"
  using assms unfolding on_timer_def
  by (auto intro!: answer_ok split: option.split simp: find_Some_iff)

subsection \<open>Settled promises\<close>

lemma finish_stable: "settled_of c n = Some r \<Longrightarrow> settled_of (finish m r' c) n = Some r"
  by (auto simp: finish_settled)

lemma reject_all_stable: "client_ok c \<Longrightarrow> settled_of c n = Some r \<Longrightarrow> settled_of (reject_all e c) n = Some r"
  using pending_request(3) by (fastforce simp: reject_all_settled)

lemma on_message_stable: "settled_of c n = Some r \<Longrightarrow> settled_of (on_message outcome m c) n = Some r"
  by (cases rule: on_message_cases [of outcome m c]) (auto simp: finish_settled)

lemma on_messages_stable:
  "on_messages outcome parse bodies c = (x, c') \<Longrightarrow> settled_of c n = Some r \<Longrightarrow> settled_of c' n = Some r"
  by (induction outcome parse bodies c rule: on_messages.induct) (auto simp: on_message_stable split: sum.splits if_splits)

lemma on_data_stable: "client_ok c \<Longrightarrow> settled_of c n = Some r \<Longrightarrow> settled_of (on_data outcome parse chunk c) n = Some r"
  by (auto simp: on_data_def Let_def intro!: reject_all_stable dest: on_messages_ok on_messages_stable
      split: prod.split sum.split option.split)

lemma on_timer_stable: "settled_of c n = Some r \<Longrightarrow> settled_of (on_timer expired m c) n = Some r"
  by (auto simp: on_timer_def finish_settled split: option.split)

text \<open>The timer of a request settles it, if nothing else did.\<close>

lemma on_timer_settles:
  assumes "client_ok c" "n < bc_requests c"
  shows "\<exists>r. settled_of (on_timer expired n c) n = Some r \<and> (settled_of c n = None \<longrightarrow> (\<exists>t. r = Inl (expired t)))"
proof (cases "settled_of c n")
  case (Some r)
  then show ?thesis using on_timer_stable [OF Some, of expired n] by simp
next
  case None
  then have "n \<in> timed c" using assms unfolding client_ok_def accounted_def by blast
  then obtain t where "List.find (\<lambda>t. at_request t = n) (bc_timers c) = Some t"
    unfolding timed_def by (cases "List.find (\<lambda>t. at_request t = n) (bc_timers c)") (auto simp: find_None_iff)
  then show ?thesis using None by (auto simp: on_timer_def finish_settled)
qed

lemma on_timer_requests [simp]: "bc_requests (on_timer expired n c) = bc_requests c"
  by (simp add: on_timer_def split: option.split)

lemma on_timer_other: "m \<noteq> n \<Longrightarrow> settled_of (on_timer expired m c) n = settled_of c n"
  by (simp add: on_timer_def finish_settled split: option.split)

lemma all_timers:
  assumes "client_ok c" "set ns \<subseteq> {..<bc_requests c}" "n \<in> set ns"
  shows "\<exists>r. settled_of (fold (on_timer expired) ns c) n = Some r \<and> (settled_of c n = None \<longrightarrow> (\<exists>t. r = Inl (expired t)))"
  using assms
proof (induction ns arbitrary: c)
  case (Cons m ns)
  have stays: "settled_of c n = Some r \<Longrightarrow> settled_of (fold (on_timer expired) ns c) n = Some r" for c :: rpc_client and r
    by (induction ns arbitrary: c) (simp_all add: on_timer_stable)
  show ?case
  proof (cases "n = m")
    case True
    then show ?thesis using on_timer_settles [of c n expired] Cons.prems stays by auto
  next
    case False
    then show ?thesis
      using Cons.IH [of "on_timer expired m c"] Cons.prems on_timer_ok [of c expired m] on_timer_other [of m n expired c] by auto
  qed
qed simp

subsection \<open>Answers\<close>

lemma answered_by:
  assumes "on_messages outcome parse bodies c = (x, c')" "client_ok c" "settled_of c n = None" "settled_of c' n = Some (Inr v)"
  shows "\<exists>body message i. body \<in> set bodies \<and> parse body = Inr message \<and> get_prop message ''id'' = JStr i \<and>
    outcome message = Inr v \<and> (\<exists>t \<in> set (bc_timers c). at_request t = n \<and> at_id t = i)"
  using assms
proof (induction outcome parse bodies c rule: on_messages.induct)
  case (2 outcome parse body bodies c)
  then obtain message where m: "parse body = Inr message" "\<not> nullish message"
    and run: "on_messages outcome parse bodies (on_message outcome message c) = (x, c')"
    by (auto split: sum.splits if_splits)
  have ok: "client_ok (on_message outcome message c)" using 2 by (simp add: on_message_ok)
  have fewer: "set (bc_timers (on_message outcome message c)) \<subseteq> set (bc_timers c)"
    by (cases rule: on_message_cases [of outcome message c]) auto
  show ?case
  proof (cases "settled_of (on_message outcome message c) n")
    case None
    then show ?thesis using "2.IH" [OF m run ok None] "2.prems"(4) fewer by (meson list.set_intros(2) subsetD)
  next
    case (Some r)
    then have r: "r = Inr v" using on_messages_stable [OF run] "2.prems"(4) by simp
    show ?thesis
    proof (cases rule: on_message_cases [of outcome message c])
      case skipped
      then show ?thesis using Some "2.prems"(3) by simp
    next
      case (answered i k)
      then have "k = n" "outcome message = Inr v"
        using Some r "2.prems"(3) by (auto simp: finish_settled split: if_splits)
      moreover from this answered "2.prems"(2) have "\<exists>t \<in> set (bc_timers c). at_request t = n \<and> at_id t = i"
        by (simp add: client_ok_def pending_ok_def)
      ultimately show ?thesis
        using m answered(1) by (intro exI [of _ body] exI [of _ message] exI [of _ i]) auto
    qed
  qed
qed simp


text \<open>What it means that the step from \<open>c\<close> with the bytes \<open>chunk\<close> answered request \<open>n\<close> with the result \<open>v\<close>.\<close>

definition answers :: "(jval \<Rightarrow> exn + jval) \<Rightarrow> (string \<Rightarrow> exn + jval) \<Rightarrow> string \<Rightarrow> rpc_client \<Rightarrow> nat \<Rightarrow> jval \<Rightarrow> bool" where
  "answers outcome parse chunk c n v \<longleftrightarrow>
     (\<exists>bodies p body message i. push chunk (bc_parser c) = (Inr bodies, p) \<and> body \<in> set bodies \<and>
       parse body = Inr message \<and> get_prop message ''id'' = JStr i \<and> outcome message = Inr v \<and>
       (\<exists>t \<in> set (bc_timers c). at_request t = n \<and> at_id t = i))"

lemma reject_all_no_result:
  "client_ok c \<Longrightarrow> settled_of c n \<noteq> Some (Inr v) \<Longrightarrow> settled_of (reject_all x c) n \<noteq> Some (Inr v)"
  by (simp add: reject_all_settled)

lemma on_timer_no_result:
  "settled_of c n = None \<Longrightarrow> settled_of (on_timer expired m c) n \<noteq> Some (Inr v)"
  by (auto simp: on_timer_def finish_settled split: option.splits if_splits)

lemma on_data_answers:
  assumes ok: "client_ok c" and before': "settled_of c n = None"
    and after: "settled_of (on_data outcome parse chunk c) n = Some (Inr v)"
  shows "answers outcome parse chunk c n v"
proof -
  obtain r p where p: "push chunk (bc_parser c) = (r, p)" by fastforce
  let ?c = "c\<lparr>bc_parser := p\<rparr>"
  have ok': "client_ok ?c" and none: "settled_of ?c n = None" using ok before' by simp_all
  show ?thesis
  proof (cases r)
    case (Inl x)
    then show ?thesis using reject_all_no_result [OF ok', of n v x] none after p by (simp add: on_data_def Let_def)
  next
    case (Inr bodies)
    obtain x c2 where run: "on_messages outcome parse bodies ?c = (x, c2)" by fastforce
    have "settled_of c2 n = Some (Inr v)"
      using after p Inr run reject_all_no_result [OF on_messages_ok [OF run ok']]
      by (cases x) (auto simp: on_data_def Let_def)
    from answered_by [OF run ok' none this] show ?thesis using p Inr by (auto simp: answers_def)
  qed
qed

subsection \<open>Runs of a client\<close>

lemma new_client_ok: "client_ok new_client_state"
  by (simp add: client_ok_def accounted_def timed_def pending_ok_def new_client_state_def)

locale rpc_steps =
  fixes step :: "'e \<Rightarrow> rpc_client \<Rightarrow> rpc_client"
    and received :: "'e \<Rightarrow> string option"
    and outcome :: "jval \<Rightarrow> exn + jval"
    and parse :: "string \<Rightarrow> exn + jval"
  assumes step_ok: "client_ok c \<Longrightarrow> client_ok (step e c)"
    and step_stable: "client_ok c \<Longrightarrow> settled_of c n = Some r \<Longrightarrow> settled_of (step e c) n = Some r"
    and step_data: "received e = Some chunk \<Longrightarrow> step e c = on_data outcome parse chunk c"
    and step_silent: "client_ok c \<Longrightarrow> received e = None \<Longrightarrow> settled_of c n = None \<Longrightarrow>
      settled_of (step e c) n \<noteq> Some (Inr v)"
begin

lemma run_ok: "client_ok c \<Longrightarrow> client_ok (fold step es c)"
  by (induction es arbitrary: c) (simp_all add: step_ok)

lemma run_stable: "client_ok c \<Longrightarrow> settled_of c n = Some r \<Longrightarrow> settled_of (fold step es c) n = Some r"
  by (induction es arbitrary: c) (simp_all add: step_ok step_stable)

lemma step_answered:
  assumes "client_ok c" "settled_of c n = None" "settled_of (step e c) n = Some (Inr v)"
  shows "\<exists>chunk. received e = Some chunk \<and> answers outcome parse chunk c n v"
proof (cases "received e")
  case None
  then show ?thesis using step_silent [OF assms(1) None assms(2)] assms(3) by blast
next
  case (Some chunk)
  then show ?thesis using assms step_data [OF Some] on_data_answers by simp
qed

lemma run_answered:
  assumes "client_ok c" "settled_of c n = None" "settled_of (fold step es c) n = Some (Inr v)"
  shows "\<exists>es1 e es2 chunk. es = es1 @ e # es2 \<and> received e = Some chunk \<and>
    answers outcome parse chunk (fold step es1 c) n v"
  using assms
proof (induction es arbitrary: c)
  case (Cons e es)
  show ?case
  proof (cases "settled_of (step e c) n")
    case None
    then obtain es1 e' es2 chunk where "es = es1 @ e' # es2" "received e' = Some chunk"
      "answers outcome parse chunk (fold step es1 (step e c)) n v"
      using Cons.IH [OF step_ok [OF Cons.prems(1)] None] Cons.prems(3) by auto
    then show ?thesis by (intro exI [of _ "e # es1"]) auto
  next
    case (Some r)
    then have "r = Inr v"
      using run_stable [OF step_ok [OF Cons.prems(1)] Some, of es] Cons.prems(3) by simp
    with step_answered [OF Cons.prems(1,2)] Some show ?thesis by (intro exI [of _ "[]"]) auto
  qed
qed simp

text \<open>Every request that was made is settled at the end, once its timer has fired.\<close>

lemma run_settles:
  assumes "n < bc_requests (fold step es new_client_state)"
  shows "\<exists>r. settled_of (fold (on_timer expired) [0..<bc_requests (fold step es new_client_state)]
    (fold step es new_client_state)) n = Some r"
  using all_timers [OF run_ok [OF new_client_ok, of es], of "[0..<bc_requests (fold step es new_client_state)]" n expired]
    assms by (auto simp: lessThan_atLeast0)

end

end
