(* ===== verification/FramingProps.thy ===== *)
theory FramingProps
  imports Framing
begin

text \<open>
  The properties of the framing: chunks do not matter, what is encoded is parsed again, the bodies are
  bounded, an error is final.
\<close>

definition stable :: "content_parser \<Rightarrow> bool" where
  "stable p \<longleftrightarrow> next_frame (cp_max p) (cp_buffer p) = Inr None"

lemma new_parser_stable: "stable (new_parser m)"
  by (simp add: stable_def new_parser_def next_frame_def header_terminator_def)

lemma push_stable: "push c p = (Inr out, p') \<Longrightarrow> stable p'"
  by (auto simp: push_def stable_def dest!: frames_stops split: prod.splits)

lemma push_max: "push c p = (r, p') \<Longrightarrow> cp_max p' = cp_max p"
  by (auto simp: push_def split: prod.splits)

lemma push_all_concat:
  assumes "stable p"
  shows "case push_all cs p of
      (Inl e, p') \<Rightarrow> fst (push (concat cs) p) = Inl e
    | (Inr out, p') \<Rightarrow> push (concat cs) p = (Inr out, p')"
  using assms
proof (induction cs arbitrary: p)
  case Nil
  then show ?case by (simp add: stable_def push_def)
next
  case (Cons c cs)
  obtain r p1 where c: "push c p = (r, p1)" by fastforce
  show ?case
  proof (cases r)
    case (Inl e)
    with c show ?thesis by (simp add: push_split)
  next
    case (Inr out)
    with c have "stable p1" using push_stable by simp
    then show ?thesis
      using Cons.IH [of p1] c Inr
      by (auto simp: push_split split: prod.splits sum.splits)
  qed
qed

text \<open>
  How the bytes of the socket are cut into chunks makes no difference: feeding the chunks one by one to a
  new \<open>ContentLengthParser\<close> gives the messages, the remaining buffer and the error that one \<open>push\<close> of
  all the bytes gives.
\<close>

theorem chunks_do_not_matter:
  "case push_all chunks (new_parser max_bytes) of
      (Inl e, p) \<Rightarrow> fst (push (concat chunks) (new_parser max_bytes)) = Inl e
    | (Inr out, p) \<Rightarrow> push (concat chunks) (new_parser max_bytes) = (Inr out, p)"
  by (rule push_all_concat) (rule new_parser_stable)

subsection \<open>Encoded frames\<close>

lemma index_of_skip:
  "c \<notin> set p \<Longrightarrow> index_of (c # needle) (p @ s) = map_option ((+) (length p)) (index_of (c # needle) s)"
  by (cases "index_of (c # needle) s"; induction p) auto

lemma CR_notin_dec_str [simp]: "CR \<notin> set (dec_str n)"
  using dec_str_digits [of CR n] by (auto simp: is_digit_def)

lemma header_end: "index_of header_terminator (frame_header n @ body) = Some (length (frame_header n) - 4)"
proof -
  have "index_of header_terminator (frame_header n @ body) =
      index_of header_terminator ((''Content-Length: '' @ dec_str n) @
        CRLF @ ''Content-Type: application/json'' @ header_terminator @ body)"
    by (simp add: frame_header_def)
  also have "\<dots> = map_option ((+) (length (''Content-Length: '' @ dec_str n)))
      (index_of header_terminator (CRLF @ ''Content-Type: application/json'' @ header_terminator @ body))"
    unfolding header_terminator_def by (rule index_of_skip) simp
  also have "index_of header_terminator (CRLF @ ''Content-Type: application/json'' @ header_terminator @ body) = Some 32"
    by (simp add: header_terminator_def CRLF_def)
  finally show ?thesis by (simp add: frame_header_def CRLF_def header_terminator_def)
qed

lemma split_crlf_line: "CR \<notin> set p \<Longrightarrow> split_crlf (p @ CR # LF # s) = p # split_crlf s"
proof (induction p)
  case (Cons c p)
  then show ?case by (cases p) auto
qed simp

lemma split_crlf_id: "CR \<notin> set p \<Longrightarrow> split_crlf p = [p]"
  by (induction p rule: split_crlf.induct) auto

lemma ascii_text_id: "list_all (\<lambda>c. (of_char c :: nat) < 128) s \<Longrightarrow> ascii_text s = s"
  by (induction s) (simp_all add: ascii_text_def)

lemma header_lines:
  "split_crlf (ascii_text (take (length (frame_header n) - 4) (frame_header n))) =
     [''Content-Length: '' @ dec_str n, ''Content-Type: application/json'']"
proof -
  let ?h = "''Content-Length: '' @ dec_str n @ CRLF @ ''Content-Type: application/json''"
  have "take (length (frame_header n) - 4) (frame_header n) = ?h"
    by (simp add: frame_header_def header_terminator_def)
  moreover have "list_all (\<lambda>c. (of_char c :: nat) < 128) (dec_str n)"
    using dec_str_digits [of _ n] by (fastforce simp: list_all_iff is_digit_def)
  then have "ascii_text ?h = ?h" by (intro ascii_text_id) (simp add: CRLF_def)
  moreover have "split_crlf ((''Content-Length: '' @ dec_str n) @ CR # LF # ''Content-Type: application/json'') =
      (''Content-Length: '' @ dec_str n) # split_crlf ''Content-Type: application/json''"
    by (rule split_crlf_line) simp
  ultimately show ?thesis by (simp add: CRLF_def)
qed

lemma lower_chars: "char_of (99 :: nat) = CHR ''c''" "char_of (108 :: nat) = CHR ''l''" "char_of (116 :: nat) = CHR ''t''"
  by code_simp+

lemma length_field: "header_field (''Content-Length: '' @ dec_str n) = Some (''content-length'', dec_str n)"
proof -
  have "trim (CHR '' '' # dec_str n) = dec_str n"
    using trim_dec_str [of n] by (simp add: trim_def is_ws_def)
  then show ?thesis
    by (simp add: header_field_def trim_def to_lower_def to_lower_char_def is_ws_def lower_chars)
qed

lemma type_field: "header_field ''Content-Type: application/json'' = Some (''content-type'', ''application/json'')"
  by (simp add: header_field_def trim_def to_lower_def to_lower_char_def is_ws_def lower_chars)

lemma frame_next:
  assumes "length body \<le> m" "m \<le> 9007199254740991"
  shows "next_frame m (frame_header (length body) @ body @ rest) = Inr (Some (body, rest))"
proof -
  have "valid_length (Fin (of_nat (length body)))"
    using assms by (simp add: valid_length_def is_safe_integer_nat)
  then have "frame_length m (take (length (frame_header (length body)) - 4) (frame_header (length body) @ body @ rest)) =
      Inr (length body)"
    using assms by (simp add: frame_length_def header_lines length_field [simplified] type_field length_of_def)
  moreover have "4 \<le> length (frame_header (length body))" by (simp add: frame_header_def header_terminator_def)
  ultimately show ?thesis
    by (simp add: next_frame_def header_end slice_def)
qed

lemma frames_encoded:
  assumes "m \<le> 9007199254740991" "list_all (\<lambda>b. length b \<le> m) bodies"
  shows "frames m (concat (map (\<lambda>b. frame_header (length b) @ b) bodies)) out = (Inr (out @ bodies), [])"
  using assms(2)
proof (induction bodies arbitrary: out)
  case Nil
  then show ?case by (simp add: next_frame_def header_terminator_def)
next
  case (Cons b bodies)
  then show ?case using frame_next [of b m] assms(1) by (simp add: frame_next)
qed

text \<open>
  C30: Round trip of the framing. The bytes of any messages, encoded by \<open>encodeContentLengthFrame\<close> and received in
  any chunks, come out of a new parser as exactly their bodies, in order, and nothing is left in its
  buffer, provided every body is within the size limit and the limit is a safe integer.
\<close>

theorem frames_round_trip:
  assumes "concat chunks = concat (map (encode_content_length_frame stringify) vs)"
    and "list_all (\<lambda>v. length (stringify v) \<le> m) vs" and "m \<le> 9007199254740991"
  shows "push_all chunks (new_parser m) = (Inr (map stringify vs), new_parser m)"
proof -
  have "list_all (\<lambda>b. length b \<le> m) (map stringify vs)" using assms(2) by (simp add: list_all_iff)
  from frames_encoded [OF assms(3) this, of "[]"]
  have "push (concat chunks) (new_parser m) = (Inr (map stringify vs), new_parser m)"
    by (simp add: push_def new_parser_def assms(1) comp_def encode_content_length_frame_def [abs_def] Let_def)
  then show ?thesis
    using push_all_concat [OF new_parser_stable [of m], of chunks] by (auto split: prod.splits sum.splits)
qed

theorem frames_round_trip_witness:
  "push_all [''Content-Len'', ''gth: 2'' @ CRLF @ ''Content-Type: application/json'' @ CRLF, CRLF @ ''{'', ''}'' ] (new_parser 10) =
     (Inr [''{}''], new_parser 10)"
proof -
  have "push_all [''Content-Len'', ''gth: 2'' @ CRLF @ ''Content-Type: application/json'' @ CRLF, CRLF @ ''{'', ''}'' ] (new_parser 10) =
     (Inr (map (\<lambda>_. ''{}'') [JObj []]), new_parser 10)"
    by (rule frames_round_trip) (code_simp, simp_all)
  then show ?thesis by simp
qed

subsection \<open>Bounds and errors\<close>

lemma push_bounds:
  assumes "push c p = (Inr out, p')"
  shows "list_all (\<lambda>b. length b \<le> cp_max p) out \<and>
    buffered_bytes p' + sum_list (map length out) \<le> buffered_bytes p + length c"
proof -
  obtain buf where run: "frames (cp_max p) (cp_buffer p @ c) [] = (Inr out, buf)" and "p' = p\<lparr>cp_buffer := buf\<rparr>"
    using assms by (auto simp: push_def split: prod.splits)
  with frames_out [OF run] show ?thesis by (simp add: buffered_bytes_def)
qed

text \<open>
  No message longer than \<open>maxMessageBytes\<close> leaves the parser, and a parser never holds or returns more
  bytes than it was given.
\<close>

theorem messages_bounded:
  assumes "push chunk p = (Inr out, p')"
  shows "list_all (\<lambda>b. length b \<le> cp_max p) out \<and>
    buffered_bytes p' + sum_list (map length out) \<le> buffered_bytes p + length chunk"
  using assms by (rule push_bounds)

theorem messages_bounded_witness:
  "list_all (\<lambda>b. length b \<le> cp_max (new_parser 5)) [''ab''] \<and>
    buffered_bytes (new_parser 5\<lparr>cp_buffer := ''c''\<rparr>) + sum_list (map length [''ab'']) \<le>
      buffered_bytes (new_parser 5) + length (frame_header 2 @ ''abc'')"
proof (rule messages_bounded)
  have "next_frame 5 ''c'' = Inr None" by (simp add: next_frame_def header_terminator_def)
  then show "push (frame_header 2 @ ''abc'') (new_parser 5) = (Inr [''ab''], new_parser 5\<lparr>cp_buffer := ''c''\<rparr>)"
    using frame_next [of "''ab''" 5 "''c''"] by (simp add: push_def new_parser_def numeral_2_eq_2)
qed

text \<open>
  An error is final: after a \<open>push\<close> has thrown, every later \<open>push\<close> of that parser throws the same error,
  whatever bytes arrive, because the bad header stays at the front of the buffer.
\<close>

theorem error_is_final:
  assumes "push chunk p = (Inl e, p')"
  shows "fst (push more_bytes p') = Inl e"
proof -
  have "next_frame (cp_max p') (cp_buffer p') = Inl e"
    using assms by (auto simp: push_def dest!: frames_stops split: prod.splits)
  then show ?thesis by (simp add: push_def next_frame_error_append)
qed

theorem error_is_final_witness:
  "fst (push ''x'' (new_parser 5\<lparr>cp_buffer := ''a: b'' @ header_terminator\<rparr>)) =
     Inl (op_error E_INVALID_ARGUMENT ''Missing Content-Length header.'')"
  by (rule error_is_final [of "''a: b'' @ header_terminator" "new_parser 5"]) code_simp

end
