(* ===== verification/BridgeClientProps.thy ===== *)
theory BridgeClientProps
  imports PendingRequests FramingProps
begin

text \<open>
  The life of a request of the bridge client: in every reachable state its promise is settled or its
  timer is set, never both; a settled promise never changes; a result comes from a message that
  carries the identifier of the request.
\<close>

lemma request_ok:
  assumes "client_ok c"
  shows "client_ok (snd (client_request stringify uuid method params timeout i c))"
proof -
  have "bc_requests c \<notin> timed c" "settled_of c (bc_requests c) = None"
    using assms unfolding client_ok_def accounted_def by auto
  then show ?thesis
    using assms
    by (auto simp: client_request_def Let_def client_ok_def accounted_def pending_ok_def timed_def lessThan_Suc)
qed

lemma step_ok: "client_ok c \<Longrightarrow> client_ok (client_step stringify parse uuid e c)"
  by (cases e)
    (simp_all add: client_connect_def on_connect_def request_ok client_initialize_def initialize_resolved_def
      client_close_def on_data_ok on_close_def on_socket_error_def reject_all_ok on_timer_ok
      split: option.split sum.split)

lemma reachable_ok: "client_reachable stringify parse uuid c \<Longrightarrow> client_ok c"
proof (induction rule: client_reachable.induct)
  case created
  show ?case by (rule new_client_ok)
next
  case (stepped c e)
  then show ?case by (simp add: step_ok)
qed

lemma request_settled [simp]:
  "bc_settled (snd (client_request stringify uuid method params timeout i c)) = bc_settled c"
  "bc_settled (initialize_resolved n c) = bc_settled c"
  by (simp_all add: client_request_def Let_def initialize_resolved_def split: option.split sum.split)

lemma step_stable:
  assumes "client_ok c" "settled_of c n = Some r"
  shows "settled_of (client_step stringify parse uuid e c) n = Some r"
proof (cases e)
  case Close
  have "settled_of (reject_all x (c\<lparr>bc_destroyed := a, bc_connected := b, bc_initialized := b'\<rparr>)) n = Some r" for x a b b'
    using assms by (intro reject_all_stable) simp_all
  with Close show ?thesis by (simp add: client_close_def)
next
  case Closed
  have "settled_of (reject_all x (c\<lparr>bc_connected := b, bc_initialized := b'\<rparr>)) n = Some r" for x b b'
    using assms by (intro reject_all_stable) simp_all
  with Closed show ?thesis by (simp add: on_close_def)
next
  case (Data chunk)
  with assms show ?thesis by (simp only: client_step.simps on_data_stable)
next
  case (Timer m)
  with assms show ?thesis by (simp only: client_step.simps on_timer_stable)
next
  case (SocketError msg)
  with assms show ?thesis by (simp only: client_step.simps on_socket_error_def reject_all_stable)
qed (use assms(2) in \<open>simp_all add: client_connect_def on_connect_def client_initialize_def\<close>)

fun received :: "client_event \<Rightarrow> string option" where
  "received (Data chunk) = Some chunk"
| "received e = None"

interpretation bridge: rpc_steps "client_step stringify parse uuid" received outcome_of parse
  for stringify parse uuid
proof unfold_locales
  fix c :: rpc_client and e n v
  assume "client_ok c" "received e = None" "settled_of c n = None"
  then show "settled_of (client_step stringify parse uuid e c) n \<noteq> Some (Inr v)"
    by (cases e) (simp_all add: client_connect_def on_connect_def client_initialize_def client_close_def
        on_close_def on_socket_error_def reject_all_no_result on_timer_no_result)
qed (auto simp: step_ok step_stable elim: received.elims)

subsection \<open>Properties\<close>

text \<open>An example run: connect, initialize, receive the answer.\<close>

definition example_stringify :: "jval \<Rightarrow> string" where
  "example_stringify v = ''{}''"

definition example_parse :: "string \<Rightarrow> exn + jval" where
  "example_parse body = Inr (JObj [(''id'', JStr ''rpc_u''), (''result'', JBool True)])"

definition example_uuid :: "nat \<Rightarrow> string" where
  "example_uuid n = ''u''"

definition example_events :: "client_event list" where
  "example_events = [Connect, Connected, Initialize ''secret'']"

definition example_client :: rpc_client where
  "example_client = fold (client_step example_stringify example_parse example_uuid) example_events new_client_state"

definition example_chunk :: string where
  "example_chunk = encode_content_length_frame example_stringify JNull"

lemma fold_reachable:
  "client_reachable stringify parse uuid c \<Longrightarrow> client_reachable stringify parse uuid (fold (client_step stringify parse uuid) es c)"
  by (induction es arbitrary: c) (simp_all add: client_reachable.stepped)

lemma example_reachable: "client_reachable example_stringify example_parse example_uuid example_client"
  unfolding example_client_def by (intro fold_reachable created)

lemma example_client_eq:
  "example_client = \<lparr>bc_socket = True, bc_destroyed = False, bc_parser = new_parser default_max_bytes,
     bc_pending = [(''rpc_u'', 0)],
     bc_timers = [\<lparr>at_request = 0, at_id = ''rpc_u'', at_method = ''initialize'', at_timeout = default_timeout\<rparr>],
     bc_connected = True, bc_initialized = False, bc_requests = 1, bc_settled = [],
     bc_sent = [encode_content_length_frame example_stringify
       (request_message ''rpc_u'' ''initialize'' (initialize_params ''secret''))]\<rparr>"
  by (simp add: example_client_def example_events_def new_client_state_def client_connect_def on_connect_def
      client_initialize_def client_request_def Let_def example_uuid_def)

lemma example_push: "push example_chunk (new_parser default_max_bytes) = (Inr [''{}''], new_parser default_max_bytes)"
proof -
  have "next_frame default_max_bytes [] = Inr None" by (simp add: next_frame_def header_terminator_def)
  then show ?thesis
    using frame_next [of "''{}''" default_max_bytes "[]"]
    by (simp add: push_def new_parser_def example_chunk_def encode_content_length_frame_def example_stringify_def
        default_max_bytes_def numeral_2_eq_2)
qed

lemma example_answer:
  "settled_of (client_step example_stringify example_parse example_uuid (Data example_chunk) example_client) 0 =
     Some (Inr (JBool True))"
  by (simp add: on_data_def example_client_eq example_push Let_def example_parse_def nullish_def on_message_def
      finish_settled outcome_of_def)

text \<open>
  In every reachable state of a bridge client each request that was made is either settled or waits with
  its timer set, never both, and each pending entry belongs to a request whose timer is set.
\<close>

theorem requests_accounted:
  assumes "client_reachable stringify parse uuid c"
  shows "dom (settled_of c) \<union> timed c = {..<bc_requests c} \<and> dom (settled_of c) \<inter> timed c = {} \<and> pending_ok c"
  using reachable_ok [OF assms] by (simp add: client_ok_def accounted_def)

theorem requests_accounted_witness:
  "dom (settled_of example_client) \<union> timed example_client = {..<bc_requests example_client} \<and>
     dom (settled_of example_client) \<inter> timed example_client = {} \<and> pending_ok example_client"
  by (rule requests_accounted) (rule example_reachable)



text \<open>
  A promise is settled at most once: what a step finds settled it leaves as it is.
\<close>

theorem settled_once:
  assumes "client_reachable stringify parse uuid c" "settled_of c n = Some r"
  shows "settled_of (client_step stringify parse uuid e c) n = Some r"
  using bridge.step_stable [OF reachable_ok [OF assms(1)] assms(2)] .

theorem settled_once_witness:
  "settled_of (client_step example_stringify example_parse example_uuid Closed
     (client_step example_stringify example_parse example_uuid (Data example_chunk) example_client)) 0 =
     Some (Inr (JBool True))"
  by (rule settled_once) (rule client_reachable.stepped, rule example_reachable, rule example_answer)

text \<open>
  C36: A request is resolved with a result only by a complete message of the bridge that carries the identifier of
  this request, has no error object, and whose result it is.
\<close>

theorem answers_match_requests:
  assumes "client_reachable stringify parse uuid c" "settled_of c n = None"
    and "settled_of (client_step stringify parse uuid e c) n = Some (Inr v)"
  shows "\<exists>chunk bodies p body message i. e = Data chunk \<and> push chunk (bc_parser c) = (Inr bodies, p) \<and>
    body \<in> set bodies \<and> parse body = Inr message \<and> get_prop message ''id'' = JStr i \<and>
    \<not> is_objlike (get_prop message ''error'') \<and> v = get_prop message ''result'' \<and>
    (\<exists>t \<in> set (bc_timers c). at_request t = n \<and> at_id t = i)"
  using bridge.step_answered [OF reachable_ok [OF assms(1)] assms(2,3)]
  by (fastforce simp: answers_def outcome_of_def split: if_splits elim: received.elims)

theorem answers_match_requests_witness:
  "\<exists>chunk bodies p body message i. Data example_chunk = Data chunk \<and> push chunk (bc_parser example_client) = (Inr bodies, p) \<and>
    body \<in> set bodies \<and> example_parse body = Inr message \<and> get_prop message ''id'' = JStr i \<and>
    \<not> is_objlike (get_prop message ''error'') \<and> JBool True = get_prop message ''result'' \<and>
    (\<exists>t \<in> set (bc_timers example_client). at_request t = 0 \<and> at_id t = i)"
  by (rule answers_match_requests [OF example_reachable _ example_answer]) (simp add: example_client_eq)

end
