(* ===== verification/Paths.thy ===== *)
theory Paths
  imports Policy
begin

text \<open>
  What the code that touches the host uses of \<open>node:path\<close> (POSIX) and of \<open>fs.Stats\<close>:
  \<open>path.normalize\<close>, \<open>join\<close>, \<open>dirname\<close>, \<open>extname\<close>, and the check that a path is a private file or
  directory of this user.
\<close>

definition norm_segment :: "bool \<Rightarrow> string list \<Rightarrow> string \<Rightarrow> string list" where
  "norm_segment climb stack seg =
     (if seg = [] \<or> seg = ''.'' then stack
      else if seg = ''..''
      then (if stack \<noteq> [] \<and> last stack \<noteq> ''..'' then butlast stack
            else if climb then stack @ [seg] else stack)
      else stack @ [seg])"

definition path_normalize :: "string \<Rightarrow> string" where
  "path_normalize p =
     (if p = [] then ''.''
      else
      (let absolute = starts_with p ''/'';
           trailing = ends_with p ''/'';
           body = join ''/'' (foldl (norm_segment (\<not> absolute)) [] (split_on CHR ''/'' p))
       in if body = [] then (if absolute then ''/'' else if trailing then ''./'' else ''.'')
          else (if absolute then ''/'' else []) @ body @ (if trailing then ''/'' else [])))"

text \<open>\<open>path.join\<close> of two parts: empty ones are skipped.\<close>

definition path_join :: "string \<Rightarrow> string \<Rightarrow> string" where
  "path_join a b =
     (if a = [] \<and> b = [] then ''.''
      else path_normalize (if a = [] then b else if b = [] then a else a @ ''/'' @ b))"

definition path_dirname :: "string \<Rightarrow> string" where
  "path_dirname p =
     (case p of
        [] \<Rightarrow> ''.''
      | c # rest \<Rightarrow>
          let before = dropWhile (\<lambda>d. d \<noteq> CHR ''/'') (dropWhile (\<lambda>d. d = CHR ''/'') (rev rest)) in
          if before = [] then (if c = CHR ''/'' then ''/'' else ''.'')
          else if c = CHR ''/'' \<and> length before = 1 then ''//''
          else take (length before) p)"

definition path_basename :: "string \<Rightarrow> string" where
  "path_basename p = last (split_on CHR ''/'' (rev (dropWhile (\<lambda>c. c = CHR ''/'') (rev p))))"

text \<open>\<open>path.extname\<close> of a path without a slash at its end, as \<open>path.resolve\<close> returns it.\<close>

definition path_extname :: "string \<Rightarrow> string" where
  "path_extname p =
     (let base = last (split_on CHR ''/'' p) in
      case last_index_of ''.'' base of
        None \<Rightarrow> []
      | Some d \<Rightarrow> if d = 0 \<or> base = ''..'' then [] else drop d base)"

lemma path_examples:
  "path_normalize ''a//b/../c/'' = ''a/c/''" "path_normalize ''../a/./b'' = ''../a/b''"
  "path_join ''/run'' ''driver.json'' = ''/run/driver.json''" "path_dirname ''/a/b/c'' = ''/a/b''"
  "path_dirname ''/a'' = ''/''" "path_dirname ''a'' = ''.''" "path_extname ''/a/b.tar.PNG'' = ''.PNG''"
  "path_basename ''/a/b/'' = ''b''" "path_extname ''/a/.png'' = []" "path_extname ''/a.b/c'' = []"
  by code_simp+

subsection \<open>Files\<close>

datatype file_kind = Directory | Regular_File | Symbolic_Link | Other_File

text \<open>The result of \<open>lstat\<close> or \<open>stat\<close>; a path that does not exist makes them throw, \<open>None\<close>.\<close>

record file_stat =
  fs_kind :: file_kind
  fs_mode :: nat
  fs_uid :: nat
  fs_size :: nat

text \<open>\<open>(stat.mode & 0o077) !== 0\<close>.\<close>

definition too_broad :: "file_stat \<Rightarrow> bool" where
  "too_broad st \<longleftrightarrow> fs_mode st mod 64 \<noteq> 0"

text \<open>\<open>privateOwnedPath\<close> after its \<open>lstat\<close>; \<open>uid\<close> is \<open>None\<close> where \<open>process.getuid\<close> does not exist.\<close>

definition private_owned :: "bool \<Rightarrow> nat option \<Rightarrow> file_kind \<Rightarrow> file_stat \<Rightarrow> bool" where
  "private_owned win32 uid kind st \<longleftrightarrow>
     fs_kind st = kind \<and>
     (win32 \<or> (\<not> too_broad st \<and> (case uid of None \<Rightarrow> True | Some u \<Rightarrow> fs_uid st = u)))"

text \<open>\<open>pathInside\<close>.\<close>

definition path_inside :: "string \<Rightarrow> string \<Rightarrow> string \<Rightarrow> bool" where
  "path_inside cwd parent candidate =
     (let relative = path_relative cwd (path_resolve cwd parent) (path_resolve cwd candidate)
      in relative \<noteq> [] \<and> \<not> starts_with relative ''..'' \<and> \<not> starts_with relative ''/'')"

lemma join_not_Nil: "seg \<noteq> [] \<Longrightarrow> join sep (seg # segs) \<noteq> []"
  by (cases segs) auto

lemma join_relative_Nil:
  "list_all clean_segment bs \<Longrightarrow> join ''/'' (relative_segments as bs) = [] \<longleftrightarrow> bs = as"
proof (induction as bs rule: list_induct2')
  case (2 x xs)
  then show ?case using join_not_Nil [of "''..''" "''/''"] by simp
next
  case (3 y ys)
  then show ?case using join_not_Nil [of y "''/''" ys] by (auto simp: clean_segment_def)
next
  case (4 x xs y ys)
  then show ?case using join_not_Nil [of "''..''" "''/''"] by simp
qed simp

lemma relative_Nil_iff:
  "path_relative cwd (path_resolve cwd base) (path_resolve cwd p) = [] \<longleftrightarrow>
     path_segments cwd p = path_segments cwd base"
  by (simp add: path_relative_def join_relative_Nil clean_path_segments)

lemma path_inside_iff:
  "path_inside cwd parent candidate \<longleftrightarrow>
     (\<exists>seg rest. path_segments cwd candidate = path_segments cwd parent @ seg # rest \<and> \<not> starts_with seg ''..'')"
  using path_relative_inside [of cwd parent candidate] relative_Nil_iff [of cwd parent candidate]
  by (auto simp: path_inside_def Let_def neq_Nil_conv)

end
