(* ===== verification/Driver.thy ===== *)
theory Driver
  imports PendingRequests Paths Act Runtime
begin

text \<open>
  The client of the native platform driver, \<open>mcp-server/src/drivers/platformDriver.ts\<close>: finding the
  record the driver published, reading its token, the RPC client \<open>DriverRPCClient\<close> (a second state machine
  over the same state as \<open>BridgeClient\<close>), and \<open>AutoPlatformDriver\<close>, which opens and replaces
  connections. The record \<open>host\<close> is a snapshot of the machine: files, processes, clock.
\<close>

record host =
  ho_win32 :: bool
  ho_uid :: "nat option"                        \<comment> \<open>\<open>process.getuid()\<close>\<close>
  ho_cwd :: string
  ho_tmpdir :: string
  ho_env :: "string \<Rightarrow> string option"
  ho_exists :: "string \<Rightarrow> bool"
  ho_lstat :: "string \<Rightarrow> file_stat option"
  ho_text :: "string \<Rightarrow> string option"          \<comment> \<open>\<open>readFileSync\<close>; \<open>None\<close> when it throws\<close>
  ho_parse :: "string \<Rightarrow> jval option"           \<comment> \<open>\<open>JSON.parse\<close>\<close>
  ho_kill :: "jnum \<Rightarrow> string option"            \<comment> \<open>the error code of \<open>process.kill(pid, 0)\<close>, if it throws\<close>
  ho_date_parse :: "string \<Rightarrow> jnum"
  ho_now :: int

subsection \<open>The published record\<close>

definition uid_name :: "host \<Rightarrow> string" where
  "uid_name h = (case ho_uid h of Some u \<Rightarrow> dec_str u | None \<Rightarrow> ''user'')"

definition driver_runtime_directory :: "host \<Rightarrow> string" where
  "driver_runtime_directory h =
     (case ho_env h ''EMACS_OPERATOR_DRIVER_RUNTIME_DIR'' of
        Some (c # dir) \<Rightarrow> path_resolve (ho_cwd h) (c # dir)
      | _ \<Rightarrow> path_join (ho_tmpdir h) (''emacs-operator-driver-'' @ uid_name h))"

definition process_alive :: "host \<Rightarrow> jnum \<Rightarrow> bool" where
  "process_alive h pid = (case ho_kill h pid of None \<Rightarrow> True | Some code \<Rightarrow> code = ''EPERM'')"

definition private_owned_path :: "host \<Rightarrow> string \<Rightarrow> file_kind \<Rightarrow> file_stat option option" where
  "private_owned_path h p kind =
     map_option (\<lambda>st. if private_owned (ho_win32 h) (ho_uid h) kind st then Some st else None) (ho_lstat h p)"

record driver_record =
  dr_pid :: jnum
  dr_port :: jnum
  dr_token_file :: string
  dr_heartbeat_at :: string

definition positive_integer :: "jnum \<Rightarrow> bool" where
  "positive_integer n \<longleftrightarrow> is_integer_num n \<and> jn_less (Fin 0) n"

definition driver_record_of_json :: "jval \<Rightarrow> driver_record option" where
  "driver_record_of_json v =
     (case (get_prop v ''protocol_version'', get_prop v ''pid'', get_prop v ''host'', get_prop v ''port'',
            get_prop v ''token_file'', get_prop v ''started_at'', get_prop v ''heartbeat_at'') of
        (JStr version, JNum pid, JStr address, JNum port, JStr tok, JStr started, JStr beat) \<Rightarrow>
          if version = ''1.0'' \<and> positive_integer pid \<and> address = ''127.0.0.1'' \<and>
             positive_integer port \<and> jn_le port (Fin 65535)
          then Some \<lparr>dr_pid = pid, dr_port = port, dr_token_file = tok, dr_heartbeat_at = beat\<rparr>
          else None
      | _ \<Rightarrow> None)"

fun jn_abs :: "jnum \<Rightarrow> jnum" where
  "jn_abs (Fin q) = Fin \<bar>q\<bar>"
| "jn_abs NegInf = PosInf"
| "jn_abs n = n"

definition driver_live :: "int \<Rightarrow> host \<Rightarrow> driver_record \<Rightarrow> bool" where
  "driver_live stale_after h r \<longleftrightarrow>
     (let beat = ho_date_parse h (dr_heartbeat_at r) in
      process_alive h (dr_pid r) \<and> is_finite_num beat \<and>
      \<not> jn_less (Fin (of_int stale_after)) (jn_abs (jn_sub (Fin (of_int (ho_now h))) beat)))"

text \<open>An exception on the way is caught, and means that there is no record.\<close>

definition read_driver_record :: "string \<Rightarrow> int \<Rightarrow> host \<Rightarrow> driver_record option" where
  "read_driver_record dir stale_after h =
     (let f = path_join dir ''driver.json'' in
      if \<not> ho_exists h f then None
      else (case (private_owned_path h dir Directory, private_owned_path h f Regular_File) of
         (Some (Some _), Some (Some _)) \<Rightarrow>
           Option.bind (ho_text h f) (\<lambda>content. Option.bind (ho_parse h content) (\<lambda>value.
           Option.bind (driver_record_of_json value) (\<lambda>r.
             if path_inside (ho_cwd h) dir (dr_token_file r) \<and> driver_live stale_after h r then Some r else None)))
       | _ \<Rightarrow> None))"

definition default_driver_record :: "host \<Rightarrow> driver_record option" where
  "default_driver_record h = read_driver_record (driver_runtime_directory h) 20000 h"

text \<open>\<open>readDriverToken\<close>; \<open>lstat\<close> and \<open>readFileSync\<close> throw on a file that is not there.\<close>

definition enoent :: "string \<Rightarrow> exn" where
  "enoent p = JsError (''ENOENT: no such file or directory, '' @ p)"

definition read_driver_token :: "host \<Rightarrow> driver_record \<Rightarrow> exn + string" where
  "read_driver_token h r =
     (let f = dr_token_file r; dir = path_dirname f in
      case private_owned_path h f Regular_File of
        None \<Rightarrow> Inl (enoent f)
      | Some None \<Rightarrow> Inl (op_error_with E_AUTH_FAILED
          ''Platform driver token must be a private, regular, owner-controlled file.'' [(''token_file'', JStr f)])
      | Some (Some st) \<Rightarrow>
          if \<not> ho_win32 h \<and> too_broad st
          then Inl (op_error_with E_AUTH_FAILED ''Platform driver token file permissions are too broad.''
            [(''token_file'', JStr f), (''mode'', JStr (oct_str (fs_mode st mod 512)))])
          else (case private_owned_path h dir Directory of
              None \<Rightarrow> Inl (enoent dir)
            | Some None \<Rightarrow> Inl (op_error_with E_AUTH_FAILED
                ''Platform driver token directory is not private and owner-controlled.'' [(''token_file'', JStr f)])
            | Some (Some _) \<Rightarrow>
                (case ho_text h f of
                   None \<Rightarrow> Inl (enoent f)
                 | Some content \<Rightarrow>
                     let token = trim content in
                     if length token = 64 \<and> list_all is_hex token then Inr token
                     else Inl (op_error E_AUTH_FAILED ''Platform driver token file is malformed.''))))"

subsection \<open>The RPC client\<close>

definition unavailable :: "string \<Rightarrow> exn" where
  "unavailable msg = op_error E_NATIVE_DRIVER_UNAVAILABLE msg"

definition bad_timeout :: "jnum \<Rightarrow> bool" where
  "bad_timeout t \<longleftrightarrow> \<not> is_integer_num t \<or> jn_less t (Fin 1) \<or> jn_less (Fin 120000) t"

definition driver_request ::
  "(jval \<Rightarrow> string) \<Rightarrow> (nat \<Rightarrow> string) \<Rightarrow> string \<Rightarrow> jval \<Rightarrow> bool \<Rightarrow> jnum option \<Rightarrow> rpc_client \<Rightarrow>
   (exn + nat) \<times> rpc_client" where
  "driver_request stringify uuid method params early timeout c =
     (let ms = (case timeout of Some t \<Rightarrow> t | None \<Rightarrow> Fin 5000) in
      if \<not> bc_connected c then (Inl (unavailable ''Platform driver socket is not connected.''), c)
      else if \<not> bc_initialized c \<and> \<not> early
      then (Inl (op_error E_AUTH_FAILED ''Platform driver connection is not initialized.''), c)
      else if bad_timeout ms
      then (Inl (op_error E_INVALID_ARGUMENT
        ''Platform driver RPC timeout must be an integer between 1 and 120000 milliseconds.''), c)
      else
      (let n = bc_requests c; i = ''driver_'' @ uuid n in
       (Inr n, c\<lparr>bc_requests := n + 1,
          bc_timers := bc_timers c @ [\<lparr>at_request = n, at_id = i, at_method = method, at_timeout = ms\<rparr>],
          bc_pending := AList.update i n (bc_pending c),
          bc_sent := bc_sent c @ [encode_content_length_frame stringify (request_message i method params)]\<rparr>)))"

text \<open>The request of \<open>connectAndInitialize\<close>, after the socket has connected, and its end.\<close>

definition driver_initialize ::
  "(jval \<Rightarrow> string) \<Rightarrow> (nat \<Rightarrow> string) \<Rightarrow> exn + string \<Rightarrow> rpc_client \<Rightarrow> (exn + nat) \<times> rpc_client" where
  "driver_initialize stringify uuid token c =
     (case token of
        Inl e \<Rightarrow> (Inl e, c)
      | Inr t \<Rightarrow> driver_request stringify uuid ''driver.initialize'' (JObj [(''token'', JStr t)]) True (Some (Fin 5000)) c)"

definition driver_is_ready :: "rpc_client \<Rightarrow> bool" where
  "driver_is_ready c \<longleftrightarrow> bc_connected c \<and> bc_initialized c \<and> bc_socket c \<and> \<not> bc_destroyed c"

definition driver_close :: "rpc_client \<Rightarrow> rpc_client" where
  "driver_close c =
     reject_all (unavailable ''Platform driver connection closed.'')
       (c\<lparr>bc_destroyed := bc_destroyed c \<or> bc_socket c, bc_connected := False, bc_initialized := False\<rparr>)"

definition driver_exception :: "jval \<Rightarrow> exn" where
  "driver_exception err =
     (let code = get_prop (get_prop err ''data'') ''code''; msg = get_prop err ''message'' in
      case (case code of JStr s \<Rightarrow> code_of_name s | _ \<Rightarrow> None) of
        Some k \<Rightarrow> op_error k (js_string (nullish_or msg code))
      | None \<Rightarrow> op_error E_INTERNAL (js_string (nullish_or msg (JStr ''Platform driver JSON-RPC error.''))))"

definition driver_outcome :: "jval \<Rightarrow> exn + jval" where
  "driver_outcome message =
     (if is_objlike (get_prop message ''error'') then Inl (driver_exception (get_prop message ''error''))
      else Inr (get_prop message ''result''))"

definition driver_on_data :: "(string \<Rightarrow> exn + jval) \<Rightarrow> string \<Rightarrow> rpc_client \<Rightarrow> rpc_client" where
  "driver_on_data = on_data driver_outcome"

definition driver_on_close :: "rpc_client \<Rightarrow> rpc_client" where
  "driver_on_close c = reject_all (unavailable ''Platform driver disconnected.'')
     (c\<lparr>bc_connected := False, bc_initialized := False\<rparr>)"

definition driver_on_socket_error :: "string \<Rightarrow> rpc_client \<Rightarrow> rpc_client" where
  "driver_on_socket_error msg c = reject_all (unavailable msg) c"

definition driver_timeout_error :: "active_timer \<Rightarrow> exn" where
  "driver_timeout_error t = op_error E_COMMAND_TIMEOUT
     (''Platform driver method '' @ at_method t @ '' timed out after '' @ num_string (at_timeout t) @ '' milliseconds.'')"

definition driver_on_timer :: "nat \<Rightarrow> rpc_client \<Rightarrow> rpc_client" where
  "driver_on_timer = on_timer driver_timeout_error"

datatype driver_event =
    Driver_Connect | Driver_Connected | Driver_Initialize "exn + string" | Driver_Initialized nat
  | Driver_Request string jval "jnum option" | Driver_Data string | Driver_Closed | Driver_Error string
  | Driver_Timer nat | Driver_Close

fun driver_step ::
  "(jval \<Rightarrow> string) \<Rightarrow> (string \<Rightarrow> exn + jval) \<Rightarrow> (nat \<Rightarrow> string) \<Rightarrow> driver_event \<Rightarrow> rpc_client \<Rightarrow> rpc_client" where
  "driver_step stringify parse uuid Driver_Connect = client_connect"
| "driver_step stringify parse uuid Driver_Connected = on_connect"
| "driver_step stringify parse uuid (Driver_Initialize token) = (\<lambda>c. snd (driver_initialize stringify uuid token c))"
| "driver_step stringify parse uuid (Driver_Initialized n) = initialize_resolved n"
| "driver_step stringify parse uuid (Driver_Request method params timeout) =
     (\<lambda>c. snd (driver_request stringify uuid method params False timeout c))"
| "driver_step stringify parse uuid (Driver_Data chunk) = driver_on_data parse chunk"
| "driver_step stringify parse uuid Driver_Closed = driver_on_close"
| "driver_step stringify parse uuid (Driver_Error msg) = driver_on_socket_error msg"
| "driver_step stringify parse uuid (Driver_Timer n) = driver_on_timer n"
| "driver_step stringify parse uuid Driver_Close = driver_close"

section \<open>The automatic driver\<close>

text \<open>
  \<open>UnavailablePlatformDriver\<close> and \<open>AutoPlatformDriver\<close> of \<open>mcp-server/src/drivers/platformDriver.ts\<close>. The
  clients \<open>DriverRPCClient\<close> are numbered in the order they are created; the state remembers which of them
  have been closed. What a connection answers comes from the record \<open>driver_env\<close> over a world. The router
  calls the driver one request at a time, so an \<open>await\<close> is sequential composition.
\<close>

record 'w driver_env =
  de_host :: "'w \<Rightarrow> host"
  de_connect :: "nat \<Rightarrow> driver_record \<Rightarrow> 'w \<Rightarrow> (exn + jval) \<times> 'w"   \<comment> \<open>connect and \<open>driver.initialize\<close>\<close>
  de_request :: "nat \<Rightarrow> string \<Rightarrow> jval \<Rightarrow> jnum option \<Rightarrow> 'w \<Rightarrow> (exn + jval) \<times> 'w"
  de_ready :: "'w \<Rightarrow> nat \<Rightarrow> bool"                                 \<comment> \<open>\<open>isReady\<close>\<close>
  de_close :: "nat \<Rightarrow> 'w \<Rightarrow> 'w"

record 'w auto_driver =
  ad_world :: 'w
  ad_client :: "nat option"
  ad_record :: "driver_record option"
  ad_capabilities :: jval
  ad_created :: nat
  ad_closed :: "nat list"

type_synonym ('w, 'a) driver_act = "('w auto_driver, 'a) act"

definition unavailable_capabilities :: jval where
  "unavailable_capabilities = JObj
     [(''protocol_version'', JStr ''1.0''), (''connected'', JBool False), (''native_keyboard'', JBool False),
      (''window_focus'', JBool False), (''window_capture'', JBool False), (''frontmost_query'', JBool False),
      (''accessibility_trusted'', JBool False), (''screen_recording_granted'', JBool False)]"

definition new_auto_driver :: "'w \<Rightarrow> 'w auto_driver" where
  "new_auto_driver w = \<lparr>ad_world = w, ad_client = None, ad_record = None,
     ad_capabilities = unavailable_capabilities, ad_created = 0, ad_closed = []\<rparr>"

subsection \<open>The driver that is not there\<close>

definition no_driver_fail :: "exn + jval" where
  "no_driver_fail = Inl (op_error E_NATIVE_DRIVER_UNAVAILABLE ''No native platform driver is connected.'')"

definition no_driver :: "string \<Rightarrow> exn + jval" where
  "no_driver operation =
     (if operation = ''initialize'' then Inr unavailable_capabilities
      else if operation = ''permissions'' then Inr (JArr [])
      else if operation \<in> {''cancelAll'', ''close''} then Inr JUndef
      else if operation = ''restoreApplication'' then Inr (JBool False)
      else no_driver_fail)"

subsection \<open>Connections\<close>

definition new_driver_client :: "('w, nat) driver_act" where
  "new_driver_client = bind (gets ad_created) (\<lambda>n. seq (modify (\<lambda>s. s\<lparr>ad_created := Suc (ad_created s)\<rparr>)) (ret n))"

definition close_driver_client :: "'w driver_env \<Rightarrow> nat \<Rightarrow> ('w, unit) driver_act" where
  "close_driver_client env n = modify (\<lambda>s. s\<lparr>ad_world := de_close env n (ad_world s), ad_closed := n # ad_closed s\<rparr>)"

definition connect_driver_client :: "'w driver_env \<Rightarrow> nat \<Rightarrow> driver_record \<Rightarrow> ('w, jval) driver_act" where
  "connect_driver_client env n r =
     (\<lambda>s. case de_connect env n r (ad_world s) of (x, w) \<Rightarrow>
        (map_sum id (\<lambda>v. JObj (spread (fields_of v) [(''connected'', JBool True)])) x, s\<lparr>ad_world := w\<rparr>))"

definition call_driver_client :: "'w driver_env \<Rightarrow> nat \<Rightarrow> string \<Rightarrow> jval \<Rightarrow> jnum option \<Rightarrow> ('w, jval) driver_act" where
  "call_driver_client env n method params timeout =
     (\<lambda>s. case de_request env n method params timeout (ad_world s) of (x, w) \<Rightarrow> (x, s\<lparr>ad_world := w\<rparr>))"

text \<open>\<open>close\<close>.\<close>

definition auto_close :: "'w driver_env \<Rightarrow> ('w, unit) driver_act" where
  "auto_close env =
     bind (gets ad_client) (\<lambda>c.
     seq (case c of None \<Rightarrow> ret () | Some n \<Rightarrow> close_driver_client env n)
       (modify (\<lambda>s. s\<lparr>ad_client := None, ad_record := None, ad_capabilities := unavailable_capabilities\<rparr>)))"

definition same_driver :: "driver_record option \<Rightarrow> driver_record \<Rightarrow> bool" where
  "same_driver known r \<longleftrightarrow>
     (case known of None \<Rightarrow> False | Some k \<Rightarrow> jn_eq (dr_pid k) (dr_pid r) \<and> jn_eq (dr_port k) (dr_port r))"

definition still_connected :: "'w driver_env \<Rightarrow> driver_record \<Rightarrow> 'w auto_driver \<Rightarrow> bool" where
  "still_connected env r s \<longleftrightarrow>
     (case ad_client s of None \<Rightarrow> False | Some n \<Rightarrow> de_ready env (ad_world s) n) \<and> same_driver (ad_record s) r"

definition open_client :: "'w driver_env \<Rightarrow> driver_record \<Rightarrow> ('w, jval) driver_act" where
  "open_client env r =
     bind new_driver_client (\<lambda>n.
       try_catch
         (bind (connect_driver_client env n r) (\<lambda>caps.
          seq (modify (\<lambda>s. s\<lparr>ad_client := Some n, ad_record := Some r, ad_capabilities := caps\<rparr>)) (ret caps)))
         (\<lambda>e. seq (close_driver_client env n)
           (seq (modify (\<lambda>s. s\<lparr>ad_capabilities := unavailable_capabilities\<rparr>)) (gets ad_capabilities))))"

definition find_driver :: "'w driver_env \<Rightarrow> ('w, driver_record option) driver_act" where
  "find_driver env = gets (\<lambda>s. default_driver_record (de_host env (ad_world s)))"

definition auto_initialize :: "'w driver_env \<Rightarrow> ('w, jval) driver_act" where
  "auto_initialize env =
     bind (find_driver env) (\<lambda>found.
       case found of
         None \<Rightarrow> seq (auto_close env) (ret unavailable_capabilities)
       | Some r \<Rightarrow>
           bind (gets (still_connected env r)) (\<lambda>keep.
             if keep then gets ad_capabilities
             else seq (auto_close env) (open_client env r)))"

definition require_client :: "'w driver_env \<Rightarrow> ('w, nat) driver_act" where
  "require_client env =
     bind (auto_initialize env) (\<lambda>caps.
     bind (gets ad_client) (\<lambda>c.
       if truthy (get_prop caps ''connected'')
       then (case c of Some n \<Rightarrow> ret n | None \<Rightarrow> throw (unavailable ''No live platform driver was discovered.''))
       else throw (unavailable ''No live platform driver was discovered.'')))"

definition on_client ::
  "'w driver_env \<Rightarrow> string \<Rightarrow> jval \<Rightarrow> jnum option \<Rightarrow> ('w, jval) driver_act" where
  "on_client env method params timeout = bind (require_client env) (\<lambda>n. call_driver_client env n method params timeout)"

subsection \<open>Operations\<close>

definition auto_permissions :: "'w driver_env \<Rightarrow> ('w, jval) driver_act" where
  "auto_permissions env = on_client env ''driver.permissions'' (JObj []) None"

definition auto_frontmost :: "'w driver_env \<Rightarrow> ('w, jval) driver_act" where
  "auto_frontmost env = on_client env ''driver.frontmost'' (JObj []) None"

definition focus_timeout :: "jval \<Rightarrow> jnum" where
  "focus_timeout options =
     (let t = (case get_prop options ''timeout_milliseconds'' of
                 JNum n \<Rightarrow> if is_integer_num n then n else Fin 1500
               | _ \<Rightarrow> Fin 1500)
      in jn_min (Fin 35000) (jn_max (Fin 5000) (jn_add t (Fin 3000))))"

definition auto_focus :: "'w driver_env \<Rightarrow> jval \<Rightarrow> jval \<Rightarrow> ('w, jval) driver_act" where
  "auto_focus env target options = on_client env ''driver.focus''
     (JObj [(''target'', target), (''options'', options)]) (Some (focus_timeout options))"

definition auto_send_keys :: "'w driver_env \<Rightarrow> jval \<Rightarrow> jval \<Rightarrow> jval \<Rightarrow> ('w, jval) driver_act" where
  "auto_send_keys env target events options = on_client env ''driver.key_sequence''
     (JObj [(''target'', target), (''sequence'', JObj [(''events'', events)]), (''focus_options'', options)])
     (Some (Fin 95000))"

definition auto_restore :: "'w driver_env \<Rightarrow> jval \<Rightarrow> ('w, jval) driver_act" where
  "auto_restore env application =
     bind (on_client env ''driver.restore_application'' (JObj [(''application'', application)]) (Some (Fin 10000)))
       (\<lambda>result. prop_of result ''restored'')"

definition auto_capture :: "'w driver_env \<Rightarrow> jval \<Rightarrow> jval \<Rightarrow> ('w, jval) driver_act" where
  "auto_capture env target options = on_client env ''driver.capture''
     (JObj [(''target'', target), (''options'', options)]) (Some (Fin 20000))"

definition auto_cancel_all :: "'w driver_env \<Rightarrow> ('w, unit) driver_act" where
  "auto_cancel_all env =
     bind (find_driver env) (\<lambda>found.
       case found of
         None \<Rightarrow> ret ()
       | Some r \<Rightarrow>
           bind new_driver_client (\<lambda>n.
             try_finally
               (try_catch
                 (bind (connect_driver_client env n r) (\<lambda>_.
                  bind (call_driver_client env n ''driver.cancel_all'' (JObj []) (Some (Fin 10000))) (\<lambda>_. ret ())))
                 (\<lambda>e. ret ()))
               (close_driver_client env n)))"

datatype driver_call =
    Call_Initialize | Call_Permissions | Call_Frontmost | Call_Focus jval jval | Call_Keys jval jval jval
  | Call_Restore jval | Call_Capture jval jval | Call_Cancel_All | Call_Close

fun driver_op :: "'w driver_env \<Rightarrow> driver_call \<Rightarrow> ('w, jval) driver_act" where
  "driver_op env Call_Initialize = auto_initialize env"
| "driver_op env Call_Permissions = auto_permissions env"
| "driver_op env Call_Frontmost = auto_frontmost env"
| "driver_op env (Call_Focus target options) = auto_focus env target options"
| "driver_op env (Call_Keys target events options) = auto_send_keys env target events options"
| "driver_op env (Call_Restore application) = auto_restore env application"
| "driver_op env (Call_Capture target options) = auto_capture env target options"
| "driver_op env Call_Cancel_All = seq (auto_cancel_all env) (ret JUndef)"
| "driver_op env Call_Close = seq (auto_close env) (ret JUndef)"

end
