(* ===== verification/DriverProps.thy ===== *)
theory DriverProps
  imports Driver
begin

text \<open>
  Properties of the platform driver: the RPC client is another instance of \<open>rpc_steps\<close>, its timers have
  bounded delays, and \<open>AutoPlatformDriver\<close> never loses a connection.
\<close>

subsection \<open>The RPC client\<close>

lemma driver_request_ok:
  assumes "client_ok c"
  shows "client_ok (snd (driver_request stringify uuid method params early timeout c))"
proof -
  have "bc_requests c \<notin> timed c" "settled_of c (bc_requests c) = None"
    using assms unfolding client_ok_def accounted_def by auto
  then show ?thesis
    using assms
    by (auto simp: driver_request_def Let_def client_ok_def accounted_def pending_ok_def timed_def lessThan_Suc)
qed

lemma driver_request_settled [simp]:
  "bc_settled (snd (driver_request stringify uuid method params early timeout c)) = bc_settled c"
  "bc_settled (snd (driver_initialize stringify uuid token c)) = bc_settled c"
  by (simp_all add: driver_request_def driver_initialize_def Let_def split: sum.split)

lemma driver_step_ok: "client_ok c \<Longrightarrow> client_ok (driver_step stringify parse uuid e c)"
  by (cases e)
    (simp_all add: client_connect_def on_connect_def driver_request_ok driver_initialize_def initialize_resolved_def
      driver_close_def driver_on_data_def on_data_ok driver_on_close_def driver_on_socket_error_def reject_all_ok
      driver_on_timer_def on_timer_ok split: option.split sum.split)

lemma reject_all_frame_stable:
  assumes "client_ok c" "settled_of c n = Some r"
  shows "settled_of (reject_all x (c\<lparr>bc_destroyed := a, bc_connected := b, bc_initialized := b'\<rparr>)) n = Some r"
    "settled_of (reject_all x (c\<lparr>bc_connected := b, bc_initialized := b'\<rparr>)) n = Some r"
  using assms by (auto intro: reject_all_stable)

lemma driver_step_stable:
  "client_ok c \<Longrightarrow> settled_of c n = Some r \<Longrightarrow> settled_of (driver_step stringify parse uuid e c) n = Some r"
  by (cases e)
    (simp_all add: client_connect_def on_connect_def initialize_resolved_def reject_all_frame_stable
      driver_close_def driver_on_data_def on_data_stable driver_on_close_def driver_on_socket_error_def
      reject_all_stable driver_on_timer_def on_timer_stable split: option.split sum.split)

fun driver_received :: "driver_event \<Rightarrow> string option" where
  "driver_received (Driver_Data chunk) = Some chunk"
| "driver_received e = None"

interpretation driver: rpc_steps "driver_step stringify parse uuid" driver_received driver_outcome parse
  for stringify parse uuid
proof unfold_locales
  fix c :: rpc_client and e n v
  assume "client_ok c" "driver_received e = None" "settled_of c n = None"
  then show "settled_of (driver_step stringify parse uuid e c) n \<noteq> Some (Inr v)"
    by (cases e) (simp_all add: client_connect_def on_connect_def driver_close_def initialize_resolved_def
        driver_on_close_def driver_on_socket_error_def driver_on_timer_def reject_all_no_result on_timer_no_result
        split: option.split sum.split)
qed (auto simp: driver_step_ok driver_step_stable driver_on_data_def elim: driver_received.elims)

subsection \<open>Delays\<close>

definition timers_bounded :: "rpc_client \<Rightarrow> bool" where
  "timers_bounded c \<longleftrightarrow> (\<forall>t \<in> set (bc_timers c). \<not> bad_timeout (at_timeout t))"

lemma reject_all_timers: "set (bc_timers (reject_all e c)) \<subseteq> set (bc_timers c)"
  using finish_all [where ps = "bc_pending c" and c = c and r = "Inl e"] by (auto simp: reject_all_def)

lemma on_message_timers: "set (bc_timers (on_message outcome m c)) \<subseteq> set (bc_timers c)"
  by (cases rule: on_message_cases [of outcome m c]) auto

lemma on_messages_timers: "on_messages outcome parse bodies c = (x, c') \<Longrightarrow> set (bc_timers c') \<subseteq> set (bc_timers c)"
proof (induction outcome parse bodies c rule: on_messages.induct)
  case (2 outcome parse body bodies c)
  then show ?case
    using on_message_timers [of outcome] by (auto split: sum.splits if_splits)
qed simp

lemma on_data_timers: "set (bc_timers (on_data outcome parse chunk c)) \<subseteq> set (bc_timers c)"
proof -
  obtain r p where p: "push chunk (bc_parser c) = (r, p)" by fastforce
  show ?thesis
  proof (cases r)
    case (Inl e)
    then show ?thesis using p reject_all_timers [of e "c\<lparr>bc_parser := p\<rparr>"] by (simp add: on_data_def Let_def)
  next
    case (Inr bodies)
    obtain x c2 where run: "on_messages outcome parse bodies (c\<lparr>bc_parser := p\<rparr>) = (x, c2)" by fastforce
    then have "set (bc_timers c2) \<subseteq> set (bc_timers c)" using on_messages_timers by fastforce
    moreover have "set (bc_timers (reject_all e c2)) \<subseteq> set (bc_timers c2)" for e by (rule reject_all_timers)
    ultimately show ?thesis using p Inr run by (cases x) (auto simp: on_data_def Let_def)
  qed
qed

lemma driver_step_bounded: "timers_bounded c \<Longrightarrow> timers_bounded (driver_step stringify parse uuid e c)"
proof (cases e)
  case (Driver_Data chunk)
  then show "timers_bounded c \<Longrightarrow> ?thesis"
    using on_data_timers by (fastforce simp: timers_bounded_def driver_on_data_def)
next
  case Driver_Close
  then show "timers_bounded c \<Longrightarrow> ?thesis"
    using reject_all_timers by (fastforce simp: timers_bounded_def driver_close_def)
next
  case Driver_Closed
  then show "timers_bounded c \<Longrightarrow> ?thesis"
    using reject_all_timers by (fastforce simp: timers_bounded_def driver_on_close_def)
next
  case (Driver_Error msg)
  then show "timers_bounded c \<Longrightarrow> ?thesis"
    using reject_all_timers by (fastforce simp: timers_bounded_def driver_on_socket_error_def)
qed (auto simp: timers_bounded_def client_connect_def on_connect_def initialize_resolved_def driver_initialize_def
    driver_request_def Let_def driver_on_timer_def on_timer_def split: option.splits sum.splits)

lemma driver_run_bounded: "timers_bounded c \<Longrightarrow> timers_bounded (fold (driver_step stringify parse uuid) es c)"
  by (induction es arbitrary: c) (simp_all add: driver_step_bounded)

lemma focus_timeout_range:
  "\<exists>q. focus_timeout options = Fin q \<and> 5000 \<le> q \<and> q \<le> 35000 \<and> q \<in> \<int>"
proof -
  define t where "t = (case get_prop options ''timeout_milliseconds'' of
    JNum n \<Rightarrow> if is_integer_num n then n else Fin 1500 | _ \<Rightarrow> Fin 1500)"
  have "is_integer_num t"
    unfolding t_def by (auto split: jval.split)
  then obtain i :: int where "t = Fin (of_int i)" by (cases t) auto
  then show ?thesis
    by (auto simp: focus_timeout_def t_def [symmetric] Let_def jn_min_def jn_max_def)
qed

lemma integer_num_Ints: "q \<in> \<int> \<Longrightarrow> is_integer_num (Fin q)"
  by (auto elim!: Ints_cases)

subsection \<open>Connections of the driver\<close>

definition open_connections :: "'w auto_driver \<Rightarrow> nat set" where
  "open_connections s = {..<ad_created s} - set (ad_closed s)"

definition driver_ok :: "'w auto_driver \<Rightarrow> bool" where
  "driver_ok s \<longleftrightarrow> open_connections s = set_option (ad_client s) \<and> set (ad_closed s) \<subseteq> {..<ad_created s} \<and>
     (ad_client s = None \<longrightarrow> ad_capabilities s = unavailable_capabilities)"

lemma driver_ok_world [simp]: "driver_ok (s\<lparr>ad_world := w\<rparr>) = driver_ok s"
  by (simp add: driver_ok_def open_connections_def)

lemma new_driver_ok: "driver_ok (new_auto_driver w)"
  by (simp add: driver_ok_def open_connections_def new_auto_driver_def)

lemma auto_close_ok:
  assumes "driver_ok s"
  obtains s' where "auto_close env s = (Inr (), s')" "driver_ok s'" "ad_client s' = None"
proof -
  have "driver_ok (snd (auto_close env s)) \<and> ad_client (snd (auto_close env s)) = None \<and>
    fst (auto_close env s) = Inr ()"
    using assms
    by (cases "ad_client s")
      (auto simp: auto_close_def seq_def exec_simps close_driver_client_def driver_ok_def open_connections_def)
  then show thesis using that by (metis prod.collapse)
qed

lemma fresh_client:
  assumes "driver_ok s" "ad_client s = None"
  shows "{..<Suc (ad_created s)} - set (ad_closed s) = {ad_created s}"
    "{..<Suc (ad_created s)} - insert (ad_created s) (set (ad_closed s)) = {}"
    "set (ad_closed s) \<subseteq> {..<Suc (ad_created s)}"
  using assms by (auto simp: driver_ok_def open_connections_def less_Suc_eq)

lemma open_client_ok:
  assumes "driver_ok s" "ad_client s = None"
  shows "driver_ok (snd (open_client env r s))"
  using assms fresh_client [OF assms]
  by (auto simp: open_client_def new_driver_client_def seq_def exec_simps try_catch_def connect_driver_client_def close_driver_client_def
      driver_ok_def open_connections_def map_sum_def split: prod.split sum.split)

lemma auto_initialize_ok:
  assumes "driver_ok s"
  shows "driver_ok (snd (auto_initialize env s))"
proof -
  obtain s1 where s1: "auto_close env s = (Inr (), s1)" "driver_ok s1" "ad_client s1 = None"
    using auto_close_ok [OF assms] by blast
  then show ?thesis
    using assms open_client_ok [OF s1(2,3)]
    by (auto simp: auto_initialize_def find_driver_def exec_simps seq_def split: option.split)
qed

lemma on_client_ok:
  assumes "driver_ok s"
  shows "driver_ok (snd (on_client env method params timeout s))"
  using auto_initialize_ok [OF assms, of env]
  by (auto simp: on_client_def require_client_def exec_simps call_driver_client_def throw_def split: prod.splits sum.splits option.splits)

text \<open>The control connection: whatever happens on it, it is closed, and nothing else changes.\<close>

lemma control_connection:
  fixes s :: "'w auto_driver"
  defines "s1 \<equiv> s\<lparr>ad_created := Suc (ad_created s)\<rparr>"
  obtains w where "auto_cancel_all env s = (Inr (), s\<lparr>ad_world := w\<rparr>) \<or>
    auto_cancel_all env s = (Inr (), s1\<lparr>ad_world := w, ad_closed := ad_created s # ad_closed s\<rparr>)"
proof (cases "default_driver_record (de_host env (ad_world s))")
  case None
  then have "auto_cancel_all env s = (Inr (), s\<lparr>ad_world := ad_world s\<rparr>)"
    by (simp add: auto_cancel_all_def find_driver_def exec_simps)
  then show ?thesis using that by blast
next
  case (Some r)
  let ?m = "try_catch
    (bind (connect_driver_client env (ad_created s) r) (\<lambda>_.
     bind (call_driver_client env (ad_created s) ''driver.cancel_all'' (JObj []) (Some (Fin 10000))) (\<lambda>_. ret ()))) (\<lambda>e. ret ())"
  have "\<exists>w. ?m s1 = (Inr (), s1\<lparr>ad_world := w\<rparr>)"
  proof (cases "de_connect env (ad_created s) r (ad_world s)")
    case (Pair x w)
    show ?thesis
    proof (cases x)
      case (Inl e)
      with Pair show ?thesis by (auto simp: s1_def try_catch_def exec_simps connect_driver_client_def)
    next
      case (Inr v)
      obtain y w' where "de_request env (ad_created s) ''driver.cancel_all'' (JObj []) (Some (Fin 10000)) w = (y, w')"
        by fastforce
      with Pair Inr show ?thesis
        by (cases y) (auto simp: s1_def try_catch_def exec_simps connect_driver_client_def call_driver_client_def)
    qed
  qed
  then obtain w where "?m s1 = (Inr (), s1\<lparr>ad_world := w\<rparr>)" by blast
  then have "auto_cancel_all env s = (Inr (), s1\<lparr>ad_world := de_close env (ad_created s) w, ad_closed := ad_created s # ad_closed s\<rparr>)"
    using Some
    by (simp add: auto_cancel_all_def find_driver_def new_driver_client_def seq_def exec_simps try_finally_def close_driver_client_def s1_def)
  then show ?thesis using that by blast
qed

lemma auto_cancel_all_ok:
  assumes "driver_ok s"
  shows "driver_ok (snd (auto_cancel_all env s))"
proof -
  have "{..<Suc (ad_created s)} - insert (ad_created s) (set (ad_closed s)) = {..<ad_created s} - set (ad_closed s)"
    by auto
  moreover obtain w where "auto_cancel_all env s = (Inr (), s\<lparr>ad_world := w\<rparr>) \<or>
    auto_cancel_all env s = (Inr (), s\<lparr>ad_created := Suc (ad_created s), ad_world := w, ad_closed := ad_created s # ad_closed s\<rparr>)"
    by (rule control_connection)
  moreover have "set (ad_closed s) \<subseteq> {..<Suc (ad_created s)}" using assms by (auto simp: driver_ok_def)
  ultimately show ?thesis
    using assms by (elim disjE) (simp_all add: driver_ok_def open_connections_def)
qed

lemma driver_op_ok:
  assumes "driver_ok s"
  shows "driver_ok (snd (driver_op env op s))"
proof (cases op)
  case (Call_Restore application)
  then show ?thesis
    using on_client_ok [OF assms, of env "''driver.restore_application''" "JObj [(''application'', application)]" "Some (Fin 10000)"]
    by (auto simp: auto_restore_def exec_simps prop_of_def split: prod.splits sum.splits)
next
  case Call_Cancel_All
  then show ?thesis
    using auto_cancel_all_ok [OF assms, of env]
    by (auto simp: seq_def exec_simps split: prod.splits sum.splits)
next
  case Call_Close
  obtain s' where "auto_close env s = (Inr (), s')" "driver_ok s'" by (rule auto_close_ok [OF assms])
  with Call_Close show ?thesis by (simp add: seq_def exec_simps)
qed (use assms in \<open>simp_all add: auto_initialize_ok on_client_ok auto_permissions_def auto_frontmost_def auto_focus_def
      auto_send_keys_def auto_capture_def\<close>)

definition driver_run :: "'w driver_env \<Rightarrow> driver_call list \<Rightarrow> 'w auto_driver \<Rightarrow> 'w auto_driver" where
  "driver_run env = fold (\<lambda>op s. snd (driver_op env op s))"

lemma driver_run_ok: "driver_ok s \<Longrightarrow> driver_ok (driver_run env ops s)"
  unfolding driver_run_def by (induction ops arbitrary: s) (simp_all add: driver_op_ok)

subsection \<open>Properties\<close>

text \<open>
  C19: The driver never loses a connection. After any sequence of calls, whatever the driver process does, the
  connections that are open are exactly the one the driver holds, or none; the control connection of
  \<open>cancelAll\<close> and every connection whose handshake failed have been closed; and a driver without a connection
  reports the capabilities of an unavailable one.
\<close>

theorem driver_holds_its_connections:
  "case ad_client (driver_run env ops (new_auto_driver w)) of
     None \<Rightarrow> open_connections (driver_run env ops (new_auto_driver w)) = {} \<and>
       ad_capabilities (driver_run env ops (new_auto_driver w)) = unavailable_capabilities
   | Some n \<Rightarrow> open_connections (driver_run env ops (new_auto_driver w)) = {n}"
  using driver_run_ok [OF new_driver_ok, of env ops w] by (auto simp: driver_ok_def split: option.split)

text \<open>
  Every timer of the driver's client is set for a whole number of milliseconds between 1 and 120000, after
  any sequence of events, and the time \<open>focusEmacs\<close> computes is never refused, whatever the option says: it
  lies between 5000 and 35000.
\<close>

theorem driver_delays_bounded:
  "list_all (\<lambda>t. \<not> bad_timeout (at_timeout t)) (bc_timers (fold (driver_step stringify parse uuid) es new_client_state)) \<and>
   \<not> bad_timeout (focus_timeout options) \<and> jn_le (Fin 5000) (focus_timeout options) \<and>
   jn_le (focus_timeout options) (Fin 35000)"
proof -
  have "timers_bounded new_client_state" by (simp add: timers_bounded_def new_client_state_def)
  from driver_run_bounded [OF this] focus_timeout_range [of options] show ?thesis
    by (auto simp: timers_bounded_def list_all_iff bad_timeout_def jn_le_def integer_num_Ints
        simp del: is_integer_num.simps)
qed

text \<open>
  A request to the driver ends in exactly one way. In every run its promise gets a result only from a complete
  message with its identifier that carries no error object; and once the timers have fired every request is settled.
\<close>

theorem driver_requests_answered:
  assumes "n < bc_requests (fold (driver_step stringify parse uuid) es new_client_state)"
  shows "(\<exists>r. settled_of (fold driver_on_timer [0..<bc_requests (fold (driver_step stringify parse uuid) es new_client_state)]
        (fold (driver_step stringify parse uuid) es new_client_state)) n = Some r) \<and>
    (settled_of (fold (driver_step stringify parse uuid) es new_client_state) n = Some (Inr v) \<longrightarrow>
      (\<exists>es1 chunk es2. es = es1 @ Driver_Data chunk # es2 \<and>
        answers driver_outcome parse chunk (fold (driver_step stringify parse uuid) es1 new_client_state) n v))"
proof
  show "\<exists>r. settled_of (fold driver_on_timer [0..<bc_requests (fold (driver_step stringify parse uuid) es new_client_state)]
        (fold (driver_step stringify parse uuid) es new_client_state)) n = Some r"
    unfolding driver_on_timer_def using driver.run_settles [OF assms] .
  show "settled_of (fold (driver_step stringify parse uuid) es new_client_state) n = Some (Inr v) \<longrightarrow>
      (\<exists>es1 chunk es2. es = es1 @ Driver_Data chunk # es2 \<and>
        answers driver_outcome parse chunk (fold (driver_step stringify parse uuid) es1 new_client_state) n v)"
    using driver.run_answered [OF new_client_ok, where n = n and es = es]
    by (fastforce simp: new_client_state_def elim: driver_received.elims)
qed

definition example_driver_events :: "driver_event list" where
  "example_driver_events = [Driver_Connect, Driver_Connected, Driver_Initialize (Inr ''token'')]"

definition example_driver_client :: rpc_client where
  "example_driver_client =
     fold (driver_step (\<lambda>v. ''{}'') (\<lambda>s. Inr JNull) (\<lambda>n. ''u'')) example_driver_events new_client_state"

theorem driver_requests_answered_witness:
  "settled_of (fold driver_on_timer [0..<bc_requests example_driver_client] example_driver_client) 0 \<noteq> None"
proof -
  have "0 < bc_requests example_driver_client"
    by (simp add: example_driver_client_def example_driver_events_def new_client_state_def client_connect_def
        on_connect_def driver_initialize_def driver_request_def Let_def bad_timeout_def)
  then show ?thesis
    using driver_requests_answered [of 0 "\<lambda>v. ''{}''" "\<lambda>s. Inr JNull" "\<lambda>n. ''u''" example_driver_events JNull]
    by (auto simp: example_driver_client_def)
qed

end
