(* ===== verification/RenamePlan.thy ===== *)
theory RenamePlan
  imports SymbolSemantics Policy "HOL-Library.List_Lexorder" "HOL-Library.Char_ord"
begin

text \<open>
  \<open>packages/refactor-intelligence/src/rename-plan.ts\<close>: the plan that renames a symbol in the files of a
  project, its integrity check, and its application to texts. The digest (\<open>createHash\<close> of
  \<open>node:crypto\<close>), the JSON text of a leaf (\<open>JSON.stringify\<close>) and the order of \<open>localeCompare\<close> are
  arguments: \<open>sha\<close>, \<open>stringify\<close> and \<open>collate\<close>. A plan that is read back is data of the same shape;
  its positions may be any numbers.
\<close>

datatype rename_error = Symbol_Problem symbol_error | Plan_Problem string

record planned_edit =
  pe_start :: jnum
  pe_end :: jnum
  pe_line :: nat
  pe_column :: nat
  pe_old_text :: string
  pe_new_text :: string

record planned_file =
  pf_path :: string
  pf_sha256 :: string
  pf_bytes :: nat
  pf_edits :: "planned_edit list"
  pf_diagnostics :: "diagnostic list"

record rename_limits =
  rl_max_files :: jnum
  rl_max_bytes :: jnum
  rl_max_edits :: jnum

record rename_plan =
  rp_version :: jval
  rp_kind :: string
  rp_root :: string
  rp_language :: lisp_language
  rp_policy :: string
  rp_old_symbol :: string
  rp_requested_new :: string
  rp_new_symbol :: string
  rp_old_semantics :: descriptor
  rp_new_semantics :: descriptor
  rp_files :: "planned_file list"
  rp_total_edits :: nat
  rp_limits :: rename_limits
  rp_plan_id :: string

subsection \<open>The identity of a plan\<close>

text \<open>\<open>canonical\<close>: JSON with the keys of every object in order.\<close>

fun canonical :: "(jval \<Rightarrow> string) \<Rightarrow> jval \<Rightarrow> string" where
  "canonical stringify (JArr xs) = ''['' @ join '','' (map (canonical stringify) xs) @ '']''"
| "canonical stringify (JObj kvs) =
     ''{'' @ join '','' (map (\<lambda>(k, v). stringify (JStr k) @ '':'' @ v)
       (sort_key fst (map (\<lambda>(k, v). (k, canonical stringify v)) kvs))) @ ''}''"
| "canonical stringify v = stringify v"

definition edit_json :: "planned_edit \<Rightarrow> jval" where
  "edit_json e = JObj [(''start'', JNum (pe_start e)), (''end'', JNum (pe_end e)), (''line'', jnat (pe_line e)),
     (''column'', jnat (pe_column e)), (''old_text'', JStr (pe_old_text e)), (''new_text'', JStr (pe_new_text e))]"

definition diagnostic_json :: "diagnostic \<Rightarrow> jval" where
  "diagnostic_json d = JObj [(''code'', JStr (dg_code d)), (''offset'', jnat (dg_offset d))]"

definition file_json :: "planned_file \<Rightarrow> jval" where
  "file_json f = JObj [(''path'', JStr (pf_path f)), (''sha256'', JStr (pf_sha256 f)), (''bytes'', jnat (pf_bytes f)),
     (''edits'', JArr (map edit_json (pf_edits f))), (''diagnostics'', JArr (map diagnostic_json (pf_diagnostics f)))]"

definition body_json :: "rename_plan \<Rightarrow> jval" where
  "body_json p = JObj [(''version'', rp_version p), (''kind'', JStr (rp_kind p)), (''root'', JStr (rp_root p)),
     (''language'', JStr (language_str (rp_language p))), (''qualification_policy'', JStr (rp_policy p)),
     (''old_symbol'', JStr (rp_old_symbol p)), (''requested_new_symbol'', JStr (rp_requested_new p)),
     (''new_symbol'', JStr (rp_new_symbol p)),
     (''symbol_semantics'', JObj [(''old'', descriptor_json (rp_old_semantics p)),
        (''new'', descriptor_json (rp_new_semantics p))]),
     (''files'', JArr (map file_json (rp_files p))), (''total_edits'', jnat (rp_total_edits p)),
     (''limits'', JObj [(''max_files'', JNum (rl_max_files (rp_limits p))),
        (''max_bytes'', JNum (rl_max_bytes (rp_limits p))), (''max_edits'', JNum (rl_max_edits (rp_limits p)))])]"

definition plan_digest :: "(string \<Rightarrow> string) \<Rightarrow> (jval \<Rightarrow> string) \<Rightarrow> rename_plan \<Rightarrow> string" where
  "plan_digest sha stringify p = sha (canonical stringify (body_json p))"

subsection \<open>Making a plan\<close>

definition path_outside :: "string \<Rightarrow> bool" where
  "path_outside rel \<longleftrightarrow> starts_with rel ''..'' \<or> starts_with rel ''/''"

definition normalized_relative :: "string \<Rightarrow> string \<Rightarrow> rename_error + string" where
  "normalized_relative root_dir file_path =
     (let abs_path = path_resolve root_dir file_path;
          rel = path_relative root_dir (path_resolve root_dir root_dir) abs_path in
      if rel = [] \<or> path_outside rel
      then Inl (Plan_Problem (''file is outside project root: '' @ file_path))
      else Inr rel)"

definition edit_of :: "string \<Rightarrow> string \<Rightarrow> token \<Rightarrow> planned_edit" where
  "edit_of old_symbol new_symbol t =
     (case tok_position t of
        Some (line, column) \<Rightarrow> \<lparr>pe_start = Fin (of_nat (tok_start t)), pe_end = Fin (of_nat (tok_end t)),
          pe_line = line, pe_column = column, pe_old_text = old_symbol, pe_new_text = new_symbol\<rparr>
      | None \<Rightarrow> \<lparr>pe_start = Fin (of_nat (tok_start t)), pe_end = Fin (of_nat (tok_end t)),
          pe_line = 0, pe_column = 0, pe_old_text = old_symbol, pe_new_text = new_symbol\<rparr>)"

definition is_occurrence :: "string \<Rightarrow> token \<Rightarrow> bool" where
  "is_occurrence symbol t \<longleftrightarrow> tok_type t = Symbol_Token \<and> tok_value t = symbol"

definition edits_for :: "string \<Rightarrow> string \<Rightarrow> string \<Rightarrow> planned_edit list \<times> diagnostic list" where
  "edits_for content old_symbol new_symbol =
     (case scan_lisp False content of (tokens, diagnostics) \<Rightarrow>
       (map (edit_of old_symbol new_symbol) (filter (is_occurrence old_symbol) tokens), diagnostics))"

text \<open>The loop over the files: the plans of the files with edits, the bytes and the edits so far.\<close>

fun plan_files ::
  "(string \<Rightarrow> string) \<Rightarrow> string \<Rightarrow> rename_limits \<Rightarrow> string \<Rightarrow> string \<Rightarrow> jval list \<Rightarrow> nat \<Rightarrow> nat \<Rightarrow>
   rename_error + planned_file list \<times> nat" where
  "plan_files sha root_dir limits old_symbol new_symbol [] total_bytes total_edits = Inr ([], total_edits)"
| "plan_files sha root_dir limits old_symbol new_symbol (file # files) total_bytes total_edits =
     (case (get_prop file ''path'', get_prop file ''content'') of
        (JStr path, JStr content) \<Rightarrow>
          andthen (normalized_relative root_dir path) (\<lambda>rel.
          let total_bytes' = total_bytes + utf8_length content in
          if jn_less (rl_max_bytes limits) (Fin (of_nat total_bytes'))
          then Inl (Plan_Problem (''rename plan exceeds maxBytes='' @ js_string (JNum (rl_max_bytes limits))))
          else (case edits_for content old_symbol new_symbol of (edits, diagnostics) \<Rightarrow>
            let total_edits' = total_edits + length edits in
            if jn_less (rl_max_edits limits) (Fin (of_nat total_edits'))
            then Inl (Plan_Problem (''rename plan exceeds maxEdits='' @ js_string (JNum (rl_max_edits limits))))
            else
            andthen (plan_files sha root_dir limits old_symbol new_symbol files total_bytes' total_edits') (\<lambda>(planned, n).
              Inr ((if edits = [] then []
                else [\<lparr>pf_path = rel, pf_sha256 = sha content, pf_bytes = utf8_length content,
                       pf_edits = edits, pf_diagnostics = diagnostics\<rparr>]) @ planned, n))))
      | _ \<Rightarrow> Inl (Plan_Problem ''each file requires path and content''))"

text \<open>\<open>planned.sort\<close> with a comparison, stable.\<close>

fun insert_file :: "(string \<Rightarrow> string \<Rightarrow> bool) \<Rightarrow> planned_file \<Rightarrow> planned_file list \<Rightarrow> planned_file list" where
  "insert_file collate f [] = [f]"
| "insert_file collate f (g # fs) =
     (if collate (pf_path f) (pf_path g) then f # g # fs else g # insert_file collate f fs)"

definition sort_files :: "(string \<Rightarrow> string \<Rightarrow> bool) \<Rightarrow> planned_file list \<Rightarrow> planned_file list" where
  "sort_files collate fs = foldr (insert_file collate) fs []"

definition limit_or :: "jval \<Rightarrow> string \<Rightarrow> rat \<Rightarrow> jnum" where
  "limit_or limits key fallback = (case get_prop limits key of JNum n \<Rightarrow> n | _ \<Rightarrow> Fin fallback)"

definition plan_limits :: "jval \<Rightarrow> rename_limits" where
  "plan_limits limits = \<lparr>rl_max_files = limit_or limits ''maxFiles'' 500,
     rl_max_bytes = limit_or limits ''maxBytes'' (16 * 1024 * 1024),
     rl_max_edits = limit_or limits ''maxEdits'' 10000\<rparr>"

definition create_project_rename_plan ::
  "(string \<Rightarrow> string) \<Rightarrow> (jval \<Rightarrow> string) \<Rightarrow> (string \<Rightarrow> string \<Rightarrow> bool) \<Rightarrow> jval \<Rightarrow> jval \<Rightarrow> string \<Rightarrow> string \<Rightarrow>
   string option \<Rightarrow> string option \<Rightarrow> jval \<Rightarrow> rename_error + rename_plan" where
  "create_project_rename_plan sha stringify collate root_arg files old_symbol new_symbol language qualification limits_arg =
     (case prepare_symbol_rename old_symbol new_symbol language qualification of
        Inl e \<Rightarrow> Inl (Symbol_Problem e)
      | Inr semantics \<Rightarrow>
          (case root_arg of
             JStr root_dir \<Rightarrow>
               if \<not> starts_with root_dir ''/'' then Inl (Plan_Problem ''root must be an absolute path'')
               else
               (case files of
                  JArr fs \<Rightarrow>
                    let limits = plan_limits limits_arg; new = pr_effective_new semantics in
                    if jn_less (rl_max_files limits) (Fin (of_nat (length fs)))
                    then Inl (Plan_Problem (''rename plan exceeds maxFiles='' @ js_string (JNum (rl_max_files limits))))
                    else andthen (plan_files sha root_dir limits old_symbol new fs 0 0) (\<lambda>(planned, total_edits).
                      let body = \<lparr>rp_version = jint 1, rp_kind = ''lisp_project_rename'',
                        rp_root = path_resolve root_dir root_dir, rp_language = pr_language semantics,
                        rp_policy = pr_policy semantics, rp_old_symbol = old_symbol,
                        rp_requested_new = new_symbol, rp_new_symbol = new,
                        rp_old_semantics = pr_old semantics, rp_new_semantics = pr_new semantics,
                        rp_files = sort_files collate planned, rp_total_edits = total_edits,
                        rp_limits = limits, rp_plan_id = []\<rparr> in
                      Inr (body\<lparr>rp_plan_id := plan_digest sha stringify body\<rparr>))
                | _ \<Rightarrow> Inl (Plan_Problem ''files must be an array''))
           | _ \<Rightarrow> Inl (Plan_Problem ''root must be an absolute path'')))"

subsection \<open>Checking a plan\<close>

fun check_edits :: "rename_plan \<Rightarrow> jnum \<Rightarrow> planned_edit list \<Rightarrow> rename_error + unit" where
  "check_edits plan previous [] = Inr ()"
| "check_edits plan previous (e # es) =
     (if \<not> is_integer_num (pe_start e) \<or> \<not> is_integer_num (pe_end e) \<or> jn_less (pe_start e) (Fin 0) \<or>
         jn_le (pe_end e) (pe_start e)
      then Inl (Plan_Problem ''invalid edit bounds'')
      else if jn_less (pe_start e) previous
      then Inl (Plan_Problem ''edits must be sorted and non-overlapping'')
      else if pe_old_text e \<noteq> rp_old_symbol plan \<or> pe_new_text e \<noteq> rp_new_symbol plan
      then Inl (Plan_Problem ''edit does not match plan symbols'')
      else check_edits plan (pe_end e) es)"

fun check_files :: "rename_plan \<Rightarrow> planned_file list \<Rightarrow> rename_error + unit" where
  "check_files plan [] = Inr ()"
| "check_files plan (f # fs) = andthen (check_edits plan (Fin (- 1)) (pf_edits f)) (\<lambda>_. check_files plan fs)"

definition validate_rename_plan :: "(string \<Rightarrow> string) \<Rightarrow> (jval \<Rightarrow> string) \<Rightarrow> rename_plan \<Rightarrow> rename_error + unit" where
  "validate_rename_plan sha stringify plan =
     (if rp_version plan \<noteq> jint 1 \<or> rp_kind plan \<noteq> ''lisp_project_rename''
      then Inl (Plan_Problem ''unsupported rename plan'')
      else if plan_digest sha stringify plan \<noteq> rp_plan_id plan
      then Inl (Plan_Problem ''rename plan integrity check failed'')
      else check_files plan (rp_files plan))"

subsection \<open>Applying a plan\<close>

definition num_int :: "jnum \<Rightarrow> int" where
  "num_int n = (case n of Fin q \<Rightarrow> \<lfloor>q\<rfloor> | _ \<Rightarrow> 0)"

fun apply_edit_list :: "planned_file \<Rightarrow> planned_edit list \<Rightarrow> string \<Rightarrow> rename_error + string" where
  "apply_edit_list file [] result = Inr result"
| "apply_edit_list file (e # es) result =
     (let a = nat (num_int (pe_start e)); b = nat (num_int (pe_end e)) in
      if slice a b result \<noteq> pe_old_text e
      then Inl (Plan_Problem (''stale edit at '' @ pf_path file @ '':'' @ dec_str (pe_line e) @ '':'' @ dec_str (pe_column e)))
      else apply_edit_list file es (take a result @ pe_new_text e @ drop b result))"

definition apply_edits :: "(string \<Rightarrow> string) \<Rightarrow> string \<Rightarrow> planned_file \<Rightarrow> rename_error + string" where
  "apply_edits sha content file =
     (if sha content \<noteq> pf_sha256 file then Inl (Plan_Problem (''stale file: '' @ pf_path file))
      else apply_edit_list file (sort_key (\<lambda>e. - num_int (pe_start e)) (pf_edits file)) content)"

fun apply_files :: "(string \<Rightarrow> string) \<Rightarrow> planned_file list \<Rightarrow> (string, string) js_map \<Rightarrow> rename_error + (string, string) js_map" where
  "apply_files sha [] output' = Inr output'"
| "apply_files sha (f # fs) output' =
     (case map_of output' (pf_path f) of
        None \<Rightarrow> Inl (Plan_Problem (''missing file content: '' @ pf_path f))
      | Some content \<Rightarrow>
          andthen (apply_edits sha content f) (\<lambda>changed. apply_files sha fs (AList.update (pf_path f) changed output')))"

definition apply_rename_plan_to_map ::
  "(string \<Rightarrow> string) \<Rightarrow> (jval \<Rightarrow> string) \<Rightarrow> rename_plan \<Rightarrow> (string, string) js_map \<Rightarrow>
   rename_error + (string, string) js_map" where
  "apply_rename_plan_to_map sha stringify plan contents =
     andthen (validate_rename_plan sha stringify plan) (\<lambda>_. apply_files sha (rp_files plan) contents)"

end
