(* ===== verification/Brackets.thy ===== *)
theory Brackets
  imports Prelude
begin

text \<open>
  The grammar of balanced brackets of three kinds, and how a stack of open brackets is closed by
  the rest of a sequence. The checks of the scanner and of the benchmark are compared with it.
\<close>

inductive bracket_pair :: "string \<Rightarrow> string \<Rightarrow> bool" where
  "bracket_pair ''('' '')''"
| "bracket_pair ''['' '']''"
| "bracket_pair ''{'' ''}''"

inductive balanced :: "string list \<Rightarrow> bool" where
  empty: "balanced []"
| nest: "bracket_pair a b \<Longrightarrow> balanced xs \<Longrightarrow> balanced ys \<Longrightarrow> balanced (a # xs @ b # ys)"

inductive_simps balanced_Cons: "balanced (x # xs)"
inductive_simps bracket_pair_iff: "bracket_pair a b"

text \<open>The brackets that close a stack of open ones.\<close>

fun closes_stack :: "string list \<Rightarrow> string list \<Rightarrow> bool" where
  "closes_stack [] ds = balanced ds"
| "closes_stack (a # st) ds = (\<exists>xs b ys. ds = xs @ b # ys \<and> balanced xs \<and> bracket_pair a b \<and> closes_stack st ys)"

lemma closes_stackI:
  "balanced xs \<Longrightarrow> bracket_pair a b \<Longrightarrow> closes_stack st ys \<Longrightarrow> closes_stack (a # st) (xs @ b # ys)"
  by auto

lemma closes_stackE:
  assumes "closes_stack (a # st) ds"
  obtains xs b ys where "ds = xs @ b # ys" "balanced xs" "bracket_pair a b" "closes_stack st ys"
  using assms by auto

declare closes_stack.simps(2) [simp del]

lemma closes_open:
  assumes "a \<in> {''('', ''['', ''{''}"
  shows "closes_stack (a # st) ds \<longleftrightarrow> closes_stack st (a # ds)"
proof
  assume "closes_stack (a # st) ds"
  then obtain xs b ys where ds: "ds = xs @ b # ys" "balanced xs" "bracket_pair a b" "closes_stack st ys" by (rule closes_stackE)
  show "closes_stack st (a # ds)"
  proof (cases st)
    case Nil
    with ds show ?thesis by (auto intro: balanced.nest)
  next
    case (Cons a2 st')
    with ds obtain xs2 b2 ys2 where 2: "ys = xs2 @ b2 # ys2" "balanced xs2" "bracket_pair a2 b2" "closes_stack st' ys2"
      by (auto elim: closes_stackE)
    have "balanced (a # xs @ b # xs2)" using ds(3,2) 2(2) by (rule balanced.nest)
    from closes_stackI [OF this 2(3,4)] show ?thesis using ds(1) Cons 2(1) by simp
  qed
next
  assume closes: "closes_stack st (a # ds)"
  show "closes_stack (a # st) ds"
  proof (cases st)
    case Nil
    with closes show ?thesis by (auto simp: balanced_Cons intro: closes_stackI)
  next
    case (Cons a2 st')
    with closes obtain xs b ys where split: "a # ds = xs @ b # ys" "balanced xs" "bracket_pair a2 b" "closes_stack st' ys"
      by (auto elim: closes_stackE)
    have "b \<noteq> a" using split(3) assms by (auto simp: bracket_pair_iff)
    then obtain xs' where xs: "xs = a # xs'" using split(1) by (cases xs) auto
    with split(2) obtain zs c ws where 2: "xs' = zs @ c # ws" "bracket_pair a c" "balanced zs" "balanced ws"
      by (auto simp: balanced_Cons)
    have "closes_stack st (ws @ b # ys)" unfolding Cons using 2(4) split(3,4) by (rule closes_stackI)
    from closes_stackI [OF 2(3,2) this] show ?thesis using 2(1) split(1) xs by simp
  qed
qed

lemma closes_close:
  assumes "b \<in> {'')'', '']'', ''}''}"
  shows "closes_stack (a # st) (b # ds) \<longleftrightarrow> bracket_pair a b \<and> closes_stack st ds" "\<not> closes_stack [] (b # ds)"
proof -
  have no: "\<not> balanced (b # xs)" for xs using assms by (auto simp: balanced_Cons bracket_pair_iff)
  then show "\<not> closes_stack [] (b # ds)" by simp
  show "closes_stack (a # st) (b # ds) \<longleftrightarrow> bracket_pair a b \<and> closes_stack st ds"
  proof
    assume "closes_stack (a # st) (b # ds)"
    then obtain xs c ys where "b # ds = xs @ c # ys" "balanced xs" "bracket_pair a c" "closes_stack st ys"
      by (rule closes_stackE)
    moreover from this no have "xs = []" by (cases xs) auto
    ultimately show "bracket_pair a b \<and> closes_stack st ds" by simp
  next
    assume "bracket_pair a b \<and> closes_stack st ds"
    then show "closes_stack (a # st) (b # ds)" using closes_stackI [OF balanced.empty, of a b st ds] by simp
  qed
qed

end
