(* ===== verification/ScannerProps.thy ===== *)
theory ScannerProps
  imports Scanner Brackets
begin

text \<open>
  Properties of the Lisp scanner: the tokens are slices of the text, in order and apart; with the
  trivia they cover all of it but white space; the delimiter check decides the Dyck language of the
  three kinds of brackets.
\<close>

subsection \<open>Bounds of the helpers\<close>

lemma skip_block_le: "fst (skip_block d s) \<le> length s"
  by (induction d s rule: skip_block.induct) (auto simp: apfst_def split: prod.splits)

lemma skip_string_le: "fst (skip_string s) \<le> length s"
  by (induction s rule: skip_string.induct) (auto simp: apfst_def split: prod.splits)

lemma take_symbol_prefix: "take (length (take_symbol s)) s = take_symbol s"
  by (induction s) auto

lemma take_symbol_le: "length (take_symbol s) \<le> length s"
  by (induction s) auto

lemma take_symbol_not_Nil:
  "s \<noteq> [] \<Longrightarrow> \<not> is_ws (hd s) \<Longrightarrow> hd s \<notin> DELIMITERS \<Longrightarrow> \<not> starts_with s ''#|'' \<Longrightarrow> take_symbol s \<noteq> []"
  by (cases s) auto

lemma delimiters_handled:
  "c \<in> DELIMITERS \<Longrightarrow> c = CHR '';'' \<or> c = DQUOTE \<or> c \<in> set plain_delimiters"
  by (auto simp: DELIMITERS_def plain_delimiters_def)

subsection \<open>One round\<close>

definition token_in :: "string \<Rightarrow> nat \<Rightarrow> nat \<Rightarrow> token \<Rightarrow> bool" where
  "token_in src a b t \<longleftrightarrow> a \<le> tok_start t \<and> tok_start t < tok_end t \<and> tok_end t \<le> b \<and> b \<le> length src \<and>
     tok_value t = slice (tok_start t) (tok_end t) src"

lemma token_in_mono: "token_in src a b t \<Longrightarrow> a' \<le> a \<Longrightarrow> b \<le> b' \<Longrightarrow> b' \<le> length src \<Longrightarrow> token_in src a' b' t"
  by (simp add: token_in_def)

lemma starts_with_two: "starts_with s [a, b] \<Longrightarrow> 2 \<le> length s \<and> take 2 s = [a, b]"
  by (cases s rule: list.exhaust [case_product list.exhaust]; cases "tl s") (auto simp: starts_with_def)

definition covers :: "nat \<Rightarrow> string \<Rightarrow> nat \<Rightarrow> token list \<Rightarrow> bool" where
  "covers i s n ts \<longleftrightarrow> (\<exists>t. ts = [t] \<and> tok_start t = i \<and> tok_end t = i + n \<and> tok_value t = take n s)"

lemma scan_kinds:
  obtains (ws) "is_ws (hd s)" | (comment) "\<not> is_ws (hd s)" "hd s = CHR '';''"
    | (block) "\<not> is_ws (hd s)" "hd s \<noteq> CHR '';''" "starts_with s ''#|''"
    | (string_) "\<not> is_ws (hd s)" "hd s \<noteq> CHR '';''" "\<not> starts_with s ''#|''" "hd s = DQUOTE"
    | (reader) "\<not> is_ws (hd s)" "hd s \<noteq> CHR '';''" "\<not> starts_with s ''#|''" "hd s \<noteq> DQUOTE"
        "starts_with s ''#_'' \<or> starts_with s '',@'' \<or> starts_with s [CHR ''#'', SQUOTE]"
    | (delimiter) "\<not> is_ws (hd s)" "hd s \<noteq> CHR '';''" "\<not> starts_with s ''#|''" "hd s \<noteq> DQUOTE"
        "\<not> starts_with s ''#_''" "\<not> starts_with s '',@''" "\<not> starts_with s [CHR ''#'', SQUOTE]" "hd s \<in> set plain_delimiters"
    | (symbol) "\<not> is_ws (hd s)" "hd s \<noteq> CHR '';''" "\<not> starts_with s ''#|''" "hd s \<noteq> DQUOTE"
        "\<not> starts_with s ''#_''" "\<not> starts_with s '',@''" "\<not> starts_with s [CHR ''#'', SQUOTE]" "hd s \<notin> set plain_delimiters"
  by blast

text \<open>A round makes at most one token; it is all that the round passes. Only trivia are passed without.\<close>

lemma scan_step_tokens:
  assumes "s \<noteq> []" "scan_step trivia_on src i s = (ts, ds, n)"
  shows "n \<le> length s \<and> (ts = [] \<or> covers i s n ts) \<and> (trivia_on \<longrightarrow> covers i s n ts \<or> n = 1 \<and> is_ws (hd s))"
proof -
  note two = starts_with_two [of s]
  show ?thesis
  proof (cases s rule: scan_kinds)
    case ws
    then show ?thesis using assms by (cases s) (auto simp: scan_step_def)
  next
    case comment
    then show ?thesis
      using assms length_takeWhile_le [of "\<lambda>c. c \<noteq> LF" s] by (auto simp: scan_step_def trivia_def covers_def Let_def)
  next
    case block
    then show ?thesis
      using assms skip_block_le [of 1 "drop 2 s"] two [of "CHR ''#''" "CHR ''|''"]
      by (auto simp: scan_step_def trivia_def covers_def split: prod.splits)
  next
    case string_
    then show ?thesis
      using assms skip_string_le [of "tl s"]
      by (cases s) (auto simp: scan_step_def trivia_def covers_def Let_def split: prod.splits)
  next
    case reader
    then show ?thesis
      using assms two [of "CHR ''#''" "CHR ''_''"] two [of "CHR '',''" "CHR ''@''"] two [of "CHR ''#''" SQUOTE]
      by (auto simp: scan_step_def covers_def Let_def split: if_splits)
  next
    case delimiter
    then show ?thesis
      using assms by (cases s) (auto simp: scan_step_def covers_def Let_def)
  next
    case symbol
    then have "take_symbol s \<noteq> []"
      using assms(1) delimiters_handled [of "hd s"] by (intro take_symbol_not_Nil) auto
    then show ?thesis
      using symbol assms take_symbol_le [of s] take_symbol_prefix [of s]
      by (auto simp: scan_step_def covers_def Let_def)
  qed
qed

subsection \<open>The whole scan\<close>

lemma scan_from_Nil [simp]: "scan_from trivia_on src i [] = ([], [])"
  by (simp add: scan_from.simps)

lemma scan_from_step:
  assumes "s \<noteq> []" "scan_step trivia_on src i s = (ts, ds, n)"
  shows "scan_from trivia_on src i s =
    (ts @ fst (scan_from trivia_on src (i + n) (drop n s)), ds @ snd (scan_from trivia_on src (i + n) (drop n s)))"
  using assms by (subst scan_from.simps) (simp split: prod.split)

lemma covers_token:
  assumes "covers i (drop i src) n ts" "0 < n" "n \<le> length (drop i src)" "i \<le> length src" "t \<in> set ts"
  shows "token_in src i (i + n) t"
  using assms by (auto simp: covers_def token_in_def slice_def)

lemma scan_from_tokens:
  assumes "i \<le> length src" "s = drop i src"
  shows "list_all (token_in src i (length src)) (fst (scan_from trivia_on src i s)) \<and>
    sorted_wrt (\<lambda>a b. tok_end a \<le> tok_start b) (fst (scan_from trivia_on src i s))"
  using assms
proof (induction trivia_on src i s rule: scan_from.induct)
  case (1 trivia_on src i s)
  show ?case
  proof (cases "s = []")
    case False
    obtain ts ds n where step: "scan_step trivia_on src i s = (ts, ds, n)" by (metis prod_cases3)
    have n: "0 < n" "n \<le> length s" and ts: "ts = [] \<or> covers i s n ts"
      using scan_step_progress [OF False step] scan_step_tokens [OF False step] by auto
    let ?rest = "fst (scan_from trivia_on src (i + n) (drop n s))"
    have rest: "list_all (token_in src (i + n) (length src)) ?rest" "sorted_wrt (\<lambda>a b. tok_end a \<le> tok_start b) ?rest"
      using "1.IH" [OF False step [symmetric] refl] "1.prems" n by (auto simp: add.commute)
    have bound: "i + n \<le> length src" using n "1.prems" by simp
    have new: "\<forall>t \<in> set ts. token_in src i (i + n) t"
      using ts covers_token [of i src n ts] n "1.prems" by auto
    then have "\<forall>t \<in> set ts. \<forall>t' \<in> set ?rest. tok_end t \<le> tok_start t'"
      using rest(1) by (fastforce simp: token_in_def list_all_iff)
    moreover have "sorted_wrt (\<lambda>a b. tok_end a \<le> tok_start b) ts" using ts by (auto simp: covers_def)
    moreover have "list_all (token_in src i (length src)) (ts @ ?rest)"
      using new rest(1) bound by (auto simp: list_all_iff intro: token_in_mono)
    ultimately show ?thesis
      using rest(2) by (simp add: scan_from_step [OF False step] sorted_wrt_append)
  qed simp
qed

lemma scan_from_covers:
  assumes "i \<le> length src" "s = drop i src" "i \<le> p" "p < length src"
  shows "is_ws (src ! p) \<or> (\<exists>t \<in> set (fst (scan_from True src i s)). tok_start t \<le> p \<and> p < tok_end t)"
  using assms
proof (induction True src i s rule: scan_from.induct)
  case (1 src i s)
  have False': "s \<noteq> []" using "1.prems" by simp
  obtain ts ds n where step: "scan_step True src i s = (ts, ds, n)" by (metis prod_cases3)
  have n: "0 < n" "n \<le> length s" and ts: "covers i s n ts \<or> n = 1 \<and> is_ws (hd s)"
    using scan_step_progress [OF False' step] scan_step_tokens [OF False' step] by auto
  show ?case
  proof (cases "p < i + n")
    case True
    from ts show ?thesis
    proof
      assume "n = 1 \<and> is_ws (hd s)"
      moreover from this have "p = i" using True "1.prems"(3) by simp
      ultimately show ?thesis using "1.prems" by (simp add: hd_drop_conv_nth)
    next
      assume "covers i s n ts"
      with True "1.prems"(3) show ?thesis by (auto simp: scan_from_step [OF False' step] covers_def)
    qed
  next
    case False
    then have "is_ws (src ! p) \<or>
        (\<exists>t \<in> set (fst (scan_from True src (i + n) (drop n s))). tok_start t \<le> p \<and> p < tok_end t)"
      using "1.hyps" [OF False' step [symmetric] refl] "1.prems" n by (simp add: add.commute)
    moreover have "set (fst (scan_from True src (i + n) (drop n s))) \<subseteq> set (fst (scan_from True src i s))"
      by (simp add: scan_from_step [OF False' step])
    ultimately show ?thesis by blast
  qed
qed

subsection \<open>Balanced delimiters\<close>

definition brackets :: "token list \<Rightarrow> string list" where
  "brackets ts = map tok_value (filter (\<lambda>t. tok_type t = Delimiter_Token \<and>
     tok_value t \<in> {''('', ''['', ''{'', '')'', '']'', ''}''}) ts)"

lemma balance_loop_iff:
  assumes "\<forall>t \<in> set stack. tok_value t \<in> {''('', ''['', ''{''}"
  shows "balance_loop stack ts = ([], []) \<longleftrightarrow> closes_stack (map tok_value stack) (brackets ts)"
  using assms
proof (induction ts arbitrary: stack)
  case Nil
  then show ?case by (cases stack) (auto simp: brackets_def balanced.empty elim: closes_stackE)
next
  case (Cons t ts)
  consider (other) "tok_type t \<noteq> Delimiter_Token \<or> tok_value t \<notin> {''('', ''['', ''{'', '')'', '']'', ''}''}"
    | (opens) "tok_type t = Delimiter_Token" "tok_value t \<in> {''('', ''['', ''{''}"
    | (closes') "tok_type t = Delimiter_Token" "tok_value t \<in> {'')'', '']'', ''}''}"
    by blast
  then show ?case
  proof cases
    case other
    then show ?thesis using Cons by (auto simp: brackets_def)
  next
    case opens
    then have "brackets (t # ts) = tok_value t # brackets ts" by (auto simp: brackets_def)
    moreover have "balance_loop stack (t # ts) = balance_loop (t # stack) ts" using opens by auto
    ultimately show ?thesis
      using Cons.IH [of "t # stack"] Cons.prems opens closes_open [OF opens(2)] by simp
  next
    case closes'
    then have bs: "brackets (t # ts) = tok_value t # brackets ts" by (auto simp: brackets_def)
    show ?thesis
    proof (cases stack)
      case Nil
      then show ?thesis using closes' bs closes_close(2) [OF closes'(2)] by (cases "balance_loop [] ts") auto
    next
      case (Cons a rest)
      then have "tok_value a = opening_of (tok_value t) \<longleftrightarrow> bracket_pair (tok_value a) (tok_value t)"
        using closes' by (auto simp: opening_of_def bracket_pair_iff)
      then show ?thesis
        using closes' bs Cons Cons.IH [of rest] \<open>\<forall>t \<in> set stack. _ t\<close> closes_close(1) [OF closes'(2)]
        by (cases "balance_loop rest ts") auto
    qed
  qed
qed

subsection \<open>Properties\<close>

text \<open>
  The scanner terminates on every text, and its tokens are slices of the text: each is not empty, is the text
  between its \<open>start\<close> and its \<open>end\<close>, and they come in order without overlapping. Hence an edit made at a
  token replaces exactly its characters.
\<close>

theorem scan_tokens_are_slices:
  "list_all (token_in src 0 (length src)) (fst (scan_lisp trivia_on src)) \<and>
   sorted_wrt (\<lambda>a b. tok_end a \<le> tok_start b) (fst (scan_lisp trivia_on src))"
  unfolding scan_lisp_def by (rule scan_from_tokens) simp_all

text \<open>
  With \<open>includeTrivia\<close> the scanner loses nothing: every character of the text is white space or lies in a
  token, comments and strings included.
\<close>

theorem scan_loses_nothing:
  assumes "p < length src"
  shows "is_ws (src ! p) \<or> (\<exists>t \<in> set (fst (scan_lisp True src)). tok_start t \<le> p \<and> p < tok_end t)"
  unfolding scan_lisp_def using assms by (intro scan_from_covers) simp_all

theorem scan_loses_nothing_witness:
  "is_ws (''(a ; b'' ! 5) \<or> (\<exists>t \<in> set (fst (scan_lisp True ''(a ; b'')). tok_start t \<le> 5 \<and> 5 < tok_end t)"
  by (rule scan_loses_nothing) simp

text \<open>
  C32: \<open>checkLispBalance\<close> decides the Dyck language: it reports \<open>balanced\<close> exactly when the scanner has no
  diagnostics and the brackets outside strings and comments are balanced in the sense of the grammar
  \<open>B = empty | ( B ) B | [ B ] B | { B } B\<close>.
\<close>

theorem check_lisp_balance_iff:
  "fst (check_lisp_balance src) \<longleftrightarrow>
     snd (scan_lisp False src) = [] \<and> balanced (brackets (fst (scan_lisp False src)))"
proof -
  obtain ts ds where scan: "scan_lisp False src = (ts, ds)" by fastforce
  obtain bs stack where loop: "balance_loop [] ts = (bs, stack)" by fastforce
  then have "bs = [] \<and> stack = [] \<longleftrightarrow> balanced (brackets ts)" using balance_loop_iff [of "[]" ts] by simp
  then show ?thesis using scan loop by (auto simp: check_lisp_balance_def)
qed

end
