(* ===== verification/RenameText.thy ===== *)
theory RenameText
  imports RenamePlan ScannerProps
begin

text \<open>
  What a rename does to a text. The reference \<open>replaced\<close> walks over the rounds of the scanner and
  writes the new symbol where a round made an occurrence of the old one, and what was there otherwise.
  Applying the edits of the plan, from the last to the first, gives that text; scanning that text again
  gives the old tokens with the symbol replaced.
\<close>

function replaced :: "string \<Rightarrow> string \<Rightarrow> string \<Rightarrow> string" where
  "replaced old new s =
     (if s = [] then []
      else case scan_step False s 0 s of (ts, ds, n) \<Rightarrow>
        (if list_ex (is_occurrence old) ts then new else take n s) @ replaced old new (drop n s))"
  by pat_completeness auto

termination
  by (relation "measure (\<lambda>(old, new, s). length s)") (auto intro: scan_step_shrinks)

declare replaced.simps [simp del]

text \<open>What a token is, apart from where it is.\<close>

definition view :: "token \<Rightarrow> token_type \<times> string" where
  "view t = (tok_type t, tok_value t)"

lemma is_occurrence_view: "is_occurrence old t \<longleftrightarrow> view t = (Symbol_Token, old)"
  by (simp add: is_occurrence_def view_def)

lemma list_ex_occurrence: "list_ex (is_occurrence old) ts \<longleftrightarrow> (Symbol_Token, old) \<in> set (map view ts)"
  by (induction ts) (auto simp: is_occurrence_view)

text \<open>A round does not depend on where it is, only on the text that follows.\<close>

definition round :: "string \<Rightarrow> (token_type \<times> string) list \<times> string list \<times> nat" where
  "round s = (case scan_step False s 0 s of (ts, ds, n) \<Rightarrow> (map view ts, map dg_code ds, n))"

lemma round_anywhere:
  "round s = (case scan_step False src i s of (ts, ds, n) \<Rightarrow> (map view ts, map dg_code ds, n))"
  unfolding round_def scan_step_def Let_def trivia_def
  by (simp add: view_def split: prod.split)

lemma round_scan_step: "scan_step False src i s = (ts, ds, n) \<Longrightarrow> round s = (map view ts, map dg_code ds, n)"
  by (simp add: round_anywhere [of s src i])

lemma round_progress: "s \<noteq> [] \<Longrightarrow> round s = (vs, ds, n) \<Longrightarrow> 0 < n \<and> n \<le> length s"
  using scan_step_progress scan_step_tokens by (auto simp: round_def split: prod.splits)

lemma replaced_Nil [simp]: "replaced old new [] = []"
  by (simp add: replaced.simps)

lemma replaced_round:
  assumes "s \<noteq> []" "round s = (vs, ds, n)"
  shows "replaced old new s =
    (if (Symbol_Token, old) \<in> set vs then new else take n s) @ replaced old new (drop n s)"
  using assms by (subst replaced.simps) (auto simp: round_def list_ex_occurrence split: prod.splits)

lemma round_symbol:
  assumes "round s = (vs, ds, n)" "(Symbol_Token, v) \<in> set vs" "s \<noteq> []"
  shows "take n s = v \<and> vs = [(Symbol_Token, v)] \<and> v = take_symbol s \<and> n = length v \<and> ds = []"
  using assms
  by (auto simp: round_def scan_step_def view_def Let_def trivia_def take_symbol_prefix split: if_splits prod.splits)

subsection \<open>The edits of a text\<close>

lemma apply_edit_list_append:
  "apply_edit_list f (xs @ ys) r = andthen (apply_edit_list f xs r) (apply_edit_list f ys)"
  by (induction f xs r rule: apply_edit_list.induct) (auto simp: Let_def)

lemma num_int_of_nat [simp]: "num_int (Fin (of_nat n)) = int n"
  by (simp add: num_int_def)

lemma num_int_add [simp]: "num_int (Fin (of_nat a + of_nat b)) = int a + int b"
  using num_int_of_nat [of "a + b"] by simp

lemma edit_of_sel [simp]:
  "pe_start (edit_of old new t) = Fin (of_nat (tok_start t))" "pe_end (edit_of old new t) = Fin (of_nat (tok_end t))"
  "pe_old_text (edit_of old new t) = old" "pe_new_text (edit_of old new t) = new"
  by (simp_all add: edit_of_def split: option.split)

definition edits_from :: "string \<Rightarrow> string \<Rightarrow> string \<Rightarrow> nat \<Rightarrow> string \<Rightarrow> planned_edit list" where
  "edits_from old new src i s =
     map (edit_of old new) (filter (is_occurrence old) (fst (scan_from False src i s)))"

lemma edits_from_apply:
  assumes "length pre = i"
  shows "apply_edit_list f (rev (edits_from old new src i s)) (pre @ s) = Inr (pre @ replaced old new s)"
  using assms
proof (induction False src i s arbitrary: pre rule: scan_from.induct)
  case (1 src i s)
  show ?case
  proof (cases "s = []")
    case True
    then show ?thesis by (simp add: edits_from_def)
  next
    case False
    obtain ts ds n where step: "scan_step False src i s = (ts, ds, n)" by (metis prod_cases3)
    note tokens = scan_step_tokens [OF False step]
    let ?first = "map (edit_of old new) (filter (is_occurrence old) ts)"
    have "edits_from old new src i s = ?first @ edits_from old new src (i + n) (drop n s)"
      by (simp add: edits_from_def scan_from_step [OF False step])
    moreover have "apply_edit_list f (rev (edits_from old new src (i + n) (drop n s))) ((pre @ take n s) @ drop n s) =
        Inr ((pre @ take n s) @ replaced old new (drop n s))"
      using "1.hyps" [OF False step [symmetric] refl, of "pre @ take n s"] "1.prems" tokens by simp
    moreover have "apply_edit_list f (rev ?first) (pre @ take n s @ replaced old new (drop n s)) =
        Inr (pre @ replaced old new s)"
    proof (cases "ts = []")
      case True
      then show ?thesis using replaced_round [OF False round_scan_step [OF step]] by simp
    next
      case no: False
      then obtain t where t: "ts = [t]" "tok_start t = i" "tok_end t = i + n" "tok_value t = take n s"
        using tokens by (auto simp: covers_def)
      show ?thesis
        using replaced_round [OF False round_scan_step [OF step], of old new] t "1.prems" tokens
        by (auto simp: is_occurrence_view view_def slice_def Let_def nat_int_add)
    qed
    ultimately show ?thesis by (simp add: apply_edit_list_append)
  qed
qed

subsection \<open>Rounds look no further\<close>

lemma apfst_add_eq: "apfst ((+) m) p = (k, b) \<longleftrightarrow> (\<exists>k'. p = (k', b) \<and> k = m + k')"
  by (cases p) auto

lemma skip_block_open: "skip_block d s = (k, False) \<Longrightarrow> k = length s"
  by (induction d s arbitrary: k rule: skip_block.induct) (auto simp: apfst_add_eq split: if_splits)

lemma skip_string_open: "skip_string s = (k, False) \<Longrightarrow> k = length s"
  by (induction s arbitrary: k rule: skip_string.induct) (auto simp: apfst_add_eq split: if_splits)

lemma skip_block_take: "skip_block d s = (k, True) \<Longrightarrow> skip_block d (take k s @ r) = (k, True)"
proof (induction d s arbitrary: k rule: skip_block.induct)
  case (4 d c e s)
  show ?case
  proof (cases "c = CHR ''#'' \<and> e = CHR ''|'' \<or> c = CHR ''|'' \<and> e = CHR ''#''")
    case True
    with "4.prems" obtain k' where k': "k = Suc (Suc k')"
      "skip_block (if c = CHR ''#'' then Suc (Suc d) else d) s = (k', True)"
      by (auto simp: apfst_add_eq)
    with True 4(1,2) show ?thesis by (auto simp: apfst_def)
  next
    case False
    then obtain k' where k': "skip_block (Suc d) (e # s) = (k', True)" "k = Suc k'"
      using "4.prems" by (auto simp: apfst_add_eq)
    then obtain m where "k' = Suc m" by (cases s; cases k') (auto simp: apfst_add_eq split: if_splits)
    with False k' "4.IH"(3) [OF _ _ k'(1)] show ?thesis by (auto simp: apfst_def)
  qed
qed auto

lemma skip_string_take: "skip_string s = (k, True) \<Longrightarrow> skip_string (take k s @ r) = (k, True)"
proof (induction s arbitrary: k rule: skip_string.induct)
  case (2 c)
  then show ?case by (cases r) auto
next
  case (3 c e s)
  show ?case
  proof (cases "c = BACKSLASH \<or> c = DQUOTE")
    case True
    show ?thesis
    proof (cases "c = BACKSLASH")
      case True
      with "3.prems" obtain k' where "k = Suc (Suc k')" "skip_string s = (k', True)"
        by (auto simp: apfst_add_eq)
      with True "3.IH"(1) show ?thesis by (auto simp: apfst_def)
    next
      case False
      with \<open>c = BACKSLASH \<or> c = DQUOTE\<close> "3.prems" show ?thesis by (cases r) auto
    qed
  next
    case False
    then obtain k' where k': "skip_string (e # s) = (k', True)" "k = Suc k'"
      using "3.prems" by (auto simp: apfst_add_eq)
    then obtain m where "k' = Suc m" by (cases s; cases k') (auto simp: apfst_add_eq split: if_splits)
    with False k' "3.IH"(2) [OF _ _ k'(1)] show ?thesis by (auto simp: apfst_def)
  qed
qed auto

text \<open>Where a symbol ends.\<close>

definition stops :: "string \<Rightarrow> bool" where
  "stops r \<longleftrightarrow> r = [] \<or> is_ws (hd r) \<or> hd r \<in> DELIMITERS \<or> starts_with r ''#|''"

lemma take_symbol_stops: "stops (drop (length (take_symbol s)) s)"
  by (induction s) (auto simp: stops_def)

lemma stops_not: "stops (c # r) \<Longrightarrow> c \<noteq> CHR ''|'' \<and> c \<noteq> CHR ''_''"
  by (auto simp: stops_def is_ws_def DELIMITERS_def)

lemma take_symbol_take:
  assumes "stops r"
  shows "take_symbol (take_symbol s @ r) = take_symbol s"
proof (induction s)
  case Nil
  show ?case using assms by (cases r) (auto simp: stops_def)
next
  case (Cons c s)
  show ?case
  proof (cases "is_ws c \<or> c \<in> DELIMITERS \<or> starts_with (c # s) ''#|''")
    case True
    then show ?thesis using assms by (cases r) (auto simp: stops_def)
  next
    case False
    have "\<not> starts_with (c # take_symbol s @ r) ''#|''"
    proof (cases "take_symbol s")
      case Nil
      then show ?thesis using assms stops_not by (cases r) auto
    next
      case (Cons d v)
      then have "\<exists>s'. s = d # s'" by (cases s) (auto split: if_splits)
      then show ?thesis using False Cons by auto
    qed
    with False Cons show ?thesis by auto
  qed
qed

text \<open>A name that is one symbol wherever it is put.\<close>

definition safe_name :: "string \<Rightarrow> bool" where
  "safe_name v \<longleftrightarrow> v \<noteq> [] \<and> list_all (\<lambda>c. \<not> is_ws c \<and> c \<notin> DELIMITERS) v \<and> \<not> contains v ''#|'' \<and>
     \<not> is_numeric v \<and> v \<noteq> ''#'' \<and> \<not> starts_with v ''#_'' \<and> \<not> starts_with v ''@''"

lemma contains_Cons: "contains (c # s) p \<longleftrightarrow> starts_with (c # s) p \<or> contains s p"
  by (simp add: contains_def)

lemma take_symbol_name:
  assumes "list_all (\<lambda>c. \<not> is_ws c \<and> c \<notin> DELIMITERS) v" "\<not> contains v ''#|''" "stops r"
  shows "take_symbol (v @ r) = v"
  using assms(1,2)
proof (induction v)
  case Nil
  show ?case using assms(3) by (cases r) (auto simp: stops_def)
next
  case (Cons c v)
  have "\<not> starts_with (c # v @ r) ''#|''"
    using Cons.prems(2) assms(3) stops_not by (cases v; cases r) (auto simp: contains_Cons)
  with Cons show ?case by (simp add: contains_Cons)
qed

lemma starts_with_two_append:
  "w \<noteq> [] \<Longrightarrow> starts_with (w @ r') [a, b] \<Longrightarrow> starts_with (w @ r) [a, b] \<or> (w = [a] \<and> r' \<noteq> [] \<and> hd r' = b)"
  by (cases w; cases "tl w"; cases r') auto

text \<open>The text after a round may change as long as it starts alike.\<close>

definition alike :: "string \<Rightarrow> string \<Rightarrow> bool" where
  "alike r r' \<longleftrightarrow> (r = [] \<longleftrightarrow> r' = []) \<and> (hd r = CHR ''@'' \<or> r = [] \<or> hd r' \<noteq> CHR ''@'') \<and>
     (if stops r then r = [] \<or> hd r' = hd r \<and> starts_with r' ''#|'' = starts_with r ''#|'' else \<not> stops r')"

lemma alike_stops: "alike r r' \<Longrightarrow> stops r' \<longleftrightarrow> stops r"
  by (auto simp: alike_def stops_def split: if_splits)

lemma round_symbol_kind:
  assumes "s \<noteq> []" "\<not> is_ws (hd s)" "hd s \<noteq> CHR '';''" "\<not> starts_with s ''#|''" "hd s \<noteq> DQUOTE"
    "\<not> starts_with s ''#_''" "\<not> starts_with s '',@''" "\<not> starts_with s [CHR ''#'', SQUOTE]" "hd s \<notin> set plain_delimiters"
  shows "take_symbol s \<noteq> []"
    "round s = ([(if is_numeric (take_symbol s) then Number_Token else Symbol_Token, take_symbol s)], [], length (take_symbol s))"
proof -
  show v: "take_symbol s \<noteq> []"
    using assms delimiters_handled [of "hd s"] by (intro take_symbol_not_Nil) auto
  show "round s = ([(if is_numeric (take_symbol s) then Number_Token else Symbol_Token, take_symbol s)], [], length (take_symbol s))"
    unfolding round_def scan_step_def Let_def using assms v by (simp add: view_def)
qed

lemma round_take:
  assumes "s \<noteq> []" "round s = (vs, ds, n)" "alike (drop n s) r'"
  shows "round (take n s @ r') = (vs, ds, n)"
proof -
  obtain c s0 where s: "s = c # s0" using assms(1) by (cases s) auto
  show ?thesis
  proof (cases s rule: scan_kinds)
    case ws
    then show ?thesis using assms by (auto simp: s round_def scan_step_def)
  next
    case comment
    let ?w = "takeWhile (\<lambda>c. c \<noteq> LF) s"
    have n: "n = length ?w" "vs = []" "ds = []"
      using comment assms(2) by (auto simp: round_def scan_step_def trivia_def Let_def)
    have "drop n s = dropWhile (\<lambda>c. c \<noteq> LF) s" unfolding n by (simp add: dropWhile_eq_drop)
    then have lf: "drop n s = [] \<or> hd (drop n s) = LF" using hd_dropWhile [of "\<lambda>c. c \<noteq> LF" s] by auto
    then have "stops (drop n s)" by (auto simp: stops_def is_ws_def)
    then have "r' = [] \<or> hd r' = LF" using assms(3) lf by (auto simp: alike_def)
    then have w: "takeWhile (\<lambda>c. c \<noteq> LF) (?w @ r') = ?w"
      by (subst takeWhile_append2) (auto dest: set_takeWhileD simp: takeWhile_eq_Nil_iff)
    have hd: "take n s = ?w" "?w \<noteq> []" "hd (?w @ r') = CHR '';''"
      using comment s unfolding n by (simp_all flip: takeWhile_eq_take)
    show ?thesis
      unfolding hd(1) unfolding n round_def scan_step_def Let_def using hd comment w by (simp add: trivia_def)
  next
    case block
    obtain k b where k: "skip_block 1 (drop 2 s) = (k, b)" by fastforce
    have n: "n = k + 2" "vs = []" "ds = (if b then [] else [''unterminated_block_comment''])"
      using block assms(2) k by (auto simp: round_def scan_step_def trivia_def Let_def)
    show ?thesis
    proof (cases b)
      case True
      obtain s1 where s1: "s = ''#|'' @ s1" using block(3) s by (cases s0) auto
      have "skip_block 1 (take k s1 @ r') = (k, True)" using k True s1 by (intro skip_block_take) simp
      then show ?thesis
        using block n True s1 by (simp add: round_def scan_step_def trivia_def Let_def)
    next
      case False
      then have "k = length (drop 2 s)" using k skip_block_open [of 1 "drop 2 s" k] by simp
      then have "drop n s = []" using n by simp
      then show ?thesis using assms by (simp add: alike_def)
    qed
  next
    case string_
    obtain k b where k: "skip_string s0 = (k, b)" by fastforce
    have n: "n = k + 1" "vs = []" "ds = (if b then [] else [''unterminated_string''])"
      using string_ assms(2) k s by (auto simp: round_def scan_step_def trivia_def Let_def)
    show ?thesis
    proof (cases b)
      case True
      have "skip_string (take k s0 @ r') = (k, True)" using k True by (intro skip_string_take) simp
      then show ?thesis
        using string_ n True s by (simp add: round_def scan_step_def trivia_def Let_def)
    next
      case False
      then have "drop n s = []" using k n s skip_string_open [of s0 k] by simp
      then show ?thesis using assms by (simp add: alike_def)
    qed
  next
    case reader
    obtain d s1 where s1: "s = c # d # s1"
      and cd: "c = CHR ''#'' \<and> d = CHR ''_'' \<or> c = CHR '','' \<and> d = CHR ''@'' \<or> c = CHR ''#'' \<and> d = SQUOTE"
      using reader(5) s by (cases s0) auto
    have "round (c # d # r) = (if d = CHR ''_'' then ([(Reader_Discard, ''#_'')], [''reader_discard_requires_conservative_analysis''], 2)
        else ([(Reader_Token, [c, d])], [], 2))" for r
      using cd by (elim disjE conjE) (simp_all add: round_def scan_step_def Let_def view_def is_ws_def)
    with assms(2) s1 show ?thesis by (auto split: if_splits)
  next
    case delimiter
    have n: "vs = [(Delimiter_Token, [c])]" "ds = []" "n = 1"
      using delimiter assms(2) s by (auto simp: round_def scan_step_def Let_def view_def)
    have "c \<noteq> CHR ''#''" using delimiter(8) s by (auto simp: plain_delimiters_def)
    moreover have "\<not> starts_with (c # r') '',@''"
    proof
      assume "starts_with (c # r') '',@''"
      then have "c = CHR '',''" "r' \<noteq> []" "hd r' = CHR ''@''" by (cases r'; simp)+
      with assms(3) n s have "s0 \<noteq> [] \<and> hd s0 = CHR ''@''" by (auto simp: alike_def)
      with delimiter(6) s \<open>c = CHR '',''\<close> show False by (cases s0) auto
    qed
    ultimately show ?thesis
      using delimiter n s by (auto simp: round_def scan_step_def Let_def view_def)
  next
    case symbol
    note sym = round_symbol_kind [OF assms(1) symbol]
    let ?v = "take_symbol s"
    have n: "n = length ?v" "take n s = ?v" using sym assms(2) by (simp_all add: take_symbol_prefix)
    have "stops r'" using take_symbol_stops [of s] assms(3) n alike_stops by simp
    then have v: "take_symbol (?v @ r') = ?v" by (rule take_symbol_take)
    have start: "?v @ r' \<noteq> []" "hd (?v @ r') = hd s"
      using sym(1) s by (auto split: if_splits)
    have "\<not> starts_with (?v @ r') ''#|''" "\<not> is_ws (hd (?v @ r'))"
      using v sym(1) start(1) by (cases "?v @ r'"; auto split: if_splits)+
    moreover have two: "starts_with s [a, b] \<or> (hd s = a \<and> s0 = drop n s \<and> r' \<noteq> [] \<and> hd r' = b)"
      if "starts_with (?v @ r') [a, b]" for a b
    proof -
      have sv: "?v @ drop n s = s" using append_take_drop_id [of n s] unfolding n(2) .
      show ?thesis
        using starts_with_two_append [OF sym(1) that, of "drop n s"]
      proof
        assume "starts_with (?v @ drop n s) [a, b]"
        then show ?thesis unfolding sv ..
      next
        assume one: "?v = [a] \<and> r' \<noteq> [] \<and> hd r' = b"
        then have "a # drop n s = s" using sv by (elim conjE) (simp only: append_Cons append_Nil)
        then have "hd s = a" "s0 = drop n s" using s by (metis list.sel(1), metis list.sel(3))
        with one show ?thesis by blast
      qed
    qed
    have comma: "hd s \<noteq> CHR '',''" using symbol(8) by (auto simp: plain_delimiters_def)
    have "\<not> starts_with (?v @ r') ''#_''"
      using two [of "CHR ''#''" "CHR ''_''"] symbol(5) \<open>stops r'\<close> stops_not by (cases r') auto
    moreover have "\<not> starts_with (?v @ r') '',@''"
      using two [of "CHR '',''" "CHR ''@''"] symbol(6) comma by blast
    moreover have "\<not> starts_with (?v @ r') [CHR ''#'', SQUOTE]"
    proof
      assume "starts_with (?v @ r') [CHR ''#'', SQUOTE]"
      with two symbol(7) have q0: "hd s = CHR ''#''" and q: "s0 = drop n s" "r' \<noteq> []" "hd r' = SQUOTE"
        by blast+
      have "stops (drop n s)" using take_symbol_stops [of s] n(1) by simp
      with q assms(3) have "s0 \<noteq> []" "hd s0 = SQUOTE" by (auto simp: alike_def)
      then have "starts_with s [CHR ''#'', SQUOTE]" using q0 by (cases s0) (simp_all add: s)
      with symbol(7) show False ..
    qed
    ultimately show ?thesis
      unfolding n(2)
      using round_symbol_kind [of "?v @ r'"] start symbol sym assms(2) v by simp
  qed
qed

lemma round_name:
  assumes "safe_name v" "stops r"
  shows "round (v @ r) = ([(Symbol_Token, v)], [], length v)"
proof -
  obtain c v' where v: "v = c # v'" using assms(1) by (cases v) (auto simp: safe_name_def)
  have t: "take_symbol (v @ r) = v" using assms unfolding safe_name_def by (intro take_symbol_name) auto
  have c: "\<not> is_ws c" "c \<notin> DELIMITERS" using assms(1) v by (auto simp: safe_name_def)
  have "\<not> starts_with (v @ r) ''#|''" using t v by (auto split: if_splits)
  moreover have "\<not> starts_with (v @ r) ''#_''"
  proof
    assume "starts_with (v @ r) ''#_''"
    then have "starts_with (v @ []) ''#_'' \<or> v = ''#''"
      using starts_with_two_append [of v r "CHR ''#''" "CHR ''_''" "[]"] v by blast
    then show False using assms(1) by (auto simp: safe_name_def)
  qed
  moreover have "\<not> starts_with (v @ r) [CHR ''#'', SQUOTE]"
  proof
    assume "starts_with (v @ r) [CHR ''#'', SQUOTE]"
    then have "starts_with (v @ []) [CHR ''#'', SQUOTE] \<or> v = ''#''"
      using starts_with_two_append [of v r "CHR ''#''" SQUOTE "[]"] v by blast
    moreover have "\<not> starts_with v [CHR ''#'', SQUOTE]"
      using assms(1) by (cases v; cases "tl v") (auto simp: safe_name_def DELIMITERS_def)
    ultimately show False using assms(1) by (auto simp: safe_name_def)
  qed
  moreover have "hd (v @ r) \<noteq> CHR '';''" "hd (v @ r) \<noteq> DQUOTE" "hd (v @ r) \<noteq> CHR '',''" "hd (v @ r) \<notin> set plain_delimiters"
    using c v by (auto simp: DELIMITERS_def plain_delimiters_def)
  moreover from this have "\<not> starts_with (v @ r) '',@''" by (cases "v @ r") auto
  ultimately show ?thesis
    using round_symbol_kind [of "v @ r"] t c v assms(1) by (simp add: safe_name_def)
qed

subsection \<open>Scanning the new text\<close>

definition views :: "string \<Rightarrow> (token_type \<times> string) list" where
  "views s = map view (fst (scan_lisp False s))"

definition codes :: "string \<Rightarrow> string list" where
  "codes s = map dg_code (snd (scan_lisp False s))"

lemma scan_from_views:
  "map view (fst (scan_from False src i s)) = map view (fst (scan_from False src' i' s)) \<and>
   map dg_code (snd (scan_from False src i s)) = map dg_code (snd (scan_from False src' i' s))"
proof (induction "length s" arbitrary: s i i' rule: less_induct)
  case less
  show ?case
  proof (cases "s = []")
    case False
    obtain ts ds n where 1: "scan_step False src i s = (ts, ds, n)" by (metis prod_cases3)
    obtain ts' ds' n' where 2: "scan_step False src' i' s = (ts', ds', n')" by (metis prod_cases3)
    have same: "map view ts' = map view ts" "map dg_code ds' = map dg_code ds" "n' = n"
      using round_scan_step [OF 1] round_scan_step [OF 2] by simp_all
    have "length (drop n s) < length s" using scan_step_progress [OF False 1] False by simp
    from less [OF this, of "i + n" "i' + n"] same show ?thesis
      by (simp add: scan_from_step [OF False 1] scan_from_step [OF False 2])
  qed simp
qed

lemma views_Nil [simp]: "views [] = []" "codes [] = []"
  by (simp_all add: views_def codes_def scan_lisp_def)

lemma views_round:
  assumes "s \<noteq> []" "round s = (vs, ds, n)"
  shows "views s = vs @ views (drop n s)" "codes s = ds @ codes (drop n s)"
proof -
  obtain ts es m where step: "scan_step False s 0 s = (ts, es, m)" by (metis prod_cases3)
  then have "map view ts = vs" "map dg_code es = ds" "m = n" using round_scan_step [OF step] assms(2) by simp_all
  then show "views s = vs @ views (drop n s)" "codes s = ds @ codes (drop n s)"
    using scan_from_views [of s n "drop n s" "drop n s" 0]
    by (simp_all add: views_def codes_def scan_lisp_def scan_from_step [OF assms(1) step])
qed

definition renamed_view :: "string \<Rightarrow> string \<Rightarrow> token_type \<times> string \<Rightarrow> token_type \<times> string" where
  "renamed_view old new v = (if v = (Symbol_Token, old) then (Symbol_Token, new) else v)"

lemma safe_name_start:
  assumes "safe_name v"
  shows "\<not> stops (v @ r)" "v @ r \<noteq> []" "hd (v @ r) \<noteq> CHR ''@''"
proof -
  obtain c v' where v: "v = c # v'" using assms by (cases v) (auto simp: safe_name_def)
  have c: "\<not> is_ws c" "c \<notin> DELIMITERS" "c \<noteq> CHR ''@''" "\<not> starts_with v ''#|''" "v \<noteq> ''#''"
    using assms v by (auto simp: safe_name_def contains_Cons)
  then have "\<not> starts_with (v @ r) ''#|''"
    using starts_with_two_append [of v r "CHR ''#''" "CHR ''|''" "[]"] v by (metis append_Nil2 list.distinct(1))
  with c show "\<not> stops (v @ r)" "v @ r \<noteq> []" "hd (v @ r) \<noteq> CHR ''@''" by (auto simp: stops_def v)
qed

lemma round_block: "starts_with s ''#|'' \<Longrightarrow> round s = (vs, ds, n) \<Longrightarrow> 2 \<le> n"
  by (cases s) (auto simp: round_def scan_step_def trivia_def is_ws_def split: prod.splits)

lemma starts_with_two_take: "2 \<le> n \<Longrightarrow> n \<le> length s \<Longrightarrow> starts_with (take n s @ r) [a, b] = starts_with s [a, b]"
  by (simp add: starts_with_def min_def)

lemma alike_take:
  assumes "s \<noteq> []" "round s = (vs, ds, n)" "round (take n s @ r') = (vs, ds, n)"
  shows "alike s (take n s @ r')"
proof -
  have n: "0 < n" "n \<le> length s" using round_progress [OF assms(1,2)] by auto
  then have hd: "hd (take n s @ r') = hd s" "take n s @ r' \<noteq> []" using assms(1) by (cases s; cases n; simp)+
  have "starts_with (take n s @ r') ''#|'' = starts_with s ''#|''"
    using round_block [OF _ assms(2)] round_block [OF _ assms(3)] starts_with_two_take [OF _ n(2)] by blast
  with hd assms(1) show ?thesis by (auto simp: alike_def stops_def)
qed

lemma replaced_scan:
  assumes "safe_name new"
  shows "views (replaced old new s) = map (renamed_view old new) (views s) \<and>
    codes (replaced old new s) = codes s \<and> alike s (replaced old new s)"
proof (induction "length s" arbitrary: s rule: less_induct)
  case less
  show ?case
  proof (cases "s = []")
    case True
    then show ?thesis by (simp add: alike_def stops_def)
  next
    case False
    obtain vs ds n where round: "round s = (vs, ds, n)" by (metis prod_cases3)
    have n: "0 < n" "n \<le> length s" using round_progress [OF False round] by auto
    let ?r = "replaced old new (drop n s)"
    have IH: "views ?r = map (renamed_view old new) (views (drop n s))" "codes ?r = codes (drop n s)" "alike (drop n s) ?r"
      using less [of "drop n s"] n False by auto
    note views = views_round [OF False round]
    show ?thesis
    proof (cases "(Symbol_Token, old) \<in> set vs")
      case True
      then have vs: "vs = [(Symbol_Token, old)]" "old = take_symbol s" "n = length (take_symbol s)" "ds = []"
        using round_symbol [OF round _ False] by auto
      then have "stops ?r" using take_symbol_stops [of s] IH(3) alike_stops by simp
      note name = round_name [OF assms this]
      note start = safe_name_start [OF assms, of ?r]
      have eq: "replaced old new s = new @ ?r" using replaced_round [OF False round] True by simp
      have "views (new @ ?r) = (Symbol_Token, new) # views ?r" "codes (new @ ?r) = codes ?r"
        using views_round [OF start(2) name] by simp_all
      moreover have "\<not> stops s" using vs n by (cases s) (auto simp: stops_def split: if_splits)
      moreover have "alike s (new @ ?r)" using start False calculation unfolding alike_def by metis
      ultimately show ?thesis
        unfolding eq views vs(1,4) using IH(1,2) by (simp add: renamed_view_def)
    next
      case no: False
      have eq: "replaced old new s = take n s @ ?r" using replaced_round [OF False round] no by simp
      have nonempty: "take n s @ ?r \<noteq> []" using n False by simp
      have "views (take n s @ ?r) = vs @ views ?r" "codes (take n s @ ?r) = ds @ codes ?r"
        using views_round [OF nonempty round_take [OF False round IH(3)]] n by simp_all
      moreover have "map (renamed_view old new) vs = vs" using no by (induction vs) (auto simp: renamed_view_def)
      moreover have "alike s (take n s @ ?r)" using False round round_take [OF False round IH(3)] by (rule alike_take)
      ultimately show ?thesis using IH views unfolding eq by simp
    qed
  qed
qed

end
