(* ===== verification/RenameProps.thy ===== *)
theory RenameProps
  imports RenameText "HOL-Library.Multiset"
begin

text \<open>
  The properties of rename plans: a plan that is made can be applied, it renames exactly the
  occurrences of the symbol, and the renamed text scans to the renamed tokens.
\<close>

subsection \<open>The edits of a file\<close>

lemma edits_for_eq: "edits_for content old new = (edits_from old new content 0 content, snd (scan_lisp False content))"
  by (simp add: edits_for_def edits_from_def scan_lisp_def split: prod.split)

definition occurrences_of :: "string \<Rightarrow> string \<Rightarrow> token list" where
  "occurrences_of old content = filter (is_occurrence old) (fst (scan_lisp False content))"

lemma edits_from_occurrences: "edits_from old new content 0 content = map (edit_of old new) (occurrences_of old content)"
  by (simp add: edits_from_def occurrences_of_def scan_lisp_def)

lemma occurrences_sorted:
  "sorted_wrt (\<lambda>a b. tok_end a \<le> tok_start b) (occurrences_of old content)"
  "t \<in> set (occurrences_of old content) \<Longrightarrow> tok_start t < tok_end t"
  using scan_from_tokens [of 0 content content False]
  by (auto simp: occurrences_of_def scan_lisp_def list_all_iff token_in_def intro: sorted_wrt_filter_pred)

lemma starts_descending:
  "sorted_wrt (\<lambda>a b. tok_end a \<le> tok_start b) ts \<Longrightarrow> (\<And>t. t \<in> set ts \<Longrightarrow> tok_start t < tok_end t) \<Longrightarrow>
     sorted_wrt (<) (map tok_start ts)"
  by (induction ts) (auto, fastforce)

lemma sort_key_descending:
  fixes f :: "'a \<Rightarrow> int"
  assumes "sorted_wrt (<) (map f xs)"
  shows "sort_key (\<lambda>x. - f x) xs = rev xs"
proof (rule properties_for_sort_key)
  have "distinct (map f xs)" using assms by (simp add: strict_sorted_iff)
  then have inj: "inj_on f (set xs)" and "distinct xs" by (simp_all add: distinct_map)
  show "mset (rev xs) = mset xs" by simp
  show "filter (\<lambda>x. - f k = - f x) (rev xs) = filter (\<lambda>x. - f k = - f x) xs" if "k \<in> set (rev xs)" for k
  proof -
    have "length (filter (\<lambda>x. - f k = - f x) xs) \<le> 1"
      using \<open>distinct xs\<close> inj that
      by (simp add: distinct_length_filter card_le_Suc0_iff_eq Int_def inj_on_def)
    then show ?thesis by (cases "filter (\<lambda>x. - f k = - f x) xs") (auto simp: rev_filter [symmetric])
  qed
  show "sorted (map (\<lambda>x. - f x) (rev xs))"
    using assms sorted_wrt_mono_rel [of xs "\<lambda>x y. f x < f y" "\<lambda>x y. f x \<le> f y"]
    by (simp add: rev_map sorted_wrt_rev sorted_wrt_map)
qed

lemma apply_edits_replaced:
  assumes "pf_sha256 file = sha content" "pf_edits file = fst (edits_for content old new)"
  shows "apply_edits sha content file = Inr (replaced old new content)"
proof -
  let ?es = "edits_from old new content 0 content"
  have "sorted_wrt (<) (map tok_start (occurrences_of old content))"
    using occurrences_sorted by (intro starts_descending) auto
  then have "sorted_wrt (<) (map (\<lambda>e. num_int (pe_start e)) ?es)"
    by (simp add: edits_from_occurrences comp_def sorted_wrt_map)
  then have "sort_key (\<lambda>e. - num_int (pe_start e)) ?es = rev ?es" by (rule sort_key_descending)
  then show ?thesis
    using assms edits_from_apply [of "[]" 0 "file" old new content content] by (simp add: apply_edits_def edits_for_eq)
qed

lemma no_edits_replaced: "fst (edits_for content old new) = [] \<Longrightarrow> replaced old new content = content"
  using edits_from_apply [of "[]" 0 undefined old new content content] by (simp add: edits_for_eq)

subsection \<open>The files of a plan\<close>

definition source_file :: "string \<times> string \<Rightarrow> jval" where
  "source_file f = JObj [(''path'', JStr (fst f)), (''content'', JStr (snd f))]"

lemma source_file_sel [simp]:
  "get_prop (source_file f) ''path'' = JStr (fst f)" "get_prop (source_file f) ''content'' = JStr (snd f)"
  by (simp_all add: source_file_def)

definition planned_of :: "(string \<Rightarrow> string) \<Rightarrow> string \<Rightarrow> string \<Rightarrow> string \<Rightarrow> string \<times> string \<Rightarrow> planned_file" where
  "planned_of sha root_dir old new f = \<lparr>pf_path = projr (normalized_relative root_dir (fst f)), pf_sha256 = sha (snd f),
     pf_bytes = utf8_length (snd f), pf_edits = fst (edits_for (snd f) old new),
     pf_diagnostics = snd (edits_for (snd f) old new)\<rparr>"

lemma plan_files_result:
  assumes "plan_files sha root_dir limits old new (map source_file fs) b e = Inr (planned, n)"
  shows "planned = map (planned_of sha root_dir old new) (filter (\<lambda>f. fst (edits_for (snd f) old new) \<noteq> []) fs) \<and>
    list_all (\<lambda>f. normalized_relative root_dir (fst f) = Inr (projr (normalized_relative root_dir (fst f)))) fs"
  using assms
proof (induction fs arbitrary: b e planned n)
  case (Cons f fs)
  obtain edits ds where ed: "edits_for (snd f) old new = (edits, ds)" by fastforce
  from Cons.prems obtain rel where rel: "normalized_relative root_dir (fst f) = Inr rel"
    by (cases "normalized_relative root_dir (fst f)") simp_all
  then obtain planned' b' e' where rest: "plan_files sha root_dir limits old new (map source_file fs) b' e' = Inr (planned', n)"
    and planned: "planned = (if edits = [] then [] else [planned_of sha root_dir old new f]) @ planned'"
    using Cons.prems ed
    by (auto simp: planned_of_def Let_def andthen_eq_Inr split: if_splits)
  show ?case using Cons.IH [OF rest] planned rel ed by simp
qed simp

lemma insert_file_mset: "mset (insert_file collate f fs) = add_mset f (mset fs)"
  by (induction fs) auto

lemma sort_files_mset: "mset (sort_files collate fs) = mset fs"
  unfolding sort_files_def by (induction fs) (simp_all add: insert_file_mset)

subsection \<open>The check accepts what was made\<close>

lemma check_edits_made:
  assumes "sorted_wrt (\<lambda>a b. tok_end a \<le> tok_start b) ts" "\<And>t. t \<in> set ts \<Longrightarrow> tok_start t < tok_end t"
    and "\<And>t. t \<in> set ts \<Longrightarrow> previous \<le> of_nat (tok_start t)"
  shows "check_edits plan (Fin previous) (map (edit_of (rp_old_symbol plan) (rp_new_symbol plan)) ts) = Inr ()"
  using assms
proof (induction ts arbitrary: previous)
  case (Cons t ts)
  have "check_edits plan (Fin (of_nat (tok_end t))) (map (edit_of (rp_old_symbol plan) (rp_new_symbol plan)) ts) = Inr ()"
    using Cons.prems by (intro Cons.IH) auto
  then show ?case using Cons.prems(2,3) [of t] by (auto simp: jn_le_def)
qed simp

lemma check_files_made:
  "(\<And>f. f \<in> set fs \<Longrightarrow> \<exists>content. pf_edits f = fst (edits_for content (rp_old_symbol plan) (rp_new_symbol plan))) \<Longrightarrow>
     check_files plan fs = Inr ()"
proof (induction fs)
  case (Cons f fs)
  then obtain c where c: "pf_edits f = fst (edits_for c (rp_old_symbol plan) (rp_new_symbol plan))" by auto
  have "check_edits plan (Fin (- 1)) (map (edit_of (rp_old_symbol plan) (rp_new_symbol plan))
      (occurrences_of (rp_old_symbol plan) c)) = Inr ()"
    using occurrences_sorted by (intro check_edits_made) auto
  then show ?case using Cons c by (simp add: edits_for_eq edits_from_occurrences)
qed simp

lemma apply_files_made:
  assumes "distinct (map pf_path fs)"
    and "\<And>f. f \<in> set fs \<Longrightarrow> \<exists>content. map_of out (pf_path f) = Some content \<and> apply_edits sha content f = Inr (new_of f)"
  shows "\<exists>out'. apply_files sha fs out = Inr out' \<and> (\<forall>f \<in> set fs. map_of out' (pf_path f) = Some (new_of f)) \<and>
    (\<forall>p. p \<notin> pf_path ` set fs \<longrightarrow> map_of out' p = map_of out p)"
  using assms
proof (induction fs arbitrary: out)
  case (Cons f fs)
  obtain content where content: "map_of out (pf_path f) = Some content" "apply_edits sha content f = Inr (new_of f)"
    using Cons.prems(2) [of f] by auto
  let ?out = "AList.update (pf_path f) (new_of f) out"
  have "\<exists>c. map_of ?out (pf_path g) = Some c \<and> apply_edits sha c g = Inr (new_of g)" if "g \<in> set fs" for g
    using Cons.prems(1) Cons.prems(2) [of g] that by (auto simp: image_iff)
  then obtain out' where "apply_files sha fs ?out = Inr out'" "\<forall>g \<in> set fs. map_of out' (pf_path g) = Some (new_of g)"
    "\<forall>p. p \<notin> pf_path ` set fs \<longrightarrow> map_of out' p = map_of ?out p"
    using Cons.IH [of ?out] Cons.prems(1) by auto
  then show ?case using content Cons.prems(1) by (intro exI [of _ out']) auto
qed simp

subsection \<open>Making and applying\<close>

lemma create_plan_result:
  assumes "create_project_rename_plan sha stringify collate (JStr root_dir) (JArr (map source_file fs)) old new
    language qualification limits = Inr plan"
  shows "rp_old_symbol plan = old \<and> validate_rename_plan sha stringify plan = Inr () \<and>
    mset (rp_files plan) = mset (map (planned_of sha root_dir old (rp_new_symbol plan))
      (filter (\<lambda>f. fst (edits_for (snd f) old (rp_new_symbol plan)) \<noteq> []) fs)) \<and>
    list_all (\<lambda>f. normalized_relative root_dir (fst f) = Inr (projr (normalized_relative root_dir (fst f)))) fs"
proof -
  obtain sem planned n where sem: "prepare_symbol_rename old new language qualification = Inr sem"
    and planned: "plan_files sha root_dir (plan_limits limits) old (pr_effective_new sem) (map source_file fs) 0 0 = Inr (planned, n)"
    and plan: "rp_version plan = jint 1" "rp_kind plan = ''lisp_project_rename''" "rp_old_symbol plan = old"
      "rp_new_symbol plan = pr_effective_new sem" "rp_files plan = sort_files collate planned"
      "plan_digest sha stringify plan = rp_plan_id plan"
    using assms
    by (auto simp: create_project_rename_plan_def Let_def andthen_eq_Inr plan_digest_def body_json_def
        split: sum.splits if_splits)
  note made = plan_files_result [OF planned]
  have files: "mset (rp_files plan) = mset planned" using plan(5) by (simp add: sort_files_mset)
  have "check_files plan (rp_files plan) = Inr ()"
  proof (rule check_files_made)
    fix f
    assume "f \<in> set (rp_files plan)"
    then have "f \<in> set planned" using mset_eq_setD [OF files] by simp
    then have "\<exists>g. f = planned_of sha root_dir old (pr_effective_new sem) g" using made by auto
    then show "\<exists>content. pf_edits f = fst (edits_for content (rp_old_symbol plan) (rp_new_symbol plan))"
      using plan(3,4) by (auto simp: planned_of_def)
  qed
  then have "validate_rename_plan sha stringify plan = Inr ()"
    using plan by (simp add: validate_rename_plan_def)
  then show ?thesis using plan files made by simp
qed

lemma apply_made_plan:
  assumes plan: "create_project_rename_plan sha stringify collate (JStr root_dir) (JArr (map source_file fs)) old new
      language qualification limits = Inr plan"
    and apart: "distinct (map (\<lambda>f. normalized_relative root_dir (fst f)) fs)"
    and there: "list_all (\<lambda>f. map_of contents (projr (normalized_relative root_dir (fst f))) = Some (snd f)) fs"
  shows "\<exists>out. apply_rename_plan_to_map sha stringify plan contents = Inr out \<and>
    (\<forall>f \<in> set fs. map_of out (projr (normalized_relative root_dir (fst f))) = Some (replaced old (rp_new_symbol plan) (snd f))) \<and>
    (\<forall>p. p \<notin> (\<lambda>f. projr (normalized_relative root_dir (fst f))) ` set fs \<longrightarrow> map_of out p = map_of contents p)"
proof -
  let ?new = "rp_new_symbol plan" and ?rel = "\<lambda>f. projr (normalized_relative root_dir (fst f))"
  let ?planned = "planned_of sha root_dir old ?new"
  let ?fs = "filter (\<lambda>f. fst (edits_for (snd f) old ?new) \<noteq> []) fs"
  note made = create_plan_result [OF plan]
  have inside: "\<forall>f \<in> set fs. normalized_relative root_dir (fst f) = Inr (?rel f)" using made by (simp add: list_all_iff)
  have "inj_on (\<lambda>f. normalized_relative root_dir (fst f)) (set fs)" "distinct fs"
    using apart by (simp_all add: distinct_map)
  have inj: "inj_on ?rel (set fs)"
  proof (rule inj_onI)
    fix f g
    assume fg: "f \<in> set fs" "g \<in> set fs" "?rel f = ?rel g"
    then have "normalized_relative root_dir (fst f) = Inr (?rel f)" "normalized_relative root_dir (fst g) = Inr (?rel g)"
      using inside by blast+
    then have "normalized_relative root_dir (fst f) = normalized_relative root_dir (fst g)" unfolding fg(3) by (simp only:)
    with \<open>inj_on _ _\<close> show "f = g" using fg(1,2) by (rule inj_onD)
  qed
  have files: "mset (rp_files plan) = mset (map ?planned ?fs)" using made by simp
  have path: "pf_path (?planned f) = ?rel f" for f by (simp add: planned_of_def)
  have "distinct (map ?rel ?fs)" using inj \<open>distinct fs\<close> by (auto simp: distinct_map intro: inj_on_subset)
  then have apart': "distinct (map pf_path (map ?planned ?fs))" by (simp add: comp_def path)
  have same: "mset (map pf_path (rp_files plan)) = mset (map pf_path (map ?planned ?fs))"
    by (simp only: mset_map [of pf_path] files)
  have dist: "distinct (map pf_path (rp_files plan))" using apart' mset_eq_imp_distinct_iff [OF same] by (rule iffD2 [rotated])
  let ?content = "\<lambda>g. the (map_of contents (pf_path g))"
  have each: "\<exists>f. f \<in> set ?fs \<and> g = ?planned f \<and> map_of contents (pf_path g) = Some (snd f)" if "g \<in> set (rp_files plan)" for g
  proof -
    have "g \<in> set (map ?planned ?fs)" using that mset_eq_setD [OF files] by simp
    then obtain f where "f \<in> set ?fs" "g = ?planned f" by auto
    with there show ?thesis by (intro exI [of _ f]) (simp add: list_all_iff path)
  qed
  have "\<exists>out. apply_files sha (rp_files plan) contents = Inr out \<and>
      (\<forall>g \<in> set (rp_files plan). map_of out (pf_path g) = Some (replaced old ?new (?content g))) \<and>
      (\<forall>p. p \<notin> pf_path ` set (rp_files plan) \<longrightarrow> map_of out p = map_of contents p)"
  proof (rule apply_files_made [OF dist])
    fix g
    assume "g \<in> set (rp_files plan)"
    with each obtain f where "g = ?planned f" "map_of contents (pf_path g) = Some (snd f)" by blast
    then show "\<exists>c. map_of contents (pf_path g) = Some c \<and> apply_edits sha c g = Inr (replaced old ?new (?content g))"
      by (intro exI [of _ "snd f"]) (simp add: apply_edits_replaced planned_of_def)
  qed
  then obtain out where out: "apply_files sha (rp_files plan) contents = Inr out"
    "\<forall>g \<in> set (rp_files plan). map_of out (pf_path g) = Some (replaced old ?new (?content g))"
    "\<forall>p. p \<notin> pf_path ` set (rp_files plan) \<longrightarrow> map_of out p = map_of contents p" by blast
  have set_files: "set (rp_files plan) = ?planned ` set ?fs" using mset_eq_setD [OF files] by simp
  have "map_of out (?rel f) = Some (replaced old ?new (snd f))" if f: "f \<in> set fs" for f
  proof (cases "fst (edits_for (snd f) old ?new) = []")
    case True
    have "?rel f \<notin> pf_path ` set (rp_files plan)"
    proof
      assume "?rel f \<in> pf_path ` set (rp_files plan)"
      then obtain f' where "f' \<in> set ?fs" "?rel f = ?rel f'" unfolding set_files by (auto simp: path)
      with inj f have "f = f'" by (auto simp: inj_on_def)
      with True \<open>f' \<in> set ?fs\<close> show False by simp
    qed
    then have "map_of out (?rel f) = Some (snd f)" using out(3) there f by (simp add: list_all_iff)
    then show ?thesis using no_edits_replaced [OF True] by simp
  next
    case False
    then have "?planned f \<in> set (rp_files plan)" using f unfolding set_files by simp
    moreover have "?content (?planned f) = snd f" using there f by (simp add: path list_all_iff)
    ultimately show ?thesis using out(2) path [of f] by (auto dest: bspec)
  qed
  moreover have "map_of out p = map_of contents p" if "p \<notin> ?rel ` set fs" for p
    using out(3) that unfolding set_files by (auto simp: path image_image)
  ultimately show ?thesis using out(1) made unfolding apply_rename_plan_to_map_def by (intro exI [of _ out]) simp
qed

subsection \<open>Properties\<close>

text \<open>
  C12: A rename plan that is made for the files of a project can be applied to their contents: its own check
  accepts it, every file ends with exactly the occurrences of the symbol that the scanner sees replaced
  (simultaneously, as the reference \<open>replaced\<close> does), and no other file changes. The files must have
  different names and the contents must be those the plan was made from.
\<close>

theorem rename_plan_applies:
  assumes "create_project_rename_plan sha stringify collate (JStr root_dir) (JArr (map source_file fs)) old new
      language qualification limits = Inr plan"
    and "distinct (map (\<lambda>f. normalized_relative root_dir (fst f)) fs)"
    and "list_all (\<lambda>f. map_of contents (projr (normalized_relative root_dir (fst f))) = Some (snd f)) fs"
  shows "\<exists>out. apply_rename_plan_to_map sha stringify plan contents = Inr out \<and>
    list_all (\<lambda>f. map_of out (projr (normalized_relative root_dir (fst f))) =
      Some (replaced old (rp_new_symbol plan) (snd f))) fs \<and>
    (\<forall>p. p \<notin> (\<lambda>f. projr (normalized_relative root_dir (fst f))) ` set fs \<longrightarrow> map_of out p = map_of contents p)"
  using apply_made_plan [OF assms] by (simp add: list_all_iff)

definition example_sources :: "(string \<times> string) list" where
  "example_sources = [(''a.el'', ''(f x ; x'' @ [LF] @ '' xs x)''), (''b.el'', ''(g)'')]"

definition example_plan :: rename_plan where
  "example_plan = projr (create_project_rename_plan (\<lambda>s. s) (\<lambda>v. ''_'') (\<lambda>a b. True) (JStr ''/p'')
     (JArr (map source_file example_sources)) ''x'' ''y'' None None (JObj []))"

theorem rename_plan_applies_witness:
  "list_ex (\<lambda>out. apply_rename_plan_to_map (\<lambda>s. s) (\<lambda>v. ''_'') example_plan example_sources = Inr out \<and>
     map_of out ''a.el'' = Some (''(f y ; x'' @ [LF] @ '' xs y)'') \<and> map_of out ''b.el'' = Some ''(g)'')
     [projr (apply_rename_plan_to_map (\<lambda>s. s) (\<lambda>v. ''_'') example_plan example_sources)]"
proof -
  have "\<exists>out. apply_rename_plan_to_map (\<lambda>s. s) (\<lambda>v. ''_'') example_plan example_sources = Inr out \<and>
    list_all (\<lambda>f. map_of out (projr (normalized_relative ''/p'' (fst f))) =
      Some (replaced ''x'' (rp_new_symbol example_plan) (snd f))) example_sources \<and>
    (\<forall>p. p \<notin> (\<lambda>f. projr (normalized_relative ''/p'' (fst f))) ` set example_sources \<longrightarrow> map_of out p = map_of example_sources p)"
    by (rule rename_plan_applies [where collate = "\<lambda>a b. True" and new = "''y''" and language = None and qualification = None and limits = "JObj []"]) code_simp+
  then obtain out where out: "apply_rename_plan_to_map (\<lambda>s. s) (\<lambda>v. ''_'') example_plan example_sources = Inr out"
    and files: "list_all (\<lambda>f. map_of out (projr (normalized_relative ''/p'' (fst f))) =
      Some (replaced ''x'' (rp_new_symbol example_plan) (snd f))) example_sources" by blast
  have "normalized_relative ''/p'' ''a.el'' = Inr ''a.el''" "normalized_relative ''/p'' ''b.el'' = Inr ''b.el''"
    "replaced ''x'' (rp_new_symbol example_plan) (''(f x ; x'' @ [LF] @ '' xs x)'') = ''(f y ; x'' @ [LF] @ '' xs y)''"
    "replaced ''x'' (rp_new_symbol example_plan) ''(g)'' = ''(g)''"
    by code_simp+
  with out files show ?thesis by (simp add: example_sources_def)
qed

text \<open>
  Renaming keeps the structure of the text: when the edits of a file are applied and the result is scanned
  again, its tokens are the old ones with the symbol replaced, and the diagnostics are the same. The new
  name must be one symbol wherever it is put: no delimiter, white space or block comment in it, not a
  number, not \<open>#\<close>, and it must not start with \<open>#_\<close> or \<open>@\<close>.
\<close>

theorem rename_keeps_tokens:
  assumes "safe_name new" "pf_sha256 f = sha content" "pf_edits f = fst (edits_for content old new)"
  shows "\<exists>out. apply_edits sha content f = Inr out \<and>
    views out = map (renamed_view old new) (views content) \<and> codes out = codes content"
  using apply_edits_replaced [of f sha content old new] replaced_scan [OF assms(1), of old content] assms(2,3) by simp

definition example_file :: planned_file where
  "example_file = planned_of (\<lambda>s. s) ''/p'' ''x'' ''y'' (''a.el'', ''(f x)'')"

theorem rename_keeps_tokens_witness:
  "views ''(f y)'' = map (renamed_view ''x'' ''y'') (views ''(f x)'') \<and> codes ''(f y)'' = codes ''(f x)''"
proof -
  have "\<exists>out. apply_edits (\<lambda>s. s) ''(f x)'' example_file = Inr out \<and>
      views out = map (renamed_view ''x'' ''y'') (views ''(f x)'') \<and> codes out = codes ''(f x)''"
    by (rule rename_keeps_tokens) code_simp+
  moreover have "apply_edits (\<lambda>s. s) ''(f x)'' example_file = Inr ''(f y)''" by code_simp
  ultimately show ?thesis by simp
qed

text \<open>
  The restriction on the new name matters: the plan from \<open>x\<close> to \<open>@y\<close> is accepted, and it turns the
  unquoted \<open>x\<close> of a backquoted form into a spliced \<open>y\<close>, other tokens altogether.
\<close>

theorem rename_can_turn_unquote_into_splice:
  "(case prepare_symbol_rename ''x'' ''@y'' (Some ''elisp'') None of Inl _ \<Rightarrow> False | Inr p \<Rightarrow> pr_effective_new p = ''@y'') \<and>
   apply_edits (\<lambda>s. s) '',x'' (planned_of (\<lambda>s. s) ''/p'' ''x'' ''@y'' (''a.el'', '',x'')) = Inr '',@y'' \<and>
   views '',x'' = [(Delimiter_Token, '',''), (Symbol_Token, ''x'')] \<and>
   views '',@y'' = [(Reader_Token, '',@''), (Symbol_Token, ''y'')]"
  by code_simp

end
