(* ===== verification/RenameFs.thy ===== *)
theory RenameFs
  imports RenamePlan
begin

text \<open>
  \<open>applyRenamePlanToFilesystem\<close> of \<open>refactor-intelligence/src/rename-plan.ts\<close>: a plan applied to the files of the
  project. A disk maps absolute paths to contents; what the next write or rename does is given by the list
  \<open>dk_faults\<close>: \<open>Done\<close>, \<open>Refused\<close> (it throws and changes nothing) or \<open>Broken junk\<close> (a write that throws and
  leaves \<open>junk\<close> behind). After the list every operation succeeds.
\<close>

datatype io_outcome = Done | Refused | Broken string

record disk =
  dk_files :: "string \<Rightarrow> string option"
  dk_links :: "string list"              \<comment> \<open>symbolic links\<close>
  dk_faults :: "io_outcome list"
  dk_uuids :: nat

definition io_error :: "string \<Rightarrow> rename_error" where
  "io_error p = Plan_Problem (''EIO: i/o error, '' @ p)"

definition no_such_file :: "string \<Rightarrow> rename_error" where
  "no_such_file p = Plan_Problem (''ENOENT: no such file or directory, '' @ p)"

definition next_outcome :: "disk \<Rightarrow> io_outcome \<times> disk" where
  "next_outcome d = (case dk_faults d of [] \<Rightarrow> (Done, d) | f # fs \<Rightarrow> (f, d\<lparr>dk_faults := fs\<rparr>))"

definition put_file :: "string \<Rightarrow> string \<Rightarrow> disk \<Rightarrow> disk" where
  "put_file p content d = d\<lparr>dk_files := (dk_files d)(p \<mapsto> content)\<rparr>"

definition disk_write :: "string \<Rightarrow> string \<Rightarrow> disk \<Rightarrow> rename_error option \<times> disk" where
  "disk_write p content d =
     (case next_outcome d of
        (Done, d) \<Rightarrow> (None, put_file p content d)
      | (Refused, d) \<Rightarrow> (Some (io_error p), d)
      | (Broken junk, d) \<Rightarrow> (Some (io_error p), put_file p junk d))"

definition disk_rename :: "string \<Rightarrow> string \<Rightarrow> disk \<Rightarrow> rename_error option \<times> disk" where
  "disk_rename a b d =
     (case next_outcome d of
        (Done, d) \<Rightarrow>
          (case dk_files d a of
             None \<Rightarrow> (Some (no_such_file a), d)
           | Some content \<Rightarrow> (None, d\<lparr>dk_files := (dk_files d)(a := None, b \<mapsto> content)\<rparr>))
      | (_, d) \<Rightarrow> (Some (io_error a), d))"

text \<open>\<open>lstat\<close> and \<open>readFile\<close>.\<close>

definition disk_read :: "string \<Rightarrow> string \<Rightarrow> disk \<Rightarrow> rename_error + string" where
  "disk_read label p d =
     (if p \<in> set (dk_links d) then Inl (Plan_Problem (''symbolic link is not allowed: '' @ label))
      else (case dk_files d p of None \<Rightarrow> Inl (no_such_file p) | Some content \<Rightarrow> Inr content))"

subsection \<open>The checks before anything is written\<close>

type_synonym texts = "(string, string) js_map"

definition planned_path :: "string \<Rightarrow> planned_file \<Rightarrow> string" where
  "planned_path root_dir f = path_resolve root_dir (pf_path f)"

fun read_files ::
  "(string \<Rightarrow> string) \<Rightarrow> string \<Rightarrow> planned_file list \<Rightarrow> disk \<Rightarrow> texts \<times> texts \<Rightarrow> rename_error + texts \<times> texts" where
  "read_files sha root_dir [] d (originals, replacements) = Inr (originals, replacements)"
| "read_files sha root_dir (f # fs) d (originals, replacements) =
     (let p = planned_path root_dir f in
      if path_outside (path_relative root_dir root_dir p)
      then Inl (Plan_Problem (''file escaped project root: '' @ pf_path f))
      else andthen (disk_read (pf_path f) p d) (\<lambda>content.
           andthen (apply_edits sha content f) (\<lambda>changed.
             read_files sha root_dir fs d (AList.update p content originals, AList.update p changed replacements))))"

subsection \<open>Writing and taking back\<close>

definition temp_path :: "(nat \<Rightarrow> string) \<Rightarrow> string \<Rightarrow> nat \<Rightarrow> string" where
  "temp_path uuid p n = p @ ''.emacs-operator-'' @ uuid n @ ''.tmp''"

fun write_all ::
  "(nat \<Rightarrow> string) \<Rightarrow> texts \<Rightarrow> string list \<Rightarrow> disk \<Rightarrow> (rename_error option \<times> string list) \<times> disk" where
  "write_all uuid [] written d = ((None, written), d)"
| "write_all uuid ((p, content) # rest) written d =
     (let temp = temp_path uuid p (dk_uuids d); d = d\<lparr>dk_uuids := Suc (dk_uuids d)\<rparr> in
      if dk_files d p = None then ((Some (no_such_file p), written), d)
      else (case disk_write temp content d of
         (Some e, d) \<Rightarrow> ((Some e, written), d)
       | (None, d) \<Rightarrow>
           (case disk_rename temp p d of
              (Some e, d) \<Rightarrow> ((Some e, written), d)
            | (None, d) \<Rightarrow> write_all uuid rest (written @ [p]) d)))"

text \<open>The error of a write that takes a change back is ignored.\<close>

fun restore :: "texts \<Rightarrow> string list \<Rightarrow> disk \<Rightarrow> disk" where
  "restore originals [] d = d"
| "restore originals (p # ps) d =
     restore originals ps (snd (disk_write p (the (map_of originals p)) d))"

datatype applied_plan = Preflight_Ok string "string list" | Applied string "string list" nat

text \<open>\<open>root_path\<close> is \<open>fs.realpath(plan.root)\<close>, which throws when the directory does not exist.\<close>

definition apply_rename_plan_to_filesystem ::
  "(string \<Rightarrow> string) \<Rightarrow> (jval \<Rightarrow> string) \<Rightarrow> (nat \<Rightarrow> string) \<Rightarrow> rename_error + string \<Rightarrow> bool \<Rightarrow> rename_plan \<Rightarrow> disk \<Rightarrow>
   (rename_error + applied_plan) \<times> disk" where
  "apply_rename_plan_to_filesystem sha stringify uuid root_path save plan d =
     (case andthen (validate_rename_plan sha stringify plan) (\<lambda>_. andthen root_path (\<lambda>root_dir.
             read_files sha root_dir (rp_files plan) d ([], []))) of
        Inl e \<Rightarrow> (Inl e, d)
      | Inr (originals, replacements) \<Rightarrow>
          if \<not> save then (Inr (Preflight_Ok (rp_plan_id plan) (map fst replacements)), d)
          else (case write_all uuid replacements [] d of
              ((None, written), d) \<Rightarrow> (Inr (Applied (rp_plan_id plan) written (rp_total_edits plan)), d)
            | ((Some e, written), d) \<Rightarrow> (Inl e, restore originals (rev written) d)))"

subsection \<open>Lemmas\<close>

abbreviation is_temp :: "string \<Rightarrow> bool" where
  "is_temp p \<equiv> ends_with p ''.tmp''"

lemma is_temp_path [simp]: "is_temp (temp_path uuid p n)"
proof -
  have "ends_with (s @ t) t" for s t :: string by (simp add: ends_with_def)
  from this [of "p @ ''.emacs-operator-'' @ uuid n" "''.tmp''"] show ?thesis by (simp add: temp_path_def)
qed

definition faults_left :: "disk \<Rightarrow> nat" where
  "faults_left d = length (filter (\<lambda>f. f \<noteq> Done) (dk_faults d))"

lemma next_outcome_cases:
  obtains (works) d' where "next_outcome d = (Done, d')" "dk_files d' = dk_files d" "faults_left d' = faults_left d"
  | (fails) f d' where "next_outcome d = (f, d')" "f \<noteq> Done" "dk_files d' = dk_files d" "faults_left d = Suc (faults_left d')"
proof (cases "dk_faults d")
  case Nil
  then show thesis using works [of d] by (simp add: next_outcome_def)
next
  case (Cons f fs)
  then show thesis
    using works [of "d\<lparr>dk_faults := fs\<rparr>"] fails [of f "d\<lparr>dk_faults := fs\<rparr>"]
    by (cases "f = Done") (simp_all add: next_outcome_def faults_left_def)
qed

lemma disk_write_cases:
  obtains (written) d' where "disk_write p c d = (None, d')" "dk_files d' = (dk_files d)(p \<mapsto> c)" "faults_left d' = faults_left d"
  | (failed) e d' where "disk_write p c d = (Some e, d')" "faults_left d = Suc (faults_left d')"
      "\<And>q. q \<noteq> p \<Longrightarrow> dk_files d' q = dk_files d q"
proof (cases rule: next_outcome_cases [of d])
  case (works d')
  then show thesis using written [of "put_file p c d'"] by (simp add: disk_write_def put_file_def faults_left_def)
next
  case (fails f d')
  then show thesis
    using failed [of "io_error p" d'] failed [of "io_error p" "put_file p (case f of Broken junk \<Rightarrow> junk | _ \<Rightarrow> [])  d'"]
    by (cases f) (simp_all add: disk_write_def put_file_def faults_left_def)
qed

lemma disk_rename_cases:
  assumes "dk_files d a = Some c" "a \<noteq> b"
  obtains (renamed) d' where "disk_rename a b d = (None, d')" "dk_files d' = (dk_files d)(a := None, b \<mapsto> c)"
      "faults_left d' = faults_left d"
  | (failed) e d' where "disk_rename a b d = (Some e, d')" "faults_left d = Suc (faults_left d')" "dk_files d' = dk_files d"
proof (cases rule: next_outcome_cases [of d])
  case (works d')
  then show thesis
    using renamed [of "d'\<lparr>dk_files := (dk_files d)(a := None, b \<mapsto> c)\<rparr>"] assms by (simp add: disk_rename_def faults_left_def)
next
  case (fails f d')
  then show thesis using failed [of "io_error a" d'] by (cases f) (simp_all add: disk_rename_def)
qed

text \<open>
  The loop that writes: the files before the first fault have their new contents, the others the old ones; a
  fault uses up one of the outcomes that are not \<open>Done\<close>.
\<close>

lemma write_all_files:
  assumes "write_all uuid xs written d = ((r, w), d')" "distinct (map fst xs)"
    and "list_all (\<lambda>x. dk_files d (fst x) \<noteq> None \<and> \<not> is_temp (fst x)) xs"
  shows "\<exists>ready rest. xs = ready @ rest \<and> w = written @ map fst ready \<and> (r = None \<longleftrightarrow> rest = []) \<and>
    (case r of None \<Rightarrow> faults_left d' = faults_left d | Some _ \<Rightarrow> faults_left d = Suc (faults_left d')) \<and>
    (\<forall>p. \<not> is_temp p \<longrightarrow> dk_files d' p = (dk_files d ++ map_of ready) p)"
  using assms
proof (induction uuid xs written d rule: write_all.induct)
  case (1 uuid written d)
  then show ?case by auto
next
  case (2 uuid p content rest written d)
  let ?temp = "temp_path uuid p (dk_uuids d)" and ?d = "d\<lparr>dk_uuids := Suc (dk_uuids d)\<rparr>"
  have p: "dk_files d p \<noteq> None" "\<not> is_temp p" using "2.prems"(3) by simp_all
  then have temp: "?temp \<noteq> p" using is_temp_path [of uuid p "dk_uuids d"] by metis
  have left: "faults_left ?d = faults_left d" by (simp add: faults_left_def)
  show ?case
  proof (cases rule: disk_write_cases [of ?temp content ?d])
    case (failed e d1)
    then have "dk_files d1 q = dk_files d q" if "\<not> is_temp q" for q
      using that is_temp_path by (metis disk.select_convs(1) disk.surjective disk.update_convs(4))
    then show ?thesis
      using "2.prems"(1) p failed left by - (rule exI [of _ "[]"], rule exI [of _ "(p, content) # rest"], auto simp: Let_def)
  next
    case (written d1)
    then have there: "dk_files d1 ?temp = Some content" by simp
    from there temp show ?thesis
    proof (cases rule: disk_rename_cases)
      case (failed e d2)
      then show ?thesis
        using "2.prems"(1) p written left by - (rule exI [of _ "[]"], rule exI [of _ "(p, content) # rest"], auto simp: Let_def)
    next
      case (renamed d2)
      have files: "dk_files d2 q = ((dk_files d)(p \<mapsto> content)) q" if "\<not> is_temp q" for q
        using that renamed(2) written(2) is_temp_path by auto
      have "write_all uuid rest (written @ [p]) d2 = ((r, w), d')"
        using "2.prems"(1) p written renamed by (simp add: Let_def)
      moreover have "list_all (\<lambda>x. dk_files d2 (fst x) \<noteq> None \<and> \<not> is_temp (fst x)) rest"
        using "2.prems"(2,3) files by (auto simp: list_all_iff)
      ultimately obtain ready' rest' where IH: "rest = ready' @ rest'" "w = (written @ [p]) @ map fst ready'"
        "r = None \<longleftrightarrow> rest' = []"
        "case r of None \<Rightarrow> faults_left d' = faults_left d2 | Some _ \<Rightarrow> faults_left d2 = Suc (faults_left d')"
        "\<forall>q. \<not> is_temp q \<longrightarrow> dk_files d' q = (dk_files d2 ++ map_of ready') q"
        using "2.IH" [OF refl refl] "2.prems"(2) p written renamed by (fastforce simp: Let_def)
      have "map_of ready' p = None" using "2.prems"(2) IH(1) by (auto simp: map_of_eq_None_iff)
      then have all: "dk_files d' q = (dk_files d ++ map_of ((p, content) # ready')) q" if "\<not> is_temp q" for q
        using IH(5) files [OF that] that by (cases "q = p") (simp_all add: map_add_def split: option.split)
      then show ?thesis
        using IH(1-4) left written(3) renamed(3)
        by - (rule exI [of _ "(p, content) # ready'"], rule exI [of _ rest'], simp add: all del: map_of.simps split: option.splits)
    qed
  qed
qed

lemma restore_files:
  "faults_left d = 0 \<Longrightarrow>
     dk_files (restore originals ps d) q = (if q \<in> set ps then Some (the (map_of originals q)) else dk_files d q)"
proof (induction originals ps d rule: restore.induct)
  case (2 originals p ps d)
  show ?case
    using 2 by (cases rule: disk_write_cases [of p "the (map_of originals p)" d]) auto
qed simp

text \<open>What the checks establish: every planned path has its content and its edited content.\<close>

lemma read_files_result:
  assumes "read_files sha root_dir fs d (originals, replacements) = Inr (originals', replacements')"
    and "js_map_ok originals" "js_map_ok replacements" "dom (map_of originals) = dom (map_of replacements)"
  shows "js_map_ok replacements' \<and> dom (map_of originals') = dom (map_of replacements') \<and>
    (\<forall>p. (p \<in> planned_path root_dir ` set fs \<longrightarrow> map_of originals' p = dk_files d p \<and> dk_files d p \<noteq> None) \<and>
         (p \<notin> planned_path root_dir ` set fs \<longrightarrow> map_of originals' p = map_of originals p \<and> map_of replacements' p = map_of replacements p)) \<and>
    (distinct (map (planned_path root_dir) fs) \<longrightarrow> (\<forall>f \<in> set fs. \<exists>content changed. dk_files d (planned_path root_dir f) = Some content \<and>
       apply_edits sha content f = Inr changed \<and> map_of replacements' (planned_path root_dir f) = Some changed))"
  using assms
proof (induction fs arbitrary: originals replacements)
  case (Cons f fs)
  let ?p = "planned_path root_dir f"
  obtain content changed where step: "dk_files d ?p = Some content" "apply_edits sha content f = Inr changed"
    "read_files sha root_dir fs d (AList.update ?p content originals, AList.update ?p changed replacements) = Inr (originals', replacements')"
    using Cons.prems(1) by (auto simp: Let_def andthen_eq_Inr disk_read_def split: if_splits option.splits)
  note IH = Cons.IH [OF step(3)]
  have "js_map_ok (AList.update ?p content originals)" "js_map_ok (AList.update ?p changed replacements)"
    "dom (map_of (AList.update ?p content originals)) = dom (map_of (AList.update ?p changed replacements))"
    using Cons.prems by auto
  note IH = IH [OF this]
  have "map_of replacements' ?p = Some changed" if "?p \<notin> planned_path root_dir ` set fs"
    using IH that by auto
  then show ?case
    using IH step(1,2) by (auto split: if_splits)
qed simp

section \<open>All or nothing\<close>

text \<open>
  Applying a rename plan to the files of a project: all of them change or none, also when the disk fails once
  on the way; and what a failure leaves behind.
\<close>

text \<open>The replacements cover exactly the planned paths.\<close>

lemma read_files_checked:
  assumes "read_files sha root_dir fs d ([], []) = Inr (originals, replacements)"
  shows "distinct (map fst replacements)" "dom (map_of replacements) = planned_path root_dir ` set fs"
    "\<And>p. p \<in> planned_path root_dir ` set fs \<Longrightarrow> map_of originals p = dk_files d p \<and> dk_files d p \<noteq> None"
    "distinct (map (planned_path root_dir) fs) \<Longrightarrow> f \<in> set fs \<Longrightarrow>
       \<exists>content changed. dk_files d (planned_path root_dir f) = Some content \<and>
         apply_edits sha content f = Inr changed \<and> map_of replacements (planned_path root_dir f) = Some changed"
proof -
  note result = read_files_result [OF assms js_map_ok_Nil js_map_ok_Nil refl]
  then show "distinct (map fst replacements)" by (simp add: js_map_ok_def)
  have each: "(p \<in> planned_path root_dir ` set fs \<longrightarrow> map_of originals p = dk_files d p \<and> dk_files d p \<noteq> None) \<and>
      (p \<notin> planned_path root_dir ` set fs \<longrightarrow> map_of originals p = None)" for p
    using conjunct1 [OF conjunct2 [OF conjunct2 [OF result]]] by (simp del: image_iff)
  then show "p \<in> planned_path root_dir ` set fs \<Longrightarrow> map_of originals p = dk_files d p \<and> dk_files d p \<noteq> None" for p
    by blast
  have "p \<in> dom (map_of originals) \<longleftrightarrow> p \<in> planned_path root_dir ` set fs" for p
    using each [of p] by (cases "p \<in> planned_path root_dir ` set fs") (simp_all add: dom_def)
  then have "dom (map_of originals) = planned_path root_dir ` set fs" by (rule set_eqI)
  with conjunct1 [OF conjunct2 [OF result]] show "dom (map_of replacements) = planned_path root_dir ` set fs" by (rule subst)
  show "distinct (map (planned_path root_dir) fs) \<Longrightarrow> f \<in> set fs \<Longrightarrow>
       \<exists>content changed. dk_files d (planned_path root_dir f) = Some content \<and>
         apply_edits sha content f = Inr changed \<and> map_of replacements (planned_path root_dir f) = Some changed"
    using conjunct2 [OF conjunct2 [OF conjunct2 [OF result]]] by blast
qed

definition unchanged :: "disk \<Rightarrow> disk \<Rightarrow> bool" where
  "unchanged d d' \<longleftrightarrow> (\<forall>p. \<not> is_temp p \<longrightarrow> dk_files d' p = dk_files d p)"

definition replaced_by_plan :: "(string \<Rightarrow> string) \<Rightarrow> string \<Rightarrow> planned_file list \<Rightarrow> disk \<Rightarrow> disk \<Rightarrow> bool" where
  "replaced_by_plan sha root_dir fs d d' \<longleftrightarrow>
     (\<forall>f \<in> set fs. \<exists>content changed. dk_files d (planned_path root_dir f) = Some content \<and>
        apply_edits sha content f = Inr changed \<and> dk_files d' (planned_path root_dir f) = Some changed) \<and>
     (\<forall>p. \<not> is_temp p \<longrightarrow> p \<notin> planned_path root_dir ` set fs \<longrightarrow> dk_files d' p = dk_files d p)"

lemma write_or_restore:
  assumes checked: "read_files sha root_dir fs d ([], []) = Inr (originals, replacements)"
    and dist: "distinct (map (planned_path root_dir) fs)" and no_temp: "list_all (\<lambda>f. \<not> is_temp (planned_path root_dir f)) fs"
    and once: "faults_left d \<le> 1" and run: "write_all uuid replacements [] d = ((r, written), d1)"
  shows "case r of None \<Rightarrow> replaced_by_plan sha root_dir fs d d1
    | Some e \<Rightarrow> unchanged d (restore originals (rev written) d1)"
proof -
  note c = read_files_checked [OF checked]
  have in_dom: "fst x \<in> planned_path root_dir ` set fs" if "x \<in> set replacements" for x
    using that c(2) by (metis dom_map_of_conv_image_fst image_eqI)
  have "list_all (\<lambda>x. dk_files d (fst x) \<noteq> None \<and> \<not> is_temp (fst x)) replacements"
    using in_dom c(3) no_temp unfolding list_all_iff by fastforce
  from write_all_files [OF run c(1) this] obtain ready rest where
    split: "replacements = ready @ rest" "written = map fst ready" "r = None \<longleftrightarrow> rest = []"
    and left: "case r of None \<Rightarrow> faults_left d1 = faults_left d | Some _ \<Rightarrow> faults_left d = Suc (faults_left d1)"
    and files: "\<forall>p. \<not> is_temp p \<longrightarrow> dk_files d1 p = (dk_files d ++ map_of ready) p"
    by auto
  show ?thesis
  proof (cases r)
    case None
    have "\<exists>content changed. dk_files d (planned_path root_dir f) = Some content \<and>
        apply_edits sha content f = Inr changed \<and> dk_files d1 (planned_path root_dir f) = Some changed" if "f \<in> set fs" for f
      using c(4) [OF dist that] files no_temp that None split by (auto simp: list_all_iff)
    moreover have "dk_files d1 p = dk_files d p" if "\<not> is_temp p" "p \<notin> planned_path root_dir ` set fs" for p
      using files that c(2) None split by (auto simp: map_add_def split: option.split)
    ultimately show ?thesis using None by (simp add: replaced_by_plan_def)
  next
    case (Some e)
    then have done_faults: "faults_left d1 = 0" using left once by simp
    have "dk_files (restore originals (rev written) d1) p = dk_files d p" if "\<not> is_temp p" for p
    proof (cases "p \<in> fst ` set ready")
      case True
      then have "p \<in> planned_path root_dir ` set fs" using in_dom split(1) by auto
      then show ?thesis using restore_files [OF done_faults] True split(2) c(3) by auto
    next
      case False
      then have "map_of ready p = None" by (simp add: map_of_eq_None_iff)
      then show ?thesis
        using restore_files [OF done_faults] split(2) files that False by (simp add: map_add_def)
    qed
    then show ?thesis using Some by (simp add: unchanged_def)
  qed
qed

text \<open>
  C8: A rename is applied to all files or to none. If the disk fails at most once, at whatever write or rename
  and also by leaving a broken file, then either the call returns, every planned file has exactly the text that
  \<open>applyEdits\<close> makes of its old one, and no other file has changed; or it throws, and every file is as it was.
  Temporary files are not counted; the planned paths must be different and not look like temporary files.
\<close>

theorem rename_all_or_nothing:
  assumes "distinct (map (planned_path root_dir) (rp_files plan))"
    and "list_all (\<lambda>f. \<not> is_temp (planned_path root_dir f)) (rp_files plan)" and "faults_left d \<le> 1"
    and "apply_rename_plan_to_filesystem sha stringify uuid (Inr root_dir) True plan d = (r, d')"
  shows "case r of Inl e \<Rightarrow> unchanged d d' | Inr x \<Rightarrow> replaced_by_plan sha root_dir (rp_files plan) d d'"
proof (cases "andthen (validate_rename_plan sha stringify plan) (\<lambda>_. read_files sha root_dir (rp_files plan) d ([], []))")
  case (Inl e)
  then show ?thesis using assms(4) by (auto simp: apply_rename_plan_to_filesystem_def unchanged_def)
next
  case (Inr checked)
  obtain originals replacements where "checked = (originals, replacements)" by fastforce
  with Inr have read: "read_files sha root_dir (rp_files plan) d ([], []) = Inr (originals, replacements)"
    by (auto simp: andthen_eq_Inr)
  obtain err written d1 where run: "write_all uuid replacements [] d = ((err, written), d1)"
    by (metis prod.collapse)
  from write_or_restore [OF read assms(1-3) run] show ?thesis
    using assms(4) Inr run \<open>checked = _\<close>
    by (cases err) (auto simp: apply_rename_plan_to_filesystem_def)
qed

text \<open>Two files, and a disk whose second rename fails.\<close>

definition example_disk :: "io_outcome list \<Rightarrow> disk" where
  "example_disk faults = \<lparr>dk_files = [''/p/a.el'' \<mapsto> ''(f x)'', ''/p/b.el'' \<mapsto> ''(x)''], dk_links = [],
     dk_faults = faults, dk_uuids = 0\<rparr>"

definition two_files :: rename_plan where
  "two_files = projr (create_project_rename_plan (\<lambda>s. s) (\<lambda>v. ''_'') (\<lambda>a b. True) (JStr ''/p'')
     (JArr [JObj [(''path'', JStr ''a.el''), (''content'', JStr ''(f x)'')],
            JObj [(''path'', JStr ''b.el''), (''content'', JStr ''(x)'')]]) ''x'' ''y'' None None (JObj []))"

definition example_application :: "io_outcome list \<Rightarrow> (rename_error + applied_plan) \<times> disk" where
  "example_application faults =
     apply_rename_plan_to_filesystem (\<lambda>s. s) (\<lambda>v. ''_'') (\<lambda>n. dec_str n) (Inr ''/p'') True two_files (example_disk faults)"

lemma two_files_paths: "map (planned_path ''/p'') (rp_files two_files) = [''/p/a.el'', ''/p/b.el'']"
  by code_simp

theorem rename_all_or_nothing_witness:
  "unchanged (example_disk [Done, Done, Done, Refused]) (snd (example_application [Done, Done, Done, Refused])) \<and>
   fst (example_application [Done, Done, Done, Refused]) = Inl (io_error ''/p/b.el.emacs-operator-1.tmp'')"
proof -
  let ?d = "example_disk [Done, Done, Done, Refused]" and ?r = "example_application [Done, Done, Done, Refused]"
  have result: "fst ?r = Inl (io_error ''/p/b.el.emacs-operator-1.tmp'')" by code_simp
  have "distinct (map (planned_path ''/p'') (rp_files two_files))" by (simp add: two_files_paths)
  moreover have "list_all (\<lambda>f. \<not> is_temp (planned_path ''/p'' f)) (rp_files two_files)" by code_simp
  moreover have "faults_left ?d \<le> 1" by code_simp
  moreover have "apply_rename_plan_to_filesystem (\<lambda>s. s) (\<lambda>v. ''_'') (\<lambda>n. dec_str n) (Inr ''/p'') True two_files ?d = (fst ?r, snd ?r)"
    by (simp add: example_application_def)
  ultimately have "case fst ?r of Inl e \<Rightarrow> unchanged ?d (snd ?r)
      | Inr x \<Rightarrow> replaced_by_plan (\<lambda>s. s) ''/p'' (rp_files two_files) ?d (snd ?r)"
    by (rule rename_all_or_nothing)
  with result show ?thesis by simp
qed

text \<open>
  The temporary file of the write that failed stays in the project: nothing removes it.
\<close>

theorem failed_rename_leaves_temp_file:
  "dk_files (snd (example_application [Done, Done, Done, Refused])) ''/p/b.el.emacs-operator-1.tmp'' = Some ''(y)''"
  by code_simp

end
