(* ===== verification/Analysis.thy ===== *)
theory Analysis
  imports RenamePlan
begin

text \<open>
  \<open>packages/refactor-intelligence/src/analysis.ts\<close>: which symbols of a selected piece of Lisp have to
  become parameters when it is extracted into a function. The source builds a tree whose nodes know
  their parent; here a node gets its parent's kind and its place among the siblings from the
  traversal. A JavaScript \<open>Set\<close> iterates in the order of insertion and is a list without repetitions.
\<close>

definition SPECIAL :: "string list" where
  "SPECIAL = [''defun'', ''defmacro'', ''lambda'', ''let'', ''let*'', ''setq'', ''setf'', ''if'', ''when'', ''unless'',
     ''cond'', ''progn'', ''prog1'', ''prog2'', ''and'', ''or'', ''while'', ''catch'', ''throw'', ''unwind-protect'',
     ''condition-case'', ''save-excursion'', ''save-restriction'', ''quote'', ''function'', ''fn'', ''defn'', ''defn-'',
     ''defmacro-'', ''loop'', ''recur'', ''doseq'', ''dotimes'', ''for'', ''binding'', ''with-open'', ''letfn'', ''do'',
     ''case'', ''try'', ''catch'', ''finally'', ''nil'', ''t'', ''true'', ''false'', ''&optional'', ''&rest'', ''&key'',
     ''&aux'', ''&body'', ''&environment'', ''_'']"

definition is_candidate :: "string \<Rightarrow> bool" where
  "is_candidate v \<longleftrightarrow> v \<notin> set SPECIAL \<and> \<not> starts_with v '':'' \<and> \<not> contains v ''/'' \<and>
     \<not> starts_with v ''#'' \<and> \<not> starts_with v ''.''"

definition add_to :: "'a \<Rightarrow> 'a list \<Rightarrow> 'a list" where
  "add_to x xs = (if x \<in> set xs then xs else xs @ [x])"

subsection \<open>The tree\<close>

datatype node_kind = Root_Kind | List_Kind | Vector_Kind | Map_Kind

datatype node = Atom token | Branch node_kind nat nat "node list"

fun node_start :: "node \<Rightarrow> nat" where
  "node_start (Atom t) = tok_start t"
| "node_start (Branch k a b cs) = a"

fun node_end :: "node \<Rightarrow> nat" where
  "node_end (Atom t) = tok_end t"
| "node_end (Branch k a b cs) = b"

fun node_children :: "node \<Rightarrow> node list" where
  "node_children (Atom t) = []"
| "node_children (Branch k a b cs) = cs"

text \<open>An open node on the stack.\<close>

record open_node =
  on_kind :: node_kind
  on_start :: nat
  on_end :: nat
  on_children :: "node list"

definition add_child :: "node \<Rightarrow> open_node \<Rightarrow> open_node" where
  "add_child c n = n\<lparr>on_children := on_children n @ [c]\<rparr>"

definition as_node :: "open_node \<Rightarrow> node" where
  "as_node n = Branch (on_kind n) (on_start n) (on_end n) (on_children n)"

definition open_kind :: "string \<Rightarrow> node_kind option" where
  "open_kind v = (if v = ''('' then Some List_Kind else if v = ''['' then Some Vector_Kind
     else if v = ''{'' then Some Map_Kind else None)"

text \<open>One token; the stack is never empty, its last element is the root.\<close>

fun tree_step :: "open_node list \<Rightarrow> token \<Rightarrow> open_node list" where
  "tree_step [] t = []"
| "tree_step (n # rest) t =
     (if tok_type t = Delimiter_Token \<and> open_kind (tok_value t) \<noteq> None
      then \<lparr>on_kind = the (open_kind (tok_value t)), on_start = tok_start t, on_end = tok_end t, on_children = []\<rparr> # n # rest
      else if tok_type t = Delimiter_Token \<and> tok_value t \<in> {'')'', '']'', ''}''}
      then (case rest of
              [] \<Rightarrow> n # rest
            | m # ms \<Rightarrow> add_child (as_node (n\<lparr>on_end := tok_end t\<rparr>)) m # ms)
      else add_child (Atom t) n # rest)"

text \<open>The nodes that are still open at the end stay where they were opened.\<close>

fun close_all :: "open_node list \<Rightarrow> node list" where
  "close_all [] = []"
| "close_all [r] = on_children r"
| "close_all (n # m # ms) = close_all (add_child (as_node n) m # ms)"

definition build_tree :: "token list \<Rightarrow> node" where
  "build_tree tokens =
     Branch Root_Kind 0 (if tokens = [] then 0 else tok_end (last tokens))
       (close_all (foldl tree_step [\<lparr>on_kind = Root_Kind, on_start = 0, on_end = 0, on_children = []\<rparr>] tokens))"

fun atom_value :: "node \<Rightarrow> string option" where
  "atom_value (Atom t) = (if tok_type t = Symbol_Token then Some (tok_value t) else None)"
| "atom_value (Branch k a b cs) = None"

subsection \<open>Bindings\<close>

type_synonym names = "string list \<times> string list"  \<comment> \<open>bound, unresolved\<close>

fun collect_pattern :: "node \<Rightarrow> names \<Rightarrow> names" and collect_patterns :: "node list \<Rightarrow> names \<Rightarrow> names" where
  "collect_pattern (Atom t) (bound, unresolved) =
     (case atom_value (Atom t) of
        Some v \<Rightarrow> if v \<noteq> [] \<and> is_candidate v then (add_to v bound, unresolved) else (bound, unresolved)
      | None \<Rightarrow> (bound, unresolved))"
| "collect_pattern (Branch k a b cs) (bound, unresolved) =
     (if k = Vector_Kind \<or> k = List_Kind then collect_patterns cs (bound, unresolved)
      else if k = Map_Kind then (bound, add_to ''destructuring-map'' unresolved)
      else (bound, unresolved))"
| "collect_patterns [] ns = ns"
| "collect_patterns (c # cs) ns = collect_patterns cs (collect_pattern c ns)"

definition collect_at :: "nat \<Rightarrow> node list \<Rightarrow> names \<Rightarrow> names" where
  "collect_at i cs ns = (if i < length cs then collect_pattern (cs ! i) ns else ns)"

text \<open>Every other element of a binding vector.\<close>

fun collect_even :: "node list \<Rightarrow> names \<Rightarrow> names" where
  "collect_even [] ns = ns"
| "collect_even [c] ns = collect_pattern c ns"
| "collect_even (c # d # cs) ns = collect_even cs (collect_pattern c ns)"

fun collect_pairs :: "node list \<Rightarrow> names \<Rightarrow> names" where
  "collect_pairs [] ns = ns"
| "collect_pairs (Branch List_Kind a b ps # cs) ns = collect_pairs cs (collect_at 0 ps ns)"
| "collect_pairs (c # cs) (bound, unresolved) =
     collect_pairs cs (bound, add_to ''unrecognized-binding-form'' unresolved)"

definition collect_bindings :: "node \<Rightarrow> names \<Rightarrow> names" where
  "collect_bindings b ns =
     (case b of
        Branch Vector_Kind _ _ cs \<Rightarrow> collect_even cs ns
      | Branch List_Kind _ _ cs \<Rightarrow> collect_pairs cs ns
      | _ \<Rightarrow> ns)"

definition lambda_heads :: "string list" where
  "lambda_heads = [''lambda'', ''fn'']"

definition defun_heads :: "string list" where
  "defun_heads = [''defun'', ''defmacro'', ''defn'', ''defn-'', ''defmacro-'']"

definition let_heads :: "string list" where
  "let_heads = [''let'', ''let*'', ''loop'', ''binding'', ''with-open'', ''doseq'', ''for'']"

fun bindings_introduced :: "node \<Rightarrow> names" where
  "bindings_introduced (Branch List_Kind a b (h # cs)) =
     (case atom_value h of
        None \<Rightarrow> ([], [])
      | Some head \<Rightarrow>
          if head \<in> set lambda_heads then collect_at 1 (h # cs) ([], [])
          else if head \<in> set defun_heads then collect_at 2 (h # cs) ([], [])
          else if head \<in> set let_heads \<and> cs \<noteq> [] then collect_bindings (hd cs) ([], [])
          else ([], []))"
| "bindings_introduced n = ([], [])"

definition add_all :: "'a list \<Rightarrow> 'a list \<Rightarrow> 'a list" where
  "add_all new old = fold add_to new old"

definition merge_names :: "names \<Rightarrow> names \<Rightarrow> names" where
  "merge_names introduced ns = (add_all (fst introduced) (fst ns), add_all (snd introduced) (snd ns))"

text \<open>The path from the root to the innermost node around the selection.\<close>

fun containing_path :: "node \<Rightarrow> nat \<Rightarrow> nat \<Rightarrow> node list option"
  and containing_child :: "node list \<Rightarrow> nat \<Rightarrow> nat \<Rightarrow> node list option" where
  "containing_path (Atom t) s e = (if tok_start t > s \<or> tok_end t < e then None else Some [Atom t])"
| "containing_path (Branch k a b cs) s e =
     (if a > s \<or> b < e then None
      else (case containing_child cs s e of
              Some path \<Rightarrow> Some (Branch k a b cs # path)
            | None \<Rightarrow> Some [Branch k a b cs]))"
| "containing_child [] s e = None"
| "containing_child (Atom t # cs) s e = containing_child cs s e"
| "containing_child (Branch k a b ds # cs) s e =
     (case containing_path (Branch k a b ds) s e of Some path \<Rightarrow> Some path | None \<Rightarrow> containing_child cs s e)"

definition bindings_visible :: "node \<Rightarrow> nat \<Rightarrow> nat \<Rightarrow> names" where
  "bindings_visible tree s e =
     fold (\<lambda>n. merge_names (bindings_introduced n))
       (case containing_path tree s e of Some path \<Rightarrow> path | None \<Rightarrow> [tree]) ([], [])"

fun collect_local :: "node \<Rightarrow> names \<Rightarrow> names" and collect_locals :: "node list \<Rightarrow> names \<Rightarrow> names" where
  "collect_local (Atom t) ns = ns"
| "collect_local (Branch k a b cs) ns = collect_locals cs (merge_names (bindings_introduced (Branch k a b cs)) ns)"
| "collect_locals [] ns = ns"
| "collect_locals (c # cs) ns = collect_locals cs (collect_local c ns)"

subsection \<open>The free symbols of the selection\<close>

definition is_quote :: "node option \<Rightarrow> bool" where
  "is_quote previous = (case previous of
     Some (Atom t) \<Rightarrow> tok_type t = Delimiter_Token \<and> tok_value t \<in> {[SQUOTE], [CHR 0x60]}
   | _ \<Rightarrow> False)"

record walk_state =
  ws_parameters :: "string list"
  ws_unresolved :: "string list"

text \<open>\<open>walk\<close>; \<open>parent\<close> and \<open>previous\<close> are what \<open>isFunctionHead\<close> and \<open>isQuoted\<close> find out about a node.\<close>

fun walk :: "string list \<Rightarrow> string list \<Rightarrow> node_kind option \<Rightarrow> node option \<Rightarrow> node \<Rightarrow> walk_state \<Rightarrow> walk_state"
  and walk_children :: "string list \<Rightarrow> string list \<Rightarrow> node_kind \<Rightarrow> node option \<Rightarrow> node list \<Rightarrow> walk_state \<Rightarrow> walk_state" where
  "walk visible local_bound parent previous (Atom t) st =
     (case atom_value (Atom t) of
        None \<Rightarrow> st
      | Some v \<Rightarrow>
          if v = [] \<or> \<not> is_candidate v \<or> parent = Some List_Kind \<and> previous = None \<or> is_quote previous \<or> v \<in> set local_bound
          then st
          else if v \<in> set visible then st\<lparr>ws_parameters := add_to v (ws_parameters st)\<rparr>
          else st\<lparr>ws_unresolved := add_to v (ws_unresolved st)\<rparr>)"
| "walk visible local_bound parent previous (Branch k a b cs) st = walk_children visible local_bound k None cs st"
| "walk_children visible local_bound k previous [] st = st"
| "walk_children visible local_bound k previous (c # cs) st =
     walk_children visible local_bound k (Some c) cs (walk visible local_bound (Some k) previous c st)"

record inference =
  in_parameters :: "string list"
  in_unresolved :: "string list"
  in_confidence :: string
  in_selection :: "nat \<times> nat"
  in_source_sha256 :: string
  in_diagnostics :: "diagnostic list"

definition selected :: "nat \<Rightarrow> nat \<Rightarrow> token list \<Rightarrow> token list" where
  "selected s e ts = filter (\<lambda>t. s \<le> tok_start t \<and> tok_end t \<le> e) ts"

text \<open>The result for a selection whose bounds are in range.\<close>

definition infer_selected :: "(string \<Rightarrow> string) \<Rightarrow> string \<Rightarrow> nat \<Rightarrow> nat \<Rightarrow> string list \<Rightarrow> inference" where
  "infer_selected sha src a b known =
     (let tokens = fst (scan_lisp False src);
          seen = bindings_visible (build_tree tokens) a b;
          visible = add_all known (fst seen);
          tree = build_tree (selected a b tokens);
          locals = collect_local tree ([], snd seen);
          st = walk visible (fst locals) None None tree \<lparr>ws_parameters = [], ws_unresolved = []\<rparr>;
          unresolved = ws_unresolved st @ filter (\<lambda>issue. issue \<notin> set (ws_unresolved st)) (snd locals);
          diagnostics = snd (scan_lisp False src) in
      \<lparr>in_parameters = ws_parameters st, in_unresolved = unresolved,
        in_confidence = (if unresolved = [] \<and> diagnostics = [] then ''high''
          else if ws_parameters st \<noteq> [] then ''medium'' else ''low''),
        in_selection = (a, b), in_source_sha256 = sha (slice a b src), in_diagnostics = diagnostics\<rparr>)"

definition infer_extract_parameters ::
  "(string \<Rightarrow> string) \<Rightarrow> string \<Rightarrow> jnum option \<Rightarrow> jnum option \<Rightarrow> string list \<Rightarrow> string + inference" where
  "infer_extract_parameters sha src selection_start selection_end known =
     (let s = (case selection_start of Some n \<Rightarrow> n | None \<Rightarrow> Fin 0);
          e = (case selection_end of Some n \<Rightarrow> n | None \<Rightarrow> Fin (of_nat (length src))) in
      if \<not> is_integer_num s \<or> \<not> is_integer_num e \<or> jn_less s (Fin 0) \<or> jn_less e s \<or> jn_less (Fin (of_nat (length src))) e
      then Inl ''invalid selection bounds''
      else Inr (infer_selected sha src (nat (num_int s)) (nat (num_int e)) known))"

end
