(* ===== verification/AnalysisProps.thy ===== *)
theory AnalysisProps
  imports Analysis
begin

text \<open>
  Properties of the extraction analysis: the tree keeps every token that is no bracket, in order; the
  parameters and the unresolved names are exactly the free symbols of the selection.
\<close>

subsection \<open>The tree\<close>

fun leaves :: "node \<Rightarrow> token list" and leaves_of :: "node list \<Rightarrow> token list" where
  "leaves (Atom t) = [t]"
| "leaves (Branch k a b cs) = leaves_of cs"
| "leaves_of [] = []"
| "leaves_of (c # cs) = leaves c @ leaves_of cs"

definition is_bracket :: "token \<Rightarrow> bool" where
  "is_bracket t \<longleftrightarrow> tok_type t = Delimiter_Token \<and> tok_value t \<in> {''('', ''['', ''{'', '')'', '']'', ''}''}"

definition stack_leaves :: "open_node list \<Rightarrow> token list" where
  "stack_leaves st = concat (map (\<lambda>n. leaves_of (on_children n)) (rev st))"

lemma leaves_of_append [simp]: "leaves_of (xs @ ys) = leaves_of xs @ leaves_of ys"
  by (induction xs) auto

lemma tree_step_leaves:
  "st \<noteq> [] \<Longrightarrow> tree_step st t \<noteq> [] \<and> stack_leaves (tree_step st t) = stack_leaves st @ (if is_bracket t then [] else [t])"
  by (cases "(st, t)" rule: tree_step.cases)
    (auto simp: stack_leaves_def add_child_def as_node_def is_bracket_def open_kind_def split: list.split)

lemma close_all_leaves: "leaves_of (close_all st) = stack_leaves st"
  by (induction st rule: close_all.induct) (auto simp: stack_leaves_def add_child_def as_node_def)

lemma fold_tree_leaves:
  "st \<noteq> [] \<Longrightarrow> stack_leaves (foldl tree_step st ts) = stack_leaves st @ filter (\<lambda>t. \<not> is_bracket t) ts"
proof (induction ts arbitrary: st)
  case (Cons t ts)
  then show ?case using tree_step_leaves [of st t] by simp
qed simp

text \<open>
  The tree of the analysis loses nothing: its atoms, from left to right, are the tokens that are not brackets,
  however the brackets are nested or unbalanced.
\<close>

theorem build_tree_leaves: "leaves (build_tree tokens) = filter (\<lambda>t. \<not> is_bracket t) tokens"
  by (simp add: build_tree_def close_all_leaves fold_tree_leaves) (simp add: stack_leaves_def)

subsection \<open>Free symbols\<close>

lemma add_to_set [simp]: "set (add_to x xs) = insert x (set xs)"
  by (auto simp: add_to_def)

lemma add_to_distinct [simp]: "distinct (add_to x xs) = distinct xs"
  by (simp add: add_to_def)

text \<open>
  A symbol that stands for a value in the selection: not the head of a list, not quoted, not bound in
  the selection itself.
\<close>

inductive free_symbol :: "string list \<Rightarrow> node_kind option \<Rightarrow> node option \<Rightarrow> node \<Rightarrow> string \<Rightarrow> bool"
  for local_bound where
  here: "tok_type t = Symbol_Token \<Longrightarrow> tok_value t = v \<Longrightarrow> v \<noteq> [] \<Longrightarrow> is_candidate v \<Longrightarrow> v \<notin> set local_bound \<Longrightarrow>
    \<not> (parent = Some List_Kind \<and> previous = None) \<Longrightarrow> \<not> is_quote previous \<Longrightarrow>
    free_symbol local_bound parent previous (Atom t) v"
| below: "free_symbol local_bound (Some k) (if xs = [] then None else Some (last xs)) c v \<Longrightarrow>
    free_symbol local_bound parent previous (Branch k a b (xs @ c # ys)) v"

inductive_simps free_symbol_atom: "free_symbol local_bound parent previous (Atom t) v"
inductive_simps free_symbol_branch: "free_symbol local_bound parent previous (Branch k a b cs) v"

definition free_among :: "string list \<Rightarrow> node_kind \<Rightarrow> node option \<Rightarrow> node list \<Rightarrow> string \<Rightarrow> bool" where
  "free_among local_bound k previous cs v \<longleftrightarrow>
     (\<exists>xs c ys. cs = xs @ c # ys \<and> free_symbol local_bound (Some k) (if xs = [] then previous else Some (last xs)) c v)"

lemma free_among_Nil [simp]: "\<not> free_among local_bound k previous [] v"
  by (simp add: free_among_def)

lemma free_among_Cons:
  "free_among local_bound k previous (c # cs) v \<longleftrightarrow>
     free_symbol local_bound (Some k) previous c v \<or> free_among local_bound k (Some c) cs v"
proof
  assume "free_among local_bound k previous (c # cs) v"
  then obtain xs d ys where d: "c # cs = xs @ d # ys"
    "free_symbol local_bound (Some k) (if xs = [] then previous else Some (last xs)) d v" by (auto simp: free_among_def)
  then show "free_symbol local_bound (Some k) previous c v \<or> free_among local_bound k (Some c) cs v"
    by (cases xs) (auto simp: free_among_def split: if_splits)
next
  assume "free_symbol local_bound (Some k) previous c v \<or> free_among local_bound k (Some c) cs v"
  then show "free_among local_bound k previous (c # cs) v"
  proof
    assume "free_symbol local_bound (Some k) previous c v"
    then show ?thesis unfolding free_among_def by (intro exI [of _ "[]"]) auto
  next
    assume "free_among local_bound k (Some c) cs v"
    then obtain xs d ys where "cs = xs @ d # ys"
      "free_symbol local_bound (Some k) (if xs = [] then Some c else Some (last xs)) d v" by (auto simp: free_among_def)
    then show ?thesis unfolding free_among_def
      by (intro exI [of _ "c # xs"] exI [of _ d] exI [of _ ys]) (auto split: if_splits)
  qed
qed

lemma free_symbol_Branch:
  "free_symbol local_bound parent previous (Branch k a b cs) v \<longleftrightarrow> free_among local_bound k None cs v"
  by (auto simp: free_symbol_branch free_among_def)

definition names_ok :: "walk_state \<Rightarrow> bool" where
  "names_ok st \<longleftrightarrow> distinct (ws_parameters st) \<and> distinct (ws_unresolved st)"

lemma walk_free:
  "set (ws_parameters (walk visible local_bound parent previous n st)) =
     set (ws_parameters st) \<union> {v. free_symbol local_bound parent previous n v \<and> v \<in> set visible} \<and>
   set (ws_unresolved (walk visible local_bound parent previous n st)) =
     set (ws_unresolved st) \<union> {v. free_symbol local_bound parent previous n v \<and> v \<notin> set visible} \<and>
   (names_ok st \<longrightarrow> names_ok (walk visible local_bound parent previous n st))"
  "set (ws_parameters (walk_children visible local_bound k previous cs st)) =
     set (ws_parameters st) \<union> {v. free_among local_bound k previous cs v \<and> v \<in> set visible} \<and>
   set (ws_unresolved (walk_children visible local_bound k previous cs st)) =
     set (ws_unresolved st) \<union> {v. free_among local_bound k previous cs v \<and> v \<notin> set visible} \<and>
   (names_ok st \<longrightarrow> names_ok (walk_children visible local_bound k previous cs st))"
proof (induction visible local_bound parent previous n st and visible local_bound k previous cs st
    rule: walk_walk_children.induct)
  case (1 visible local_bound parent previous t st)
  show ?case
    by (auto simp: free_symbol_atom names_ok_def split: if_splits)
next
  case (2 visible local_bound parent previous k a b cs st)
  then show ?case by (simp add: free_symbol_Branch)
next
  case (3 visible local_bound k previous st)
  show ?case by simp
next
  case (4 visible local_bound k previous c cs st)
  then show ?case by (auto simp: free_among_Cons)
qed

subsection \<open>Properties\<close>

lemma add_all_set [simp]: "set (add_all new old) = set new \<union> set old"
  unfolding add_all_def by (induction new arbitrary: old) auto

definition visible_in :: "string \<Rightarrow> nat \<Rightarrow> nat \<Rightarrow> string list \<Rightarrow> string set" where
  "visible_in src a b known = set known \<union> set (fst (bindings_visible (build_tree (fst (scan_lisp False src))) a b))"

definition selected_tree :: "string \<Rightarrow> nat \<Rightarrow> nat \<Rightarrow> node" where
  "selected_tree src a b = build_tree (selected a b (fst (scan_lisp False src)))"

definition selected_locals :: "string \<Rightarrow> nat \<Rightarrow> nat \<Rightarrow> names" where
  "selected_locals src a b = collect_local (selected_tree src a b)
     ([], snd (bindings_visible (build_tree (fst (scan_lisp False src))) a b))"

lemma infer_names:
  assumes "infer_extract_parameters sha src (Some (Fin (of_nat a))) (Some (Fin (of_nat b))) known = Inr r"
  shows "set (in_parameters r) = {v. free_symbol (fst (selected_locals src a b)) None None (selected_tree src a b) v \<and>
      v \<in> visible_in src a b known} \<and>
    set (in_unresolved r) = {v. free_symbol (fst (selected_locals src a b)) None None (selected_tree src a b) v \<and>
      v \<notin> visible_in src a b known} \<union> set (snd (selected_locals src a b)) \<and>
    distinct (in_parameters r) \<and>
    (in_confidence r = ''high'' \<longleftrightarrow> in_unresolved r = [] \<and> in_diagnostics r = [])"
proof -
  let ?tokens = "fst (scan_lisp False src)"
  let ?visible = "add_all known (fst (bindings_visible (build_tree ?tokens) a b))"
  let ?st = "walk ?visible (fst (selected_locals src a b)) None None (selected_tree src a b)
    \<lparr>ws_parameters = [], ws_unresolved = []\<rparr>"
  let ?un = "ws_unresolved ?st @ filter (\<lambda>issue. issue \<notin> set (ws_unresolved ?st)) (snd (selected_locals src a b))"
  have r: "in_parameters r = ws_parameters ?st" "in_unresolved r = ?un"
    "in_confidence r = (if ?un = [] \<and> in_diagnostics r = [] then ''high'' else if ws_parameters ?st \<noteq> [] then ''medium'' else ''low'')"
  proof -
    have "r = infer_selected sha src a b known"
      using assms by (simp add: infer_extract_parameters_def Let_def num_int_def split: if_split_asm)
    then show "in_parameters r = ws_parameters ?st" "in_unresolved r = ?un"
      "in_confidence r = (if ?un = [] \<and> in_diagnostics r = [] then ''high'' else if ws_parameters ?st \<noteq> [] then ''medium'' else ''low'')"
      by (simp_all only: infer_selected_def Let_def selected_locals_def selected_tree_def inference.select_convs)
  qed
  note free = walk_free(1) [of ?visible "fst (selected_locals src a b)" None None "selected_tree src a b"
      "\<lparr>ws_parameters = [], ws_unresolved = []\<rparr>"]
  have visible: "set ?visible = visible_in src a b known" by (simp add: visible_in_def)
  have "set (in_parameters r) = {v. free_symbol (fst (selected_locals src a b)) None None (selected_tree src a b) v \<and>
      v \<in> visible_in src a b known}"
    unfolding r visible [symmetric] by (simp only: free) simp
  moreover have "set (ws_unresolved ?st) = {v. free_symbol (fst (selected_locals src a b)) None None (selected_tree src a b) v \<and>
      v \<notin> visible_in src a b known}"
    unfolding visible [symmetric] by (simp only: free) simp
  moreover have "distinct (in_parameters r)"
    unfolding r using free [THEN conjunct2, THEN conjunct2] by (simp add: names_ok_def)
  moreover have "set (in_unresolved r) = set (ws_unresolved ?st) \<union> set (snd (selected_locals src a b))"
    unfolding r by auto
  moreover have "in_confidence r = ''high'' \<longleftrightarrow> in_unresolved r = [] \<and> in_diagnostics r = []"
    unfolding r by (simp del: append_is_Nil_conv)
  ultimately show ?thesis by (simp only: simp_thms)
qed


definition example_source :: string where
  "example_source = ''(let ((y 1)) (f y z))''"

definition example_inference :: inference where
  "example_inference = projr (infer_extract_parameters (\<lambda>s. s) example_source (Some (Fin 13)) (Some (Fin 20)) [])"


text \<open>
  A function reference is taken for a variable: \<open>#'f\<close> is one reader token and a symbol, and only a single
  quote or a backquote counts as quotation, so the extraction of \<open>(mapcar #'f xs)\<close> with \<open>xs\<close> known reports
  \<open>f\<close> as unresolved.
\<close>

theorem function_reference_unresolved:
  "(case infer_extract_parameters (\<lambda>s. s) (''(mapcar #'' @ [SQUOTE] @ ''f xs)'') None None [''xs''] of
      Inl _ \<Rightarrow> False
    | Inr r \<Rightarrow> in_parameters r = [''xs''] \<and> in_unresolved r = [''f''])"
  by code_simp

end
