(* ===== verification/Catalog.thy ===== *)
theory Catalog
  imports OrgWorkflows
begin

text \<open>
  The catalogue of the tools with the JSON schemas of their arguments, \<open>mcp-server/src/tools/catalog.ts\<close>, which
  \<open>tools/list\<close> sends to the client.
\<close>

record tool_definition =
  td_name :: string
  td_description :: string
  td_input_schema :: jval

definition object_schema :: "(string \<times> jval) list \<Rightarrow> string list \<Rightarrow> jval" where
  "object_schema properties required = JObj
     [(''type'', JStr ''object''), (''properties'', JObj properties), (''required'', JArr (map JStr required)),
      (''additionalProperties'', JBool True)]"

text \<open>Object literals that occur many times: \<open>{ type: t }\<close>, \<open>{ type: t, ... }\<close> and \<open>{ enum: [...] }\<close>.\<close>

abbreviation of_type :: "string \<Rightarrow> jval" where
  "of_type t \<equiv> JObj [(''type'', JStr t)]"

abbreviation typed :: "string \<Rightarrow> (string \<times> jval) list \<Rightarrow> jval" where
  "typed t kvs \<equiv> JObj ((''type'', JStr t) # kvs)"

abbreviation enum_of :: "string list \<Rightarrow> jval" where
  "enum_of xs \<equiv> JObj [(''enum'', JArr (map JStr xs))]"

definition session_id_schema :: jval where
  "session_id_schema =
     typed ''string'' [(''minLength'', jint 1)]"

definition navigation_schema :: jval where
  "navigation_schema =
     object_schema [(''operation'', enum_of [''goto_position'', ''goto_line'', ''buffer_start'',
     ''buffer_end'', ''line_start'', ''line_end'', ''search_forward'', ''search_backward'',
     ''forward_sexp'', ''backward_sexp'', ''beginning_of_defun'', ''end_of_defun'', ''up_list'',
     ''down_list'']), (''position'', typed ''integer'' [(''minimum'', jint 1)]), (''line'', typed
     ''integer'' [(''minimum'', jint 1)]), (''query'', typed ''string'' [(''minLength'', jint 1),
     (''maxLength'', jint 8192)]), (''regex'', of_type ''boolean''), (''case_sensitive'', of_type
     ''boolean''), (''count'', typed ''integer'' [(''minimum'', jint 1), (''maximum'', jint 10000)]),
     (''bound'', typed ''integer'' [(''minimum'', jint 1)])] [''operation'']"

definition evaluation_step_schema :: jval where
  "evaluation_step_schema =
     object_schema [(''operation'', enum_of [''eval_last_sexp'', ''eval_defun'', ''eval_region'']),
     (''adapter'', of_type ''string''), (''timeout_ms'', typed ''integer'' [(''minimum'', jint 1),
     (''maximum'', jint 30000)]), (''navigation'', navigation_schema), (''expected_value'', JObj [])]
     [''operation'']"

definition evaluation_schema :: jval where
  "evaluation_schema =
     JObj [(''oneOf'', JArr [evaluation_step_schema, object_schema [(''steps'', typed ''array''
     [(''minItems'', jint 1), (''maxItems'', jint 8), (''items'', evaluation_step_schema)])]
     [''steps'']])]"

definition edit_schema :: jval where
  "edit_schema =
     object_schema [(''operation'', enum_of [''insert'', ''replace_range'', ''delete_range'',
     ''apply_unified_diff'']), (''position'', typed ''integer'' [(''minimum'', jint 1)]), (''start'',
     typed ''integer'' [(''minimum'', jint 1)]), (''end'', typed ''integer'' [(''minimum'', jint 1)]),
     (''text'', of_type ''string''), (''diff'', of_type ''string'')] [''operation'']"

definition range_schema :: jval where
  "range_schema =
     object_schema [(''start'', typed ''integer'' [(''minimum'', jint 1)]), (''end'', typed ''integer''
     [(''minimum'', jint 1)])] [''start'', ''end'']"

definition org_rewrite_schema :: jval where
  "org_rewrite_schema =
     object_schema [(''expected_title'', typed ''string'' [(''minLength'', jint 1), (''maxLength'', jint
     8192)]), (''title'', typed ''string'' [(''minLength'', jint 1), (''maxLength'', jint 8192)]),
     (''todo'', JObj [(''type'', JArr [JStr ''string'', JStr ''null''])]), (''tags'', typed ''array''
     [(''items'', of_type ''string''), (''maxItems'', jint 100)]), (''properties'', typed ''object''
     [(''additionalProperties'', of_type ''string'')]), (''body'', typed ''string'' [(''maxLength'',
     jint 262144)]), (''move'', object_schema [(''direction'', enum_of [''up'', ''down'']), (''count'',
     typed ''integer'' [(''minimum'', jint 1), (''maximum'', jint 100)])] [''direction''])] []"

definition section_schema :: jval where
  "section_schema =
     object_schema [(''title'', typed ''string'' [(''minLength'', jint 1), (''maxLength'', jint 8192)]),
     (''level'', typed ''integer'' [(''minimum'', jint 1), (''maximum'', jint 50)]), (''placement'',
     enum_of [''buffer_end'', ''at_point'']), (''todo'', JObj [(''type'', JArr [JStr ''string'', JStr
     ''null''])]), (''tags'', typed ''array'' [(''items'', of_type ''string''), (''maxItems'', jint
     100)]), (''properties'', typed ''object'' [(''additionalProperties'', of_type ''string'')]),
     (''body'', typed ''string'' [(''maxLength'', jint 262144)]), (''table'', object_schema
     [(''headers'', typed ''array'' [(''minItems'', jint 1), (''maxItems'', jint 100), (''items'',
     of_type ''string'')]), (''rows'', typed ''array'' [(''maxItems'', jint 1000), (''items'', typed
     ''array'' [(''items'', of_type ''string'')])])] [''headers'', ''rows'']), (''source_block'',
     object_schema [(''language'', typed ''string'' [(''minLength'', jint 1)]), (''body'', typed
     ''string'' [(''maxLength'', jint 262144)]), (''headers'', of_type ''string''), (''execute'',
     of_type ''boolean''), (''expected_value'', JObj []), (''timeout_ms'', typed ''integer''
     [(''minimum'', jint 1), (''maximum'', jint 30000)])] [''language'', ''body''])] [''title'']"

definition emacs_health_definition :: tool_definition where
  "emacs_health_definition =
     \<lparr>td_name = ''emacs_health'', td_description =
     ''Return Emacs Operator MCP server health and implementation capabilities.'', td_input_schema =
     object_schema [] []\<rparr>"

definition emacs_instances_definition :: tool_definition where
  "emacs_instances_definition =
     \<lparr>td_name = ''emacs_instances'', td_description =
     ''Discover local Emacs instances exposing the Emacs Operator bridge.'', td_input_schema =
     object_schema [] []\<rparr>"

definition emacs_session_open_definition :: tool_definition where
  "emacs_session_open_definition =
     \<lparr>td_name = ''emacs_session_open'', td_description =
     ''Open an explicit session and resolve a stable Emacs target.'', td_input_schema = object_schema
     [(''selector'', of_type ''object''), (''default_channel'', enum_of [''semantic'',
     ''internal_keys'', ''native_keys'']), (''permission_profile'', enum_of [''read_only'',
     ''workspace_edit'', ''trusted_local'']), (''request_id'', of_type ''string'')]
     [''selector'']\<rparr>"

definition emacs_session_close_definition :: tool_definition where
  "emacs_session_close_definition =
     \<lparr>td_name = ''emacs_session_close'', td_description =
     ''Close an Emacs Operator session and release its mutation lease.'', td_input_schema =
     object_schema [(''session_id'', session_id_schema), (''request_id'', of_type ''string'')]
     [''session_id'']\<rparr>"

definition emacs_observe_definition :: tool_definition where
  "emacs_observe_definition =
     \<lparr>td_name = ''emacs_observe'', td_description =
     ''Read structured Emacs state and bounded context for the session target.'', td_input_schema =
     object_schema [(''session_id'', session_id_schema), (''scope'', typed ''array'' [(''items'',
     of_type ''string'')]), (''around_chars'', of_type ''integer''), (''since_state_seq'', of_type
     ''integer''), (''request_id'', of_type ''string'')] [''session_id'']\<rparr>"

definition emacs_read_definition :: tool_definition where
  "emacs_read_definition =
     \<lparr>td_name = ''emacs_read'', td_description =
     ''Read an exact bounded slice of the session buffer with pagination metadata.'', td_input_schema =
     object_schema [(''session_id'', session_id_schema), (''start'', typed ''integer'' [(''minimum'',
     jint 1)]), (''end'', typed ''integer'' [(''minimum'', jint 1)]), (''max_chars'', typed ''integer''
     [(''minimum'', jint 1), (''maximum'', jint 262144)]), (''request_id'', of_type ''string'')]
     [''session_id'']\<rparr>"

definition emacs_navigate_definition :: tool_definition where
  "emacs_navigate_definition =
     \<lparr>td_name = ''emacs_navigate'', td_description =
     ''Move point semantically in the target buffer without mutating text or requiring a foreground window.'',
     td_input_schema = object_schema [(''session_id'', session_id_schema), (''operation'', enum_of
     [''goto_position'', ''goto_line'', ''buffer_start'', ''buffer_end'', ''line_start'', ''line_end'',
     ''search_forward'', ''search_backward'', ''forward_sexp'', ''backward_sexp'',
     ''beginning_of_defun'', ''end_of_defun'', ''up_list'', ''down_list'']), (''position'', typed
     ''integer'' [(''minimum'', jint 1)]), (''line'', typed ''integer'' [(''minimum'', jint 1)]),
     (''query'', typed ''string'' [(''minLength'', jint 1), (''maxLength'', jint 8192)]), (''regex'',
     of_type ''boolean''), (''case_sensitive'', of_type ''boolean''), (''count'', typed ''integer''
     [(''minimum'', jint 1), (''maximum'', jint 10000)]), (''bound'', typed ''integer'' [(''minimum'',
     jint 1)]), (''precondition'', of_type ''object''), (''request_id'', of_type ''string'')]
     [''session_id'', ''operation'']\<rparr>"

definition emacs_capabilities_definition :: tool_definition where
  "emacs_capabilities_definition =
     \<lparr>td_name = ''emacs_capabilities'', td_description =
     ''Resolve key bindings, commands, features and mode capabilities in the target context.'',
     td_input_schema = object_schema [(''session_id'', session_id_schema), (''operation'', of_type
     ''string''), (''key'', of_type ''string''), (''command'', of_type ''string''), (''feature'',
     of_type ''string''), (''adapter'', of_type ''string''), (''request_id'', of_type ''string'')]
     [''session_id'', ''operation'']\<rparr>"

definition emacs_validate_definition :: tool_definition where
  "emacs_validate_definition =
     \<lparr>td_name = ''emacs_validate'', td_description =
     ''Run read-only adapter structural validation and return machine-readable diagnostics without mutating the buffer.'',
     td_input_schema = object_schema [(''session_id'', session_id_schema), (''adapter'', of_type
     ''string''), (''options'', of_type ''object''), (''request_id'', of_type ''string'')]
     [''session_id'']\<rparr>"

definition emacs_analyze_definition :: tool_definition where
  "emacs_analyze_definition =
     \<lparr>td_name = ''emacs_analyze'', td_description =
     ''Run a read-only mode-aware analyzer against code already present in the target buffer. Analysis is mutation-guarded by the Emacs bridge.'',
     td_input_schema = object_schema [(''session_id'', session_id_schema), (''adapter'', typed
     ''string'' [(''minLength'', jint 1), (''maxLength'', jint 128)]), (''operation'', typed ''string''
     [(''minLength'', jint 1), (''maxLength'', jint 128)]), (''params'', of_type ''object''),
     (''request_id'', of_type ''string'')] [''session_id'', ''operation'']\<rparr>"

definition emacs_verification_definition :: tool_definition where
  "emacs_verification_definition =
     \<lparr>td_name = ''emacs_verification'', td_description =
     ''Run and guard a structured buffer-derived Lisp/REPL verification ticket. Reruns require changed source and obey side-effect risk and attempt caps.'',
     td_input_schema = object_schema [(''session_id'', session_id_schema), (''action'', enum_of
     [''start'', ''rerun'', ''status'', ''close'']), (''ticket_id'', typed ''string'' [(''minLength'',
     jint 1), (''maxLength'', jint 256)]), (''adapter'', typed ''string'' [(''minLength'', jint 1),
     (''maxLength'', jint 128)]), (''operation'', enum_of [''eval_last_sexp'', ''eval_defun'',
     ''eval_region'']), (''timeout_ms'', typed ''integer'' [(''minimum'', jint 1), (''maximum'', jint
     30000)]), (''max_attempts'', typed ''integer'' [(''minimum'', jint 1), (''maximum'', jint 3)]),
     (''side_effect_risk'', enum_of [''low'', ''high'', ''unknown'']), (''allow_risky_rerun'', of_type
     ''boolean''), (''request_id'', of_type ''string'')] [''session_id'', ''action'']\<rparr>"

definition emacs_project_rename_definition :: tool_definition where
  "emacs_project_rename_definition =
     \<lparr>td_name = ''emacs_project_rename'', td_description =
     ''Run an analysis-first, language-aware, xref-backed project rename lifecycle: plan, bounded preview, apply to live buffers, rollback by journal, or commit the rollback journal. Clojure namespace and Common Lisp package qualification can be preserved explicitly. Apply never saves files.'',
     td_input_schema = object_schema [(''session_id'', session_id_schema), (''action'', enum_of
     [''plan'', ''preview'', ''apply'', ''status'', ''rollback'', ''commit'']), (''old_symbol'', typed
     ''string'' [(''minLength'', jint 1), (''maxLength'', jint 256)]), (''new_symbol'', typed ''string''
     [(''minLength'', jint 1), (''maxLength'', jint 256)]), (''language'', enum_of [''generic'',
     ''elisp'', ''clojure'', ''common_lisp'']), (''qualification_policy'', enum_of [''exact'',
     ''preserve_qualification'', ''leaf_only'']), (''include_definitions'', of_type ''boolean''),
     (''plan_id'', typed ''string'' [(''minLength'', jint 1), (''maxLength'', jint 256)]),
     (''journal_id'', typed ''string'' [(''minLength'', jint 1), (''maxLength'', jint 256)]),
     (''max_preview_edits'', typed ''integer'' [(''minimum'', jint 1), (''maximum'', jint 200)]),
     (''precondition'', of_type ''object''), (''request_id'', of_type ''string'')] [''session_id'',
     ''action'']\<rparr>"

definition emacs_key_sequence_definition :: tool_definition where
  "emacs_key_sequence_definition =
     \<lparr>td_name = ''emacs_key_sequence'', td_description =
     ''Execute a complete key/text sequence through internal Emacs events or a native driver.'',
     td_input_schema = object_schema [(''session_id'', session_id_schema), (''channel'', enum_of
     [''internal_keys'', ''native_keys'']), (''steps'', typed ''array'' [(''minItems'', jint 1)]),
     (''precondition'', of_type ''object''), (''verify'', of_type ''object''), (''restore_frontmost'',
     of_type ''boolean''), (''request_id'', of_type ''string'')] [''session_id'', ''steps'']\<rparr>"

definition emacs_command_definition :: tool_definition where
  "emacs_command_definition =
     \<lparr>td_name = ''emacs_command'', td_description =
     ''Execute an interactive Emacs command in the explicit session target.'', td_input_schema =
     object_schema [(''session_id'', session_id_schema), (''command'', of_type ''string''),
     (''interactive'', of_type ''boolean''), (''prefix'', JObj []), (''arguments'', of_type ''array''),
     (''precondition'', of_type ''object''), (''request_id'', of_type ''string'')] [''session_id'',
     ''command'']\<rparr>"

definition emacs_edit_definition :: tool_definition where
  "emacs_edit_definition =
     \<lparr>td_name = ''emacs_edit'', td_description =
     ''Perform exact semantic insert, replace, delete or unified-diff edits with state preconditions.'',
     td_input_schema = object_schema [(''session_id'', session_id_schema), (''operation'', enum_of
     [''insert'', ''replace_range'', ''delete_range'', ''apply_unified_diff'']), (''position'', of_type
     ''integer''), (''start'', of_type ''integer''), (''end'', of_type ''integer''), (''text'', of_type
     ''string''), (''diff'', of_type ''string''), (''precondition'', of_type ''object''),
     (''request_id'', of_type ''string'')] [''session_id'', ''operation'']\<rparr>"

definition emacs_eval_definition :: tool_definition where
  "emacs_eval_definition =
     \<lparr>td_name = ''emacs_eval'', td_description =
     ''Execute policy-controlled, buffer-derived structured evaluation. Caller-supplied source strings are rejected in this build.'',
     td_input_schema = object_schema [(''session_id'', session_id_schema), (''language'', enum_of
     [''elisp'', ''buffer_language'', ''repl'']), (''code'', of_type ''string''), (''operation'',
     of_type ''string''), (''adapter'', of_type ''string''), (''timeout_ms'', typed ''integer''
     [(''minimum'', jint 1), (''maximum'', jint 30000)]), (''precondition'', of_type ''object''),
     (''request_id'', of_type ''string'')] [''session_id'', ''language'']\<rparr>"

definition emacs_workflow_definition :: tool_definition where
  "emacs_workflow_definition =
     \<lparr>td_name = ''emacs_workflow'', td_description =
     ''Run an allowlisted high-level semantic buffer transaction with automatic checkpoint, validation, evaluation/verification, and commit or rollback. Buffer rollback is checkpoint-managed; Lisp/REPL/Babel runtime side effects are explicitly not transactional.'',
     td_input_schema = object_schema [(''session_id'', session_id_schema), (''operation'', enum_of
     [''repair_lisp'', ''refactor_defun'', ''rename_symbol'', ''extract_function'', ''move_form'',
     ''transform_sexp'', ''org_build_section'', ''org_rewrite_subtree'']), (''edit'', edit_schema),
     (''replacement'', typed ''string'' [(''maxLength'', jint 262144)]), (''expected_name'', of_type
     ''string''), (''old_symbol'', typed ''string'' [(''minLength'', jint 1), (''maxLength'', jint
     512)]), (''new_symbol'', typed ''string'' [(''minLength'', jint 1), (''maxLength'', jint 512)]),
     (''scope'', enum_of [''current_defun'', ''buffer'']), (''max_replacements'', typed ''integer''
     [(''minimum'', jint 1), (''maximum'', jint 10000)]), (''range'', range_schema), (''name'', typed
     ''string'' [(''minLength'', jint 1), (''maxLength'', jint 512)]), (''parameters'', typed ''array''
     [(''maxItems'', jint 128), (''items'', typed ''string'' [(''minLength'', jint 1), (''maxLength'',
     jint 512)])]), (''evaluate_definition'', of_type ''boolean''), (''evaluate_enclosing_definition'',
     of_type ''boolean''), (''direction'', enum_of [''up'', ''down'', ''backward'', ''forward'']),
     (''count'', typed ''integer'' [(''minimum'', jint 1), (''maximum'', jint 100)]), (''transform'',
     enum_of [''slurp_forward'', ''barf_forward'', ''splice'', ''wrap_round'', ''raise'', ''split'',
     ''join'', ''indent_defun'']), (''evaluation'', evaluation_schema), (''section'', section_schema),
     (''rewrite'', org_rewrite_schema), (''validate_options'', of_type ''object''), (''precondition'',
     of_type ''object''), (''request_id'', of_type ''string'')] [''session_id'', ''operation'']\<rparr>"

definition emacs_checkpoint_definition :: tool_definition where
  "emacs_checkpoint_definition =
     \<lparr>td_name = ''emacs_checkpoint'', td_description =
     ''Create or commit an in-memory checkpoint for safe rollback.'', td_input_schema = object_schema
     [(''session_id'', session_id_schema), (''action'', enum_of [''create'', ''commit'']),
     (''checkpoint_id'', of_type ''string''), (''scope'', enum_of [''buffer'', ''buffers'', ''files'']),
     (''request_id'', of_type ''string'')] [''session_id'']\<rparr>"

definition emacs_rollback_definition :: tool_definition where
  "emacs_rollback_definition =
     \<lparr>td_name = ''emacs_rollback'', td_description =
     ''Rollback a checkpoint unless human edits or external file changes conflict.'', td_input_schema =
     object_schema [(''session_id'', session_id_schema), (''checkpoint_id'', of_type ''string''),
     (''request_id'', of_type ''string'')] [''session_id'', ''checkpoint_id'']\<rparr>"

definition emacs_wait_definition :: tool_definition where
  "emacs_wait_definition =
     \<lparr>td_name = ''emacs_wait'', td_description =
     ''Wait for a bounded Emacs state predicate without fixed sleeps.'', td_input_schema = object_schema
     [(''session_id'', session_id_schema), (''condition'', of_type ''object''), (''timeout_ms'', typed
     ''integer'' [(''minimum'', jint 1), (''maximum'', jint 10000)]), (''request_id'', of_type
     ''string'')] [''session_id'', ''condition'']\<rparr>"

definition emacs_capture_definition :: tool_definition where
  "emacs_capture_definition =
     \<lparr>td_name = ''emacs_capture'', td_description =
     ''Capture a selected Emacs frame/window when a native platform driver is available.'',
     td_input_schema = object_schema [(''session_id'', session_id_schema), (''window_title'', of_type
     ''string''), (''window_identifier'', of_type ''string''), (''max_width'', of_type ''integer''),
     (''include_cursor'', of_type ''boolean''), (''request_id'', of_type ''string'')]
     [''session_id'']\<rparr>"

definition TOOL_DEFINITIONS :: "tool_definition list" where
  "TOOL_DEFINITIONS =
     [emacs_health_definition, emacs_instances_definition, emacs_session_open_definition,
     emacs_session_close_definition, emacs_observe_definition, emacs_read_definition,
     emacs_navigate_definition, emacs_capabilities_definition, emacs_validate_definition,
     emacs_analyze_definition, emacs_verification_definition, emacs_project_rename_definition,
     emacs_key_sequence_definition, emacs_command_definition, emacs_edit_definition,
     emacs_eval_definition, emacs_workflow_definition, emacs_checkpoint_definition,
     emacs_rollback_definition, emacs_wait_definition, emacs_capture_definition]"

text \<open>How a definition is sent.\<close>

definition tool_definition_json :: "tool_definition \<Rightarrow> jval" where
  "tool_definition_json d = JObj [(''name'', JStr (td_name d)), (''description'', JStr (td_description d)),
     (''inputSchema'', td_input_schema d)]"

end
