(* ===== verification/WireServer.thy ===== *)
theory WireServer
  imports Router Catalog
begin

text \<open>
  The MCP server on top of the router: \<open>mcp-server/src/mcpWireServer.ts\<close> (the dispatch of a JSON-RPC message)
  and \<open>mcp-server/src/server.ts\<close> (lines on standard input, responses on standard output). \<open>JSON.parse\<close> and
  \<open>JSON.stringify\<close> are the arguments \<open>parse\<close> and \<open>stringify\<close>.

  A message without a string \<open>method\<close> makes \<open>handle\<close> throw outside its \<open>try\<close>: the promise of the queue is
  rejected, no later line is processed (Node ends the process with an unhandled rejection). \<open>ws_alive\<close> is
  \<open>False\<close> from then on.
\<close>

subsection \<open>Envelopes as JSON\<close>

text \<open>Optional fields of an object that is written: \<open>undefined\<close> ones are absent.\<close>

definition num_field :: "string \<Rightarrow> jnum option \<Rightarrow> (string \<times> jval) list" where
  "num_field k v = (case v of None \<Rightarrow> [] | Some n \<Rightarrow> [(k, JNum n)])"

definition str_field :: "string \<Rightarrow> string option \<Rightarrow> (string \<times> jval) list" where
  "str_field k v = (case v of None \<Rightarrow> [] | Some s \<Rightarrow> [(k, JStr s)])"

definition summary_json :: "state_summary \<Rightarrow> jval" where
  "summary_json s = JObj
     (num_field ''state_seq'' (ss_state_seq s) @ num_field ''buffer_tick'' (ss_buffer_tick s)
      @ str_field ''buffer_id'' (ss_buffer_id s) @ str_field ''major_mode'' (ss_major_mode s)
      @ num_field ''point'' (ss_point s))"

definition summary_field :: "string \<Rightarrow> state_summary option \<Rightarrow> (string \<times> jval) list" where
  "summary_field k v = (case v of None \<Rightarrow> [] | Some s \<Rightarrow> [(k, summary_json s)])"

fun envelope_fields :: "tool_envelope \<Rightarrow> (string \<times> jval) list" where
  "envelope_fields (Success e) =
     [(''ok'', JBool True), (''request_id'', JStr (ts_request_id e)), (''result'', ts_result e),
      (''warnings'', JArr (map JStr (ts_warnings e))), (''audit_id'', JStr (ts_audit_id e))]
     @ str_field ''session_id'' (ts_session_id e) @ summary_field ''state_before'' (ts_state_before e)
     @ summary_field ''state_after'' (ts_state_after e)"
| "envelope_fields (Failure e) =
     [(''ok'', JBool False), (''request_id'', JStr (tf_request_id e)), (''error'', error_to_json (tf_error e)),
      (''warnings'', JArr (map JStr (tf_warnings e))), (''audit_id'', JStr (tf_audit_id e))]
     @ str_field ''session_id'' (tf_session_id e)"

subsection \<open>One message\<close>

definition wire_result :: "jval \<Rightarrow> jval \<Rightarrow> jval" where
  "wire_result i result = JObj [(''jsonrpc'', JStr ''2.0''), (''id'', nullish_or i JNull), (''result'', result)]"

definition wire_error :: "jval \<Rightarrow> int \<Rightarrow> string \<Rightarrow> jval" where
  "wire_error i code msg = JObj [(''jsonrpc'', JStr ''2.0''), (''id'', nullish_or i JNull),
     (''error'', JObj [(''code'', jint code), (''message'', JStr msg)])]"

definition supported_versions :: "string list" where
  "supported_versions = [''2026-07-28'', ''2025-06-18'', ''2025-03-26'']"

definition default_version :: string where
  "default_version = ''2026-07-28''"

definition negotiated_version :: "jval \<Rightarrow> string" where
  "negotiated_version params =
     (let requested = (case get_prop params ''protocolVersion'' of JStr v \<Rightarrow> v | _ \<Rightarrow> default_version)
      in if requested \<in> set supported_versions then requested else default_version)"

definition server_instructions :: string where
  "server_instructions = ''Open an explicit emacs_session_open before stateful operations. Prefer semantic, then internal_keys. Use native_keys only with trusted_local after the connected platform Host reports desktop-control capability.''"

definition initialize_result :: "jval \<Rightarrow> jval" where
  "initialize_result params = JObj
     [(''protocolVersion'', JStr (negotiated_version params)),
      (''capabilities'', JObj [(''tools'', JObj [(''listChanged'', JBool False)])]),
      (''serverInfo'', JObj [(''name'', JStr ''emacs-operator''), (''version'', JStr EMACS_OPERATOR_VERSION)]),
      (''instructions'', JStr server_instructions)]"

definition tools_list_result :: jval where
  "tools_list_result = JObj [(''tools'', JArr (map tool_definition_json TOOL_DEFINITIONS))]"

definition text_content :: "string \<Rightarrow> jval" where
  "text_content t = JObj [(''type'', JStr ''text''), (''text'', JStr t)]"

definition image_content :: "string \<Rightarrow> string \<Rightarrow> jval" where
  "image_content picture mime = JObj [(''type'', JStr ''image''), (''data'', JStr picture), (''mimeType'', JStr mime)]"

definition plain_result :: "(jval \<Rightarrow> string) \<Rightarrow> tool_envelope \<Rightarrow> jval" where
  "plain_result stringify e = (let v = JObj (envelope_fields e) in JObj
     [(''content'', JArr [text_content (stringify v)]), (''structuredContent'', v), (''isError'', JBool (\<not> env_ok e))])"

text \<open>A capture that came with its image: the image leaves the structured result.\<close>

definition capture_result :: "(jval \<Rightarrow> string) \<Rightarrow> tool_envelope \<Rightarrow> jval \<Rightarrow> string \<Rightarrow> string \<Rightarrow> jval" where
  "capture_result stringify e capture picture mime =
     (let compact = JObj (AList.delete ''image_data'' (fields_of capture));
          v = JObj (spread (envelope_fields e) [(''result'', compact)]) in
      JObj [(''content'', JArr [text_content (stringify v), image_content picture mime]),
        (''structuredContent'', v), (''isError'', JBool False)])"

definition tool_result :: "(jval \<Rightarrow> string) \<Rightarrow> string \<Rightarrow> tool_envelope \<Rightarrow> jval" where
  "tool_result stringify name e =
     (case e of
        Success s \<Rightarrow>
          (if name = ''emacs_capture'' \<and> is_objlike (ts_result s)
           then (case (get_prop (ts_result s) ''image_data'', get_prop (ts_result s) ''mime_type'') of
               (JStr picture, JStr mime) \<Rightarrow> capture_result stringify e (ts_result s) picture mime
             | _ \<Rightarrow> plain_result stringify e)
           else plain_result stringify e)
      | Failure f \<Rightarrow> plain_result stringify e)"

definition exn_message :: "exn \<Rightarrow> string" where
  "exn_message e = oe_message (as_operator_error e)"

definition wire_call :: "(jval \<Rightarrow> string) \<Rightarrow> 'w env \<Rightarrow> jval \<Rightarrow> jval \<Rightarrow> ('w, jval) handler" where
  "wire_call stringify env i params =
     (case get_prop params ''name'' of
        JStr name \<Rightarrow>
          bind (call env name (nullish_or (get_prop params ''arguments'') (JObj []))) (\<lambda>e.
          ret (wire_result i (tool_result stringify name e)))
      | _ \<Rightarrow> ret (wire_error i (- 32602) ''tools/call requires params.name''))"

definition wire_method :: "(jval \<Rightarrow> string) \<Rightarrow> 'w env \<Rightarrow> string \<Rightarrow> jval \<Rightarrow> jval \<Rightarrow> ('w, jval) handler" where
  "wire_method stringify env method i params =
     (if method = ''initialize'' then ret (wire_result i (initialize_result params))
      else if method = ''ping'' then ret (wire_result i (JObj []))
      else if method = ''tools/list'' then ret (wire_result i tools_list_result)
      else if method = ''tools/call'' then wire_call stringify env i params
      else ret (wire_error i (- 32601) (''Method not found: '' @ method)))"

text \<open>\<open>handle\<close>: the value \<open>None\<close> is \<open>null\<close>, no response.\<close>

definition no_method :: exn where
  "no_method = JsError ''message.method.startsWith is not a function''"

definition wire_handle :: "(jval \<Rightarrow> string) \<Rightarrow> 'w env \<Rightarrow> jval \<Rightarrow> ('w, jval option) handler" where
  "wire_handle stringify env message =
     (case get_prop message ''method'' of
        JStr method \<Rightarrow>
          if starts_with method ''notifications/'' then ret None
          else bind (try_catch
            (wire_method stringify env method (get_prop message ''id'') (get_prop message ''params''))
            (\<lambda>e. ret (wire_error (get_prop message ''id'') (- 32603) (exn_message e))))
            (\<lambda>response. ret (Some response))
      | _ \<Rightarrow> throw no_method)"

subsection \<open>Lines\<close>

record 'w wire_state =
  ws_pending :: string                  \<comment> \<open>bytes after the last newline\<close>
  ws_output :: "string list"            \<comment> \<open>the lines written to standard output\<close>
  ws_alive :: bool
  ws_server :: "'w server"

definition parse_error_response :: jval where
  "parse_error_response = JObj [(''jsonrpc'', JStr ''2.0''), (''id'', JNull),
     (''error'', JObj [(''code'', jint (- 32700)), (''message'', JStr ''Parse error'')])]"

definition write_line :: "(jval \<Rightarrow> string) \<Rightarrow> jval \<Rightarrow> 'w wire_state \<Rightarrow> 'w wire_state" where
  "write_line stringify v s = s\<lparr>ws_output := ws_output s @ [stringify v @ [LF]]\<rparr>"

definition process_line ::
  "(jval \<Rightarrow> string) \<Rightarrow> (string \<Rightarrow> jval option) \<Rightarrow> 'w env \<Rightarrow> string \<Rightarrow> 'w wire_state \<Rightarrow> 'w wire_state" where
  "process_line stringify parse env line s =
     (if \<not> ws_alive s then s
      else (case parse line of
         None \<Rightarrow> write_line stringify parse_error_response s
       | Some message \<Rightarrow>
           (case wire_handle stringify env message (ws_server s) of
              (Inl e, sv) \<Rightarrow> s\<lparr>ws_alive := False, ws_server := sv\<rparr>
            | (Inr None, sv) \<Rightarrow> s\<lparr>ws_server := sv\<rparr>
            | (Inr (Some response), sv) \<Rightarrow> write_line stringify response (s\<lparr>ws_server := sv\<rparr>))))"

text \<open>The lines that are complete, trimmed and not empty, and what is left.\<close>

function take_lines :: "string \<Rightarrow> string list \<times> string" where
  "take_lines buffer =
     (case index_of [LF] buffer of
        None \<Rightarrow> ([], buffer)
      | Some n \<Rightarrow>
          (case take_lines (drop (n + 1) buffer) of (lines, rest) \<Rightarrow>
             let line = trim (take n buffer) in ((if line = [] then lines else line # lines), rest)))"
  by pat_completeness auto
termination
  by (relation "measure length") (auto dest: index_of_SomeD)

declare take_lines.simps [simp del]

definition stdin_data ::
  "(jval \<Rightarrow> string) \<Rightarrow> (string \<Rightarrow> jval option) \<Rightarrow> 'w env \<Rightarrow> string \<Rightarrow> 'w wire_state \<Rightarrow> 'w wire_state" where
  "stdin_data stringify parse env chunk s =
     (case take_lines (ws_pending s @ chunk) of (lines, rest) \<Rightarrow>
        fold (process_line stringify parse env) lines (s\<lparr>ws_pending := rest\<rparr>))"

definition new_wire_state :: "'w \<Rightarrow> 'w wire_state" where
  "new_wire_state w = \<lparr>ws_pending = [], ws_output = [], ws_alive = True, ws_server = initial_server w\<rparr>"

end
