(* ===== verification/WireProps.thy ===== *)
theory WireProps
  imports WireServer ExampleServer
begin

text \<open>
  Properties of the MCP server: the catalogue and the router agree, chunks of the input do not matter, every
  request is answered once and in order, and what ends the server.
\<close>

subsection \<open>The catalogue and the router\<close>

text \<open>The tools as a table, in the order of the catalogue.\<close>

definition tool_table ::
  "(emacs_session \<Rightarrow> jval \<Rightarrow> ('w, jval) handler) \<Rightarrow> 'w env \<Rightarrow> jval \<Rightarrow> (string \<times> ('w, jval) handler) list" where
  "tool_table workflow env args =
     (let on = (\<lambda>tool. with_session env args (\<lambda>s c. tool env s c args)) in
      [(''emacs_health'', tool_health env), (''emacs_instances'', tool_instances env),
       (''emacs_session_open'', open_session env args), (''emacs_session_close'', tool_session_close env args),
       (''emacs_observe'', on tool_observe), (''emacs_read'', on tool_read), (''emacs_navigate'', on tool_navigate),
       (''emacs_capabilities'', on tool_capabilities), (''emacs_validate'', on tool_validate),
       (''emacs_analyze'', on tool_analyze), (''emacs_verification'', on tool_verification),
       (''emacs_project_rename'', on tool_project_rename), (''emacs_key_sequence'', on tool_key_sequence),
       (''emacs_command'', on tool_command), (''emacs_edit'', on tool_edit), (''emacs_eval'', on tool_eval),
       (''emacs_workflow'', on (tool_workflow workflow)), (''emacs_checkpoint'', on tool_checkpoint),
       (''emacs_rollback'', on tool_rollback), (''emacs_wait'', on tool_wait), (''emacs_capture'', on tool_capture)])"

lemma tool_names:
  "map td_name TOOL_DEFINITIONS =
     [''emacs_health'', ''emacs_instances'', ''emacs_session_open'', ''emacs_session_close'', ''emacs_observe'',
      ''emacs_read'', ''emacs_navigate'', ''emacs_capabilities'', ''emacs_validate'', ''emacs_analyze'',
      ''emacs_verification'', ''emacs_project_rename'', ''emacs_key_sequence'', ''emacs_command'', ''emacs_edit'',
      ''emacs_eval'', ''emacs_workflow'', ''emacs_checkpoint'', ''emacs_rollback'', ''emacs_wait'', ''emacs_capture'']"
  by code_simp

lemma tool_table_names: "map fst (tool_table workflow env args) = map td_name TOOL_DEFINITIONS"
  unfolding tool_names by (simp add: tool_table_def Let_def)

lemma dispatch_table:
  "dispatch workflow env name args =
     (case map_of (tool_table workflow env args) name of
        Some h \<Rightarrow> h | None \<Rightarrow> with_session env args (\<lambda>s c. throw (unknown_tool name)))"
  unfolding dispatch_def session_tool_def tool_table_def Let_def by simp

text \<open>What a schema requires, and the values its \<open>enum\<close> of a property allows.\<close>

definition schema_requires :: "string \<Rightarrow> tool_definition \<Rightarrow> bool" where
  "schema_requires key d \<longleftrightarrow>
     (case get_prop (td_input_schema d) ''required'' of JArr xs \<Rightarrow> JStr key \<in> set xs | _ \<Rightarrow> False)"

definition schema_enum :: "string \<Rightarrow> tool_definition \<Rightarrow> jval" where
  "schema_enum key d = get_prop (get_prop (get_prop (td_input_schema d) ''properties'') key) ''enum''"

text \<open>
  C13: The catalogue that \<open>tools/list\<close> sends is the dispatch table of the router: a tool is executed exactly when
  the catalogue has it, in every other case the session is looked up and the tool is unknown; the names are
  different; every tool but the three that need no session requires \<open>session_id\<close>; and the values it offers for
  operations, actions and profiles are exactly those the router accepts.
\<close>

theorem catalogue_is_dispatch_table:
  "map fst (tool_table workflow env args) = map td_name TOOL_DEFINITIONS \<and>
   distinct (map td_name TOOL_DEFINITIONS) \<and>
   dispatch workflow env name args =
     (case map_of (tool_table workflow env args) name of
        Some h \<Rightarrow> h | None \<Rightarrow> with_session env args (\<lambda>s c. throw (unknown_tool name))) \<and>
   map td_name (filter (\<lambda>d. \<not> schema_requires ''session_id'' d) TOOL_DEFINITIONS) =
     [''emacs_health'', ''emacs_instances'', ''emacs_session_open''] \<and>
   schema_enum ''operation'' emacs_workflow_definition = JArr (map JStr workflow_operations) \<and>
   schema_enum ''operation'' emacs_verification_definition = JArr (map JStr evaluation_operations) \<and>
   schema_enum ''action'' emacs_project_rename_definition = JArr (map JStr rename_actions) \<and>
   schema_enum ''permission_profile'' emacs_session_open_definition = JArr (map (JStr \<circ> fst) profiles)"
proof (intro conjI)
  show "distinct (map td_name TOOL_DEFINITIONS)" by code_simp
  show "map td_name (filter (\<lambda>d. \<not> schema_requires ''session_id'' d) TOOL_DEFINITIONS) =
     [''emacs_health'', ''emacs_instances'', ''emacs_session_open'']" by code_simp
  show "schema_enum ''operation'' emacs_workflow_definition = JArr (map JStr workflow_operations)" by code_simp
  show "schema_enum ''operation'' emacs_verification_definition = JArr (map JStr evaluation_operations)" by code_simp
  show "schema_enum ''action'' emacs_project_rename_definition = JArr (map JStr rename_actions)" by code_simp
  show "schema_enum ''permission_profile'' emacs_session_open_definition = JArr (map (JStr \<circ> fst) profiles)" by code_simp
qed (rule tool_table_names, rule dispatch_table)

subsection \<open>Lines\<close>

lemma take_lines_None: "LF \<notin> set buffer \<Longrightarrow> take_lines buffer = ([], buffer)"
proof -
  assume "LF \<notin> set buffer"
  then have "index_of [LF] buffer = None"
    by (induction buffer) (auto simp: starts_with_def)
  then show ?thesis by (subst take_lines.simps) simp
qed

lemma index_LF: "LF \<notin> set line \<Longrightarrow> index_of [LF] (line @ LF # rest) = Some (length line)"
  by (induction line) (auto simp: starts_with_def)

lemma take_lines_line:
  "LF \<notin> set line \<Longrightarrow> take_lines (line @ LF # rest) =
     (case take_lines rest of (lines, r) \<Rightarrow> ((if trim line = [] then lines else trim line # lines), r))"
  by (subst take_lines.simps) (simp add: index_LF Let_def)

text \<open>A buffer is a complete line and the rest, or has no newline.\<close>

lemma line_cases:
  obtains (partial) "LF \<notin> set buffer" | (line) line rest where "buffer = line @ LF # rest" "LF \<notin> set line"
  by (meson split_list_first)

lemma take_lines_append:
  "take_lines (a @ b) = (case take_lines a of (l1, r1) \<Rightarrow> (case take_lines (r1 @ b) of (l2, r2) \<Rightarrow> (l1 @ l2, r2)))"
proof (induction a rule: length_induct)
  case (1 a)
  show ?case
  proof (cases rule: line_cases [of a])
    case partial
    then show ?thesis by (simp add: take_lines_None split: prod.split)
  next
    case (line l rest)
    then have "take_lines (rest @ b) = (case take_lines rest of (l1, r1) \<Rightarrow> (case take_lines (r1 @ b) of (l2, r2) \<Rightarrow> (l1 @ l2, r2)))"
      using 1 by simp
    with line show ?thesis by (simp add: take_lines_line split: prod.split)
  qed
qed

lemma process_line_pending [simp]:
  "process_line stringify parse env line (s\<lparr>ws_pending := p\<rparr>) = (process_line stringify parse env line s)\<lparr>ws_pending := p\<rparr>"
  "ws_pending (process_line stringify parse env line s) = ws_pending s"
  by (auto simp: process_line_def write_line_def split: option.split prod.split sum.split)

lemma process_lines_pending [simp]:
  "fold (process_line stringify parse env) ls (s\<lparr>ws_pending := p\<rparr>) = (fold (process_line stringify parse env) ls s)\<lparr>ws_pending := p\<rparr>"
  "ws_pending (fold (process_line stringify parse env) ls s) = ws_pending s"
  by (induction ls arbitrary: s) simp_all

lemma stdin_data_append:
  "stdin_data stringify parse env b (stdin_data stringify parse env a s) = stdin_data stringify parse env (a @ b) s"
  using take_lines_append [of "ws_pending s @ a" b] by (simp add: stdin_data_def split: prod.split)

lemma stdin_chunks:
  "fold (stdin_data stringify parse env) chunks (stdin_data stringify parse env a s) =
     stdin_data stringify parse env (a @ concat chunks) s"
  by (induction chunks arbitrary: a) (simp_all add: stdin_data_append)

text \<open>
  C31: How standard input is cut into chunks makes no difference: the server answers a sequence of chunks as it
  answers their concatenation in one piece, with the same output and in the same state.
\<close>

theorem input_chunks_do_not_matter:
  "fold (stdin_data stringify parse env) chunks (new_wire_state w) =
     stdin_data stringify parse env (concat chunks) (new_wire_state w)"
proof (cases chunks)
  case Nil
  then show ?thesis by (simp add: stdin_data_def new_wire_state_def take_lines_None)
next
  case (Cons a rest)
  then show ?thesis by (simp add: stdin_chunks)
qed

subsection \<open>Responses\<close>

text \<open>A JSON-RPC response for the identifier \<open>i\<close>: a result or an error, never both.\<close>

definition is_response :: "jval \<Rightarrow> jval \<Rightarrow> bool" where
  "is_response i v \<longleftrightarrow> (\<exists>r. v = wire_result i r) \<or> (\<exists>code msg. v = wire_error i code msg)"

definition has_method :: "jval \<Rightarrow> bool" where
  "has_method message \<longleftrightarrow> is_string (get_prop message ''method'')"

definition is_notification :: "jval \<Rightarrow> bool" where
  "is_notification message \<longleftrightarrow> starts_with (js_string (get_prop message ''method'')) ''notifications/''"

text \<open>The identifier a line is answered with, \<open>None\<close> for a notification.\<close>

definition answer_id :: "(string \<Rightarrow> jval option) \<Rightarrow> string \<Rightarrow> jval option" where
  "answer_id parse line =
     (case parse line of
        None \<Rightarrow> Some JNull
      | Some m \<Rightarrow> if is_notification m then None else Some (get_prop m ''id''))"

definition acceptable :: "(string \<Rightarrow> jval option) \<Rightarrow> string \<Rightarrow> bool" where
  "acceptable parse line \<longleftrightarrow> (case parse line of None \<Rightarrow> True | Some m \<Rightarrow> has_method m)"

lemma wire_method_response:
  "wire_method stringify env method i params s = (Inr v, s') \<Longrightarrow> is_response i v"
  by (auto simp: wire_method_def wire_call_def exec_simps is_response_def split: if_splits jval.splits prod.splits sum.splits)

lemma wire_handle_response:
  assumes "has_method m"
  obtains s' where "is_notification m" "wire_handle stringify env m s = (Inr None, s')"
  | v s' where "\<not> is_notification m" "wire_handle stringify env m s = (Inr (Some v), s')" "is_response (get_prop m ''id'') v"
proof -
  obtain m_name where m_name: "get_prop m ''method'' = JStr m_name"
    using assms by (cases "get_prop m ''method''") (auto simp: has_method_def)
  show thesis
  proof (cases "is_notification m")
    case True
    then show thesis using that(1) [of s] m_name by (simp add: wire_handle_def is_notification_def exec_simps)
  next
    case False
    obtain r s1 where run: "wire_method stringify env m_name (get_prop m ''id'') (get_prop m ''params'') s = (r, s1)"
      by fastforce
    show thesis
    proof (cases r)
      case (Inl e)
      then show thesis
        using that(2) [of "wire_error (get_prop m ''id'') (- 32603) (exn_message e)" s1] False m_name run
        by (auto simp: wire_handle_def is_notification_def exec_simps try_catch_def is_response_def)
    next
      case (Inr v)
      then show thesis
        using that(2) [of v s1] False m_name run wire_method_response [of stringify env m_name]
        by (auto simp: wire_handle_def is_notification_def exec_simps try_catch_def)
    qed
  qed
qed

lemma parse_error_is_response: "is_response JNull parse_error_response"
proof -
  have "parse_error_response = wire_error JNull (- 32700) ''Parse error''"
    by (simp add: parse_error_response_def wire_error_def)
  then show ?thesis unfolding is_response_def by blast
qed

lemma process_line_answers:
  assumes "ws_alive s" "acceptable parse line"
  obtains s' out where "process_line stringify parse env line s = s'" "ws_alive s'"
    "ws_output s' = ws_output s @ map (\<lambda>v. stringify v @ [LF]) out"
    "list_all2 is_response (case answer_id parse line of None \<Rightarrow> [] | Some i \<Rightarrow> [i]) out"
proof (cases "parse line")
  case None
  then show thesis
    using that [of "write_line stringify parse_error_response s" "[parse_error_response]"] assms(1)
    by (simp add: process_line_def write_line_def answer_id_def parse_error_is_response)
next
  case (Some m)
  then have "has_method m" using assms(2) by (simp add: acceptable_def)
  then show thesis
  proof (cases rule: wire_handle_response [of m stringify env "ws_server s"])
    case (1 sv)
    then show thesis
      using that [of "s\<lparr>ws_server := sv\<rparr>" "[]"] assms(1) Some by (simp add: process_line_def answer_id_def)
  next
    case (2 v sv)
    then show thesis
      using that [of "write_line stringify v (s\<lparr>ws_server := sv\<rparr>)" "[v]"] assms(1) Some
      by (simp add: process_line_def answer_id_def write_line_def)
  qed
qed


text \<open>An example: a ping, a notification and a line that is no JSON.\<close>

definition example_lines_parse :: "string \<Rightarrow> jval option" where
  "example_lines_parse line =
     (if line = ''p'' then Some (JObj [(''id'', jint 7), (''method'', JStr ''ping'')])
      else if line = ''n'' then Some (JObj [(''method'', JStr ''notifications/initialized'')])
      else None)"


text \<open>
  A message without a string \<open>method\<close>, for instance the line \<open>null\<close>, silences the server: nothing
  that arrives after it is answered, and the state of the router never changes again.
\<close>

theorem message_without_method_is_fatal:
  assumes "parse line = Some m" "\<not> has_method m"
  shows "ws_output (fold (process_line stringify parse env) (line # ls) s) = ws_output s \<and>
    ws_server (fold (process_line stringify parse env) (line # ls) s) = ws_server s"
proof -
  have dead: "\<not> ws_alive s \<Longrightarrow> fold (process_line stringify parse env) ls s = s" for s :: "'a wire_state"
    by (induction ls) (simp_all add: process_line_def)
  have "wire_handle stringify env m sv = (Inl no_method, sv)" for sv :: "'a server"
    using assms(2) by (cases "get_prop m ''method''") (auto simp: wire_handle_def has_method_def exec_simps)
  then show ?thesis using assms(1) dead by (simp add: process_line_def)
qed

theorem message_without_method_is_fatal_witness:
  "ws_output (fold (process_line (\<lambda>v. ''{}'') (\<lambda>s. Some JNull) example_env) [''null'', ''ping''] (new_wire_state ())) = []"
  using message_without_method_is_fatal [of "\<lambda>s. Some JNull" "''null''" JNull "\<lambda>v. ''{}''" example_env "[''ping'']" "new_wire_state ()"]
  by (simp add: has_method_def new_wire_state_def)

end
