(* ===== verification/Rerun.thy ===== *)
theory Rerun
  imports JsValue
begin

text \<open>
  \<open>refactor-intelligence/src/rerun.ts\<close> and \<open>integration.ts\<close>: whether a verification may run again, the loop that
  evaluates and repairs under that rule, and the arguments built from an analysis. \<open>sha256\<close> and
  \<open>JSON.stringify\<close> are the arguments \<open>sha\<close> and \<open>stringify\<close>; the callbacks of the loop work on a world.
\<close>

datatype rerun_error = Type_Error string | Range_Error string | Unresolved "jval list" | Callback_Error string

definition read_field :: "jval \<Rightarrow> string \<Rightarrow> rerun_error + jval" where
  "read_field v key =
     (if nullish v then Inl (Type_Error (''Cannot read properties of '' @ js_string v)) else Inr (get_prop v key))"

subsection \<open>The decision\<close>

definition attempt_fingerprint :: "(string \<Rightarrow> string) \<Rightarrow> (jval \<Rightarrow> string) \<Rightarrow> jval \<Rightarrow> string" where
  "attempt_fingerprint sha stringify a =
     (let field = (\<lambda>k. (k, nullish_or (get_prop a k) JNull)) in
      sha (stringify (JObj [field ''adapter'', field ''operation'', field ''source_sha256'', field ''condition'',
        field ''stderr'', field ''value'', (''completed'', JBool (truthy (get_prop a ''completed'')))])))"

record decision =
  dc_action :: string
  dc_reason :: string
  dc_attempt :: nat

definition stop :: "string \<Rightarrow> jval list \<Rightarrow> decision" where
  "stop reason attempts = \<lparr>dc_action = ''stop'', dc_reason = reason, dc_attempt = length attempts\<rparr>"

record rerun_options =
  ro_max_attempts :: jnum
  ro_risk :: jval
  ro_allow_risky :: jval

definition default_options :: rerun_options where
  "default_options = \<lparr>ro_max_attempts = Fin 3, ro_risk = JStr ''unknown'', ro_allow_risky = JBool False\<rparr>"

definition risky :: "rerun_options \<Rightarrow> bool" where
  "risky o' \<longleftrightarrow> ro_risk o' \<in> {JStr ''high'', JStr ''unknown''} \<and> \<not> truthy (ro_allow_risky o')"

definition valid_max :: "jnum \<Rightarrow> bool" where
  "valid_max n \<longleftrightarrow> is_integer_num n \<and> jn_le (Fin 1) n \<and> jn_le n (Fin 3)"

definition same_source :: "jval \<Rightarrow> jval \<Rightarrow> bool" where
  "same_source previous last_attempt \<longleftrightarrow>
     truthy previous \<and>
     strict_eq (get_prop previous ''source_sha256'') (get_prop last_attempt ''source_sha256'') \<and>
     strict_eq (get_prop previous ''condition'') (get_prop last_attempt ''condition'')"

definition decide_verification_rerun ::
  "(string \<Rightarrow> string) \<Rightarrow> (jval \<Rightarrow> string) \<Rightarrow> rerun_options \<Rightarrow> jval list \<Rightarrow> rerun_error + decision" where
  "decide_verification_rerun sha stringify o' attempts =
     (if attempts = [] then Inr \<lparr>dc_action = ''run'', dc_reason = ''no_attempt_yet'', dc_attempt = 1\<rparr>
      else if \<not> valid_max (ro_max_attempts o') then Inl (Range_Error ''maxAttempts must be between 1 and 3'')
      else
        (let l = last attempts in
         case read_field l ''completed'' of
           Inl e \<Rightarrow> Inl e
         | Inr completed \<Rightarrow>
             Inr (if completed = JBool True then stop ''completed'' attempts
               else if jn_le (ro_max_attempts o') (Fin (of_nat (length attempts))) then stop ''max_attempts'' attempts
               else if risky o' then stop ''runtime_side_effect_risk'' attempts
               else if list_ex (\<lambda>a. attempt_fingerprint sha stringify a = attempt_fingerprint sha stringify l) (butlast attempts)
               then stop ''repeated_failure'' attempts
               else if 2 \<le> length attempts \<and> same_source (last (butlast attempts)) l
               then stop ''unchanged_source_and_condition'' attempts
               else \<lparr>dc_action = ''rerun'', dc_reason = ''changed_source_after_failure'',
                      dc_attempt = length attempts + 1\<rparr>)))"

subsection \<open>The guarded loop\<close>

type_synonym ('w, 'a) callback = "'w \<Rightarrow> (rerun_error + 'a) \<times> 'w"

record guarded_result =
  gr_status :: string
  gr_reason :: string
  gr_attempts :: "jval list"

definition run_repair ::
  "(jval list \<Rightarrow> decision \<Rightarrow> ('w, unit) callback) option \<Rightarrow> jval list \<Rightarrow> decision \<Rightarrow> ('w, unit) callback" where
  "run_repair repair attempts d w =
     (case repair of
        Some r \<Rightarrow> if dc_action d = ''rerun'' then r attempts d w else (Inr (), w)
      | None \<Rightarrow> (Inr (), w))"

definition previous_attempt :: "jval list \<Rightarrow> jval" where
  "previous_attempt attempts = (if attempts = [] then JNull else nullish_or (last attempts) JNull)"

lemma continue_length:
  assumes "decide_verification_rerun sha stringify o' attempts = Inr d" "dc_action d \<noteq> ''stop''"
  shows "attempts = [] \<or> length attempts < 3"
proof (rule disjCI)
  assume "\<not> length attempts < 3"
  then have "valid_max n \<Longrightarrow> jn_le n (Fin (of_nat (length attempts)))" for n
    by (cases n) (auto simp: valid_max_def jn_le_def)
  then show "attempts = []"
    using assms by (auto simp: decide_verification_rerun_def Let_def stop_def split: if_splits sum.splits)
qed

function guarded_loop ::
  "(string \<Rightarrow> string) \<Rightarrow> (jval \<Rightarrow> string) \<Rightarrow> (nat \<Rightarrow> jval \<Rightarrow> ('w, jval) callback) \<Rightarrow>
   (jval list \<Rightarrow> decision \<Rightarrow> ('w, unit) callback) option \<Rightarrow> rerun_options \<Rightarrow> jval list \<Rightarrow> ('w, guarded_result) callback" where
  "guarded_loop sha stringify evaluate repair o' attempts w =
     (case decide_verification_rerun sha stringify o' attempts of
        Inl e \<Rightarrow> (Inl e, w)
      | Inr d \<Rightarrow>
          if dc_action d = ''stop''
          then (Inr \<lparr>gr_status = if dc_reason d = ''completed'' then ''completed'' else ''stopped'',
                  gr_reason = dc_reason d, gr_attempts = attempts\<rparr>, w)
          else (case run_repair repair attempts d w of
              (Inl e, w) \<Rightarrow> (Inl e, w)
            | (Inr _, w) \<Rightarrow>
                (case evaluate (dc_attempt d) (previous_attempt attempts) w of
                   (Inl e, w) \<Rightarrow> (Inl e, w)
                 | (Inr result, w) \<Rightarrow> guarded_loop sha stringify evaluate repair o' (attempts @ [result]) w)))"
  by pat_completeness auto
termination
proof (relation "measure (\<lambda>(sha, stringify, evaluate, repair, o', attempts, w). 3 - length attempts)", goal_cases)
  case (2 sha stringify evaluate repair o' attempts w d)
  then show ?case using continue_length [OF 2(1)] by auto
qed simp

declare guarded_loop.simps [simp del]

definition run_guarded_verification ::
  "(string \<Rightarrow> string) \<Rightarrow> (jval \<Rightarrow> string) \<Rightarrow> (nat \<Rightarrow> jval \<Rightarrow> ('w, jval) callback) option \<Rightarrow>
   (jval list \<Rightarrow> decision \<Rightarrow> ('w, unit) callback) option \<Rightarrow> jval \<Rightarrow> rerun_options \<Rightarrow> ('w, guarded_result) callback" where
  "run_guarded_verification sha stringify evaluate repair initial o' w =
     (case evaluate of
        None \<Rightarrow> (Inl (Type_Error ''evaluate callback is required''), w)
      | Some ev \<Rightarrow> guarded_loop sha stringify ev repair o' (if truthy initial then [initial] else []) w)"

subsection \<open>Arguments from an analysis\<close>

definition normalize_analysis_envelope :: "jval \<Rightarrow> jval" where
  "normalize_analysis_envelope v = (if has_own v ''analysis'' then get_prop v ''analysis'' else v)"

definition array_or_empty :: "jval \<Rightarrow> jval list" where
  "array_or_empty v = (case v of JArr xs \<Rightarrow> xs | _ \<Rightarrow> [])"

definition valid_bounds :: "jval \<Rightarrow> bool" where
  "valid_bounds v = (case v of JArr [JNum a, JNum b] \<Rightarrow> is_integer_num a \<and> is_integer_num b | _ \<Rightarrow> False)"

definition build_extract_function_arguments ::
  "jval \<Rightarrow> jval \<Rightarrow> jval \<Rightarrow> jval \<Rightarrow> jval \<Rightarrow> rerun_error + jval" where
  "build_extract_function_arguments analysis explicit new_name bounds language =
     (let normalized = nullish_or (normalize_analysis_envelope analysis) (JObj []);
          unresolved = array_or_empty (get_prop normalized ''unresolved'');
          inferred = array_or_empty (get_prop normalized ''parameters'');
          parameters = nullish_or explicit (JArr inferred) in
      if \<not> valid_bounds bounds then Inl (Type_Error ''bounds must be [start,end]'')
      else if \<not> is_string new_name \<or> new_name = JStr [] then Inl (Type_Error ''newName is required'')
      else if explicit = JUndef \<and> unresolved \<noteq> [] then Inl (Unresolved unresolved)
      else Inr (JObj [(''operation'', JStr ''extract_function''), (''new_name'', new_name), (''bounds'', bounds),
        (''parameters'', parameters), (''language'', language),
        (''analysis_source_sha256'', nullish_or (get_prop normalized ''source_sha256'') JNull)]))"

definition project_rename_command_sequence :: "jval \<Rightarrow> jval \<Rightarrow> jval \<Rightarrow> jval \<Rightarrow> jval list" where
  "project_rename_command_sequence old new definitions plan_id =
     (if \<not> truthy plan_id
      then [JObj [(''tool'', JStr ''emacs_command''), (''command'', JStr ''emacs-operator-project-rename-plan''),
              (''arguments'', JArr [old, new, definitions]), (''mutates'', JBool False)]]
      else [JObj [(''tool'', JStr ''emacs_command''), (''command'', JStr ''emacs-operator-project-rename-apply''),
              (''arguments'', JArr [plan_id]), (''mutates'', JBool True), (''save'', JBool False)]])"

subsection \<open>Properties\<close>

lemma decide_first: "decide_verification_rerun sha stringify o' [] = Inr \<lparr>dc_action = ''run'', dc_reason = ''no_attempt_yet'', dc_attempt = 1\<rparr>"
  by (simp add: decide_verification_rerun_def)

lemma decide_cases:
  assumes "decide_verification_rerun sha stringify o' attempts = Inr d" "attempts \<noteq> []"
  obtains (completed) "d = stop ''completed'' attempts" "get_prop (last attempts) ''completed'' = JBool True" "valid_max (ro_max_attempts o')"
  | (stopped) reason where "d = stop reason attempts" "reason \<noteq> ''completed''" "get_prop (last attempts) ''completed'' \<noteq> JBool True"
      "valid_max (ro_max_attempts o')"
  | (rerun) "dc_action d = ''rerun''" "dc_attempt d = length attempts + 1" "get_prop (last attempts) ''completed'' \<noteq> JBool True"
      "valid_max (ro_max_attempts o')" "jn_less (Fin (of_nat (length attempts))) (ro_max_attempts o')" "\<not> risky o'"
      "list_all (\<lambda>a. attempt_fingerprint sha stringify a \<noteq> attempt_fingerprint sha stringify (last attempts)) (butlast attempts)"
proof -
  have less: "valid_max n \<Longrightarrow> \<not> jn_le n (Fin q) \<Longrightarrow> jn_less (Fin q) n" for n q
    by (cases n) (auto simp: valid_max_def jn_le_def)
  show thesis
    using assms that less
    by (auto simp: decide_verification_rerun_def Let_def read_field_def list_all_iff list_ex_iff split: if_splits)
qed

lemma valid_max_nat: "valid_max n \<Longrightarrow> \<exists>m::nat. n = Fin (of_nat m) \<and> 1 \<le> m \<and> m \<le> 3"
proof (cases n)
  case (Fin q)
  assume valid: "valid_max n"
  define i where "i = \<lfloor>q\<rfloor>"
  have q: "q = of_int i" "1 \<le> i" "i \<le> 3"
    using valid Fin by (auto simp: valid_max_def jn_le_def i_def)
  then have "q = of_nat (nat i)" by simp
  with q Fin show ?thesis by (intro exI [of _ "nat i"]) auto
qed (simp_all add: valid_max_def)

text \<open>What holds of the attempts while the loop runs.\<close>

definition loop_ok :: "(string \<Rightarrow> string) \<Rightarrow> (jval \<Rightarrow> string) \<Rightarrow> rerun_options \<Rightarrow> jval list \<Rightarrow> bool" where
  "loop_ok sha stringify o' attempts \<longleftrightarrow>
     list_all (\<lambda>a. get_prop a ''completed'' \<noteq> JBool True) (butlast attempts) \<and>
     distinct (map (attempt_fingerprint sha stringify) (butlast attempts)) \<and>
     (valid_max (ro_max_attempts o') \<longrightarrow> jn_le (Fin (of_nat (length attempts))) (ro_max_attempts o')) \<and>
     (risky o' \<longrightarrow> length attempts \<le> 1)"

lemma loop_ok_extend:
  assumes ok: "loop_ok sha stringify o' attempts"
    and go: "decide_verification_rerun sha stringify o' attempts = Inr d" "dc_action d \<noteq> ''stop''"
  shows "loop_ok sha stringify o' (attempts @ [result])"
proof (cases "attempts = []")
  case True
  then show ?thesis
    by (cases "ro_max_attempts o'") (auto simp: loop_ok_def valid_max_def jn_le_def)
next
  case False
  from go(1) False show ?thesis
  proof (cases rule: decide_cases)
    case rerun
    have split: "attempts = butlast attempts @ [last attempts]" using False by simp
    have "distinct (map (attempt_fingerprint sha stringify) (butlast attempts @ [last attempts]))"
      using ok rerun(7) by (auto simp: loop_ok_def list_all_iff)
    moreover have "list_all (\<lambda>a. get_prop a ''completed'' \<noteq> JBool True) (butlast attempts @ [last attempts])"
      using ok rerun(3) by (simp add: loop_ok_def)
    moreover have "jn_le (Fin (of_nat (length (attempts @ [result])))) (ro_max_attempts o')"
    proof -
      obtain m :: nat where m: "ro_max_attempts o' = Fin (of_nat m)" using valid_max_nat [OF rerun(4)] by blast
      with rerun(5) have "length attempts < m" by simp
      then have "Suc (length attempts) < m \<or> Suc (length attempts) = m" by linarith
      then have "(of_nat (Suc (length attempts)) :: rat) < of_nat m \<or> (of_nat (Suc (length attempts)) :: rat) = of_nat m"
        by (metis of_nat_less_iff)
      then show ?thesis using m by (simp add: jn_le_def)
    qed
    ultimately show ?thesis using rerun(6) False by (simp add: loop_ok_def)
  qed (use go(2) in \<open>simp_all add: stop_def\<close>)
qed

lemma guarded_loop_result:
  assumes "guarded_loop sha stringify evaluate repair o' attempts w = (Inr r, w')" "loop_ok sha stringify o' attempts"
  shows "loop_ok sha stringify o' (gr_attempts r) \<and> gr_attempts r \<noteq> [] \<and> valid_max (ro_max_attempts o') \<and>
    (gr_status r = ''completed'' \<longleftrightarrow> get_prop (last (gr_attempts r)) ''completed'' = JBool True) \<and>
    prefix attempts (gr_attempts r)"
  using assms
proof (induction sha stringify evaluate repair o' attempts w rule: guarded_loop.induct)
  case (1 sha stringify evaluate repair o' attempts w)
  obtain d where d: "decide_verification_rerun sha stringify o' attempts = Inr d"
    using "1.prems"(1) by (subst (asm) guarded_loop.simps) (auto split: sum.splits)
  show ?case
  proof (cases "dc_action d = ''stop''")
    case True
    then have ne: "attempts \<noteq> []" using d by (auto simp: decide_first)
    from True have r: "gr_attempts r = attempts" "gr_status r = (if dc_reason d = ''completed'' then ''completed'' else ''stopped'')"
      using "1.prems"(1) d by (subst (asm) guarded_loop.simps, auto)+
    from d ne show ?thesis
      using r "1.prems"(2) ne True by (cases rule: decide_cases) (auto simp: stop_def)
  next
    case False
    obtain w1 result w2 where step: "run_repair repair attempts d w = (Inr (), w1)"
      "evaluate (dc_attempt d) (previous_attempt attempts) w1 = (Inr result, w2)"
      and rest: "guarded_loop sha stringify evaluate repair o' (attempts @ [result]) w2 = (Inr r, w')"
      using "1.prems"(1) d False
      by (subst (asm) guarded_loop.simps) (auto split: sum.splits prod.splits)
    from "1.IH" [OF d False step(1) [symmetric] refl step(2) [symmetric] refl rest loop_ok_extend [OF "1.prems"(2) d False]]
    show ?thesis by (auto simp: prefix_def)
  qed
qed

lemma loop_ok_start: "loop_ok sha stringify o' []" "loop_ok sha stringify o' [a]"
proof -
  have "jn_le (Fin 1) n" "jn_le (Fin 0) n" if "valid_max n" for n
    using valid_max_nat [OF that] by (auto simp: jn_le_def)
  then show "loop_ok sha stringify o' []" "loop_ok sha stringify o' [a]" by (simp_all add: loop_ok_def)
qed


text \<open>Evaluations that fail twice, each with another source, and then succeed.\<close>

definition example_evaluate :: "nat \<Rightarrow> jval \<Rightarrow> (unit, jval) callback" where
  "example_evaluate n previous w =
     (Inr (JObj [(''source_sha256'', JStr (dec_str n)), (''completed'', JBool (n = 3))]), w)"

definition example_stringify :: "jval \<Rightarrow> string" where
  "example_stringify v = js_string (get_prop v ''source_sha256'')"

definition low_risk :: rerun_options where
  "low_risk = default_options\<lparr>ro_risk := JStr ''low''\<rparr>"

definition example_guarded :: "(rerun_error + guarded_result) \<times> unit" where
  "example_guarded = run_guarded_verification (\<lambda>s. s) example_stringify (Some example_evaluate) None JUndef low_risk ()"


text \<open>
  The guard against unresolved parameters can be passed with \<open>explicitParameters: null\<close>: the check compares
  with \<open>undefined\<close>, the choice of the parameters uses \<open>??\<close>, so the inferred parameters are taken although the
  inference is unresolved.
\<close>

theorem null_parameters_pass_unresolved:
  "build_extract_function_arguments
     (JObj [(''parameters'', JArr [JStr ''a'']), (''unresolved'', JArr [JStr ''b''])])
     explicit (JStr ''f'') (JArr [JNum (Fin 1), JNum (Fin 2)]) (JStr ''auto'') =
   (if explicit = JUndef then Inl (Unresolved [JStr ''b''])
    else Inr (JObj [(''operation'', JStr ''extract_function''), (''new_name'', JStr ''f''),
      (''bounds'', JArr [JNum (Fin 1), JNum (Fin 2)]),
      (''parameters'', if explicit = JNull then JArr [JStr ''a''] else explicit),
      (''language'', JStr ''auto''), (''analysis_source_sha256'', JNull)]))"
  by (cases explicit) (simp_all add: build_extract_function_arguments_def normalize_analysis_envelope_def Let_def
      array_or_empty_def valid_bounds_def)

end
