(* ===== verification/Base64.thy ===== *)
theory Base64
  imports JsString
begin

text \<open>
  \<open>Buffer.from(s, "utf8")\<close> for code units below 256 and \<open>toString("base64")\<close>, which the capture files and the
  plans of the Linux host are written with; and a decoder, as the specification of the encoding.
\<close>

definition utf8_bytes :: "string \<Rightarrow> string" where
  "utf8_bytes s = concat (map (\<lambda>c. let n = of_char c :: nat in
     if n < 128 then [c] else [char_of (192 + n div 64), char_of (128 + n mod 64)]) s)"

definition base64_alphabet :: string where
  "base64_alphabet = ''ABCDEFGHIJKLMNOPQRSTUVWXYZabcdefghijklmnopqrstuvwxyz0123456789+/''"

definition base64_char :: "nat \<Rightarrow> char" where
  "base64_char n = base64_alphabet ! (n mod 64)"

fun base64 :: "string \<Rightarrow> string" where
  "base64 [] = []"
| "base64 [a] = (let n = of_char a :: nat in [base64_char (n div 4), base64_char (n mod 4 * 16), CHR ''='', CHR ''=''])"
| "base64 [a, b] =
     (let n = of_char a :: nat; m = of_char b :: nat in
      [base64_char (n div 4), base64_char (n mod 4 * 16 + m div 16), base64_char (m mod 16 * 4), CHR ''=''])"
| "base64 (a # b # c # s) =
     (let n = of_char a :: nat; m = of_char b :: nat; k = of_char c :: nat in
      [base64_char (n div 4), base64_char (n mod 4 * 16 + m div 16), base64_char (m mod 16 * 4 + k div 64),
       base64_char (k mod 64)] @ base64 s)"

subsection \<open>Decoding\<close>

definition base64_digit :: "char \<Rightarrow> nat" where
  "base64_digit c = length (takeWhile (\<lambda>d. d \<noteq> c) base64_alphabet)"

fun unbase64 :: "string \<Rightarrow> string" where
  "unbase64 (a # b # c # d # s) =
     (let i = base64_digit a; j = base64_digit b; k = base64_digit c; l = base64_digit d in
      char_of (i * 4 + j div 16) #
      (if c = CHR ''='' then []
       else char_of (j mod 16 * 16 + k div 4) # (if d = CHR ''='' then [] else [char_of (k mod 4 * 64 + l)]))) @ unbase64 s"
| "unbase64 s = []"

fun utf8_text :: "string \<Rightarrow> string" where
  "utf8_text [] = []"
| "utf8_text [c] = [c]"
| "utf8_text (c # d # s) =
     (if (of_char c :: nat) < 128 then c # utf8_text (d # s)
      else char_of ((of_char c - 192) * 64 + (of_char d - 128) :: nat) # utf8_text s)"

lemma base64_chars: "list_all (\<lambda>n. base64_digit (base64_char n) = n \<and> base64_char n \<noteq> CHR ''='') [0..<64]"
  by code_simp

lemma base64_digit_char [simp]: "n < 64 \<Longrightarrow> base64_digit (base64_char n) = n"
  and base64_char_not_pad [simp]: "n < 64 \<Longrightarrow> base64_char n \<noteq> CHR ''=''"
  using base64_chars by (auto simp: list_all_iff)

lemma char_bound: "(of_char c :: nat) < 256"
  by simp

lemma sextets:
  assumes "n < 256" "m < 256" "k < (256 :: nat)"
  shows "n div 4 < 64" "n mod 4 * 16 + m div 16 < 64" "m mod 16 * 4 + k div 64 < 64" "k mod 64 < 64"
    "n mod 4 * 16 < 64" "m mod 16 * 4 < 64"
    "n div 4 * 4 + (n mod 4 * 16 + m div 16) div 16 = n" "n div 4 * 4 + (n mod 4 * 16) div 16 = n"
    "(n mod 4 * 16 + m div 16) mod 16 * 16 + (m mod 16 * 4 + k div 64) div 4 = m"
    "(n mod 4 * 16 + m div 16) mod 16 * 16 + (m mod 16 * 4) div 4 = m"
    "(m mod 16 * 4 + k div 64) mod 4 * 64 + k mod 64 = k"
proof -
  have small: "m div 16 < 16" "k div 64 < 4" "n mod 4 \<le> 3" "m mod 16 \<le> 15" using assms by auto
  then have parts: "(n mod 4 * 16 + m div 16) div 16 = n mod 4" "(n mod 4 * 16 + m div 16) mod 16 = m div 16"
    "(m mod 16 * 4 + k div 64) div 4 = m mod 16" "(m mod 16 * 4 + k div 64) mod 4 = k div 64"
    by simp_all
  show "n div 4 * 4 + (n mod 4 * 16 + m div 16) div 16 = n" unfolding parts by (rule div_mult_mod_eq)
  show "n div 4 * 4 + (n mod 4 * 16) div 16 = n" by simp
  show "(n mod 4 * 16 + m div 16) mod 16 * 16 + (m mod 16 * 4 + k div 64) div 4 = m" unfolding parts by (rule div_mult_mod_eq)
  show "(n mod 4 * 16 + m div 16) mod 16 * 16 + (m mod 16 * 4) div 4 = m" unfolding parts by simp
  show "(m mod 16 * 4 + k div 64) mod 4 * 64 + k mod 64 = k" unfolding parts by (rule div_mult_mod_eq)
  show "n div 4 < 64" "k mod 64 < 64" using assms by auto
  show "n mod 4 * 16 + m div 16 < 64" "m mod 16 * 4 + k div 64 < 64" "n mod 4 * 16 < 64" "m mod 16 * 4 < 64"
    using small by linarith+
qed

lemma unbase64_base64 [simp]: "unbase64 (base64 s) = s"
proof (induction s rule: base64.induct)
  case (2 a)
  have "unbase64 (base64 [a]) = [char_of (of_char a div 4 * 4 + (of_char a mod 4 * 16) div 16 :: nat)]"
    using sextets(1,5) [of "of_char a" 0 0] by (simp only: base64.simps Let_def unbase64.simps base64_digit_char char_bound) simp
  then show ?case by (simp only: sextets(8) [OF char_bound, of 0 0]) simp
next
  case (3 a b)
  show ?case
    using sextets(1,2,6,7,10) [of "of_char a" "of_char b" 0]
    by (simp only: base64.simps Let_def unbase64.simps base64_digit_char base64_char_not_pad char_bound) simp
next
  case (4 a b c s)
  note bounds = sextets [of "of_char a" "of_char b" "of_char c"]
  have "unbase64 (base64 s) = s" using 4 by blast
  then show ?case
    using bounds(1-4,7,9,11)
    by (simp only: base64.simps Let_def append_Cons append_Nil unbase64.simps base64_digit_char base64_char_not_pad char_bound if_False) simp
qed simp

abbreviation TAB :: char where
  "TAB \<equiv> CHR 0x09"

text \<open>The letters of an encoded text.\<close>

lemma base64_char_in: "base64_char n \<in> set base64_alphabet"
  unfolding base64_char_def by (rule nth_mem) (simp add: base64_alphabet_def)

lemma base64_letters: "c \<in> set (base64 s) \<Longrightarrow> c \<in> set base64_alphabet \<or> c = CHR ''=''"
  by (induction s rule: base64.induct) (auto simp: Let_def base64_char_in)

lemma base64_no_separator: "TAB \<notin> set (base64 s)" "LF \<notin> set (base64 s)"
proof -
  have "TAB \<notin> set base64_alphabet \<and> TAB \<noteq> CHR ''=''" "LF \<notin> set base64_alphabet \<and> LF \<noteq> CHR ''=''" by code_simp+
  then show "TAB \<notin> set (base64 s)" "LF \<notin> set (base64 s)" using base64_letters by blast+
qed

lemma utf8_text_bytes [simp]: "utf8_text (utf8_bytes s) = s"
proof (induction s)
  case (Cons c s)
  show ?case
  proof (cases "(of_char c :: nat) < 128")
    case True
    then have "utf8_bytes (c # s) = c # utf8_bytes s" by (simp add: utf8_bytes_def)
    with Cons True show ?thesis by (cases "utf8_bytes s") simp_all
  next
    case False
    define n where "n = (of_char c :: nat)"
    have n: "\<not> n < 128" "n < 256" unfolding n_def using False by simp_all
    then have "192 + n div 64 < 256" "128 + n mod 64 < 256" "(192 + n div 64 - 192) * 64 + (128 + n mod 64 - 128) = n" by auto
    moreover have "utf8_bytes (c # s) = char_of (192 + n div 64) # char_of (128 + n mod 64) # utf8_bytes s"
      using n by (simp add: utf8_bytes_def n_def Let_def)
    moreover have "char_of n = c" by (simp add: n_def)
    ultimately show ?thesis using Cons by simp
  qed
qed (simp add: utf8_bytes_def)

lemma length_utf8_bytes: "length (utf8_bytes s) = utf8_length s"
  by (induction s) (simp_all add: utf8_bytes_def utf8_length_def Let_def)

end
