(* ===== verification/Capture.thy ===== *)
theory Capture
  imports Driver Base64
begin

text \<open>
  Reading the picture the native host wrote, \<open>mcp-server/src/drivers/captureFiles.ts\<close>. The host is a snapshot of
  the file system; the second component of the result is the file that \<open>unlinkSync\<close> is called for, if any.
\<close>

record capture_host = host +
  ch_realpath :: "string \<Rightarrow> string option"
  ch_stat :: "string \<Rightarrow> file_stat option"

definition capture_runtime_directory :: "('a capture_host_scheme) \<Rightarrow> string" where
  "capture_runtime_directory h =
     (case ho_env h ''EMACS_OPERATOR_CAPTURE_DIR'' of
        Some (c # dir) \<Rightarrow> path_resolve (ho_cwd h) (c # dir)
      | _ \<Rightarrow> if ho_win32 h then path_join (ho_tmpdir h) ''EmacsOperator-Captures''
             else path_join (ho_tmpdir h)
               (''emacs-operator-captures-'' @ (case ho_uid h of Some u \<Rightarrow> dec_str u | None \<Rightarrow> ''user'')))"

subsection \<open>Consuming a capture\<close>

record consumed_capture =
  cc_data :: string
  cc_mime_type :: string
  cc_bytes :: nat

record capture_options =
  co_max_bytes :: "jnum option"
  co_delete :: jval

definition capture_failed :: "string \<Rightarrow> string \<Rightarrow> exn" where
  "capture_failed msg candidate = op_error_with E_CAPTURE_FAILED msg [(''file'', JStr candidate)]"

definition default_capture_bytes :: jnum where
  "default_capture_bytes = Fin (25 * 1024 * 1024)"

definition png_signature :: string where
  "png_signature = [CHR 0x89, CHR ''P'', CHR ''N'', CHR ''G'', CHR 0x0D, CHR 0x0A, CHR 0x1A, CHR 0x0A]"

text \<open>The first test: the path itself.\<close>

definition check_capture_path :: "'a capture_host_scheme \<Rightarrow> string \<Rightarrow> exn + string" where
  "check_capture_path h f =
     (let base = path_resolve (ho_cwd h) (capture_runtime_directory h);
          candidate = path_resolve (ho_cwd h) f;
          relative = path_relative (ho_cwd h) base candidate in
      if starts_with relative ''..'' \<or> starts_with relative ''/'' \<or> to_lower (path_extname candidate) \<noteq> ''.png''
      then Inl (capture_failed ''Native host returned a capture outside the authorized transient capture directory.'' candidate)
      else Inr candidate)"

text \<open>The second: what the path leads to. \<open>None\<close> of the host makes the call throw, which is caught.\<close>

definition check_capture_file :: "'a capture_host_scheme \<Rightarrow> string \<Rightarrow> exn + file_stat" where
  "check_capture_file h candidate =
     (let gone = Inl (capture_failed ''Native capture file no longer exists.'' candidate);
          base = path_resolve (ho_cwd h) (capture_runtime_directory h) in
      case ho_lstat h candidate of
        None \<Rightarrow> gone
      | Some st \<Rightarrow>
          if fs_kind st = Symbolic_Link
          then Inl (capture_failed ''Native capture path must not be a symbolic link.'' candidate)
          else (case ch_realpath h base of
              None \<Rightarrow> gone
            | Some real_root \<Rightarrow>
                (case ch_realpath h candidate of
                   None \<Rightarrow> gone
                 | Some real_candidate \<Rightarrow>
                     let relative = path_relative (ho_cwd h) real_root real_candidate in
                     if starts_with relative ''..'' \<or> starts_with relative ''/''
                     then Inl (capture_failed ''Native capture resolves outside the authorized transient capture directory.'' candidate)
                     else (case ch_stat h real_candidate of None \<Rightarrow> gone | Some st \<Rightarrow> Inr st))))"

definition capture_limit :: "capture_options \<Rightarrow> jnum" where
  "capture_limit o' = (case co_max_bytes o' of Some n \<Rightarrow> n | None \<Rightarrow> default_capture_bytes)"

definition check_capture_stat :: "'a capture_host_scheme \<Rightarrow> capture_options \<Rightarrow> file_stat \<Rightarrow> exn + unit" where
  "check_capture_stat h o' st =
     (if fs_kind st \<noteq> Regular_File then Inl (op_error E_CAPTURE_FAILED ''Native capture path is not a regular file.'')
      else if fs_size st = 0 \<or> jn_less (capture_limit o') (Fin (of_nat (fs_size st)))
      then Inl (op_error_with E_CAPTURE_FAILED ''Native capture size is outside the configured bounds.''
        [(''bytes'', jnat (fs_size st)), (''max_bytes'', JNum (capture_limit o'))])
      else if \<not> ho_win32 h \<and> too_broad st
      then Inl (op_error_with E_CAPTURE_FAILED ''Native capture file permissions are too broad.''
        [(''mode'', JStr (oct_str (fs_mode st mod 512)))])
      else Inr ())"

definition read_capture :: "'a capture_host_scheme \<Rightarrow> string \<Rightarrow> exn + consumed_capture" where
  "read_capture h candidate =
     (case ho_text h candidate of
        None \<Rightarrow> Inl (enoent candidate)
      | Some bytes \<Rightarrow>
          if length bytes < 8 \<or> take 8 bytes \<noteq> png_signature
          then Inl (op_error E_CAPTURE_FAILED ''Native capture file is not a valid PNG payload.'')
          else Inr \<lparr>cc_data = base64 bytes, cc_mime_type = ''image/png'', cc_bytes = length bytes\<rparr>)"

definition consume_capture_png ::
  "'a capture_host_scheme \<Rightarrow> string \<Rightarrow> capture_options \<Rightarrow> (exn + consumed_capture) \<times> string option" where
  "consume_capture_png h f o' =
     (case andthen (check_capture_path h f) (\<lambda>candidate.
           andthen (check_capture_file h candidate) (\<lambda>st.
           andthen (check_capture_stat h o' st) (\<lambda>_. Inr candidate))) of
        Inl e \<Rightarrow> (Inl e, None)
      | Inr candidate \<Rightarrow>
          (read_capture h candidate, if co_delete o' = JBool False then None else Some candidate))"

subsection \<open>Properties\<close>

lemma inside_segments:
  assumes "\<not> starts_with (path_relative cwd (path_resolve cwd base) (path_resolve cwd p)) ''..''"
    "\<not> starts_with (path_relative cwd (path_resolve cwd base) (path_resolve cwd p)) ''/''"
  shows "prefix (path_segments cwd base) (path_segments cwd p)"
  using path_relative_inside [of cwd base p] assms by (auto simp: Let_def)


definition example_capture_host :: capture_host where
  "example_capture_host = \<lparr>ho_win32 = False, ho_uid = Some 7, ho_cwd = ''/'', ho_tmpdir = ''/tmp'', ho_env = (\<lambda>_. None),
     ho_exists = (\<lambda>_. True), ho_lstat = (\<lambda>_. Some \<lparr>fs_kind = Regular_File, fs_mode = 384, fs_uid = 7, fs_size = 9\<rparr>),
     ho_text = (\<lambda>_. Some (png_signature @ ''x'')), ho_parse = (\<lambda>_. None), ho_kill = (\<lambda>_. None),
     ho_date_parse = (\<lambda>_. Fin 0), ho_now = 0, ch_realpath = Some,
     ch_stat = (\<lambda>_. Some \<lparr>fs_kind = Regular_File, fs_mode = 384, fs_uid = 7, fs_size = 9\<rparr>)\<rparr>"

definition example_capture :: "(exn + consumed_capture) \<times> string option" where
  "example_capture = consume_capture_png example_capture_host ''/tmp/emacs-operator-captures-7/a.png''
     \<lparr>co_max_bytes = Some (Fin 100), co_delete = JUndef\<rparr>"


end
