(* ===== verification/BenchTypes.thy ===== *)
theory BenchTypes
  imports JsValue
begin

text \<open>
  The data of the benchmark (\<open>types.ts\<close>): checks, tasks, suites and scores. The union of the check interfaces is a
  datatype over a common record; integers that the validators have bounded are natural numbers.
\<close>

text \<open>A field that may be absent: its entry in an object, and what reading it gives.\<close>

definition opt_entry :: "string \<Rightarrow> ('a \<Rightarrow> jval) \<Rightarrow> 'a option \<Rightarrow> (string \<times> jval) list" where
  "opt_entry key f v = (case v of None \<Rightarrow> [] | Some x \<Rightarrow> [(key, f x)])"

definition entry_value :: "('a \<Rightarrow> jval) \<Rightarrow> 'a option \<Rightarrow> jval" where
  "entry_value f v = (case v of None \<Rightarrow> JUndef | Some x \<Rightarrow> f x)"

lemma map_of_opt_entry [simp]: "map_of (opt_entry key f v) k = (if k = key then map_option f v else None)"
  by (simp add: opt_entry_def split: option.split)

lemma entry_lookup_value [simp]: "(case map_option f v of None \<Rightarrow> JUndef | Some x \<Rightarrow> x) = entry_value f v"
  by (simp add: entry_value_def split: option.split)

record org_expectation =
  oe_min_headings :: "nat option"
  oe_exact_headings :: "nat option"
  oe_min_tables :: "nat option"
  oe_exact_tables :: "nat option"
  oe_min_src_blocks :: "nat option"
  oe_exact_src_blocks :: "nat option"
  oe_required_titles :: "string list option"
  oe_required_languages :: "string list option"
  oe_required_properties :: "(string \<times> string) list option"

datatype check_kind =
    File_Exists string
  | File_Unchanged string
  | Text_Contains string string "nat option"
  | Text_Not_Contains string string
  | Regex_Count string string "string option" "nat option" "nat option"
  | Exact_Text string "string option" "string option" "bool option"
  | Lisp_Balance string
  | Org_Structure string org_expectation
  | Command "string list" "string option" "nat option" "nat option" "string option" "string option"

fun check_type :: "check_kind \<Rightarrow> string" where
  "check_type (File_Exists _) = ''file_exists''"
| "check_type (File_Unchanged _) = ''file_unchanged''"
| "check_type (Text_Contains _ _ _) = ''text_contains''"
| "check_type (Text_Not_Contains _ _) = ''text_not_contains''"
| "check_type (Regex_Count _ _ _ _ _) = ''regex_count''"
| "check_type (Exact_Text _ _ _ _) = ''exact_text''"
| "check_type (Lisp_Balance _) = ''lisp_balance''"
| "check_type (Org_Structure _ _) = ''org_structure''"
| "check_type (Command _ _ _ _ _ _) = ''command''"

record benchmark_check =
  ck_id :: string
  ck_weight :: "rat option"
  ck_required :: "bool option"
  ck_description :: "string option"
  ck_kind :: check_kind

record benchmark_requirement =
  rq_executables :: "string list option"
  rq_platforms :: "string list option"
  rq_environment :: "string list option"

record benchmark_task =
  bt_id :: string
  bt_title :: string
  bt_domain :: string
  bt_category :: string
  bt_difficulty :: string
  bt_prompt_file :: string
  bt_fixture_dir :: string
  bt_checks :: "benchmark_check list"
  bt_description :: "string option"
  bt_tags :: "string list option"
  bt_protected_paths :: "string list option"
  bt_allowed_paths :: "string list option"
  bt_pass_threshold :: "rat option"
  bt_timeout_ms :: "nat option"
  bt_requirements :: "benchmark_requirement option"

record suite_defaults =
  sd_timeout_ms :: "nat option"
  sd_trials :: "nat option"
  sd_pass_threshold :: "rat option"
  sd_max_workspace_bytes :: "nat option"
  sd_max_agent_output_bytes :: "nat option"

record benchmark_suite =
  su_id :: string
  su_revision :: string
  su_title :: string
  su_tasks :: "benchmark_task list"
  su_description :: "string option"
  su_defaults :: "suite_defaults option"

record loaded_task =
  lt_task :: benchmark_task
  lt_prompt :: string
  lt_prompt_path :: string
  lt_fixture_path :: string
  lt_digest :: string

record loaded_suite =
  ls_suite :: benchmark_suite
  ls_suite_path :: string
  ls_suite_dir :: string
  ls_digest :: string
  ls_tasks :: "loaded_task list"

datatype check_status = Check_Pass | Check_Fail | Check_Error | Check_Skipped

record check_result =
  cr_id :: string
  cr_type :: string
  cr_status :: check_status
  cr_required :: bool
  cr_weight :: rat
  cr_description :: "string option"
  cr_details :: jval
  cr_duration_ms :: nat

record benchmark_score =
  bs_score :: rat
  bs_threshold :: rat
  bs_passed_weight :: rat
  bs_total_weight :: rat
  bs_required_checks_passed :: bool
  bs_agent_completed :: bool
  bs_protected_paths_clean :: bool
  bs_allowed_paths_clean :: bool
  bs_passed :: bool
  bs_checks :: "check_result list"

end
