(* ===== verification/BenchLisp.thy ===== *)
theory BenchLisp
  imports JsString Brackets
begin

text \<open>
  The delimiter check of the benchmark (the first half of \<open>structure.ts\<close>): one pass over the text with a mode
  for strings and comments, and a stack of open delimiters that skips character literals of three dialects.
  The pass is written as a loop over the index; its mode does not depend on the stack, so the two are separate
  records here. The property relates it to the grammar of balanced brackets.
\<close>

subsection \<open>Results\<close>

record lisp_diagnostic =
  ld_code :: string
  ld_message :: string
  ld_line :: nat
  ld_column :: nat
  ld_position :: nat

record lisp_balance_result =
  lb_balanced :: bool
  lb_diagnostics :: "lisp_diagnostic list"
  lb_forms_depth :: nat

text \<open>\<open>locationAt\<close>.\<close>

definition location_at :: "string \<Rightarrow> nat \<Rightarrow> nat \<times> nat" where
  "location_at s position =
     fold (\<lambda>c (line, column). if c = LF then (Suc line, 0) else (line, Suc column)) (take position s) (1, 0)"

definition lisp_diagnostic_at :: "string \<Rightarrow> string \<Rightarrow> string \<Rightarrow> nat \<Rightarrow> lisp_diagnostic" where
  "lisp_diagnostic_at s code message position =
     \<lparr>ld_code = code, ld_message = message, ld_line = fst (location_at s position),
      ld_column = snd (location_at s position), ld_position = position\<rparr>"

subsection \<open>The mode\<close>

record lisp_mode =
  lm_string :: bool
  lm_escaped :: bool
  lm_line_comment :: bool
  lm_block_depth :: nat

definition new_lisp_mode :: lisp_mode where
  "new_lisp_mode = \<lparr>lm_string = False, lm_escaped = False, lm_line_comment = False, lm_block_depth = 0\<rparr>"

definition in_code :: "lisp_mode \<Rightarrow> bool" where
  "in_code m \<longleftrightarrow> \<not> lm_line_comment m \<and> lm_block_depth m = 0 \<and> \<not> lm_string m"

definition is_opener :: "char \<Rightarrow> bool" where
  "is_opener c \<longleftrightarrow> c \<in> {CHR ''('', CHR ''['', CHR ''{''}"

definition is_closer :: "char \<Rightarrow> bool" where
  "is_closer c \<longleftrightarrow> c \<in> {CHR '')'', CHR '']'', CHR ''}''}"

definition opener_of :: "char \<Rightarrow> char" where
  "opener_of c = (if c = CHR '')'' then CHR ''('' else if c = CHR '']'' then CHR ''['' else CHR ''{'')"

definition next_char :: "string \<Rightarrow> nat \<Rightarrow> char option" where
  "next_char s i = (if Suc i < length s then Some (s ! Suc i) else None)"

text \<open>The index of the last character of a character name that starts at \<open>i\<close>.\<close>

definition literal_end :: "string \<Rightarrow> nat \<Rightarrow> nat" where
  "literal_end s i =
     (if is_opener (s ! i) \<or> is_closer (s ! i) then i
      else i + length (takeWhile (\<lambda>c. \<not> (is_ws c \<or> is_opener c \<or> is_closer c)) (drop (Suc i) s)))"

text \<open>One round of the loop, but for the stack: the index of the last character it consumes, and the mode.\<close>

definition lex_step :: "string \<Rightarrow> nat \<Rightarrow> lisp_mode \<Rightarrow> nat \<times> lisp_mode" where
  "lex_step s i m =
     (let c = s ! i; nxt = next_char s i; end_at = (\<lambda>j. min (length s - 1) j) in
      if lm_line_comment m then (i, if c = LF then m\<lparr>lm_line_comment := False\<rparr> else m)
      else if 0 < lm_block_depth m then
        (if c = CHR ''#'' \<and> nxt = Some (CHR ''|'') then (Suc i, m\<lparr>lm_block_depth := lm_block_depth m + 1\<rparr>)
         else if c = CHR ''|'' \<and> nxt = Some (CHR ''#'') then (Suc i, m\<lparr>lm_block_depth := lm_block_depth m - 1\<rparr>)
         else (i, m))
      else if lm_string m then
        (i, if lm_escaped m then m\<lparr>lm_escaped := False\<rparr>
            else if c = BACKSLASH then m\<lparr>lm_escaped := True\<rparr>
            else if c = DQUOTE then m\<lparr>lm_string := False\<rparr> else m)
      else if c = CHR '';'' then (i, m\<lparr>lm_line_comment := True\<rparr>)
      else if c = CHR ''#'' \<and> nxt = Some (CHR ''|'') then (Suc i, m\<lparr>lm_block_depth := 1\<rparr>)
      else if c = DQUOTE then (i, m\<lparr>lm_string := True\<rparr>)
      else if c = CHR ''?'' then
        ((case nxt of None \<Rightarrow> i | Some d \<Rightarrow> if d = BACKSLASH then end_at (i + 2) else Suc i), m)
      else if c = CHR ''#'' \<and> nxt = Some BACKSLASH then (literal_end s (end_at (i + 2)), m)
      else if c = BACKSLASH \<and> (i = 0 \<or> is_ws (s ! (i - 1)) \<or> is_opener (s ! (i - 1)) \<or> s ! (i - 1) \<in> {DQUOTE, SQUOTE})
        then (literal_end s (end_at (i + 1)), m)
      else (i, m))"

lemma literal_end_ge: "i \<le> j \<Longrightarrow> i \<le> literal_end s j"
  by (simp add: literal_end_def)

lemma lex_step_progress:
  assumes "i < length s"
  shows "i \<le> fst (lex_step s i m)"
proof -
  have "i \<le> min (length s - 1) (i + 2)" "i \<le> min (length s - 1) (i + 1)" using assms by simp_all
  then show ?thesis
    unfolding lex_step_def Let_def by (simp add: literal_end_ge split: option.split del: min.bounded_iff)
qed

lemma lex_step_measure: "i < length s \<Longrightarrow> length s - Suc (fst (lex_step s i m)) < length s - i"
  using lex_step_progress [of i s m] by simp

subsection \<open>The stack\<close>

record lisp_stack =
  lk_open :: "(char \<times> nat) list"
  lk_diagnostics :: "lisp_diagnostic list"

definition unexpected_closer :: "string \<Rightarrow> nat \<Rightarrow> lisp_diagnostic" where
  "unexpected_closer s i =
     lisp_diagnostic_at s ''unexpected_closer'' (''Unexpected closing delimiter '' @ [s ! i] @ ''.'') i"

definition on_delimiter :: "string \<Rightarrow> nat \<Rightarrow> lisp_stack \<Rightarrow> lisp_stack" where
  "on_delimiter s i k =
     (if is_opener (s ! i) then k\<lparr>lk_open := (s ! i, i) # lk_open k\<rparr>
      else if is_closer (s ! i) then
        (case lk_open k of
           (c, p) # rest \<Rightarrow>
             if c = opener_of (s ! i) then k\<lparr>lk_open := rest\<rparr>
             else k\<lparr>lk_diagnostics := lk_diagnostics k @ [unexpected_closer s i]\<rparr>
         | [] \<Rightarrow> k\<lparr>lk_diagnostics := lk_diagnostics k @ [unexpected_closer s i]\<rparr>)
      else k)"

function lisp_loop :: "string \<Rightarrow> nat \<Rightarrow> lisp_mode \<Rightarrow> lisp_stack \<Rightarrow> lisp_mode \<times> lisp_stack" where
  "lisp_loop s i m k =
     (if i < length s
      then lisp_loop s (Suc (fst (lex_step s i m))) (snd (lex_step s i m)) (if in_code m then on_delimiter s i k else k)
      else (m, k))"
  by pat_completeness auto
termination
  by (relation "measure (\<lambda>(s, i, m, k). length s - i)") (simp_all add: lex_step_measure)

declare lisp_loop.simps [simp del]

text \<open>\<open>checkLispBalance\<close>. The stack of the model has its top first, so the loop over \<open>stack.reverse()\<close> is a \<open>map\<close>.\<close>

definition bench_check_lisp_balance :: "string \<Rightarrow> lisp_balance_result" where
  "bench_check_lisp_balance s =
     (case lisp_loop s 0 new_lisp_mode \<lparr>lk_open = [], lk_diagnostics = []\<rparr> of (m, k) \<Rightarrow>
        let diagnostics = lk_diagnostics k
          @ (if lm_string m
             then [lisp_diagnostic_at s ''unterminated_string'' ''Unterminated string literal.'' (length s - 1)] else [])
          @ (if 0 < lm_block_depth m
             then [lisp_diagnostic_at s ''unterminated_block_comment'' ''Unterminated block comment.''
               (case last_index_of ''#|'' s of None \<Rightarrow> 0 | Some p \<Rightarrow> p)] else [])
          @ map (\<lambda>(c, p). lisp_diagnostic_at s ''unclosed_delimiter'' (''Unclosed delimiter '' @ [c] @ ''.'') p) (lk_open k)
        in \<lparr>lb_balanced = (diagnostics = []), lb_diagnostics = diagnostics, lb_forms_depth = length (lk_open k)\<rparr>)"

lemma balance_examples:
  "lb_balanced (bench_check_lisp_balance ''(a [b] ?( #|)|# \"(\" )'')"
  "map ld_position (lb_diagnostics (bench_check_lisp_balance ''(a]'')) = [2, 0]"
  by code_simp+

subsection \<open>The brackets of the code\<close>

text \<open>The delimiters in code, in order, and the mode at the end; neither looks at a stack.\<close>

function code_delimiters :: "string \<Rightarrow> nat \<Rightarrow> lisp_mode \<Rightarrow> string list" where
  "code_delimiters s i m =
     (if i < length s
      then (if in_code m \<and> (is_opener (s ! i) \<or> is_closer (s ! i)) then [[s ! i]] else []) @
        code_delimiters s (Suc (fst (lex_step s i m))) (snd (lex_step s i m))
      else [])"
  by pat_completeness auto
termination
  by (relation "measure (\<lambda>(s, i, m). length s - i)") (simp_all add: lex_step_measure)

declare code_delimiters.simps [simp del]

function final_mode :: "string \<Rightarrow> nat \<Rightarrow> lisp_mode \<Rightarrow> lisp_mode" where
  "final_mode s i m =
     (if i < length s then final_mode s (Suc (fst (lex_step s i m))) (snd (lex_step s i m)) else m)"
  by pat_completeness auto
termination
  by (relation "measure (\<lambda>(s, i, m). length s - i)") (simp_all add: lex_step_measure)

declare final_mode.simps [simp del]

subsection \<open>Properties\<close>

lemma lisp_loop_mode: "fst (lisp_loop s i m k) = final_mode s i m"
proof (induction s i m k rule: lisp_loop.induct)
  case (1 s i m k)
  then show ?case by (subst lisp_loop.simps, subst final_mode.simps) simp
qed

lemma on_delimiter_diagnostics: "prefix (lk_diagnostics k) (lk_diagnostics (on_delimiter s i k))"
  by (simp add: on_delimiter_def split: list.split prod.split)

lemma lisp_loop_diagnostics: "prefix (lk_diagnostics k) (lk_diagnostics (snd (lisp_loop s i m k)))"
proof (induction s i m k rule: lisp_loop.induct)
  case (1 s i m k)
  then show ?case
    using on_delimiter_diagnostics [of k s i]
    by (subst lisp_loop.simps) (auto intro: prefix_order.trans split: if_splits)
qed

definition stack_letters :: "lisp_stack \<Rightarrow> string list" where
  "stack_letters k = map (\<lambda>(c, p). [c]) (lk_open k)"

definition stack_ok :: "string \<Rightarrow> lisp_stack \<Rightarrow> bool" where
  "stack_ok s k \<longleftrightarrow> (\<forall>(c, p) \<in> set (lk_open k). is_opener c \<and> p < length s) \<and>
     (\<forall>d \<in> set (lk_diagnostics k). ld_position d < length s)"

lemma on_delimiter_ok: "stack_ok s k \<Longrightarrow> i < length s \<Longrightarrow> stack_ok s (on_delimiter s i k)"
  by (auto simp: stack_ok_def on_delimiter_def unexpected_closer_def lisp_diagnostic_at_def split: list.split)

lemma lisp_loop_ok: "stack_ok s k \<Longrightarrow> stack_ok s (snd (lisp_loop s i m k))"
proof (induction s i m k rule: lisp_loop.induct)
  case (1 s i m k)
  then show ?case by (subst lisp_loop.simps) (simp add: on_delimiter_ok)
qed

text \<open>A stack of openers is emptied without a complaint exactly if the delimiters that follow close it.\<close>

definition closed_by :: "lisp_stack \<Rightarrow> lisp_stack \<Rightarrow> bool" where
  "closed_by k k' \<longleftrightarrow> lk_diagnostics k' = lk_diagnostics k \<and> lk_open k' = []"

lemma on_opener:
  assumes "is_opener (s ! i)"
  shows "closes_stack (stack_letters k) ([s ! i] # ds) \<longleftrightarrow> closes_stack (stack_letters (on_delimiter s i k)) ds"
    "lk_diagnostics (on_delimiter s i k) = lk_diagnostics k"
  using closes_open [of "[s ! i]" "stack_letters k" ds] assms
  by (auto simp: on_delimiter_def stack_letters_def is_opener_def)

lemma on_closer:
  assumes "is_closer (s ! i)" "stack_ok s k"
  shows "closes_stack (stack_letters k) ([s ! i] # ds) \<longleftrightarrow>
    lk_diagnostics (on_delimiter s i k) = lk_diagnostics k \<and> closes_stack (stack_letters (on_delimiter s i k)) ds"
proof -
  have closer: "[s ! i] \<in> {'')'', '']'', ''}''}" "\<not> is_opener (s ! i)" using assms(1) by (auto simp: is_closer_def is_opener_def)
  show ?thesis
  proof (cases "lk_open k")
    case Nil
    then show ?thesis using closes_close(2) [OF closer(1), of ds] closer(2) assms(1)
      by (simp add: on_delimiter_def stack_letters_def)
  next
    case (Cons o_p rest)
    obtain c p where "o_p = (c, p)" by fastforce
    moreover have "is_opener c" using assms(2) Cons calculation by (auto simp: stack_ok_def)
    then have "bracket_pair [c] [s ! i] \<longleftrightarrow> c = opener_of (s ! i)"
      using assms(1) by (auto simp: bracket_pair_iff is_opener_def is_closer_def opener_of_def)
    ultimately show ?thesis
      using closes_close(1) [OF closer(1), of "[c]" "map (\<lambda>(c, p). [c]) rest" ds] closer(2) assms(1) Cons
      by (simp add: on_delimiter_def stack_letters_def)
  qed
qed

lemma lisp_loop_closes:
  "stack_ok s k \<Longrightarrow> closed_by k (snd (lisp_loop s i m k)) \<longleftrightarrow> closes_stack (stack_letters k) (code_delimiters s i m)"
proof (induction s i m k rule: lisp_loop.induct)
  case (1 s i m k)
  show ?case
  proof (cases "i < length s")
    case False
    then show ?thesis
      by (cases "lk_open k")
        (auto simp: lisp_loop.simps code_delimiters.simps closed_by_def stack_letters_def balanced.empty elim: closes_stackE)
  next
    case True
    let ?k = "if in_code m then on_delimiter s i k else k"
    let ?rest = "code_delimiters s (Suc (fst (lex_step s i m))) (snd (lex_step s i m))"
    let ?final = "snd (lisp_loop s (Suc (fst (lex_step s i m))) (snd (lex_step s i m)) ?k)"
    have ok: "stack_ok s ?k" using "1.prems" True by (simp add: on_delimiter_ok)
    have IH: "closed_by ?k ?final \<longleftrightarrow> closes_stack (stack_letters ?k) ?rest" using "1.IH" [OF True ok] .
    have kept: "lk_diagnostics ?final = lk_diagnostics k \<longrightarrow> lk_diagnostics ?k = lk_diagnostics k"
      using lisp_loop_diagnostics [of ?k s "Suc (fst (lex_step s i m))" "snd (lex_step s i m)"]
        on_delimiter_diagnostics [of k s i] by (auto dest: prefix_order.antisym)
    then have "closed_by k ?final \<longleftrightarrow> lk_diagnostics ?k = lk_diagnostics k \<and> closed_by ?k ?final" by (auto simp: closed_by_def)
    also have "\<dots> \<longleftrightarrow> closes_stack (stack_letters k) (code_delimiters s i m)"
      using IH on_opener [of s i k] on_closer [of s i k] "1.prems" True
      by (subst code_delimiters.simps) (auto simp: on_delimiter_def)
    finally show ?thesis using True by (subst lisp_loop.simps) simp
  qed
qed

lemma last_index_bound: "last_index_of p s = Some i \<Longrightarrow> p \<noteq> [] \<Longrightarrow> i < length s"
  by (induction p s arbitrary: i rule: last_index_of.induct) (fastforce split: if_splits option.splits)+

text \<open>
  The delimiter check of the benchmark decides the grammar: a text is balanced exactly if it ends outside
  strings and block comments and the delimiters of its code, without comments, strings and character literals,
  are a word of the bracket grammar. Every diagnostic points at a character of the text.
\<close>

theorem bench_balance_iff:
  "(lb_balanced (bench_check_lisp_balance s) \<longleftrightarrow>
      \<not> lm_string (final_mode s 0 new_lisp_mode) \<and> lm_block_depth (final_mode s 0 new_lisp_mode) = 0 \<and>
      balanced (code_delimiters s 0 new_lisp_mode)) \<and>
   list_all (\<lambda>d. ld_position d < length s) (lb_diagnostics (bench_check_lisp_balance s))"
proof -
  let ?start = "\<lparr>lk_open = [], lk_diagnostics = []\<rparr>"
  obtain m k where loop: "lisp_loop s 0 new_lisp_mode ?start = (m, k)" by fastforce
  have ok: "stack_ok s ?start" by (simp add: stack_ok_def)
  have m: "m = final_mode s 0 new_lisp_mode" using lisp_loop_mode [of s 0 new_lisp_mode ?start] loop by simp
  have "lk_diagnostics k = [] \<and> lk_open k = [] \<longleftrightarrow> balanced (code_delimiters s 0 new_lisp_mode)"
    using lisp_loop_closes [OF ok, of 0 new_lisp_mode] loop by (simp add: closed_by_def stack_letters_def)
  moreover have k: "stack_ok s k" using lisp_loop_ok [OF ok, of 0 new_lisp_mode] loop by simp
  moreover have "s \<noteq> []" if "lm_string m \<or> 0 < lm_block_depth m"
    using that loop by (auto simp: lisp_loop.simps new_lisp_mode_def)
  ultimately show ?thesis
    using loop m
    by (auto simp: bench_check_lisp_balance_def Let_def list_all_iff stack_ok_def lisp_diagnostic_at_def
        dest: last_index_bound split: option.split)
qed

end
