(* ===== verification/BenchOrg.thy ===== *)
theory BenchOrg
  imports JsString
begin

text \<open>
  The Org parser of the benchmark (the second half of \<open>structure.ts\<close>): one pass over the lines with the state of
  source blocks, headings, properties and tables. Each regular expression of the source is a definition here;
  on a line, which has no line break, none of them needs backtracking but the heading one, whose case is written
  out. Code units are below 256, as in the whole model.
\<close>

subsection \<open>Results\<close>

record org_heading =
  oh_level :: nat
  oh_title :: string
  oh_todo :: "string option"
  oh_tags :: "string list"

record org_diagnostic =
  od_code :: string
  od_line :: nat
  od_message :: string

record parsed_org =
  po_headings :: "org_heading list"
  po_tables :: nat
  po_src_blocks :: nat
  po_source_languages :: "string list"
  po_properties :: "(string, string list) js_map"
  po_diagnostics :: "org_diagnostic list"

definition TODO_WORDS :: "string list" where
  "TODO_WORDS = [''TODO'', ''DONE'', ''NEXT'', ''WAITING'', ''CANCELLED'', ''HOLD'']"

text \<open>\<open>text.replace(/\r\n?/gu, "\n")\<close>.\<close>

fun cr_to_lf :: "string \<Rightarrow> string" where
  "cr_to_lf [] = []"
| "cr_to_lf [c] = [if c = CR then LF else c]"
| "cr_to_lf (c # d # s) =
     (if c = CR then LF # (if d = LF then cr_to_lf s else cr_to_lf (d # s)) else c # cr_to_lf (d # s))"

subsection \<open>Regular expressions of a line\<close>

text \<open>\<open>/^\s*#\+begin_src\s+([^\s]+)(?:\s|$)/iu\<close> and \<open>/^\s*#\+end_src\s*$/iu\<close>.\<close>

definition begin_src :: "string \<Rightarrow> string option" where
  "begin_src line =
     (let s = dropWhile is_ws line; rest = drop 11 s; language = takeWhile (\<lambda>c. \<not> is_ws c) (dropWhile is_ws rest) in
      if to_lower (take 11 s) = ''#+begin_src'' \<and> rest \<noteq> [] \<and> is_ws (hd rest) \<and> language \<noteq> [] then Some language
      else None)"

definition end_src :: "string \<Rightarrow> bool" where
  "end_src line =
     (let s = dropWhile is_ws line in to_lower (take 9 s) = ''#+end_src'' \<and> list_all is_ws (drop 9 s))"

text \<open>\<open>/^(\*+)\s+(.+?)\s*$/u\<close>: the stars and the trimmed body. With nothing but white space after the stars, the
  expression gives one space back to the body, so two of them are needed.\<close>

definition heading_match :: "string \<Rightarrow> (nat \<times> string) option" where
  "heading_match line =
     (let stars = takeWhile (\<lambda>c. c = CHR ''*'') line; rest = drop (length stars) line;
          spaces = takeWhile is_ws rest; body = dropWhile is_ws rest in
      if stars = [] \<or> spaces = [] \<or> (body = [] \<and> length spaces < 2) then None
      else Some (length stars, trim body))"

text \<open>\<open>/\s+:([^:\s]+(?::[^:\s]+)*):\s*$/u\<close> on a trimmed text: the text before the match and the tags.\<close>

definition tag_match :: "string \<Rightarrow> (string \<times> string list) option" where
  "tag_match body =
     (let word = rev (takeWhile (\<lambda>c. \<not> is_ws c) (rev body));
          prelude = take (length body - length word) body;
          tags = split_on (CHR '':'') (butlast (tl word)) in
      if prelude \<noteq> [] \<and> word \<noteq> [] \<and> hd word = CHR '':'' \<and> last word = CHR '':'' \<and> list_all (\<lambda>t. t \<noteq> []) tags
      then Some (prelude, tags) else None)"

definition is_key_char :: "char \<Rightarrow> bool" where
  "is_key_char c \<longleftrightarrow> (let n = (of_char c :: nat) in
     48 \<le> n \<and> n \<le> 57 \<or> 65 \<le> n \<and> n \<le> 90 \<or> 97 \<le> n \<and> n \<le> 122) \<or> c \<in> set ''_@#%+-''"

text \<open>\<open>/^\s*:([A-Za-z0-9_@#%+-]+):\s*(.*?)\s*$/u\<close>.\<close>

definition property_match :: "string \<Rightarrow> (string \<times> string) option" where
  "property_match line =
     (case dropWhile is_ws line of
        [] \<Rightarrow> None
      | c # rest \<Rightarrow>
          (let key = takeWhile is_key_char rest; after = drop (length key) rest in
           if c = CHR '':'' \<and> key \<noteq> [] \<and> after \<noteq> [] \<and> hd after = CHR '':'' then Some (key, trim (tl after))
           else None))"

text \<open>\<open>/^\s*\|.*\|\s*$/u\<close>.\<close>

definition table_line :: "string \<Rightarrow> bool" where
  "table_line line = (let s = trim line in 2 \<le> length s \<and> hd s = CHR ''|'' \<and> last s = CHR ''|'')"

subsection \<open>The loop over the lines\<close>

record org_state =
  os_open :: "(string \<times> nat) option"
  os_languages :: "string list"
  os_headings :: "org_heading list"
  os_properties :: "(string, string list) js_map"
  os_tables :: nat
  os_in_table :: bool
  os_diagnostics :: "org_diagnostic list"

definition new_org_state :: org_state where
  "new_org_state = \<lparr>os_open = None, os_languages = [], os_headings = [], os_properties = [], os_tables = 0,
     os_in_table = False, os_diagnostics = []\<rparr>"

definition add_org_diagnostic :: "string \<Rightarrow> nat \<Rightarrow> string \<Rightarrow> org_state \<Rightarrow> org_state" where
  "add_org_diagnostic code n message st =
     st\<lparr>os_diagnostics := os_diagnostics st @ [\<lparr>od_code = code, od_line = n, od_message = message\<rparr>]\<rparr>"

definition source_step :: "nat \<Rightarrow> string \<Rightarrow> org_state \<Rightarrow> org_state" where
  "source_step n line st =
     (case begin_src line of
        Some name \<Rightarrow>
          (let st1 = (if os_open st \<noteq> None
             then add_org_diagnostic ''nested_src_block'' n ''A source block began before the previous block ended.'' st
             else st);
               language = to_lower name
           in st1\<lparr>os_open := Some (language, n), os_languages := os_languages st1 @ [language]\<rparr>)
      | None \<Rightarrow>
          if end_src line then
            (if os_open st = None
             then add_org_diagnostic ''orphan_end_src'' n ''Found #+end_src without a matching #+begin_src.'' st
             else st)\<lparr>os_open := None\<rparr>
          else st)"

definition heading_of :: "nat \<Rightarrow> string \<Rightarrow> org_heading" where
  "heading_of level body =
     (let tagged = tag_match body;
          tags = (case tagged of None \<Rightarrow> [] | Some (_, ts) \<Rightarrow> ts);
          body = (case tagged of None \<Rightarrow> body | Some (prelude, _) \<Rightarrow> trim prelude);
          first_word = takeWhile (\<lambda>c. c \<noteq> CHR '' '') body;
          todo = (if first_word \<in> set TODO_WORDS then Some first_word else None);
          title = (if todo \<noteq> None then trim (drop (length first_word) body) else body)
      in \<lparr>oh_level = level, oh_title = title, oh_todo = todo, oh_tags = tags\<rparr>)"

definition heading_step :: "string \<Rightarrow> org_state \<Rightarrow> org_state" where
  "heading_step line st =
     (if os_open st = None \<or> begin_src line \<noteq> None then
        (case heading_match line of
           None \<Rightarrow> st
         | Some (level, body) \<Rightarrow> st\<lparr>os_headings := os_headings st @ [heading_of level body]\<rparr>)
      else st)"

definition property_step :: "string \<Rightarrow> org_state \<Rightarrow> org_state" where
  "property_step line st =
     (case property_match line of
        None \<Rightarrow> st
      | Some (name, v) \<Rightarrow>
          (let key = to_upper name in
           if key \<in> {''PROPERTIES'', ''END''} then st
           else st\<lparr>os_properties := AList.update key
             ((case map_of (os_properties st) key of None \<Rightarrow> [] | Some vs \<Rightarrow> vs) @ [v]) (os_properties st)\<rparr>))"

definition table_step :: "string \<Rightarrow> org_state \<Rightarrow> org_state" where
  "table_step line st =
     (if table_line line
      then (if os_in_table st then st else st\<lparr>os_tables := Suc (os_tables st), os_in_table := True\<rparr>)
      else st\<lparr>os_in_table := False\<rparr>)"

definition org_line :: "nat \<times> string \<Rightarrow> org_state \<Rightarrow> org_state" where
  "org_line = (\<lambda>(n, line) st. table_step line (property_step line (heading_step line (source_step n line st))))"

definition org_lines :: "string \<Rightarrow> string list" where
  "org_lines s = split_on LF (cr_to_lf s)"

definition parse_org_structure :: "string \<Rightarrow> parsed_org" where
  "parse_org_structure s =
     (let st = fold org_line (List.enumerate 1 (org_lines s)) new_org_state;
          st = (case os_open st of
            None \<Rightarrow> st
          | Some (language, n) \<Rightarrow>
              add_org_diagnostic ''unterminated_src_block'' n (''Source block '' @ language @ '' is not terminated.'') st)
      in \<lparr>po_headings = os_headings st, po_tables = os_tables st, po_src_blocks = length (os_languages st),
          po_source_languages = os_languages st, po_properties = os_properties st, po_diagnostics = os_diagnostics st\<rparr>)"

subsection \<open>What one line does\<close>

datatype src_mark = Src_Begin | Src_End

definition src_mark_of :: "string \<Rightarrow> src_mark option" where
  "src_mark_of line = (if begin_src line \<noteq> None then Some Src_Begin else if end_src line then Some Src_End else None)"

definition opened :: "src_mark option \<Rightarrow> bool \<Rightarrow> bool" where
  "opened k b = (case k of None \<Rightarrow> b | Some Src_Begin \<Rightarrow> True | Some Src_End \<Rightarrow> False)"

definition misplaced :: "src_mark option \<Rightarrow> bool \<Rightarrow> bool" where
  "misplaced k b \<longleftrightarrow> k = Some Src_Begin \<and> b \<or> k = Some Src_End \<and> \<not> b"

lemma source_step_sel:
  "os_open (source_step n line st) \<noteq> None \<longleftrightarrow> opened (src_mark_of line) (os_open st \<noteq> None)"
  "os_languages (source_step n line st) = os_languages st @ (case begin_src line of None \<Rightarrow> [] | Some l \<Rightarrow> [to_lower l])"
  "os_diagnostics (source_step n line st) = os_diagnostics st \<longleftrightarrow> \<not> misplaced (src_mark_of line) (os_open st \<noteq> None)"
  "prefix (os_diagnostics st) (os_diagnostics (source_step n line st))"
  "os_headings (source_step n line st) = os_headings st" "os_tables (source_step n line st) = os_tables st"
  "os_in_table (source_step n line st) = os_in_table st"
  by (auto simp: source_step_def opened_def misplaced_def src_mark_of_def add_org_diagnostic_def Let_def split: option.split)

lemma heading_step_sel [simp]:
  "os_open (heading_step line st) = os_open st" "os_languages (heading_step line st) = os_languages st"
  "os_diagnostics (heading_step line st) = os_diagnostics st" "os_tables (heading_step line st) = os_tables st"
  "os_in_table (heading_step line st) = os_in_table st"
  by (simp_all add: heading_step_def split: option.split)

lemma property_step_sel [simp]:
  "os_open (property_step line st) = os_open st" "os_languages (property_step line st) = os_languages st"
  "os_diagnostics (property_step line st) = os_diagnostics st" "os_headings (property_step line st) = os_headings st"
  "os_tables (property_step line st) = os_tables st" "os_in_table (property_step line st) = os_in_table st"
  by (simp_all add: property_step_def Let_def split: option.split)

lemma table_step_sel [simp]:
  "os_open (table_step line st) = os_open st" "os_languages (table_step line st) = os_languages st"
  "os_diagnostics (table_step line st) = os_diagnostics st" "os_headings (table_step line st) = os_headings st"
  "os_in_table (table_step line st) = table_line line"
  "os_tables (table_step line st) = os_tables st + (if table_line line \<and> \<not> os_in_table st then 1 else 0)"
  by (simp_all add: table_step_def)

text \<open>A line that begins a source block is no heading: its first character that is no white space is \<open>#\<close>.\<close>

lemma begin_src_no_heading:
  assumes "begin_src line \<noteq> None"
  shows "heading_match line = None"
proof -
  have "to_lower (take 11 (dropWhile is_ws line)) = ''#+begin_src''"
    using assms by (auto simp: begin_src_def Let_def split: if_splits)
  then have low: "dropWhile is_ws line \<noteq> [] \<and> to_lower_char (hd (dropWhile is_ws line)) = CHR ''#''"
    by (cases "dropWhile is_ws line") (auto simp: to_lower_def)
  have "to_lower_char (CHR ''*'') \<noteq> CHR ''#''" "\<not> is_ws (CHR ''*'')" by (simp_all add: to_lower_char_def is_ws_def)
  with low have "takeWhile (\<lambda>c. c = CHR ''*'') line = []" by (cases line) (auto split: if_splits)
  then show ?thesis by (simp add: heading_match_def Let_def)
qed

definition headings_of_line :: "string \<Rightarrow> org_heading list" where
  "headings_of_line line = (case heading_match line of None \<Rightarrow> [] | Some (level, body) \<Rightarrow> [heading_of level body])"

lemma heading_step_headings:
  "os_headings (heading_step line st) = os_headings st @ (if os_open st = None then headings_of_line line else [])"
  using begin_src_no_heading [of line] by (auto simp: heading_step_def headings_of_line_def split: option.split)

subsection \<open>The parser as a whole\<close>

text \<open>The lines outside source blocks: a line that ends a block belongs to them, a line that begins one does not.\<close>

fun prose_lines :: "bool \<Rightarrow> string list \<Rightarrow> string list" where
  "prose_lines b [] = []"
| "prose_lines b (l # ls) =
     (let b' = opened (src_mark_of l) b in (if b' then [] else [l]) @ prose_lines b' ls)"

fun table_starts :: "bool \<Rightarrow> string list \<Rightarrow> nat" where
  "table_starts b [] = 0"
| "table_starts b (l # ls) = (if table_line l \<and> \<not> b then 1 else 0) + table_starts (table_line l) ls"

fun alternating :: "bool \<Rightarrow> src_mark list \<Rightarrow> bool" where
  "alternating b [] \<longleftrightarrow> \<not> b"
| "alternating b (k # ks) \<longleftrightarrow> \<not> misplaced (Some k) b \<and> alternating (opened (Some k) b) ks"

lemma alternating_iff:
  "alternating False ks \<longleftrightarrow> (\<exists>n. ks = concat (replicate n [Src_Begin, Src_End]))"
  "alternating True ks \<longleftrightarrow> (\<exists>n. ks = Src_End # concat (replicate n [Src_Begin, Src_End]))"
proof (induction ks)
  case Nil
  { case 1 show ?case by (auto intro: exI [of _ 0]) }
  { case 2 show ?case by auto }
next
  case (Cons k ks)
  { case 1
    have "(\<exists>n. Src_Begin # ks = concat (replicate n [Src_Begin, Src_End])) \<longleftrightarrow>
        (\<exists>n. ks = Src_End # concat (replicate n [Src_Begin, Src_End]))"
    proof
      assume "\<exists>n. Src_Begin # ks = concat (replicate n [Src_Begin, Src_End])"
      then obtain n where n: "Src_Begin # ks = concat (replicate n [Src_Begin, Src_End])" by blast
      then show "\<exists>n. ks = Src_End # concat (replicate n [Src_Begin, Src_End])" by (cases n) auto
    next
      assume "\<exists>n. ks = Src_End # concat (replicate n [Src_Begin, Src_End])"
      then obtain n where "ks = Src_End # concat (replicate n [Src_Begin, Src_End])" by blast
      then show "\<exists>n. Src_Begin # ks = concat (replicate n [Src_Begin, Src_End])" by (intro exI [of _ "Suc n"]) simp
    qed
    moreover have "Src_End # ks \<noteq> concat (replicate n [Src_Begin, Src_End])" for n by (cases n) auto
    ultimately show ?case using Cons.IH by (cases k) (auto simp: misplaced_def opened_def) }
  { case 2 show ?case using Cons.IH by (cases k) (auto simp: misplaced_def opened_def) }
qed

lemma prefix_same: "prefix xs ys \<Longrightarrow> prefix ys zs \<Longrightarrow> zs = xs \<longleftrightarrow> ys = xs \<and> zs = ys"
  by (auto dest: prefix_order.antisym)

lemma org_line_sel:
  "os_open (org_line (n, l) st) \<noteq> None \<longleftrightarrow> opened (src_mark_of l) (os_open st \<noteq> None)"
  "os_languages (org_line (n, l) st) = os_languages st @ (case begin_src l of None \<Rightarrow> [] | Some x \<Rightarrow> [to_lower x])"
  "os_diagnostics (org_line (n, l) st) = os_diagnostics st \<longleftrightarrow> \<not> misplaced (src_mark_of l) (os_open st \<noteq> None)"
  "prefix (os_diagnostics st) (os_diagnostics (org_line (n, l) st))"
  "os_headings (org_line (n, l) st) =
     os_headings st @ (if opened (src_mark_of l) (os_open st \<noteq> None) then [] else headings_of_line l)"
  "os_tables (org_line (n, l) st) = os_tables st + (if table_line l \<and> \<not> os_in_table st then 1 else 0)"
  "os_in_table (org_line (n, l) st) = table_line l"
  using source_step_sel(1) [of n l st]
  by (auto simp: org_line_def source_step_sel heading_step_headings)

lemma org_loop:
  assumes "st' = fold org_line (List.enumerate n ls) st"
  shows "os_languages st' = os_languages st @ map to_lower (List.map_filter begin_src ls)"
    and "os_tables st' = os_tables st + table_starts (os_in_table st) ls"
    and "os_headings st' = os_headings st @ concat (map headings_of_line (prose_lines (os_open st \<noteq> None) ls))"
    and "prefix (os_diagnostics st) (os_diagnostics st')"
    and "os_diagnostics st' = os_diagnostics st \<and> os_open st' = None \<longleftrightarrow>
      alternating (os_open st \<noteq> None) (List.map_filter src_mark_of ls)"
proof -
  have "os_languages st' = os_languages st @ map to_lower (List.map_filter begin_src ls) \<and>
    os_tables st' = os_tables st + table_starts (os_in_table st) ls \<and>
    os_headings st' = os_headings st @ concat (map headings_of_line (prose_lines (os_open st \<noteq> None) ls)) \<and>
    prefix (os_diagnostics st) (os_diagnostics st') \<and>
    (os_diagnostics st' = os_diagnostics st \<and> os_open st' = None \<longleftrightarrow>
      alternating (os_open st \<noteq> None) (List.map_filter src_mark_of ls))"
    using assms
  proof (induction ls arbitrary: n st)
    case Nil
    then show ?case by (simp add: List.map_filter_simps del: not_None_eq)
  next
    case (Cons l ls)
    let ?st = "org_line (n, l) st"
    have st': "st' = fold org_line (List.enumerate (Suc n) ls) ?st" using Cons.prems by simp
    note IH = Cons.IH [OF st']
    have "prefix (os_diagnostics st) (os_diagnostics st')" using org_line_sel(4) [of st n l] IH by (auto intro: prefix_order.trans)
    moreover have "os_diagnostics st' = os_diagnostics st \<longleftrightarrow>
        os_diagnostics ?st = os_diagnostics st \<and> os_diagnostics st' = os_diagnostics ?st"
      using prefix_same [OF org_line_sel(4) [of st n l]] IH by blast
    moreover have "alternating b (List.map_filter src_mark_of (l # ls)) \<longleftrightarrow>
        \<not> misplaced (src_mark_of l) b \<and> alternating (opened (src_mark_of l) b) (List.map_filter src_mark_of ls)" for b
      by (cases "src_mark_of l") (simp_all add: List.map_filter_simps misplaced_def opened_def)
    ultimately show ?case
      using IH org_line_sel [where n = n and l = l and st = st]
      by (simp add: List.map_filter_simps Let_def split: option.split)
  qed
  then show "os_languages st' = os_languages st @ map to_lower (List.map_filter begin_src ls)"
    "os_tables st' = os_tables st + table_starts (os_in_table st) ls"
    "os_headings st' = os_headings st @ concat (map headings_of_line (prose_lines (os_open st \<noteq> None) ls))"
    "prefix (os_diagnostics st) (os_diagnostics st')"
    "os_diagnostics st' = os_diagnostics st \<and> os_open st' = None \<longleftrightarrow>
      alternating (os_open st \<noteq> None) (List.map_filter src_mark_of ls)"
    by blast+
qed

text \<open>
  The Org parser reports what the lines say. There is no diagnostic exactly if the marks of source blocks
  alternate, begin and end, and the last one is an end; there is one block, with its language in lower case, for
  each begin mark; the headings are those of the lines outside source blocks; and the tables are the maximal runs
  of table lines.
\<close>

theorem org_structure_exact:
  "(po_diagnostics (parse_org_structure s) = [] \<longleftrightarrow>
     (\<exists>n. List.map_filter src_mark_of (org_lines s) = concat (replicate n [Src_Begin, Src_End]))) \<and>
   po_source_languages (parse_org_structure s) = map to_lower (List.map_filter begin_src (org_lines s)) \<and>
   po_src_blocks (parse_org_structure s) = length (po_source_languages (parse_org_structure s)) \<and>
   po_headings (parse_org_structure s) = concat (map headings_of_line (prose_lines False (org_lines s))) \<and>
   po_tables (parse_org_structure s) = table_starts False (org_lines s)"
proof -
  let ?st = "fold org_line (List.enumerate 1 (org_lines s)) new_org_state"
  note loop = org_loop [OF refl, where n = 1 and ls = "org_lines s" and st = new_org_state]
  from loop show ?thesis
    by (auto simp: parse_org_structure_def Let_def new_org_state_def add_org_diagnostic_def alternating_iff split: option.split)
qed

end
