(* ===== verification/BenchPaths.thy ===== *)
theory BenchPaths
  imports Paths
begin

text \<open>
  Paths of the benchmark (\<open>pathSafety.ts\<close>): relative paths of a suite, resolution inside a root, the check for
  symbolic links, and the patterns of allowed and protected paths. A \<open>TypeError\<close> is its message. The regular
  expression that \<open>pathMatchesPattern\<close> builds is the list of its parts; matching them is written out.
\<close>

subsection \<open>Relative paths\<close>

definition portable :: "string \<Rightarrow> string" where
  "portable = map (\<lambda>c. if c = BACKSLASH then CHR ''/'' else c)"

definition is_letter :: "char \<Rightarrow> bool" where
  "is_letter c \<longleftrightarrow> (let n = (of_char c :: nat) in 65 \<le> n \<and> n \<le> 90 \<or> 97 \<le> n \<and> n \<le> 122)"

definition drive_path :: "string \<Rightarrow> bool" where
  "drive_path s \<longleftrightarrow> 3 \<le> length s \<and> is_letter (hd s) \<and> take 2 (tl s) = '':/''"

definition normalize_relative_path :: "string \<Rightarrow> string \<Rightarrow> string + string" where
  "normalize_relative_path v label =
     (if v = [] then Inl (label @ '' must be a non-empty string.'')
      else if CHR 0x00 \<in> set v then Inl (label @ '' contains a NUL byte.'')
      else if starts_with (portable v) ''/'' \<or> drive_path (portable v) then Inl (label @ '' must be relative.'')
      else
       (let normalized = path_normalize (portable v) in
        if normalized = ''.'' \<or> normalized = ''..'' \<or> starts_with normalized ''../''
        then Inl (label @ '' escapes its root.'') else Inr normalized))"

definition inside_root :: "string \<Rightarrow> string \<Rightarrow> bool" where
  "inside_root resolved_root p \<longleftrightarrow> p = resolved_root \<or> starts_with p (resolved_root @ ''/'')"

definition resolve_inside :: "string \<Rightarrow> string \<Rightarrow> string \<Rightarrow> string \<Rightarrow> string + string" where
  "resolve_inside cwd base relative label =
     andthen (normalize_relative_path relative label) (\<lambda>safe.
       let resolved_root = path_resolve cwd base; candidate = path_resolve resolved_root safe in
       if \<not> inside_root resolved_root candidate then Inl (label @ '' escapes its root.'') else Inr candidate)"

text \<open>\<open>assertNoSymlinkPath\<close>, with what \<open>existsSync\<close> and \<open>lstatSync(...).isSymbolicLink()\<close> say of a path.\<close>

fun no_symlink_from :: "(string \<Rightarrow> bool) \<Rightarrow> (string \<Rightarrow> bool) \<Rightarrow> string \<Rightarrow> string \<Rightarrow> string list \<Rightarrow> string \<Rightarrow> string + unit" where
  "no_symlink_from exists_at is_link resolved_root label [] current = Inr ()"
| "no_symlink_from exists_at is_link resolved_root label (part # parts) current =
     (let next = path_join current part in
      if \<not> exists_at next then Inr ()
      else if is_link next
      then Inl (label @ '' traverses a symbolic link: '' @ path_relative ''/'' resolved_root next)
      else no_symlink_from exists_at is_link resolved_root label parts next)"

definition assert_no_symlink_path :: "(string \<Rightarrow> bool) \<Rightarrow> (string \<Rightarrow> bool) \<Rightarrow> string \<Rightarrow> string \<Rightarrow> string \<Rightarrow> string \<Rightarrow> string + unit" where
  "assert_no_symlink_path exists_at is_link cwd base target label =
     (let resolved_root = path_resolve cwd base; resolved_target = path_resolve cwd target in
      if \<not> inside_root resolved_root resolved_target then Inl (label @ '' escapes its root.'')
      else no_symlink_from exists_at is_link resolved_root label
        (filter (\<lambda>part. part \<noteq> []) (split_on CHR ''/'' (path_relative cwd resolved_root resolved_target))) resolved_root)"

subsection \<open>Patterns\<close>

text \<open>The parts of the regular expression: \<open>(?:.*/)?\<close>, \<open>.*\<close>, \<open>[^/]*\<close>, \<open>[^/]\<close> and an escaped character.\<close>

datatype glob = Any_Dirs | Any_Text | Any_Name | Any_Char | Literal char

fun glob_parts :: "string \<Rightarrow> glob list" where
  "glob_parts [] = []"
| "glob_parts (c # s) =
     (if c = CHR ''*'' \<and> starts_with s ''*/'' then Any_Dirs # glob_parts (drop 2 s)
      else if c = CHR ''*'' \<and> starts_with s ''*'' then Any_Text # glob_parts (drop 1 s)
      else if c = CHR ''*'' then Any_Name # glob_parts s
      else if c = CHR ''?'' then Any_Char # glob_parts s
      else Literal c # glob_parts s)"

text \<open>\<open>.\<close> matches no line break.\<close>

definition one_line :: "string \<Rightarrow> string" where
  "one_line = takeWhile (\<lambda>c. c \<noteq> LF \<and> c \<noteq> CR)"

fun glob_match :: "glob list \<Rightarrow> string \<Rightarrow> bool" where
  "glob_match [] s \<longleftrightarrow> s = []"
| "glob_match (Literal c # gs) s \<longleftrightarrow> s \<noteq> [] \<and> hd s = c \<and> glob_match gs (tl s)"
| "glob_match (Any_Char # gs) s \<longleftrightarrow> s \<noteq> [] \<and> hd s \<noteq> CHR ''/'' \<and> glob_match gs (tl s)"
| "glob_match (Any_Name # gs) s \<longleftrightarrow>
     list_ex (\<lambda>n. glob_match gs (drop n s)) [0..<Suc (length (takeWhile (\<lambda>c. c \<noteq> CHR ''/'') s))]"
| "glob_match (Any_Text # gs) s \<longleftrightarrow> list_ex (\<lambda>n. glob_match gs (drop n s)) [0..<Suc (length (one_line s))]"
| "glob_match (Any_Dirs # gs) s \<longleftrightarrow>
     glob_match gs s \<or>
     list_ex (\<lambda>n. s ! n = CHR ''/'' \<and> glob_match gs (drop (Suc n) s)) [0..<length (one_line s)]"

definition path_matches_pattern :: "string \<Rightarrow> string \<Rightarrow> string + bool" where
  "path_matches_pattern relative pattern =
     andthen (normalize_relative_path relative ''path'') (\<lambda>target.
     andthen (normalize_relative_path pattern ''path pattern'') (\<lambda>normalized.
       Inr (glob_match (glob_parts normalized) target)))"

text \<open>\<open>array.some\<close> with a predicate that may throw.\<close>

fun some_of :: "('a \<Rightarrow> 'e + bool) \<Rightarrow> 'a list \<Rightarrow> 'e + bool" where
  "some_of p [] = Inr False"
| "some_of p (x # xs) = andthen (p x) (\<lambda>b. if b then Inr True else some_of p xs)"

definition path_matches_any :: "string \<Rightarrow> string list \<Rightarrow> string + bool" where
  "path_matches_any relative patterns = some_of (path_matches_pattern relative) patterns"

definition is_protected_path :: "string \<Rightarrow> string list \<Rightarrow> string + bool" where
  "is_protected_path relative protected =
     andthen (normalize_relative_path relative ''path'') (\<lambda>normalized.
       some_of (\<lambda>item.
         andthen (normalize_relative_path item ''protected path'') (\<lambda>p.
           if normalized = p \<or> starts_with normalized (p @ ''/'') then Inr True
           else path_matches_pattern normalized p)) protected)"

subsection \<open>Normal forms\<close>

lemma some_of_True:
  assumes "list_all (\<lambda>x. \<exists>b. p x = Inr b) xs"
  shows "some_of p xs = Inr (list_ex (\<lambda>x. p x = Inr True) xs)"
  using assms by (induction xs) auto

text \<open>A stack that \<open>norm_segment\<close> has climbed out of keeps its \<open>..\<close> for good.\<close>

lemma norm_dots:
  assumes "st \<noteq> []" "hd st = ''..''"
  shows "foldl (norm_segment True) st segs \<noteq> [] \<and> hd (foldl (norm_segment True) st segs) = ''..''"
  using assms
proof (induction segs arbitrary: st)
  case (Cons seg segs)
  have "norm_segment True st seg \<noteq> [] \<and> hd (norm_segment True st seg) = ''..''"
  proof -
    obtain rest where "st = ''..'' # rest" using Cons.prems by (cases st) simp_all
    then show ?thesis by (simp add: norm_segment_def)
  qed
  then show ?case using Cons.IH by simp
qed simp

lemma norm_clean:
  assumes "list_all clean_segment st" "\<forall>s \<in> set segs. CHR ''/'' \<notin> set s"
    and "foldl (norm_segment True) st segs = [] \<or> hd (foldl (norm_segment True) st segs) \<noteq> ''..''"
  shows "foldl (norm_segment True) st segs = foldl push_segment st segs"
  using assms
proof (induction segs arbitrary: st)
  case (Cons seg segs)
  show ?case
  proof (cases "seg = ''..'' \<and> st = []")
    case True
    then have "norm_segment True st seg = [''..'']" by (simp add: norm_segment_def)
    then have "foldl (norm_segment True) st (seg # segs) \<noteq> [] \<and> hd (foldl (norm_segment True) st (seg # segs)) = ''..''"
      using norm_dots [of "[''..'']" segs] by simp
    then show ?thesis using Cons.prems(3) by simp
  next
    case False
    have "last st \<noteq> ''..''" if "st \<noteq> []"
      using Cons.prems(1) last_in_set [OF that] by (auto simp: list_all_iff clean_segment_def)
    then have same: "norm_segment True st seg = push_segment st seg"
      using False by (auto simp: norm_segment_def push_segment_def)
    moreover have "list_all clean_segment (push_segment st seg)" using Cons.prems by (simp add: clean_push)
    ultimately show ?thesis using Cons.IH [of "push_segment st seg"] Cons.prems by simp
  qed
qed simp

lemma set_norm_segment: "set (norm_segment b st seg) \<subseteq> set st \<union> (if seg = [] then {} else {seg})"
proof -
  have "set (butlast st) \<subseteq> set st" by (blast dest: in_set_butlastD)
  then show ?thesis unfolding norm_segment_def by simp blast
qed

lemma norm_segments_no_slash:
  assumes "\<forall>s \<in> set segs. CHR ''/'' \<notin> set s" "\<forall>s \<in> set st. CHR ''/'' \<notin> set s \<and> s \<noteq> []"
  shows "\<forall>s \<in> set (foldl (norm_segment b) st segs). CHR ''/'' \<notin> set s \<and> s \<noteq> []"
  using assms
proof (induction segs arbitrary: st)
  case (Cons seg segs)
  have "\<forall>s \<in> set (norm_segment b st seg). CHR ''/'' \<notin> set s \<and> s \<noteq> []"
  proof
    fix x assume "x \<in> set (norm_segment b st seg)"
    then have "x \<in> set st \<or> seg \<noteq> [] \<and> x = seg" using set_norm_segment [of b st seg] by (auto split: if_splits)
    moreover have "CHR ''/'' \<notin> set seg" using Cons.prems(1) by (rule bspec) simp
    ultimately show "CHR ''/'' \<notin> set x \<and> x \<noteq> []" using Cons.prems(2) by blast
  qed
  moreover have "\<forall>s \<in> set segs. CHR ''/'' \<notin> set s" using Cons.prems(1) by (blast intro: list.set_intros(2))
  ultimately show ?case using Cons.IH [of "norm_segment b st seg"] unfolding foldl_Cons by blast
next
  case Nil
  then show ?case unfolding foldl_Nil by blast
qed

lemma join_append: "xs \<noteq> [] \<Longrightarrow> ys \<noteq> [] \<Longrightarrow> join sep (xs @ ys) = join sep xs @ sep @ join sep ys"
proof (induction xs)
  case (Cons x xs)
  then show ?case by (cases xs) (simp_all add: join_Cons)
qed simp

lemma join_Nil_iff: "list_all (\<lambda>x. x \<noteq> []) xs \<Longrightarrow> join sep xs = [] \<longleftrightarrow> xs = []"
  by (cases xs) (simp_all add: join_not_Nil)

text \<open>The segments of a relative path, with \<open>.\<close> and \<open>..\<close> worked out.\<close>

definition relative_path_segments :: "string \<Rightarrow> string list" where
  "relative_path_segments v = normal_segments (split_on CHR ''/'' (portable v))"

lemma clean_relative_segments: "list_all clean_segment (relative_path_segments v)"
  by (auto simp: relative_path_segments_def normal_segments_def intro!: clean_fold dest: split_on_sep_free)

lemma normalize_shape:
  assumes "normalize_relative_path v label = Inr r"
  shows "r = (if relative_path_segments v = [] then ''./''
    else join ''/'' (relative_path_segments v) @ (if ends_with (portable v) ''/'' then ''/'' else []))"
    and "relative_path_segments v = [] \<Longrightarrow> ends_with (portable v) ''/''"
proof -
  let ?segs = "split_on CHR ''/'' (portable v)"
  let ?S = "foldl (norm_segment True) [] ?segs"
  let ?t = "if ends_with (portable v) ''/'' then ''/'' else []"
  have v: "portable v \<noteq> []" "\<not> starts_with (portable v) ''/''"
    and r: "r = path_normalize (portable v)" "r \<noteq> ''.''" "r \<noteq> ''..''" "\<not> starts_with r ''../''"
    using assms by (auto simp: normalize_relative_path_def Let_def portable_def split: if_splits)
  have no_slash: "\<forall>s \<in> set ?segs. CHR ''/'' \<notin> set s" by (auto dest: split_on_sep_free)
  have S: "\<forall>s \<in> set ?S. CHR ''/'' \<notin> set s \<and> s \<noteq> []" using norm_segments_no_slash [OF no_slash, of "[]" True] by simp
  have "join ''/'' ?S = [] \<longleftrightarrow> ?S = []" using S by (intro join_Nil_iff) (simp add: list_all_iff)
  then have body: "r = (if ?S = [] then (if ends_with (portable v) ''/'' then ''./'' else ''.'') else join ''/'' ?S @ ?t)"
    using v by (simp add: r(1) path_normalize_def Let_def)
  have "?S = [] \<or> hd ?S \<noteq> ''..''"
  proof (rule ccontr)
    assume "\<not> (?S = [] \<or> hd ?S \<noteq> ''..'')"
    then obtain rest where "?S = ''..'' # rest" by (cases ?S) auto
    then show False using body r by (cases rest) (auto split: if_splits)
  qed
  then have same: "?S = relative_path_segments v"
    using norm_clean [of "[]" ?segs] no_slash by (simp add: relative_path_segments_def normal_segments_def)
  show "r = (if relative_path_segments v = [] then ''./'' else join ''/'' (relative_path_segments v) @ ?t)"
    using body r(2) same by (auto split: if_splits)
  show "ends_with (portable v) ''/''" if "relative_path_segments v = []"
    using that body r(2) same by (auto split: if_splits)
qed

lemma split_normalized:
  assumes "normalize_relative_path v label = Inr r"
  shows "foldl push_segment st (split_on CHR ''/'' r) = st @ relative_path_segments v" "\<not> starts_with r ''/''"
proof -
  let ?S = "relative_path_segments v"
  note clean = clean_relative_segments [of v]
  have seps: "\<And>x. x \<in> set ?S \<Longrightarrow> CHR ''/'' \<notin> set x" using clean by (simp add: list_all_iff clean_segment_def)
  have parts: "split_on CHR ''/'' (join ''/'' ?S) = ?S" if "?S \<noteq> []"
    using that seps by (rule split_on_join)
  have tail: "split_on CHR ''/'' (join ''/'' ?S @ ''/'') = ?S @ [[]]" if "?S \<noteq> []"
  proof -
    have "join ''/'' ?S @ ''/'' = join ''/'' (?S @ [[]])" using that by (rule join_snoc_newline)
    moreover have "CHR ''/'' \<notin> set x" if "x \<in> set (?S @ [[]])" for x using that seps by auto
    ultimately show ?thesis using split_on_join [of "?S @ [[]]"] by simp
  qed
  show "foldl push_segment st (split_on CHR ''/'' r) = st @ ?S"
    using normalize_shape(1) [OF assms] parts tail fold_clean [OF clean, of st]
    by (auto simp: push_segment_def split: if_splits)
  have "\<not> starts_with (join ''/'' ?S) ''/''" if "?S \<noteq> []"
    using that clean join_starts_slash [of "hd ?S" "tl ?S"] by (cases ?S) (auto simp: clean_segment_def)
  moreover have "list_all (\<lambda>x. x \<noteq> []) ?S" using clean by (auto simp: list_all_iff clean_segment_def)
  then have "join ''/'' ?S \<noteq> []" if "?S \<noteq> []" using that by (simp add: join_Nil_iff)
  ultimately show "\<not> starts_with r ''/''"
    using normalize_shape(1) [OF assms] by (auto simp: starts_with_def neq_Nil_conv)
qed

lemma resolve_segments: "normal_segments (split_on CHR ''/'' (path_resolve cwd p)) = path_segments cwd p"
proof -
  have "starts_with (path_resolve cwd p) ''/''" by (simp add: path_resolve_def)
  then have "path_segments cwd (path_resolve cwd p) = normal_segments (split_on CHR ''/'' (path_resolve cwd p))"
    by (simp only: path_segments_def if_True)
  then show ?thesis by simp
qed

text \<open>
  C37: A path of a suite never leaves its root. \<open>resolveInside\<close> refuses a path exactly when \<open>normalizeRelativePath\<close>
  does, and with the same message; otherwise it returns the path whose segments are those of the root followed by
  those of the relative path with every \<open>.\<close> and \<open>..\<close> worked out. So its own second check never fails below a
  root that is not \<open>/\<close>.
\<close>

theorem resolve_inside_exact:
  assumes "path_segments cwd base \<noteq> []"
  shows "case normalize_relative_path v label of
      Inl e \<Rightarrow> resolve_inside cwd base v label = Inl e
    | Inr safe \<Rightarrow> resolve_inside cwd base v label = Inr (path_resolve (path_resolve cwd base) safe) \<and>
        path_segments cwd (path_resolve (path_resolve cwd base) safe) = path_segments cwd base @ relative_path_segments v"
proof (cases "normalize_relative_path v label")
  case (Inl e)
  then show ?thesis by (simp add: resolve_inside_def)
next
  case (Inr safe)
  let ?root = "path_resolve cwd base" and ?S = "relative_path_segments v"
  have "path_segments ?root safe = foldl push_segment (normal_segments (split_on CHR ''/'' ?root)) (split_on CHR ''/'' safe)"
    using split_normalized(2) [OF Inr] by (simp add: path_segments_def normal_segments_def)
  also have "\<dots> = path_segments cwd base @ ?S" by (simp add: resolve_segments split_normalized(1) [OF Inr])
  finally have segs: "path_segments ?root safe = path_segments cwd base @ ?S" .
  have "inside_root ?root (path_resolve ?root safe)"
  proof (cases "?S = []")
    case True
    then show ?thesis using segs by (simp add: inside_root_def path_resolve_def)
  next
    case False
    then have "path_resolve ?root safe = ?root @ ''/'' @ join ''/'' ?S"
      using segs join_append [OF assms False, of "''/''"] by (simp add: path_resolve_def)
    then show ?thesis by (simp add: inside_root_def starts_with_prefix)
  qed
  moreover have "path_segments cwd (path_resolve ?root safe) = path_segments ?root safe"
    using resolve_segments [of ?root safe] by (simp add: path_segments_def path_resolve_def)
  ultimately show ?thesis using Inr segs by (simp add: resolve_inside_def Let_def)
qed

theorem resolve_inside_exact_witness:
  "resolve_inside ''/'' ''/suite'' (''a/./../b'' @ [BACKSLASH] @ ''c'') ''p'' = Inr ''/suite/b/c''"
proof -
  have "path_segments ''/'' ''/suite'' \<noteq> []" by code_simp
  moreover have "normalize_relative_path (''a/./../b'' @ [BACKSLASH] @ ''c'') ''p'' = Inr ''b/c''" by code_simp
  moreover have "path_resolve (path_resolve ''/'' ''/suite'') ''b/c'' = ''/suite/b/c''" by code_simp
  ultimately show ?thesis using resolve_inside_exact [of "''/''" "''/suite''" "(''a/./../b'' @ [BACKSLASH] @ ''c'')" "''p''"] by simp
qed

subsection \<open>What a pattern means\<close>

definition no_break :: "string \<Rightarrow> bool" where
  "no_break s \<longleftrightarrow> LF \<notin> set s \<and> CR \<notin> set s"

fun part_matches :: "glob \<Rightarrow> string \<Rightarrow> bool" where
  "part_matches (Literal c) s \<longleftrightarrow> s = [c]"
| "part_matches Any_Char s \<longleftrightarrow> (\<exists>d. s = [d] \<and> d \<noteq> CHR ''/'')"
| "part_matches Any_Name s \<longleftrightarrow> CHR ''/'' \<notin> set s"
| "part_matches Any_Text s \<longleftrightarrow> no_break s"
| "part_matches Any_Dirs s \<longleftrightarrow> s = [] \<or> (\<exists>dirs. s = dirs @ ''/'' \<and> no_break dirs)"

definition glob_matches :: "glob list \<Rightarrow> string \<Rightarrow> bool" where
  "glob_matches gs s \<longleftrightarrow> (\<exists>parts. list_all2 part_matches gs parts \<and> s = concat parts)"

lemma glob_matches_Nil [simp]: "glob_matches [] s \<longleftrightarrow> s = []"
  by (auto simp: glob_matches_def)

lemma glob_matches_Cons: "glob_matches (g # gs) s \<longleftrightarrow> (\<exists>a b. s = a @ b \<and> part_matches g a \<and> glob_matches gs b)"
  by (fastforce simp: glob_matches_def list_all2_Cons1)

lemma take_prefix_of_takeWhile: "n \<le> length (takeWhile P s) \<longleftrightarrow> n \<le> length s \<and> (\<forall>c \<in> set (take n s). P c)"
proof (induction s arbitrary: n)
  case (Cons c s)
  then show ?case by (cases n) auto
qed simp

lemma ex_split: "(\<exists>a b. s = a @ b \<and> Q a \<and> R b) \<longleftrightarrow> (\<exists>n \<le> length s. Q (take n s) \<and> R (drop n s))"
  by (metis append_eq_conv_conj append_take_drop_id length_append le_add1)

lemma ex_while:
  "(\<exists>a b. s = a @ b \<and> (\<forall>c \<in> set a. P c) \<and> R b) \<longleftrightarrow> list_ex (\<lambda>n. R (drop n s)) [0..<Suc (length (takeWhile P s))]"
  unfolding ex_split list_ex_iff set_upt Bex_def atLeastLessThan_iff less_Suc_eq_le take_prefix_of_takeWhile by auto

lemma no_break_take: "n \<le> length (one_line s) \<longleftrightarrow> n \<le> length s \<and> no_break (take n s)"
  unfolding one_line_def take_prefix_of_takeWhile no_break_def by metis

lemma dirs_split:
  "(\<exists>a b. s = a @ b \<and> part_matches Any_Dirs a \<and> R b) \<longleftrightarrow>
     R s \<or> list_ex (\<lambda>n. s ! n = CHR ''/'' \<and> R (drop (Suc n) s)) [0..<length (one_line s)]"
proof
  assume "\<exists>a b. s = a @ b \<and> part_matches Any_Dirs a \<and> R b"
  then obtain a b where s: "s = a @ b" "part_matches Any_Dirs a" "R b" by blast
  then consider "a = []" | dirs where "a = dirs @ ''/''" "no_break dirs" by auto
  then show "R s \<or> list_ex (\<lambda>n. s ! n = CHR ''/'' \<and> R (drop (Suc n) s)) [0..<length (one_line s)]"
  proof cases
    case 1
    then show ?thesis using s by simp
  next
    case (2 dirs)
    then have "no_break (take (Suc (length dirs)) s)" using s(1) by (simp add: no_break_def)
    then have "length dirs < length (one_line s)" using no_break_take [of "Suc (length dirs)" s] s(1) 2(1) by simp
    then show ?thesis using s 2 by (auto simp: list_ex_iff nth_append intro!: bexI [of _ "length dirs"])
  qed
next
  assume "R s \<or> list_ex (\<lambda>n. s ! n = CHR ''/'' \<and> R (drop (Suc n) s)) [0..<length (one_line s)]"
  then consider "R s" | n where "n < length (one_line s)" "s ! n = CHR ''/''" "R (drop (Suc n) s)"
    by (auto simp: list_ex_iff)
  then show "\<exists>a b. s = a @ b \<and> part_matches Any_Dirs a \<and> R b"
  proof cases
    case 1
    then show ?thesis by (intro exI [of _ "[]"] exI [of _ s]) simp
  next
    case (2 n)
    then have n: "n \<le> length s" "n < length s" "no_break (take n s)"
      using no_break_take [of n s] no_break_take [of "Suc n" s] by simp_all
    then have "s = (take n s @ ''/'') @ drop (Suc n) s" using 2(2) id_take_nth_drop [of n s] by simp
    then show ?thesis using 2(3) n(3) by (metis part_matches.simps(5))
  qed
qed

lemma glob_match_iff: "glob_match gs s \<longleftrightarrow> glob_matches gs s"
proof (induction gs s rule: glob_match.induct)
  case (2 c gs s)
  then show ?case by (cases s) (auto simp: glob_matches_Cons)
next
  case (3 gs s)
  then show ?case by (cases s) (auto simp: glob_matches_Cons intro: exI [of _ "[_]"])
next
  case (4 gs s)
  have "(\<lambda>a. CHR ''/'' \<notin> set a) = (\<lambda>a. \<forall>c \<in> set a. c \<noteq> CHR ''/'')" by auto
  then show ?case
    using 4 ex_while [of s "\<lambda>c. c \<noteq> CHR ''/''" "glob_matches gs"] by (simp add: glob_matches_Cons list_ex_iff fun_eq_iff)
next
  case (5 gs s)
  have "no_break a \<longleftrightarrow> (\<forall>c \<in> set a. c \<noteq> LF \<and> c \<noteq> CR)" for a by (auto simp: no_break_def)
  then show ?case
    using 5 ex_while [of s "\<lambda>c. c \<noteq> LF \<and> c \<noteq> CR" "glob_matches gs"]
    by (simp add: glob_matches_Cons list_ex_iff one_line_def)
next
  case (6 gs s)
  then show ?case using dirs_split [of s "glob_matches gs"] by (simp add: glob_matches_Cons list_ex_iff del: part_matches.simps)
qed simp

text \<open>
  A pattern matches exactly the paths that its parts describe: \<open>**/\<close> any directories or none, \<open>**\<close> any text
  on one line, \<open>*\<close> a text without a slash, \<open>?\<close> one character that is no slash, and every other character itself,
  special characters of regular expressions included. Both the path and the pattern are normalized first, and an
  error of either is the answer.
\<close>

theorem path_pattern_exact:
  "path_matches_pattern relative pattern =
     (case (normalize_relative_path relative ''path'', normalize_relative_path pattern ''path pattern'') of
        (Inl e, _) \<Rightarrow> Inl e
      | (Inr _, Inl e) \<Rightarrow> Inl e
      | (Inr target, Inr normalized) \<Rightarrow> Inr (glob_matches (glob_parts normalized) target))"
  by (simp add: path_matches_pattern_def glob_match_iff split: sum.split)

subsection \<open>Protected trees\<close>

lemma ends_slash_iff: "ends_with s ''/'' \<longleftrightarrow> s \<noteq> [] \<and> last s = CHR ''/''"
proof (cases s rule: rev_cases)
  case (snoc ys y)
  then show ?thesis by (simp add: ends_with_def)
qed (simp add: ends_with_def)

text \<open>A protected path without a slash at its end protects itself and all that lies below it.\<close>

lemma protected_below:
  assumes "normalize_relative_path item l1 = Inr p" "normalize_relative_path relative l2 = Inr r"
    and "relative_path_segments relative = relative_path_segments item @ rest"
    and "\<not> ends_with (portable item) ''/''"
  shows "r = p \<or> starts_with r (p @ ''/'')"
proof -
  let ?P = "relative_path_segments item"
  have P: "?P \<noteq> []" "p = join ''/'' ?P" using normalize_shape [OF assms(1)] assms(4) by (auto split: if_splits)
  then have r: "r = join ''/'' (?P @ rest) @ (if ends_with (portable relative) ''/'' then ''/'' else [])"
    using normalize_shape(1) [OF assms(2)] assms(3) by (simp split: if_splits)
  show ?thesis
  proof (cases "rest = []")
    case True
    then show ?thesis using r P(2) by (simp add: starts_with_prefix split: if_splits)
  next
    case False
    then show ?thesis using r P join_append [OF P(1) False, of "''/''"] by (simp add: starts_with_prefix)
  qed
qed

end
