(* ===== verification/BenchWorkspace.thy ===== *)
theory BenchWorkspace
  imports BenchPaths Runtime "HOL-Library.List_Lexorder" "HOL-Library.Char_ord"
begin

text \<open>
  Workspaces of the benchmark (\<open>workspace.ts\<close>): copying a fixture, taking a snapshot, comparing two snapshots, and
  the changes that touch protected paths or lie outside the allowed ones. A directory is the list of its entries;
  \<open>collate\<close> is \<open>localeCompare\<close> of names (not positive), \<open>sha\<close> the digest of a string; \<open>array.sort()\<close>
  compares code units, the order of \<open>List_Lexorder\<close>.
\<close>

subsection \<open>Trees\<close>

datatype fs_node = Fs_File string nat | Fs_Dir "(string \<times> fs_node) list" nat | Fs_Link | Fs_Other

record workspace_file =
  wf_path :: string
  wf_bytes :: nat
  wf_sha256 :: string
  wf_mode :: nat

record workspace_snapshot =
  ws_digest :: string
  ws_total_bytes :: nat
  ws_files :: "workspace_file list"

definition PRIVATE_DIRECTORY :: string where
  "PRIVATE_DIRECTORY = ''.emacs-operator-benchmark''"

definition should_ignore :: "string \<Rightarrow> bool" where
  "should_ignore relative \<longleftrightarrow> relative = PRIVATE_DIRECTORY \<or> starts_with relative (PRIVATE_DIRECTORY @ ''/'')"

definition sorted_entries :: "(string \<Rightarrow> string \<Rightarrow> bool) \<Rightarrow> (string \<times> fs_node) list \<Rightarrow> (string \<times> fs_node) list" where
  "sorted_entries collate = sort_by (\<lambda>a b. collate (fst a) (fst b))"

definition child_path :: "string \<Rightarrow> string \<Rightarrow> string" where
  "child_path dir name = (if dir = [] then name else dir @ ''/'' @ name)"

text \<open>A measure of a list of entries that sorting does not change.\<close>

definition entries_size :: "(string \<times> fs_node) list \<Rightarrow> nat" where
  "entries_size es = sum_mset (image_mset (\<lambda>(name, x). Suc (size x)) (mset es))"

lemma entries_size_simps [simp]:
  "entries_size [] = 0" "entries_size ((name, x) # es) = Suc (size x) + entries_size es"
  "entries_size (sorted_entries collate es) = entries_size es"
  by (simp_all add: entries_size_def sorted_entries_def)

lemma entries_size_dir [simp]: "entries_size es \<le> size (Fs_Dir es mode)"
  by (induction es) auto

subsection \<open>Copying and reading\<close>

text \<open>\<open>copyFixtureTree\<close>: the entries of the copy, in the order of their creation, and the bytes copied so far.\<close>

function copy_entries ::
  "(string \<Rightarrow> string \<Rightarrow> bool) \<Rightarrow> nat \<Rightarrow> string \<Rightarrow> (string \<times> fs_node) list \<Rightarrow> nat \<Rightarrow> string + (string \<times> fs_node) list \<times> nat" where
  "copy_entries collate max_bytes dir [] copied = Inr ([], copied)"
| "copy_entries collate max_bytes dir ((name, x) # es) copied =
     (case x of
        Fs_Link \<Rightarrow> Inl (''Fixture contains a symbolic link: '' @ child_path dir name)
      | Fs_Other \<Rightarrow> Inl (''Fixture contains a non-regular file: '' @ child_path dir name)
      | Fs_Dir kids mode \<Rightarrow>
          andthen (copy_entries collate max_bytes (child_path dir name) (sorted_entries collate kids) copied) (\<lambda>(kids', copied).
          andthen (copy_entries collate max_bytes dir es copied) (\<lambda>(es', copied).
            Inr ((name, Fs_Dir kids' (mode mod 512)) # es', copied)))
      | Fs_File content mode \<Rightarrow>
          if max_bytes < copied + length content
          then Inl (''Fixture exceeds max_workspace_bytes ('' @ dec_str max_bytes @ '').'')
          else andthen (copy_entries collate max_bytes dir es (copied + length content)) (\<lambda>(es', copied).
            Inr ((name, Fs_File content (mode mod 512)) # es', copied)))"
  by pat_completeness auto
termination
  by (relation "measure (\<lambda>(collate, max_bytes, dir, es, copied). entries_size es)")
    (auto simp: le_imp_less_Suc trans_le_add1 simp del: fs_node.size)

definition copy_fixture_tree :: "(string \<Rightarrow> string \<Rightarrow> bool) \<Rightarrow> nat \<Rightarrow> (string \<times> fs_node) list \<Rightarrow> string + (string \<times> fs_node) list \<times> nat" where
  "copy_fixture_tree collate max_bytes es = copy_entries collate max_bytes [] (sorted_entries collate es) 0"

text \<open>\<open>snapshotWorkspace\<close>.\<close>

function snapshot_entries ::
  "(string \<Rightarrow> string \<Rightarrow> bool) \<Rightarrow> (string \<Rightarrow> string) \<Rightarrow> nat \<Rightarrow> string \<Rightarrow> (string \<times> fs_node) list \<Rightarrow>
   workspace_file list \<times> nat \<Rightarrow> string + workspace_file list \<times> nat" where
  "snapshot_entries collate sha max_bytes dir [] acc = Inr acc"
| "snapshot_entries collate sha max_bytes dir ((name, x) # es) acc =
     (let relative = child_path dir name in
      if should_ignore relative then snapshot_entries collate sha max_bytes dir es acc
      else (case x of
        Fs_Link \<Rightarrow> Inl (''Workspace contains a symbolic link: '' @ relative)
      | Fs_Other \<Rightarrow> Inl (''Workspace contains a non-regular file: '' @ relative)
      | Fs_Dir kids mode \<Rightarrow>
          andthen (snapshot_entries collate sha max_bytes relative (sorted_entries collate kids) acc)
            (snapshot_entries collate sha max_bytes dir es)
      | Fs_File content mode \<Rightarrow>
          if max_bytes < snd acc + length content
          then Inl (''Workspace exceeds max_workspace_bytes ('' @ dec_str max_bytes @ '').'')
          else snapshot_entries collate sha max_bytes dir es
            (fst acc @ [\<lparr>wf_path = relative, wf_bytes = length content, wf_sha256 = sha content, wf_mode = mode mod 512\<rparr>],
             snd acc + length content)))"
  by pat_completeness auto
termination
  by (relation "measure (\<lambda>(collate, sha, max_bytes, dir, es, acc). entries_size es)")
    (auto simp: le_imp_less_Suc trans_le_add1 simp del: fs_node.size)

definition file_line :: "workspace_file \<Rightarrow> string" where
  "file_line f = wf_path f @ '':'' @ dec_str (wf_bytes f) @ '':'' @ dec_str (wf_mode f) @ '':'' @ wf_sha256 f"

definition snapshot_workspace ::
  "(string \<Rightarrow> string \<Rightarrow> bool) \<Rightarrow> (string \<Rightarrow> string) \<Rightarrow> nat \<Rightarrow> (string \<times> fs_node) list \<Rightarrow> string + workspace_snapshot" where
  "snapshot_workspace collate sha max_bytes es =
     andthen (snapshot_entries collate sha max_bytes [] (sorted_entries collate es) ([], 0)) (\<lambda>(files, copied).
       Inr \<lparr>ws_digest = sha (join [LF] (map file_line files)), ws_total_bytes = copied, ws_files = files\<rparr>)"

definition empty_snapshot :: "(string \<Rightarrow> string) \<Rightarrow> workspace_snapshot" where
  "empty_snapshot sha = \<lparr>ws_digest = sha [], ws_total_bytes = 0, ws_files = []\<rparr>"

subsection \<open>Differences\<close>

record workspace_diff =
  wd_added :: "string list"
  wd_modified :: "string list"
  wd_deleted :: "string list"
  wd_unchanged :: nat
  wd_changed_files :: nat
  wd_bytes_before :: nat
  wd_bytes_after :: nat

definition files_by_path :: "workspace_snapshot \<Rightarrow> (string, workspace_file) js_map" where
  "files_by_path s = fold (\<lambda>f. AList.update (wf_path f) f) (ws_files s) []"

definition same_file :: "workspace_file \<Rightarrow> workspace_file \<Rightarrow> bool" where
  "same_file a b \<longleftrightarrow> wf_sha256 a = wf_sha256 b \<and> wf_mode a = wf_mode b"

definition diff_workspace :: "workspace_snapshot \<Rightarrow> workspace_snapshot \<Rightarrow> workspace_diff" where
  "diff_workspace b a =
     (let left = files_by_path b; right = files_by_path a;
          added = map fst (filter (\<lambda>(p, f). map_of left p = None) right);
          modified = map fst (filter (\<lambda>(p, f). case map_of left p of None \<Rightarrow> False | Some old \<Rightarrow> \<not> same_file old f) right);
          kept = filter (\<lambda>(p, f). case map_of left p of None \<Rightarrow> False | Some old \<Rightarrow> same_file old f) right;
          deleted = map fst (filter (\<lambda>(p, f). map_of right p = None) left)
      in \<lparr>wd_added = sort added, wd_modified = sort modified, wd_deleted = sort deleted,
          wd_unchanged = length kept, wd_changed_files = length added + length modified + length deleted,
          wd_bytes_before = ws_total_bytes b, wd_bytes_after = ws_total_bytes a\<rparr>)"

text \<open>\<open>array.filter\<close> with a predicate that may throw.\<close>

fun filter_of :: "('a \<Rightarrow> 'e + bool) \<Rightarrow> 'a list \<Rightarrow> 'e + 'a list" where
  "filter_of p [] = Inr []"
| "filter_of p (x # xs) = andthen (p x) (\<lambda>b. andthen (filter_of p xs) (\<lambda>ys. Inr (if b then x # ys else ys)))"

definition changed_paths :: "workspace_diff \<Rightarrow> string list" where
  "changed_paths d = wd_added d @ wd_modified d @ wd_deleted d"

definition protected_path_violations :: "workspace_diff \<Rightarrow> string list \<Rightarrow> string + string list" where
  "protected_path_violations d protected =
     (if protected = [] then Inr []
      else andthen (filter_of (\<lambda>p. is_protected_path p protected) (changed_paths d)) (\<lambda>ps. Inr (sort ps)))"

definition unauthorized_path_violations :: "workspace_diff \<Rightarrow> string list \<Rightarrow> string + string list" where
  "unauthorized_path_violations d allowed =
     (if allowed = [] then Inr []
      else andthen (filter_of (\<lambda>p. andthen (path_matches_any p allowed) (\<lambda>b. Inr (\<not> b))) (changed_paths d))
        (\<lambda>ps. Inr (sort ps)))"

subsection \<open>Properties\<close>

text \<open>What a snapshot says of a file: nothing, or its digest and mode.\<close>

definition file_state :: "workspace_snapshot \<Rightarrow> string \<Rightarrow> (string \<times> nat) option" where
  "file_state s p = map_option (\<lambda>f. (wf_sha256 f, wf_mode f)) (map_of (files_by_path s) p)"

lemma files_by_path_ok: "js_map_ok (files_by_path s)"
proof -
  have "js_map_ok (fold (\<lambda>f. AList.update (wf_path f) f) fs m)" if "js_map_ok m" for fs m
    using that by (induction fs arbitrary: m) (simp_all add: js_map_ok_update)
  from this [OF js_map_ok_Nil] show ?thesis unfolding files_by_path_def .
qed

lemma in_files_by_path: "(p, f) \<in> set (files_by_path s) \<longleftrightarrow> map_of (files_by_path s) p = Some f"
  using files_by_path_ok [of s] by (simp add: js_map_ok_def)

lemma in_filtered: "p \<in> fst ` {x \<in> set (files_by_path s). Q x} \<longleftrightarrow> (\<exists>f. map_of (files_by_path s) p = Some f \<and> Q (p, f))"
  by (force simp: in_files_by_path)

lemma changed_paths_iff: "p \<in> set (changed_paths (diff_workspace b a)) \<longleftrightarrow> file_state b p \<noteq> file_state a p"
  by (cases "map_of (files_by_path b) p"; cases "map_of (files_by_path a) p")
    (simp_all add: changed_paths_def diff_workspace_def Let_def in_filtered file_state_def same_file_def)

lemma filter_of_Inr:
  "filter_of p xs = Inr ys \<Longrightarrow> ys = filter (\<lambda>x. p x = Inr True) xs \<and> list_all (\<lambda>x. \<exists>b. p x = Inr b) xs"
  by (induction xs arbitrary: ys) (auto simp: andthen_eq_Inr split: if_splits)

lemma some_of_witness: "some_of p xs = Inr b \<Longrightarrow> x \<in> set xs \<Longrightarrow> p x = Inr True \<Longrightarrow> b"
  by (induction xs) (auto simp: andthen_eq_Inr split: if_splits)

lemma protected_violations_iff:
  assumes "protected_path_violations (diff_workspace b a) protected = Inr vs" "protected \<noteq> []"
  shows "p \<in> set vs \<longleftrightarrow> file_state b p \<noteq> file_state a p \<and> is_protected_path p protected = Inr True"
    and "file_state b p \<noteq> file_state a p \<Longrightarrow> \<exists>x. is_protected_path p protected = Inr x"
proof -
  obtain ps where ps: "filter_of (\<lambda>p. is_protected_path p protected) (changed_paths (diff_workspace b a)) = Inr ps"
    "vs = sort ps"
    using assms by (auto simp: protected_path_violations_def andthen_eq_Inr)
  from filter_of_Inr [OF ps(1)] show "p \<in> set vs \<longleftrightarrow> file_state b p \<noteq> file_state a p \<and> is_protected_path p protected = Inr True"
    using ps(2) changed_paths_iff [of p b a] by auto
  from filter_of_Inr [OF ps(1)] show "\<exists>x. is_protected_path p protected = Inr x" if "file_state b p \<noteq> file_state a p"
    using that changed_paths_iff [of p b a] by (auto simp: list_all_iff)
qed

lemma protected_change_listed:
  assumes "protected_path_violations (diff_workspace b a) protected = Inr vs"
    and "item \<in> set protected" "\<not> ends_with (portable item) ''/''"
    and "normalize_relative_path item ''protected path'' = Inr q" "normalize_relative_path f ''path'' = Inr r"
    and "relative_path_segments f = relative_path_segments item @ rest"
    and "file_state b f \<noteq> file_state a f"
  shows "f \<in> set vs"
proof -
  have nonempty: "protected \<noteq> []" using assms(2) by auto
  note iff = protected_violations_iff [OF assms(1) nonempty]
  have below: "r = q \<or> starts_with r (q @ ''/'')" by (rule protected_below [OF assms(4,5,6,3)])
  obtain x where "is_protected_path f protected = Inr x" using iff(2) [OF assms(7)] by blast
  then have "is_protected_path f protected = Inr True"
    using some_of_witness [OF _ assms(2)] assms(4,5) below by (fastforce simp: is_protected_path_def)
  then show ?thesis using iff(1) assms(7) by simp
qed

lemma unauthorized_violations_iff:
  assumes "unauthorized_path_violations (diff_workspace b a) allowed = Inr us" "allowed \<noteq> []" "file_state b f \<noteq> file_state a f"
  shows "f \<in> set us \<longleftrightarrow> path_matches_any f allowed = Inr False" "\<exists>x. path_matches_any f allowed = Inr x"
proof -
  let ?p = "\<lambda>p. andthen (path_matches_any p allowed) (\<lambda>b. Inr (\<not> b))"
  obtain ps where ps: "filter_of ?p (changed_paths (diff_workspace b a)) = Inr ps" "us = sort ps"
    using assms(1,2) by (auto simp: unauthorized_path_violations_def andthen_eq_Inr)
  have "f \<in> set (changed_paths (diff_workspace b a))" using assms(3) by (simp add: changed_paths_iff)
  then show "\<exists>x. path_matches_any f allowed = Inr x" "f \<in> set us \<longleftrightarrow> path_matches_any f allowed = Inr False"
    using filter_of_Inr [OF ps(1)] ps(2) by (auto simp: list_all_iff andthen_eq_Inr)
qed


definition example_snapshot :: "string \<Rightarrow> workspace_snapshot" where
  "example_snapshot content = \<lparr>ws_digest = [], ws_total_bytes = 1,
     ws_files = [\<lparr>wf_path = ''lib/a.el'', wf_bytes = 1, wf_sha256 = content, wf_mode = 420\<rparr>]\<rparr>"


text \<open>With a slash at its end a protected path protects nothing: the normal form keeps the slash.\<close>

theorem slash_protects_nothing:
  "is_protected_path ''lib/a.el'' [''lib/''] = Inr False \<and> is_protected_path ''lib/a.el'' [''lib''] = Inr True"
  by code_simp

text \<open>A snapshot counts every file it lists, stays within the limit, and lists nothing of the private directory.\<close>

definition files_ok :: "nat \<Rightarrow> workspace_file list \<times> nat \<Rightarrow> bool" where
  "files_ok max_bytes acc \<longleftrightarrow> sum_list (map wf_bytes (fst acc)) = snd acc \<and> snd acc \<le> max_bytes \<and>
     list_all (\<lambda>f. \<not> should_ignore (wf_path f)) (fst acc)"

lemma snapshot_entries_ok:
  "files_ok max_bytes acc \<Longrightarrow> snapshot_entries collate sha max_bytes dir es acc = Inr acc' \<Longrightarrow> files_ok max_bytes acc'"
proof (induction collate sha max_bytes dir es acc arbitrary: acc' rule: snapshot_entries.induct)
  case (2 collate sha max_bytes dir name x es acc)
  show ?case
  proof (cases "should_ignore (child_path dir name)")
    case True
    then show ?thesis using "2.IH"(1) [OF refl] "2.prems" by simp
  next
    case False
    show ?thesis
    proof (cases x)
      case (Fs_File content mode)
      then show ?thesis using "2.IH"(2) [OF refl False, of content mode] "2.prems" False
        by (simp add: Let_def files_ok_def split: if_splits)
    next
      case (Fs_Dir kids mode)
      then obtain mid where mid:
        "snapshot_entries collate sha max_bytes (child_path dir name) (sorted_entries collate kids) acc = Inr mid"
        "snapshot_entries collate sha max_bytes dir es mid = Inr acc'"
        using "2.prems"(2) False by (auto simp: Let_def andthen_eq_Inr)
      have "files_ok max_bytes mid" by (rule "2.IH"(3) [OF refl False Fs_Dir "2.prems"(1) mid(1)])
      then show ?thesis by (rule "2.IH"(4) [OF refl False Fs_Dir _ mid(2)])
    qed (use "2.prems" False in \<open>simp_all add: Let_def\<close>)
  qed
qed simp

theorem snapshot_counts_bytes:
  assumes "snapshot_workspace collate sha max_bytes es = Inr s"
  shows "ws_total_bytes s = sum_list (map wf_bytes (ws_files s)) \<and> ws_total_bytes s \<le> max_bytes \<and>
    list_all (\<lambda>f. \<not> should_ignore (wf_path f)) (ws_files s)"
proof -
  obtain acc where "snapshot_entries collate sha max_bytes [] (sorted_entries collate es) ([], 0) = Inr acc"
    and "ws_files s = fst acc" "ws_total_bytes s = snd acc"
    using assms by (auto simp: snapshot_workspace_def andthen_eq_Inr)
  with snapshot_entries_ok [of max_bytes "([], 0)"] show ?thesis by (auto simp: files_ok_def)
qed

end
