(* ===== verification/BenchScoring.thy ===== *)
theory BenchScoring
  imports BenchTypes BenchLisp BenchOrg BenchWorkspace
begin

text \<open>
  Scoring of a trial (\<open>scoring.ts\<close>): each check is evaluated on the files of the workspace, and the score is the
  share of the passed weight. The file system, the spawned process, the digest, the regular expressions of
  \<open>regex_count\<close> and the clock are fields of the context.
\<close>

subsection \<open>Texts\<close>

function count_from :: "string \<Rightarrow> string \<Rightarrow> nat" where
  "count_from needle s =
     (if needle = [] then 0
      else case index_of needle s of None \<Rightarrow> 0 | Some found \<Rightarrow> Suc (count_from needle (drop (found + length needle) s)))"
  by pat_completeness auto
termination
  by (relation "measure (\<lambda>(needle, s). length s)") (auto dest!: index_of_SomeD simp: length_greater_0_conv [symmetric] simp del: length_greater_0_conv)

declare count_from.simps [simp del]

definition count_literal :: "string \<Rightarrow> string \<Rightarrow> nat" where
  "count_literal s needle = count_from needle s"

text \<open>\<open>text.replace(/\r\n?/gu, "\n").replace(/\n*$/u, "\n")\<close>.\<close>

definition normalize_final_newline :: "string \<Rightarrow> string" where
  "normalize_final_newline s = rev (dropWhile (\<lambda>c. c = LF) (rev (cr_to_lf s))) @ [LF]"

subsection \<open>The context\<close>

record execution =
  ex_status :: "nat option"
  ex_signal :: "string option"
  ex_stdout :: string
  ex_stderr :: string
  ex_error :: "string option"

record score_context =
  sx_cwd :: string
  sx_workspace :: string
  sx_suite_dir :: string
  sx_before :: workspace_snapshot
  sx_after :: workspace_snapshot
  sx_protected_violations :: "string list"
  sx_unauthorized_violations :: "string list"
  sx_agent_status :: string
  sx_allow_command_checks :: bool
  sx_lstat :: "string \<Rightarrow> file_stat option"
  sx_read :: "string \<Rightarrow> string option"
  sx_utf8 :: "string \<Rightarrow> string"
  sx_sha :: "string \<Rightarrow> string"
  sx_regex_count :: "string \<Rightarrow> string \<Rightarrow> string \<Rightarrow> string + nat"
  sx_collate :: "string \<Rightarrow> string \<Rightarrow> bool"
  sx_entries :: "(string \<times> fs_node) list"
  sx_temp :: string
  sx_spawn :: "(string \<times> fs_node) list \<Rightarrow> string list \<Rightarrow> string \<Rightarrow> nat \<Rightarrow> execution"
  sx_elapsed :: "string \<Rightarrow> nat"

definition check_result_of :: "score_context \<Rightarrow> benchmark_check \<Rightarrow> check_status \<Rightarrow> (string \<times> jval) list \<Rightarrow> check_result" where
  "check_result_of sx check status details =
     \<lparr>cr_id = ck_id check, cr_type = check_type (ck_kind check), cr_status = status,
      cr_required = (ck_required check \<noteq> Some False),
      cr_weight = (case ck_weight check of None \<Rightarrow> 1 | Some w \<Rightarrow> w),
      cr_description = ck_description check, cr_details = JObj details, cr_duration_ms = sx_elapsed sx (ck_id check)\<rparr>"

definition passed_if :: "bool \<Rightarrow> check_status" where
  "passed_if b = (if b then Check_Pass else Check_Fail)"

definition regular_file :: "score_context \<Rightarrow> string \<Rightarrow> bool" where
  "regular_file sx full \<longleftrightarrow> (case sx_lstat sx full of None \<Rightarrow> False | Some st \<Rightarrow> fs_kind st = Regular_File)"

definition not_readable :: "string \<Rightarrow> string" where
  "not_readable full = ''ENOENT: no such file or directory, open '' @ full"

record text_file =
  tf_text :: string
  tf_bytes :: nat
  tf_sha256 :: string

definition read_text :: "score_context \<Rightarrow> string \<Rightarrow> string + text_file" where
  "read_text sx relative =
     andthen (resolve_inside (sx_cwd sx) (sx_workspace sx) relative ''check path'') (\<lambda>full.
       if \<not> regular_file sx full then Inl (''Expected regular file is missing: '' @ relative)
       else (case sx_read sx full of
         None \<Rightarrow> Inl (not_readable full)
       | Some bytes \<Rightarrow>
           Inr \<lparr>tf_text = sx_utf8 sx bytes, tf_bytes = length bytes, tf_sha256 = sx_sha sx bytes\<rparr>))"

subsection \<open>Command checks\<close>

text \<open>\<open>part.replace(/\$\{(workspace|suite|task)\}/gu, ...)\<close>: a replacement is not scanned again.\<close>

function expand_part :: "(string \<times> string) list \<Rightarrow> string \<Rightarrow> string" where
  "expand_part replacements [] = []"
| "expand_part replacements (c # s) =
     (case find (\<lambda>(key, v). starts_with (c # s) (''${'' @ key @ ''}'')) replacements of
        Some (key, v) \<Rightarrow> v @ expand_part replacements (drop (length key + 2) s)
      | None \<Rightarrow> c # expand_part replacements s)"
  by pat_completeness auto
termination
  by (relation "measure (\<lambda>(replacements, s). length s)") auto

definition expand_command :: "string list \<Rightarrow> string \<Rightarrow> string \<Rightarrow> string \<Rightarrow> string list" where
  "expand_command command workspace suite task =
     map (expand_part [(''workspace'', workspace), (''suite'', suite), (''task'', task)]) command"

text \<open>\<open>copyVerificationWorkspace\<close>: like a snapshot it passes over the private directory.\<close>

function verifier_copy ::
  "(string \<Rightarrow> string \<Rightarrow> bool) \<Rightarrow> nat \<Rightarrow> string \<Rightarrow> (string \<times> fs_node) list \<Rightarrow> nat \<Rightarrow> string + (string \<times> fs_node) list \<times> nat" where
  "verifier_copy collate byte_limit dir [] copied = Inr ([], copied)"
| "verifier_copy collate byte_limit dir ((name, x) # es) copied =
     (let relative = child_path dir name in
      if should_ignore relative then verifier_copy collate byte_limit dir es copied
      else (case x of
        Fs_Link \<Rightarrow> Inl (''Verification workspace contains a symbolic link: '' @ relative)
      | Fs_Other \<Rightarrow> Inl (''Verification workspace contains a non-regular file: '' @ relative)
      | Fs_Dir kids mode \<Rightarrow>
          andthen (verifier_copy collate byte_limit relative (sorted_entries collate kids) copied) (\<lambda>(kids', copied).
          andthen (verifier_copy collate byte_limit dir es copied) (\<lambda>(es', copied).
            Inr ((name, Fs_Dir kids' (mode mod 512)) # es', copied)))
      | Fs_File content mode \<Rightarrow>
          if byte_limit < copied + length content
          then Inl ''Workspace changed while preparing the isolated verifier copy.''
          else andthen (verifier_copy collate byte_limit dir es (copied + length content)) (\<lambda>(es', copied).
            Inr ((name, Fs_File content (mode mod 512)) # es', copied))))"
  by pat_completeness auto
termination
  by (relation "measure (\<lambda>(collate, byte_limit, dir, es, copied). entries_size es)")
    (auto simp: le_imp_less_Suc trans_le_add1 simp del: fs_node.size)

definition copy_verification_workspace :: "score_context \<Rightarrow> string + (string \<times> fs_node) list" where
  "copy_verification_workspace sx =
     (let byte_limit = max (1024 * 1024) (ws_total_bytes (sx_after sx) + 1024 * 1024) in
      andthen (verifier_copy (sx_collate sx) byte_limit [] (sorted_entries (sx_collate sx) (sx_entries sx)) 0)
        (\<lambda>(es, copied). Inr es))"

definition tail_of :: "nat \<Rightarrow> string \<Rightarrow> string" where
  "tail_of n s = drop (length s - n) s"

definition command_check ::
  "score_context \<Rightarrow> string \<Rightarrow> benchmark_check \<Rightarrow> string list \<Rightarrow> string option \<Rightarrow> nat option \<Rightarrow> nat option \<Rightarrow>
   string option \<Rightarrow> string option \<Rightarrow> string + check_result" where
  "command_check sx task_id check command cwd timeout expected stdout_contains stderr_contains =
     (if \<not> sx_allow_command_checks sx
      then Inr (check_result_of sx check Check_Skipped [(''reason'', JStr ''command checks are disabled'')])
      else
        (let workspace = path_join (sx_temp sx) ''workspace'' in
         andthen (copy_verification_workspace sx) (\<lambda>es.
         let expanded = expand_command command workspace (sx_suite_dir sx) task_id in
         andthen (case cwd of None \<Rightarrow> Inr workspace | Some d \<Rightarrow> if d = [] then Inr workspace
             else resolve_inside (sx_cwd sx) workspace d (''check '' @ ck_id check @ '' cwd'')) (\<lambda>dir.
         let run = sx_spawn sx es expanded dir (case timeout of None \<Rightarrow> 30 * 1000 | Some t \<Rightarrow> t);
             exit_code = (case ex_status run of Some c \<Rightarrow> c | None \<Rightarrow> if ex_signal run \<notin> {None, Some []} then 128 else 125);
             expected_code = (case expected of None \<Rightarrow> 0 | Some c \<Rightarrow> c);
             holds = (exit_code = expected_code \<and>
               (case stdout_contains of None \<Rightarrow> True | Some s \<Rightarrow> contains (ex_stdout run) s) \<and>
               (case stderr_contains of None \<Rightarrow> True | Some s \<Rightarrow> contains (ex_stderr run) s))
         in Inr (check_result_of sx check (passed_if holds)
              ([(''executable'', JStr (path_basename (hd expanded))), (''exit_code'', jnat exit_code),
                (''expected_exit_code'', jnat expected_code), (''signal'', jopt_str (ex_signal run)),
                (''verifier_workspace'', JStr ''isolated_copy''), (''stdout_tail'', JStr (tail_of 2000 (ex_stdout run))),
                (''stderr_tail'', JStr (tail_of 2000 (ex_stderr run)))] @
               (case ex_error run of None \<Rightarrow> [] | Some e \<Rightarrow> [(''error'', JStr e)])))))))"

subsection \<open>Org checks\<close>

definition unless_holds :: "bool \<Rightarrow> string \<Rightarrow> string list" where
  "unless_holds b message = (if b then [] else [message])"

definition at_least :: "string \<Rightarrow> nat \<Rightarrow> nat option \<Rightarrow> string list" where
  "at_least name n bound =
     (case bound of None \<Rightarrow> [] | Some m \<Rightarrow> unless_holds (m \<le> n) (name @ '' '' @ dec_str n @ '' < '' @ dec_str m))"

definition exactly :: "string \<Rightarrow> nat \<Rightarrow> nat option \<Rightarrow> string list" where
  "exactly name n bound =
     (case bound of None \<Rightarrow> [] | Some m \<Rightarrow> unless_holds (n = m) (name @ '' '' @ dec_str n @ '' != '' @ dec_str m))"

definition evaluate_org_expectation :: "parsed_org \<Rightarrow> org_expectation \<Rightarrow> string list" where
  "evaluate_org_expectation st e =
     (let titles = map oh_title (po_headings st); headings = length (po_headings st) in
      at_least ''headings'' headings (oe_min_headings e) @ exactly ''headings'' headings (oe_exact_headings e) @
      at_least ''tables'' (po_tables st) (oe_min_tables e) @ exactly ''tables'' (po_tables st) (oe_exact_tables e) @
      at_least ''src_blocks'' (po_src_blocks st) (oe_min_src_blocks e) @
      exactly ''src_blocks'' (po_src_blocks st) (oe_exact_src_blocks e) @
      concat (map (\<lambda>title. unless_holds (title \<in> set titles) (''missing title: '' @ title))
        (case oe_required_titles e of None \<Rightarrow> [] | Some xs \<Rightarrow> xs)) @
      concat (map (\<lambda>language. unless_holds (to_lower language \<in> set (po_source_languages st)) (''missing language: '' @ language))
        (case oe_required_languages e of None \<Rightarrow> [] | Some xs \<Rightarrow> xs)) @
      concat (map (\<lambda>(key, expected).
          unless_holds (expected \<in> set (case map_of (po_properties st) (to_upper key) of None \<Rightarrow> [] | Some vs \<Rightarrow> vs))
            (''missing property '' @ key @ ''='' @ expected))
        (case oe_required_properties e of None \<Rightarrow> [] | Some xs \<Rightarrow> xs)) @
      map (\<lambda>d. od_code d @ '' at line '' @ dec_str (od_line d)) (po_diagnostics st))"

subsection \<open>Checks\<close>

definition lisp_diagnostic_json :: "lisp_diagnostic \<Rightarrow> jval" where
  "lisp_diagnostic_json d = JObj [(''code'', JStr (ld_code d)), (''message'', JStr (ld_message d)), (''line'', jnat (ld_line d)),
     (''column'', jnat (ld_column d)), (''position'', jnat (ld_position d))]"

definition opt_sha :: "workspace_file option \<Rightarrow> jval" where
  "opt_sha f = (case f of None \<Rightarrow> JNull | Some f \<Rightarrow> JStr (wf_sha256 f))"

definition unchanged_check :: "score_context \<Rightarrow> benchmark_check \<Rightarrow> string \<Rightarrow> check_result" where
  "unchanged_check sx check p =
     (let old = find (\<lambda>f. wf_path f = p) (ws_files (sx_before sx)); new = find (\<lambda>f. wf_path f = p) (ws_files (sx_after sx));
          holds = (case (old, new) of (Some a, Some b) \<Rightarrow> wf_sha256 a = wf_sha256 b \<and> wf_mode a = wf_mode b | _ \<Rightarrow> False)
      in check_result_of sx check (passed_if holds)
           [(''path'', JStr p), (''before_sha256'', opt_sha old), (''after_sha256'', opt_sha new)])"

definition regex_check ::
  "score_context \<Rightarrow> benchmark_check \<Rightarrow> string \<Rightarrow> string \<Rightarrow> string option \<Rightarrow> nat option \<Rightarrow> nat option \<Rightarrow> text_file \<Rightarrow> string + check_result" where
  "regex_check sx check p pattern flags least most actual =
     (let flags = (case flags of None \<Rightarrow> ''gu'' | Some f \<Rightarrow> f);
          flags = (if CHR ''g'' \<in> set flags then flags else flags @ ''g'')
      in andthen (sx_regex_count sx pattern flags (tf_text actual)) (\<lambda>count.
         let minimum = (case least of None \<Rightarrow> 0 | Some m \<Rightarrow> m) in
         Inr (check_result_of sx check (passed_if (minimum \<le> count \<and> (case most of None \<Rightarrow> True | Some m \<Rightarrow> count \<le> m)))
           [(''path'', JStr p), (''count'', jnat count), (''minimum'', jnat minimum),
            (''maximum'', case most of None \<Rightarrow> JNull | Some m \<Rightarrow> jnat m)])))"

definition expected_text_of :: "score_context \<Rightarrow> string \<Rightarrow> string option \<Rightarrow> string option \<Rightarrow> string + string" where
  "expected_text_of sx check_id expected_text expected_file =
     (case expected_text of
        Some s \<Rightarrow> Inr s
      | None \<Rightarrow>
          (case expected_file of
             None \<Rightarrow> Inl (''check '' @ check_id @ '' expected_file must be a non-empty string.'')
           | Some f \<Rightarrow>
               andthen (resolve_inside (sx_cwd sx) (sx_suite_dir sx) f (''check '' @ check_id @ '' expected_file'')) (\<lambda>full.
                 case sx_read sx full of None \<Rightarrow> Inl (not_readable full) | Some bytes \<Rightarrow> Inr (sx_utf8 sx bytes))))"

definition exact_check ::
  "score_context \<Rightarrow> benchmark_check \<Rightarrow> string \<Rightarrow> string option \<Rightarrow> string option \<Rightarrow> bool option \<Rightarrow> text_file \<Rightarrow> string + check_result" where
  "exact_check sx check p expected_text expected_file normalized actual =
     andthen (expected_text_of sx (ck_id check) expected_text expected_file) (\<lambda>expected.
       let norm = (if normalized \<noteq> Some False then normalize_final_newline else (\<lambda>s. s)) in
       Inr (check_result_of sx check (passed_if (norm (tf_text actual) = norm expected))
         [(''path'', JStr p), (''actual_sha256'', JStr (tf_sha256 actual)), (''expected_sha256'', JStr (sx_sha sx expected)),
          (''actual_bytes'', jnat (tf_bytes actual)), (''expected_bytes'', jnat (utf8_length expected))]))"

definition evaluate_kind :: "score_context \<Rightarrow> string \<Rightarrow> benchmark_check \<Rightarrow> string + check_result" where
  "evaluate_kind sx task_id check =
     (case ck_kind check of
        Command command cwd timeout expected out err \<Rightarrow> command_check sx task_id check command cwd timeout expected out err
      | File_Exists p \<Rightarrow>
          andthen (resolve_inside (sx_cwd sx) (sx_workspace sx) p (''check '' @ ck_id check @ '' path'')) (\<lambda>full.
            Inr (check_result_of sx check (passed_if (regular_file sx full)) [(''path'', JStr p)]))
      | File_Unchanged p \<Rightarrow> Inr (unchanged_check sx check p)
      | Text_Contains p needle least \<Rightarrow>
          andthen (read_text sx p) (\<lambda>actual.
            let count = count_literal (tf_text actual) needle; minimum = (case least of None \<Rightarrow> 1 | Some m \<Rightarrow> m) in
            Inr (check_result_of sx check (passed_if (minimum \<le> count))
              [(''path'', JStr p), (''count'', jnat count), (''minimum'', jnat minimum)]))
      | Text_Not_Contains p needle \<Rightarrow>
          andthen (read_text sx p) (\<lambda>actual.
            let count = count_literal (tf_text actual) needle in
            Inr (check_result_of sx check (passed_if (count = 0)) [(''path'', JStr p), (''count'', jnat count)]))
      | Regex_Count p pattern flags least most \<Rightarrow>
          andthen (read_text sx p) (regex_check sx check p pattern flags least most)
      | Exact_Text p expected_text expected_file normalized \<Rightarrow>
          andthen (read_text sx p) (exact_check sx check p expected_text expected_file normalized)
      | Lisp_Balance p \<Rightarrow>
          andthen (read_text sx p) (\<lambda>actual.
            let balance = bench_check_lisp_balance (tf_text actual) in
            Inr (check_result_of sx check (passed_if (lb_balanced balance))
              [(''path'', JStr p), (''diagnostics'', JArr (map lisp_diagnostic_json (take 50 (lb_diagnostics balance))))]))
      | Org_Structure p e \<Rightarrow>
          andthen (read_text sx p) (\<lambda>actual.
            let st = parse_org_structure (tf_text actual); failures = evaluate_org_expectation st e in
            Inr (check_result_of sx check (passed_if (failures = []))
              [(''path'', JStr p), (''failures'', JArr (map JStr failures)),
               (''counts'', JObj [(''headings'', jnat (length (po_headings st))), (''tables'', jnat (po_tables st)),
                  (''src_blocks'', jnat (po_src_blocks st))]),
               (''titles'', JArr (take 100 (map (\<lambda>h. JStr (oh_title h)) (po_headings st)))),
               (''languages'', JArr (map JStr (po_source_languages st)))])))"

text \<open>Everything that is thrown in a check becomes an error of that check.\<close>

definition evaluate_benchmark_check :: "score_context \<Rightarrow> string \<Rightarrow> benchmark_check \<Rightarrow> check_result" where
  "evaluate_benchmark_check sx task_id check =
     (case evaluate_kind sx task_id check of
        Inl message \<Rightarrow> check_result_of sx check Check_Error [(''error'', JStr message)]
      | Inr r \<Rightarrow> r)"

subsection \<open>The score\<close>

definition sum_weights :: "check_result list \<Rightarrow> rat" where
  "sum_weights rs = foldl (\<lambda>acc r. acc + cr_weight r) 0 rs"

definition score_checks :: "score_context \<Rightarrow> rat \<Rightarrow> check_result list \<Rightarrow> benchmark_score" where
  "score_checks sx threshold checks =
     (let scored = filter (\<lambda>r. cr_status r \<noteq> Check_Skipped) checks;
          total_weight = sum_weights scored;
          passed_weight = sum_weights (filter (\<lambda>r. cr_status r = Check_Pass) scored);
          score = (if 0 < total_weight then passed_weight / total_weight else 0);
          required_passed = list_all (\<lambda>r. cr_status r = Check_Pass) (filter cr_required checks);
          completed = (sx_agent_status sx = ''completed'');
          protected_clean = (sx_protected_violations sx = []);
          allowed_clean = (sx_unauthorized_violations sx = [])
      in \<lparr>bs_score = score, bs_threshold = threshold, bs_passed_weight = passed_weight, bs_total_weight = total_weight,
          bs_required_checks_passed = required_passed, bs_agent_completed = completed,
          bs_protected_paths_clean = protected_clean, bs_allowed_paths_clean = allowed_clean,
          bs_passed = (completed \<and> protected_clean \<and> allowed_clean \<and> required_passed \<and> threshold \<le> score),
          bs_checks = checks\<rparr>)"

definition score_task :: "benchmark_task \<Rightarrow> score_context \<Rightarrow> rat \<Rightarrow> benchmark_score" where
  "score_task task sx threshold =
     score_checks sx threshold (map (evaluate_benchmark_check sx (bt_id task)) (bt_checks task))"

lemma sum_weights_Cons: "sum_weights (r # rs) = cr_weight r + sum_weights rs"
proof -
  have "foldl (\<lambda>acc r. acc + cr_weight r) a rs = a + foldl (\<lambda>acc r. acc + cr_weight r) 0 rs" for a :: rat
  proof (induction rs arbitrary: a)
    case (Cons r rs)
    from Cons.IH [of "a + cr_weight r"] Cons.IH [of "cr_weight r"] show ?case by simp
  qed simp
  from this [of "cr_weight r"] show ?thesis by (simp add: sum_weights_def)
qed

lemma sum_weights_Nil [simp]: "sum_weights [] = 0"
  by (simp add: sum_weights_def)

lemma sum_weights_nonneg: "list_all (\<lambda>r. 0 < cr_weight r) rs \<Longrightarrow> 0 \<le> sum_weights rs"
  by (induction rs) (simp_all add: sum_weights_Cons)

lemma sum_weights_pos: "list_all (\<lambda>r. 0 < cr_weight r) rs \<Longrightarrow> 0 < sum_weights rs \<longleftrightarrow> rs \<noteq> []"
  using sum_weights_nonneg by (cases rs) (auto simp: sum_weights_Cons intro: add_pos_nonneg)

lemma sum_weights_filter:
  "list_all (\<lambda>r. 0 < cr_weight r) rs \<Longrightarrow>
     0 \<le> sum_weights (filter P rs) \<and> sum_weights (filter P rs) \<le> sum_weights rs \<and>
     (sum_weights (filter P rs) = sum_weights rs \<longleftrightarrow> list_all P rs)"
  by (induction rs) (auto simp: sum_weights_Cons)

lemma check_result_sel:
  "cr_id (check_result_of sx c st ds) = ck_id c" "cr_type (check_result_of sx c st ds) = check_type (ck_kind c)"
  "cr_required (check_result_of sx c st ds) = (ck_required c \<noteq> Some False)"
  "cr_weight (check_result_of sx c st ds) = (case ck_weight c of None \<Rightarrow> 1 | Some w \<Rightarrow> w)"
  "cr_status (check_result_of sx c st ds) = st"
  by (simp_all add: check_result_of_def)

lemma ratio_one: "(if 0 < t then p / t else 0) = 1 \<longleftrightarrow> 0 < t \<and> p = (t :: rat)"
  by auto

text \<open>Every branch of the evaluation builds its answer for the check it was given.\<close>

definition answers_check :: "score_context \<Rightarrow> benchmark_check \<Rightarrow> check_result \<Rightarrow> bool" where
  "answers_check sx c r \<longleftrightarrow>
     (\<exists>st ds. r = check_result_of sx c st ds \<and>
        (st = Check_Skipped \<longrightarrow> check_type (ck_kind c) = ''command'' \<and> \<not> sx_allow_command_checks sx))"

lemma answers_check_made:
  "st \<noteq> Check_Skipped \<Longrightarrow> answers_check sx c (check_result_of sx c st ds)"
  "answers_check sx c (check_result_of sx c (passed_if b) ds)"
  by (auto simp: answers_check_def passed_if_def)

lemma command_check_answers:
  assumes "command_check sx task_id c command cwd timeout expected out err = Inr r" "check_type (ck_kind c) = ''command''"
  shows "answers_check sx c r"
proof (cases "sx_allow_command_checks sx")
  case True
  then show ?thesis using assms(1)
    by (clarsimp simp: command_check_def andthen_eq_Inr Let_def answers_check_made split del: if_split)
next
  case False
  then show ?thesis using assms by (auto simp: command_check_def answers_check_def)
qed

lemma text_check_answers:
  "regex_check sx c p pattern flags least most actual = Inr r \<Longrightarrow> answers_check sx c r"
  "exact_check sx c p expected_text expected_file normalized actual = Inr r \<Longrightarrow> answers_check sx c r"
  "answers_check sx c (unchanged_check sx c p)"
  by (clarsimp simp: regex_check_def exact_check_def unchanged_check_def andthen_eq_Inr Let_def answers_check_made split del: if_split)+

lemma evaluate_kind_answers: "evaluate_kind sx task_id c = Inr r \<Longrightarrow> answers_check sx c r"
  by (cases "ck_kind c")
    (auto simp: evaluate_kind_def andthen_eq_Inr Let_def answers_check_made command_check_answers text_check_answers
        split del: if_split)

lemma evaluate_result: "answers_check sx c (evaluate_benchmark_check sx task_id c)"
  using evaluate_kind_answers [of sx task_id c]
  by (cases "evaluate_kind sx task_id c") (simp_all add: evaluate_benchmark_check_def answers_check_made)

lemma positive_weights:
  assumes "list_all (\<lambda>c. pred_option (\<lambda>w. 0 < w) (ck_weight c)) cs"
  shows "list_all (\<lambda>r. 0 < cr_weight r) (map (evaluate_benchmark_check sx task_id) cs)"
proof -
  have "0 < cr_weight (evaluate_benchmark_check sx task_id c)" if "c \<in> set cs" for c
  proof -
    have "pred_option (\<lambda>w. 0 < w) (ck_weight c)" using assms that by (simp add: list_all_iff)
    then show ?thesis
      using evaluate_result [of sx c task_id] by (cases "ck_weight c") (auto simp: answers_check_def check_result_sel)
  qed
  then show ?thesis by (simp add: list_all_iff)
qed

lemma results_answer_checks:
  "list_all2 (\<lambda>c r. cr_id r = ck_id c \<and> cr_type r = check_type (ck_kind c) \<and>
       (cr_status r = Check_Skipped \<longrightarrow> check_type (ck_kind c) = ''command'' \<and> \<not> sx_allow_command_checks sx))
     cs (map (evaluate_benchmark_check sx task_id) cs)"
proof -
  have "let r = evaluate_benchmark_check sx task_id c in cr_id r = ck_id c \<and> cr_type r = check_type (ck_kind c) \<and>
     (cr_status r = Check_Skipped \<longrightarrow> check_type (ck_kind c) = ''command'' \<and> \<not> sx_allow_command_checks sx)" for c
    using evaluate_result [of sx c task_id] by (auto simp: answers_check_def check_result_sel)
  then show ?thesis by (simp add: list_all2_map2 list_all2_same Let_def)
qed


text \<open>A task with two checks, one of them a command check that is required and disabled.\<close>

definition example_task :: benchmark_task where
  "example_task = \<lparr>bt_id = ''t'', bt_title = ''t'', bt_domain = ''org'', bt_category = ''repair'', bt_difficulty = ''small'',
     bt_prompt_file = ''p'', bt_fixture_dir = ''f'',
     bt_checks = [\<lparr>ck_id = ''same'', ck_weight = Some 2, ck_required = None, ck_description = None, ck_kind = File_Unchanged ''a''\<rparr>,
       \<lparr>ck_id = ''run'', ck_weight = None, ck_required = None, ck_description = None,
        ck_kind = Command [''true''] None None None None None\<rparr>],
     bt_description = None, bt_tags = None, bt_protected_paths = None, bt_allowed_paths = None, bt_pass_threshold = None,
     bt_timeout_ms = None, bt_requirements = None\<rparr>"

definition example_context :: score_context where
  "example_context = \<lparr>sx_cwd = ''/'', sx_workspace = ''/w'', sx_suite_dir = ''/s'', sx_before = example_snapshot ''x'',
     sx_after = example_snapshot ''x'', sx_protected_violations = [], sx_unauthorized_violations = [],
     sx_agent_status = ''completed'', sx_allow_command_checks = False, sx_lstat = (\<lambda>p. None), sx_read = (\<lambda>p. None),
     sx_utf8 = (\<lambda>s. s), sx_sha = (\<lambda>s. s), sx_regex_count = (\<lambda>p f s. Inr 0), sx_collate = (\<le>), sx_entries = [],
     sx_temp = ''/tmp'', sx_spawn = (\<lambda>es c d t. \<lparr>ex_status = Some 0, ex_signal = None, ex_stdout = [], ex_stderr = [],
       ex_error = None\<rparr>), sx_elapsed = (\<lambda>i. 0)\<rparr>"


end
