(* ===== verification/BenchTrace.thy ===== *)
theory BenchTrace
  imports BenchTypes
begin

text \<open>
  Traces of the benchmark (\<open>trace.ts\<close>) and the results of agents (the first part of \<open>agent.ts\<close>): the filter that
  turns untrusted values into events, the reading of a trace file and of an audit log, and the counters. A number
  that passed \<open>Number.isFinite\<close> is a rational. \<open>JSON.parse\<close> is the parameter \<open>parse\<close>, which returns \<open>None\<close> where
  it throws.
\<close>

subsection \<open>Events\<close>

record trace_event =
  te_at_ms :: rat
  te_kind :: string
  te_sequence :: "rat option"
  te_tool :: "string option"
  te_operation :: "string option"
  te_channel :: "string option"
  te_mutation :: "bool option"
  te_ok :: "bool option"
  te_duration_ms :: "rat option"
  te_input_tokens :: "rat option"
  te_output_tokens :: "rat option"
  te_error_code :: "string option"

definition TRACE_KINDS :: "string list" where
  "TRACE_KINDS = [''agent_started'', ''agent_finished'', ''tool_call'', ''tool_result'', ''validation'', ''evaluation'',
     ''rollback'', ''note'']"

definition TRACE_CHANNELS :: "string list" where
  "TRACE_CHANNELS = [''semantic'', ''internal_keys'', ''native_keys'', ''filesystem'', ''other'']"

definition MAX_EVENTS :: nat where
  "MAX_EVENTS = 10 * 1000"

definition MAX_TRACE_BYTES :: nat where
  "MAX_TRACE_BYTES = 2 * 1024 * 1024"

fun finite_non_negative :: "jval \<Rightarrow> rat option" where
  "finite_non_negative (JNum (Fin q)) = (if 0 \<le> q then Some q else None)"
| "finite_non_negative v = None"

fun bool_of :: "jval \<Rightarrow> bool option" where
  "bool_of (JBool b) = Some b"
| "bool_of v = None"

definition sequence_of :: "jval \<Rightarrow> rat option" where
  "sequence_of v = (case finite_non_negative v of None \<Rightarrow> None | Some q \<Rightarrow> if q = of_int \<lfloor>q\<rfloor> then Some q else None)"

definition channel_of :: "jval \<Rightarrow> string option" where
  "channel_of v = (case string_of v of None \<Rightarrow> None | Some s \<Rightarrow> if s \<in> set TRACE_CHANNELS then Some s else None)"

definition whole_of :: "jval \<Rightarrow> rat option" where
  "whole_of v = map_option (\<lambda>q. of_int \<lfloor>q\<rfloor>) (finite_non_negative v)"

definition kind_of :: "jval \<Rightarrow> string option" where
  "kind_of v = (case string_of v of None \<Rightarrow> None | Some s \<Rightarrow> if s \<in> set TRACE_KINDS then Some s else None)"

definition sanitize_event :: "jval \<Rightarrow> trace_event option" where
  "sanitize_event raw =
     (if \<not> is_record raw then None
      else
       (case kind_of (get_prop raw ''kind'') of
          None \<Rightarrow> None
        | Some kind \<Rightarrow>
            (case finite_non_negative (get_prop raw ''at_ms'') of
               None \<Rightarrow> None
             | Some at_ms \<Rightarrow> Some
                 \<lparr>te_at_ms = at_ms, te_kind = kind,
                  te_sequence = sequence_of (get_prop raw ''sequence''),
                  te_tool = map_option (take 256) (string_of (get_prop raw ''tool'')),
                  te_operation = map_option (take 256) (string_of (get_prop raw ''operation'')),
                  te_channel = channel_of (get_prop raw ''channel''),
                  te_mutation = bool_of (get_prop raw ''mutation''),
                  te_ok = bool_of (get_prop raw ''ok''),
                  te_duration_ms = whole_of (get_prop raw ''duration_ms''),
                  te_input_tokens = whole_of (get_prop raw ''input_tokens''),
                  te_output_tokens = whole_of (get_prop raw ''output_tokens''),
                  te_error_code = map_option (take 128) (string_of (get_prop raw ''error_code''))\<rparr>)))"

definition sanitize_trace_events :: "jval \<Rightarrow> trace_event list" where
  "sanitize_trace_events v =
     (case array_of v of None \<Rightarrow> [] | Some xs \<Rightarrow> List.map_filter sanitize_event (take MAX_EVENTS xs))"

text \<open>An event as the object it is in the source, which is what a report holds.\<close>

abbreviation num_entry :: "string \<Rightarrow> rat option \<Rightarrow> (string \<times> jval) list" where
  "num_entry key \<equiv> opt_entry key (\<lambda>q. JNum (Fin q))"

abbreviation str_entry :: "string \<Rightarrow> string option \<Rightarrow> (string \<times> jval) list" where
  "str_entry key \<equiv> opt_entry key JStr"

abbreviation bool_entry :: "string \<Rightarrow> bool option \<Rightarrow> (string \<times> jval) list" where
  "bool_entry key \<equiv> opt_entry key JBool"

definition event_json :: "trace_event \<Rightarrow> jval" where
  "event_json e = JObj
     ([(''at_ms'', JNum (Fin (te_at_ms e))), (''kind'', JStr (te_kind e))] @ num_entry ''sequence'' (te_sequence e) @
      str_entry ''tool'' (te_tool e) @ str_entry ''operation'' (te_operation e) @ str_entry ''channel'' (te_channel e) @
      bool_entry ''mutation'' (te_mutation e) @ bool_entry ''ok'' (te_ok e) @
      num_entry ''duration_ms'' (te_duration_ms e) @ num_entry ''input_tokens'' (te_input_tokens e) @
      num_entry ''output_tokens'' (te_output_tokens e) @ str_entry ''error_code'' (te_error_code e))"

subsection \<open>Files\<close>

text \<open>\<open>text.split(/\r?\n/u)\<close> with the number of each line, counted from 0, without the blank ones.\<close>

definition numbered_lines :: "string \<Rightarrow> (nat \<times> string) list" where
  "numbered_lines s = filter (\<lambda>(n, l). trim l \<noteq> []) (List.enumerate 0 (split_on LF (crlf_to_lf s)))"

fun parse_lines :: "(string \<Rightarrow> jval option) \<Rightarrow> (nat \<times> string) list \<Rightarrow> string + jval list" where
  "parse_lines parse [] = Inr []"
| "parse_lines parse ((n, l) # ls) =
     (case parse l of
        None \<Rightarrow> Inl (''Trace line '' @ dec_str (n + 1) @ '' is not valid JSON.'')
      | Some v \<Rightarrow> andthen (parse_lines parse ls) (\<lambda>vs. Inr (v # vs)))"

text \<open>What \<open>lstat\<close> and \<open>readFile\<close> say of the trace file: nothing, no regular file, or its content.\<close>

datatype trace_file = No_File | Not_Regular | Trace_File string

definition read_trace_file :: "(string \<Rightarrow> jval option) \<Rightarrow> trace_file \<Rightarrow> string + trace_event list" where
  "read_trace_file parse f =
     (case f of
        No_File \<Rightarrow> Inr []
      | Not_Regular \<Rightarrow> Inl ''Trace path must be a regular file.''
      | Trace_File content \<Rightarrow>
          if MAX_TRACE_BYTES < length content
          then Inl (''Trace file exceeds '' @ dec_str MAX_TRACE_BYTES @ '' bytes.'')
          else andthen (parse_lines parse (numbered_lines content)) (\<lambda>vs. Inr (sanitize_trace_events (JArr vs))))"

text \<open>\<open>convertAuditJsonlToTrace\<close>: two events for each line; reading a property of \<open>null\<close> throws.\<close>

definition audit_time :: "nat \<Rightarrow> jval \<Rightarrow> rat" where
  "audit_time index v =
     (case nullish_or (nullish_or (nullish_or (get_prop v ''at_ms'') (get_prop v ''timestamp_ms''))
        (get_prop v ''time_ms'')) (jnat index) of
        JNum (Fin q) \<Rightarrow> max 0 q
      | _ \<Rightarrow> of_nat index)"

definition name_entry :: "string \<Rightarrow> string option \<Rightarrow> (string \<times> jval) list" where
  "name_entry key s = (if s = Some [] then [] else str_entry key s)"

definition audit_pair :: "nat \<Rightarrow> jval \<Rightarrow> jval list" where
  "audit_pair index v =
     (let tool = (case string_of (get_prop v ''tool'') of Some s \<Rightarrow> Some s | None \<Rightarrow> string_of (get_prop v ''method''));
          operation = string_of (get_prop v ''operation'');
          ok = (case bool_of (get_prop v ''ok'') of Some b \<Rightarrow> Some b | None \<Rightarrow> bool_of (get_prop v ''success''))
      in [JObj ([(''sequence'', jnat index), (''at_ms'', JNum (Fin (audit_time index v))), (''kind'', JStr ''tool_call'')] @
            name_entry ''tool'' tool @ name_entry ''operation'' operation @
            bool_entry ''mutation'' (bool_of (get_prop v ''mutation''))),
          JObj ([(''sequence'', jnat (index * 2 + 1)), (''at_ms'', JNum (Fin (audit_time index v))),
             (''kind'', JStr (if tool = Some ''emacs_rollback'' then ''rollback'' else ''tool_result''))] @
            name_entry ''tool'' tool @ name_entry ''operation'' operation @ bool_entry ''ok'' ok @
            str_entry ''error_code'' (string_of (get_prop v ''error_code'')))])"

fun audit_events :: "(string \<Rightarrow> jval option) \<Rightarrow> (nat \<times> string) list \<Rightarrow> string + jval list" where
  "audit_events parse [] = Inr []"
| "audit_events parse ((n, l) # ls) =
     (case parse l of
        None \<Rightarrow> audit_events parse ls
      | Some v \<Rightarrow>
          if v = JNull then Inl ''Cannot read properties of null (reading 'tool')''
          else andthen (audit_events parse ls) (\<lambda>vs. Inr (audit_pair n v @ vs)))"

definition convert_audit_jsonl :: "(string \<Rightarrow> jval option) \<Rightarrow> string option \<Rightarrow> string + trace_event list" where
  "convert_audit_jsonl parse f =
     (case f of
        None \<Rightarrow> Inr []
      | Some content \<Rightarrow>
          andthen (audit_events parse (numbered_lines content)) (\<lambda>vs. Inr (sanitize_trace_events (JArr vs))))"

subsection \<open>Usage and counters\<close>

record benchmark_usage =
  bu_input_tokens :: "rat option"
  bu_output_tokens :: "rat option"
  bu_cached_input_tokens :: "rat option"
  bu_tool_calls :: "rat option"
  bu_mutations :: "rat option"
  bu_rollbacks :: "rat option"

definition no_usage :: benchmark_usage where
  "no_usage = \<lparr>bu_input_tokens = None, bu_output_tokens = None, bu_cached_input_tokens = None, bu_tool_calls = None,
     bu_mutations = None, bu_rollbacks = None\<rparr>"

definition normalized_usage :: "jval \<Rightarrow> benchmark_usage option" where
  "normalized_usage v =
     (if \<not> is_record v then None
      else
       (let usage = \<lparr>bu_input_tokens = whole_of (get_prop v ''input_tokens''),
          bu_output_tokens = whole_of (get_prop v ''output_tokens''),
          bu_cached_input_tokens = whole_of (get_prop v ''cached_input_tokens''),
          bu_tool_calls = whole_of (get_prop v ''tool_calls''), bu_mutations = whole_of (get_prop v ''mutations''),
          bu_rollbacks = whole_of (get_prop v ''rollbacks'')\<rparr>
        in if usage = no_usage then None else Some usage))"

record process_metrics =
  pm_tool_calls :: nat
  pm_mutations :: nat
  pm_rollbacks :: nat
  pm_tool_errors :: nat
  pm_validations :: nat
  pm_evaluations :: nat
  pm_input_tokens :: "rat option"
  pm_output_tokens :: "rat option"

definition count_events :: "(trace_event \<Rightarrow> bool) \<Rightarrow> trace_event list \<Rightarrow> nat" where
  "count_events p es = length (filter p es)"

definition token_sum :: "(trace_event \<Rightarrow> rat option) \<Rightarrow> trace_event list \<Rightarrow> rat" where
  "token_sum sel es = foldl (\<lambda>counted e. counted + (case sel e of None \<Rightarrow> 0 | Some q \<Rightarrow> q)) 0 es"

definition given_or_positive :: "rat option \<Rightarrow> rat \<Rightarrow> rat option" where
  "given_or_positive given counted = (case given of Some q \<Rightarrow> Some q | None \<Rightarrow> if 0 < counted then Some counted else None)"

definition summarize_trace :: "trace_event list \<Rightarrow> benchmark_usage option \<Rightarrow> process_metrics" where
  "summarize_trace es usage =
     \<lparr>pm_tool_calls = count_events (\<lambda>e. te_kind e = ''tool_call'') es,
      pm_mutations = count_events (\<lambda>e. te_mutation e = Some True) es,
      pm_rollbacks = count_events (\<lambda>e. te_kind e = ''rollback'') es,
      pm_tool_errors = count_events (\<lambda>e. te_kind e \<in> {''tool_result'', ''evaluation'', ''validation''} \<and> te_ok e = Some False) es,
      pm_validations = count_events (\<lambda>e. te_kind e = ''validation'') es,
      pm_evaluations = count_events (\<lambda>e. te_kind e = ''evaluation'') es,
      pm_input_tokens = given_or_positive (Option.bind usage bu_input_tokens) (token_sum te_input_tokens es),
      pm_output_tokens = given_or_positive (Option.bind usage bu_output_tokens) (token_sum te_output_tokens es)\<rparr>"

subsection \<open>Results of agents\<close>

definition AGENT_STATUSES :: "string list" where
  "AGENT_STATUSES = [''completed'', ''failed'', ''refused'', ''timeout'', ''protocol_error'']"

record agent_result =
  ar_status :: string
  ar_summary :: "string option"
  ar_usage :: "benchmark_usage option"
  ar_events :: "trace_event list"

definition normalize_agent_result :: "jval \<Rightarrow> string + agent_result" where
  "normalize_agent_result v =
     (if \<not> is_record v then Inl ''Agent result must be a JSON object.''
      else if get_prop v ''protocol_version'' \<noteq> JStr ''1.0'' then Inl ''Agent result protocol_version must be 1.0.''
      else
       (case string_of (get_prop v ''status'') of
          None \<Rightarrow> Inl ''Agent result has an unsupported status.''
        | Some status \<Rightarrow>
            if status \<notin> set AGENT_STATUSES then Inl ''Agent result has an unsupported status.''
            else Inr \<lparr>ar_status = status,
              ar_summary = map_option (take 8192) (string_of (get_prop v ''summary'')),
              ar_usage = normalized_usage (get_prop v ''usage''),
              ar_events = sanitize_trace_events (get_prop v ''events'')\<rparr>))"

text \<open>The result as the object it is in the source.\<close>

definition usage_json :: "benchmark_usage \<Rightarrow> jval" where
  "usage_json u = JObj (num_entry ''input_tokens'' (bu_input_tokens u) @ num_entry ''output_tokens'' (bu_output_tokens u) @
     num_entry ''cached_input_tokens'' (bu_cached_input_tokens u) @ num_entry ''tool_calls'' (bu_tool_calls u) @
     num_entry ''mutations'' (bu_mutations u) @ num_entry ''rollbacks'' (bu_rollbacks u))"

definition agent_result_json :: "agent_result \<Rightarrow> jval" where
  "agent_result_json r = JObj
     ([(''protocol_version'', JStr ''1.0''), (''status'', JStr (ar_status r))] @ str_entry ''summary'' (ar_summary r) @
      (case ar_usage r of None \<Rightarrow> [] | Some u \<Rightarrow> [(''usage'', usage_json u)]) @
      (if ar_events r = [] then [] else [(''events'', JArr (map event_json (ar_events r)))]))"

subsection \<open>Normalizing twice\<close>

definition event_ok :: "trace_event \<Rightarrow> bool" where
  "event_ok e \<longleftrightarrow> 0 \<le> te_at_ms e \<and> te_kind e \<in> set TRACE_KINDS \<and>
     pred_option (\<lambda>q. 0 \<le> q \<and> q = of_int \<lfloor>q\<rfloor>) (te_sequence e) \<and>
     pred_option (\<lambda>s. length s \<le> 256) (te_tool e) \<and> pred_option (\<lambda>s. length s \<le> 256) (te_operation e) \<and>
     pred_option (\<lambda>s. s \<in> set TRACE_CHANNELS) (te_channel e) \<and>
     pred_option (\<lambda>q. 0 \<le> q \<and> q = of_int \<lfloor>q\<rfloor>) (te_duration_ms e) \<and>
     pred_option (\<lambda>q. 0 \<le> q \<and> q = of_int \<lfloor>q\<rfloor>) (te_input_tokens e) \<and>
     pred_option (\<lambda>q. 0 \<le> q \<and> q = of_int \<lfloor>q\<rfloor>) (te_output_tokens e) \<and>
     pred_option (\<lambda>s. length s \<le> 128) (te_error_code e)"

lemma finite_non_negative_SomeD: "finite_non_negative v = Some q \<Longrightarrow> 0 \<le> q"
  by (induction v rule: finite_non_negative.induct) (auto split: if_splits)

lemma readers_ok:
  "pred_option (\<lambda>q. 0 \<le> q \<and> q = of_int \<lfloor>q\<rfloor>) (whole_of v)"
  "pred_option (\<lambda>q. 0 \<le> q \<and> q = of_int \<lfloor>q\<rfloor>) (sequence_of v)"
  "pred_option (\<lambda>s. s \<in> set TRACE_CHANNELS) (channel_of v)"
  "pred_option (\<lambda>s. length s \<le> n) (map_option (take n) (string_of v))"
  by (auto simp: whole_of_def sequence_of_def channel_of_def option.pred_set dest: finite_non_negative_SomeD
      split: option.splits if_splits)

lemma sanitize_event_ok: "sanitize_event v = Some e \<Longrightarrow> event_ok e"
  by (auto simp: sanitize_event_def event_ok_def readers_ok kind_of_def dest: finite_non_negative_SomeD
      split: if_splits option.splits)

text \<open>Each reader gives back what an entry of its kind holds.\<close>

lemma readers_entry:
  "pred_option (\<lambda>q. 0 \<le> q \<and> q = of_int \<lfloor>q\<rfloor>) r \<Longrightarrow> whole_of (entry_value (\<lambda>q. JNum (Fin q)) r) = r"
  "pred_option (\<lambda>q. 0 \<le> q \<and> q = of_int \<lfloor>q\<rfloor>) r \<Longrightarrow> sequence_of (entry_value (\<lambda>q. JNum (Fin q)) r) = r"
  "pred_option (\<lambda>s. length s \<le> n) s \<Longrightarrow> map_option (take n) (string_of (entry_value JStr s)) = s"
  "pred_option (\<lambda>s. s \<in> set TRACE_CHANNELS) s \<Longrightarrow> channel_of (entry_value JStr s) = s"
  "bool_of (entry_value JBool b) = b"
  by (auto simp: entry_value_def whole_of_def sequence_of_def channel_of_def split: option.split)

lemma event_json_prop:
  "get_prop (event_json e) ''at_ms'' = JNum (Fin (te_at_ms e))" "get_prop (event_json e) ''kind'' = JStr (te_kind e)"
  "get_prop (event_json e) ''sequence'' = entry_value (\<lambda>q. JNum (Fin q)) (te_sequence e)"
  "get_prop (event_json e) ''tool'' = entry_value JStr (te_tool e)"
  "get_prop (event_json e) ''operation'' = entry_value JStr (te_operation e)"
  "get_prop (event_json e) ''channel'' = entry_value JStr (te_channel e)"
  "get_prop (event_json e) ''mutation'' = entry_value JBool (te_mutation e)"
  "get_prop (event_json e) ''ok'' = entry_value JBool (te_ok e)"
  "get_prop (event_json e) ''duration_ms'' = entry_value (\<lambda>q. JNum (Fin q)) (te_duration_ms e)"
  "get_prop (event_json e) ''input_tokens'' = entry_value (\<lambda>q. JNum (Fin q)) (te_input_tokens e)"
  "get_prop (event_json e) ''output_tokens'' = entry_value (\<lambda>q. JNum (Fin q)) (te_output_tokens e)"
  "get_prop (event_json e) ''error_code'' = entry_value JStr (te_error_code e)"
  by (simp_all add: event_json_def entry_value_def map_add_def split: option.split)

lemma sanitize_event_json:
  assumes "event_ok e"
  shows "sanitize_event (event_json e) = Some e"
proof -
  have "is_record (event_json e)" by (simp add: event_json_def)
  moreover have "kind_of (JStr (te_kind e)) = Some (te_kind e)" "finite_non_negative (JNum (Fin (te_at_ms e))) = Some (te_at_ms e)"
    using assms by (simp_all add: event_ok_def kind_of_def)
  ultimately show ?thesis
    using assms by (simp add: sanitize_event_def event_json_prop readers_entry event_ok_def)
qed

lemma map_filter_all: "list_all (\<lambda>x. f x = Some (g x)) xs \<Longrightarrow> List.map_filter f xs = map g xs"
  by (induction xs) (simp_all add: List.map_filter_simps)

lemma map_filter_length: "length (List.map_filter f xs) \<le> length xs"
  by (induction xs) (simp_all add: List.map_filter_simps split: option.split)

lemma sanitize_ok: "list_all event_ok (sanitize_trace_events v) \<and> length (sanitize_trace_events v) \<le> MAX_EVENTS"
proof -
  have "length (List.map_filter sanitize_event (take MAX_EVENTS xs)) \<le> MAX_EVENTS" for xs
    using map_filter_length [of sanitize_event "take MAX_EVENTS xs"] by simp
  moreover have "list_all event_ok (List.map_filter sanitize_event xs)" for xs
    by (induction xs) (auto simp: List.map_filter_simps sanitize_event_ok split: option.split)
  ultimately show ?thesis by (simp add: sanitize_trace_events_def split: option.split)
qed

lemma sanitize_again:
  assumes "list_all event_ok es" "length es \<le> MAX_EVENTS"
  shows "sanitize_trace_events (JArr (map event_json es)) = es"
proof -
  have "List.map_filter sanitize_event (map event_json es) = es"
    using assms(1) by (induction es) (simp_all add: List.map_filter_simps sanitize_event_json)
  then show ?thesis using assms(2) by (simp add: sanitize_trace_events_def)
qed

lemma usage_again:
  assumes "normalized_usage v = Some u"
  shows "normalized_usage (usage_json u) = Some u"
proof -
  have fields: "get_prop (usage_json u) ''input_tokens'' = entry_value (\<lambda>q. JNum (Fin q)) (bu_input_tokens u)"
    "get_prop (usage_json u) ''output_tokens'' = entry_value (\<lambda>q. JNum (Fin q)) (bu_output_tokens u)"
    "get_prop (usage_json u) ''cached_input_tokens'' = entry_value (\<lambda>q. JNum (Fin q)) (bu_cached_input_tokens u)"
    "get_prop (usage_json u) ''tool_calls'' = entry_value (\<lambda>q. JNum (Fin q)) (bu_tool_calls u)"
    "get_prop (usage_json u) ''mutations'' = entry_value (\<lambda>q. JNum (Fin q)) (bu_mutations u)"
    "get_prop (usage_json u) ''rollbacks'' = entry_value (\<lambda>q. JNum (Fin q)) (bu_rollbacks u)"
    by (simp_all add: usage_json_def entry_value_def map_add_def split: option.split)
  have "is_record (usage_json u)" by (simp add: usage_json_def)
  moreover have "u \<noteq> no_usage" and u: "bu_input_tokens u = whole_of (get_prop v ''input_tokens'')"
      "bu_output_tokens u = whole_of (get_prop v ''output_tokens'')"
      "bu_cached_input_tokens u = whole_of (get_prop v ''cached_input_tokens'')"
      "bu_tool_calls u = whole_of (get_prop v ''tool_calls'')" "bu_mutations u = whole_of (get_prop v ''mutations'')"
      "bu_rollbacks u = whole_of (get_prop v ''rollbacks'')"
    using assms by (auto simp: normalized_usage_def Let_def split: if_splits)
  moreover have "whole_of (entry_value (\<lambda>q. JNum (Fin q)) (whole_of w)) = whole_of w" for w
    by (intro readers_entry(1) readers_ok(1))
  then have "u = \<lparr>bu_input_tokens = whole_of (entry_value (\<lambda>q. JNum (Fin q)) (bu_input_tokens u)),
      bu_output_tokens = whole_of (entry_value (\<lambda>q. JNum (Fin q)) (bu_output_tokens u)),
      bu_cached_input_tokens = whole_of (entry_value (\<lambda>q. JNum (Fin q)) (bu_cached_input_tokens u)),
      bu_tool_calls = whole_of (entry_value (\<lambda>q. JNum (Fin q)) (bu_tool_calls u)),
      bu_mutations = whole_of (entry_value (\<lambda>q. JNum (Fin q)) (bu_mutations u)),
      bu_rollbacks = whole_of (entry_value (\<lambda>q. JNum (Fin q)) (bu_rollbacks u))\<rparr>"
    by (simp add: u)
  ultimately show ?thesis unfolding normalized_usage_def fields Let_def by metis
qed

text \<open>
  Normalizing the result of an agent is idempotent. The runner normalizes what \<open>CommandAgent\<close> has normalized
  before; the second time changes nothing: the same status, summary, usage and events, none lost and none cut again.
  Every event has a known kind, a time that is not negative and texts within their bounds, and there are at most
  ten thousand.
\<close>

theorem normalize_agent_result_idempotent:
  assumes "normalize_agent_result v = Inr r"
  shows "normalize_agent_result (agent_result_json r) = Inr r \<and>
    list_all event_ok (ar_events r) \<and> length (ar_events r) \<le> MAX_EVENTS"
proof -
  have r: "ar_status r \<in> set AGENT_STATUSES" "ar_summary r = map_option (take 8192) (string_of (get_prop v ''summary''))"
    "ar_usage r = normalized_usage (get_prop v ''usage'')" "ar_events r = sanitize_trace_events (get_prop v ''events'')"
    using assms by (auto simp: normalize_agent_result_def split: if_splits option.splits)
  have events: "list_all event_ok (ar_events r)" "length (ar_events r) \<le> MAX_EVENTS"
    using sanitize_ok [of "get_prop v ''events''"] r(4) by auto
  have fields: "get_prop (agent_result_json r) ''protocol_version'' = JStr ''1.0''"
    "get_prop (agent_result_json r) ''status'' = JStr (ar_status r)"
    "get_prop (agent_result_json r) ''summary'' = entry_value JStr (ar_summary r)"
    "get_prop (agent_result_json r) ''usage'' = entry_value usage_json (ar_usage r)"
    "get_prop (agent_result_json r) ''events'' = (if ar_events r = [] then JUndef else JArr (map event_json (ar_events r)))"
    by (simp_all add: agent_result_json_def entry_value_def map_add_def split: option.split)
  have "is_record (agent_result_json r)" by (simp add: agent_result_json_def)
  moreover have "map_option (take 8192) (string_of (entry_value JStr (ar_summary r))) = ar_summary r"
    unfolding r(2) by (intro readers_entry(3) readers_ok(4))
  moreover have "normalized_usage (entry_value usage_json (ar_usage r)) = ar_usage r"
  proof (cases "ar_usage r")
    case None
    then show ?thesis by (simp add: entry_value_def normalized_usage_def)
  next
    case (Some u)
    then show ?thesis using usage_again [of "get_prop v ''usage''" u] r(3) by (simp add: entry_value_def)
  qed
  moreover have "sanitize_trace_events (if ar_events r = [] then JUndef else JArr (map event_json (ar_events r))) = ar_events r"
    using sanitize_again [OF events] by (simp add: sanitize_trace_events_def)
  ultimately show ?thesis using r(1) events unfolding normalize_agent_result_def fields by simp
qed

definition example_agent_result :: jval where
  "example_agent_result = JObj [(''protocol_version'', JStr ''1.0''), (''status'', JStr ''completed''),
     (''usage'', JObj [(''input_tokens'', JNum (Fin (7/2)))]),
     (''events'', JArr [JObj [(''kind'', JStr ''note''), (''at_ms'', JNum (Fin 1))], JNull])]"

theorem normalize_agent_result_idempotent_witness:
  "normalize_agent_result (agent_result_json (projr (normalize_agent_result example_agent_result))) =
     normalize_agent_result example_agent_result"
proof -
  have "\<not> isl (normalize_agent_result example_agent_result)"
    by (simp add: example_agent_result_def normalize_agent_result_def AGENT_STATUSES_def)
  then have "normalize_agent_result example_agent_result = Inr (projr (normalize_agent_result example_agent_result))" by simp
  from normalize_agent_result_idempotent [OF this] this show ?thesis by simp
qed

subsection \<open>Audit logs\<close>

lemma audit_pair_events:
  "\<exists>a b. map sanitize_event (audit_pair n v) = [Some a, Some b] \<and> te_kind a = ''tool_call'' \<and>
     te_kind b \<in> {''tool_result'', ''rollback''} \<and> te_mutation a = bool_of (get_prop v ''mutation'') \<and> te_mutation b = None \<and>
     te_at_ms a = te_at_ms b"
proof -
  have kinds: "''tool_call'' \<in> set TRACE_KINDS" "''rollback'' \<in> set TRACE_KINDS" "''tool_result'' \<in> set TRACE_KINDS"
    by (simp_all add: TRACE_KINDS_def)
  have time: "finite_non_negative (JNum (Fin (audit_time n v))) = Some (audit_time n v)"
    by (simp add: audit_time_def split: jval.split jnum.split)
  have named: "map_of (name_entry key s) k = (if k = key \<and> s \<noteq> Some [] then map_option JStr s else None)" for key s k
    by (simp add: name_entry_def)
  show ?thesis
    unfolding audit_pair_def Let_def
    by (cases "bool_of (get_prop v ''mutation'')")
      (simp_all add: sanitize_event_def kind_of_def kinds time named map_add_def del: finite_non_negative.simps)
qed

lemma audit_events_pairs:
  "audit_events parse ls = Inr vs \<Longrightarrow>
     \<exists>ps. vs = concat (map (\<lambda>(n, v). audit_pair n v) ps) \<and> length ps = length (filter (\<lambda>(n, l). parse l \<noteq> None) ls)"
proof (induction parse ls arbitrary: vs rule: audit_events.induct)
  case (1 parse)
  then show ?case by simp
next
  case (2 parse n l ls)
  show ?case
  proof (cases "parse l")
    case None
    then show ?thesis using "2.IH"(1) [OF None] "2.prems" by simp
  next
    case (Some v)
    with "2.prems" obtain rest where rest: "v \<noteq> JNull" "audit_events parse ls = Inr rest" "vs = audit_pair n v @ rest"
      by (auto simp: andthen_eq_Inr split: if_splits)
    obtain ps where "rest = concat (map (\<lambda>(n, v). audit_pair n v) ps)"
      "length ps = length (filter (\<lambda>(n, l). parse l \<noteq> None) ls)"
      using "2.IH"(2) [OF Some rest(1,2)] by blast
    then show ?thesis using rest(3) Some by (intro exI [of _ "(n, v) # ps"]) simp
  qed
qed

lemma pairs_tool_calls:
  "count_events (\<lambda>e. te_kind e = ''tool_call'')
     (List.map_filter sanitize_event (take (2 * k) (concat (map (\<lambda>(n, v). audit_pair n v) ps)))) = min k (length ps)"
proof (induction ps arbitrary: k)
  case Nil
  then show ?case by (simp add: count_events_def List.map_filter_simps)
next
  case (Cons p ps)
  obtain n v where p: "p = (n, v)" by fastforce
  obtain a b where ab: "map sanitize_event (audit_pair n v) = [Some a, Some b]" "te_kind a = ''tool_call''"
    "te_kind b \<in> {''tool_result'', ''rollback''}"
    using audit_pair_events [of n v] by auto
  obtain x y where xy: "audit_pair n v = [x, y]" by (simp add: audit_pair_def Let_def)
  show ?case
  proof (cases k)
    case 0
    then show ?thesis by (simp add: count_events_def List.map_filter_simps)
  next
    case (Suc k')
    then show ?thesis using Cons.IH [of k'] ab xy p by (auto simp: count_events_def List.map_filter_simps)
  qed
qed

text \<open>
  Each line of an audit log counts once. A log that is converted to a trace yields one tool call for every line
  that is JSON, up to the limit of five thousand lines: \<open>summarizeTrace\<close> of the events is exactly that number,
  although each line gives two events and the filter of the events runs over both.
\<close>

theorem audit_lines_counted:
  assumes "convert_audit_jsonl parse (Some content) = Inr es"
  shows "pm_tool_calls (summarize_trace es usage) =
    min (MAX_EVENTS div 2) (length (filter (\<lambda>(n, l). parse l \<noteq> None) (numbered_lines content)))"
proof -
  obtain vs where vs: "audit_events parse (numbered_lines content) = Inr vs" "es = sanitize_trace_events (JArr vs)"
    using assms by (auto simp: convert_audit_jsonl_def andthen_eq_Inr)
  obtain ps where ps: "vs = concat (map (\<lambda>(n, v). audit_pair n v) ps)"
    "length ps = length (filter (\<lambda>(n, l). parse l \<noteq> None) (numbered_lines content))"
    using audit_events_pairs [OF vs(1)] by blast
  have "MAX_EVENTS = 2 * (MAX_EVENTS div 2)" by (simp add: MAX_EVENTS_def)
  then have "es = List.map_filter sanitize_event (take (2 * (MAX_EVENTS div 2)) vs)"
    using vs(2) by (simp add: sanitize_trace_events_def)
  then show ?thesis using pairs_tool_calls [of "MAX_EVENTS div 2" ps] ps by (simp add: summarize_trace_def)
qed

definition example_audit_parse :: "string \<Rightarrow> jval option" where
  "example_audit_parse l = (if l = ''{}'' then Some (JObj [(''tool'', JStr ''emacs_eval'')]) else None)"

theorem audit_lines_counted_witness:
  "pm_tool_calls (summarize_trace (projr (convert_audit_jsonl example_audit_parse (Some (''{}'' @ [LF] @ ''x'' @ [LF] @ ''{}'')))) None) = 2"
proof -
  let ?c = "''{}'' @ [LF] @ ''x'' @ [LF] @ ''{}''"
  have lines: "numbered_lines ?c = [(0, ''{}''), (1, ''x''), (2, ''{}'')]" by code_simp
  have "\<not> isl (convert_audit_jsonl example_audit_parse (Some ?c))"
    unfolding convert_audit_jsonl_def option.case lines by (simp add: example_audit_parse_def)
  then have "convert_audit_jsonl example_audit_parse (Some ?c) = Inr (projr (convert_audit_jsonl example_audit_parse (Some ?c)))"
    by simp
  from audit_lines_counted [OF this, of None] show ?thesis
    unfolding lines by (simp add: example_audit_parse_def MAX_EVENTS_def)
qed

text \<open>The two numberings collide: the call of line 1 and the result of line 0 have the same \<open>sequence\<close>.\<close>

theorem audit_sequences_collide:
  "get_prop (audit_pair 1 v ! 0) ''sequence'' = get_prop (audit_pair 0 w ! 1) ''sequence''"
  by (simp add: audit_pair_def Let_def)

end
