(* ===== verification/BenchComparison.thy ===== *)
theory BenchComparison
  imports "HOL-Library.Word" "HOL-Library.Multiset" JsNumber Runtime
begin

text \<open>
  Comparison of two benchmark reports (\<open>comparison.ts\<close>): the trials are paired by task, trial number and seed, each
  pair has a winner, and the advantage comes with a bootstrap interval. Numbers are exact; \<open>sha\<close> returns the digest
  in hexadecimal, \<open>collate\<close> is \<open>localeCompare\<close>.
\<close>

section \<open>The generator\<close>

text \<open>
  The seeded generator that the runner and the comparison share (\<open>mulberry32\<close>), and the shuffle of the tasks
  (\<open>runner.ts\<close>). The state of the generator grows without a bound, as the JavaScript number does (it is exact up to
  \<open>2^53\<close>); its value is taken as a word of 32 bits, on which \<open>Math.imul\<close>, \<open>+\<close> and the bit operators wrap.
\<close>

unbundle bit_operations_syntax

definition mulberry_value :: "32 word \<Rightarrow> 32 word" where
  "mulberry_value s =
     (let v = (s XOR drop_bit 15 s) * (s OR 1);
          v = v XOR (v + (v XOR drop_bit 7 v) * (v OR 61))
      in v XOR drop_bit 14 v)"

definition mulberry_next :: "nat \<Rightarrow> rat \<times> nat" where
  "mulberry_next st =
     (let st = st + 0x6D2B79F5 in (of_nat (unat (mulberry_value (of_nat st))) / 2 ^ 32, st))"

text \<open>\<open>Math.floor(random() * n)\<close>.\<close>

definition draw :: "nat \<Rightarrow> nat \<Rightarrow> nat \<times> nat" where
  "draw n st = (case mulberry_next st of (r, st) \<Rightarrow> (nat \<lfloor>r * of_nat n\<rfloor>, st))"

lemma mulberry_range: "0 \<le> fst (mulberry_next st) \<and> fst (mulberry_next st) < 1"
proof -
  define k where "k = unat (mulberry_value (of_nat (st + 0x6D2B79F5)))"
  have "k < 2 ^ 32" unfolding k_def using unsigned_less [of "mulberry_value (of_nat (st + 0x6D2B79F5))"] by simp
  then have "(of_nat k :: rat) < of_nat (2 ^ 32)" by (simp only: of_nat_less_iff)
  moreover have "fst (mulberry_next st) = of_nat k / 2 ^ 32" by (simp only: mulberry_next_def k_def Let_def fst_conv)
  ultimately show ?thesis by simp
qed

lemma draw_less:
  assumes "0 < n"
  shows "fst (draw n st) < n"
proof -
  obtain r st' where r: "mulberry_next st = (r, st')" by fastforce
  then have "0 \<le> r" "r < 1" using mulberry_range [of st] by simp_all
  then have "r * of_nat n < of_nat n" using assms by simp
  then have "\<lfloor>r * of_nat n\<rfloor> < int n" by (simp add: floor_less_iff)
  moreover have "0 \<le> \<lfloor>r * of_nat n\<rfloor>" using \<open>0 \<le> r\<close> by simp
  ultimately show ?thesis by (simp add: draw_def r nat_less_iff)
qed

definition swap_at :: "nat \<Rightarrow> nat \<Rightarrow> 'a list \<Rightarrow> 'a list" where
  "swap_at i j xs = xs[i := xs ! j, j := xs ! i]"

fun shuffle_from :: "nat \<Rightarrow> nat \<Rightarrow> 'a list \<Rightarrow> 'a list" where
  "shuffle_from 0 st xs = xs"
| "shuffle_from (Suc i) st xs = (case draw (Suc i + 1) st of (target, st) \<Rightarrow> shuffle_from i st (swap_at (Suc i) target xs))"

definition shuffled :: "'a list \<Rightarrow> nat \<Rightarrow> 'a list" where
  "shuffled xs seed = shuffle_from (length xs - 1) (seed mod 2 ^ 32) xs"

lemma mset_swap_at: "i < length xs \<Longrightarrow> j < length xs \<Longrightarrow> mset (swap_at i j xs) = mset xs"
  by (simp add: swap_at_def mset_swap)

lemma length_swap_at [simp]: "length (swap_at i j xs) = length xs"
  by (simp add: swap_at_def)

lemma mset_shuffle_from: "i < length xs \<or> i = 0 \<Longrightarrow> mset (shuffle_from i st xs) = mset xs"
proof (induction i st xs rule: shuffle_from.induct)
  case (2 i st xs)
  obtain target st' where d: "draw (Suc i + 1) st = (target, st')" by fastforce
  have "target < Suc i + 1" using draw_less [of "Suc i + 1" st] d by simp
  then have "mset (swap_at (Suc i) target xs) = mset xs" using "2.prems" by (intro mset_swap_at) auto
  then show ?case using "2.IH" [OF d [symmetric]] "2.prems" d by simp
qed simp

lemma mset_shuffled: "mset (shuffled xs seed) = mset xs"
  unfolding shuffled_def by (rule mset_shuffle_from) (cases xs, simp_all)

section \<open>The comparison of reports\<close>

subsection \<open>Statistics\<close>

definition mean_of :: "rat list \<Rightarrow> rat option" where
  "mean_of xs = (if xs = [] then None else Some (sum_list xs / of_nat (length xs)))"

definition rate_of :: "bool list \<Rightarrow> rat option" where
  "rate_of bs = (if bs = [] then None else Some (of_nat (length (filter (\<lambda>b. b) bs)) / of_nat (length bs)))"

definition median_of :: "rat list \<Rightarrow> rat option" where
  "median_of xs =
     (if xs = [] then None
      else
       (let s = sort xs; midpoint = length s div 2 in
        Some (if length s mod 2 \<noteq> 0 then s ! midpoint else (s ! (midpoint - 1) + s ! midpoint) / 2)))"

definition percentile :: "rat list \<Rightarrow> rat \<Rightarrow> rat" where
  "percentile xs p =
     (let s = sort xs in
      if s = [] then 0
      else
       (let position = of_nat (length s - 1) * p; lower = nat \<lfloor>position\<rfloor>; upper = nat \<lceil>position\<rceil> in
        if lower = upper then s ! lower else s ! lower + (s ! upper - s ! lower) * (position - of_nat lower)))"

subsection \<open>Reports\<close>

record trial_report =
  tr_task_id :: string
  tr_task_digest :: string
  tr_trial :: nat
  tr_trial_seed :: nat
  tr_passed :: bool
  tr_score :: rat
  tr_duration_ms :: rat

record bench_report =
  br_run_id :: string
  br_suite_id :: string
  br_suite_revision :: string
  br_suite_digest :: string
  br_agent_id :: string
  br_agent_version :: "string option"
  br_seed :: nat
  br_trials :: "trial_report list"

datatype pair_outcome = Candidate_Win | Baseline_Win | Tie

definition winner :: "trial_report \<Rightarrow> trial_report \<Rightarrow> pair_outcome" where
  "winner base cand =
     (if tr_passed cand \<noteq> tr_passed base then (if tr_passed cand then Candidate_Win else Baseline_Win)
      else
       (let delta = tr_score cand - tr_score base in
        if \<bar>delta\<bar> \<le> 1 / 10 ^ 12 then Tie else if 0 < delta then Candidate_Win else Baseline_Win))"

record comparison_pair =
  cp_task_id :: string
  cp_trial :: nat
  cp_trial_seed :: nat
  cp_baseline :: "bool \<times> rat \<times> rat"
  cp_candidate :: "bool \<times> rat \<times> rat"
  cp_outcome :: pair_outcome

definition trial_key :: "trial_report \<Rightarrow> string" where
  "trial_key t = tr_task_id t @ [CHR 0x00] @ dec_str (tr_trial t) @ [CHR 0x00] @ dec_str (tr_trial_seed t)"

definition trials_by_key :: "trial_report list \<Rightarrow> (string, trial_report) js_map" where
  "trials_by_key ts = fold (\<lambda>t. AList.update (trial_key t) t) ts []"

definition pair_of :: "(string, trial_report) js_map \<Rightarrow> trial_report \<Rightarrow> comparison_pair option" where
  "pair_of base_map cand =
     (case map_of base_map (trial_key cand) of
        None \<Rightarrow> None
      | Some base \<Rightarrow>
          if tr_task_digest base \<noteq> tr_task_digest cand then None
          else Some \<lparr>cp_task_id = tr_task_id cand, cp_trial = tr_trial cand, cp_trial_seed = tr_trial_seed cand,
            cp_baseline = (tr_passed base, tr_score base, tr_duration_ms base),
            cp_candidate = (tr_passed cand, tr_score cand, tr_duration_ms cand), cp_outcome = winner base cand\<rparr>)"

definition pair_le :: "(string \<Rightarrow> string \<Rightarrow> int) \<Rightarrow> comparison_pair \<Rightarrow> comparison_pair \<Rightarrow> bool" where
  "pair_le collate a b \<longleftrightarrow>
     (let c = collate (cp_task_id a) (cp_task_id b) in c < 0 \<or> c = 0 \<and> cp_trial a \<le> cp_trial b)"

definition paired_trials :: "(string \<Rightarrow> string \<Rightarrow> int) \<Rightarrow> bench_report \<Rightarrow> bench_report \<Rightarrow> comparison_pair list" where
  "paired_trials collate base cand =
     sort_by (pair_le collate) (List.map_filter (pair_of (trials_by_key (br_trials base))) (br_trials cand))"

subsection \<open>The bootstrap\<close>

definition outcome_value :: "pair_outcome \<Rightarrow> rat" where
  "outcome_value k = (case k of Candidate_Win \<Rightarrow> 1 | Baseline_Win \<Rightarrow> - 1 | Tie \<Rightarrow> 0)"

text \<open>One sample: as many draws with replacement as there are values.\<close>

fun resample :: "nat \<Rightarrow> rat list \<Rightarrow> nat \<Rightarrow> rat \<times> nat" where
  "resample 0 xs st = (0, st)"
| "resample (Suc n) xs st =
     (case resample n xs st of (total_value, st) \<Rightarrow>
        case draw (length xs) st of (i, st) \<Rightarrow> (total_value + xs ! i, st))"

fun bootstrap :: "nat \<Rightarrow> rat list \<Rightarrow> nat \<Rightarrow> rat list" where
  "bootstrap 0 xs st = []"
| "bootstrap (Suc n) xs st =
     (case resample (length xs) xs st of (total_value, st) \<Rightarrow> total_value / of_nat (length xs) # bootstrap n xs st)"

definition bootstrap_count :: "rat \<Rightarrow> nat" where
  "bootstrap_count samples = nat (max 200 (min (20 * 1000) \<lfloor>samples\<rfloor>))"

definition hex_seed :: "string \<Rightarrow> nat" where
  "hex_seed s = (case radix_value 16 0 (take 8 s) of None \<Rightarrow> 0 | Some n \<Rightarrow> n mod 2 ^ 32)"

subsection \<open>The comparison\<close>

record comparison_report =
  co_suite :: "string \<times> string \<times> string"
  co_baseline :: "string \<times> string \<times> string option"
  co_candidate :: "string \<times> string \<times> string option"
  co_pairs :: "comparison_pair list"
  co_candidate_wins :: nat
  co_baseline_wins :: nat
  co_ties :: nat
  co_advantage :: "rat option"
  co_interval :: "(rat \<times> rat) option"
  co_baseline_pass_rate :: "rat option"
  co_candidate_pass_rate :: "rat option"
  co_baseline_mean_score :: "rat option"
  co_candidate_mean_score :: "rat option"
  co_interpretation :: string

text \<open>\<open>descriptor\<close>: an empty version is left out.\<close>

definition report_descriptor :: "bench_report \<Rightarrow> string \<times> string \<times> string option" where
  "report_descriptor r = (br_run_id r, br_agent_id r, if br_agent_version r = Some [] then None else br_agent_version r)"

definition no_pairs_text :: string where
  "no_pairs_text = ''No comparable paired trials were found. This report provides no comparative evidence.''"

definition advantage_text :: "string \<Rightarrow> string" where
  "advantage_text who = who @ '' showed a positive paired advantage on this exact suite and trial set. The result does not establish a universal advantage outside these tasks, models, prompts, or environments.''"

definition inconclusive_text :: string where
  "inconclusive_text = ''The paired result is inconclusive at the reported bootstrap interval. More trials or a broader task suite may be needed; no universal conclusion is warranted.''"

definition interpretation_of :: "rat list \<Rightarrow> (rat \<times> rat) option \<Rightarrow> string" where
  "interpretation_of xs interval =
     (if xs = [] then no_pairs_text
      else case interval of
        None \<Rightarrow> inconclusive_text
      | Some (lo, hi) \<Rightarrow>
          if 0 < lo then advantage_text ''The candidate''
          else if hi < 0 then advantage_text ''The baseline''
          else inconclusive_text)"

definition bootstrap_interval :: "(string \<Rightarrow> string) \<Rightarrow> bench_report \<Rightarrow> bench_report \<Rightarrow> rat \<Rightarrow> rat list \<Rightarrow> (rat \<times> rat) option" where
  "bootstrap_interval sha base cand samples xs =
     (if xs = [] then None
      else
       (let seed = hex_seed (sha (br_run_id base @ [CHR 0x00] @ br_run_id cand @ [CHR 0x00] @ br_suite_digest base));
            drawn = bootstrap (bootstrap_count samples) xs seed
        in Some (percentile drawn (25 / 1000), percentile drawn (975 / 1000))))"

definition compare_benchmark_reports ::
  "(string \<Rightarrow> string) \<Rightarrow> (string \<Rightarrow> string \<Rightarrow> int) \<Rightarrow> bench_report \<Rightarrow> bench_report \<Rightarrow> rat \<Rightarrow> string + comparison_report" where
  "compare_benchmark_reports sha collate base cand samples =
     (if br_suite_id base \<noteq> br_suite_id cand \<or> br_suite_revision base \<noteq> br_suite_revision cand \<or>
         br_suite_digest base \<noteq> br_suite_digest cand
      then Inl ''Benchmark reports must use the same suite id, revision, and digest.''
      else if br_seed base \<noteq> br_seed cand then Inl ''Paired benchmark reports must use the same run-level seed.''
      else
       (let pairs = paired_trials collate base cand;
            xs = map (outcome_value \<circ> cp_outcome) pairs;
            interval = bootstrap_interval sha base cand samples xs
        in Inr
          \<lparr>co_suite = (br_suite_id base, br_suite_revision base, br_suite_digest base),
           co_baseline = report_descriptor base, co_candidate = report_descriptor cand, co_pairs = pairs,
           co_candidate_wins = length (filter (\<lambda>x. 0 < x) xs), co_baseline_wins = length (filter (\<lambda>x. x < 0) xs),
           co_ties = length (filter (\<lambda>x. x = 0) xs), co_advantage = mean_of xs, co_interval = interval,
           co_baseline_pass_rate = rate_of (map (fst \<circ> cp_baseline) pairs),
           co_candidate_pass_rate = rate_of (map (fst \<circ> cp_candidate) pairs),
           co_baseline_mean_score = mean_of (map (fst \<circ> snd \<circ> cp_baseline) pairs),
           co_candidate_mean_score = mean_of (map (fst \<circ> snd \<circ> cp_candidate) pairs),
           co_interpretation = interpretation_of xs interval\<rparr>))"

subsection \<open>Percentiles\<close>

text \<open>The line through the sorted values, at a position between the first and the last.\<close>

definition rank_line :: "rat list \<Rightarrow> rat \<Rightarrow> rat" where
  "rank_line s x = s ! nat \<lfloor>x\<rfloor> + (s ! nat \<lceil>x\<rceil> - s ! nat \<lfloor>x\<rfloor>) * (x - of_int \<lfloor>x\<rfloor>)"

lemma percentile_line:
  assumes "xs \<noteq> []" "0 \<le> p"
  shows "percentile xs p = rank_line (sort xs) (of_nat (length xs - 1) * p)"
proof -
  let ?x = "of_nat (length xs - 1) * p"
  have nn: "0 \<le> \<lfloor>?x\<rfloor>" using assms(2) by simp
  have "sort xs \<noteq> []" using assms(1) by (metis length_0_conv length_sort)
  then show ?thesis using nn by (simp add: percentile_def rank_line_def Let_def)
qed

lemma line_bounds:
  assumes "sorted s" "0 \<le> x" "x \<le> of_nat (length s - 1)" "s \<noteq> []"
  shows "s ! nat \<lfloor>x\<rfloor> \<le> rank_line s x" "rank_line s x \<le> s ! nat \<lceil>x\<rceil>"
    "nat \<lceil>x\<rceil> < length s" "nat \<lfloor>x\<rfloor> \<le> nat \<lceil>x\<rceil>"
proof -
  have "\<lceil>x\<rceil> \<le> int (length s - 1)" using assms(3) by (simp add: ceiling_le_iff)
  then show upper: "nat \<lceil>x\<rceil> < length s" using assms(4) by (cases s) auto
  show le: "nat \<lfloor>x\<rfloor> \<le> nat \<lceil>x\<rceil>" by (intro nat_mono floor_le_ceiling)
  have mono: "s ! nat \<lfloor>x\<rfloor> \<le> s ! nat \<lceil>x\<rceil>" using assms(1) le upper by (rule sorted_nth_mono)
  have part: "0 \<le> x - of_int \<lfloor>x\<rfloor>" "x - of_int \<lfloor>x\<rfloor> \<le> 1" by (simp_all) linarith
  then show "s ! nat \<lfloor>x\<rfloor> \<le> rank_line s x" using mono by (simp add: rank_line_def)
  have "(s ! nat \<lceil>x\<rceil> - s ! nat \<lfloor>x\<rfloor>) * (x - of_int \<lfloor>x\<rfloor>) \<le> (s ! nat \<lceil>x\<rceil> - s ! nat \<lfloor>x\<rfloor>) * 1"
    using mono part by (intro mult_left_mono) simp_all
  then show "rank_line s x \<le> s ! nat \<lceil>x\<rceil>" by (simp add: rank_line_def)
qed

lemma line_mono:
  assumes "sorted s" "0 \<le> x" "x \<le> y" "y \<le> of_nat (length s - 1)" "s \<noteq> []"
  shows "rank_line s x \<le> rank_line s y"
proof (cases "\<lfloor>x\<rfloor> = \<lfloor>y\<rfloor>")
  case True
  note bx = line_bounds [OF assms(1,2) _ assms(5)] and by_ = line_bounds [OF assms(1) _ assms(4,5)]
  show ?thesis
  proof (cases "x = of_int \<lfloor>x\<rfloor>")
    case int: True
    then have "rank_line s x = s ! nat \<lfloor>y\<rfloor>" using True by (simp add: rank_line_def)
    then show ?thesis using by_(1) assms by simp
  next
    case False
    have c: "\<lceil>x\<rceil> = \<lfloor>x\<rfloor> + 1" using False by (simp add: ceiling_altdef)
    have "y \<noteq> of_int \<lfloor>y\<rfloor>" using assms(3) False True by (metis floor_less_iff floor_of_int le_less less_le_not_le of_int_floor_le order.trans)
    then have "\<lceil>y\<rceil> = \<lceil>x\<rceil>" using c True by (simp add: ceiling_altdef)
    moreover have "s ! nat \<lfloor>x\<rfloor> \<le> s ! nat \<lceil>x\<rceil>"
      using bx(3,4) assms by (intro sorted_nth_mono) simp_all
    ultimately show ?thesis using True assms(3) by (simp add: rank_line_def mult_left_mono)
  qed
next
  case False
  then have "\<lfloor>x\<rfloor> < \<lfloor>y\<rfloor>" using floor_mono [OF assms(3)] by simp
  moreover have "\<lceil>x\<rceil> \<le> \<lfloor>x\<rfloor> + 1" by linarith
  ultimately have "\<lceil>x\<rceil> \<le> \<lfloor>y\<rfloor>" by linarith
  then have le: "nat \<lceil>x\<rceil> \<le> nat \<lfloor>y\<rfloor>" by (rule nat_mono)
  have "rank_line s x \<le> s ! nat \<lceil>x\<rceil>" using line_bounds(2) [OF assms(1,2) _ assms(5)] assms(3,4) by simp
  also have "\<dots> \<le> s ! nat \<lfloor>y\<rfloor>"
    using le line_bounds(3,4) [OF assms(1) _ assms(4,5)] assms(2,3) by (intro sorted_nth_mono [OF assms(1)]) auto
  also have "\<dots> \<le> rank_line s y" using line_bounds(1) [OF assms(1) _ assms(4,5)] assms(2,3) by simp
  finally show ?thesis .
qed

lemma percentile_mono:
  assumes "xs \<noteq> []" "0 \<le> p" "p \<le> q" "q \<le> 1"
  shows "percentile xs p \<le> percentile xs q"
proof -
  let ?n = "of_nat (length xs - 1) :: rat"
  have "sort xs \<noteq> []" using assms(1) by (metis length_0_conv length_sort)
  moreover have "?n * q \<le> of_nat (length (sort xs) - 1)" using mult_left_mono [OF assms(4), of ?n] by simp
  ultimately show ?thesis
    using assms by (simp add: percentile_line del: of_nat_diff) (intro line_mono, simp_all add: mult_left_mono)
qed

lemma percentile_bounds:
  assumes "xs \<noteq> []" "0 \<le> p" "p \<le> 1" "\<forall>x \<in> set xs. a \<le> x \<and> x \<le> b"
  shows "a \<le> percentile xs p \<and> percentile xs p \<le> b"
proof -
  let ?x = "of_nat (length xs - 1) * p :: rat" and ?s = "sort xs"
  have s: "?s \<noteq> []" using assms(1) by (metis length_0_conv length_sort)
  have "?x \<le> of_nat (length ?s - 1)" using mult_left_mono [OF assms(3), of "of_nat (length xs - 1) :: rat"] by simp
  moreover have "0 \<le> ?x" using assms(2) by simp
  ultimately have line: "?s ! nat \<lfloor>?x\<rfloor> \<le> rank_line ?s ?x" "rank_line ?s ?x \<le> ?s ! nat \<lceil>?x\<rceil>" "nat \<lceil>?x\<rceil> < length ?s" "nat \<lfloor>?x\<rfloor> < length ?s"
    using line_bounds [of ?s ?x] s by simp_all
  from line(3) nth_mem have "?s ! nat \<lceil>?x\<rceil> \<in> set xs" by (metis set_sort)
  moreover from line(4) nth_mem have "?s ! nat \<lfloor>?x\<rfloor> \<in> set xs" by (metis set_sort)
  ultimately show ?thesis using line(1,2) assms(4) percentile_line [OF assms(1,2)] by fastforce
qed

subsection \<open>Properties\<close>

lemma resample_bounds:
  assumes "xs \<noteq> []" "\<forall>x \<in> set xs. - 1 \<le> x \<and> x \<le> (1 :: rat)"
  shows "- of_nat n \<le> fst (resample n xs st) \<and> fst (resample n xs st) \<le> of_nat n"
proof (induction n arbitrary: st)
  case (Suc n)
  obtain v st1 where v: "resample n xs st = (v, st1)" by fastforce
  obtain i st2 where i: "draw (length xs) st1 = (i, st2)" by fastforce
  have "i < length xs" using draw_less [of "length xs" st1] i assms(1) by simp
  then have "xs ! i \<in> set xs" by simp
  then have "- 1 \<le> xs ! i" "xs ! i \<le> 1" using assms(2) by blast+
  moreover have "- of_nat n \<le> v" "v \<le> of_nat n" using Suc [of st] v by simp_all
  ultimately show ?case using v i by simp
qed simp

lemma bootstrap_bounds:
  assumes "xs \<noteq> []" "\<forall>x \<in> set xs. - 1 \<le> x \<and> x \<le> (1 :: rat)"
  shows "\<forall>x \<in> set (bootstrap n xs st). - 1 \<le> x \<and> x \<le> 1"
proof (induction n arbitrary: st)
  case (Suc n)
  obtain v st1 where v: "resample (length xs) xs st = (v, st1)" by fastforce
  have "0 < (of_nat (length xs) :: rat)" using assms(1) by simp
  moreover have "- of_nat (length xs) \<le> v" "v \<le> of_nat (length xs)"
    using resample_bounds [OF assms, of "length xs" st] v by simp_all
  ultimately have "- 1 \<le> v / of_nat (length xs) \<and> v / of_nat (length xs) \<le> 1" by (simp add: le_divide_eq divide_le_eq)
  then show ?case using Suc [of st1] v by simp
qed simp

lemma length_bootstrap [simp]: "length (bootstrap n xs st) = n"
  by (induction n xs st rule: bootstrap.induct) (simp_all split: prod.split)

lemma outcome_values: "outcome_value k \<in> {- 1, 0, 1}"
  by (cases k) (simp_all add: outcome_value_def)

lemma mean_bounds:
  assumes "\<forall>x \<in> set xs. - 1 \<le> x \<and> x \<le> (1 :: rat)"
  shows "pred_option (\<lambda>m. - 1 \<le> m \<and> m \<le> 1) (mean_of xs)"
proof -
  have "- of_nat (length xs) \<le> sum_list xs \<and> sum_list xs \<le> of_nat (length xs)"
    using assms by (induction xs) auto
  then show ?thesis by (auto simp: mean_of_def le_divide_eq divide_le_eq)
qed

lemma rate_bounds: "pred_option (\<lambda>r. 0 \<le> r \<and> r \<le> 1) (rate_of bs)"
  by (simp add: rate_of_def divide_le_eq length_filter_le)

lemma count_outcomes:
  "length (filter (\<lambda>x. 0 < x) xs) + length (filter (\<lambda>x. x < 0) xs) + length (filter (\<lambda>x. x = 0) xs) = length (xs :: rat list)"
  by (induction xs) auto

lemma bootstrap_count_pos: "0 < bootstrap_count samples"
  by (simp add: bootstrap_count_def)

lemma bootstrap_interval_bounds:
  assumes "xs \<noteq> []" "\<forall>x \<in> set xs. - 1 \<le> x \<and> x \<le> 1"
  shows "\<exists>lo hi. bootstrap_interval sha base cand samples xs = Some (lo, hi) \<and> - 1 \<le> lo \<and> lo \<le> hi \<and> hi \<le> 1"
proof -
  define drawn where "drawn = bootstrap (bootstrap_count samples) xs
    (hex_seed (sha (br_run_id base @ [CHR 0x00] @ br_run_id cand @ [CHR 0x00] @ br_suite_digest base)))"
  have nonempty: "drawn \<noteq> []"
    using bootstrap_count_pos [of samples] unfolding drawn_def by (metis length_bootstrap less_numeral_extra(3) list.size(3))
  have bounds: "\<forall>x \<in> set drawn. - 1 \<le> x \<and> x \<le> 1" unfolding drawn_def by (rule bootstrap_bounds [OF assms])
  have "bootstrap_interval sha base cand samples xs = Some (percentile drawn (25 / 1000), percentile drawn (975 / 1000))"
    using assms(1) unfolding bootstrap_interval_def drawn_def by (simp only: if_False Let_def)
  moreover have "- 1 \<le> percentile drawn (25 / 1000)" "percentile drawn (975 / 1000) \<le> 1"
    using percentile_bounds [OF nonempty _ _ bounds, of "25 / 1000"] percentile_bounds [OF nonempty _ _ bounds, of "975 / 1000"]
    by simp_all
  moreover have "percentile drawn (25 / 1000) \<le> percentile drawn (975 / 1000)" by (rule percentile_mono [OF nonempty]) simp_all
  ultimately show ?thesis by blast
qed

lemma candidate_verdict:
  "interpretation_of xs interval = advantage_text ''The candidate'' \<longleftrightarrow> xs \<noteq> [] \<and> (\<exists>lo hi. interval = Some (lo, hi) \<and> 0 < lo)"
proof -
  have "inconclusive_text \<noteq> advantage_text ''The candidate''" "advantage_text ''The baseline'' \<noteq> advantage_text ''The candidate''"
    "no_pairs_text \<noteq> advantage_text ''The candidate''"
    by (simp_all add: inconclusive_text_def advantage_text_def no_pairs_text_def)
  then show ?thesis unfolding interpretation_of_def by (auto split: option.split)
qed


lemma compared_pairs: "compare_benchmark_reports sha collate base cand samples = Inr r \<Longrightarrow> co_pairs r = paired_trials collate base cand"
  unfolding compare_benchmark_reports_def Let_def by (auto split: if_splits)

definition example_report :: "bool \<Rightarrow> bench_report" where
  "example_report ok = \<lparr>br_run_id = ''r'', br_suite_id = ''s'', br_suite_revision = ''1'', br_suite_digest = ''d'',
     br_agent_id = ''a'', br_agent_version = None, br_seed = 1,
     br_trials = [\<lparr>tr_task_id = ''t'', tr_task_digest = ''d'', tr_trial = 1, tr_trial_seed = 7, tr_passed = ok,
       tr_score = 1 / 2, tr_duration_ms = 3\<rparr>]\<rparr>"

definition example_comparison :: "string + comparison_report" where
  "example_comparison = compare_benchmark_reports (\<lambda>s. ''00ff'') (\<lambda>a b. 0) (example_report False) (example_report True) 2000"


end
