(* ===== verification/BenchProfile.thy ===== *)
theory BenchProfile
  imports BenchTypes Paths "HOL-Library.Multiset" "HOL-Library.List_Lexorder" "HOL-Library.Char_ord"
begin

text \<open>
  Agent profiles of the benchmark (\<open>profile.ts\<close>), the canonical JSON text that digests are made of (\<open>hash.ts\<close>),
  and the check that a request does not carry oracle data (\<open>runner.ts\<close>). A \<open>TypeError\<close> is its message;
  \<open>stringify\<close> is \<open>JSON.stringify\<close> of a value that is no object.
\<close>

subsection \<open>Canonical JSON\<close>

fun all_Inr :: "('e + 'a) list \<Rightarrow> 'e + 'a list" where
  "all_Inr [] = Inr []"
| "all_Inr (x # xs) = andthen x (\<lambda>y. andthen (all_Inr xs) (\<lambda>ys. Inr (y # ys)))"

definition non_finite :: string where
  "non_finite = ''Canonical JSON does not support non-finite numbers.''"

fun canonical_json :: "(jval \<Rightarrow> string) \<Rightarrow> jval \<Rightarrow> string + string" where
  "canonical_json stringify (JArr xs) =
     andthen (all_Inr (map (canonical_json stringify) xs)) (\<lambda>ys. Inr (''['' @ join '','' ys @ '']''))"
| "canonical_json stringify (JObj kvs) =
     andthen (all_Inr (map (\<lambda>(k, r). map_sum id (\<lambda>s. stringify (JStr k) @ '':'' @ s) r)
         (sort_key fst (map (\<lambda>(k, v). (k, canonical_json stringify v)) (filter (\<lambda>(k, v). v \<noteq> JUndef) kvs)))))
       (\<lambda>ys. Inr (''{'' @ join '','' ys @ ''}''))"
| "canonical_json stringify (JNum n) = (if is_finite_num n then Inr (stringify (JNum n)) else Inl non_finite)"
| "canonical_json stringify v = Inr (stringify v)"

subsection \<open>Oracle data\<close>

definition ORACLE_KEYS :: "string list" where
  "ORACLE_KEYS = [''checks'', ''expected'', ''expected_file'', ''oracle'', ''oracle_result'', ''protected_paths'',
     ''allowed_paths'', ''suite_dir'', ''fixture_path'']"

fun leaks_oracle_data :: "jval \<Rightarrow> bool" where
  "leaks_oracle_data (JArr xs) \<longleftrightarrow> list_ex leaks_oracle_data xs"
| "leaks_oracle_data (JObj kvs) \<longleftrightarrow> list_ex (\<lambda>(k, v). to_lower k \<in> set ORACLE_KEYS \<or> leaks_oracle_data v) kvs"
| "leaks_oracle_data v \<longleftrightarrow> False"

subsection \<open>Readers\<close>

definition json_record :: "jval \<Rightarrow> string \<Rightarrow> string + jval" where
  "json_record v label = (if is_record v then Inr v else Inl (label @ '' must be a JSON object.''))"

definition bounded_text :: "jval \<Rightarrow> string \<Rightarrow> nat \<Rightarrow> string + string" where
  "bounded_text v label maximum =
     (case string_of v of
        None \<Rightarrow> Inl (label @ '' must be a non-empty string.'')
      | Some s \<Rightarrow>
          if trim s = [] then Inl (label @ '' must be a non-empty string.'')
          else if maximum < length s then Inl (label @ '' exceeds '' @ dec_str maximum @ '' characters.'')
          else Inr s)"

definition optional :: "(jval \<Rightarrow> string + 'a) \<Rightarrow> jval \<Rightarrow> string + 'a option" where
  "optional f v = (if v = JUndef then Inr None else map_sum id Some (f v))"

definition optional_text :: "jval \<Rightarrow> string \<Rightarrow> nat \<Rightarrow> string + string option" where
  "optional_text v label maximum = optional (\<lambda>v. bounded_text v label maximum) v"

definition between :: "string \<Rightarrow> rat \<Rightarrow> rat \<Rightarrow> string" where
  "between label minimum maximum = label @ '' must be between '' @ num_string (Fin minimum) @ '' and '' @ num_string (Fin maximum) @ ''.''"

definition finite_number :: "jval \<Rightarrow> string \<Rightarrow> rat \<Rightarrow> rat \<Rightarrow> string + rat" where
  "finite_number v label minimum maximum =
     (case v of
        JNum (Fin q) \<Rightarrow> if q < minimum \<or> maximum < q then Inl (between label minimum maximum) else Inr q
      | _ \<Rightarrow> Inl (between label minimum maximum))"

definition optional_finite :: "jval \<Rightarrow> string \<Rightarrow> rat \<Rightarrow> rat \<Rightarrow> string + rat option" where
  "optional_finite v label minimum maximum = optional (\<lambda>v. finite_number v label minimum maximum) v"

definition whole_number :: "jval \<Rightarrow> string \<Rightarrow> rat \<Rightarrow> rat \<Rightarrow> string + rat" where
  "whole_number v label minimum maximum =
     andthen (finite_number v label minimum maximum) (\<lambda>q.
       if q = of_int \<lfloor>q\<rfloor> then Inr q else Inl (label @ '' must be an integer.''))"

definition optional_whole :: "jval \<Rightarrow> string \<Rightarrow> rat \<Rightarrow> rat \<Rightarrow> string + rat option" where
  "optional_whole v label minimum maximum = optional (\<lambda>v. whole_number v label minimum maximum) v"

subsection \<open>Secrets\<close>

definition FORBIDDEN_WORDS :: "string list" where
  "FORBIDDEN_WORDS = [''apikey'', ''api_key'', ''api-key'', ''accesstoken'', ''access_token'', ''access-token'',
     ''refreshtoken'', ''refresh_token'', ''refresh-token'', ''authorization'', ''credential'', ''password'',
     ''privatekey'', ''private_key'', ''private-key'', ''secret'']"

text \<open>\<open>FORBIDDEN_KEYS.test(key)\<close>.\<close>

definition forbidden_key :: "string \<Rightarrow> bool" where
  "forbidden_key key \<longleftrightarrow> list_ex (contains (to_lower key)) FORBIDDEN_WORDS"

definition secret_error :: "string \<Rightarrow> string \<Rightarrow> string" where
  "secret_error location key = location @ ''.'' @ key @
     '' looks like a secret-bearing field and must not be stored in a benchmark profile.''"

lemma in_enumerate: "(i, x) \<in> set (List.enumerate n xs) \<Longrightarrow> x \<in> set xs"
  by (simp add: enumerate_eq_zip set_zip_rightD)

function reject_secrets :: "string \<Rightarrow> jval \<Rightarrow> string + unit" where
  "reject_secrets location v =
     (case v of
        JArr xs \<Rightarrow> map_sum id (\<lambda>us. ())
          (all_Inr (map (\<lambda>(i, x). reject_secrets (location @ ''['' @ dec_str i @ '']'') x) (List.enumerate 0 xs)))
      | JObj kvs \<Rightarrow> map_sum id (\<lambda>us. ()) (all_Inr (map (\<lambda>(k, x).
          if forbidden_key k then Inl (secret_error location k) else reject_secrets (location @ ''.'' @ k) x) kvs))
      | _ \<Rightarrow> Inr ())"
  by pat_completeness auto
termination
proof (relation "measure (\<lambda>(location, v). size v)", goal_cases)
  case (2 location v xs pr i x)
  then have "x \<in> set xs" by (metis in_enumerate)
  then have "size x \<le> size_list size xs" by (rule size_list_estimation') simp
  then show ?case using 2 by simp
next
  case (3 location v kvs pr k x)
  then have "(k, x) \<in> set kvs" by simp
  then have "size x \<le> size_list (size_prod (\<lambda>k. 0) size) kvs" by (rule size_list_estimation') simp
  then show ?case using 3 by simp
qed simp

declare reject_secrets.simps [simp del]

subsection \<open>Profiles\<close>

record agent_profile =
  ap_id :: string
  ap_revision :: string
  ap_label :: string
  ap_kind :: string
  ap_tool_profile :: string
  ap_prompt_policy :: string
  ap_pairing_key :: "string option"
  ap_provider :: "string option"
  ap_model :: "string option"
  ap_model_version :: "string option"
  ap_temperature :: "rat option"
  ap_top_p :: "rat option"
  ap_max_context_tokens :: "rat option"
  ap_cross_trial_memory :: "string option"
  ap_network_access :: "string option"
  ap_description :: "string option"
  ap_notes :: "string list option"

definition PROFILE_KINDS :: "string list" where
  "PROFILE_KINDS = [''deterministic_harness_probe'', ''llm_experiment'', ''custom'']"

definition ACCESS_POLICIES :: "string list" where
  "ACCESS_POLICIES = [''disabled'', ''enabled'', ''unknown'']"

definition is_id_char :: "char \<Rightarrow> bool" where
  "is_id_char c \<longleftrightarrow> (let n = (of_char c :: nat) in
     48 \<le> n \<and> n \<le> 57 \<or> 65 \<le> n \<and> n \<le> 90 \<or> 97 \<le> n \<and> n \<le> 122)"

text \<open>\<open>/^[A-Za-z0-9][A-Za-z0-9._-]{0,127}$/u\<close>.\<close>

definition id_pattern :: "string \<Rightarrow> bool" where
  "id_pattern s \<longleftrightarrow> s \<noteq> [] \<and> length s \<le> 128 \<and> is_id_char (hd s) \<and>
     list_all (\<lambda>c. is_id_char c \<or> c \<in> {CHR ''.'', CHR ''_'', CHR ''-''}) (tl s)"

definition checked :: "'e \<Rightarrow> bool \<Rightarrow> 'e + unit" where
  "checked e b = (if b then Inr () else Inl e)"

definition policy_text :: "jval \<Rightarrow> string \<Rightarrow> string + string option" where
  "policy_text v label =
     optional (\<lambda>v. andthen (bounded_text v label 32) (\<lambda>s.
       if s \<in> set ACCESS_POLICIES then Inr s else Inl (''Unsupported '' @ label @ '': '' @ s))) v"

definition notes_error :: string where
  "notes_error = ''profile.notes must be an array with at most 64 entries.''"

definition read_notes :: "jval list \<Rightarrow> string + string list" where
  "read_notes xs = all_Inr (map (\<lambda>(i, x). bounded_text x (''profile.notes['' @ dec_str i @ '']'') 2048) (List.enumerate 0 xs))"

definition notes_of :: "jval \<Rightarrow> string + string list option" where
  "notes_of v =
     optional (\<lambda>v. case array_of v of
        None \<Rightarrow> Inl notes_error
      | Some xs \<Rightarrow> if 64 < length xs then Inl notes_error else read_notes xs) v"

definition validate_benchmark_agent_profile :: "jval \<Rightarrow> string + agent_profile" where
  "validate_benchmark_agent_profile v =
     andthen (reject_secrets ''profile'' v) (\<lambda>_.
     andthen (json_record v ''benchmark agent profile'') (\<lambda>input.
     andthen (checked ''benchmark agent profile schema_version must be 1.0.'' (get_prop input ''schema_version'' = JStr ''1.0'')) (\<lambda>_.
     andthen (bounded_text (get_prop input ''id'') ''profile.id'' 128) (\<lambda>ident.
     andthen (checked ''profile.id must use letters, digits, dot, underscore, or hyphen.'' (id_pattern ident)) (\<lambda>_.
     andthen (bounded_text (get_prop input ''revision'') ''profile.revision'' 128) (\<lambda>revision.
     andthen (bounded_text (get_prop input ''label'') ''profile.label'' 256) (\<lambda>label.
     andthen (bounded_text (get_prop input ''kind'') ''profile.kind'' 64) (\<lambda>kind.
     andthen (checked (''Unsupported profile.kind: '' @ kind) (kind \<in> set PROFILE_KINDS)) (\<lambda>_.
     andthen (bounded_text (get_prop input ''tool_profile'') ''profile.tool_profile'' 256) (\<lambda>tool_profile.
     andthen (bounded_text (get_prop input ''prompt_policy'') ''profile.prompt_policy'' 256) (\<lambda>prompt_policy.
     andthen (optional_text (get_prop input ''pairing_key'') ''profile.pairing_key'' 256) (\<lambda>pairing_key.
     andthen (optional_text (get_prop input ''provider'') ''profile.provider'' 256) (\<lambda>provider.
     andthen (optional_text (get_prop input ''model'') ''profile.model'' 256) (\<lambda>model.
     andthen (optional_text (get_prop input ''model_version'') ''profile.model_version'' 256) (\<lambda>model_version.
     andthen (optional_finite (get_prop input ''temperature'') ''profile.temperature'' 0 100) (\<lambda>temperature.
     andthen (optional_finite (get_prop input ''top_p'') ''profile.top_p'' 0 1) (\<lambda>top_p.
     andthen (optional_whole (get_prop input ''max_context_tokens'') ''profile.max_context_tokens'' 1 (100 * 1000 * 1000)) (\<lambda>max_context_tokens.
     andthen (policy_text (get_prop input ''cross_trial_memory'') ''profile.cross_trial_memory'') (\<lambda>cross_trial_memory.
     andthen (policy_text (get_prop input ''network_access'') ''profile.network_access'') (\<lambda>network_access.
     andthen (notes_of (get_prop input ''notes'')) (\<lambda>notes.
     andthen (optional_text (get_prop input ''description'') ''profile.description'' 8192) (\<lambda>description.
       Inr \<lparr>ap_id = ident, ap_revision = revision, ap_label = label, ap_kind = kind, ap_tool_profile = tool_profile,
         ap_prompt_policy = prompt_policy, ap_pairing_key = pairing_key, ap_provider = provider, ap_model = model,
         ap_model_version = model_version, ap_temperature = temperature, ap_top_p = top_p,
         ap_max_context_tokens = max_context_tokens, ap_cross_trial_memory = cross_trial_memory,
         ap_network_access = network_access, ap_description = description, ap_notes = notes\<rparr>))))))))))))))))))))))"

text \<open>The profile as the object that is returned.\<close>

definition profile_json :: "agent_profile \<Rightarrow> jval" where
  "profile_json p = JObj
     ([(''schema_version'', JStr ''1.0''), (''id'', JStr (ap_id p)), (''revision'', JStr (ap_revision p)),
       (''label'', JStr (ap_label p)), (''kind'', JStr (ap_kind p)), (''tool_profile'', JStr (ap_tool_profile p)),
       (''prompt_policy'', JStr (ap_prompt_policy p))] @
      opt_entry ''pairing_key'' JStr (ap_pairing_key p) @ opt_entry ''provider'' JStr (ap_provider p) @
      opt_entry ''model'' JStr (ap_model p) @ opt_entry ''model_version'' JStr (ap_model_version p) @
      opt_entry ''temperature'' (\<lambda>q. JNum (Fin q)) (ap_temperature p) @ opt_entry ''top_p'' (\<lambda>q. JNum (Fin q)) (ap_top_p p) @
      opt_entry ''max_context_tokens'' (\<lambda>q. JNum (Fin q)) (ap_max_context_tokens p) @
      opt_entry ''cross_trial_memory'' JStr (ap_cross_trial_memory p) @
      opt_entry ''network_access'' JStr (ap_network_access p) @ opt_entry ''description'' JStr (ap_description p) @
      opt_entry ''notes'' (\<lambda>ns. JArr (map JStr ns)) (ap_notes p))"

record loaded_profile =
  lp_profile :: agent_profile
  lp_path :: string
  lp_digest :: string

text \<open>\<open>loadBenchmarkAgentProfile\<close>: \<open>stat\<close> and \<open>content\<close> are what \<open>lstat\<close> and the parsed file give.\<close>

definition load_benchmark_agent_profile ::
  "(string \<Rightarrow> string) \<Rightarrow> (jval \<Rightarrow> string) \<Rightarrow> string \<Rightarrow> string \<Rightarrow> file_stat \<Rightarrow> jval \<Rightarrow> string + loaded_profile" where
  "load_benchmark_agent_profile sha stringify cwd file_name stat content =
     (if fs_kind stat \<noteq> Regular_File then Inl ''Benchmark agent profile must be a regular, non-symbolic-link JSON file.''
      else
        andthen (validate_benchmark_agent_profile content) (\<lambda>p.
        andthen (canonical_json stringify (profile_json p)) (\<lambda>s.
          Inr \<lparr>lp_profile = p, lp_path = path_resolve cwd file_name, lp_digest = sha s\<rparr>)))"

definition benchmark_agent_profile_descriptor :: "loaded_profile \<Rightarrow> jval" where
  "benchmark_agent_profile_descriptor l = JObj (spread (fields_of (profile_json (lp_profile l)))
     [(''digest'', JStr (lp_digest l)), (''source_file'', JStr (path_basename (lp_path l)))])"

definition COMPARABLE_FIELDS :: "string list" where
  "COMPARABLE_FIELDS = [''kind'', ''provider'', ''model'', ''model_version'', ''prompt_policy'', ''temperature'', ''top_p'',
     ''max_context_tokens'', ''cross_trial_memory'', ''network_access'']"

definition no_key :: "string option \<Rightarrow> bool" where
  "no_key k \<longleftrightarrow> k = None \<or> k = Some []"

definition assert_paired_benchmark_profiles :: "loaded_profile \<Rightarrow> loaded_profile \<Rightarrow> string + unit" where
  "assert_paired_benchmark_profiles base cand =
     (let b = lp_profile base; c = lp_profile cand in
      if no_key (ap_pairing_key b) \<or> no_key (ap_pairing_key c)
      then Inl ''Paired LLM experiments require pairing_key in both agent profiles.''
      else if ap_pairing_key b \<noteq> ap_pairing_key c then Inl ''Paired agent profiles must use the same pairing_key.''
      else
       (case find (\<lambda>f. \<not> strict_eq (get_prop (profile_json b) f) (get_prop (profile_json c) f)) COMPARABLE_FIELDS of
          Some f \<Rightarrow> Inl (''Paired agent profiles differ in '' @ f @
            ''. Only the tool profile should differ in a controlled comparison.'')
        | None \<Rightarrow>
            if ap_tool_profile b = ap_tool_profile c
            then Inl ''Paired agent profiles must use different tool_profile values.'' else Inr ()))"

subsection \<open>Properties\<close>

lemma all_Inr_iff: "all_Inr xs = Inr ys \<longleftrightarrow> xs = map Inr ys"
  by (induction xs arbitrary: ys) (auto simp: andthen_eq_Inr)

text \<open>The keys of all objects in a value.\<close>

fun keys_of :: "jval \<Rightarrow> string list" where
  "keys_of (JArr xs) = concat (map keys_of xs)"
| "keys_of (JObj kvs) = concat (map (\<lambda>(k, v). k # keys_of v) kvs)"
| "keys_of v = []"

lemma all_unit: "map_sum id (\<lambda>us. ()) (all_Inr (rs :: ('e + unit) list)) = Inr () \<longleftrightarrow> list_all (\<lambda>r. r = Inr ()) rs"
proof -
  have "(\<exists>us. all_Inr rs = Inr us) \<longleftrightarrow> list_all (\<lambda>r. r = Inr ()) rs"
    by (induction rs) (auto simp: andthen_def split: sum.splits)
  moreover have "map_sum id (\<lambda>us. ()) r = Inr () \<longleftrightarrow> (\<exists>us. r = Inr us)" for r :: "'e + unit list" by (cases r) auto
  ultimately show ?thesis by blast
qed

lemma all_enumerate: "(\<forall>(i, x) \<in> set (List.enumerate n xs). P x) \<longleftrightarrow> (\<forall>x \<in> set xs. P x)"
proof -
  have "set xs = snd ` set (List.enumerate n xs)" by (metis list.set_map map_snd_enumerate)
  then show ?thesis by (simp add: split_beta)
qed

lemma reject_secrets_iff: "reject_secrets location v = Inr () \<longleftrightarrow> list_all (\<lambda>k. \<not> forbidden_key k) (keys_of v)"
proof (induction location v rule: reject_secrets.induct)
  case (1 location v)
  show ?case
  proof (cases v)
    case (JArr xs)
    have "reject_secrets (location @ ''['' @ dec_str i @ '']'') x = Inr () \<longleftrightarrow> list_all (\<lambda>k. \<not> forbidden_key k) (keys_of x)"
      if "(i, x) \<in> set (List.enumerate 0 xs)" for i x
      using "1.IH"(1) [OF JArr that refl] .
    moreover have "reject_secrets location v = map_sum id (\<lambda>us. ())
        (all_Inr (map (\<lambda>(i, x). reject_secrets (location @ ''['' @ dec_str i @ '']'') x) (List.enumerate 0 xs)))"
      by (subst reject_secrets.simps) (simp only: JArr jval.case)
    ultimately have "reject_secrets location v = Inr () \<longleftrightarrow>
        (\<forall>(i, x) \<in> set (List.enumerate 0 xs). list_all (\<lambda>k. \<not> forbidden_key k) (keys_of x))"
      by (simp only: all_unit list_all_iff set_map) auto
    also have "\<dots> \<longleftrightarrow> (\<forall>x \<in> set xs. list_all (\<lambda>k. \<not> forbidden_key k) (keys_of x))" by (rule all_enumerate)
    finally show ?thesis using JArr by (auto simp: list_all_iff)
  next
    case (JObj kvs)
    have "reject_secrets (location @ ''.'' @ k) x = Inr () \<longleftrightarrow> list_all (\<lambda>k. \<not> forbidden_key k) (keys_of x)"
      if "(k, x) \<in> set kvs" "\<not> forbidden_key k" for k x
      using "1.IH"(2) [OF JObj that(1) refl that(2)] .
    moreover have "reject_secrets location v = map_sum id (\<lambda>us. ()) (all_Inr (map (\<lambda>(k, x).
        if forbidden_key k then Inl (secret_error location k) else reject_secrets (location @ ''.'' @ k) x) kvs))"
      by (subst reject_secrets.simps) (simp only: JObj jval.case)
    ultimately have "reject_secrets location v = Inr () \<longleftrightarrow>
        (\<forall>(k, x) \<in> set kvs. \<not> forbidden_key k \<and> list_all (\<lambda>k. \<not> forbidden_key k) (keys_of x))"
      by (simp only: all_unit list_all_iff set_map) (auto split: if_splits)
    then show ?thesis using JObj by (auto simp: list_all_iff)
  qed (simp_all add: reject_secrets.simps)
qed

lemma optional_again:
  assumes "optional f v = Inr r" "\<And>x y. f x = Inr y \<Longrightarrow> f (g y) = Inr y \<and> g y \<noteq> JUndef"
  shows "optional f (entry_value g r) = Inr r"
proof (cases "v = JUndef")
  case True
  then show ?thesis using assms(1) by (auto simp: optional_def entry_value_def)
next
  case False
  then obtain y where "f v = Inr y" "r = Some y" using assms(1) by (cases "f v") (auto simp: optional_def)
  with assms(2) [of v y] show ?thesis by (simp add: optional_def entry_value_def)
qed

lemma bounded_text_again: "bounded_text v label n = Inr s \<Longrightarrow> bounded_text (JStr s) label n = Inr s"
  by (auto simp: bounded_text_def split: option.splits if_splits)

lemma optional_text_again: "optional_text v label n = Inr r \<Longrightarrow> optional_text (entry_value JStr r) label n = Inr r"
  unfolding optional_text_def by (erule optional_again) (simp add: bounded_text_again)

lemma finite_number_again: "finite_number v label a b = Inr q \<Longrightarrow> finite_number (JNum (Fin q)) label a b = Inr q"
  by (auto simp: finite_number_def split: jval.splits jnum.splits if_splits)

lemma optional_finite_again:
  "optional_finite v label a b = Inr r \<Longrightarrow> optional_finite (entry_value (\<lambda>q. JNum (Fin q)) r) label a b = Inr r"
  unfolding optional_finite_def by (erule optional_again) (simp add: finite_number_again)

lemma optional_whole_again:
  "optional_whole v label a b = Inr r \<Longrightarrow> optional_whole (entry_value (\<lambda>q. JNum (Fin q)) r) label a b = Inr r"
  unfolding optional_whole_def
  by (erule optional_again) (auto simp: whole_number_def andthen_eq_Inr finite_number_again split: if_splits)

lemma policy_text_again: "policy_text v label = Inr r \<Longrightarrow> policy_text (entry_value JStr r) label = Inr r"
  unfolding policy_text_def
  by (erule optional_again) (auto simp: andthen_eq_Inr bounded_text_again split: if_splits)

lemma read_notes_again:
  assumes "read_notes xs = Inr ys"
  shows "read_notes (map JStr ys) = Inr ys \<and> length ys = length xs"
proof -
  have "map (\<lambda>(i, x). bounded_text x (l i) 2048) (List.enumerate n xs) = map Inr ys \<Longrightarrow>
      map (\<lambda>(i, x). bounded_text x (l i) 2048) (List.enumerate n (map JStr ys)) = map Inr ys \<and> length ys = length xs" for l n
    by (induction xs arbitrary: n ys) (auto simp: bounded_text_again Cons_eq_map_conv)
  from this [of "\<lambda>i. ''profile.notes['' @ dec_str i @ '']''" 0] show ?thesis
    using assms unfolding read_notes_def all_Inr_iff by (simp only: simp_thms)
qed

lemma notes_again: "notes_of v = Inr r \<Longrightarrow> notes_of (entry_value (\<lambda>ns. JArr (map JStr ns)) r) = Inr r"
  unfolding notes_of_def by (erule optional_again) (auto dest: read_notes_again split: option.splits if_splits)

text \<open>The names of the fields of a profile are no secrets.\<close>

lemma profile_keys: "list_all (\<lambda>k. \<not> forbidden_key k) (keys_of (profile_json p))"
proof -
  have names: "list_all (\<lambda>k. \<not> forbidden_key k) [''schema_version'', ''id'', ''revision'', ''label'', ''kind'', ''tool_profile'',
      ''prompt_policy'', ''pairing_key'', ''provider'', ''model'', ''model_version'', ''temperature'', ''top_p'',
      ''max_context_tokens'', ''cross_trial_memory'', ''network_access'', ''description'', ''notes'']"
    by code_simp
  have entry: "concat (map (\<lambda>(k, v). k # keys_of v) (opt_entry key f o')) = (case o' of None \<Rightarrow> [] | Some x \<Rightarrow> key # keys_of (f x))" for key o' and f :: "'b \<Rightarrow> jval"
    by (simp add: opt_entry_def split: option.split)
  have no_keys: "keys_of (JArr (map JStr ns)) = []" for ns by (induction ns) simp_all
  show ?thesis
    using names unfolding profile_json_def keys_of.simps map_append concat_append entry
    by (auto simp: no_keys list_all_iff split: option.splits simp del: keys_of.simps(1))
qed

text \<open>What the validation reads from the fields of an accepted object.\<close>

definition fields_read :: "jval \<Rightarrow> agent_profile \<Rightarrow> bool" where
  "fields_read input p \<longleftrightarrow>
    get_prop input ''schema_version'' = JStr ''1.0'' \<and>
    bounded_text (get_prop input ''id'') ''profile.id'' 128 = Inr (ap_id p) \<and>
    id_pattern (ap_id p) \<and>
    bounded_text (get_prop input ''revision'') ''profile.revision'' 128 = Inr (ap_revision p) \<and>
    bounded_text (get_prop input ''label'') ''profile.label'' 256 = Inr (ap_label p) \<and>
    bounded_text (get_prop input ''kind'') ''profile.kind'' 64 = Inr (ap_kind p) \<and>
    ap_kind p \<in> set PROFILE_KINDS \<and>
    bounded_text (get_prop input ''tool_profile'') ''profile.tool_profile'' 256 = Inr (ap_tool_profile p) \<and>
    bounded_text (get_prop input ''prompt_policy'') ''profile.prompt_policy'' 256 = Inr (ap_prompt_policy p) \<and>
    optional_text (get_prop input ''pairing_key'') ''profile.pairing_key'' 256 = Inr (ap_pairing_key p) \<and>
    optional_text (get_prop input ''provider'') ''profile.provider'' 256 = Inr (ap_provider p) \<and>
    optional_text (get_prop input ''model'') ''profile.model'' 256 = Inr (ap_model p) \<and>
    optional_text (get_prop input ''model_version'') ''profile.model_version'' 256 = Inr (ap_model_version p) \<and>
    optional_finite (get_prop input ''temperature'') ''profile.temperature'' 0 100 = Inr (ap_temperature p) \<and>
    optional_finite (get_prop input ''top_p'') ''profile.top_p'' 0 1 = Inr (ap_top_p p) \<and>
    optional_whole (get_prop input ''max_context_tokens'') ''profile.max_context_tokens'' 1 (100 * 1000 * 1000) = Inr (ap_max_context_tokens p) \<and>
    policy_text (get_prop input ''cross_trial_memory'') ''profile.cross_trial_memory'' = Inr (ap_cross_trial_memory p) \<and>
    policy_text (get_prop input ''network_access'') ''profile.network_access'' = Inr (ap_network_access p) \<and>
    notes_of (get_prop input ''notes'') = Inr (ap_notes p) \<and>
    optional_text (get_prop input ''description'') ''profile.description'' 8192 = Inr (ap_description p)"

lemma validate_eq_Inr:
  "validate_benchmark_agent_profile v = Inr p \<longleftrightarrow>
     reject_secrets ''profile'' v = Inr () \<and>
     (\<exists>input. json_record v ''benchmark agent profile'' = Inr input \<and> fields_read input p)"
  unfolding validate_benchmark_agent_profile_def andthen_eq_Inr checked_def fields_read_def
  by (cases p) (auto split: if_splits)

lemma profile_json_fields:
  "get_prop (profile_json p) ''schema_version'' = JStr ''1.0''" "get_prop (profile_json p) ''id'' = JStr (ap_id p)"
    "get_prop (profile_json p) ''revision'' = JStr (ap_revision p)" "get_prop (profile_json p) ''label'' = JStr (ap_label p)"
    "get_prop (profile_json p) ''kind'' = JStr (ap_kind p)" "get_prop (profile_json p) ''tool_profile'' = JStr (ap_tool_profile p)"
    "get_prop (profile_json p) ''prompt_policy'' = JStr (ap_prompt_policy p)"
    "get_prop (profile_json p) ''pairing_key'' = entry_value JStr (ap_pairing_key p)"
    "get_prop (profile_json p) ''provider'' = entry_value JStr (ap_provider p)"
    "get_prop (profile_json p) ''model'' = entry_value JStr (ap_model p)"
    "get_prop (profile_json p) ''model_version'' = entry_value JStr (ap_model_version p)"
    "get_prop (profile_json p) ''temperature'' = entry_value (\<lambda>q. JNum (Fin q)) (ap_temperature p)"
    "get_prop (profile_json p) ''top_p'' = entry_value (\<lambda>q. JNum (Fin q)) (ap_top_p p)"
    "get_prop (profile_json p) ''max_context_tokens'' = entry_value (\<lambda>q. JNum (Fin q)) (ap_max_context_tokens p)"
    "get_prop (profile_json p) ''cross_trial_memory'' = entry_value JStr (ap_cross_trial_memory p)"
    "get_prop (profile_json p) ''network_access'' = entry_value JStr (ap_network_access p)"
    "get_prop (profile_json p) ''description'' = entry_value JStr (ap_description p)"
    "get_prop (profile_json p) ''notes'' = entry_value (\<lambda>ns. JArr (map JStr ns)) (ap_notes p)"
  by (simp_all add: profile_json_def entry_value_def map_add_def split: option.split)

lemma fields_read_again:
  assumes "fields_read input p"
  shows "fields_read (profile_json p) p"
proof -
  note input = assms [unfolded fields_read_def]
  show ?thesis
    unfolding fields_read_def profile_json_fields
    using input by (blast intro: bounded_text_again optional_text_again optional_finite_again optional_whole_again policy_text_again notes_again)
qed


definition example_profile :: jval where
  "example_profile = JObj [(''schema_version'', JStr ''1.0''), (''id'', JStr ''p-1''), (''revision'', JStr ''1''),
     (''label'', JStr ''P''), (''kind'', JStr ''custom''), (''tool_profile'', JStr ''emacs''), (''prompt_policy'', JStr ''fixed''),
     (''notes'', JArr [JStr ''n''])]"


text \<open>The canonical text of an object does not depend on the order of its keys.\<close>

lemma canonical_key_order:
  assumes "mset kvs = mset kvs'" "distinct (map fst kvs)"
  shows "canonical_json stringify (JObj kvs) = canonical_json stringify (JObj kvs')"
proof -
  let ?entries = "\<lambda>kvs. map (\<lambda>(k, v). (k, canonical_json stringify v)) (filter (\<lambda>(k, v). v \<noteq> JUndef) kvs)"
  have "mset (?entries kvs) = mset (?entries kvs')" using assms(1) by simp
  moreover have "inj_on fst (set (?entries kvs))"
    using assms(2) by (fastforce simp: distinct_map inj_on_def split_beta)
  ultimately have "sort_key fst (?entries kvs) = sort_key fst (?entries kvs')"
    by (intro sort_key_inj_key_eq) simp_all
  then show ?thesis by simp
qed

end
