(* ===== verification/BenchTrial.thy ===== *)
theory BenchTrial
  imports BenchScoring BenchTrace BenchComparison BenchProfile
begin

text \<open>
  One trial of the benchmark (\<open>runTrial\<close> of \<open>runner.ts\<close>): the fixture is copied, the agent is invoked with a timeout,
  the workspace it leaves is compared with the one it was given, and the result is scored. What the environment
  contributes is an argument: the fixture, what lies in the workspace if copying fails, what the agent answers to
  a request and leaves behind (nothing, if it removes the workspace), which of the agent and the timer is first,
  the trace file, and the times.
\<close>

subsection \<open>Names and seeds\<close>

text \<open>\<open>value.replace(/[^A-Za-z0-9._-]+/gu, "_")\<close>; \<open>in_run\<close> says that the last character was replaced.\<close>

definition is_segment_char :: "char \<Rightarrow> bool" where
  "is_segment_char c \<longleftrightarrow> is_id_char c \<or> c \<in> {CHR ''.'', CHR ''_'', CHR ''-''}"

fun replace_runs :: "bool \<Rightarrow> string \<Rightarrow> string" where
  "replace_runs in_run [] = []"
| "replace_runs in_run (c # s) =
     (if is_segment_char c then c # replace_runs False s
      else if in_run then replace_runs True s else CHR ''_'' # replace_runs True s)"

definition safe_segment :: "string \<Rightarrow> string" where
  "safe_segment v = (let s = take 128 (replace_runs False v) in if s = [] then ''item'' else s)"

definition stable_trial_seed :: "(string \<Rightarrow> string) \<Rightarrow> string \<Rightarrow> string \<Rightarrow> nat \<Rightarrow> nat \<Rightarrow> nat" where
  "stable_trial_seed sha suite_digest task_id trial run_seed =
     hex_seed (sha (suite_digest @ [CHR 0x00] @ task_id @ [CHR 0x00] @ dec_str trial @ [CHR 0x00] @ dec_str run_seed))"

definition trial_id_of :: "string \<Rightarrow> nat \<Rightarrow> string" where
  "trial_id_of task_id trial = safe_segment task_id @ ''-t'' @ dec_str trial"

subsection \<open>The invocation\<close>

text \<open>Whether the promise of the agent is settled before the timer fires.\<close>

datatype agent_race = Agent_Settled "string + jval" | Timer_Fired

record invocation =
  iv_result :: agent_result
  iv_timed_out :: bool
  iv_error :: "string option"

definition silent_result :: "string \<Rightarrow> string \<Rightarrow> agent_result" where
  "silent_result status summary = \<lparr>ar_status = status, ar_summary = Some summary, ar_usage = None, ar_events = []\<rparr>"

definition timeout_text :: "nat \<Rightarrow> string" where
  "timeout_text timeout_ms = ''Agent exceeded timeout of '' @ dec_str timeout_ms @ '' ms.''"

definition invoke_with_timeout :: "nat \<Rightarrow> agent_race \<Rightarrow> invocation" where
  "invoke_with_timeout timeout_ms race =
     (let failed = (\<lambda>message. \<lparr>iv_result = silent_result ''protocol_error'' ''Agent invocation failed.'',
            iv_timed_out = False, iv_error = Some message\<rparr>) in
      case race of
        Timer_Fired \<Rightarrow> \<lparr>iv_result = silent_result ''timeout'' (timeout_text timeout_ms), iv_timed_out = True,
          iv_error = Some (timeout_text timeout_ms)\<rparr>
      | Agent_Settled (Inl message) \<Rightarrow> failed message
      | Agent_Settled (Inr raw) \<Rightarrow>
          (case normalize_agent_result raw of
             Inl message \<Rightarrow> failed message
           | Inr r \<Rightarrow> \<lparr>iv_result = r, iv_timed_out = False, iv_error = None\<rparr>))"

definition not_invoked :: invocation where
  "not_invoked = \<lparr>iv_result = silent_result ''protocol_error'' ''Agent was not invoked.'', iv_timed_out = False, iv_error = None\<rparr>"

subsection \<open>Arguments, environment and report\<close>

record trial_args =
  ta_loaded :: loaded_suite
  ta_task :: loaded_task
  ta_run_id :: string
  ta_trial :: nat
  ta_run_seed :: nat
  ta_timeout_ms :: nat
  ta_max_workspace_bytes :: nat
  ta_threshold :: rat
  ta_run_root :: string
  ta_allow_command_checks :: bool
  ta_preserve_workspaces :: bool

record trial_env =
  te_context :: score_context
  te_fixture :: "(string \<times> fs_node) list"
  te_partial :: "(string \<times> fs_node) list option"
  te_agent :: "jval \<Rightarrow> agent_race \<times> (string \<times> fs_node) list option"
  te_trace_file :: trace_file
  te_parse :: "string \<Rightarrow> jval option"
  te_started_at :: string
  te_elapsed_ms :: rat

datatype trial_status = Trial_Passed | Trial_Failed | Trial_Agent_Error | Trial_Timeout | Trial_Harness_Error

record trial_record = trial_report +
  tl_trial_id :: string
  tl_status :: trial_status
  tl_agent_status :: string
  tl_agent_summary :: "string option"
  tl_started_at :: string
  tl_workspace_before :: "string \<times> nat \<times> nat"
  tl_workspace_after :: "string \<times> nat \<times> nat"
  tl_workspace_diff :: workspace_diff
  tl_protected_violations :: "string list"
  tl_unauthorized_violations :: "string list"
  tl_workspace_path :: "string option"
  tl_full_score :: benchmark_score
  tl_metrics :: process_metrics
  tl_error :: "(string \<times> string) option"

definition harness_score :: "rat \<Rightarrow> string \<Rightarrow> bool \<Rightarrow> benchmark_score" where
  "harness_score threshold message agent_completed =
     \<lparr>bs_score = 0, bs_threshold = threshold, bs_passed_weight = 0, bs_total_weight = 1,
      bs_required_checks_passed = False, bs_agent_completed = agent_completed, bs_protected_paths_clean = False,
      bs_allowed_paths_clean = False, bs_passed = False,
      bs_checks = [\<lparr>cr_id = ''benchmark_harness'', cr_type = ''harness'', cr_status = Check_Error, cr_required = True,
        cr_weight = 1, cr_description = None, cr_details = JObj [(''error'', JStr message)], cr_duration_ms = 0\<rparr>]\<rparr>"

definition no_diff :: workspace_diff where
  "no_diff = \<lparr>wd_added = [], wd_modified = [], wd_deleted = [], wd_unchanged = 0, wd_changed_files = 0,
     wd_bytes_before = 0, wd_bytes_after = 0\<rparr>"

definition list_default :: "'a list option \<Rightarrow> 'a list" where
  "list_default xs = (case xs of None \<Rightarrow> [] | Some ys \<Rightarrow> ys)"

subsection \<open>The request\<close>

definition trial_workspace :: "trial_args \<Rightarrow> string" where
  "trial_workspace a =
     path_join (path_join (ta_run_root a) (trial_id_of (bt_id (lt_task (ta_task a))) (ta_trial a))) ''workspace''"

definition trial_seed_of :: "(string \<Rightarrow> string) \<Rightarrow> trial_args \<Rightarrow> nat" where
  "trial_seed_of sha a =
     stable_trial_seed sha (ls_digest (ta_loaded a)) (bt_id (lt_task (ta_task a))) (ta_trial a) (ta_run_seed a)"

definition trial_request :: "(string \<Rightarrow> string) \<Rightarrow> trial_args \<Rightarrow> jval" where
  "trial_request sha a =
     (let task = lt_task (ta_task a) in
      JObj [(''protocol_version'', JStr ''1.0''), (''run_id'', JStr (ta_run_id a)),
        (''suite_id'', JStr (su_id (ls_suite (ta_loaded a)))), (''suite_revision'', JStr (su_revision (ls_suite (ta_loaded a)))),
        (''suite_digest'', JStr (ls_digest (ta_loaded a))), (''task_id'', JStr (bt_id task)),
        (''task_digest'', JStr (lt_digest (ta_task a))), (''trial'', jnat (ta_trial a)),
        (''trial_seed'', jnat (trial_seed_of sha a)), (''prompt'', JStr (lt_prompt (ta_task a))),
        (''workspace'', JStr (trial_workspace a)), (''timeout_ms'', jnat (ta_timeout_ms a)),
        (''trace_path'', JStr (path_join (path_join (trial_workspace a) PRIVATE_DIRECTORY) ''trace.jsonl'')),
        (''metadata'', JObj [(''domain'', JStr (bt_domain task)), (''category'', JStr (bt_category task)),
          (''difficulty'', JStr (bt_difficulty task)), (''tags'', JArr (map JStr (list_default (bt_tags task))))])])"

subsection \<open>The trial\<close>

text \<open>\<open>mkdirSync(privateDir, { recursive: true })\<close> in the copied workspace.\<close>

definition with_private_directory :: "(string \<times> fs_node) list \<Rightarrow> string \<Rightarrow> string + (string \<times> fs_node) list" where
  "with_private_directory es workspace =
     (case map_of es PRIVATE_DIRECTORY of
        None \<Rightarrow> Inr (es @ [(PRIVATE_DIRECTORY, Fs_Dir [] 448)])
      | Some (Fs_Dir kids mode) \<Rightarrow> Inr es
      | Some x \<Rightarrow> Inl (''EEXIST: file already exists, mkdir '' @ [SQUOTE] @ path_join workspace PRIVATE_DIRECTORY @ [SQUOTE]))"

text \<open>
  The variables that the \<open>try\<close> block of \<open>runTrial\<close> has assigned, with the workspace on the disk, and the message
  of the error that left the block.
\<close>

record trial_state =
  ts_before :: workspace_snapshot
  ts_after :: workspace_snapshot
  ts_invocation :: invocation
  ts_disk :: "(string \<times> fs_node) list option"
  ts_diff :: workspace_diff
  ts_violations :: "string list"
  ts_unauthorized :: "string list"
  ts_score :: benchmark_score
  ts_status :: trial_status
  ts_error :: "string option"

definition new_trial_state :: "(string \<Rightarrow> string) \<Rightarrow> rat \<Rightarrow> (string \<times> fs_node) list option \<Rightarrow> trial_state" where
  "new_trial_state sha threshold disk =
     \<lparr>ts_before = empty_snapshot sha, ts_after = empty_snapshot sha, ts_invocation = not_invoked, ts_disk = disk,
      ts_diff = no_diff, ts_violations = [], ts_unauthorized = [],
      ts_score = harness_score threshold ''Trial did not start.'' False, ts_status = Trial_Harness_Error, ts_error = None\<rparr>"

text \<open>The first part of the block, up to the invocation of the agent: the error comes with the state it leaves.\<close>

definition prepare_trial :: "trial_env \<Rightarrow> trial_args \<Rightarrow> (string \<times> trial_state) + trial_state" where
  "prepare_trial env a =
     (let sx = te_context env; new = new_trial_state (sx_sha sx) (ta_threshold a) in
      case copy_fixture_tree (sx_collate sx) (ta_max_workspace_bytes a) (te_fixture env) of
        Inl message \<Rightarrow> Inl (message, new (te_partial env))
      | Inr (es, copied) \<Rightarrow>
          (case with_private_directory es (trial_workspace a) of
             Inl message \<Rightarrow> Inl (message, new (Some es))
           | Inr es \<Rightarrow>
               (case snapshot_workspace (sx_collate sx) (sx_sha sx) (ta_max_workspace_bytes a) es of
                  Inl message \<Rightarrow> Inl (message, new (Some es))
                | Inr b \<Rightarrow>
                    if leaks_oracle_data (trial_request (sx_sha sx) a)
                    then Inl (''Benchmark request for '' @ bt_id (lt_task (ta_task a)) @ '' leaks oracle data.'',
                      (new (Some es))\<lparr>ts_before := b\<rparr>)
                    else Inr ((new (Some es))\<lparr>ts_before := b\<rparr>))))"

definition snapshot_disk :: "score_context \<Rightarrow> trial_args \<Rightarrow> (string \<times> fs_node) list option \<Rightarrow> string + workspace_snapshot" where
  "snapshot_disk sx a disk =
     (case disk of
        None \<Rightarrow> Inl (''ENOENT: no such file or directory, scandir '' @ [SQUOTE] @ trial_workspace a @ [SQUOTE])
      | Some es \<Rightarrow> snapshot_workspace (sx_collate sx) (sx_sha sx) (ta_max_workspace_bytes a) es)"

text \<open>The context in which the checks are evaluated.\<close>

definition trial_context :: "score_context \<Rightarrow> trial_args \<Rightarrow> trial_state \<Rightarrow> score_context" where
  "trial_context sx a s =
     sx\<lparr>sx_workspace := trial_workspace a, sx_suite_dir := ls_suite_dir (ta_loaded a), sx_before := ts_before s,
       sx_after := ts_after s, sx_protected_violations := ts_violations s, sx_unauthorized_violations := ts_unauthorized s,
       sx_agent_status := ar_status (iv_result (ts_invocation s)), sx_allow_command_checks := ta_allow_command_checks a,
       sx_entries := list_default (ts_disk s)\<rparr>"

definition status_of_trial :: "benchmark_score \<Rightarrow> invocation \<Rightarrow> trial_status" where
  "status_of_trial score iv =
     (if bs_passed score then Trial_Passed
      else if iv_timed_out iv then Trial_Timeout
      else if ar_status (iv_result iv) = ''completed'' then Trial_Failed else Trial_Agent_Error)"

text \<open>The second part of the block, from the invocation on.\<close>

definition judge_trial :: "trial_env \<Rightarrow> trial_args \<Rightarrow> trial_state \<Rightarrow> (string \<times> trial_state) + trial_state" where
  "judge_trial env a s =
     (let sx = te_context env; task = lt_task (ta_task a) in
      case te_agent env (trial_request (sx_sha sx) a) of (race, disk) \<Rightarrow>
      let iv = invoke_with_timeout (ta_timeout_ms a) race;
          s = s\<lparr>ts_invocation := iv, ts_disk := disk, ts_error := iv_error iv\<rparr> in
      case snapshot_disk sx a disk of
        Inl message \<Rightarrow> Inl (message, s)
      | Inr af \<Rightarrow>
          let s = s\<lparr>ts_after := af, ts_diff := diff_workspace (ts_before s) af\<rparr> in
          case protected_path_violations (ts_diff s) (list_default (bt_protected_paths task)) of
            Inl message \<Rightarrow> Inl (message, s)
          | Inr vs \<Rightarrow>
              let s = s\<lparr>ts_violations := vs\<rparr> in
              case unauthorized_path_violations (ts_diff s) (list_default (bt_allowed_paths task)) of
                Inl message \<Rightarrow> Inl (message, s)
              | Inr us \<Rightarrow>
                  let s = s\<lparr>ts_unauthorized := us\<rparr>;
                      score = score_task task (trial_context sx a s) (ta_threshold a)
                  in Inr (s\<lparr>ts_score := score, ts_status := status_of_trial score iv\<rparr>))"

text \<open>The \<open>catch\<close> block: what can still be said of the workspace is kept.\<close>

definition fail_trial :: "trial_env \<Rightarrow> trial_args \<Rightarrow> string \<Rightarrow> trial_state \<Rightarrow> trial_state" where
  "fail_trial env a message s =
     (let sx = te_context env; task = lt_task (ta_task a);
          af = (case snapshot_disk sx a (ts_disk s) of Inl e \<Rightarrow> empty_snapshot (sx_sha sx) | Inr af \<Rightarrow> af);
          d = diff_workspace (ts_before s) af;
          s = s\<lparr>ts_after := af, ts_diff := d, ts_status := Trial_Harness_Error, ts_error := Some message,
            ts_score := harness_score (ta_threshold a) message (ar_status (iv_result (ts_invocation s)) = ''completed'')\<rparr> in
      case protected_path_violations d (list_default (bt_protected_paths task)) of
        Inl e \<Rightarrow> s
      | Inr vs \<Rightarrow>
          (case unauthorized_path_violations d (list_default (bt_allowed_paths task)) of
             Inl e \<Rightarrow> s\<lparr>ts_violations := vs\<rparr>
           | Inr us \<Rightarrow> s\<lparr>ts_violations := vs, ts_unauthorized := us\<rparr>))"

definition trial_end :: "trial_env \<Rightarrow> trial_args \<Rightarrow> trial_state" where
  "trial_end env a =
     (case prepare_trial env a of
        Inl (message, s) \<Rightarrow> fail_trial env a message s
      | Inr s \<Rightarrow> (case judge_trial env a s of Inl (message, s) \<Rightarrow> fail_trial env a message s | Inr s \<Rightarrow> s))"

definition trial_events :: "trial_env \<Rightarrow> agent_result \<Rightarrow> trace_event list" where
  "trial_events env r =
     (case read_trace_file (te_parse env) (te_trace_file env) of
        Inr (e # es) \<Rightarrow> e # es
      | _ \<Rightarrow> ar_events r)"

definition error_code_of :: "trial_state \<Rightarrow> string" where
  "error_code_of s =
     (if iv_timed_out (ts_invocation s) then ''E_AGENT_TIMEOUT''
      else if ts_status s = Trial_Harness_Error then ''E_BENCHMARK_HARNESS'' else ''E_AGENT_PROTOCOL'')"

definition snapshot_summary :: "workspace_snapshot \<Rightarrow> string \<times> nat \<times> nat" where
  "snapshot_summary w = (ws_digest w, ws_total_bytes w, length (ws_files w))"

definition run_trial :: "trial_env \<Rightarrow> trial_args \<Rightarrow> trial_record" where
  "run_trial env a =
     (let s = trial_end env a; r = iv_result (ts_invocation s); task = lt_task (ta_task a) in
      \<lparr>tr_task_id = bt_id task, tr_task_digest = lt_digest (ta_task a), tr_trial = ta_trial a,
       tr_trial_seed = trial_seed_of (sx_sha (te_context env)) a, tr_passed = bs_passed (ts_score s),
       tr_score = bs_score (ts_score s), tr_duration_ms = te_elapsed_ms env,
       tl_trial_id = trial_id_of (bt_id task) (ta_trial a), tl_status = ts_status s, tl_agent_status = ar_status r,
       tl_agent_summary = ar_summary r, tl_started_at = te_started_at env,
       tl_workspace_before = snapshot_summary (ts_before s), tl_workspace_after = snapshot_summary (ts_after s),
       tl_workspace_diff = ts_diff s, tl_protected_violations = ts_violations s,
       tl_unauthorized_violations = ts_unauthorized s,
       tl_workspace_path = (if ta_preserve_workspaces a then Some (trial_workspace a) else None),
       tl_full_score = ts_score s, tl_metrics = summarize_trace (trial_events env r) (ar_usage r),
       tl_error = map_option (\<lambda>message. (error_code_of s, take 8192 message)) (ts_error s)\<rparr>)"

subsection \<open>Properties\<close>

text \<open>A request has no key that belongs to the oracle, whatever the suite says: the guard before the invocation never fires.\<close>

lemma request_without_oracle: "\<not> leaks_oracle_data (trial_request sha a)"
proof -
  have "list_all (\<lambda>k. to_lower k \<notin> set ORACLE_KEYS)
    [''protocol_version'', ''run_id'', ''suite_id'', ''suite_revision'', ''suite_digest'', ''task_id'', ''task_digest'',
     ''trial'', ''trial_seed'', ''prompt'', ''workspace'', ''timeout_ms'', ''trace_path'', ''metadata'',
     ''domain'', ''category'', ''difficulty'', ''tags'']"
    by code_simp
  moreover have "\<not> list_ex leaks_oracle_data (map JStr ss)" for ss by (induction ss) simp_all
  ultimately show ?thesis unfolding trial_request_def Let_def by (simp del: to_lower_def)
qed

text \<open>The names of the directories of two trials differ.\<close>

lemma replace_runs_id: "list_all is_segment_char s \<Longrightarrow> replace_runs b s = s"
  by (induction s arbitrary: b) simp_all

lemma fail_trial_status [simp]: "ts_status (fail_trial env a message s) = Trial_Harness_Error"
  by (simp add: fail_trial_def Let_def split: sum.split)

lemma harness_score_sel [simp]: "bs_passed (harness_score threshold message c) = False"
  by (simp add: harness_score_def)

lemma fail_trial_score [simp]: "bs_passed (ts_score (fail_trial env a message s)) = False"
  by (simp add: fail_trial_def Let_def split: sum.split)

lemma safe_segment_id: "id_pattern s \<Longrightarrow> safe_segment s = s"
proof -
  assume s: "id_pattern s"
  then have "list_all is_segment_char s" by (cases s) (auto simp: id_pattern_def is_segment_char_def list_all_iff)
  then show ?thesis using s by (simp add: safe_segment_def replace_runs_id id_pattern_def Let_def)
qed

lemma trial_id_digits: "takeWhile is_digit (rev (s @ ''-t'' @ dec_str n)) = rev (dec_str n)"
proof -
  have "takeWhile is_digit (rev (dec_str n) @ CHR ''t'' # CHR ''-'' # rev s) =
      rev (dec_str n) @ takeWhile is_digit (CHR ''t'' # CHR ''-'' # rev s)"
    by (rule takeWhile_append2) (auto intro: dec_str_digits)
  moreover have "\<not> is_digit (CHR ''t'')" by code_simp
  ultimately show ?thesis by simp
qed

lemma trial_id_inj:
  assumes "id_pattern s" "id_pattern s'" "trial_id_of s n = trial_id_of s' n'"
  shows "s = s' \<and> n = n'"
proof -
  have eq: "s @ ''-t'' @ dec_str n = s' @ ''-t'' @ dec_str n'"
    using assms by (simp add: trial_id_of_def safe_segment_id)
  then have "dec_str n = dec_str n'" by (metis trial_id_digits rev_rev_ident)
  moreover from this have "n = n'" by (metis dec_val_dec_str)
  ultimately show ?thesis using eq by simp
qed

lemma judged:
  assumes "judge_trial env a s = Inr s'"
  shows "ts_before s' = ts_before s"
    "ts_disk s' = snd (te_agent env (trial_request (sx_sha (te_context env)) a))"
    "ts_invocation s' = invoke_with_timeout (ta_timeout_ms a) (fst (te_agent env (trial_request (sx_sha (te_context env)) a)))"
    "snapshot_disk (te_context env) a (ts_disk s') = Inr (ts_after s')"
    "ts_diff s' = diff_workspace (ts_before s') (ts_after s')"
    "protected_path_violations (ts_diff s') (list_default (bt_protected_paths (lt_task (ta_task a)))) = Inr (ts_violations s')"
    "unauthorized_path_violations (ts_diff s') (list_default (bt_allowed_paths (lt_task (ta_task a)))) = Inr (ts_unauthorized s')"
    "ts_score s' = score_task (lt_task (ta_task a)) (trial_context (te_context env) a s') (ta_threshold a)"
    "ts_status s' = status_of_trial (ts_score s') (ts_invocation s')"
  using assms by (auto simp: judge_trial_def trial_context_def Let_def split: prod.splits sum.splits)

lemma status_passed: "status_of_trial score iv = Trial_Passed \<longleftrightarrow> bs_passed score"
  by (simp add: status_of_trial_def)

text \<open>What a trial that passed has gone through.\<close>

lemma trial_passed_run:
  assumes "tl_status (run_trial env a) = Trial_Passed"
  shows "\<exists>s s'. prepare_trial env a = Inr s \<and> judge_trial env a s = Inr s' \<and> trial_end env a = s' \<and> bs_passed (ts_score s')"
proof -
  have "ts_status (trial_end env a) = Trial_Passed" using assms by (simp add: run_trial_def Let_def)
  then obtain s s' where s: "prepare_trial env a = Inr s" "judge_trial env a s = Inr s'" "trial_end env a = s'"
      "ts_status s' = Trial_Passed"
    by (auto simp: trial_end_def split: sum.splits)
  then have "bs_passed (ts_score s')" using judged(9) [OF s(2)] by (simp add: status_passed)
  with s show ?thesis by blast
qed

lemma prepared_snapshot:
  assumes "prepare_trial env a = Inr s"
  shows "\<exists>es n es'. copy_fixture_tree (sx_collate (te_context env)) (ta_max_workspace_bytes a) (te_fixture env) = Inr (es, n) \<and>
    with_private_directory es (trial_workspace a) = Inr es' \<and> snapshot_disk (te_context env) a (Some es') = Inr (ts_before s)"
  using assms by (auto simp: prepare_trial_def snapshot_disk_def Let_def split: sum.splits if_splits)

lemma score_passed:
  assumes "bs_passed (score_task task sx threshold)"
  shows "sx_agent_status sx = ''completed'' \<and> sx_protected_violations sx = [] \<and> sx_unauthorized_violations sx = [] \<and>
    list_all (\<lambda>r. cr_status r = Check_Pass) (filter cr_required (bs_checks (score_task task sx threshold))) \<and>
    threshold \<le> bs_score (score_task task sx threshold)"
  using assms by (simp add: score_task_def score_checks_def Let_def)

lemma invocation_completed:
  assumes "ar_status (iv_result (invoke_with_timeout n race)) = ''completed''"
  shows "\<exists>raw. race = Agent_Settled (Inr raw) \<and> normalize_agent_result raw = Inr (iv_result (invoke_with_timeout n race))"
  using assms by (auto simp: invoke_with_timeout_def silent_result_def Let_def split: agent_race.splits sum.splits)

lemma trial_context_sel [simp]:
  "sx_agent_status (trial_context sx a s) = ar_status (iv_result (ts_invocation s))"
  "sx_protected_violations (trial_context sx a s) = ts_violations s"
  "sx_unauthorized_violations (trial_context sx a s) = ts_unauthorized s"
  by (simp_all add: trial_context_def)

text \<open>A file is a protected path, or lies below one that is written without a slash at its end.\<close>

definition below_protected :: "string \<Rightarrow> string \<Rightarrow> bool" where
  "below_protected item f \<longleftrightarrow> \<not> ends_with (portable item) ''/'' \<and>
     (\<exists>q. normalize_relative_path item ''protected path'' = Inr q) \<and> (\<exists>r. normalize_relative_path f ''path'' = Inr r) \<and>
     prefix (relative_path_segments item) (relative_path_segments f)"

lemma protected_unchanged:
  assumes "protected_path_violations (diff_workspace b a) protected = Inr []" "item \<in> set protected" "below_protected item f"
  shows "file_state b f = file_state a f"
  using protected_change_listed [OF assms(1,2)] assms(3) by (force simp: below_protected_def prefix_def)

lemma allowed_changes:
  assumes "unauthorized_path_violations (diff_workspace b a) allowed = Inr []" "allowed \<noteq> []" "file_state b f \<noteq> file_state a f"
  shows "path_matches_any f allowed = Inr True"
  using unauthorized_violations_iff [OF assms] by (metis (full_types) empty_iff empty_set)


text \<open>An agent that repairs one file and leaves the protected one alone.\<close>

definition example_trial_args :: trial_args where
  "example_trial_args = \<lparr>ta_loaded = \<lparr>ls_suite = \<lparr>su_id = ''s'', su_revision = ''1'', su_title = ''s'', su_tasks = [],
       su_description = None, su_defaults = None\<rparr>, ls_suite_path = ''/s/suite.json'', ls_suite_dir = ''/s'',
       ls_digest = ''d'', ls_tasks = []\<rparr>,
     ta_task = \<lparr>lt_task = \<lparr>bt_id = ''t'', bt_title = ''t'', bt_domain = ''org'', bt_category = ''repair'', bt_difficulty = ''small'',
         bt_prompt_file = ''p'', bt_fixture_dir = ''f'',
         bt_checks = [\<lparr>ck_id = ''kept'', ck_weight = None, ck_required = None, ck_description = None,
           ck_kind = File_Unchanged ''lib/a.el''\<rparr>],
         bt_description = None, bt_tags = None, bt_protected_paths = Some [''lib''], bt_allowed_paths = Some [''*.org''],
         bt_pass_threshold = None, bt_timeout_ms = None, bt_requirements = None\<rparr>,
       lt_prompt = ''do it'', lt_prompt_path = ''/s/p'', lt_fixture_path = ''/s/f'', lt_digest = ''e''\<rparr>,
     ta_run_id = ''r'', ta_trial = 1, ta_run_seed = 1, ta_timeout_ms = 9, ta_max_workspace_bytes = 99, ta_threshold = 1,
     ta_run_root = ''/w'', ta_allow_command_checks = False, ta_preserve_workspaces = False\<rparr>"

definition example_trial_tree :: "string \<Rightarrow> (string \<times> fs_node) list" where
  "example_trial_tree content = [(''lib'', Fs_Dir [(''a.el'', Fs_File ''()'' 420)] 493), (''n.org'', Fs_File content 420)]"

definition example_trial_env :: trial_env where
  "example_trial_env = \<lparr>te_context = example_context\<lparr>sx_sha := \<lambda>s. ''z'' @ s, sx_collate := \<lambda>a b. True\<rparr>,
     te_fixture = example_trial_tree ''x'', te_partial = None,
     te_agent = (\<lambda>request. (Agent_Settled (Inr (JObj [(''protocol_version'', JStr ''1.0''), (''status'', JStr ''completed'')])),
       Some (example_trial_tree ''y''))),
     te_trace_file = No_File, te_parse = (\<lambda>s. None), te_started_at = ''now'', te_elapsed_ms = 5\<rparr>"


end
