(* ===== verification/BenchRunner.thy ===== *)
theory BenchRunner
  imports BenchTrial
begin

text \<open>
  A run of a benchmark suite (\<open>runner.ts\<close>) and the availability of its tasks (\<open>environment.ts\<close>): the selected tasks
  in a seeded order, the trials of each, the summaries and the aggregate. Each trial is \<open>run_trial\<close> of the previous
  theory; its environment depends on the task and the number of the trial. Numbers are exact, \<open>collate\<close> is
  \<open>localeCompare\<close>, and the report ends where it is written to a file.
\<close>

subsection \<open>Availability\<close>

record run_host =
  rh_cwd :: string
  rh_platform :: string
  rh_path :: string
  rh_executable :: "string \<Rightarrow> bool"
  rh_environment :: "string \<Rightarrow> string option"

text \<open>\<open>findExecutable\<close> off Windows, where the only extension is the empty one.\<close>

definition find_executable :: "run_host \<Rightarrow> string \<Rightarrow> string option" where
  "find_executable h name =
     (if CHR ''/'' \<in> set name \<or> BACKSLASH \<in> set name
      then (let full = path_resolve (rh_cwd h) name in if rh_executable h full then Some full else None)
      else find (rh_executable h) (map (\<lambda>dir. path_join dir name) (filter (\<lambda>d. d \<noteq> []) (split_on (CHR '':'') (rh_path h)))))"

definition task_availability :: "run_host \<Rightarrow> benchmark_task \<Rightarrow> string list" where
  "task_availability h task =
     (case bt_requirements task of
        None \<Rightarrow> []
      | Some rq \<Rightarrow>
          (case rq_platforms rq of
             None \<Rightarrow> []
           | Some ps \<Rightarrow>
               if rh_platform h \<in> set ps then []
               else [''platform '' @ rh_platform h @ '' is not in '' @ join '', '' ps]) @
          map (\<lambda>e. ''missing executable: '' @ e)
            (filter (\<lambda>e. find_executable h e = None) (list_default (rq_executables rq))) @
          map (\<lambda>v. ''missing environment variable: '' @ v)
            (filter (\<lambda>v. rh_environment h v \<in> {None, Some []}) (list_default (rq_environment rq))))"

subsection \<open>Options\<close>

definition range_error :: "int \<Rightarrow> int \<Rightarrow> string" where
  "range_error minimum maximum =
     ''Expected integer between '' @ js_string (jint minimum) @ '' and '' @ js_string (jint maximum) @ ''.''"

text \<open>\<open>numeric\<close>: the value or the fallback, which has to be an integer of the range.\<close>

definition numeric :: "jnum option \<Rightarrow> nat \<Rightarrow> nat \<Rightarrow> nat \<Rightarrow> string + nat" where
  "numeric v fallback minimum maximum =
     (let r = (case v of None \<Rightarrow> Fin (of_nat fallback) | Some n \<Rightarrow> n) in
      if \<not> is_integer_num r \<or> jn_less r (Fin (of_nat minimum)) \<or> jn_less (Fin (of_nat maximum)) r
      then Inl (range_error (int minimum) (int maximum))
      else (case r of Fin q \<Rightarrow> Inr (nat \<lfloor>q\<rfloor>) | _ \<Rightarrow> Inl (range_error (int minimum) (int maximum))))"

record run_options =
  ro_trials :: "jnum option"
  ro_seed :: "jnum option"
  ro_work_root :: "string option"
  ro_allow_command_checks :: bool
  ro_require_all_tasks :: bool
  ro_preserve_workspaces :: bool
  ro_task_ids :: "string list option"

definition with_default :: "'a option \<Rightarrow> 'a \<Rightarrow> 'a" where
  "with_default v d = (case v of None \<Rightarrow> d | Some x \<Rightarrow> x)"

definition suite_default :: "(suite_defaults \<Rightarrow> 'a option) \<Rightarrow> loaded_suite \<Rightarrow> 'a option" where
  "suite_default field loaded = Option.bind (su_defaults (ls_suite loaded)) field"

definition suite_uses_command_checks :: "loaded_suite \<Rightarrow> bool" where
  "suite_uses_command_checks loaded \<longleftrightarrow>
     list_ex (\<lambda>t. list_ex (\<lambda>c. check_type (ck_kind c) = ''command'') (bt_checks (lt_task t))) (ls_tasks loaded)"

text \<open>\<open>newRunId\<close>: the digits of the time stamp, and the digest of what identifies the run and a random number.\<close>

definition new_run_id :: "(string \<Rightarrow> string) \<Rightarrow> string \<Rightarrow> string \<Rightarrow> string \<Rightarrow> nat \<Rightarrow> string \<Rightarrow> string" where
  "new_run_id sha stamp suite_digest agent_id seed random =
     ''run_'' @ take 14 (filter (\<lambda>c. c \<notin> {CHR ''-'', CHR '':'', CHR ''.'', CHR ''T'', CHR ''Z''}) stamp) @ ''_'' @
     take 12 (sha (suite_digest @ [CHR 0x00] @ agent_id @ [CHR 0x00] @ dec_str seed @ [CHR 0x00] @ random))"

subsection \<open>The run\<close>

record bench_agent =
  ba_id :: string
  ba_version :: "string option"
  ba_mode :: string

record run_env =
  re_host :: run_host
  re_sha :: "string \<Rightarrow> string"
  re_collate :: "string \<Rightarrow> string \<Rightarrow> int"
  re_trial :: "loaded_task \<Rightarrow> nat \<Rightarrow> trial_env"
  re_created_at :: string
  re_random :: string
  re_tmpdir :: string

record task_summary =
  tm_task_id :: string
  tm_task_digest :: string
  tm_title :: string
  tm_domain :: string
  tm_category :: string
  tm_difficulty :: string
  tm_available :: bool
  tm_unavailable_reasons :: "string list"
  tm_trials_requested :: nat
  tm_trials_executed :: nat
  tm_passed :: nat
  tm_failed :: nat
  tm_pass_rate :: "rat option"
  tm_mean_score :: "rat option"
  tm_mean_duration_ms :: "rat option"

record aggregate_report =
  ag_tasks_total :: nat
  ag_tasks_available :: nat
  ag_tasks_unavailable :: nat
  ag_trials_requested :: nat
  ag_trials_executed :: nat
  ag_trials_passed :: nat
  ag_trials_failed :: nat
  ag_pass_rate :: "rat option"
  ag_mean_score :: "rat option"
  ag_median_score :: "rat option"
  ag_mean_duration_ms :: "rat option"
  ag_mean_tool_calls :: "rat option"
  ag_mean_mutations :: "rat option"
  ag_mean_rollbacks :: "rat option"
  ag_total_input_tokens :: "rat option"
  ag_total_output_tokens :: "rat option"
  ag_protected_violations :: nat
  ag_unauthorized_violations :: nat

record suite_report = bench_report +
  sr_suite_title :: string
  sr_agent_mode :: string
  sr_created_at :: string
  sr_trials_option :: nat
  sr_allow_command_checks :: bool
  sr_require_all_tasks :: bool
  sr_preserve_workspaces :: bool
  sr_tasks :: "task_summary list"
  sr_trials :: "trial_record list"
  sr_aggregate :: aggregate_report
  sr_errors :: "(string \<times> string) list"

text \<open>\<open>ok\<close> of the report.\<close>

definition report_ok :: "suite_report \<Rightarrow> bool" where
  "report_ok r \<longleftrightarrow> sr_errors r = []"

text \<open>What the trials of a run share.\<close>

record run_plan =
  pl_loaded :: loaded_suite
  pl_run_id :: string
  pl_seed :: nat
  pl_trials :: nat
  pl_max_bytes :: nat
  pl_run_root :: string
  pl_options :: run_options

definition trial_args_of :: "run_plan \<Rightarrow> loaded_task \<Rightarrow> nat \<Rightarrow> trial_args" where
  "trial_args_of pl lt trial =
     \<lparr>ta_loaded = pl_loaded pl, ta_task = lt, ta_run_id = pl_run_id pl, ta_trial = trial, ta_run_seed = pl_seed pl,
      ta_timeout_ms = with_default (bt_timeout_ms (lt_task lt)) (with_default (suite_default sd_timeout_ms (pl_loaded pl)) (120 * 1000)),
      ta_max_workspace_bytes = pl_max_bytes pl,
      ta_threshold = with_default (bt_pass_threshold (lt_task lt)) (with_default (suite_default sd_pass_threshold (pl_loaded pl)) 1),
      ta_run_root = pl_run_root pl, ta_allow_command_checks = ro_allow_command_checks (pl_options pl),
      ta_preserve_workspaces = ro_preserve_workspaces (pl_options pl)\<rparr>"

definition task_trials :: "run_env \<Rightarrow> run_plan \<Rightarrow> loaded_task \<Rightarrow> trial_record list" where
  "task_trials env pl lt =
     (if task_availability (re_host env) (lt_task lt) \<noteq> [] then []
      else map (\<lambda>n. run_trial (re_trial env lt n) (trial_args_of pl lt n)) [1..<Suc (pl_trials pl)])"

definition harness_error :: "string \<Rightarrow> trial_record \<Rightarrow> (string \<times> string) list" where
  "harness_error task_id r =
     (if tl_status r \<noteq> Trial_Harness_Error then []
      else [(''E_BENCHMARK_HARNESS'', task_id @ '' trial '' @ dec_str (tr_trial r) @ '': '' @
        (case tl_error r of None \<Rightarrow> ''harness error'' | Some (code, message) \<Rightarrow> message))])"

definition task_errors :: "run_env \<Rightarrow> run_plan \<Rightarrow> loaded_task \<Rightarrow> (string \<times> string) list" where
  "task_errors env pl lt =
     (let reasons = task_availability (re_host env) (lt_task lt) in
      if reasons \<noteq> [] then
        (if ro_require_all_tasks (pl_options pl)
         then [(''E_TASK_UNAVAILABLE'', bt_id (lt_task lt) @ '': '' @ join ''; '' reasons)] else [])
      else concat (map (harness_error (bt_id (lt_task lt))) (task_trials env pl lt)))"

definition passed_trials :: "trial_record list \<Rightarrow> nat" where
  "passed_trials ts = length (filter tr_passed ts)"

definition share_of :: "nat \<Rightarrow> nat \<Rightarrow> rat option" where
  "share_of k n = (if n = 0 then None else Some (of_nat k / of_nat n))"

definition summarize_task :: "run_env \<Rightarrow> run_plan \<Rightarrow> loaded_task \<Rightarrow> task_summary" where
  "summarize_task env pl lt =
     (let reasons = task_availability (re_host env) (lt_task lt); ts = task_trials env pl lt; passed = passed_trials ts in
      \<lparr>tm_task_id = bt_id (lt_task lt), tm_task_digest = lt_digest lt, tm_title = bt_title (lt_task lt),
       tm_domain = bt_domain (lt_task lt), tm_category = bt_category (lt_task lt), tm_difficulty = bt_difficulty (lt_task lt),
       tm_available = (reasons = []), tm_unavailable_reasons = reasons, tm_trials_requested = pl_trials pl,
       tm_trials_executed = length ts, tm_passed = passed, tm_failed = length ts - passed,
       tm_pass_rate = share_of passed (length ts), tm_mean_score = mean_of (map tr_score ts),
       tm_mean_duration_ms = mean_of (map tr_duration_ms ts)\<rparr>)"

definition known_sum :: "rat option list \<Rightarrow> rat option" where
  "known_sum xs = (let ys = List.map_filter (\<lambda>x. x) xs in if ys = [] then None else Some (sum_list ys))"

definition aggregate_of :: "nat \<Rightarrow> task_summary list \<Rightarrow> trial_record list \<Rightarrow> aggregate_report" where
  "aggregate_of requested tasks ts =
     (let passed = passed_trials ts; mean_metric = (\<lambda>f. mean_of (map (\<lambda>t. of_nat (f (tl_metrics t))) ts)) in
      \<lparr>ag_tasks_total = length tasks, ag_tasks_available = length (filter tm_available tasks),
       ag_tasks_unavailable = length (filter (\<lambda>t. \<not> tm_available t) tasks),
       ag_trials_requested = length tasks * requested, ag_trials_executed = length ts, ag_trials_passed = passed,
       ag_trials_failed = length ts - passed, ag_pass_rate = share_of passed (length ts),
       ag_mean_score = mean_of (map tr_score ts), ag_median_score = median_of (map tr_score ts),
       ag_mean_duration_ms = mean_of (map tr_duration_ms ts), ag_mean_tool_calls = mean_metric pm_tool_calls,
       ag_mean_mutations = mean_metric pm_mutations, ag_mean_rollbacks = mean_metric pm_rollbacks,
       ag_total_input_tokens = known_sum (map (\<lambda>t. pm_input_tokens (tl_metrics t)) ts),
       ag_total_output_tokens = known_sum (map (\<lambda>t. pm_output_tokens (tl_metrics t)) ts),
       ag_protected_violations = sum_list (map (\<lambda>t. length (tl_protected_violations t)) ts),
       ag_unauthorized_violations = sum_list (map (\<lambda>t. length (tl_unauthorized_violations t)) ts)\<rparr>)"

definition trial_le :: "(string \<Rightarrow> string \<Rightarrow> int) \<Rightarrow> trial_record \<Rightarrow> trial_record \<Rightarrow> bool" where
  "trial_le collate a b \<longleftrightarrow>
     (let c = collate (tr_task_id a) (tr_task_id b) in c < 0 \<or> c = 0 \<and> tr_trial a \<le> tr_trial b)"

text \<open>The tasks that were asked for.\<close>

definition select_tasks :: "loaded_suite \<Rightarrow> string list option \<Rightarrow> string + loaded_task list" where
  "select_tasks loaded requested =
     (case requested of
        None \<Rightarrow> Inr (ls_tasks loaded)
      | Some ids \<Rightarrow>
          (case find (\<lambda>i. i \<notin> set (map (bt_id \<circ> lt_task) (ls_tasks loaded))) ids of
             Some i \<Rightarrow> Inl (''Unknown benchmark task id: '' @ i)
           | None \<Rightarrow> Inr (filter (\<lambda>t. bt_id (lt_task t) \<in> set ids) (ls_tasks loaded))))"

text \<open>\<open>trial_report.truncate\<close> is what a comparison reads of a trial.\<close>

definition run_report :: "run_env \<Rightarrow> bench_agent \<Rightarrow> run_plan \<Rightarrow> loaded_task list \<Rightarrow> suite_report" where
  "run_report env agent pl ordered =
     (let ts = concat (map (task_trials env pl) ordered);
          tasks = map (summarize_task env pl) ordered;
          errors = concat (map (task_errors env pl) ordered) @
            (if ts = [] then [(''E_NO_EXECUTED_TRIALS'', ''No trials were executed because all selected tasks were unavailable.'')] else []);
          sorted_trials = sort_by (trial_le (re_collate env)) ts; loaded = pl_loaded pl in
      \<lparr>br_run_id = pl_run_id pl, br_suite_id = su_id (ls_suite loaded), br_suite_revision = su_revision (ls_suite loaded),
       br_suite_digest = ls_digest loaded, br_agent_id = ba_id agent,
       br_agent_version = (if ba_version agent = Some [] then None else ba_version agent), br_seed = pl_seed pl,
       br_trials = map trial_report.truncate sorted_trials, sr_suite_title = su_title (ls_suite loaded),
       sr_agent_mode = ba_mode agent, sr_created_at = re_created_at env, sr_trials_option = pl_trials pl,
       sr_allow_command_checks = ro_allow_command_checks (pl_options pl),
       sr_require_all_tasks = ro_require_all_tasks (pl_options pl),
       sr_preserve_workspaces = ro_preserve_workspaces (pl_options pl),
       sr_tasks = sort_by (\<lambda>a b. re_collate env (tm_task_id a) (tm_task_id b) \<le> 0) tasks, sr_trials = sorted_trials,
       sr_aggregate = aggregate_of (pl_trials pl) tasks ts, sr_errors = errors\<rparr>)"

definition plan_of :: "run_env \<Rightarrow> bench_agent \<Rightarrow> loaded_suite \<Rightarrow> run_options \<Rightarrow> nat \<Rightarrow> nat \<Rightarrow> run_plan" where
  "plan_of env agent loaded options trials seed =
     (let run_id = new_run_id (re_sha env) (re_created_at env) (ls_digest loaded) (ba_id agent) seed (re_random env) in
      \<lparr>pl_loaded = loaded, pl_run_id = run_id, pl_seed = seed, pl_trials = trials,
       pl_max_bytes = with_default (suite_default sd_max_workspace_bytes loaded) (16 * 1024 * 1024),
       pl_run_root = path_resolve (rh_cwd (re_host env)) (with_default (ro_work_root options)
         (path_join (path_join (re_tmpdir env) ''emacs-operator-benchmark'') run_id)),
       pl_options = options\<rparr>)"

definition run_benchmark_suite :: "run_env \<Rightarrow> bench_agent \<Rightarrow> loaded_suite \<Rightarrow> run_options \<Rightarrow> string + suite_report" where
  "run_benchmark_suite env agent loaded options =
     (if suite_uses_command_checks loaded \<and> \<not> ro_allow_command_checks options
      then Inl ''Suite contains command checks. Re-run with allow_command_checks=true after reviewing the suite.''
      else
       andthen (numeric (ro_trials options) (with_default (suite_default sd_trials loaded) 1) 1 100) (\<lambda>trials.
       andthen (numeric (ro_seed options) 1 0 (2 ^ 32 - 1)) (\<lambda>seed.
       andthen (select_tasks loaded (ro_task_ids options)) (\<lambda>selected.
         if selected = [] then Inl ''No benchmark tasks were selected.''
         else Inr (run_report env agent (plan_of env agent loaded options trials seed) (shuffled selected seed))))))"

text \<open>\<open>loadBenchmarkReport\<close>: what is checked of a report that is read back.\<close>

definition uint32 :: "jval \<Rightarrow> bool" where
  "uint32 v \<longleftrightarrow> (case v of JNum n \<Rightarrow> is_integer_num n \<and> \<not> jn_less n (Fin 0) \<and> \<not> jn_less (Fin (2 ^ 32 - 1)) n | _ \<Rightarrow> False)"

definition load_benchmark_report :: "jval \<Rightarrow> string + jval" where
  "load_benchmark_report parsed =
     (if \<not> truthy parsed \<or> get_prop parsed ''schema_version'' \<noteq> JStr ''1.0'' \<or>
         get_prop parsed ''kind'' \<noteq> JStr ''emacs_operator_benchmark_report''
      then Inl ''File is not an Emacs Operator benchmark report v1.0.''
      else if \<not> uint32 (get_prop (get_prop parsed ''options'') ''seed'')
      then Inl ''Benchmark report options.seed must be an unsigned 32-bit integer.''
      else (case array_of (get_prop parsed ''trials'') of
        None \<Rightarrow> Inl ''Benchmark report trials must contain unsigned 32-bit trial_seed values.''
      | Some ts \<Rightarrow>
          if list_ex (\<lambda>t. \<not> uint32 (get_prop t ''trial_seed'')) ts
          then Inl ''Benchmark report trials must contain unsigned 32-bit trial_seed values.''
          else Inr parsed))"

subsection \<open>Counting\<close>

abbreviation task_id_of :: "loaded_task \<Rightarrow> string" where
  "task_id_of lt \<equiv> bt_id (lt_task lt)"

abbreviation is_available :: "run_env \<Rightarrow> loaded_task \<Rightarrow> bool" where
  "is_available env lt \<equiv> task_availability (re_host env) (lt_task lt) = []"

lemma run_trial_sel [simp]:
  "tr_task_id (run_trial env a) = bt_id (lt_task (ta_task a))" "tr_task_digest (run_trial env a) = lt_digest (ta_task a)"
  "tr_trial (run_trial env a) = ta_trial a" "tr_trial_seed (run_trial env a) = trial_seed_of (sx_sha (te_context env)) a"
  "tl_trial_id (run_trial env a) = trial_id_of (bt_id (lt_task (ta_task a))) (ta_trial a)"
  by (simp_all add: run_trial_def Let_def)

lemma trial_args_sel [simp]:
  "ta_task (trial_args_of pl lt n) = lt" "ta_trial (trial_args_of pl lt n) = n" "ta_loaded (trial_args_of pl lt n) = pl_loaded pl"
  "ta_run_seed (trial_args_of pl lt n) = pl_seed pl"
  by (simp_all add: trial_args_of_def)

lemma length_task_trials: "length (task_trials env pl lt) = (if is_available env lt then pl_trials pl else 0)"
  by (simp add: task_trials_def)

lemma in_task_trials:
  "t \<in> set (task_trials env pl lt) \<longleftrightarrow>
     is_available env lt \<and> (\<exists>n. 1 \<le> n \<and> n \<le> pl_trials pl \<and> t = run_trial (re_trial env lt n) (trial_args_of pl lt n))"
  by (auto simp: task_trials_def image_iff less_Suc_eq_le)

lemma trials_of_task:
  "map (\<lambda>t. (tr_task_id t, tr_trial t)) (task_trials env pl lt) =
     (if is_available env lt then map (\<lambda>n. (task_id_of lt, n)) [1..<Suc (pl_trials pl)] else [])"
  by (simp add: task_trials_def comp_def)

lemma length_all_trials:
  "length (concat (map (task_trials env pl) lts)) = length (filter (is_available env) lts) * pl_trials pl"
  by (induction lts) (simp_all add: length_task_trials)

lemma pairs_all_trials:
  "map (\<lambda>t. (tr_task_id t, tr_trial t)) (concat (map (task_trials env pl) lts)) =
     concat (map (\<lambda>lt. map (\<lambda>n. (task_id_of lt, n)) [1..<Suc (pl_trials pl)]) (filter (is_available env) lts))"
  by (induction lts) (auto simp: trials_of_task simp del: upt_Suc)

lemma mset_concat_map: "mset xs = mset ys \<Longrightarrow> mset (concat (map f xs)) = mset (concat (map f ys))"
  by (simp add: mset_concat) (metis mset_map sum_mset_sum_list)

lemma mset_filter_cong: "mset xs = mset ys \<Longrightarrow> mset (filter p xs) = mset (filter p ys)"
  by simp

lemma summary_available [simp]: "tm_available (summarize_task env pl lt) \<longleftrightarrow> is_available env lt"
  "tm_task_id (summarize_task env pl lt) = task_id_of lt"
  by (simp_all add: summarize_task_def Let_def)

lemma task_errors_Nil:
  "task_errors env pl lt = [] \<longleftrightarrow>
     list_all (\<lambda>t. tl_status t \<noteq> Trial_Harness_Error) (task_trials env pl lt) \<and>
     (ro_require_all_tasks (pl_options pl) \<longrightarrow> is_available env lt)"
  by (auto simp: task_errors_def task_trials_def harness_error_def Let_def list_all_iff)

subsection \<open>Properties\<close>

definition selected_tasks :: "loaded_suite \<Rightarrow> run_options \<Rightarrow> loaded_task list" where
  "selected_tasks loaded options = (case select_tasks loaded (ro_task_ids options) of Inl e \<Rightarrow> [] | Inr ts \<Rightarrow> ts)"

lemma selected_subset: "set (selected_tasks loaded options) \<subseteq> set (ls_tasks loaded)"
  by (auto simp: selected_tasks_def select_tasks_def split: option.splits)

lemma selected_distinct:
  "distinct (map task_id_of (ls_tasks loaded)) \<Longrightarrow> distinct (map task_id_of (selected_tasks loaded options))"
  by (auto simp: selected_tasks_def select_tasks_def distinct_map_filter split: option.splits)

lemma numeric_range:
  assumes "numeric v fallback minimum maximum = Inr n"
  shows "minimum \<le> n \<and> n \<le> maximum"
proof -
  obtain q where q: "is_integer_num (Fin q)" "\<not> q < of_nat minimum" "\<not> of_nat maximum < q" "n = nat \<lfloor>q\<rfloor>"
    using assms by (auto simp: numeric_def Let_def split: if_splits jnum.splits)
  then have "of_nat minimum \<le> \<lfloor>q\<rfloor>" "\<lfloor>q\<rfloor> \<le> of_nat maximum"
    by (simp_all add: le_floor_iff floor_le_iff)
  then show ?thesis using q(4) by linarith
qed

text \<open>A run that is accepted is the report of a plan over a permutation of the selected tasks.\<close>

lemma plan_of_sel [simp]:
  "pl_loaded (plan_of env agent loaded options trials seed) = loaded"
  "pl_options (plan_of env agent loaded options trials seed) = options"
  "pl_seed (plan_of env agent loaded options trials seed) = seed"
  "pl_trials (plan_of env agent loaded options trials seed) = trials"
  by (simp_all add: plan_of_def Let_def)

lemma run_planned:
  assumes "run_benchmark_suite env agent loaded options = Inr r"
  shows "\<exists>trials seed. r = run_report env agent (plan_of env agent loaded options trials seed)
      (shuffled (selected_tasks loaded options) seed) \<and>
    selected_tasks loaded options \<noteq> [] \<and>
    numeric (ro_trials options) (with_default (suite_default sd_trials loaded) 1) 1 100 = Inr trials \<and>
    numeric (ro_seed options) 1 0 (2 ^ 32 - 1) = Inr seed"
  using assms unfolding run_benchmark_suite_def selected_tasks_def
  by (auto simp: andthen_eq_Inr split: if_splits)

lemma run_report_sel:
  "sr_trials (run_report env agent pl ordered) = sort_by (trial_le (re_collate env)) (concat (map (task_trials env pl) ordered))"
  "mset (map tm_task_id (sr_tasks (run_report env agent pl ordered))) = mset (map task_id_of ordered)"
  "sr_aggregate (run_report env agent pl ordered) =
     aggregate_of (pl_trials pl) (map (summarize_task env pl) ordered) (concat (map (task_trials env pl) ordered))"
  "sr_trials_option (run_report env agent pl ordered) = pl_trials pl" "br_seed (run_report env agent pl ordered) = pl_seed pl"
  by (simp_all add: run_report_def Let_def comp_def image_mset.compositionality)

lemma sort_by_Nil [simp]: "sort_by le xs = [] \<longleftrightarrow> xs = []"
  by (metis mset_sort_by mset_zero_iff)

lemma report_ok_iff:
  "report_ok (run_report env agent pl ordered) \<longleftrightarrow>
     sr_trials (run_report env agent pl ordered) \<noteq> [] \<and>
     list_all (\<lambda>t. tl_status t \<noteq> Trial_Harness_Error) (sr_trials (run_report env agent pl ordered)) \<and>
     (ro_require_all_tasks (pl_options pl) \<longrightarrow> list_all (is_available env) ordered)"
proof -
  have "concat (map (task_errors env pl) ordered) = [] \<longleftrightarrow>
      list_all (\<lambda>t. tl_status t \<noteq> Trial_Harness_Error) (concat (map (task_trials env pl) ordered)) \<and>
      (ro_require_all_tasks (pl_options pl) \<longrightarrow> list_all (is_available env) ordered)"
    by (auto simp: task_errors_Nil list_all_iff)
  then show ?thesis
    unfolding run_report_sel by (simp add: report_ok_def run_report_def Let_def list_all_iff)
qed

lemma aggregate_of_sel:
  "ag_tasks_total (aggregate_of n tasks ts) = length tasks"
  "ag_tasks_available (aggregate_of n tasks ts) = length (filter tm_available tasks)"
  "ag_tasks_unavailable (aggregate_of n tasks ts) = length (filter (\<lambda>t. \<not> tm_available t) tasks)"
  "ag_trials_executed (aggregate_of n tasks ts) = length ts" "ag_trials_passed (aggregate_of n tasks ts) = passed_trials ts"
  "ag_trials_failed (aggregate_of n tasks ts) = length ts - passed_trials ts"
  "ag_pass_rate (aggregate_of n tasks ts) = share_of (passed_trials ts) (length ts)"
  by (simp_all add: aggregate_of_def Let_def)

lemma passed_trials_le: "passed_trials ts \<le> length ts"
  by (simp add: passed_trials_def)

lemma share_of_range: "k \<le> n \<Longrightarrow> pred_option (\<lambda>q. 0 \<le> q \<and> q \<le> 1) (share_of k n)"
  by (simp add: share_of_def)

lemma aggregate_counts:
  assumes "mset ordered = mset lts"
    and "a = aggregate_of (pl_trials pl) (map (summarize_task env pl) ordered) (concat (map (task_trials env pl) ordered))"
  shows "ag_tasks_total a = length lts"
    "ag_tasks_available a + ag_tasks_unavailable a = ag_tasks_total a"
    "ag_trials_executed a = ag_tasks_available a * pl_trials pl"
    "ag_trials_passed a + ag_trials_failed a = ag_trials_executed a"
    "pred_option (\<lambda>q. 0 \<le> q \<and> q \<le> 1) (ag_pass_rate a)"
proof -
  show "ag_tasks_total a = length lts" unfolding assms(2) aggregate_of_sel using assms(1) by (metis length_map size_mset)
  show "ag_tasks_available a + ag_tasks_unavailable a = ag_tasks_total a"
    unfolding assms(2) aggregate_of_sel by (rule sum_length_filter_compl)
  show "ag_trials_executed a = ag_tasks_available a * pl_trials pl"
    unfolding assms(2) aggregate_of_sel length_all_trials by (simp add: filter_map comp_def)
  show "ag_trials_passed a + ag_trials_failed a = ag_trials_executed a"
    unfolding assms(2) aggregate_of_sel using passed_trials_le by (rule le_add_diff_inverse)
  show "pred_option (\<lambda>q. 0 \<le> q \<and> q \<le> 1) (ag_pass_rate a)"
    unfolding assms(2) aggregate_of_sel by (rule share_of_range, rule passed_trials_le)
qed

text \<open>
  C18: A run accounts for what was asked. Every selected task has one summary; for every available one the trials
  1 to n, and no others, were run, whatever order the seed gave; the counts of the aggregate add up and the rate
  lies between 0 and 1; the number of trials and the seed are in their ranges; and the report is \<open>ok\<close> exactly if
  something ran, no trial failed because of the harness and, where all tasks are required, all were available.
\<close>

theorem run_accounts:
  assumes "run_benchmark_suite env agent loaded options = Inr r"
  shows "mset (map tm_task_id (sr_tasks r)) = mset (map task_id_of (selected_tasks loaded options)) \<and>
    mset (map (\<lambda>t. (tr_task_id t, tr_trial t)) (sr_trials r)) =
      mset (concat (map (\<lambda>lt. map (\<lambda>n. (task_id_of lt, n)) [1..<Suc (sr_trials_option r)])
        (filter (is_available env) (selected_tasks loaded options)))) \<and>
    ag_tasks_total (sr_aggregate r) = length (selected_tasks loaded options) \<and>
    ag_tasks_available (sr_aggregate r) + ag_tasks_unavailable (sr_aggregate r) = ag_tasks_total (sr_aggregate r) \<and>
    ag_trials_executed (sr_aggregate r) = ag_tasks_available (sr_aggregate r) * sr_trials_option r \<and>
    ag_trials_executed (sr_aggregate r) = length (sr_trials r) \<and>
    ag_trials_passed (sr_aggregate r) + ag_trials_failed (sr_aggregate r) = ag_trials_executed (sr_aggregate r) \<and>
    pred_option (\<lambda>q. 0 \<le> q \<and> q \<le> 1) (ag_pass_rate (sr_aggregate r)) \<and>
    1 \<le> sr_trials_option r \<and> sr_trials_option r \<le> 100 \<and> br_seed r < 2 ^ 32 \<and>
    (report_ok r \<longleftrightarrow> sr_trials r \<noteq> [] \<and> list_all (\<lambda>t. tl_status t \<noteq> Trial_Harness_Error) (sr_trials r) \<and>
       (ro_require_all_tasks options \<longrightarrow> list_all (is_available env) (selected_tasks loaded options)))"
proof -
  let ?lts = "selected_tasks loaded options"
  obtain trials seed where run: "r = run_report env agent (plan_of env agent loaded options trials seed) (shuffled ?lts seed)"
    "numeric (ro_trials options) (with_default (suite_default sd_trials loaded) 1) 1 100 = Inr trials"
    "numeric (ro_seed options) 1 0 (2 ^ 32 - 1) = Inr seed"
    using run_planned [OF assms] by blast
  let ?pl = "plan_of env agent loaded options trials seed" and ?ts = "\<lambda>pl. concat (map (task_trials env pl) (shuffled ?lts seed))"
  have perm: "mset (shuffled ?lts seed) = mset ?lts" by (rule mset_shuffled)
  have "mset (map (\<lambda>t. (tr_task_id t, tr_trial t)) (sr_trials r)) = mset (map (\<lambda>t. (tr_task_id t, tr_trial t)) (?ts ?pl))"
    by (simp add: run(1) run_report_sel)
  also have "\<dots> = mset (concat (map (\<lambda>lt. map (\<lambda>n. (task_id_of lt, n)) [1..<Suc trials]) (filter (is_available env) ?lts)))"
    unfolding pairs_all_trials plan_of_sel by (rule mset_concat_map, rule mset_filter_cong, rule perm)
  finally have pairs: "mset (map (\<lambda>t. (tr_task_id t, tr_trial t)) (sr_trials r)) =
      mset (concat (map (\<lambda>lt. map (\<lambda>n. (task_id_of lt, n)) [1..<Suc (sr_trials_option r)]) (filter (is_available env) ?lts)))"
    by (simp add: run(1) run_report_sel)
  have tasks: "mset (map tm_task_id (sr_tasks r)) = mset (map task_id_of ?lts)"
    unfolding run(1) run_report_sel using perm by (metis mset_map)
  have executed: "ag_trials_executed (sr_aggregate r) = length (sr_trials r)"
    unfolding run(1) run_report_sel
    by (simp add: aggregate_of_def Let_def del: concat.simps) (metis mset_sort_by size_mset)
  have ok: "report_ok r \<longleftrightarrow> sr_trials r \<noteq> [] \<and> list_all (\<lambda>t. tl_status t \<noteq> Trial_Harness_Error) (sr_trials r) \<and>
      (ro_require_all_tasks options \<longrightarrow> list_all (is_available env) ?lts)"
    unfolding run(1) report_ok_iff plan_of_sel list_all_iff mset_eq_setD [OF perm] by (rule refl)
  have "sr_aggregate r = aggregate_of (pl_trials ?pl) (map (summarize_task env ?pl) (shuffled ?lts seed)) (?ts ?pl)"
    by (simp add: run(1) run_report_sel)
  note counts = aggregate_counts [OF perm this]
  have options: "sr_trials_option r = trials" "br_seed r = seed" by (simp_all add: run(1) run_report_sel)
  show ?thesis
    using counts pairs tasks executed ok numeric_range [OF run(2)] numeric_range [OF run(3)] options by simp
qed

subsection \<open>Two runs of one suite\<close>

lemma keyed_keeps: "map_of m k \<noteq> None \<Longrightarrow> map_of (fold (\<lambda>t. AList.update (f t) t) ts m) k \<noteq> None"
  by (induction ts arbitrary: m) (simp_all add: update_conv')

lemma keyed_found: "t \<in> set ts \<Longrightarrow> map_of (fold (\<lambda>t. AList.update (f t) t) ts m) (f t) \<noteq> None"
proof (induction ts arbitrary: m)
  case (Cons u us)
  then show ?case using keyed_keeps [of "AList.update (f u) u m" "f u" f us] by (auto simp: update_conv')
qed simp

lemma keyed_from:
  "map_of (fold (\<lambda>t. AList.update (f t) t) ts m) k = Some v \<Longrightarrow> map_of m k = Some v \<or> v \<in> set ts \<and> f v = k"
  by (induction ts arbitrary: m) (fastforce simp: update_conv' split: if_splits)+

lemma trials_by_key_found:
  assumes "t \<in> set ts"
  shows "\<exists>u \<in> set ts. map_of (trials_by_key ts) (trial_key t) = Some u \<and> trial_key u = trial_key t"
  using keyed_found [OF assms, of trial_key "[]"] keyed_from [of trial_key ts "[]" "trial_key t"]
  unfolding trials_by_key_def by fastforce

lemma before_mark: "c \<notin> set a \<Longrightarrow> c \<notin> set b \<Longrightarrow> a @ c # x = b @ c # y \<Longrightarrow> a = b"
proof (induction a arbitrary: b)
  case Nil
  then show ?case by (cases b) auto
next
  case (Cons d a)
  then show ?case by (cases b) auto
qed

lemma length_map_filter: "list_all (\<lambda>x. f x \<noteq> None) xs \<Longrightarrow> length (List.map_filter f xs) = length xs"
  by (induction xs) (auto simp: map_filter_simps)

lemma truncate_sel [simp]:
  "tr_task_id (trial_report.truncate t) = tr_task_id t" "tr_task_digest (trial_report.truncate t) = tr_task_digest t"
  "tr_trial (trial_report.truncate t) = tr_trial t" "tr_trial_seed (trial_report.truncate t) = tr_trial_seed t"
  by (simp_all add: trial_report.defs)

text \<open>The part of a trial that does not depend on the run: its key and the digest of its task.\<close>

lemma trial_key_of:
  assumes "sx_sha (te_context env) = sha"
  shows "trial_key (trial_report.truncate (run_trial env (trial_args_of pl lt n))) =
    task_id_of lt @ CHR 0x00 # dec_str n @ CHR 0x00 #
      dec_str (stable_trial_seed sha (ls_digest (pl_loaded pl)) (task_id_of lt) n (pl_seed pl))"
  by (simp add: trial_key_def assms trial_seed_of_def)

lemma report_descriptor_fields:
  "br_suite_id (bench_report.truncate (run_report env agent pl ordered)) = su_id (ls_suite (pl_loaded pl))"
  "br_suite_revision (bench_report.truncate (run_report env agent pl ordered)) = su_revision (ls_suite (pl_loaded pl))"
  "br_suite_digest (bench_report.truncate (run_report env agent pl ordered)) = ls_digest (pl_loaded pl)"
  "br_seed (bench_report.truncate (run_report env agent pl ordered)) = pl_seed pl"
  "br_trials (bench_report.truncate (run_report env agent pl ordered)) =
     map trial_report.truncate (sr_trials (run_report env agent pl ordered))"
  by (simp_all add: bench_report.defs run_report_def Let_def)

lemma in_report_trials:
  "t \<in> set (sr_trials (run_report env agent pl ordered)) \<longleftrightarrow>
     (\<exists>lt \<in> set ordered. is_available env lt \<and>
        (\<exists>n. 1 \<le> n \<and> n \<le> pl_trials pl \<and> t = run_trial (re_trial env lt n) (trial_args_of pl lt n)))"
  by (simp add: run_report_sel in_task_trials)

lemma same_task:
  assumes "trial_key (trial_report.truncate (run_trial env1 (trial_args_of pl1 lt1 n1))) =
      trial_key (trial_report.truncate (run_trial env2 (trial_args_of pl2 lt2 n2)))"
    and "CHR 0x00 \<notin> set (task_id_of lt1)" "CHR 0x00 \<notin> set (task_id_of lt2)"
  shows "task_id_of lt1 = task_id_of lt2"
  using before_mark [OF assms(2,3)] assms(1) by (simp add: trial_key_def)

text \<open>
  Every trial of one run has its counterpart in the other: the same task, number and seed, and the same digest.
\<close>

lemma trials_pair:
  assumes "distinct (map task_id_of lts)" "\<forall>lt \<in> set lts. CHR 0x00 \<notin> set (task_id_of lt)"
    and "\<forall>lt \<in> set lts. is_available env1 lt \<longleftrightarrow> is_available env2 lt"
    and "\<forall>lt n. sx_sha (te_context (re_trial env1 lt n)) = sha \<and> sx_sha (te_context (re_trial env2 lt n)) = sha"
    and "pl_loaded pl1 = pl_loaded pl2" "pl_seed pl1 = pl_seed pl2" "pl_trials pl1 = pl_trials pl2"
    and "set ordered1 = set lts" "set ordered2 = set lts"
    and "t \<in> set (sr_trials (run_report env2 agent2 pl2 ordered2))"
  shows "pair_of (trials_by_key (map trial_report.truncate (sr_trials (run_report env1 agent1 pl1 ordered1))))
      (trial_report.truncate t) \<noteq> None"
proof -
  let ?ts = "map trial_report.truncate (sr_trials (run_report env1 agent1 pl1 ordered1))"
  obtain lt n where t: "lt \<in> set lts" "is_available env2 lt" "1 \<le> n" "n \<le> pl_trials pl2"
    "t = run_trial (re_trial env2 lt n) (trial_args_of pl2 lt n)"
    using assms(9,10) unfolding in_report_trials by blast
  define u where "u = run_trial (re_trial env1 lt n) (trial_args_of pl1 lt n)"
  have "is_available env1 lt" "n \<le> pl_trials pl1" using t(1,2,4) assms(3,7) by auto
  then have "u \<in> set (sr_trials (run_report env1 agent1 pl1 ordered1))"
    unfolding in_report_trials u_def assms(8) using t(1,3) by blast
  then have "trial_report.truncate u \<in> set ?ts" by simp
  moreover have key: "trial_key (trial_report.truncate u) = trial_key (trial_report.truncate t)"
    unfolding u_def t(5) using assms(4) by (simp add: trial_key_of [where sha = sha] assms(5,6))
  ultimately obtain v where v: "v \<in> set ?ts" "map_of (trials_by_key ?ts) (trial_key (trial_report.truncate t)) = Some v"
    "trial_key v = trial_key (trial_report.truncate t)"
    using trials_by_key_found by fastforce
  obtain w where w: "v = trial_report.truncate w" "w \<in> set (sr_trials (run_report env1 agent1 pl1 ordered1))"
    using v(1) by auto
  obtain lt' n' where v': "lt' \<in> set lts" "v = trial_report.truncate (run_trial (re_trial env1 lt' n') (trial_args_of pl1 lt' n'))"
    using w(2) unfolding w(1) in_report_trials assms(8) by blast
  have "task_id_of lt' = task_id_of lt"
    by (rule same_task [OF v(3) [unfolded v'(2) t(5)]]) (use assms(2) t(1) v'(1) in auto)
  then have "lt' = lt" using assms(1) v'(1) t(1) by (auto simp: distinct_map inj_on_def)
  then have "tr_task_digest v = tr_task_digest (trial_report.truncate t)" unfolding v'(2) t(5) by simp
  then show ?thesis using v(2) by (simp add: pair_of_def)
qed


subsection \<open>An example\<close>

definition example_loaded :: loaded_suite where
  "example_loaded = \<lparr>ls_suite = \<lparr>su_id = ''s'', su_revision = ''1'', su_title = ''s'', su_tasks = [lt_task (ta_task example_trial_args)],
     su_description = None, su_defaults = None\<rparr>, ls_suite_path = ''/s/suite.json'', ls_suite_dir = ''/s'',
     ls_digest = ''d'', ls_tasks = [ta_task example_trial_args]\<rparr>"

definition example_options :: run_options where
  "example_options = \<lparr>ro_trials = Some (Fin 2), ro_seed = None, ro_work_root = None, ro_allow_command_checks = False,
     ro_require_all_tasks = True, ro_preserve_workspaces = False, ro_task_ids = Some [''t'']\<rparr>"

definition example_run_env :: run_env where
  "example_run_env = \<lparr>re_host = \<lparr>rh_cwd = ''/'', rh_platform = ''linux'', rh_path = ''/bin'', rh_executable = (\<lambda>p. False),
       rh_environment = (\<lambda>v. None)\<rparr>, re_sha = (\<lambda>s. ''z'' @ s), re_collate = (\<lambda>a b. 0),
     re_trial = (\<lambda>lt n. example_trial_env), re_created_at = ''2026'', re_random = ''0.5'', re_tmpdir = ''/tmp''\<rparr>"

definition example_bench_agent :: "string \<Rightarrow> bench_agent" where
  "example_bench_agent agent_id = \<lparr>ba_id = agent_id, ba_version = None, ba_mode = ''noop''\<rparr>"

lemma example_selected: "selected_tasks example_loaded example_options = [ta_task example_trial_args]"
  by code_simp

lemma example_run:
  "run_benchmark_suite example_run_env agent example_loaded example_options =
     Inr (run_report example_run_env agent (plan_of example_run_env agent example_loaded example_options 2 1)
       (shuffled [ta_task example_trial_args] 1))"
proof -
  have "\<not> suite_uses_command_checks example_loaded" by code_simp
  moreover have "numeric (ro_trials example_options) (with_default (suite_default sd_trials example_loaded) 1) 1 100 = Inr 2"
    by (simp add: numeric_def example_options_def Let_def)
  moreover have "numeric (ro_seed example_options) 1 0 (2 ^ 32 - 1) = Inr 1"
    by (simp add: numeric_def example_options_def Let_def)
  moreover have "select_tasks example_loaded (ro_task_ids example_options) = Inr [ta_task example_trial_args]" by code_simp
  ultimately show ?thesis by (simp add: run_benchmark_suite_def andthen_def)
qed

definition example_run_report :: "bench_agent \<Rightarrow> suite_report" where
  "example_run_report agent = run_report example_run_env agent (plan_of example_run_env agent example_loaded example_options 2 1)
     (shuffled [ta_task example_trial_args] 1)"

lemma length_example_trials: "length (sr_trials (example_run_report agent)) = 2"
proof -
  have "is_available example_run_env (ta_task example_trial_args)" by code_simp
  moreover have "shuffled [ta_task example_trial_args] 1 = [ta_task example_trial_args]" by (simp add: shuffled_def)
  ultimately have "length (concat (map (task_trials example_run_env (plan_of example_run_env agent example_loaded example_options 2 1))
      (shuffled [ta_task example_trial_args] 1))) = 2"
    by (simp add: length_task_trials)
  then show ?thesis unfolding example_run_report_def run_report_sel by (metis mset_sort_by size_mset)
qed

theorem run_accounts_witness:
  "\<exists>r. run_benchmark_suite example_run_env (example_bench_agent ''a'') example_loaded example_options = Inr r \<and>
     length (sr_trials r) = 2 \<and> ag_trials_executed (sr_aggregate r) = 2 \<and> br_seed r < 2 ^ 32"
proof -
  note run = example_run [of "example_bench_agent ''a''", folded example_run_report_def]
  from run_accounts [OF run] have "ag_trials_executed (sr_aggregate (example_run_report (example_bench_agent ''a''))) =
      length (sr_trials (example_run_report (example_bench_agent ''a'')))"
    "br_seed (example_run_report (example_bench_agent ''a'')) < 2 ^ 32"
    by blast+
  then show ?thesis using run length_example_trials by metis
qed


end
