(* ===== verification/BenchAgent.thy ===== *)
theory BenchAgent
  imports BenchTrace BenchProfile
begin

text \<open>
  Agents of the benchmark (\<open>agent.ts\<close>): the built-in ones, and the state machine of \<open>CommandAgent.run\<close> over the
  events of the child process and of the abort signal. \<open>JSON.parse\<close> and the decoding of bytes are parameters. A
  signal that is sent succeeds, and from then on \<open>child.killed\<close> is true, as Node documents.
\<close>

subsection \<open>Built-in agents\<close>

definition noop_result :: agent_result where
  "noop_result = \<lparr>ar_status = ''completed'', ar_summary = Some ''No changes were made.'', ar_usage = None, ar_events = []\<rparr>"

definition in_process_run :: "('r \<Rightarrow> jval) \<Rightarrow> 'r \<Rightarrow> string + agent_result" where
  "in_process_run handler request = normalize_agent_result (handler request)"

definition in_process_descriptor :: jval where
  "in_process_descriptor = JObj [(''mode'', JStr ''in_process''), (''handler'', JStr ''in_process'')]"

definition noop_descriptor :: "(string \<times> jval) list option \<Rightarrow> jval" where
  "noop_descriptor metadata = JObj (spread [(''mode'', JStr ''noop'')] (case metadata of None \<Rightarrow> [] | Some m \<Rightarrow> m))"

subsection \<open>Command agents\<close>

record command_agent =
  ca_command :: "string list"
  ca_max_output_bytes :: nat
  ca_metadata :: "(string \<times> jval) list option"

definition new_command_agent :: "string list \<Rightarrow> nat option \<Rightarrow> (string \<times> jval) list option \<Rightarrow> string + command_agent" where
  "new_command_agent command max_bytes metadata =
     (if command = [] \<or> [] \<in> set command then Inl ''CommandAgent command must be a non-empty string array.''
      else Inr \<lparr>ca_command = command, ca_max_output_bytes = (case max_bytes of None \<Rightarrow> 2 * 1024 * 1024 | Some n \<Rightarrow> n),
        ca_metadata = metadata\<rparr>)"

definition command_descriptor :: "(string \<Rightarrow> string) \<Rightarrow> (jval \<Rightarrow> string) \<Rightarrow> command_agent \<Rightarrow> string + jval" where
  "command_descriptor sha stringify a =
     andthen (canonical_json stringify (JArr (map JStr (ca_command a)))) (\<lambda>s.
       Inr (JObj (spread
         [(''mode'', JStr ''command_json_stdio''), (''executable'', JStr (path_basename (hd (ca_command a)))),
          (''command_digest'', JStr (sha s)), (''arguments_redacted'', jnat (length (ca_command a) - 1))]
         (case ca_metadata a of None \<Rightarrow> [] | Some m \<Rightarrow> m))))"

datatype kill_signal = Sigterm | Sigkill

record agent_run =
  rn_stdout :: string
  rn_stderr :: string
  rn_settled :: "(string + agent_result) option"
  rn_aborted :: bool
  rn_signals :: "kill_signal list"

datatype agent_event =
    Abort_Signal
  | Kill_Timer
  | Child_Error string
  | Child_Stdout string
  | Child_Stderr string
  | Child_Close "nat option" "string option"

definition kill_child :: "kill_signal \<Rightarrow> agent_run \<Rightarrow> agent_run" where
  "kill_child k s = s\<lparr>rn_signals := rn_signals s @ [k]\<rparr>"

definition child_killed :: "agent_run \<Rightarrow> bool" where
  "child_killed s \<longleftrightarrow> rn_signals s \<noteq> []"

definition finish_agent :: "string + agent_result \<Rightarrow> agent_run \<Rightarrow> agent_run" where
  "finish_agent r s = (case rn_settled s of Some x \<Rightarrow> s | None \<Rightarrow> s\<lparr>rn_settled := Some r\<rparr>)"

text \<open>\<open>abort\<close>; its listener is removed when the run is settled.\<close>

definition abort_agent :: "agent_run \<Rightarrow> agent_run" where
  "abort_agent s = (if rn_settled s = None then kill_child Sigterm (s\<lparr>rn_aborted := True\<rparr>) else s\<lparr>rn_aborted := True\<rparr>)"

definition kill_timer :: "agent_run \<Rightarrow> agent_run" where
  "kill_timer s = (if \<not> child_killed s then kill_child Sigkill s else s)"

definition start_agent :: "bool \<Rightarrow> agent_run" where
  "start_agent aborted =
     (let s = \<lparr>rn_stdout = [], rn_stderr = [], rn_settled = None, rn_aborted = False, rn_signals = []\<rparr>
      in if aborted then abort_agent s else s)"

definition timeout_result :: agent_result where
  "timeout_result = \<lparr>ar_status = ''timeout'', ar_summary = Some ''Agent process was aborted by the benchmark timeout.'',
     ar_usage = None, ar_events = []\<rparr>"

definition close_outcome ::
  "(string \<Rightarrow> string) \<Rightarrow> (string \<Rightarrow> jval option) \<Rightarrow> nat option \<Rightarrow> string option \<Rightarrow> agent_run \<Rightarrow> string + agent_result" where
  "close_outcome utf8 parse code close_signal s =
     (if rn_aborted s then Inr timeout_result
      else if code \<noteq> Some 0
      then Inl (''Agent command exited with '' @
        (case code of Some c \<Rightarrow> dec_str c | None \<Rightarrow> (case close_signal of Some k \<Rightarrow> k | None \<Rightarrow> ''unknown'')) @
        ''. stderr: '' @ (let e = utf8 (rn_stderr s) in drop (length e - 2000) e))
      else
       (let output = trim (utf8 (rn_stdout s)) in
        if output = [] then Inl ''Agent command produced no JSON result on stdout.''
        else case parse output of
          None \<Rightarrow> Inl ''Agent stdout must contain exactly one JSON result. Write logs to stderr.''
        | Some v \<Rightarrow> normalize_agent_result v))"

definition stdout_error :: "nat \<Rightarrow> string" where
  "stdout_error max_bytes = ''Agent stdout exceeds '' @ dec_str max_bytes @ '' bytes.''"

fun agent_step :: "(string \<Rightarrow> string) \<Rightarrow> (string \<Rightarrow> jval option) \<Rightarrow> nat \<Rightarrow> agent_event \<Rightarrow> agent_run \<Rightarrow> agent_run" where
  "agent_step utf8 parse max_bytes Abort_Signal s = abort_agent s"
| "agent_step utf8 parse max_bytes Kill_Timer s = kill_timer s"
| "agent_step utf8 parse max_bytes (Child_Error message) s = finish_agent (Inl message) s"
| "agent_step utf8 parse max_bytes (Child_Stdout chunk) s =
     (let s = s\<lparr>rn_stdout := rn_stdout s @ chunk\<rparr> in
      if max_bytes < length (rn_stdout s) then finish_agent (Inl (stdout_error max_bytes)) (kill_child Sigkill s) else s)"
| "agent_step utf8 parse max_bytes (Child_Stderr chunk) s =
     (let e = rn_stderr s @ chunk in s\<lparr>rn_stderr := drop (length e - max_bytes) e\<rparr>)"
| "agent_step utf8 parse max_bytes (Child_Close code close_signal) s =
     finish_agent (close_outcome utf8 parse code close_signal s) s"

definition run_command_agent ::
  "(string \<Rightarrow> string) \<Rightarrow> (string \<Rightarrow> jval option) \<Rightarrow> nat \<Rightarrow> bool \<Rightarrow> agent_event list \<Rightarrow> agent_run" where
  "run_command_agent utf8 parse max_bytes aborted es = fold (agent_step utf8 parse max_bytes) es (start_agent aborted)"

subsection \<open>Properties\<close>

definition stdout_of :: "agent_event list \<Rightarrow> string" where
  "stdout_of es = concat (map (\<lambda>e. case e of Child_Stdout chunk \<Rightarrow> chunk | _ \<Rightarrow> []) es)"

lemma agent_step_stdout: "rn_stdout (agent_step utf8 parse n e s) = rn_stdout s @ (case e of Child_Stdout chunk \<Rightarrow> chunk | _ \<Rightarrow> [])"
  by (cases e) (simp_all add: abort_agent_def kill_timer_def kill_child_def finish_agent_def Let_def split: option.split)

lemma agent_step_settled: "rn_settled s = Some r \<Longrightarrow> rn_settled (agent_step utf8 parse n e s) = Some r"
  by (cases e) (simp_all add: abort_agent_def kill_timer_def kill_child_def finish_agent_def Let_def)

lemma agent_step_stderr: "length (rn_stderr s) \<le> n \<Longrightarrow> length (rn_stderr (agent_step utf8 parse n e s)) \<le> n"
  by (cases e) (simp_all add: abort_agent_def kill_timer_def kill_child_def finish_agent_def Let_def split: option.split)

text \<open>While nothing is settled, the output that was received is within the bound.\<close>

lemma agent_step_bound:
  "rn_settled s \<noteq> None \<or> length (rn_stdout s) \<le> n \<Longrightarrow>
     rn_settled (agent_step utf8 parse n e s) \<noteq> None \<or> length (rn_stdout (agent_step utf8 parse n e s)) \<le> n"
  by (cases e) (auto simp: abort_agent_def kill_timer_def kill_child_def finish_agent_def Let_def split: option.split)

lemma fold_stdout: "rn_stdout (fold (agent_step utf8 parse n) es s) = rn_stdout s @ stdout_of es"
  by (induction es arbitrary: s) (simp_all add: agent_step_stdout stdout_of_def)

lemma fold_settled: "rn_settled s = Some r \<Longrightarrow> rn_settled (fold (agent_step utf8 parse n) es s) = Some r"
  by (induction es arbitrary: s) (simp_all add: agent_step_settled)

lemma fold_bounds:
  "length (rn_stderr s) \<le> n \<Longrightarrow> rn_settled s \<noteq> None \<or> length (rn_stdout s) \<le> n \<Longrightarrow>
     length (rn_stderr (fold (agent_step utf8 parse n) es s)) \<le> n \<and>
     (rn_settled (fold (agent_step utf8 parse n) es s) \<noteq> None \<or> length (rn_stdout (fold (agent_step utf8 parse n) es s)) \<le> n)"
proof (induction es arbitrary: s)
  case (Cons e es)
  show ?case
    using Cons.IH [OF agent_step_stderr [OF Cons.prems(1), of utf8 parse e] agent_step_bound [OF Cons.prems(2), of utf8 parse e]]
    by (simp del: not_None_eq)
qed simp

text \<open>The event that settles a run.\<close>

lemma settling_event:
  assumes "rn_settled s = None" "rn_settled (fold (agent_step utf8 parse n) es s) = Some r"
  shows "\<exists>es1 e es2. es = es1 @ e # es2 \<and> rn_settled (fold (agent_step utf8 parse n) es1 s) = None \<and>
    rn_settled (agent_step utf8 parse n e (fold (agent_step utf8 parse n) es1 s)) = Some r"
  using assms
proof (induction es arbitrary: s)
  case (Cons e es)
  show ?case
  proof (cases "rn_settled (agent_step utf8 parse n e s)")
    case None
    then obtain es1 e' es2 where "es = es1 @ e' # es2"
      "rn_settled (fold (agent_step utf8 parse n) es1 (agent_step utf8 parse n e s)) = None"
      "rn_settled (agent_step utf8 parse n e' (fold (agent_step utf8 parse n) es1 (agent_step utf8 parse n e s))) = Some r"
      using Cons.IH [of "agent_step utf8 parse n e s"] Cons.prems(2) by auto
    then show ?thesis by (intro exI [of _ "e # es1"] exI [of _ e'] exI [of _ es2]) simp
  next
    case (Some r')
    then have "r' = r" using fold_settled [OF Some, of utf8 parse n es] Cons.prems(2) by simp
    then show ?thesis using Some Cons.prems(1) by (intro exI [of _ "[]"] exI [of _ e] exI [of _ es]) simp
  qed
qed simp

lemma start_agent_sel [simp]:
  "rn_settled (start_agent b) = None" "rn_stdout (start_agent b) = []" "rn_stderr (start_agent b) = []"
  by (simp_all add: start_agent_def abort_agent_def kill_child_def Let_def)

lemma settling_result:
  assumes "rn_settled s = None" "rn_settled (agent_step utf8 parse n e s) = Some (Inr r)"
  shows "\<exists>code k. e = Child_Close code k \<and> close_outcome utf8 parse code k s = Inr r"
  using assms
  by (cases e) (auto simp: abort_agent_def kill_timer_def kill_child_def finish_agent_def Let_def split: if_splits)

text \<open>
  C23: A command agent is believed only on a clean exit. If a run is resolved with a result, then either the run was
  aborted and the result says so, or the process had exited with code 0, everything it had written to standard
  output until then is one JSON text within the limit, and the result is its normal form. Neither output is kept
  beyond the limit, and events after the first settlement change nothing.
\<close>

theorem agent_result_is_output:
  assumes "rn_settled (run_command_agent utf8 parse n aborted es) = Some (Inr r)"
  shows "(\<exists>es1 code k es2. es = es1 @ Child_Close code k # es2 \<and>
      (rn_aborted (run_command_agent utf8 parse n aborted es1) \<and> r = timeout_result \<or>
       code = Some 0 \<and> length (stdout_of es1) \<le> n \<and>
       (\<exists>v. parse (trim (utf8 (stdout_of es1))) = Some v \<and> normalize_agent_result v = Inr r))) \<and>
    length (rn_stderr (run_command_agent utf8 parse n aborted es)) \<le> n"
proof -
  let ?run = "\<lambda>es. fold (agent_step utf8 parse n) es (start_agent aborted)"
  obtain es1 e es2 where es: "es = es1 @ e # es2" "rn_settled (?run es1) = None"
    "rn_settled (agent_step utf8 parse n e (?run es1)) = Some (Inr r)"
    using settling_event [of "start_agent aborted" utf8 parse n es "Inr r"] assms by (auto simp: run_command_agent_def)
  obtain code k where close: "e = Child_Close code k" "close_outcome utf8 parse code k (?run es1) = Inr r"
    using settling_result [OF es(2,3)] by blast
  have out: "rn_stdout (?run es1) = stdout_of es1" by (simp add: fold_stdout)
  have "length (stdout_of es1) \<le> n" using fold_bounds [of "start_agent aborted" n utf8 parse es1] es(2) out by simp
  then have "rn_aborted (run_command_agent utf8 parse n aborted es1) \<and> r = timeout_result \<or>
      code = Some 0 \<and> length (stdout_of es1) \<le> n \<and>
      (\<exists>v. parse (trim (utf8 (stdout_of es1))) = Some v \<and> normalize_agent_result v = Inr r)"
    using close(2) out
    by (auto simp: close_outcome_def run_command_agent_def Let_def split: if_splits option.splits)
  then show ?thesis
    using es(1) close(1) fold_bounds [of "start_agent aborted" n utf8 parse es] by (auto simp: run_command_agent_def)
qed

definition example_agent_parse :: "string \<Rightarrow> jval option" where
  "example_agent_parse s = (if s = ''{}'' then Some example_agent_result else None)"

theorem agent_result_is_output_witness:
  "\<exists>r. rn_settled (run_command_agent (\<lambda>s. s) example_agent_parse 9 False
      [Child_Stdout ''{'', Child_Stdout ''} '', Child_Close (Some 0) None]) = Some (Inr r) \<and> r \<noteq> timeout_result"
proof -
  let ?es = "[Child_Stdout ''{'', Child_Stdout ''} '', Child_Close (Some 0) None]"
  let ?s = "run_command_agent (\<lambda>s. s) example_agent_parse 9 False ?es"
  obtain r where r: "normalize_agent_result example_agent_result = Inr r" "ar_status r = ''completed''"
    by (auto simp: example_agent_result_def normalize_agent_result_def AGENT_STATUSES_def)
  have "trim ''{} '' = ''{}''" by code_simp
  then have "rn_settled ?s = Some (Inr r)"
    using r(1) by (simp add: run_command_agent_def start_agent_def finish_agent_def close_outcome_def example_agent_parse_def Let_def)
  from agent_result_is_output [OF this] this r(2) show ?thesis by (intro exI [of _ r]) (auto simp: timeout_result_def)
qed

text \<open>
  The abort never escalates: \<open>kill("SIGTERM")\<close> has set \<open>child.killed\<close>, so the timer never sends \<open>SIGKILL\<close>, and a
  child that ignores \<open>SIGTERM\<close> keeps running while its workspace is scored.
\<close>

theorem abort_never_kills:
  "rn_signals (run_command_agent utf8 parse n False [Abort_Signal, Kill_Timer]) = [Sigterm]"
  by (simp add: run_command_agent_def start_agent_def abort_agent_def kill_timer_def kill_child_def child_killed_def)

end
