(* ===== verification/BenchSuite.thy ===== *)
theory BenchSuite
  imports BenchProfile BenchWorkspace
begin

text \<open>
  Loading a suite of the benchmark (\<open>suite.ts\<close>): the checks of every field of a suite, of its tasks and of their
  checks; the trees of the fixtures; the files that verifiers refer to; and the digests. The file system, \<open>RegExp\<close>,
  SHA-256 and the writing of JSON are parameters. Integers that the checks have bounded are natural numbers.
\<close>

subsection \<open>Fields\<close>

definition DOMAINS :: "string list" where
  "DOMAINS = [''elisp'', ''clojure'', ''common_lisp'', ''org'', ''mixed'']"

definition CATEGORIES :: "string list" where
  "CATEGORIES = [''repair'', ''refactor'', ''authoring'', ''navigation'', ''evaluation'']"

definition DIFFICULTIES :: "string list" where
  "DIFFICULTIES = [''small'', ''medium'', ''large'']"

definition CHECK_TYPES :: "string list" where
  "CHECK_TYPES = [''file_exists'', ''file_unchanged'', ''text_contains'', ''text_not_contains'', ''regex_count'', ''exact_text'',
     ''lisp_balance'', ''org_structure'', ''command'']"

definition suite_object :: "jval \<Rightarrow> string \<Rightarrow> string + jval" where
  "suite_object v label = (if is_record v then Inr v else Inl (label @ '' must be an object.''))"

definition suite_text :: "jval \<Rightarrow> string \<Rightarrow> string + string" where
  "suite_text v label =
     (case v of JStr s \<Rightarrow> if trim s = [] then Inl (label @ '' must be a non-empty string.'') else Inr s
      | _ \<Rightarrow> Inl (label @ '' must be a non-empty string.''))"

definition opt_text :: "jval \<Rightarrow> string \<Rightarrow> string + string option" where
  "opt_text v label = optional (\<lambda>v. suite_text v label) v"

definition opt_count :: "jval \<Rightarrow> string \<Rightarrow> nat \<Rightarrow> nat \<Rightarrow> string + nat option" where
  "opt_count v label minimum maximum =
     optional (\<lambda>v. map_sum id (\<lambda>q. nat \<lfloor>q\<rfloor>) (whole_number v label (of_nat minimum) (of_nat maximum))) v"

definition strings_error :: "string \<Rightarrow> string" where
  "strings_error label = label @ '' must be an array of non-empty strings.''"

definition nonempty_strings :: "jval list \<Rightarrow> string list option" where
  "nonempty_strings xs =
     (if list_all (\<lambda>x. case x of JStr s \<Rightarrow> s \<noteq> [] | _ \<Rightarrow> False) xs then Some (List.map_filter string_of xs) else None)"

definition opt_strings :: "jval \<Rightarrow> string \<Rightarrow> string + string list option" where
  "opt_strings v label =
     optional (\<lambda>v. case v of
        JArr xs \<Rightarrow> (case nonempty_strings xs of Some ss \<Rightarrow> Inr ss | None \<Rightarrow> Inl (strings_error label))
      | _ \<Rightarrow> Inl (strings_error label)) v"

definition relative_field :: "jval \<Rightarrow> string \<Rightarrow> string + string" where
  "relative_field v label = andthen (suite_text v label) (\<lambda>s. normalize_relative_path s label)"

definition opt_relative :: "jval \<Rightarrow> string \<Rightarrow> string + string option" where
  "opt_relative v label = optional (\<lambda>v. relative_field v label) v"

definition opt_flag :: "jval \<Rightarrow> string \<Rightarrow> string + bool option" where
  "opt_flag v label = optional (\<lambda>v. case v of JBool b \<Rightarrow> Inr b | _ \<Rightarrow> Inl (label @ '' must be boolean.'')) v"

definition nonempty_array :: "jval \<Rightarrow> string \<Rightarrow> string + jval list" where
  "nonempty_array v label =
     (case v of JArr xs \<Rightarrow> if xs = [] then Inl (label @ '' must not be empty.'') else Inr xs | _ \<Rightarrow> Inl (label @ '' must not be empty.''))"

definition opt_string :: "jval \<Rightarrow> string + string option" where
  "opt_string v = optional (\<lambda>v. Inr (js_string v)) v"

subsection \<open>Checks\<close>

definition million :: nat where
  "million = 1000 * 1000"

definition read_expectation :: "jval \<Rightarrow> string \<Rightarrow> string + org_expectation" where
  "read_expectation v label =
     andthen (suite_object v label) (\<lambda>expect.
     let count = (\<lambda>key. opt_count (get_prop expect key) (label @ ''.'' @ key) 0 million);
         strings = (\<lambda>key. opt_strings (get_prop expect key) (label @ ''.'' @ key)) in
     andthen (count ''min_headings'') (\<lambda>min_headings.
     andthen (count ''exact_headings'') (\<lambda>exact_headings.
     andthen (count ''min_tables'') (\<lambda>min_tables.
     andthen (count ''exact_tables'') (\<lambda>exact_tables.
     andthen (count ''min_src_blocks'') (\<lambda>min_src_blocks.
     andthen (count ''exact_src_blocks'') (\<lambda>exact_src_blocks.
     andthen (strings ''required_titles'') (\<lambda>required_titles.
     andthen (strings ''required_languages'') (\<lambda>required_languages.
     andthen (optional (\<lambda>v. andthen (suite_object v (label @ ''.required_properties'')) (\<lambda>props.
         all_Inr (map (\<lambda>(key, value). map_sum id (\<lambda>k. (k, js_string value)) (suite_text (JStr key) ''property key'')) (fields_of props))))
       (get_prop expect ''required_properties'')) (\<lambda>required_properties.
       Inr \<lparr>oe_min_headings = min_headings, oe_exact_headings = exact_headings, oe_min_tables = min_tables,
         oe_exact_tables = exact_tables, oe_min_src_blocks = min_src_blocks, oe_exact_src_blocks = exact_src_blocks,
         oe_required_titles = required_titles, oe_required_languages = required_languages,
         oe_required_properties = required_properties\<rparr>))))))))))"

definition read_regex_check :: "(string \<Rightarrow> string \<Rightarrow> string option) \<Rightarrow> jval \<Rightarrow> string \<Rightarrow> string \<Rightarrow> string + check_kind" where
  "read_regex_check regexp input label p =
     andthen (suite_text (get_prop input ''pattern'') (label @ ''.pattern'')) (\<lambda>pattern.
     andthen (case regexp pattern (case get_prop input ''flags'' of JStr f \<Rightarrow> f | _ \<Rightarrow> ''gu'') of
         Some e \<Rightarrow> Inl (label @ '' has invalid regex: '' @ e) | None \<Rightarrow> Inr ()) (\<lambda>_.
     andthen (opt_text (get_prop input ''flags'') (label @ ''.flags'')) (\<lambda>flags.
     andthen (opt_count (get_prop input ''min_count'') (label @ ''.min_count'') 0 million) (\<lambda>min_count.
     andthen (opt_count (get_prop input ''max_count'') (label @ ''.max_count'') 0 million) (\<lambda>max_count.
     andthen (checked (label @ '' min_count exceeds max_count.'')
         (case (min_count, max_count) of (Some a, Some b) \<Rightarrow> a \<le> b | _ \<Rightarrow> True)) (\<lambda>_.
       Inr (Regex_Count p pattern flags min_count max_count)))))))"

definition read_exact_check :: "jval \<Rightarrow> string \<Rightarrow> string \<Rightarrow> string + check_kind" where
  "read_exact_check input label p =
     andthen (checked (label @ '' requires exactly one of expected_text or expected_file.'')
         ((get_prop input ''expected_text'' = JUndef) \<noteq> (get_prop input ''expected_file'' = JUndef))) (\<lambda>_.
     andthen (opt_string (get_prop input ''expected_text'')) (\<lambda>expected_text.
     andthen (opt_relative (get_prop input ''expected_file'') (label @ ''.expected_file'')) (\<lambda>expected_file.
     andthen (opt_flag (get_prop input ''normalize_final_newline'') (label @ ''.normalize_final_newline'')) (\<lambda>normalize.
       Inr (Exact_Text p expected_text expected_file normalize)))))"

definition read_command_check :: "jval \<Rightarrow> string \<Rightarrow> string + check_kind" where
  "read_command_check input label =
     andthen (case get_prop input ''command'' of
         JArr (x # xs) \<Rightarrow> (case nonempty_strings (x # xs) of
           Some ss \<Rightarrow> Inr ss | None \<Rightarrow> Inl (label @ ''.command must be a non-empty string array.''))
       | _ \<Rightarrow> Inl (label @ ''.command must be a non-empty string array.'')) (\<lambda>command.
     andthen (opt_relative (get_prop input ''cwd'') (label @ ''.cwd'')) (\<lambda>cwd.
     andthen (opt_count (get_prop input ''timeout_ms'') (label @ ''.timeout_ms'') 1 (300 * 1000)) (\<lambda>timeout_ms.
     andthen (opt_count (get_prop input ''expected_exit_code'') (label @ ''.expected_exit_code'') 0 255) (\<lambda>exit_code.
     andthen (opt_string (get_prop input ''stdout_contains'')) (\<lambda>out.
     andthen (opt_string (get_prop input ''stderr_contains'')) (\<lambda>err.
       Inr (Command command cwd timeout_ms exit_code out err)))))))"

definition read_check_kind :: "(string \<Rightarrow> string \<Rightarrow> string option) \<Rightarrow> jval \<Rightarrow> string \<Rightarrow> string \<Rightarrow> string + check_kind" where
  "read_check_kind regexp input label type =
     (if type = ''command'' then read_command_check input label
      else andthen (relative_field (get_prop input ''path'') (label @ ''.path'')) (\<lambda>p.
        if type = ''text_contains'' then
          andthen (suite_text (get_prop input ''text'') (label @ ''.text'')) (\<lambda>s.
          andthen (opt_count (get_prop input ''min_count'') (label @ ''.min_count'') 0 million) (\<lambda>n. Inr (Text_Contains p s n)))
        else if type = ''text_not_contains'' then
          andthen (suite_text (get_prop input ''text'') (label @ ''.text'')) (\<lambda>s. Inr (Text_Not_Contains p s))
        else if type = ''regex_count'' then read_regex_check regexp input label p
        else if type = ''exact_text'' then read_exact_check input label p
        else if type = ''org_structure'' then
          andthen (read_expectation (get_prop input ''expect'') (label @ ''.expect'')) (\<lambda>e. Inr (Org_Structure p e))
        else Inr (if type = ''file_exists'' then File_Exists p
          else if type = ''file_unchanged'' then File_Unchanged p else Lisp_Balance p)))"

definition validate_check ::
  "(string \<Rightarrow> string \<Rightarrow> string option) \<Rightarrow> string \<Rightarrow> jval \<Rightarrow> string list \<Rightarrow> string + benchmark_check \<times> string list" where
  "validate_check regexp task_label raw ids =
     andthen (suite_object raw (task_label @ '' check'')) (\<lambda>input.
     andthen (suite_text (get_prop input ''id'') (task_label @ '' check.id'')) (\<lambda>ident.
     andthen (checked (task_label @ '' has duplicate check id: '' @ ident) (ident \<notin> set ids)) (\<lambda>_.
     andthen (suite_text (get_prop input ''type'') (task_label @ '' check.type'')) (\<lambda>type.
     let label = task_label @ '' check '' @ ident in
     andthen (checked (label @ '' has unsupported type: '' @ type) (type \<in> set CHECK_TYPES)) (\<lambda>_.
     andthen (optional_finite (get_prop input ''weight'') (label @ ''.weight'') (1 / of_nat million) (of_nat million)) (\<lambda>weight.
     andthen (opt_flag (get_prop input ''required'') (label @ ''.required'')) (\<lambda>required.
     andthen (opt_text (get_prop input ''description'') (label @ ''.description'')) (\<lambda>description.
     andthen (read_check_kind regexp input label type) (\<lambda>kind.
       Inr (\<lparr>ck_id = ident, ck_weight = weight, ck_required = required, ck_description = map_option (take 4096) description,
         ck_kind = kind\<rparr>, ident # ids))))))))))"

fun validate_checks ::
  "(string \<Rightarrow> string \<Rightarrow> string option) \<Rightarrow> string \<Rightarrow> jval list \<Rightarrow> string list \<Rightarrow> string + benchmark_check list" where
  "validate_checks regexp label [] ids = Inr []"
| "validate_checks regexp label (raw # raws) ids =
     andthen (validate_check regexp label raw ids) (\<lambda>(c, ids).
     andthen (validate_checks regexp label raws ids) (\<lambda>cs. Inr (c # cs)))"

subsection \<open>Tasks\<close>

definition opt_paths :: "jval \<Rightarrow> string \<Rightarrow> string + string list option" where
  "opt_paths v label =
     andthen (opt_strings v label) (\<lambda>ps. case ps of
        None \<Rightarrow> Inr None
      | Some items \<Rightarrow> map_sum id Some (all_Inr (map (\<lambda>item. normalize_relative_path item label) items)))"

definition read_requirements :: "jval \<Rightarrow> string \<Rightarrow> string + benchmark_requirement" where
  "read_requirements v label =
     andthen (suite_object v label) (\<lambda>requirements.
     andthen (opt_strings (get_prop requirements ''executables'') (label @ ''.executables'')) (\<lambda>executables.
     andthen (opt_strings (get_prop requirements ''platforms'') (label @ ''.platforms'')) (\<lambda>platforms.
     andthen (opt_strings (get_prop requirements ''environment'') (label @ ''.environment'')) (\<lambda>environment.
       Inr \<lparr>rq_executables = executables, rq_platforms = platforms, rq_environment = environment\<rparr>))))"

definition validate_task :: "(string \<Rightarrow> string \<Rightarrow> string option) \<Rightarrow> jval \<Rightarrow> string list \<Rightarrow> string + benchmark_task \<times> string list" where
  "validate_task regexp raw ids =
     andthen (suite_object raw ''task'') (\<lambda>input.
     andthen (suite_text (get_prop input ''id'') ''task.id'') (\<lambda>ident.
     let label = ''task '' @ ident in
     andthen (checked (''Invalid task id: '' @ ident) (id_pattern ident)) (\<lambda>_.
     andthen (checked (''Duplicate task id: '' @ ident) (ident \<notin> set ids)) (\<lambda>_.
     andthen (suite_text (get_prop input ''domain'') (label @ ''.domain'')) (\<lambda>domain.
     andthen (suite_text (get_prop input ''category'') (label @ ''.category'')) (\<lambda>category.
     andthen (suite_text (get_prop input ''difficulty'') (label @ ''.difficulty'')) (\<lambda>difficulty.
     andthen (checked (label @ '' has unsupported domain: '' @ domain) (domain \<in> set DOMAINS)) (\<lambda>_.
     andthen (checked (label @ '' has unsupported category: '' @ category) (category \<in> set CATEGORIES)) (\<lambda>_.
     andthen (checked (label @ '' has unsupported difficulty: '' @ difficulty) (difficulty \<in> set DIFFICULTIES)) (\<lambda>_.
     andthen (nonempty_array (get_prop input ''checks'') (label @ ''.checks'')) (\<lambda>raws.
     andthen (suite_text (get_prop input ''title'') (label @ ''.title'')) (\<lambda>title.
     andthen (relative_field (get_prop input ''prompt_file'') (label @ ''.prompt_file'')) (\<lambda>prompt_file.
     andthen (relative_field (get_prop input ''fixture_dir'') (label @ ''.fixture_dir'')) (\<lambda>fixture_dir.
     andthen (validate_checks regexp label raws []) (\<lambda>checks.
     andthen (opt_text (get_prop input ''description'') (label @ ''.description'')) (\<lambda>description.
     andthen (opt_strings (get_prop input ''tags'') (label @ ''.tags'')) (\<lambda>tags.
     andthen (opt_paths (get_prop input ''protected_paths'') (label @ ''.protected_paths'')) (\<lambda>protected_paths.
     andthen (opt_paths (get_prop input ''allowed_paths'') (label @ ''.allowed_paths'')) (\<lambda>allowed_paths.
     andthen (optional_finite (get_prop input ''pass_threshold'') (label @ ''.pass_threshold'') 0 1) (\<lambda>pass_threshold.
     andthen (opt_count (get_prop input ''timeout_ms'') (label @ ''.timeout_ms'') 1 (3600 * 1000)) (\<lambda>timeout_ms.
     andthen (optional (\<lambda>v. read_requirements v (label @ ''.requirements'')) (get_prop input ''requirements'')) (\<lambda>requirements.
       Inr (\<lparr>bt_id = ident, bt_title = title, bt_domain = domain, bt_category = category, bt_difficulty = difficulty,
         bt_prompt_file = prompt_file, bt_fixture_dir = fixture_dir, bt_checks = checks, bt_description = description,
         bt_tags = tags, bt_protected_paths = protected_paths, bt_allowed_paths = allowed_paths,
         bt_pass_threshold = pass_threshold, bt_timeout_ms = timeout_ms, bt_requirements = requirements\<rparr>, ident # ids)))))))))))))))))))))))"

fun validate_tasks :: "(string \<Rightarrow> string \<Rightarrow> string option) \<Rightarrow> jval list \<Rightarrow> string list \<Rightarrow> string + benchmark_task list" where
  "validate_tasks regexp [] ids = Inr []"
| "validate_tasks regexp (raw # raws) ids =
     andthen (validate_task regexp raw ids) (\<lambda>(t, ids).
     andthen (validate_tasks regexp raws ids) (\<lambda>ts. Inr (t # ts)))"

definition read_defaults :: "jval \<Rightarrow> string + suite_defaults" where
  "read_defaults v =
     andthen (suite_object v ''suite.defaults'') (\<lambda>d.
     andthen (opt_count (get_prop d ''timeout_ms'') ''suite.defaults.timeout_ms'' 1 (3600 * 1000)) (\<lambda>timeout_ms.
     andthen (opt_count (get_prop d ''trials'') ''suite.defaults.trials'' 1 100) (\<lambda>trials.
     andthen (optional_finite (get_prop d ''pass_threshold'') ''suite.defaults.pass_threshold'' 0 1) (\<lambda>pass_threshold.
     andthen (opt_count (get_prop d ''max_workspace_bytes'') ''suite.defaults.max_workspace_bytes'' 1 (1024 * 1024 * 1024)) (\<lambda>max_workspace.
     andthen (opt_count (get_prop d ''max_agent_output_bytes'') ''suite.defaults.max_agent_output_bytes'' 1024 (64 * 1024 * 1024)) (\<lambda>max_output.
       Inr \<lparr>sd_timeout_ms = timeout_ms, sd_trials = trials, sd_pass_threshold = pass_threshold,
         sd_max_workspace_bytes = max_workspace, sd_max_agent_output_bytes = max_output\<rparr>))))))"

definition validate_suite :: "(string \<Rightarrow> string \<Rightarrow> string option) \<Rightarrow> jval \<Rightarrow> string + benchmark_suite" where
  "validate_suite regexp raw =
     andthen (suite_object raw ''suite'') (\<lambda>input.
     andthen (checked ''suite.schema_version must be 1.0.'' (get_prop input ''schema_version'' = JStr ''1.0'')) (\<lambda>_.
     andthen (nonempty_array (get_prop input ''tasks'') ''suite.tasks'') (\<lambda>raws.
     andthen (suite_text (get_prop input ''id'') ''suite.id'') (\<lambda>ident.
     andthen (suite_text (get_prop input ''revision'') ''suite.revision'') (\<lambda>revision.
     andthen (suite_text (get_prop input ''title'') ''suite.title'') (\<lambda>title.
     andthen (validate_tasks regexp raws []) (\<lambda>tasks.
     andthen (opt_text (get_prop input ''description'') ''suite.description'') (\<lambda>description.
     andthen (optional read_defaults (get_prop input ''defaults'')) (\<lambda>defs.
       Inr \<lparr>su_id = ident, su_revision = revision, su_title = title, su_tasks = tasks, su_description = description,
         su_defaults = defs\<rparr>)))))))))"

subsection \<open>The objects that the digests are made of\<close>

definition jstrs :: "string list \<Rightarrow> jval" where
  "jstrs ss = JArr (map JStr ss)"

definition expectation_json :: "org_expectation \<Rightarrow> jval" where
  "expectation_json e = JObj
     (opt_entry ''min_headings'' jnat (oe_min_headings e) @ opt_entry ''exact_headings'' jnat (oe_exact_headings e) @
      opt_entry ''min_tables'' jnat (oe_min_tables e) @ opt_entry ''exact_tables'' jnat (oe_exact_tables e) @
      opt_entry ''min_src_blocks'' jnat (oe_min_src_blocks e) @ opt_entry ''exact_src_blocks'' jnat (oe_exact_src_blocks e) @
      opt_entry ''required_titles'' jstrs (oe_required_titles e) @ opt_entry ''required_languages'' jstrs (oe_required_languages e) @
      opt_entry ''required_properties'' (\<lambda>ps. JObj (map (\<lambda>(k, v). (k, JStr v)) ps)) (oe_required_properties e))"

fun kind_fields :: "check_kind \<Rightarrow> (string \<times> jval) list" where
  "kind_fields (File_Exists p) = [(''path'', JStr p)]"
| "kind_fields (File_Unchanged p) = [(''path'', JStr p)]"
| "kind_fields (Text_Contains p s n) = [(''path'', JStr p), (''text'', JStr s)] @ opt_entry ''min_count'' jnat n"
| "kind_fields (Text_Not_Contains p s) = [(''path'', JStr p), (''text'', JStr s)]"
| "kind_fields (Regex_Count p pattern flags a b) = [(''path'', JStr p), (''pattern'', JStr pattern)] @
     opt_entry ''flags'' JStr flags @ opt_entry ''min_count'' jnat a @ opt_entry ''max_count'' jnat b"
| "kind_fields (Exact_Text p s f n) = [(''path'', JStr p)] @ opt_entry ''expected_text'' JStr s @
     opt_entry ''expected_file'' JStr f @ opt_entry ''normalize_final_newline'' JBool n"
| "kind_fields (Lisp_Balance p) = [(''path'', JStr p)]"
| "kind_fields (Org_Structure p e) = [(''path'', JStr p), (''expect'', expectation_json e)]"
| "kind_fields (Command cs cwd t x out err) = [(''command'', jstrs cs)] @ opt_entry ''cwd'' JStr cwd @
     opt_entry ''timeout_ms'' jnat t @ opt_entry ''expected_exit_code'' jnat x @ opt_entry ''stdout_contains'' JStr out @
     opt_entry ''stderr_contains'' JStr err"

definition check_json :: "benchmark_check \<Rightarrow> jval" where
  "check_json c = JObj ([(''id'', JStr (ck_id c)), (''type'', JStr (check_type (ck_kind c)))] @
     opt_entry ''weight'' (\<lambda>q. JNum (Fin q)) (ck_weight c) @ opt_entry ''required'' JBool (ck_required c) @
     opt_entry ''description'' JStr (ck_description c) @ kind_fields (ck_kind c))"

definition requirement_json :: "benchmark_requirement \<Rightarrow> jval" where
  "requirement_json r = JObj (opt_entry ''executables'' jstrs (rq_executables r) @ opt_entry ''platforms'' jstrs (rq_platforms r) @
     opt_entry ''environment'' jstrs (rq_environment r))"

definition task_json :: "benchmark_task \<Rightarrow> jval" where
  "task_json t = JObj
     ([(''id'', JStr (bt_id t)), (''title'', JStr (bt_title t)), (''domain'', JStr (bt_domain t)), (''category'', JStr (bt_category t)),
       (''difficulty'', JStr (bt_difficulty t)), (''prompt_file'', JStr (bt_prompt_file t)), (''fixture_dir'', JStr (bt_fixture_dir t)),
       (''checks'', JArr (map check_json (bt_checks t)))] @
      opt_entry ''description'' JStr (bt_description t) @ opt_entry ''tags'' jstrs (bt_tags t) @
      opt_entry ''protected_paths'' jstrs (bt_protected_paths t) @ opt_entry ''allowed_paths'' jstrs (bt_allowed_paths t) @
      opt_entry ''pass_threshold'' (\<lambda>q. JNum (Fin q)) (bt_pass_threshold t) @ opt_entry ''timeout_ms'' jnat (bt_timeout_ms t) @
      opt_entry ''requirements'' requirement_json (bt_requirements t))"

definition defaults_json :: "suite_defaults \<Rightarrow> jval" where
  "defaults_json d = JObj (opt_entry ''timeout_ms'' jnat (sd_timeout_ms d) @ opt_entry ''trials'' jnat (sd_trials d) @
     opt_entry ''pass_threshold'' (\<lambda>q. JNum (Fin q)) (sd_pass_threshold d) @
     opt_entry ''max_workspace_bytes'' jnat (sd_max_workspace_bytes d) @
     opt_entry ''max_agent_output_bytes'' jnat (sd_max_agent_output_bytes d))"

definition suite_json :: "benchmark_suite \<Rightarrow> jval" where
  "suite_json s = JObj
     ([(''schema_version'', JStr ''1.0''), (''id'', JStr (su_id s)), (''revision'', JStr (su_revision s)), (''title'', JStr (su_title s)),
       (''tasks'', JArr (map task_json (su_tasks s)))] @
      opt_entry ''description'' JStr (su_description s) @ opt_entry ''defaults'' defaults_json (su_defaults s))"

subsection \<open>The files of a suite\<close>

record file_record =
  fr_path :: string
  fr_bytes :: nat
  fr_sha256 :: string

definition file_record_json :: "file_record \<Rightarrow> jval" where
  "file_record_json r = JObj [(''path'', JStr (fr_path r)), (''bytes'', jnat (fr_bytes r)), (''sha256'', JStr (fr_sha256 r))]"

function collect_tree_records ::
  "(string \<Rightarrow> string \<Rightarrow> bool) \<Rightarrow> (string \<Rightarrow> string) \<Rightarrow> string \<Rightarrow> (string \<times> fs_node) list \<Rightarrow> string + file_record list" where
  "collect_tree_records collate sha dir [] = Inr []"
| "collect_tree_records collate sha dir ((name, x) # es) =
     (let relative = child_path dir name in
      case x of
        Fs_Link \<Rightarrow> Inl (''Suite contains a symbolic link: '' @ relative)
      | Fs_Other \<Rightarrow> Inl (''Suite contains a non-regular file: '' @ relative)
      | Fs_Dir kids mode \<Rightarrow>
          andthen (collect_tree_records collate sha relative (sorted_entries collate kids)) (\<lambda>rs.
          andthen (collect_tree_records collate sha dir es) (\<lambda>more. Inr (rs @ more)))
      | Fs_File content mode \<Rightarrow>
          andthen (collect_tree_records collate sha dir es) (\<lambda>more.
            Inr (\<lparr>fr_path = relative, fr_bytes = length content, fr_sha256 = sha content\<rparr> # more)))"
  by pat_completeness auto
termination
  by (relation "measure (\<lambda>(collate, sha, dir, es). entries_size es)")
    (auto simp: le_imp_less_Suc trans_le_add1 simp del: fs_node.size)

record suite_disk =
  sk_exists :: "string \<Rightarrow> bool"
  sk_link :: "string \<Rightarrow> bool"
  sk_is_file :: "string \<Rightarrow> bool"
  sk_is_dir :: "string \<Rightarrow> bool"
  sk_read :: "string \<Rightarrow> string"
  sk_tree :: "string \<Rightarrow> (string \<times> fs_node) list"
  sk_cwd :: string
  sk_collate :: "string \<Rightarrow> string \<Rightarrow> bool"
  sk_sha :: "string \<Rightarrow> string"
  sk_parse :: "string \<Rightarrow> string + jval"
  sk_stringify :: "jval \<Rightarrow> string"
  sk_regexp :: "string \<Rightarrow> string \<Rightarrow> string option"

text \<open>\<open>/^\$\{suite\}\/(.+)$/u\<close>: what follows the mark, on one line.\<close>

definition SUITE_MARK :: string where
  "SUITE_MARK = ''${suite}/''"

definition suite_argument :: "string \<Rightarrow> string option" where
  "suite_argument argument =
     (let rest = drop (length SUITE_MARK) argument in
      if starts_with argument SUITE_MARK \<and> rest \<noteq> [] \<and> LF \<notin> set rest \<and> CR \<notin> set rest then Some rest else None)"

definition check_references :: "benchmark_check \<Rightarrow> string + string list" where
  "check_references c =
     (case ck_kind c of
        Exact_Text p s (Some f) n \<Rightarrow> Inr (if f = [] then [] else [f])
      | Command cs cwd t x out err \<Rightarrow>
          all_Inr (map (\<lambda>rest. normalize_relative_path rest ''command verifier path'') (List.map_filter suite_argument cs))
      | _ \<Rightarrow> Inr [])"

definition reference_record :: "suite_disk \<Rightarrow> string \<Rightarrow> string \<Rightarrow> string + file_record" where
  "reference_record k suite_dir relative =
     andthen (resolve_inside (sk_cwd k) suite_dir relative ''referenced suite file'') (\<lambda>full.
     andthen (assert_no_symlink_path (sk_exists k) (sk_link k) (sk_cwd k) suite_dir full ''referenced suite file'') (\<lambda>_.
     andthen (checked (''Referenced suite file does not exist: '' @ relative) (sk_exists k full \<and> sk_is_file k full)) (\<lambda>_.
       Inr \<lparr>fr_path = relative, fr_bytes = length (sk_read k full), fr_sha256 = sk_sha k (sk_read k full)\<rparr>)))"

definition verifier_references :: "suite_disk \<Rightarrow> string \<Rightarrow> benchmark_task \<Rightarrow> string + file_record list" where
  "verifier_references k suite_dir t =
     andthen (all_Inr (map check_references (bt_checks t))) (\<lambda>refs.
       all_Inr (map (reference_record k suite_dir) (sort (remdups (concat refs)))))"

definition load_task :: "suite_disk \<Rightarrow> string \<Rightarrow> benchmark_task \<Rightarrow> string + loaded_task" where
  "load_task k suite_dir t =
     (let label = ''task '' @ bt_id t in
      andthen (resolve_inside (sk_cwd k) suite_dir (bt_prompt_file t) (label @ '' prompt_file'')) (\<lambda>prompt_path.
      andthen (resolve_inside (sk_cwd k) suite_dir (bt_fixture_dir t) (label @ '' fixture_dir'')) (\<lambda>fixture_path.
      andthen (assert_no_symlink_path (sk_exists k) (sk_link k) (sk_cwd k) suite_dir prompt_path (label @ '' prompt_file'')) (\<lambda>_.
      andthen (assert_no_symlink_path (sk_exists k) (sk_link k) (sk_cwd k) suite_dir fixture_path (label @ '' fixture_dir'')) (\<lambda>_.
      andthen (checked (''Task '' @ bt_id t @ '' prompt_file does not exist.'') (sk_exists k prompt_path \<and> sk_is_file k prompt_path)) (\<lambda>_.
      andthen (checked (''Task '' @ bt_id t @ '' fixture_dir does not exist.'') (sk_exists k fixture_path \<and> sk_is_dir k fixture_path)) (\<lambda>_.
      andthen (collect_tree_records (sk_collate k) (sk_sha k) [] (sorted_entries (sk_collate k) (sk_tree k fixture_path))) (\<lambda>fixture.
      andthen (verifier_references k suite_dir t) (\<lambda>refs.
      andthen (canonical_json (sk_stringify k) (JObj [(''task'', task_json t), (''prompt_sha256'', JStr (sk_sha k (sk_read k prompt_path))),
          (''fixture'', JArr (map file_record_json fixture)), (''references'', JArr (map file_record_json refs))])) (\<lambda>canonical.
        Inr \<lparr>lt_task = t, lt_prompt = sk_read k prompt_path, lt_prompt_path = prompt_path, lt_fixture_path = fixture_path,
          lt_digest = sk_sha k canonical\<rparr>))))))))))"

definition load_benchmark_suite :: "suite_disk \<Rightarrow> string \<Rightarrow> string + loaded_suite" where
  "load_benchmark_suite k suite_path =
     (let full = path_resolve (sk_cwd k) suite_path; suite_dir = path_dirname full in
      andthen (checked (''Benchmark suite does not exist: '' @ full) (sk_exists k full \<and> sk_is_file k full)) (\<lambda>_.
      andthen (assert_no_symlink_path (sk_exists k) (sk_link k) (sk_cwd k) suite_dir full ''suite path'') (\<lambda>_.
      andthen (sk_parse k (sk_read k full)) (\<lambda>raw.
      andthen (validate_suite (sk_regexp k) raw) (\<lambda>suite.
      andthen (all_Inr (map (load_task k suite_dir) (su_tasks suite))) (\<lambda>tasks.
      andthen (canonical_json (sk_stringify k) (JObj [(''suite'', suite_json suite),
          (''task_digests'', JArr (map (\<lambda>t. JObj [(''id'', JStr (bt_id (lt_task t))), (''digest'', JStr (lt_digest t))]) tasks))])) (\<lambda>canonical.
        Inr \<lparr>ls_suite = suite, ls_suite_path = full, ls_suite_dir = suite_dir, ls_digest = sk_sha k canonical, ls_tasks = tasks\<rparr>)))))))"

subsection \<open>What a loaded suite guarantees\<close>

definition in_bounds :: "nat \<Rightarrow> nat \<Rightarrow> nat option \<Rightarrow> bool" where
  "in_bounds lo hi v = (case v of None \<Rightarrow> True | Some n \<Rightarrow> lo \<le> n \<and> n \<le> hi)"

definition in_interval :: "rat \<Rightarrow> rat \<Rightarrow> rat option \<Rightarrow> bool" where
  "in_interval lo hi v = (case v of None \<Rightarrow> True | Some q \<Rightarrow> lo \<le> q \<and> q \<le> hi)"

fun kind_ok :: "check_kind \<Rightarrow> bool" where
  "kind_ok (Text_Contains p s n) = (trim s \<noteq> [] \<and> in_bounds 0 million n)"
| "kind_ok (Text_Not_Contains p s) = (trim s \<noteq> [])"
| "kind_ok (Regex_Count p pattern flags a b) =
     (trim pattern \<noteq> [] \<and> in_bounds 0 million a \<and> in_bounds 0 million b \<and>
      (case (a, b) of (Some x, Some y) \<Rightarrow> x \<le> y | _ \<Rightarrow> True))"
| "kind_ok (Exact_Text p s f n) = ((s = None) \<noteq> (f = None))"
| "kind_ok (Command cs cwd t x out err) = (cs \<noteq> [] \<and> [] \<notin> set cs \<and> in_bounds 1 (300 * 1000) t \<and> in_bounds 0 255 x)"
| "kind_ok _ = True"

definition check_ok :: "benchmark_check \<Rightarrow> bool" where
  "check_ok c \<longleftrightarrow> trim (ck_id c) \<noteq> [] \<and> in_interval (1 / of_nat million) (of_nat million) (ck_weight c) \<and> kind_ok (ck_kind c)"

definition task_ok :: "benchmark_task \<Rightarrow> bool" where
  "task_ok t \<longleftrightarrow> id_pattern (bt_id t) \<and> bt_domain t \<in> set DOMAINS \<and> bt_category t \<in> set CATEGORIES \<and>
     bt_difficulty t \<in> set DIFFICULTIES \<and> bt_checks t \<noteq> [] \<and> distinct (map ck_id (bt_checks t)) \<and>
     list_all check_ok (bt_checks t) \<and> in_interval 0 1 (bt_pass_threshold t) \<and> in_bounds 1 (3600 * 1000) (bt_timeout_ms t)"

definition suite_ok :: "benchmark_suite \<Rightarrow> bool" where
  "suite_ok s \<longleftrightarrow> su_tasks s \<noteq> [] \<and> distinct (map bt_id (su_tasks s)) \<and> list_all task_ok (su_tasks s)"

lemma checked_Inr [simp]: "checked e b = Inr u \<longleftrightarrow> b"
  by (simp add: checked_def)

lemma optional_eq_Inr: "optional f v = Inr y \<longleftrightarrow> (v = JUndef \<and> y = None) \<or> (v \<noteq> JUndef \<and> (\<exists>x. f v = Inr x \<and> y = Some x))"
  by (cases "f v") (auto simp: optional_def)

lemma finite_number_bounds: "finite_number v label lo hi = Inr q \<Longrightarrow> lo \<le> q \<and> q \<le> hi"
  by (auto simp: finite_number_def split: jval.splits jnum.splits if_splits)

lemma optional_finite_bounds: "optional_finite v label lo hi = Inr x \<Longrightarrow> in_interval lo hi x"
  by (auto simp: optional_finite_def optional_eq_Inr in_interval_def dest: finite_number_bounds)

lemma opt_count_bounds: "opt_count v label lo hi = Inr x \<Longrightarrow> in_bounds lo hi x"
proof -
  assume "opt_count v label lo hi = Inr x"
  then consider "x = None" | q where "x = Some (nat \<lfloor>q\<rfloor>)" "whole_number v label (of_nat lo) (of_nat hi) = Inr q"
    unfolding opt_count_def optional_eq_Inr by (cases "whole_number v label (of_nat lo) (of_nat hi)") auto
  then show ?thesis
  proof cases
    case 2
    then have "of_nat lo \<le> q" "q \<le> of_nat hi" by (auto simp: whole_number_def andthen_eq_Inr dest: finite_number_bounds split: if_splits)
    then have "int lo \<le> \<lfloor>q\<rfloor>" "\<lfloor>q\<rfloor> \<le> int hi" by (simp_all add: le_floor_iff floor_le_iff)
    then show ?thesis using 2(1) by (simp add: in_bounds_def) linarith
  qed (simp add: in_bounds_def)
qed

lemma suite_text_Inr: "suite_text v label = Inr s \<longleftrightarrow> v = JStr s \<and> trim s \<noteq> []"
  by (auto simp: suite_text_def split: jval.splits if_splits)

lemma nonempty_array_Inr: "nonempty_array v label = Inr xs \<longleftrightarrow> v = JArr xs \<and> xs \<noteq> []"
  by (auto simp: nonempty_array_def split: jval.splits if_splits)

lemma nonempty_strings_Some: "nonempty_strings xs = Some ss \<Longrightarrow> [] \<notin> set ss \<and> length ss = length xs"
proof (induction xs arbitrary: ss)
  case (Cons x xs)
  then show ?case by (cases x) (auto simp: nonempty_strings_def List.map_filter_simps split: if_splits)
qed (simp add: nonempty_strings_def List.map_filter_simps)

lemma read_command_ok: "read_command_check input label = Inr kind \<Longrightarrow> kind_ok kind"
  by (auto simp: read_command_check_def andthen_eq_Inr split: jval.splits list.splits option.splits dest!: opt_count_bounds nonempty_strings_Some)

lemma read_regex_ok: "read_regex_check regexp input label p = Inr kind \<Longrightarrow> kind_ok kind"
  by (auto simp: read_regex_check_def andthen_eq_Inr suite_text_Inr dest!: opt_count_bounds)

lemma read_exact_ok: "read_exact_check input label p = Inr kind \<Longrightarrow> kind_ok kind"
  by (auto simp: read_exact_check_def andthen_eq_Inr opt_string_def opt_relative_def optional_eq_Inr)

lemma read_text_ok:
  assumes "andthen (suite_text v label) (\<lambda>s. andthen (opt_count w label' 0 million) (\<lambda>n. Inr (Text_Contains p s n))) = Inr kind"
  shows "kind_ok kind"
  using assms by (auto simp: andthen_eq_Inr suite_text_Inr dest: opt_count_bounds)

lemma read_no_text_ok: "andthen (suite_text v label) (\<lambda>s. Inr (Text_Not_Contains p s)) = Inr kind \<Longrightarrow> kind_ok kind"
  by (auto simp: andthen_eq_Inr suite_text_Inr)

lemma read_org_ok: "andthen (read_expectation v label) (\<lambda>e. Inr (Org_Structure p e)) = Inr kind \<Longrightarrow> kind_ok kind"
  by (auto simp: andthen_eq_Inr)

lemma read_kind_ok:
  assumes "read_check_kind regexp input label type = Inr kind"
  shows "kind_ok kind"
proof (cases "type = ''command''")
  case True
  show ?thesis using assms unfolding read_check_kind_def if_P [OF True] by (rule read_command_ok)
next
  case False
  show ?thesis
    using assms unfolding read_check_kind_def if_not_P [OF False] andthen_eq_Inr [of "relative_field _ _"]
    by (elim exE conjE) ((split if_split_asm | erule conjE | erule read_text_ok read_no_text_ok read_regex_ok read_exact_ok read_org_ok)+,
      (auto split: if_splits))
qed

lemma validate_check_ok:
  assumes "validate_check regexp label raw ids = Inr (c, ids')"
  shows "check_ok c \<and> ck_id c \<notin> set ids \<and> ids' = ck_id c # ids"
proof -
  let ?l = "label @ '' check '' @ ck_id c"
  obtain input type weight where parts: "suite_text (get_prop input ''id'') (label @ '' check.id'') = Inr (ck_id c)" "ck_id c \<notin> set ids"
    "optional_finite weight (?l @ ''.weight'') (1 / of_nat million) (of_nat million) = Inr (ck_weight c)"
    "read_check_kind regexp input ?l type = Inr (ck_kind c)" "ids' = ck_id c # ids"
    using assms unfolding validate_check_def Let_def andthen_eq_Inr checked_Inr by fastforce
  then show ?thesis
    using optional_finite_bounds [OF parts(3)] read_kind_ok [OF parts(4)] suite_text_Inr by (simp add: check_ok_def)
qed

lemma validate_checks_ok:
  "validate_checks regexp label raws ids = Inr cs \<Longrightarrow>
     list_all check_ok cs \<and> distinct (map ck_id cs) \<and> set (map ck_id cs) \<inter> set ids = {} \<and> length cs = length raws"
proof (induction raws arbitrary: ids cs)
  case (Cons raw raws)
  then obtain c ids' cs' where parts: "validate_check regexp label raw ids = Inr (c, ids')"
    "validate_checks regexp label raws ids' = Inr cs'" "cs = c # cs'"
    by (auto simp: andthen_eq_Inr)
  show ?case using Cons.IH [OF parts(2)] validate_check_ok [OF parts(1)] parts(3) by auto
qed simp

lemma validate_task_ok:
  assumes "validate_task regexp raw ids = Inr (t, ids')"
  shows "task_ok t \<and> bt_id t \<notin> set ids \<and> ids' = bt_id t # ids"
proof -
  obtain raws label where checks: "validate_checks regexp label raws [] = Inr (bt_checks t)" "raws \<noteq> []"
    using assms by (auto simp: validate_task_def Let_def andthen_eq_Inr nonempty_array_Inr)
  have "id_pattern (bt_id t)" "bt_domain t \<in> set DOMAINS" "bt_category t \<in> set CATEGORIES" "bt_difficulty t \<in> set DIFFICULTIES"
    "bt_id t \<notin> set ids" "ids' = bt_id t # ids"
    using assms by (auto simp: validate_task_def Let_def andthen_eq_Inr)
  moreover have "in_interval 0 1 (bt_pass_threshold t)" "in_bounds 1 (3600 * 1000) (bt_timeout_ms t)"
    using assms by (auto simp: validate_task_def Let_def andthen_eq_Inr dest: optional_finite_bounds opt_count_bounds)
  ultimately show ?thesis using validate_checks_ok [OF checks(1)] checks(2) by (auto simp: task_ok_def)
qed

lemma validate_tasks_ok:
  "validate_tasks regexp raws ids = Inr ts \<Longrightarrow>
     list_all task_ok ts \<and> distinct (map bt_id ts) \<and> set (map bt_id ts) \<inter> set ids = {} \<and> length ts = length raws"
proof (induction raws arbitrary: ids ts)
  case (Cons raw raws)
  then obtain t ids' ts' where parts: "validate_task regexp raw ids = Inr (t, ids')"
    "validate_tasks regexp raws ids' = Inr ts'" "ts = t # ts'"
    by (auto simp: andthen_eq_Inr)
  show ?case using Cons.IH [OF parts(2)] validate_task_ok [OF parts(1)] parts(3) by auto
qed simp

lemma validate_suite_ok:
  assumes "validate_suite regexp raw = Inr suite"
  shows "suite_ok suite"
proof -
  obtain raws where tasks: "validate_tasks regexp raws [] = Inr (su_tasks suite)" "raws \<noteq> []"
    using assms by (auto simp: validate_suite_def andthen_eq_Inr nonempty_array_Inr)
  show ?thesis using validate_tasks_ok [OF tasks(1)] tasks(2) by (auto simp: suite_ok_def)
qed

lemma load_task_ok:
  assumes "load_task k dir t = Inr l"
  shows "lt_task l = t" "inside_root (path_resolve (sk_cwd k) dir) (lt_prompt_path l)"
    "inside_root (path_resolve (sk_cwd k) dir) (lt_fixture_path l)" "sk_is_file k (lt_prompt_path l)" "sk_is_dir k (lt_fixture_path l)"
  using assms by (auto simp: load_task_def Let_def andthen_eq_Inr resolve_inside_def split: if_splits)

lemma all_Inr_eq: "all_Inr rs = Inr ys \<longleftrightarrow> rs = map Inr ys"
proof (induction rs arbitrary: ys)
  case (Cons r rs)
  then show ?case by (cases ys) (auto simp: andthen_eq_Inr)
qed (auto simp: eq_commute)

definition task_files_ok :: "suite_disk \<Rightarrow> string \<Rightarrow> loaded_task \<Rightarrow> bool" where
  "task_files_ok k dir l \<longleftrightarrow> inside_root (path_resolve (sk_cwd k) dir) (lt_prompt_path l) \<and> sk_is_file k (lt_prompt_path l) \<and>
     inside_root (path_resolve (sk_cwd k) dir) (lt_fixture_path l) \<and> sk_is_dir k (lt_fixture_path l)"


subsection \<open>A suite\<close>

definition example_suite_json :: jval where
  "example_suite_json = JObj
     [(''schema_version'', JStr ''1.0''), (''id'', JStr ''s''), (''revision'', JStr ''1''), (''title'', JStr ''t''),
      (''tasks'', JArr [JObj
        [(''id'', JStr ''fix-1''), (''title'', JStr ''Fix''), (''domain'', JStr ''elisp''), (''category'', JStr ''repair''),
         (''difficulty'', JStr ''small''), (''prompt_file'', JStr ''p.md''), (''fixture_dir'', JStr ''f''),
         (''checks'', JArr [JObj [(''id'', JStr ''c''), (''type'', JStr ''lisp_balance''), (''path'', JStr ''a.el'')]])]])]"

definition example_fix :: benchmark_task where
  "example_fix = \<lparr>bt_id = ''fix-1'', bt_title = ''Fix'', bt_domain = ''elisp'', bt_category = ''repair'', bt_difficulty = ''small'',
     bt_prompt_file = ''p.md'', bt_fixture_dir = ''f'',
     bt_checks = [\<lparr>ck_id = ''c'', ck_weight = None, ck_required = None, ck_description = None, ck_kind = Lisp_Balance ''a.el''\<rparr>],
     bt_description = None, bt_tags = None, bt_protected_paths = None, bt_allowed_paths = None, bt_pass_threshold = None,
     bt_timeout_ms = None, bt_requirements = None\<rparr>"

definition example_suite :: benchmark_suite where
  "example_suite = \<lparr>su_id = ''s'', su_revision = ''1'', su_title = ''t'', su_tasks = [example_fix], su_description = None,
     su_defaults = None\<rparr>"

definition example_suite_disk :: suite_disk where
  "example_suite_disk = \<lparr>sk_exists = (\<lambda>_. True), sk_link = (\<lambda>_. False), sk_is_file = (\<lambda>_. True), sk_is_dir = (\<lambda>_. True),
     sk_read = (\<lambda>_. ''x''), sk_tree = (\<lambda>_. [(''a.el'', Fs_File ''()'' 420)]), sk_cwd = ''/'', sk_collate = (\<lambda>a b. True),
     sk_sha = (\<lambda>_. ''d''), sk_parse = (\<lambda>_. Inr example_suite_json), sk_stringify = (\<lambda>_. ''j''), sk_regexp = (\<lambda>p f. None)\<rparr>"

lemma example_fields:
  "trim ''1'' \<noteq> []" "trim ''s'' \<noteq> []" "trim ''t'' \<noteq> []" "trim ''fix-1'' \<noteq> []" "trim ''Fix'' \<noteq> []" "trim ''elisp'' \<noteq> []"
  "trim ''repair'' \<noteq> []" "trim ''small'' \<noteq> []" "trim ''p.md'' \<noteq> []" "trim ''f'' \<noteq> []" "trim ''c'' \<noteq> []"
  "trim ''lisp_balance'' \<noteq> []" "trim ''a.el'' \<noteq> []" "id_pattern ''fix-1''"
  "normalize_relative_path ''p.md'' l = Inr ''p.md''" "normalize_relative_path ''f'' l = Inr ''f''"
  "normalize_relative_path ''a.el'' l = Inr ''a.el''"
  by code_simp+

lemma example_validated: "validate_suite (\<lambda>p f. None) example_suite_json = Inr example_suite"
  by (simp add: validate_suite_def example_suite_json_def example_suite_def example_fix_def suite_object_def suite_text_def nonempty_array_def
      checked_def optional_def opt_text_def opt_count_def opt_strings_def opt_paths_def opt_flag_def optional_finite_def
      validate_task_def validate_check_def read_check_kind_def relative_field_def example_fields Let_def
      DOMAINS_def CATEGORIES_def DIFFICULTIES_def CHECK_TYPES_def)

definition example_loaded_suite :: loaded_suite where
  "example_loaded_suite = \<lparr>ls_suite = example_suite, ls_suite_path = ''/suite/s.json'', ls_suite_dir = ''/suite'', ls_digest = ''d'',
     ls_tasks = [\<lparr>lt_task = example_fix, lt_prompt = ''x'', lt_prompt_path = ''/suite/p.md'',
       lt_fixture_path = ''/suite/f'', lt_digest = ''d''\<rparr>]\<rparr>"

lemma example_paths:
  "path_resolve ''/'' ''/suite/s.json'' = ''/suite/s.json''" "path_dirname ''/suite/s.json'' = ''/suite''"
  "resolve_inside ''/'' ''/suite'' ''p.md'' l = Inr ''/suite/p.md''" "resolve_inside ''/'' ''/suite'' ''f'' l = Inr ''/suite/f''"
  "assert_no_symlink_path (\<lambda>_. True) (\<lambda>_. False) ''/'' ''/suite'' ''/suite/s.json'' l = Inr ()"
  "assert_no_symlink_path (\<lambda>_. True) (\<lambda>_. False) ''/'' ''/suite'' ''/suite/p.md'' l = Inr ()"
  "assert_no_symlink_path (\<lambda>_. True) (\<lambda>_. False) ''/'' ''/suite'' ''/suite/f'' l = Inr ()"
  by code_simp+

lemma all_Inr_total: "\<forall>r \<in> set rs. \<exists>y. r = Inr y \<Longrightarrow> \<exists>ys. all_Inr rs = Inr ys"
  by (induction rs) auto

fun finite_json :: "jval \<Rightarrow> bool" where
  "finite_json (JArr xs) = list_all finite_json xs"
| "finite_json (JObj kvs) = list_all (\<lambda>(k, v). finite_json v) kvs"
| "finite_json (JNum n) = is_finite_num n"
| "finite_json v = True"

lemma canonical_total: "finite_json v \<Longrightarrow> \<exists>c. canonical_json stringify v = Inr c"
proof (induction v rule: canonical_json.induct)
  case (1 stringify xs)
  then have "\<exists>ys. all_Inr (map (canonical_json stringify) xs) = Inr ys" by (intro all_Inr_total) (auto simp: list_all_iff)
  then show ?case by auto
next
  case (2 stringify kvs)
  let ?rs = "map (\<lambda>(k, r). map_sum id (\<lambda>s. stringify (JStr k) @ '':'' @ s) r)
     (sort_key fst (map (\<lambda>(k, v). (k, canonical_json stringify v)) (filter (\<lambda>(k, v). v \<noteq> JUndef) kvs)))"
  have "\<exists>y. canonical_json stringify v = Inr y" if "(k, v) \<in> set kvs" "v \<noteq> JUndef" for k v
    using 2 that by (fastforce simp: list_all_iff)
  then have "\<forall>r \<in> set ?rs. \<exists>y. r = Inr y" by fastforce
  then have "\<exists>ys. all_Inr ?rs = Inr ys" by (rule all_Inr_total)
  then show ?case by auto
qed auto

lemma andthen_const: "finite_json v \<Longrightarrow> andthen (canonical_json stringify v) (\<lambda>_. x) = x"
  using canonical_total [of v stringify] by auto

lemma example_suite_loads: "load_benchmark_suite example_suite_disk ''/suite/s.json'' = Inr example_loaded_suite"
proof -
  have tree: "collect_tree_records (\<lambda>a b. True) (\<lambda>_. ''d'') [] (sorted_entries (\<lambda>a b. True) [(''a.el'', Fs_File ''()'' 420)]) =
      Inr [\<lparr>fr_path = ''a.el'', fr_bytes = 2, fr_sha256 = ''d''\<rparr>]"
    by (simp add: sorted_entries_def child_path_def sort_by_def)
  have finite: "finite_json (suite_json example_suite)" "finite_json (task_json example_fix)"
    by (simp_all add: suite_json_def task_json_def check_json_def example_suite_def example_fix_def opt_entry_def)
  have refs: "verifier_references k d example_fix = Inr []" for k d
    by (simp add: verifier_references_def check_references_def example_fix_def)
  have files: "bt_prompt_file example_fix = ''p.md''" "bt_fixture_dir example_fix = ''f''" by (simp_all add: example_fix_def)
  have task: "load_task example_suite_disk ''/suite'' example_fix = Inr (hd (ls_tasks example_loaded_suite))"
    unfolding load_task_def refs example_suite_disk_def files
    by (simp add: example_paths checked_def Let_def tree andthen_const finite file_record_json_def example_loaded_suite_def
        del: canonical_json.simps)
  then have "all_Inr (map (load_task example_suite_disk ''/suite'') (su_tasks example_suite)) = Inr (ls_tasks example_loaded_suite)"
    by (simp add: example_suite_def example_loaded_suite_def)
  moreover have "sk_cwd example_suite_disk = ''/''" "sk_parse example_suite_disk c = Inr example_suite_json"
    "sk_regexp example_suite_disk = (\<lambda>p f. None)" "sk_exists example_suite_disk = (\<lambda>_. True)" "sk_link example_suite_disk = (\<lambda>_. False)"
    "sk_is_file example_suite_disk = (\<lambda>_. True)" "sk_sha example_suite_disk = (\<lambda>_. ''d'')" for c
    by (simp_all add: example_suite_disk_def)
  moreover obtain c where "canonical_json (sk_stringify example_suite_disk) (suite_json example_suite) = Inr c"
    using canonical_total [OF finite(1)] by blast
  moreover have "suite_json example_suite \<noteq> JUndef" by (simp add: suite_json_def)
  ultimately show ?thesis
    by (simp add: load_benchmark_suite_def example_paths example_validated checked_def Let_def example_loaded_suite_def)
qed


text \<open>
  A verifier that an argument names after other text is replaced when the command is expanded, but is not among the
  files that are checked and go into the digest.
\<close>

lemma verifier_not_in_digest:
  "suite_argument (''--load='' @ SUITE_MARK @ ''verify.el'') = None"
  by (simp add: suite_argument_def SUITE_MARK_def starts_with_def)

end
