(* ===== verification/LinuxEvents.thy ===== *)
theory LinuxEvents
  imports JsValue Prelude Base64
begin

text \<open>
  The plan of a native key sequence (the first part of \<open>apps/linux-host/src/x11-backend.mjs\<close>): the events of a
  request are checked one by one, with the keys that are held, the text and the delays so far as the state, and
  written as rows for the X11 helper, one line for an event with its strings in base64.
\<close>

subsection \<open>Errors\<close>

record linux_error =
  le_code :: string
  le_message :: string
  le_details :: jval

definition LINUX_CODES :: "string list" where
  "LINUX_CODES = [''E_INVALID_ARGUMENT'', ''E_AUTH_FAILED'', ''E_PERMISSION_DENIED'', ''E_NATIVE_DRIVER_UNAVAILABLE'',
     ''E_TARGET_NOT_FOUND'', ''E_FOCUS_FAILED'', ''E_FRONTMOST_MISMATCH'', ''E_INPUT_INJECTION_FAILED'', ''E_CAPTURE_FAILED'',
     ''E_MUTATION_LOCKED'', ''E_INTERNAL'']"

definition linux_error_of :: "jval \<Rightarrow> string \<Rightarrow> jval \<Rightarrow> linux_error" where
  "linux_error_of code message details =
     \<lparr>le_code = (case code of JStr c \<Rightarrow> if c \<in> set LINUX_CODES then c else ''E_INTERNAL'' | _ \<Rightarrow> ''E_INTERNAL''),
      le_message = message, le_details = details\<rparr>"

definition invalid :: "string \<Rightarrow> linux_error" where
  "invalid message = linux_error_of (JStr ''E_INVALID_ARGUMENT'') message JUndef"

text \<open>An early \<open>throw\<close>.\<close>

definition refuse_if :: "bool \<Rightarrow> string \<Rightarrow> linux_error + unit" where
  "refuse_if b message = (if b then Inl (invalid message) else Inr ())"

definition bounded_integer :: "jval \<Rightarrow> nat \<Rightarrow> nat \<Rightarrow> nat \<Rightarrow> string \<Rightarrow> linux_error + nat" where
  "bounded_integer v fallback minimum maximum name =
     (let e = invalid (name @ '' must be an integer between '' @ dec_str minimum @ '' and '' @ dec_str maximum @ ''.'') in
      case (if nullish v then jnat fallback else v) of
        JNum n \<Rightarrow>
          if \<not> is_integer_num n \<or> jn_less n (Fin (of_nat minimum)) \<or> jn_less (Fin (of_nat maximum)) n then Inl e
          else (case n of Fin q \<Rightarrow> Inr (nat \<lfloor>q\<rfloor>) | _ \<Rightarrow> Inl e)
      | _ \<Rightarrow> Inl e)"

subsection \<open>Reading one event\<close>

definition MODIFIER_CANONICAL :: "(string \<times> string) list" where
  "MODIFIER_CANONICAL = [(''control'', ''control''), (''shift'', ''shift''), (''alt'', ''alt''), (''meta'', ''alt''),
     (''option'', ''alt''), (''super'', ''super''), (''command'', ''super''), (''hyper'', ''hyper'')]"

definition EVENT_KINDS :: "string list" where
  "EVENT_KINDS = [''key_press'', ''key_down'', ''key_up'', ''text'']"

record play_event =
  ne_kind :: string
  ne_key :: string
  ne_code :: string
  ne_content :: string
  ne_modifiers :: "string list"
  ne_repeat :: nat
  ne_delay :: nat

definition event_identity :: "jval \<Rightarrow> string" where
  "event_identity raw =
     js_string (nullish_or (get_prop raw ''code'') (JStr [])) @ [CHR 0x00] @ js_string (nullish_or (get_prop raw ''key'') (JStr []))"

definition event_kind :: "jval \<Rightarrow> string" where
  "event_kind raw = to_lower (js_string (nullish_or (get_prop raw ''kind'') (JStr [])))"

definition string_or_empty :: "jval \<Rightarrow> string" where
  "string_or_empty v = (case v of JStr s \<Rightarrow> s | _ \<Rightarrow> [])"

definition event_label :: "nat \<Rightarrow> string" where
  "event_label i = ''events['' @ dec_str i @ '']''"

text \<open>The modifiers of an event, by their canonical names.\<close>

definition read_modifiers :: "string \<Rightarrow> jval \<Rightarrow> linux_error + string list" where
  "read_modifiers label v =
     (let e = invalid (label @ ''.modifiers contains an unsupported Linux/X11 modifier.'') in
      case (if v = JUndef then JArr [] else v) of
        JArr xs \<Rightarrow>
          if list_ex (\<lambda>x. case x of JStr m \<Rightarrow> map_of MODIFIER_CANONICAL m = None | _ \<Rightarrow> True) xs then Inl e
          else
           (let ms = List.map_filter (\<lambda>x. Option.bind (string_of x) (map_of MODIFIER_CANONICAL)) xs in
            if distinct ms then Inr ms
            else Inl (invalid (label @ ''.modifiers contains duplicate or alias-equivalent modifiers.'')))
      | _ \<Rightarrow> Inl e)"

text \<open>The fields of an event, and the delays up to it.\<close>

definition read_event :: "nat \<Rightarrow> nat \<Rightarrow> jval \<Rightarrow> linux_error + play_event \<times> nat" where
  "read_event i delays raw =
     (let label = event_label i; kind = event_kind raw; key = string_or_empty (get_prop raw ''key'');
          code = string_or_empty (get_prop raw ''code''); content = string_or_empty (get_prop raw ''text'') in
      andthen (refuse_if (\<not> is_objlike raw) (label @ '' must be an object.'')) (\<lambda>_.
      andthen (refuse_if (kind \<notin> set EVENT_KINDS)
        (''Unsupported native event kind: '' @ (if kind = [] then ''<empty>'' else kind) @ ''.'')) (\<lambda>_.
      andthen (bounded_integer (get_prop raw ''repeat_count'') 1 1 100 (label @ ''.repeat_count'')) (\<lambda>repetitions.
      andthen (bounded_integer (get_prop raw ''delay_after_milliseconds'') 0 0 (10 * 1000) (label @ ''.delay_after_milliseconds'')) (\<lambda>delay.
      andthen (refuse_if (60 * 1000 < delays + delay) ''Native sequence delay budget exceeds 60 seconds.'') (\<lambda>_.
      andthen (read_modifiers label (get_prop raw ''modifiers'')) (\<lambda>ms.
      andthen (refuse_if (CHR 0x00 \<in> set key \<union> set code \<union> set content) (label @ '' cannot contain NUL characters.'')) (\<lambda>_.
      andthen (refuse_if (128 < utf8_length key \<or> 128 < utf8_length code) (label @ '' key/code exceeds 128 UTF-8 bytes.'')) (\<lambda>_.
        Inr (\<lparr>ne_kind = kind, ne_key = key, ne_code = code, ne_content = content, ne_modifiers = ms,
          ne_repeat = repetitions, ne_delay = delay\<rparr>, delays + delay))))))))))"

subsection \<open>The plan\<close>

record plan_state =
  ps_held :: "string list"
  ps_text_bytes :: nat
  ps_delays :: nat
  ps_events :: "play_event list"

definition new_plan :: plan_state where
  "new_plan = \<lparr>ps_held = [], ps_text_bytes = 0, ps_delays = 0, ps_events = []\<rparr>"

text \<open>The keys that are held after an event.\<close>

definition hold_key :: "nat \<Rightarrow> string \<Rightarrow> play_event \<Rightarrow> string list \<Rightarrow> linux_error + string list" where
  "hold_key i identity ev held =
     andthen (refuse_if ((ne_kind ev = ''key_down'' \<or> ne_kind ev = ''key_up'') \<and> ne_repeat ev \<noteq> 1)
       (ne_kind ev @ '' cannot be repeated; use balanced explicit events.'')) (\<lambda>_.
     if ne_kind ev = ''key_down'' then
       (if identity \<in> set held then Inl (invalid (event_label i @ '' repeats an already-held key.'')) else Inr (identity # held))
     else if ne_kind ev = ''key_up'' then
       (if identity \<notin> set held then Inl (invalid (event_label i @ '' has no matching key_down.'')) else Inr (remove1 identity held))
     else Inr held)"

definition check_content :: "nat \<Rightarrow> play_event \<Rightarrow> nat \<Rightarrow> linux_error + nat" where
  "check_content i ev bytes =
     (if ne_kind ev = ''text'' then
        (let bytes = bytes + utf8_length (ne_content ev) * ne_repeat ev in
         andthen (refuse_if (65536 < bytes) ''Native text payload exceeds 64 KiB.'') (\<lambda>_.
         andthen (refuse_if (ne_modifiers ev \<noteq> []) ''Text events cannot carry modifiers on the X11 backend.'') (\<lambda>_. Inr bytes)))
      else andthen (refuse_if (ne_key ev = [] \<and> ne_code ev = []) (event_label i @ '' requires key or code.'')) (\<lambda>_. Inr bytes))"

definition plan_event :: "nat \<Rightarrow> jval \<Rightarrow> plan_state \<Rightarrow> linux_error + plan_state" where
  "plan_event i raw s =
     andthen (read_event i (ps_delays s) raw) (\<lambda>(ev, delays).
     if ne_kind ev = ''text'' \<and> ne_content ev = [] then Inr (s\<lparr>ps_delays := delays\<rparr>)
     else
       andthen (check_content i ev (ps_text_bytes s)) (\<lambda>bytes.
       andthen (hold_key i (event_identity raw) ev (ps_held s)) (\<lambda>held.
         Inr \<lparr>ps_held = held, ps_text_bytes = bytes, ps_delays = delays, ps_events = ps_events s @ [ev]\<rparr>)))"

fun plan_events :: "nat \<Rightarrow> jval list \<Rightarrow> plan_state \<Rightarrow> linux_error + plan_state" where
  "plan_events i [] s = Inr s"
| "plan_events i (raw # raws) s = andthen (plan_event i raw s) (plan_events (Suc i) raws)"

definition base64_text :: "string \<Rightarrow> string" where
  "base64_text s = base64 (utf8_bytes s)"

definition event_row :: "play_event \<Rightarrow> string" where
  "event_row ev = join [TAB] [ne_kind ev, base64_text (ne_key ev), base64_text (ne_code ev), base64_text (ne_content ev),
     base64_text (join '','' (ne_modifiers ev)), dec_str (ne_repeat ev), dec_str (ne_delay ev)]"

definition sequence_plan :: "jval \<Rightarrow> linux_error + play_event list" where
  "sequence_plan events =
     (case events of
        JArr (raw # raws) \<Rightarrow>
          andthen (refuse_if (4096 < length (raw # raws)) ''Native sequence exceeds 4096 logical events.'') (\<lambda>_.
          andthen (plan_events 0 (raw # raws) new_plan) (\<lambda>s.
          andthen (refuse_if (ps_held s \<noteq> []) ''Native sequence contains unbalanced key_down events.'') (\<lambda>_.
          andthen (refuse_if (ps_events s = []) ''Native sequence contains no effective events.'') (\<lambda>_.
            Inr (ps_events s)))))
      | _ \<Rightarrow> Inl (invalid ''Native sequence requires at least one event.''))"

definition validate_and_encode_events :: "jval \<Rightarrow> linux_error + string" where
  "validate_and_encode_events events =
     andthen (sequence_plan events) (\<lambda>evs. Inr (join [LF] (map event_row evs) @ [LF]))"

subsection \<open>What an accepted plan guarantees\<close>

definition identity_of :: "play_event \<Rightarrow> string" where
  "identity_of ev = ne_code ev @ [CHR 0x00] @ ne_key ev"

text \<open>The presses (\<open>True\<close>) and releases of a key, and whether it is held at the end, if they alternate.\<close>

definition presses :: "string \<Rightarrow> play_event list \<Rightarrow> bool list" where
  "presses k evs = map (\<lambda>ev. ne_kind ev = ''key_down'')
     (filter (\<lambda>ev. identity_of ev = k \<and> ne_kind ev \<in> {''key_down'', ''key_up''}) evs)"

fun held_by :: "bool \<Rightarrow> bool list \<Rightarrow> bool option" where
  "held_by b [] = Some b"
| "held_by b (x # xs) = (if x = b then None else held_by x xs)"

definition text_bytes :: "play_event list \<Rightarrow> nat" where
  "text_bytes evs = sum_list (map (\<lambda>ev. utf8_length (ne_content ev) * ne_repeat ev) (filter (\<lambda>ev. ne_kind ev = ''text'') evs))"

text \<open>A field that is a string, or absent.\<close>

definition text_field :: "jval \<Rightarrow> bool" where
  "text_field v \<longleftrightarrow> nullish v \<or> is_string v"

definition text_keys :: "jval \<Rightarrow> bool" where
  "text_keys raw \<longleftrightarrow> text_field (get_prop raw ''key'') \<and> text_field (get_prop raw ''code'')"

definition plan_ok :: "plan_state \<Rightarrow> bool" where
  "plan_ok s \<longleftrightarrow> distinct (ps_held s) \<and> sum_list (map ne_delay (ps_events s)) \<le> ps_delays s \<and> ps_delays s \<le> 60 * 1000 \<and>
     ps_text_bytes s = text_bytes (ps_events s) \<and> ps_text_bytes s \<le> 65536 \<and>
     (\<forall>k. held_by False (presses k (ps_events s)) = Some (k \<in> set (ps_held s)))"

lemma held_by_snoc:
  "held_by b (xs @ [x]) = (case held_by b xs of None \<Rightarrow> None | Some c \<Rightarrow> if x = c then None else Some x)"
  by (induction xs arbitrary: b) simp_all

lemma presses_snoc:
  "presses k (evs @ [ev]) = presses k evs @
     (if identity_of ev = k \<and> ne_kind ev \<in> {''key_down'', ''key_up''} then [ne_kind ev = ''key_down''] else [])"
  by (simp add: presses_def)

lemma refuse_if_Inr [simp]: "refuse_if b message = Inr u \<longleftrightarrow> \<not> b"
  by (simp add: refuse_if_def)

lemma read_event_Inr:
  assumes "read_event i delays raw = Inr (ev, delays')"
  shows "delays' = delays + ne_delay ev" "delays' \<le> 60 * 1000" "ne_kind ev \<in> set EVENT_KINDS"
    "ne_key ev = string_or_empty (get_prop raw ''key'')" "ne_code ev = string_or_empty (get_prop raw ''code'')"
    "read_modifiers (event_label i) (get_prop raw ''modifiers'') = Inr (ne_modifiers ev)"
  using assms by (auto simp: read_event_def Let_def andthen_eq_Inr)

lemma identity_of_read:
  assumes "read_event i delays raw = Inr (ev, delays')" "text_keys raw"
  shows "event_identity raw = identity_of ev"
proof -
  have "js_string (nullish_or v (JStr [])) = string_or_empty v" if "text_field v" for v
    using that by (cases v) (simp_all add: text_field_def string_or_empty_def nullish_def)
  then show ?thesis using assms read_event_Inr(4,5) [OF assms(1)] by (simp add: event_identity_def identity_of_def text_keys_def)
qed

lemma hold_key_held:
  assumes "hold_key i (identity_of ev) ev held = Inr held'" "distinct held"
    and "\<forall>k. held_by False (presses k evs) = Some (k \<in> set held)"
  shows "distinct held' \<and> held_by False (presses k (evs @ [ev])) = Some (k \<in> set held')"
  using assms by (auto simp: hold_key_def andthen_eq_Inr presses_snoc held_by_snoc split: if_splits)

lemma check_content_bytes:
  assumes "check_content i ev (text_bytes evs) = Inr bytes" "text_bytes evs \<le> 65536"
  shows "bytes = text_bytes (evs @ [ev]) \<and> bytes \<le> 65536"
  using assms by (auto simp: check_content_def text_bytes_def andthen_eq_Inr Let_def split: if_splits)

lemma plan_event_ok:
  assumes "plan_event i raw s = Inr s'" "plan_ok s" "text_keys raw"
  shows "plan_ok s'"
proof -
  obtain ev delays where ev: "read_event i (ps_delays s) raw = Inr (ev, delays)"
    using assms(1) by (auto simp: plan_event_def andthen_eq_Inr)
  note read = read_event_Inr(1,2) [OF ev] identity_of_read [OF ev assms(3)]
  show ?thesis
  proof (cases "ne_kind ev = ''text'' \<and> ne_content ev = []")
    case True
    then have "s' = s\<lparr>ps_delays := delays\<rparr>" using assms(1) ev by (simp add: plan_event_def andthen_def)
    then show ?thesis using assms(2) read(1,2) by (auto simp: plan_ok_def)
  next
    case False
    then obtain bytes held where s': "check_content i ev (ps_text_bytes s) = Inr bytes"
        "hold_key i (identity_of ev) ev (ps_held s) = Inr held"
        "s' = \<lparr>ps_held = held, ps_text_bytes = bytes, ps_delays = delays, ps_events = ps_events s @ [ev]\<rparr>"
      using assms(1) ev read(3) unfolding plan_event_def by (auto simp: andthen_eq_Inr)
    have ok: "distinct (ps_held s)" "ps_text_bytes s = text_bytes (ps_events s)" "text_bytes (ps_events s) \<le> 65536"
      "\<forall>k. held_by False (presses k (ps_events s)) = Some (k \<in> set (ps_held s))"
      "sum_list (map ne_delay (ps_events s)) \<le> ps_delays s"
      using assms(2) by (auto simp: plan_ok_def)
    show ?thesis
      using check_content_bytes [OF s'(1) [unfolded ok(2)] ok(3)] hold_key_held [OF s'(2) ok(1,4)] ok(5) read(1,2)
      unfolding s'(3) plan_ok_def by simp
  qed
qed

lemma plan_events_ok:
  "plan_events i raws s = Inr s' \<Longrightarrow> plan_ok s \<Longrightarrow> list_all text_keys raws \<Longrightarrow> plan_ok s'"
  by (induction raws arbitrary: i s) (auto simp: andthen_eq_Inr intro: plan_event_ok)

lemma plan_event_length: "plan_event i raw s = Inr s' \<Longrightarrow> length (ps_events s') \<le> Suc (length (ps_events s))"
  by (auto simp: plan_event_def andthen_eq_Inr split: if_splits)

lemma plan_events_length: "plan_events i raws s = Inr s' \<Longrightarrow> length (ps_events s') \<le> length raws + length (ps_events s)"
  by (induction raws arbitrary: i s) (fastforce simp: andthen_eq_Inr dest: plan_event_length)+

lemma sequence_plan_Inr:
  assumes "sequence_plan (JArr raws) = Inr evs"
  shows "\<exists>s. plan_events 0 raws new_plan = Inr s \<and> ps_held s = [] \<and> ps_events s = evs \<and> evs \<noteq> [] \<and> length raws \<le> 4096"
  using assms by (cases raws) (auto simp: sequence_plan_def andthen_eq_Inr)

end
