(* ===== verification/LinuxBackend.thy ===== *)
theory LinuxBackend
  imports LinuxEvents JsNumber
begin

text \<open>
  The X11 backend of the Linux host (\<open>apps/linux-host/src/x11-backend.mjs\<close> from line 117): the process of the
  helper as a state machine over its events, the reading of its answer, the operations of \<open>X11Backend\<close> and of
  \<open>UnavailableLinuxBackend\<close>, the choice between them, and the queue of \<open>#serialize\<close>. The helper itself, the file
  system and random names are parameters. A plain \<open>Error\<close> is written as the error with the code \<open>E_INTERNAL\<close> that the
  host makes of it.
\<close>

subsection \<open>The process of the helper\<close>

datatype helper_signal = Terminate_Group | Kill_Group

datatype process_outcome =
    Spawn_Failed string
  | Process_Closed "nat option" "string option" string string

record helper_run =
  hr_stdout :: string
  hr_stderr :: string
  hr_settled :: "process_outcome option"
  hr_listening :: bool
  hr_kill_due :: bool
  hr_signals :: "helper_signal list"

datatype helper_event =
    Helper_Stdout string
  | Helper_Stderr string
  | Helper_Timeout
  | Helper_Kill_Timer
  | Helper_Abort
  | Helper_Error string
  | Helper_Close "nat option" "string option"

definition append_output :: "nat \<Rightarrow> string \<Rightarrow> string \<Rightarrow> string" where
  "append_output max_bytes current chunk =
     (if max_bytes \<le> length current then current else current @ take (max_bytes - length current) chunk)"

definition terminate_helper :: "helper_run \<Rightarrow> helper_run" where
  "terminate_helper r = r\<lparr>hr_signals := hr_signals r @ [Terminate_Group]\<rparr>"

text \<open>The first \<open>resolve\<close> or \<open>reject\<close> counts; both clear the timer and remove the listener.\<close>

definition settle_helper :: "process_outcome \<Rightarrow> helper_run \<Rightarrow> helper_run" where
  "settle_helper outcome r =
     r\<lparr>hr_settled := (case hr_settled r of None \<Rightarrow> Some outcome | Some x \<Rightarrow> Some x), hr_listening := False\<rparr>"

definition start_helper :: "bool \<Rightarrow> helper_run" where
  "start_helper aborted =
     (let r = \<lparr>hr_stdout = [], hr_stderr = [], hr_settled = None, hr_listening = \<not> aborted, hr_kill_due = False, hr_signals = []\<rparr>
      in if aborted then terminate_helper r else r)"

fun helper_step :: "(string \<Rightarrow> string) \<Rightarrow> nat \<Rightarrow> helper_event \<Rightarrow> helper_run \<Rightarrow> helper_run" where
  "helper_step utf8 max_bytes (Helper_Stdout chunk) r = r\<lparr>hr_stdout := append_output max_bytes (hr_stdout r) chunk\<rparr>"
| "helper_step utf8 max_bytes (Helper_Stderr chunk) r = r\<lparr>hr_stderr := append_output max_bytes (hr_stderr r) chunk\<rparr>"
| "helper_step utf8 max_bytes Helper_Timeout r =
     (if hr_settled r \<noteq> None then r else (terminate_helper r)\<lparr>hr_kill_due := True\<rparr>)"
| "helper_step utf8 max_bytes Helper_Kill_Timer r =
     (if hr_kill_due r then r\<lparr>hr_kill_due := False, hr_signals := hr_signals r @ [Kill_Group]\<rparr> else r)"
| "helper_step utf8 max_bytes Helper_Abort r = (if hr_listening r then terminate_helper (r\<lparr>hr_listening := False\<rparr>) else r)"
| "helper_step utf8 max_bytes (Helper_Error message) r = settle_helper (Spawn_Failed message) r"
| "helper_step utf8 max_bytes (Helper_Close code close_signal) r =
     settle_helper (Process_Closed code close_signal (utf8 (hr_stdout r)) (utf8 (hr_stderr r))) r"

definition run_process :: "(string \<Rightarrow> string) \<Rightarrow> nat \<Rightarrow> bool \<Rightarrow> helper_event list \<Rightarrow> helper_run" where
  "run_process utf8 max_bytes aborted es = fold (helper_step utf8 max_bytes) es (start_helper aborted)"

subsection \<open>The answer of the helper\<close>

definition plain_error :: "string \<Rightarrow> linux_error" where
  "plain_error message = linux_error_of (JStr ''E_INTERNAL'') message JUndef"

text \<open>The last line that is not empty, the empty string when there is none.\<close>

definition strip_cr :: "string \<Rightarrow> string" where
  "strip_cr l = (if l \<noteq> [] \<and> last l = CR then butlast l else l)"

definition last_line :: "string \<Rightarrow> string" where
  "last_line s =
     (let ps = split_on LF (trim s); ls = filter (\<lambda>l. l \<noteq> []) (map strip_cr (butlast ps) @ [last ps])
      in if ls = [] then [] else last ls)"

definition exit_text :: "nat option \<Rightarrow> string" where
  "exit_text code = (case code of None \<Rightarrow> ''null'' | Some n \<Rightarrow> dec_str n)"

definition helper_details :: "nat option \<Rightarrow> string \<Rightarrow> jval" where
  "helper_details code err =
     JObj [(''exit_code'', case code of None \<Rightarrow> JNull | Some n \<Rightarrow> jnat n), (''stderr'', JStr (drop (length err - 2000) err))]"

fun parse_helper_response :: "(string \<Rightarrow> jval option) \<Rightarrow> string \<Rightarrow> process_outcome \<Rightarrow> linux_error + jval" where
  "parse_helper_response parse command (Spawn_Failed message) = Inl (plain_error message)"
| "parse_helper_response parse command (Process_Closed code close_signal out err) =
     (case parse (last_line out) of
        None \<Rightarrow> Inl (linux_error_of (JStr ''E_INTERNAL'') (''X11 helper '' @ command @ '' returned malformed JSON.'')
          (helper_details code err))
      | Some v \<Rightarrow>
          if get_prop v ''ok'' \<noteq> JBool True then
            Inl (linux_error_of (get_prop v ''code'')
              (js_string (nullish_or (get_prop v ''message'') (JStr (''X11 helper '' @ command @ '' failed.''))))
              (helper_details code err))
          else if code \<noteq> Some 0 then
            Inl (linux_error_of (JStr ''E_INTERNAL'') (''X11 helper '' @ command @ '' exited with code '' @ exit_text code @ ''.'') JUndef)
          else Inr v)"

subsection \<open>The backend\<close>

text \<open>A run of the helper, with what the events file holds at that time.\<close>

record helper_call =
  hc_command :: string
  hc_args :: "string list"
  hc_timeout :: nat
  hc_plan :: "string option"

record x11_env =
  xe_parse :: "string \<Rightarrow> jval option"
  xe_helper :: "nat \<Rightarrow> helper_call \<Rightarrow> process_outcome"  \<comment> \<open>what the \<open>n\<close>-th run ends with\<close>
  xe_uinput :: bool
  xe_display :: "string option"
  xe_wayland :: "string option"
  xe_requested :: "string option"                      \<comment> \<open>\<open>EMACS_OPERATOR_LINUX_BACKEND\<close>\<close>
  xe_helper_exists :: bool
  xe_helper_path :: string
  xe_runtime_directory :: string
  xe_capture_directory :: "string + string"            \<comment> \<open>\<open>ensurePrivateCaptureDirectory\<close>\<close>
  xe_names :: "nat \<Rightarrow> string"                          \<comment> \<open>process id and random part of a file name\<close>
  xe_write_error :: "nat \<Rightarrow> string option"
  xe_chmod_error :: "nat \<Rightarrow> string option"

record x11_state =
  xs_closed :: bool
  xs_calls :: "helper_call list"
  xs_files :: "(string \<times> string) list"
  xs_names_used :: nat

type_synonym 'a x11_op = "x11_state \<Rightarrow> (linux_error + 'a) \<times> x11_state"

definition then_op :: "'a x11_op \<Rightarrow> ('a \<Rightarrow> 'b x11_op) \<Rightarrow> 'b x11_op" where
  "then_op f g s = (case f s of (Inl e, s1) \<Rightarrow> (Inl e, s1) | (Inr x, s1) \<Rightarrow> g x s1)"

definition lift_op :: "linux_error + 'a \<Rightarrow> 'a x11_op" where
  "lift_op r s = (r, s)"

definition serialized :: "'a x11_op \<Rightarrow> 'a x11_op" where
  "serialized operation s =
     (if xs_closed s then (Inl (linux_error_of (JStr ''E_NATIVE_DRIVER_UNAVAILABLE'') ''The Linux X11 backend is closed.'' JUndef), s)
      else operation s)"

definition run_helper :: "x11_env \<Rightarrow> string \<Rightarrow> string list \<Rightarrow> nat \<Rightarrow> string option \<Rightarrow> jval x11_op" where
  "run_helper env command args timeout_ms plan s =
     (let call = \<lparr>hc_command = command, hc_args = args, hc_timeout = timeout_ms, hc_plan = plan\<rparr> in
      (parse_helper_response (xe_parse env) command (xe_helper env (length (xs_calls s)) call),
       s\<lparr>xs_calls := xs_calls s @ [call]\<rparr>))"

definition helper_timeout :: nat where
  "helper_timeout = 10000"

definition is_true :: "jval \<Rightarrow> string \<Rightarrow> jval" where
  "is_true v name = JBool (get_prop v name = JBool True)"

definition x11_limitations :: jval where
  "x11_limitations = JArr [JStr ''X11 native input cannot reliably detect concurrent human input in Alpha.13.'',
     JStr ''Cursor compositing is not available in X11 window captures.'',
     JStr ''Wayland-native focus, injection, and capture are not claimed by this backend.'']"

definition x11_capabilities_of :: "x11_env \<Rightarrow> jval \<Rightarrow> jval" where
  "x11_capabilities_of env result = JObj
     [(''protocol_version'', JStr ''1.0''), (''native_keyboard'', is_true result ''xtest''),
      (''window_focus'', is_true result ''window_focus''), (''window_capture'', is_true result ''window_capture''),
      (''frontmost_query'', is_true result ''frontmost_query''), (''accessibility_trusted'', is_true result ''xtest''),
      (''screen_recording_granted'', is_true result ''window_capture''), (''platform'', JStr ''linux''),
      (''backend'', JStr ''x11_xtest''), (''session_type'', JStr ''x11''), (''display_server'', JStr ''x11''),
      (''display'', get_prop result ''display''), (''unicode_text'', is_true result ''unicode_dynamic_mapping''),
      (''user_interference_monitor'', JBool False), (''user_interference_detection'', JBool False),
      (''capture_cursor'', JBool False), (''uinput_available'', JBool (xe_uinput env)), (''limitations'', x11_limitations)]"

definition x11_capabilities :: "x11_env \<Rightarrow> jval x11_op" where
  "x11_capabilities env =
     then_op (run_helper env ''capabilities'' [] helper_timeout None) (\<lambda>result. lift_op (Inr (x11_capabilities_of env result)))"

definition permission :: "string \<Rightarrow> jval \<Rightarrow> jval" where
  "permission name granted = JObj [(''name'', JStr name),
     (''status'', JStr (if truthy granted then ''granted'' else ''denied'')), (''granted'', granted)]"

definition x11_permissions :: "x11_env \<Rightarrow> jval x11_op" where
  "x11_permissions env =
     then_op (x11_capabilities env) (\<lambda>c. lift_op (Inr (JArr
       [permission ''x11_display'' (get_prop c ''window_focus''), permission ''x11_xtest'' (get_prop c ''native_keyboard''),
        permission ''x11_window_capture'' (get_prop c ''window_capture''),
        JObj [(''name'', JStr ''user_interference_detection''), (''status'', JStr ''unsupported''), (''granted'', JBool False)]])))"

subsection \<open>Operations on a target\<close>

record x11_target =
  nt_pid :: jval
  nt_title :: "string option"
  nt_identifier :: "string option"

definition valid_pid :: "jval \<Rightarrow> bool" where
  "valid_pid v \<longleftrightarrow> (case v of JNum n \<Rightarrow> is_integer_num n \<and> jn_less (Fin 0) n | _ \<Rightarrow> False)"

definition option_argument :: "string \<Rightarrow> string option \<Rightarrow> string list" where
  "option_argument name v = (case v of Some x \<Rightarrow> if x = [] then [] else [name, x] | None \<Rightarrow> [])"

definition target_arguments :: "x11_target \<Rightarrow> linux_error + string list" where
  "target_arguments t =
     (if \<not> valid_pid (nt_pid t) then Inl (invalid ''Native target requires a positive PID.'')
      else Inr ([''--pid'', js_string (nt_pid t)] @ option_argument ''--title'' (nt_title t) @ option_argument ''--window-id'' (nt_identifier t)))"

definition x11_frontmost :: "x11_env \<Rightarrow> jval x11_op" where
  "x11_frontmost env =
     serialized (then_op (run_helper env ''frontmost'' [] helper_timeout None) (\<lambda>result. lift_op (Inr (get_prop result ''application''))))"

definition focus_result :: "jval \<Rightarrow> jval" where
  "focus_result result = JObj
     [(''previous_frontmost'', nullish_or (get_prop result ''previous_frontmost'') JNull),
      (''focused_application'', get_prop result ''focused_application''),
      (''focused_window_title'', nullish_or (get_prop result ''focused_window_title'') JNull),
      (''verified_frontmost'', is_true result ''verified_frontmost'')]"

definition x11_focus :: "x11_env \<Rightarrow> x11_target \<Rightarrow> jval \<Rightarrow> jval x11_op" where
  "x11_focus env target options = serialized
     (then_op (lift_op (bounded_integer (get_prop options ''timeout_milliseconds'') 1500 1 30000 ''timeout_milliseconds'')) (\<lambda>timeout.
      then_op (lift_op (target_arguments target)) (\<lambda>args.
      then_op (run_helper env ''focus'' (args @ [''--timeout-ms'', dec_str timeout]) (timeout + 2500) None) (\<lambda>result.
        lift_op (Inr (focus_result result))))))"

definition sequence_result :: "jval \<Rightarrow> jval" where
  "sequence_result result = JObj
     [(''sent_events'', get_prop result ''sent_events''), (''cancelled'', is_true result ''cancelled''),
      (''user_interference_detected'', is_true result ''user_interference_detected''),
      (''restored_previous_application'', is_true result ''restored_previous_application''),
      (''previous_frontmost'', nullish_or (get_prop result ''previous_frontmost'') JNull)]"

definition plan_file :: "x11_env \<Rightarrow> nat \<Rightarrow> string" where
  "plan_file env n = xe_runtime_directory env @ ''/.events-'' @ xe_names env n @ ''.tsv''"

text \<open>Writing the events file and running the operation with it; the file is removed at the end, whatever happened.\<close>

definition write_plan :: "x11_env \<Rightarrow> string \<Rightarrow> string x11_op" where
  "write_plan env plan s =
     (let n = xs_names_used s; f = plan_file env n; s = s\<lparr>xs_names_used := Suc n\<rparr> in
      case xe_write_error env n of
        Some message \<Rightarrow> (Inl (plain_error message), s)
      | None \<Rightarrow>
          let s = s\<lparr>xs_files := AList.update f plan (xs_files s)\<rparr> in
          (case xe_chmod_error env n of Some message \<Rightarrow> (Inl (plain_error message), s) | None \<Rightarrow> (Inr f, s)))"

definition with_plan_file :: "string \<Rightarrow> 'a x11_op \<Rightarrow> 'a x11_op" where
  "with_plan_file f operation s = (case operation s of (r, s1) \<Rightarrow> (r, s1\<lparr>xs_files := AList.delete f (xs_files s1)\<rparr>))"

definition play_plan :: "x11_env \<Rightarrow> x11_target \<Rightarrow> jval \<Rightarrow> string \<Rightarrow> jval x11_op" where
  "play_plan env target options f s =
     then_op (lift_op (bounded_integer (get_prop options ''timeout_milliseconds'') 1500 1 30000 ''timeout_milliseconds'')) (\<lambda>timeout.
     then_op (lift_op (target_arguments target)) (\<lambda>args.
     then_op (run_helper env ''sequence'' (args @ [''--events'', f, ''--timeout-ms'', dec_str timeout] @
         (if get_prop options ''restore_frontmost'' = JBool True then [''--restore''] else [])) 90000 (map_of (xs_files s) f)) (\<lambda>result.
       lift_op (Inr (sequence_result result))))) s"

definition x11_send_key_sequence :: "x11_env \<Rightarrow> x11_target \<Rightarrow> jval \<Rightarrow> jval \<Rightarrow> jval x11_op" where
  "x11_send_key_sequence env target events options =
     then_op (lift_op (validate_and_encode_events events)) (\<lambda>plan. serialized
       (then_op (write_plan env plan) (\<lambda>f. with_plan_file f (play_plan env target options f))))"

definition application_target :: "jval \<Rightarrow> x11_target" where
  "application_target application = \<lparr>nt_pid = get_prop application ''pid'',
     nt_title = string_of (get_prop application ''window_title''),
     nt_identifier = string_of (get_prop application ''window_identifier'')\<rparr>"

definition catch_false :: "jval x11_op \<Rightarrow> bool x11_op" where
  "catch_false operation s = (case operation s of
     (Inl e, s1) \<Rightarrow> (Inr False, s1) | (Inr v, s1) \<Rightarrow> (Inr (get_prop v ''restored'' = JBool True), s1))"

definition x11_restore_application :: "x11_env \<Rightarrow> jval \<Rightarrow> bool x11_op" where
  "x11_restore_application env application =
     (if \<not> valid_pid (get_prop application ''pid'') then lift_op (Inr False)
      else serialized (catch_false
        (then_op (lift_op (target_arguments (application_target application))) (\<lambda>args. run_helper env ''restore'' args helper_timeout None))))"

definition capture_file :: "x11_env \<Rightarrow> string \<Rightarrow> nat \<Rightarrow> string" where
  "capture_file env directory n = directory @ ''/capture-'' @ xe_names env n @ ''.png''"

definition name_capture :: "x11_env \<Rightarrow> string \<Rightarrow> string x11_op" where
  "name_capture env directory s =
     (Inr (capture_file env directory (xs_names_used s)), s\<lparr>xs_names_used := Suc (xs_names_used s)\<rparr>)"

definition x11_capture :: "x11_env \<Rightarrow> x11_target \<Rightarrow> jval \<Rightarrow> jval x11_op" where
  "x11_capture env target options =
     (if get_prop options ''include_cursor'' = JBool True
      then lift_op (Inl (invalid ''The X11 capture backend does not support cursor compositing.''))
      else serialized
       (then_op (lift_op (bounded_integer (get_prop options ''max_width'') 2048 1 8192 ''max_width'')) (\<lambda>width.
        then_op (lift_op (map_sum plain_error id (xe_capture_directory env))) (\<lambda>directory.
        then_op (name_capture env directory) (\<lambda>target_file.
        then_op (lift_op (target_arguments target)) (\<lambda>args.
        then_op (run_helper env ''capture'' (args @ [''--output'', target_file, ''--max-width'', dec_str width]) 15000 None) (\<lambda>result.
          lift_op (Inr (JObj [(''path'', get_prop result ''path''), (''width'', get_prop result ''width''),
            (''height'', get_prop result ''height'')])))))))))"

subsection \<open>Without a display\<close>

definition no_display_capabilities :: "x11_env \<Rightarrow> string \<Rightarrow> jval" where
  "no_display_capabilities env reason = JObj
     [(''protocol_version'', JStr ''1.0''), (''native_keyboard'', JBool False), (''window_focus'', JBool False),
      (''window_capture'', JBool False), (''frontmost_query'', JBool False), (''accessibility_trusted'', JBool False),
      (''screen_recording_granted'', JBool False), (''platform'', JStr ''linux''), (''backend'', JStr ''unavailable''),
      (''session_type'', JStr (if xe_wayland env \<notin> {None, Some []} then ''wayland'' else ''none'')),
      (''display_server'', if xe_wayland env \<notin> {None, Some []} then JStr ''wayland'' else JNull),
      (''display'', jopt_str (xe_display env)), (''reason'', JStr reason), (''user_interference_monitor'', JBool False),
      (''user_interference_detection'', JBool False), (''capture_cursor'', JBool False),
      (''uinput_available'', JBool (xe_uinput env)), (''limitations'', JArr [JStr reason])]"

definition unavailable_permissions :: "string \<Rightarrow> jval" where
  "unavailable_permissions reason = JArr [JObj [(''name'', JStr ''linux_native_backend''), (''status'', JStr ''unavailable''),
     (''granted'', JBool False), (''reason'', JStr reason)]]"

definition backend_fail :: "string \<Rightarrow> linux_error" where
  "backend_fail reason = linux_error_of (JStr ''E_NATIVE_DRIVER_UNAVAILABLE'') reason JUndef"

datatype linux_backend = X11_Backend | Unavailable_Backend string

text \<open>\<open>createLinuxBackend\<close>: the constructor of \<open>X11Backend\<close> fails when the helper is missing, the first question for the
  capabilities when it does not work.\<close>

definition create_linux_backend :: "x11_env \<Rightarrow> x11_state \<Rightarrow> linux_backend \<times> x11_state" where
  "create_linux_backend env s =
     (let requested = (case xe_requested env of Some r \<Rightarrow> r | None \<Rightarrow> ''auto'') in
      if requested \<notin> {''auto'', ''x11''} then
        (Unavailable_Backend (''Linux backend '' @ requested @ '' is not implemented in this release. Use x11 or internal_keys.''), s)
      else if xe_display env \<in> {None, Some []} then
        (Unavailable_Backend
          (if xe_wayland env \<notin> {None, Some []}
           then ''Wayland-only session detected. This release does not claim generic Wayland focus/injection; use internal_keys or launch under XWayland/X11.''
           else ''DISPLAY is not set. Start an X11 session or use semantic/internal_keys.''), s)
      else if \<not> xe_helper_exists env then (Unavailable_Backend (''X11 helper is missing: '' @ xe_helper_path env), s)
      else case x11_capabilities env s of
          (Inl e, s1) \<Rightarrow> (Unavailable_Backend (le_message e), s1)
        | (Inr c, s1) \<Rightarrow> (X11_Backend, s1))"

subsection \<open>The queue of operations\<close>

text \<open>
  \<open>#serialize\<close> with several callers: operations wait in the order they were submitted, one runs at a time, and each
  looks at \<open>#closed\<close> when its turn comes. \<open>cancelAll\<close> aborts the helper that runs now.
\<close>

record 'o op_queue =
  oq_waiting :: "'o list"
  oq_running :: "'o option"
  oq_aborted :: bool           \<comment> \<open>the running helper was told to stop\<close>
  oq_closed :: bool
  oq_started :: "'o list"
  oq_refused :: "'o list"

definition new_queue :: "'o op_queue" where
  "new_queue = \<lparr>oq_waiting = [], oq_running = None, oq_aborted = False, oq_closed = False, oq_started = [], oq_refused = []\<rparr>"

datatype 'o queue_event = Submit_Op 'o | Turn_Op | Finish_Op | Cancel_All | Close_Backend

definition abort_running :: "'o op_queue \<Rightarrow> 'o op_queue" where
  "abort_running q = (case oq_running q of None \<Rightarrow> q | Some o1 \<Rightarrow> q\<lparr>oq_aborted := True\<rparr>)"

fun queue_step :: "'o queue_event \<Rightarrow> 'o op_queue \<Rightarrow> 'o op_queue" where
  "queue_step (Submit_Op o1) q = q\<lparr>oq_waiting := oq_waiting q @ [o1]\<rparr>"
| "queue_step Turn_Op q =
     (case (oq_running q, oq_waiting q) of
        (None, o1 # os) \<Rightarrow>
          if oq_closed q then q\<lparr>oq_waiting := os, oq_refused := oq_refused q @ [o1]\<rparr>
          else q\<lparr>oq_waiting := os, oq_running := Some o1, oq_aborted := False, oq_started := oq_started q @ [o1]\<rparr>
      | _ \<Rightarrow> q)"
| "queue_step Finish_Op q = q\<lparr>oq_running := None, oq_aborted := False\<rparr>"
| "queue_step Cancel_All q = abort_running q"
| "queue_step Close_Backend q = abort_running (q\<lparr>oq_closed := True\<rparr>)"

definition run_queue :: "'o queue_event list \<Rightarrow> 'o op_queue" where
  "run_queue es = fold queue_step es new_queue"

definition submitted :: "'o queue_event list \<Rightarrow> 'o list" where
  "submitted es = List.map_filter (\<lambda>e. case e of Submit_Op o1 \<Rightarrow> Some o1 | _ \<Rightarrow> None) es"

text \<open>Operations start in the order of their submission, and what follows the closing is refused.\<close>

lemma queue_step_order:
  "oq_refused q \<noteq> [] \<longrightarrow> oq_closed q \<Longrightarrow>
   (oq_refused (queue_step e q) \<noteq> [] \<longrightarrow> oq_closed (queue_step e q)) \<and>
   oq_started (queue_step e q) @ oq_refused (queue_step e q) @ oq_waiting (queue_step e q) =
     oq_started q @ oq_refused q @ oq_waiting q @ submitted [e]"
  by (cases e) (auto simp: abort_running_def submitted_def List.map_filter_simps split: option.splits list.splits)

lemma submitted_snoc: "submitted (es @ [e]) = submitted es @ submitted [e]"
  by (simp add: submitted_def List.map_filter_def)

lemma run_queue_order:
  "(oq_refused (run_queue es) \<noteq> [] \<longrightarrow> oq_closed (run_queue es)) \<and>
   oq_started (run_queue es) @ oq_refused (run_queue es) @ oq_waiting (run_queue es) = submitted es"
proof (induction es rule: rev_induct)
  case Nil
  then show ?case by (simp add: run_queue_def new_queue_def submitted_def List.map_filter_simps)
next
  case (snoc e es)
  then show ?case using queue_step_order [of "run_queue es" e] by (simp add: run_queue_def submitted_snoc)
qed

text \<open>\<open>cancelAll\<close> stops the sequence that is running; the one behind it is played nevertheless.\<close>

lemma cancelled_queue_goes_on:
  "oq_started (run_queue [Submit_Op (1 :: nat), Submit_Op 2, Turn_Op, Cancel_All, Finish_Op, Turn_Op]) = [1, 2]"
  by (simp add: run_queue_def new_queue_def abort_running_def)

subsection \<open>The output of the helper\<close>

lemma append_output_take: "append_output n (take n s) chunk = take n (s @ chunk)"
  by (simp add: append_output_def)

text \<open>The timer that kills the group of the process is not cleared when the process has ended.\<close>

lemma killed_after_end:
  "hr_signals (run_process id n False [Helper_Timeout, Helper_Close None (Some ''SIGTERM''), Helper_Kill_Timer]) =
     [Terminate_Group, Kill_Group]"
  by (simp add: run_process_def start_helper_def terminate_helper_def settle_helper_def)

definition helper_output :: "helper_event list \<Rightarrow> string" where
  "helper_output es = concat (map (\<lambda>e. case e of Helper_Stdout chunk \<Rightarrow> chunk | _ \<Rightarrow> []) es)"

lemma run_process_output: "hr_stdout (run_process utf8 n aborted es) = take n (helper_output es)"
proof (induction es rule: rev_induct)
  case Nil
  then show ?case by (simp add: run_process_def start_helper_def terminate_helper_def helper_output_def Let_def)
next
  case (snoc e es)
  then show ?case
    by (cases e) (simp_all add: run_process_def terminate_helper_def settle_helper_def helper_output_def append_output_take)
qed

subsection \<open>What an operation leaves behind\<close>

text \<open>
  An operation is runless when it never runs the helper; a played operation runs it at most once, with a call that has
  the property \<open>Q\<close>.
\<close>

named_theorems played_intros

definition runless :: "'a x11_op \<Rightarrow> bool" where
  "runless f \<longleftrightarrow> (\<forall>s. xs_calls (snd (f s)) = xs_calls s)"

definition played :: "(helper_call \<Rightarrow> bool) \<Rightarrow> 'a x11_op \<Rightarrow> bool" where
  "played Q f \<longleftrightarrow> (\<forall>s. \<exists>cs. xs_calls (snd (f s)) = xs_calls s @ cs \<and> length cs \<le> 1 \<and> list_all Q cs)"

lemma runless_lift [played_intros]: "runless (lift_op r)"
  and runless_write [played_intros]: "runless (write_plan env plan)"
  and runless_name [played_intros]: "runless (name_capture env directory)"
  by (simp_all add: runless_def lift_op_def write_plan_def name_capture_def Let_def split: option.split)

lemma runless_played: "runless f \<Longrightarrow> played Q f"
  by (auto simp: runless_def played_def intro: exI [of _ "[]"])

lemma played_lift [played_intros]: "played Q (lift_op r)"
  by (rule runless_played) (rule runless_lift)

lemma played_after_runless [played_intros]:
  assumes "runless f" "\<And>x. played Q (g x)"
  shows "played Q (then_op f g)"
proof -
  have "\<exists>cs. xs_calls (snd (then_op f g s)) = xs_calls s @ cs \<and> length cs \<le> 1 \<and> list_all Q cs" for s
  proof (cases "f s")
    case (Pair r s1)
    then have same: "xs_calls s1 = xs_calls s" using assms(1) by (metis runless_def snd_conv)
    show ?thesis
    proof (cases r)
      case (Inl e)
      then show ?thesis using Pair same by (simp add: then_op_def)
    next
      case (Inr x)
      then show ?thesis
        using Pair same assms(2) [of x, unfolded played_def, rule_format, of s1] by (simp add: then_op_def)
    qed
  qed
  then show ?thesis by (simp add: played_def)
qed

lemma played_before_runless [played_intros]:
  assumes "played Q f" "\<And>x. runless (g x)"
  shows "played Q (then_op f g)"
proof -
  have "xs_calls (snd (then_op f g s)) = xs_calls (snd (f s))" for s
    using assms(2) by (auto simp: then_op_def runless_def split: prod.split sum.split)
  then show ?thesis using assms(1) by (simp add: played_def)
qed

lemma played_serialized [played_intros]: "played Q f \<Longrightarrow> played Q (serialized f)"
  by (auto simp: played_def serialized_def)

lemma played_plan_file [played_intros]: "played Q f \<Longrightarrow> played Q (with_plan_file file_name f)"
  by (auto simp: played_def with_plan_file_def split: prod.split) (metis snd_conv)

lemma played_catch [played_intros]: "played Q f \<Longrightarrow> played Q (catch_false f)"
  unfolding played_def catch_false_def by (auto split: prod.split sum.split) (metis snd_conv)+

lemma played_run_helper [played_intros]:
  "Q \<lparr>hc_command = command, hc_args = args, hc_timeout = n, hc_plan = plan\<rparr> \<Longrightarrow> played Q (run_helper env command args n plan)"
  by (simp add: played_def run_helper_def Let_def)

text \<open>The calls of the operations: a sequence is played from an accepted plan, for a process with a positive id.\<close>

definition fair_call :: "helper_call \<Rightarrow> bool" where
  "fair_call c \<longleftrightarrow> (if hc_command c = ''sequence''
     then \<exists>raws plan. hc_plan c = Some plan \<and> validate_and_encode_events (JArr raws) = Inr plan
     else hc_plan c = None)"

lemma fair_plain: "command \<noteq> ''sequence'' \<Longrightarrow> fair_call \<lparr>hc_command = command, hc_args = args, hc_timeout = n, hc_plan = None\<rparr>"
  by (simp add: fair_call_def)

lemma played_capabilities: "played fair_call (x11_capabilities env)"
  and played_frontmost: "played fair_call (x11_frontmost env)"
  unfolding x11_capabilities_def x11_frontmost_def by (intro played_intros fair_plain; simp)+

lemma played_permissions: "played fair_call (x11_permissions env)"
  unfolding x11_permissions_def by (intro played_intros played_capabilities)

lemma played_focus: "played fair_call (x11_focus env target options)"
  and played_capture: "played fair_call (x11_capture env target options)"
  and played_restore: "played fair_call (x11_restore_application env application)"
  unfolding x11_focus_def x11_capture_def x11_restore_application_def
  by (intro played_intros fair_plain | simp add: played_intros split del: if_split | rule impI conjI | simp split: if_split)+

text \<open>Until the target is checked nothing runs.\<close>

lemma target_arguments_Inl: "\<not> valid_pid (nt_pid t) \<Longrightarrow> \<exists>e. target_arguments t = Inl e"
  by (simp add: target_arguments_def)

lemma focus_invalid: "\<not> valid_pid (nt_pid t) \<Longrightarrow> \<exists>e. x11_focus env t options s = (Inl e, s)"
  by (auto simp: x11_focus_def serialized_def then_op_def lift_op_def dest!: target_arguments_Inl split: sum.split)

lemma capture_invalid:
  "\<not> valid_pid (nt_pid t) \<Longrightarrow> (\<exists>e. fst (x11_capture env t options s) = Inl e) \<and> xs_calls (snd (x11_capture env t options s)) = xs_calls s"
  by (auto simp: x11_capture_def serialized_def then_op_def lift_op_def name_capture_def dest!: target_arguments_Inl split: sum.split)

lemma play_plan_calls:
  "\<exists>r cs. play_plan env t options f s = (r, s\<lparr>xs_calls := xs_calls s @ cs\<rparr>) \<and>
     (cs = [] \<or> valid_pid (nt_pid t) \<and> (\<exists>args n. cs = [\<lparr>hc_command = ''sequence'', hc_args = args, hc_timeout = n, hc_plan = map_of (xs_files s) f\<rparr>]))
     \<and> (cs = [] \<longrightarrow> (\<exists>e. r = Inl e))"
proof (cases "bounded_integer (get_prop options ''timeout_milliseconds'') 1500 1 30000 ''timeout_milliseconds''")
  case (Inl e)
  then show ?thesis by (intro exI [of _ "Inl e"] exI [of _ "[]"]) (simp add: play_plan_def then_op_def lift_op_def)
next
  case (Inr timeout)
  show ?thesis
  proof (cases "target_arguments t")
    case (Inl e)
    with \<open>_ = Inr timeout\<close> show ?thesis
      by (intro exI [of _ "Inl e"] exI [of _ "[]"]) (simp add: play_plan_def then_op_def lift_op_def)
  next
    case (Inr args)
    then have pid: "valid_pid (nt_pid t)" by (simp add: target_arguments_def split: if_splits)
    let ?call = "\<lparr>hc_command = ''sequence'', hc_args = args @ [''--events'', f, ''--timeout-ms'', dec_str timeout] @
       (if get_prop options ''restore_frontmost'' = JBool True then [''--restore''] else []), hc_timeout = 90000,
       hc_plan = map_of (xs_files s) f\<rparr>"
    show ?thesis using \<open>_ = Inr timeout\<close> Inr pid
      by (intro exI [of _ "map_sum id sequence_result (parse_helper_response (xe_parse env) ''sequence'' (xe_helper env (length (xs_calls s)) ?call))"]
            exI [of _ "[?call]"])
        (auto simp: play_plan_def then_op_def lift_op_def run_helper_def Let_def split: sum.split)
  qed
qed

lemma send_events_calls:
  assumes "x11_send_key_sequence env t (JArr raws) options s = (r, s')"
  shows "\<exists>cs. xs_calls s' = xs_calls s @ cs \<and> length cs \<le> 1 \<and> list_all fair_call cs \<and>
    (cs \<noteq> [] \<longrightarrow> valid_pid (nt_pid t)) \<and> (cs = [] \<longrightarrow> (\<exists>e. r = Inl e))"
proof (cases "validate_and_encode_events (JArr raws)")
  case (Inl e)
  then show ?thesis using assms by (auto simp: x11_send_key_sequence_def then_op_def lift_op_def)
next
  case (Inr plan)
  show ?thesis
  proof (cases "xs_closed s")
    case True
    with Inr assms show ?thesis by (auto simp: x11_send_key_sequence_def then_op_def lift_op_def serialized_def)
  next
    case False
    obtain w s1 where wrote: "write_plan env plan s = (w, s1)" by (cases "write_plan env plan s")
    then have same: "xs_calls s1 = xs_calls s" using runless_write [of env plan] by (metis runless_def snd_conv)
    show ?thesis
    proof (cases w)
      case (Inl e)
      with wrote same Inr False assms show ?thesis
        by (auto simp: x11_send_key_sequence_def then_op_def lift_op_def serialized_def)
    next
      case (Inr f)
      then have held: "map_of (xs_files s1) f = Some plan"
        using wrote by (auto simp: write_plan_def Let_def split: option.splits)
      obtain r1 cs where run: "play_plan env t options f s1 = (r1, s1\<lparr>xs_calls := xs_calls s1 @ cs\<rparr>)"
        "cs = [] \<or> valid_pid (nt_pid t) \<and>
           (\<exists>args n. cs = [\<lparr>hc_command = ''sequence'', hc_args = args, hc_timeout = n, hc_plan = map_of (xs_files s1) f\<rparr>])"
        "cs = [] \<longrightarrow> (\<exists>e. r1 = Inl e)"
        using play_plan_calls by metis
      have "r = r1" "xs_calls s' = xs_calls s @ cs"
        using assms run(1) same wrote Inr \<open>validate_and_encode_events (JArr raws) = Inr plan\<close> False
        by (auto simp: x11_send_key_sequence_def then_op_def lift_op_def serialized_def with_plan_file_def)
      then show ?thesis using run(2,3) held \<open>validate_and_encode_events (JArr raws) = Inr plan\<close> by (auto simp: fair_call_def)
    qed
  qed
qed

text \<open>The events file is gone when the operation ends, unless its mode could not be set.\<close>

lemma send_events_files:
  assumes "\<And>n. xe_chmod_error env n = None" "map_of (xs_files s) (plan_file env (xs_names_used s)) = None"
  shows "xs_files (snd (x11_send_key_sequence env t events options s)) = xs_files s"
proof -
  have gone: "AList.delete f (AList.update f plan fs) = fs" if "map_of fs f = None" for f plan and fs :: "(string \<times> string) list"
    using that by (induction fs) (auto split: if_splits)
  have kept: "xs_files (snd (with_plan_file f (play_plan env t options f) s1)) = AList.delete f (xs_files s1)" for f s1
    using play_plan_calls [of env t options f s1] by (auto simp: with_plan_file_def)
  show ?thesis
  proof (cases "validate_and_encode_events events")
    case (Inl e)
    then show ?thesis by (simp add: x11_send_key_sequence_def then_op_def lift_op_def)
  next
    case (Inr plan)
    then show ?thesis
      using kept gone [OF assms(2), of plan] assms(1)
      by (cases "xe_write_error env (xs_names_used s)")
        (simp_all add: x11_send_key_sequence_def then_op_def lift_op_def serialized_def write_plan_def Let_def)
  qed
qed

lemma plan_file_left:
  assumes "xe_write_error env n = None" "xe_chmod_error env n = Some message" "xs_names_used s = n" "\<not> xs_closed s"
    and "validate_and_encode_events events = Inr plan"
  shows "map_of (xs_files (snd (x11_send_key_sequence env t events options s))) (plan_file env n) = Some plan"
  using assms by (simp add: x11_send_key_sequence_def then_op_def lift_op_def serialized_def write_plan_def Let_def)

end
