(* ===== verification/LinuxFraming.thy ===== *)
theory LinuxFraming
  imports FramingProps
begin

text \<open>
  The framing of the Linux host (\<open>apps/linux-host/src/framing.mjs\<close>): like the framing of the bridge, with a limit on
  the header, one \<open>Content-Length\<close> in canonical decimal, and errors that close the connection.
\<close>

subsection \<open>The framer\<close>

record host_framer =
  hf_buffer :: string
  hf_max_message :: nat
  hf_max_header :: nat

definition new_host_framer :: "nat \<Rightarrow> nat \<Rightarrow> host_framer" where
  "new_host_framer max_message max_header = \<lparr>hf_buffer = [], hf_max_message = max_message, hf_max_header = max_header\<rparr>"

definition default_max_message :: nat where
  "default_max_message = 1048576"

definition default_max_header :: nat where
  "default_max_header = 16384"

text \<open>\<open>/^(?:0|[1-9][0-9]*)$/\<close>.\<close>

definition canonical_decimal :: "string \<Rightarrow> bool" where
  "canonical_decimal s \<longleftrightarrow> s = ''0'' \<or> (s \<noteq> [] \<and> list_all is_digit s \<and> hd s \<noteq> CHR ''0'')"

definition header_limit_error :: string where
  "header_limit_error = ''Driver RPC header exceeds the configured limit.''"

fun announced_length :: "string list \<Rightarrow> nat option \<Rightarrow> string + nat option" where
  "announced_length [] found = Inr found"
| "announced_length (line # lines) found =
     (case header_field line of
        None \<Rightarrow> announced_length lines found
      | Some (name, value) \<Rightarrow>
          if name \<noteq> ''content-length'' then announced_length lines found
          else if found \<noteq> None then Inl ''Driver RPC frame contains duplicate Content-Length headers.''
          else if \<not> canonical_decimal value then Inl ''Driver RPC Content-Length is invalid.''
          else announced_length lines (Some (dec_val value)))"

definition body_length :: "nat \<Rightarrow> string \<Rightarrow> string + nat" where
  "body_length max_message header =
     andthen (announced_length (split_crlf (ascii_text header)) None) (\<lambda>found.
     case found of
       None \<Rightarrow> Inl ''Driver RPC frame is missing Content-Length.''
     | Some n \<Rightarrow>
         if 9007199254740991 < n then Inl ''Driver RPC frame is missing Content-Length.''
         else if max_message < n then Inl ''Driver RPC message exceeds the configured limit.''
         else Inr n)"

text \<open>One turn of the loop of \<open>push\<close>.\<close>

definition next_host_frame :: "nat \<Rightarrow> nat \<Rightarrow> string \<Rightarrow> string + (string \<times> string) option" where
  "next_host_frame max_message max_header buf =
     (if buf = [] then Inr None
      else case index_of header_terminator buf of
        None \<Rightarrow> if max_header < length buf then Inl header_limit_error else Inr None
      | Some header_end \<Rightarrow>
          if max_header < header_end then Inl header_limit_error
          else andthen (body_length max_message (take header_end buf)) (\<lambda>n.
            let body_start = header_end + 4 in
            if length buf < body_start + n then Inr None
            else Inr (Some (slice body_start (body_start + n) buf, drop (body_start + n) buf))))"

lemma body_length_le: "body_length mm header = Inr n \<Longrightarrow> n \<le> mm"
  unfolding body_length_def andthen_def by (simp split: sum.splits option.splits if_splits)

lemma next_host_frame_body:
  assumes "next_host_frame mm mh buf = Inr (Some (body, rest))"
  obtains h n where "index_of header_terminator buf = Some h" "body_length mm (take h buf) = Inr n"
    "h + 4 + n \<le> length buf" "body = slice (h + 4) (h + 4 + n) buf" "rest = drop (h + 4 + n) buf"
  using assms unfolding next_host_frame_def andthen_def Let_def
  by (simp split: option.splits sum.splits if_splits)

lemma next_host_frame_shorter:
  assumes "next_host_frame mm mh buf = Inr (Some (body, rest))"
  shows "length body \<le> mm \<and> length rest + length body + 4 \<le> length buf"
  using assms by (rule next_host_frame_body) (simp add: body_length_le)

function host_frames :: "nat \<Rightarrow> nat \<Rightarrow> string \<Rightarrow> string list \<Rightarrow> (string + string list) \<times> string" where
  "host_frames mm mh buf out =
     (case next_host_frame mm mh buf of
        Inl e \<Rightarrow> (Inl e, buf)
      | Inr None \<Rightarrow> (Inr out, buf)
      | Inr (Some (body, rest)) \<Rightarrow> host_frames mm mh rest (out @ [body]))"
  by pat_completeness auto

termination
proof (relation "measure (\<lambda>(mm, mh, buf, out). length buf)", goal_cases)
  case (2 mm mh buf out v w body rest)
  then show ?case using next_host_frame_shorter [of mm mh buf body rest] by simp
qed simp

declare host_frames.simps [simp del]

definition host_push :: "string \<Rightarrow> host_framer \<Rightarrow> (string + string list) \<times> host_framer" where
  "host_push chunk f =
     (case host_frames (hf_max_message f) (hf_max_header f) (hf_buffer f @ chunk) [] of
        (r, buf) \<Rightarrow> (r, f\<lparr>hf_buffer := buf\<rparr>))"

definition encode_host_frame :: "string \<Rightarrow> string" where
  "encode_host_frame body = frame_header (length body) @ body"

text \<open>The connection pushes its chunks as they come and is destroyed by the first error.\<close>

fun host_push_all :: "string list \<Rightarrow> host_framer \<Rightarrow> (string + string list) \<times> host_framer" where
  "host_push_all [] f = (Inr [], f)"
| "host_push_all (c # cs) f =
     (case host_push c f of
        (Inl e, f1) \<Rightarrow> (Inl e, f1)
      | (Inr out, f1) \<Rightarrow> (case host_push_all cs f1 of (r, f2) \<Rightarrow> (map_sum id ((@) out) r, f2)))"

subsection \<open>Frames of the client\<close>

lemma digit_char_zero: "n < 10 \<Longrightarrow> digit_char n = CHR ''0'' \<Longrightarrow> n = 0"
  using digit_char_props(2) [of n] by (simp add: digit_val_def)

lemma dec_str_hd: "n \<noteq> 0 \<Longrightarrow> hd (dec_str n) \<noteq> CHR ''0''"
proof (induction n rule: dec_str.induct)
  case (1 n)
  show ?case
  proof (cases "n < 10")
    case True
    then show ?thesis using digit_char_zero [OF True] 1(2) by (auto simp: dec_str.simps [of n])
  next
    case False
    then have "n div 10 \<noteq> 0" by auto
    then show ?thesis using 1(1) [OF False] False by (simp add: dec_str.simps [of n])
  qed
qed

lemma canonical_dec_str: "canonical_decimal (dec_str n)"
proof (cases "n = 0")
  case True
  have "dec_str 0 = ''0''" by code_simp
  with True show ?thesis by (simp add: canonical_decimal_def)
next
  case False
  then show ?thesis by (simp add: canonical_decimal_def dec_str_hd dec_str_digits_all)
qed

lemma body_length_frame:
  assumes "n \<le> mm" "n \<le> 9007199254740991"
  shows "body_length mm (take (length (frame_header n) - 4) (frame_header n)) = Inr n"
  using assms by (simp add: body_length_def header_lines length_field [simplified] type_field canonical_dec_str)

text \<open>A frame of the client is taken from the buffer when it is complete and waited for until then.\<close>

lemma frame_header_length: "4 \<le> length (frame_header n)" "frame_header n \<noteq> []"
  by (simp_all add: frame_header_def header_terminator_def)

lemma host_frame_next:
  assumes "length body \<le> mm" "mm \<le> 9007199254740991" "length (frame_header (length body)) \<le> mh"
  shows "next_host_frame mm mh (encode_host_frame body @ rest) = Inr (Some (body, rest))"
proof -
  have "body_length mm (take (length (frame_header (length body)) - 4) (frame_header (length body) @ body @ rest)) = Inr (length body)"
    using assms body_length_frame by simp
  then show ?thesis
    using assms frame_header_length [of "length body"]
    by (simp add: next_host_frame_def encode_host_frame_def header_end slice_def)
qed

lemma host_frame_waits:
  assumes "length body \<le> mm" "mm \<le> 9007199254740991" "length (frame_header (length body)) \<le> mh"
    and "encode_host_frame body = buf @ missing" "missing \<noteq> []"
  shows "next_host_frame mm mh buf = Inr None"
proof (cases "length (frame_header (length body)) \<le> length buf")
  case True
  let ?H = "frame_header (length body)"
  have "take (length ?H) buf = take (length ?H) (buf @ missing)" using True by simp
  then have "take (length ?H) buf = ?H" unfolding assms(4) [symmetric] by (simp add: encode_host_frame_def)
  then obtain part where part: "buf = ?H @ part" by (metis append_take_drop_id)
  then have "length part < length body" using assms(4,5) by (auto simp: encode_host_frame_def)
  then show ?thesis
    using assms(1-3) frame_header_length [of "length body"] body_length_frame [of "length body" mm] part
    by (simp add: next_host_frame_def header_end)
next
  case False
  let ?H = "frame_header (length body)"
  have prefix: "buf = take (length buf) ?H"
    using False assms(4) unfolding encode_host_frame_def
    by (metis append_eq_append_conv_if le_cases linorder_not_le)
  have "index_of header_terminator buf = None"
  proof (rule ccontr)
    assume "index_of header_terminator buf \<noteq> None"
    then obtain h where h: "index_of header_terminator buf = Some h" by auto
    then have "index_of header_terminator (buf @ missing) = Some h" by (rule index_of_append)
    then have "h = length ?H - 4" unfolding assms(4) [symmetric] encode_host_frame_def header_end by simp
    moreover have "h + 4 \<le> length buf" using index_of_SomeD [OF h] by (simp add: header_terminator_def)
    ultimately show False using False by simp
  qed
  then show ?thesis using False assms(3) by (simp add: next_host_frame_def)
qed

lemma host_frames_taken:
  assumes "list_all (\<lambda>b. length b \<le> mm \<and> length (frame_header (length b)) \<le> mh) bodies" "mm \<le> 9007199254740991"
    and "concat (map encode_host_frame bodies) = buf @ missing"
  shows "\<exists>now later buf'. bodies = now @ later \<and> host_frames mm mh buf out = (Inr (out @ now), buf') \<and>
    concat (map encode_host_frame later) = buf' @ missing \<and> (missing = [] \<longrightarrow> later = [])"
  using assms
proof (induction bodies arbitrary: buf out)
  case Nil
  then show ?case by (simp add: host_frames.simps [of mm mh] next_host_frame_def)
next
  case (Cons b bodies)
  show ?case
  proof (cases "length (encode_host_frame b) \<le> length buf")
    case True
    then obtain rest where rest: "buf = encode_host_frame b @ rest"
      using Cons.prems(3) by (auto simp: append_eq_append_conv2)
    then have "concat (map encode_host_frame bodies) = rest @ missing" using Cons.prems(3) by simp
    moreover have "list_all (\<lambda>b. length b \<le> mm \<and> length (frame_header (length b)) \<le> mh) bodies" using Cons.prems(1) by simp
    ultimately obtain now later buf' where IH: "bodies = now @ later"
        "host_frames mm mh rest (out @ [b]) = (Inr ((out @ [b]) @ now), buf')"
        "concat (map encode_host_frame later) = buf' @ missing" "missing = [] \<longrightarrow> later = []"
      using Cons.IH [of rest "out @ [b]"] Cons.prems(2) by blast
    have "next_host_frame mm mh buf = Inr (Some (b, rest))" using host_frame_next Cons.prems(1,2) rest by simp
    then have "host_frames mm mh buf out = (Inr (out @ b # now), buf')" using IH(2) by (subst host_frames.simps) simp
    with IH(1,3,4) show ?thesis by (intro exI [of _ "b # now"] exI [of _ later] exI [of _ buf']) simp
  next
    case False
    then obtain missing' where ends: "encode_host_frame b = buf @ missing'" "missing' \<noteq> []"
      using Cons.prems(3) by (auto simp: append_eq_append_conv2)
    then have "missing \<noteq> []" using Cons.prems(3) by auto
    moreover have "next_host_frame mm mh buf = Inr None" using host_frame_waits [OF _ _ _ ends] Cons.prems(1,2) by simp
    moreover from this have "host_frames mm mh buf out = (Inr out, buf)" by (subst host_frames.simps) simp
    ultimately show ?thesis using Cons.prems(3) by (intro exI [of _ "[]"] exI [of _ "b # bodies"] exI [of _ buf]) simp
  qed
qed

lemma host_push_taken:
  assumes "list_all (\<lambda>b. length b \<le> hf_max_message f \<and> length (frame_header (length b)) \<le> hf_max_header f) bodies"
    and "hf_max_message f \<le> 9007199254740991" "concat (map encode_host_frame bodies) = hf_buffer f @ chunk @ missing"
  obtains now later buf' where "bodies = now @ later" "host_push chunk f = (Inr now, f\<lparr>hf_buffer := buf'\<rparr>)"
    "concat (map encode_host_frame later) = buf' @ missing" "missing = [] \<longrightarrow> later = []"
proof -
  have "concat (map encode_host_frame bodies) = (hf_buffer f @ chunk) @ missing" using assms(3) by simp
  from host_frames_taken [OF assms(1,2) this, of "[]"] show ?thesis
    by (auto simp: host_push_def intro: that)
qed

lemma host_push_all_taken:
  assumes "list_all (\<lambda>b. length b \<le> hf_max_message f \<and> length (frame_header (length b)) \<le> hf_max_header f) bodies"
    and "hf_max_message f \<le> 9007199254740991" "concat (map encode_host_frame bodies) = hf_buffer f @ concat chunks"
    and "chunks = [] \<longrightarrow> bodies = []"
  shows "host_push_all chunks f = (Inr bodies, f\<lparr>hf_buffer := []\<rparr>)"
  using assms
proof (induction chunks arbitrary: f bodies)
  case (Cons c chunks)
  obtain now later buf' where step: "bodies = now @ later" "host_push c f = (Inr now, f\<lparr>hf_buffer := buf'\<rparr>)"
    "concat (map encode_host_frame later) = buf' @ concat chunks" "concat chunks = [] \<longrightarrow> later = []"
    using host_push_taken [OF Cons.prems(1,2), of c "concat chunks"] Cons.prems(3) by auto
  have "host_push_all chunks (f\<lparr>hf_buffer := buf'\<rparr>) = (Inr later, f\<lparr>hf_buffer := buf'\<rparr>\<lparr>hf_buffer := []\<rparr>)"
    using step(3,4) Cons.prems(1,2) step(1) by (intro Cons.IH) auto
  with step(1,2) show ?case by simp
qed simp

subsection \<open>Properties\<close>

text \<open>
  Every message of a client reaches the host. The bytes of any bodies, framed by \<open>encodeContentLengthFrame\<close> and
  received in any chunks, come out of a new framer as exactly these bodies, in order, with nothing left in the
  buffer, when each body is within the message limit (a safe integer) and its header within the header limit.
\<close>

theorem host_frames_round_trip:
  assumes "concat chunks = concat (map encode_host_frame bodies)" "mm \<le> 9007199254740991"
    and "list_all (\<lambda>b. length b \<le> mm \<and> length (frame_header (length b)) \<le> mh) bodies"
  shows "host_push_all chunks (new_host_framer mm mh) = (Inr bodies, new_host_framer mm mh)"
proof -
  have "bodies = []" if "chunks = []"
    using that assms(1) frame_header_length(2) by (cases bodies) (auto simp: encode_host_frame_def)
  then show ?thesis
    using host_push_all_taken [of "new_host_framer mm mh" bodies chunks] assms by (auto simp: new_host_framer_def)
qed

theorem host_frames_round_trip_witness:
  "host_push_all [take 30 (encode_host_frame ''{}''), drop 30 (encode_host_frame ''{}'')] (new_host_framer 10 100) =
     (Inr [''{}''], new_host_framer 10 100)"
proof (rule host_frames_round_trip)
  have "length (frame_header 2) \<le> 100" by code_simp
  then show "list_all (\<lambda>b. length b \<le> 10 \<and> length (frame_header (length b)) \<le> 100) [''{}'']" by (simp add: numeral_2_eq_2)
qed simp_all

subsection \<open>A header cut at its limit\<close>

text \<open>
  A header of exactly the permitted length is accepted in one chunk; when a chunk ends inside its terminator, the
  buffer is longer than the limit and holds no terminator, and the same bytes are refused.
\<close>

lemma header_cut_at_limit:
  "fst (host_push_all [''Content-Length: 0'' @ header_terminator] (new_host_framer 10 17)) = Inr [[]]"
  "fst (host_push_all [''Content-Length: 0'' @ [CR], LF # CRLF] (new_host_framer 10 17)) = Inl header_limit_error"
proof -
  let ?h = "''Content-Length: 0''"
  have "announced_length (split_crlf (ascii_text (take 17 (?h @ header_terminator)))) None = Inr (Some 0)" by code_simp
  then have "body_length 10 (take 17 (?h @ header_terminator)) = Inr 0" by (simp add: body_length_def del: take_append)
  moreover have "index_of header_terminator (?h @ header_terminator) = Some 17" by code_simp
  ultimately have "next_host_frame 10 17 (?h @ header_terminator) = Inr (Some ([], []))"
    by (simp add: next_host_frame_def slice_def header_terminator_def)
  then show "fst (host_push_all [?h @ header_terminator] (new_host_framer 10 17)) = Inr [[]]"
    by (simp add: host_push_def new_host_framer_def host_frames.simps [of 10 17] next_host_frame_def [of 10 17 "[]"])
  have "index_of header_terminator (?h @ [CR]) = None" by code_simp
  then have "next_host_frame 10 17 (?h @ [CR]) = Inl header_limit_error" by (simp add: next_host_frame_def)
  then show "fst (host_push_all [?h @ [CR], LF # CRLF] (new_host_framer 10 17)) = Inl header_limit_error"
    by (simp add: host_push_def new_host_framer_def host_frames.simps [of 10 17])
qed

end
