(* ===== verification/LinuxHost.thy ===== *)
theory LinuxHost
  imports LinuxBackend LinuxFraming
begin

text \<open>
  The RPC server of the Linux host (\<open>apps/linux-host/src/host.mjs\<close>): a connection with its framer, its authorization
  and its count of requests; one request at a time, in the order of the frames; the methods of the driver over a
  backend; and the set of connections. The backend is an interface with two implementations, the X11 backend and the
  one without a display.
\<close>

subsection \<open>The interface of a backend\<close>

record 'w backend_ops =
  bo_capabilities :: "'w \<Rightarrow> (linux_error + jval) \<times> 'w"
  bo_permissions :: "'w \<Rightarrow> (linux_error + jval) \<times> 'w"
  bo_frontmost :: "'w \<Rightarrow> (linux_error + jval) \<times> 'w"
  bo_focus :: "x11_target \<Rightarrow> jval \<Rightarrow> 'w \<Rightarrow> (linux_error + jval) \<times> 'w"
  bo_keys :: "x11_target \<Rightarrow> jval \<Rightarrow> jval \<Rightarrow> 'w \<Rightarrow> (linux_error + jval) \<times> 'w"
  bo_restore :: "jval \<Rightarrow> 'w \<Rightarrow> (linux_error + bool) \<times> 'w"
  bo_capture :: "x11_target \<Rightarrow> jval \<Rightarrow> 'w \<Rightarrow> (linux_error + jval) \<times> 'w"
  bo_cancel_all :: "'w \<Rightarrow> 'w"

definition x11_ops :: "x11_env \<Rightarrow> x11_state backend_ops" where
  "x11_ops env = \<lparr>bo_capabilities = x11_capabilities env, bo_permissions = x11_permissions env,
     bo_frontmost = x11_frontmost env, bo_focus = x11_focus env, bo_keys = x11_send_key_sequence env,
     bo_restore = x11_restore_application env, bo_capture = x11_capture env, bo_cancel_all = (\<lambda>s. s)\<rparr>"

definition unavailable_ops :: "x11_env \<Rightarrow> string \<Rightarrow> x11_state backend_ops" where
  "unavailable_ops env reason =
     (let fail = lift_op (Inl (backend_fail reason)) in
      \<lparr>bo_capabilities = lift_op (Inr (no_display_capabilities env reason)),
       bo_permissions = lift_op (Inr (unavailable_permissions reason)), bo_frontmost = fail,
       bo_focus = (\<lambda>t options. fail), bo_keys = (\<lambda>t events options. fail), bo_restore = (\<lambda>a. lift_op (Inr False)),
       bo_capture = (\<lambda>t options. fail), bo_cancel_all = (\<lambda>s. s)\<rparr>)"

fun backend_ops_of :: "x11_env \<Rightarrow> linux_backend \<Rightarrow> x11_state backend_ops" where
  "backend_ops_of env X11_Backend = x11_ops env"
| "backend_ops_of env (Unavailable_Backend reason) = unavailable_ops env reason"

subsection \<open>Requests and answers\<close>

definition MAX_CONNECTIONS :: nat where
  "MAX_CONNECTIONS = 16"

definition MAX_REQUESTS_PER_CONNECTION :: nat where
  "MAX_REQUESTS_PER_CONNECTION = 10000"

definition secure_equal :: "jval \<Rightarrow> string \<Rightarrow> bool" where
  "secure_equal a b \<longleftrightarrow> utf8_bytes (js_string (nullish_or a (JStr []))) = utf8_bytes b"

definition rpc_success :: "jval \<Rightarrow> jval \<Rightarrow> jval" where
  "rpc_success id0 result = JObj [(''jsonrpc'', JStr ''2.0''), (''id'', id0), (''result'', result)]"

definition rpc_failure :: "jval \<Rightarrow> linux_error \<Rightarrow> jval" where
  "rpc_failure id0 e = JObj [(''jsonrpc'', JStr ''2.0''), (''id'', id0),
     (''error'', JObj [(''code'', jint (- 32000)), (''message'', JStr (le_message e)),
       (''data'', JObj ((''code'', JStr (le_code e)) #
          (if le_details e = JUndef then [] else [(''details'', le_details e)])))])]"

definition object_of :: "jval \<Rightarrow> string \<Rightarrow> linux_error + jval" where
  "object_of v name = (if is_record v then Inr v else Inl (invalid (name @ '' must be an object.'')))"

text \<open>\<open>Number(v)\<close>.\<close>

fun to_num :: "jval \<Rightarrow> jnum" where
  "to_num JUndef = NotNum"
| "to_num JNull = Fin 0"
| "to_num (JBool b) = Fin (if b then 1 else 0)"
| "to_num (JNum n) = n"
| "to_num v = number_of (js_string v)"

definition decode_target :: "jval \<Rightarrow> linux_error + x11_target" where
  "decode_target params =
     andthen (object_of (get_prop params ''target'') ''target'') (\<lambda>target.
       Inr \<lparr>nt_pid = JNum (to_num (get_prop target ''pid'')), nt_title = string_of (get_prop target ''window_title''),
         nt_identifier = string_of (get_prop target ''window_identifier'')\<rparr>)"

definition options_of :: "jval \<Rightarrow> jval" where
  "options_of v = (if is_objlike v then v else JObj [])"

definition on_target :: "jval \<Rightarrow> (x11_target \<Rightarrow> 'w \<Rightarrow> (linux_error + jval) \<times> 'w) \<Rightarrow> 'w \<Rightarrow> (linux_error + jval) \<times> 'w" where
  "on_target params f w = (case decode_target params of Inl e \<Rightarrow> (Inl e, w) | Inr t \<Rightarrow> f t w)"

definition driver_key_sequence :: "'w backend_ops \<Rightarrow> jval \<Rightarrow> 'w \<Rightarrow> (linux_error + jval) \<times> 'w" where
  "driver_key_sequence B params w =
     (case object_of (get_prop params ''sequence'') ''sequence'' of
        Inl e \<Rightarrow> (Inl e, w)
      | Inr sequence \<Rightarrow>
          (case get_prop sequence ''events'' of
             JArr raws \<Rightarrow> on_target params (\<lambda>t. bo_keys B t (JArr raws) (options_of (get_prop params ''focus_options''))) w
           | _ \<Rightarrow> (Inl (invalid ''sequence.events must be an array.''), w)))"

definition driver_restore :: "'w backend_ops \<Rightarrow> jval \<Rightarrow> 'w \<Rightarrow> (linux_error + jval) \<times> 'w" where
  "driver_restore B params w =
     (case object_of (get_prop params ''application'') ''application'' of
        Inl e \<Rightarrow> (Inl e, w)
      | Inr application \<Rightarrow>
          (case bo_restore B application w of (r, w1) \<Rightarrow> (map_sum id (\<lambda>b. JObj [(''restored'', JBool b)]) r, w1)))"

definition host_dispatch :: "'w backend_ops \<Rightarrow> string \<Rightarrow> jval \<Rightarrow> 'w \<Rightarrow> (linux_error + jval) \<times> 'w" where
  "host_dispatch B call params w =
     (if call = ''driver.capabilities'' then bo_capabilities B w
      else if call = ''driver.permissions'' then bo_permissions B w
      else if call = ''driver.frontmost'' then bo_frontmost B w
      else if call = ''driver.focus'' then on_target params (\<lambda>t. bo_focus B t (options_of (get_prop params ''options''))) w
      else if call = ''driver.key_sequence'' then driver_key_sequence B params w
      else if call = ''driver.restore_application'' then driver_restore B params w
      else if call = ''driver.capture'' then on_target params (\<lambda>t. bo_capture B t (options_of (get_prop params ''options''))) w
      else if call = ''driver.cancel_all'' then (Inr (JObj [(''cancelled'', JBool True)]), bo_cancel_all B w)
      else (Inl (invalid (''Unsupported driver RPC method: '' @ call @ ''.'')), w))"

subsection \<open>A connection\<close>

record host_conn =
  cn_framer :: host_framer
  cn_pending :: "string list"
  cn_authorized :: bool
  cn_requests :: nat
  cn_destroyed :: bool
  cn_answers :: "jval list"

definition new_conn :: host_conn where
  "new_conn = \<lparr>cn_framer = new_host_framer default_max_message default_max_header, cn_pending = [], cn_authorized = False,
     cn_requests = 0, cn_destroyed = False, cn_answers = []\<rparr>"

definition request_params :: "jval \<Rightarrow> jval" where
  "request_params request = (if is_record (get_prop request ''params'') then get_prop request ''params'' else JObj [])"

definition host_error :: "string \<Rightarrow> string \<Rightarrow> linux_error" where
  "host_error code message = linux_error_of (JStr code) message JUndef"

text \<open>A request with a method: counted, then answered when the connection is authorized.\<close>

definition serve_method ::
  "'w backend_ops \<Rightarrow> string \<Rightarrow> string \<Rightarrow> jval \<Rightarrow> host_conn \<Rightarrow> 'w \<Rightarrow> (linux_error + jval) \<times> host_conn \<times> 'w" where
  "serve_method B token call request c w =
     (let c = c\<lparr>cn_requests := Suc (cn_requests c)\<rparr>; params = request_params request in
      if MAX_REQUESTS_PER_CONNECTION < cn_requests c
      then (Inl (host_error ''E_PERMISSION_DENIED'' ''Driver connection request limit exceeded.''), c, w)
      else if call = ''driver.initialize'' then
        (if \<not> secure_equal (get_prop params ''token'') token
         then (Inl (host_error ''E_AUTH_FAILED'' ''Driver token is invalid.''), c, w)
         else case bo_capabilities B w of (r, w1) \<Rightarrow> (r, c\<lparr>cn_authorized := True\<rparr>, w1))
      else if \<not> cn_authorized c
      then (Inl (host_error ''E_AUTH_FAILED'' ''Driver connection is not initialized.''), c, w)
      else case host_dispatch B call params w of (r, w1) \<Rightarrow> (r, c, w1))"

definition answer_of :: "jval \<Rightarrow> linux_error + jval \<Rightarrow> jval" where
  "answer_of id0 r = (case r of Inl e \<Rightarrow> rpc_failure id0 e | Inr v \<Rightarrow> rpc_success id0 v)"

definition request_id :: "jval \<Rightarrow> jval" where
  "request_id request = nullish_or (get_prop request ''id'') JNull"

text \<open>\<open>JSON.parse\<close> of a frame is the parameter \<open>parse\<close>, with the message of the \<open>SyntaxError\<close>.\<close>

definition serve_frame ::
  "'w backend_ops \<Rightarrow> (string \<Rightarrow> string + jval) \<Rightarrow> string \<Rightarrow> string \<Rightarrow> host_conn \<Rightarrow> 'w \<Rightarrow> host_conn \<times> 'w" where
  "serve_frame B parse token frame c w =
     (let answer = (\<lambda>id0 r (c :: host_conn). c\<lparr>cn_answers := cn_answers c @ [answer_of id0 r]\<rparr>) in
      case parse frame of
        Inl message \<Rightarrow> (answer JNull (Inl (plain_error message)) c, w)
      | Inr request \<Rightarrow>
          (case get_prop request ''method'' of
             JStr call \<Rightarrow>
               if get_prop request ''jsonrpc'' \<noteq> JStr ''2.0''
               then (answer (request_id request) (Inl (invalid ''Malformed driver JSON-RPC request.'')) c, w)
               else (case serve_method B token call request c w of (r, c1, w1) \<Rightarrow> (answer (request_id request) r c1, w1))
           | _ \<Rightarrow> (answer (request_id request) (Inl (invalid ''Malformed driver JSON-RPC request.'')) c, w)))"

datatype conn_event = Conn_Data string | Conn_Turn | Conn_Gone

text \<open>\<open>Conn_Turn\<close> is the next link of the promise chain; \<open>Conn_Gone\<close> stands for the end, an error and the idle timeout.\<close>

fun conn_step ::
  "'w backend_ops \<Rightarrow> (string \<Rightarrow> string + jval) \<Rightarrow> string \<Rightarrow> conn_event \<Rightarrow> host_conn \<times> 'w \<Rightarrow> host_conn \<times> 'w" where
  "conn_step B parse token (Conn_Data chunk) (c, w) =
     (if cn_destroyed c then (c, w)
      else case host_push chunk (cn_framer c) of
          (Inl e, f) \<Rightarrow> (c\<lparr>cn_framer := f, cn_destroyed := True\<rparr>, w)
        | (Inr bodies, f) \<Rightarrow> (c\<lparr>cn_framer := f, cn_pending := cn_pending c @ bodies\<rparr>, w))"
| "conn_step B parse token Conn_Turn (c, w) =
     (case cn_pending c of
        [] \<Rightarrow> (c, w)
      | frame # rest \<Rightarrow>
          let c = c\<lparr>cn_pending := rest\<rparr> in
          if cn_destroyed c then (c, w) else serve_frame B parse token frame c w)"
| "conn_step B parse token Conn_Gone (c, w) = (c\<lparr>cn_destroyed := True\<rparr>, w)"

definition run_conn ::
  "'w backend_ops \<Rightarrow> (string \<Rightarrow> string + jval) \<Rightarrow> string \<Rightarrow> conn_event list \<Rightarrow> host_conn \<times> 'w \<Rightarrow> host_conn \<times> 'w" where
  "run_conn B parse token es cw = fold (conn_step B parse token) es cw"

subsection \<open>The connections of the server\<close>

record host_server =
  hs_count :: nat
  hs_sockets :: "nat list"
  hs_refused :: "nat list"

definition new_server :: host_server where
  "new_server = \<lparr>hs_count = 0, hs_sockets = [], hs_refused = []\<rparr>"

datatype server_event = Socket_Opened nat | Socket_Closed nat

text \<open>A refused socket has no listener for its end.\<close>

fun server_step :: "server_event \<Rightarrow> host_server \<Rightarrow> host_server" where
  "server_step (Socket_Opened n) s =
     (if MAX_CONNECTIONS \<le> hs_count s then s\<lparr>hs_refused := n # hs_refused s\<rparr>
      else s\<lparr>hs_count := Suc (hs_count s), hs_sockets := n # hs_sockets s\<rparr>)"
| "server_step (Socket_Closed n) s =
     (if n \<in> set (hs_sockets s) then s\<lparr>hs_count := hs_count s - 1, hs_sockets := remove1 n (hs_sockets s)\<rparr> else s)"

lemma server_step_count:
  "hs_count s = length (hs_sockets s) \<Longrightarrow> hs_count s \<le> MAX_CONNECTIONS \<Longrightarrow>
   hs_count (server_step e s) = length (hs_sockets (server_step e s)) \<and> hs_count (server_step e s) \<le> MAX_CONNECTIONS"
  by (cases e) (auto simp: length_remove1 split: if_splits)

lemma server_connections_bounded:
  "hs_count (fold server_step es new_server) = length (hs_sockets (fold server_step es new_server)) \<and>
   length (hs_sockets (fold server_step es new_server)) \<le> MAX_CONNECTIONS"
proof (induction es rule: rev_induct)
  case Nil
  then show ?case by (simp add: new_server_def)
next
  case (snoc e es)
  then show ?case using server_step_count [of "fold server_step es new_server" e] by simp
qed

end
