(* ===== verification/LinuxEventsProps.thy ===== *)
theory LinuxEventsProps
  imports LinuxEvents
begin

text \<open>
  What the X11 helper reads in an accepted plan: a decoder of the rows as the specification of the format, the
  round trip through it, and the limits and the balance of the keys that every accepted plan keeps.
\<close>

subsection \<open>Reading a plan back\<close>

definition text_of_base64 :: "string \<Rightarrow> string" where
  "text_of_base64 s = utf8_text (unbase64 s)"

definition decode_modifiers :: "string \<Rightarrow> string list" where
  "decode_modifiers s = (if s = [] then [] else split_on CHR '','' s)"

definition decode_row :: "string \<Rightarrow> play_event option" where
  "decode_row row =
     (case split_on TAB row of
        [kind, key, code, content, ms, repetitions, delay] \<Rightarrow>
          Some \<lparr>ne_kind = kind, ne_key = text_of_base64 key, ne_code = text_of_base64 code,
            ne_content = text_of_base64 content, ne_modifiers = decode_modifiers (text_of_base64 ms),
            ne_repeat = dec_val repetitions, ne_delay = dec_val delay\<rparr>
      | _ \<Rightarrow> None)"

definition decode_plan :: "string \<Rightarrow> play_event list option" where
  "decode_plan plan = those (map decode_row (butlast (split_on LF plan)))"

definition modifier_names :: "string list" where
  "modifier_names = map snd MODIFIER_CANONICAL"

definition playable :: "play_event \<Rightarrow> bool" where
  "playable ev \<longleftrightarrow> ne_kind ev \<in> set EVENT_KINDS \<and> 1 \<le> ne_repeat ev \<and> ne_repeat ev \<le> 100 \<and> ne_delay ev \<le> 10 * 1000 \<and>
     distinct (ne_modifiers ev) \<and> set (ne_modifiers ev) \<subseteq> set modifier_names \<and>
     CHR 0x00 \<notin> set (ne_key ev) \<union> set (ne_code ev) \<union> set (ne_content ev) \<and>
     utf8_length (ne_key ev) \<le> 128 \<and> utf8_length (ne_code ev) \<le> 128 \<and>
     (if ne_kind ev = ''text'' then ne_content ev \<noteq> [] \<and> ne_modifiers ev = [] else ne_key ev \<noteq> [] \<or> ne_code ev \<noteq> []) \<and>
     (ne_kind ev \<in> {''key_down'', ''key_up''} \<longrightarrow> ne_repeat ev = 1)"

lemma text_of_base64_text [simp]: "text_of_base64 (base64_text s) = s"
  by (simp add: text_of_base64_def base64_text_def)

lemma base64_text_letters: "TAB \<notin> set (base64_text s)" "LF \<notin> set (base64_text s)"
  by (simp_all add: base64_text_def base64_no_separator)

lemma dec_str_letters: "TAB \<notin> set (dec_str n)" "LF \<notin> set (dec_str n)"
  by (auto dest!: dec_str_digits simp: is_digit_def)

lemma kind_letters: "kind \<in> set EVENT_KINDS \<Longrightarrow> TAB \<notin> set kind" "kind \<in> set EVENT_KINDS \<Longrightarrow> LF \<notin> set kind"
  by (auto simp: EVENT_KINDS_def)

lemma modifier_letters: "m \<in> set modifier_names \<Longrightarrow> CHR '','' \<notin> set m \<and> m \<noteq> []"
  by (auto simp: modifier_names_def MODIFIER_CANONICAL_def)

lemma decode_modifiers_join:
  assumes "set ms \<subseteq> set modifier_names"
  shows "decode_modifiers (join '','' ms) = ms"
proof (cases ms)
  case (Cons m rest)
  then have "join '','' ms \<noteq> []" using assms modifier_letters [of m] by (cases rest) auto
  moreover have "split_on CHR '','' (join '','' ms) = ms" using assms modifier_letters Cons by (intro split_on_join) auto
  ultimately show ?thesis by (simp add: decode_modifiers_def)
qed (simp add: decode_modifiers_def)

lemma event_row_letters: "playable ev \<Longrightarrow> LF \<notin> set (event_row ev)"
  by (simp add: event_row_def playable_def base64_text_letters dec_str_letters kind_letters)

lemma decode_event_row: "playable ev \<Longrightarrow> decode_row (event_row ev) = Some ev"
proof -
  assume ok: "playable ev"
  have "split_on TAB (event_row ev) = [ne_kind ev, base64_text (ne_key ev), base64_text (ne_code ev), base64_text (ne_content ev),
     base64_text (join '','' (ne_modifiers ev)), dec_str (ne_repeat ev), dec_str (ne_delay ev)]"
    unfolding event_row_def using ok
    by (intro split_on_join) (auto simp: playable_def base64_text_letters dec_str_letters kind_letters)
  moreover have "decode_modifiers (join '','' (ne_modifiers ev)) = ne_modifiers ev"
    using ok by (simp add: playable_def decode_modifiers_join)
  ultimately show ?thesis by (simp add: decode_row_def)
qed

lemma decode_encoded_rows:
  assumes "list_all playable evs" "evs \<noteq> []"
  shows "decode_plan (join [LF] (map event_row evs) @ [LF]) = Some evs"
proof -
  have "split_on LF (join [LF] (map event_row evs) @ [LF]) = map event_row evs @ [[]]"
    using assms event_row_letters by (simp only: join_snoc_newline map_is_Nil_conv not_False_eq_True) (intro split_on_join; auto simp: list_all_iff)
  moreover have "those (map decode_row (map event_row evs)) = Some evs"
    using assms(1) by (induction evs) (simp_all add: decode_event_row)
  ultimately show ?thesis by (simp add: decode_plan_def)
qed

subsection \<open>Accepted events\<close>

lemma in_set_map_filter: "y \<in> set (List.map_filter f xs) \<longleftrightarrow> (\<exists>x \<in> set xs. f x = Some y)"
  by (induction xs) (auto split: option.splits)

lemma read_modifiers_Inr:
  assumes "read_modifiers label v = Inr ms"
  shows "distinct ms \<and> set ms \<subseteq> set modifier_names"
proof -
  have "\<exists>xs. ms = List.map_filter (\<lambda>x. Option.bind (string_of x) (map_of MODIFIER_CANONICAL)) xs \<and> distinct ms"
  proof (cases "v = JUndef")
    case True
    then have "ms = []" using assms by (simp add: read_modifiers_def)
    then show ?thesis by (intro exI [of _ "[]"]) simp
  qed (use assms in \<open>auto simp: read_modifiers_def Let_def split: jval.splits if_splits\<close>)
  then obtain xs where xs: "ms = List.map_filter (\<lambda>x. Option.bind (string_of x) (map_of MODIFIER_CANONICAL)) xs" "distinct ms"
    by blast
  have "m \<in> set modifier_names" if m: "m \<in> set ms" for m
  proof -
    obtain name where "map_of MODIFIER_CANONICAL name = Some m" using m xs(1) by (auto simp: in_set_map_filter bind_eq_Some_conv)
    then show ?thesis by (force simp: modifier_names_def dest: map_of_SomeD)
  qed
  then show ?thesis using xs(2) by blast
qed

lemma floor_between:
  assumes "\<not> q < rat_of_nat lo" "\<not> rat_of_nat hi < q"
  shows "lo \<le> nat \<lfloor>q\<rfloor> \<and> nat \<lfloor>q\<rfloor> \<le> hi"
proof -
  have "int lo \<le> \<lfloor>q\<rfloor>" "\<lfloor>q\<rfloor> \<le> int hi" using assms by (simp_all add: le_floor_iff floor_le_iff)
  then show ?thesis by linarith
qed

lemma bounded_integer_Inr:
  assumes "bounded_integer v fallback lo hi name = Inr n" "lo \<le> fallback" "fallback \<le> hi"
  shows "lo \<le> n \<and> n \<le> hi"
proof (cases "nullish v")
  case True
  then show ?thesis using assms by (simp add: bounded_integer_def Let_def split: if_splits)
next
  case False
  then obtain q where "\<not> q < rat_of_nat lo" "\<not> rat_of_nat hi < q" "n = nat \<lfloor>q\<rfloor>"
    using assms(1) by (auto simp: bounded_integer_def Let_def split: jval.splits jnum.splits if_splits)
  then show ?thesis using floor_between by blast
qed

lemma read_event_ok:
  assumes "read_event i delays raw = Inr (ev, delays')"
  shows "1 \<le> ne_repeat ev" "ne_repeat ev \<le> 100" "ne_delay ev \<le> 10 * 1000"
    "CHR 0x00 \<notin> set (ne_key ev) \<union> set (ne_code ev) \<union> set (ne_content ev)"
    "utf8_length (ne_key ev) \<le> 128" "utf8_length (ne_code ev) \<le> 128"
proof -
  show "1 \<le> ne_repeat ev" "ne_repeat ev \<le> 100" "ne_delay ev \<le> 10 * 1000"
    using assms by (auto simp: read_event_def Let_def andthen_eq_Inr dest!: bounded_integer_Inr)
  show "CHR 0x00 \<notin> set (ne_key ev) \<union> set (ne_code ev) \<union> set (ne_content ev)"
    "utf8_length (ne_key ev) \<le> 128" "utf8_length (ne_code ev) \<le> 128"
    using assms by (auto simp: read_event_def Let_def andthen_eq_Inr)
qed

lemma plan_event_appends:
  assumes "plan_event i raw s = Inr s'"
  shows "ps_events s' = ps_events s \<or> (\<exists>ev. ps_events s' = ps_events s @ [ev] \<and> playable ev)"
proof -
  obtain ev delays where ev: "read_event i (ps_delays s) raw = Inr (ev, delays)"
    using assms by (auto simp: plan_event_def andthen_eq_Inr)
  note read = read_event_ok [OF ev] read_event_Inr(3) [OF ev] read_modifiers_Inr [OF read_event_Inr(6) [OF ev]]
  show ?thesis
  proof (cases "ne_kind ev = ''text'' \<and> ne_content ev = []")
    case True
    then show ?thesis using assms ev by (auto simp: plan_event_def andthen_def)
  next
    case False
    then obtain bytes held where s': "check_content i ev (ps_text_bytes s) = Inr bytes"
        "hold_key i (event_identity raw) ev (ps_held s) = Inr held" "ps_events s' = ps_events s @ [ev]"
      using assms ev unfolding plan_event_def by (auto simp: andthen_eq_Inr)
    have "if ne_kind ev = ''text'' then ne_content ev \<noteq> [] \<and> ne_modifiers ev = [] else ne_key ev \<noteq> [] \<or> ne_code ev \<noteq> []"
      using s'(1) False by (auto simp: check_content_def andthen_eq_Inr Let_def split: if_splits)
    moreover have "ne_kind ev \<in> {''key_down'', ''key_up''} \<longrightarrow> ne_repeat ev = 1"
      using s'(2) by (auto simp: hold_key_def andthen_eq_Inr)
    ultimately have "playable ev" using read by (simp add: playable_def)
    with s'(3) show ?thesis by blast
  qed
qed

lemma plan_events_all_ok:
  "plan_events i raws s = Inr s' \<Longrightarrow> list_all playable (ps_events s) \<Longrightarrow> list_all playable (ps_events s')"
proof (induction raws arbitrary: i s)
  case (Cons raw raws)
  then obtain s1 where s1: "plan_event i raw s = Inr s1" "plan_events (Suc i) raws s1 = Inr s'"
    by (auto simp: andthen_eq_Inr)
  with plan_event_appends [OF s1(1)] Cons.prems(2) have "list_all playable (ps_events s1)" by auto
  with Cons.IH s1(2) show ?case by blast
qed simp

lemma validated_plan:
  assumes "validate_and_encode_events (JArr raws) = Inr plan"
  obtains s where "plan_events 0 raws new_plan = Inr s" "ps_held s = []" "ps_events s \<noteq> []" "length raws \<le> 4096"
    "plan = join [LF] (map event_row (ps_events s)) @ [LF]" "list_all playable (ps_events s)"
proof -
  obtain evs where evs: "sequence_plan (JArr raws) = Inr evs" "plan = join [LF] (map event_row evs) @ [LF]"
    using assms by (auto simp: validate_and_encode_events_def andthen_eq_Inr)
  obtain s where s: "plan_events 0 raws new_plan = Inr s" "ps_held s = []" "ps_events s = evs" "evs \<noteq> []" "length raws \<le> 4096"
    using sequence_plan_Inr [OF evs(1)] by blast
  have "list_all playable evs" using plan_events_all_ok [OF s(1)] s(3) by (simp add: new_plan_def)
  with s evs(2) show ?thesis by (intro that [of s]) auto
qed

subsection \<open>Properties\<close>

text \<open>
  C29: The text the X11 helper reads carries exactly the accepted events: every accepted request has a plan of rows
  that decode, by splitting at newlines and tabs, decoding base64 and UTF-8 and reading the numbers in decimal, to the
  very events the checks accepted, in their order, whatever characters their keys and texts hold (tabs, newlines
  and commas included). So no text in a request can forge a row or a field of the plan.
\<close>

theorem native_plan_decodes:
  assumes "validate_and_encode_events (JArr raws) = Inr plan"
  shows "\<exists>evs. sequence_plan (JArr raws) = Inr evs \<and> decode_plan plan = Some evs"
proof -
  obtain evs where evs: "sequence_plan (JArr raws) = Inr evs" "plan = join [LF] (map event_row evs) @ [LF]"
    using assms by (auto simp: validate_and_encode_events_def andthen_eq_Inr)
  obtain s where "plan_events 0 raws new_plan = Inr s" "ps_events s = evs" "evs \<noteq> []"
    using sequence_plan_Inr [OF evs(1)] by blast
  moreover from this have "list_all playable evs" using plan_events_all_ok [of 0 raws new_plan s] by (simp add: new_plan_def)
  ultimately show ?thesis using decode_encoded_rows evs by simp
qed

text \<open>A shifted letter and a text with a tab.\<close>

definition sample_events :: "jval list" where
  "sample_events =
     [JObj [(''kind'', JStr ''key_down''), (''code'', JStr ''ShiftLeft'')],
      JObj [(''kind'', JStr ''key_press''), (''key'', JStr ''a''), (''modifiers'', JArr [JStr ''meta'', JStr ''control''])],
      JObj [(''kind'', JStr ''key_up''), (''code'', JStr ''ShiftLeft''), (''delay_after_milliseconds'', jnat 20)],
      JObj [(''kind'', JStr ''text''), (''text'', JStr [CHR ''x'', TAB]), (''repeat_count'', jnat 2)]]"

definition sample_plan :: string where
  "sample_plan = (case validate_and_encode_events (JArr sample_events) of Inr plan \<Rightarrow> plan | Inl _ \<Rightarrow> [])"

lemma lower_kinds:
  "to_lower ''key_down'' = ''key_down''" "to_lower ''key_up'' = ''key_up''" "to_lower ''key_press'' = ''key_press''"
  "to_lower ''text'' = ''text''"
  by code_simp+

lemma utf8_lengths: "utf8_length [] = 0" "utf8_length (c # s) = (if (of_char c :: nat) < 128 then 1 else 2) + utf8_length s"
  by (simp_all add: utf8_length_def)

lemmas planning = read_event_def event_kind_def string_or_empty_def bounded_integer_def read_modifiers_def refuse_if_def andthen_def
  EVENT_KINDS_def MODIFIER_CANONICAL_def lower_kinds utf8_lengths nullish_def Let_def List.map_filter_simps
  plan_event_def check_content_def hold_key_def event_identity_def new_plan_def

lemma sample_planned:
  "sequence_plan (JArr sample_events) = Inr
     [\<lparr>ne_kind = ''key_down'', ne_key = [], ne_code = ''ShiftLeft'', ne_content = [], ne_modifiers = [], ne_repeat = 1, ne_delay = 0\<rparr>,
      \<lparr>ne_kind = ''key_press'', ne_key = ''a'', ne_code = [], ne_content = [], ne_modifiers = [''alt'', ''control''], ne_repeat = 1, ne_delay = 0\<rparr>,
      \<lparr>ne_kind = ''key_up'', ne_key = [], ne_code = ''ShiftLeft'', ne_content = [], ne_modifiers = [], ne_repeat = 1, ne_delay = 20\<rparr>,
      \<lparr>ne_kind = ''text'', ne_key = [], ne_code = [], ne_content = [CHR ''x'', TAB], ne_modifiers = [], ne_repeat = 2, ne_delay = 0\<rparr>]"
  by (simp add: sequence_plan_def sample_events_def planning)

lemma sample_accepted: "validate_and_encode_events (JArr sample_events) = Inr sample_plan" "list_all text_keys sample_events"
  by (simp_all add: sample_plan_def validate_and_encode_events_def sample_planned andthen_def)
    (simp add: sample_events_def text_keys_def text_field_def nullish_def)

theorem native_plan_decodes_witness:
  "\<exists>evs. sequence_plan (JArr sample_events) = Inr evs \<and> decode_plan sample_plan = Some evs"
  using sample_accepted(1) by (rule native_plan_decodes)



subsection \<open>Fields that are not strings\<close>

text \<open>
  The keys that are held are compared by \<open>String(code)\<close> and \<open>String(key)\<close>, the helper gets the empty string for a
  field that is not a string. So a press whose key is the number 1 is balanced by a release whose key is the text
  "1": the release that reaches the helper is of another key than the press.
\<close>

definition confused_events :: "jval list" where
  "confused_events =
     [JObj [(''kind'', JStr ''key_down''), (''code'', JStr ''KeyA''), (''key'', jnat 1)],
      JObj [(''kind'', JStr ''key_up''), (''code'', JStr ''KeyA''), (''key'', JStr ''1'')]]"

lemma dec_str_one: "dec_str (Suc 0) = ''1''"
  by code_simp

lemma confused_keys_stay_down:
  "map_sum id (map (\<lambda>ev. (ne_kind ev, identity_of ev))) (sequence_plan (JArr confused_events)) =
     Inr [(''key_down'', ''KeyA'' @ [CHR 0x00]), (''key_up'', ''KeyA'' @ [CHR 0x00] @ ''1'')]"
  by (simp add: sequence_plan_def confused_events_def planning identity_of_def dec_str_one)

end
