(* ===== verification/LinuxHostProps.thy ===== *)
theory LinuxHostProps
  imports LinuxHost LinuxEventsProps
begin

text \<open>
  What a connection of the Linux host can reach: nothing without the token; and over every backend, at most one run
  of the helper for an answered frame, with plans that passed the checks.
\<close>

subsection \<open>Without the token\<close>

text \<open>The frames a connection takes from its chunks.\<close>

fun framed :: "conn_event list \<Rightarrow> host_framer \<Rightarrow> string list" where
  "framed [] f = []"
| "framed (Conn_Data chunk # es) f = (case host_push chunk f of (Inl e, f1) \<Rightarrow> [] | (Inr bodies, f1) \<Rightarrow> bodies @ framed es f1)"
| "framed (Conn_Turn # es) f = framed es f"
| "framed (Conn_Gone # es) f = []"

definition authorizes :: "(string \<Rightarrow> string + jval) \<Rightarrow> string \<Rightarrow> string \<Rightarrow> bool" where
  "authorizes parse token frame \<longleftrightarrow>
     (case parse frame of
        Inl message \<Rightarrow> False
      | Inr request \<Rightarrow> get_prop request ''method'' = JStr ''driver.initialize'' \<and>
          secure_equal (get_prop (request_params request) ''token'') token)"

definition is_failure :: "jval \<Rightarrow> bool" where
  "is_failure answer \<longleftrightarrow> get_prop answer ''error'' \<noteq> JUndef"

lemma failure_answer [simp]: "is_failure (answer_of id0 (Inl e))" "is_failure (rpc_failure id0 e)"
  by (simp_all add: is_failure_def answer_of_def rpc_failure_def)

lemma serve_method_unauthorized:
  assumes "\<not> cn_authorized c"
    and "call = ''driver.initialize'' \<longrightarrow> \<not> secure_equal (get_prop (request_params request) ''token'') token"
  shows "\<exists>e. serve_method B token call request c w = (Inl e, c\<lparr>cn_requests := Suc (cn_requests c)\<rparr>, w)"
  using assms by (simp add: serve_method_def Let_def)

lemma serve_frame_unauthorized:
  assumes "\<not> cn_authorized c" "\<not> authorizes parse token frame"
  shows "\<exists>n a. serve_frame B parse token frame c w = (c\<lparr>cn_requests := n, cn_answers := cn_answers c @ [a]\<rparr>, w) \<and> is_failure a"
proof (cases "parse frame")
  case (Inl message)
  then show ?thesis by (intro exI [of _ "cn_requests c"]) (auto simp: serve_frame_def Let_def)
next
  case (Inr request)
  show ?thesis
  proof (cases "\<exists>call. get_prop request ''method'' = JStr call \<and> get_prop request ''jsonrpc'' = JStr ''2.0''")
    case True
    then obtain call where call: "get_prop request ''method'' = JStr call" "get_prop request ''jsonrpc'' = JStr ''2.0''" by blast
    have "call = ''driver.initialize'' \<longrightarrow> \<not> secure_equal (get_prop (request_params request) ''token'') token"
      using assms(2) Inr call by (simp add: authorizes_def)
    then obtain e where "serve_method B token call request c w = (Inl e, c\<lparr>cn_requests := Suc (cn_requests c)\<rparr>, w)"
      using serve_method_unauthorized [OF assms(1)] by metis
    then show ?thesis using Inr call
      by (intro exI [of _ "Suc (cn_requests c)"]) (auto simp: serve_frame_def Let_def)
  next
    case False
    with Inr show ?thesis
      by (intro exI [of _ "cn_requests c"]) (auto simp: serve_frame_def Let_def split: jval.split)
  qed
qed

lemma run_conn_unauthorized:
  assumes "run_conn B parse token es (c, w) = (c', w')" "\<not> cn_authorized c" "list_all is_failure (cn_answers c)"
    and "\<forall>frame \<in> set (cn_pending c) \<union> (if cn_destroyed c then {} else set (framed es (cn_framer c))). \<not> authorizes parse token frame"
  shows "w' = w \<and> \<not> cn_authorized c' \<and> list_all is_failure (cn_answers c')"
  using assms
proof (induction es arbitrary: c)
  case Nil
  then show ?case by (simp add: run_conn_def)
next
  case (Cons e es)
  show ?case
  proof (cases e)
    case (Conn_Data chunk)
    then show ?thesis
      using Cons.prems Cons.IH [of "fst (conn_step B parse token e (c, w))"]
      by (auto simp: run_conn_def split: if_splits prod.splits sum.splits)
  next
    case Conn_Gone
    then show ?thesis using Cons.prems Cons.IH [of "c\<lparr>cn_destroyed := True\<rparr>"] by (simp add: run_conn_def)
  next
    case Conn_Turn
    show ?thesis
    proof (cases "cn_pending c")
      case Nil
      then show ?thesis using Conn_Turn Cons.prems Cons.IH [of c] by (simp add: run_conn_def)
    next
      case pending: (Cons frame rest)
      show ?thesis
      proof (cases "cn_destroyed c")
        case True
        then show ?thesis using Conn_Turn pending Cons.prems Cons.IH [of "c\<lparr>cn_pending := rest\<rparr>"]
          by (simp add: run_conn_def Let_def)
      next
        case False
        have "\<not> authorizes parse token frame" "\<not> cn_authorized (c\<lparr>cn_pending := rest\<rparr>)" using Cons.prems(2,4) pending by auto
        from serve_frame_unauthorized [OF this(2,1), of B w] obtain n a where
          served: "serve_frame B parse token frame (c\<lparr>cn_pending := rest\<rparr>) w =
             (c\<lparr>cn_pending := rest, cn_requests := n, cn_answers := cn_answers c @ [a]\<rparr>, w)" "is_failure a"
          by auto
        then show ?thesis using False Conn_Turn pending Cons.prems
            Cons.IH [of "c\<lparr>cn_pending := rest, cn_requests := n, cn_answers := cn_answers c @ [a]\<rparr>"]
          by (simp add: run_conn_def Let_def)
      qed
    qed
  qed
qed

text \<open>
  C25: A connection that never sends \<open>driver.initialize\<close> with the right token reaches nothing. Whatever chunks it
  sends, in whatever order its frames are taken: the backend stays as it was, no operation of it is even called,
  the connection is not authorized, and every answer it gets is an error.
\<close>

theorem host_needs_token:
  assumes "run_conn B parse token es (new_conn, w) = (c, w')"
    and "\<forall>frame \<in> set (framed es (cn_framer new_conn)). \<not> authorizes parse token frame"
  shows "w' = w \<and> \<not> cn_authorized c \<and> list_all is_failure (cn_answers c)"
  using assms by (intro run_conn_unauthorized [OF assms(1)]) (simp_all add: new_conn_def)

subsection \<open>What the helper is run with\<close>

text \<open>
  What every backend promises to the host: an operation adds at most one run of the helper to the log, and a run
  that plays a sequence plays an accepted plan.
\<close>

definition adds_run :: "('w \<Rightarrow> helper_call list) \<Rightarrow> 'w \<Rightarrow> 'w \<Rightarrow> bool" where
  "adds_run calls w w' \<longleftrightarrow> (\<exists>cs. calls w' = calls w @ cs \<and> length cs \<le> 1 \<and> list_all fair_call cs)"

lemma adds_run_refl [simp, intro]: "adds_run calls w w"
  by (simp add: adds_run_def)

lemma adds_run_same: "calls w' = calls w \<Longrightarrow> adds_run calls w w'"
  by (simp add: adds_run_def)

lemma played_adds: "played fair_call f \<Longrightarrow> adds_run xs_calls s (snd (f s))"
  by (simp add: played_def adds_run_def)

locale native_backend =
  fixes B :: "'w backend_ops" and calls :: "'w \<Rightarrow> helper_call list"
  assumes capabilities_run: "adds_run calls w (snd (bo_capabilities B w))"
    and permissions_run: "adds_run calls w (snd (bo_permissions B w))"
    and frontmost_run: "adds_run calls w (snd (bo_frontmost B w))"
    and focus_run: "adds_run calls w (snd (bo_focus B t options w))"
    and keys_run: "adds_run calls w (snd (bo_keys B t (JArr raws) options w))"
    and restore_run: "adds_run calls w (snd (bo_restore B application w))"
    and capture_run: "adds_run calls w (snd (bo_capture B t options w))"
    and cancel_run: "adds_run calls w (bo_cancel_all B w)"
begin

lemma target_run: "(\<And>t w. adds_run calls w (snd (f t w))) \<Longrightarrow> adds_run calls w (snd (on_target params f w))"
  by (simp add: on_target_def split: sum.split)

lemma sequence_run: "adds_run calls w (snd (driver_key_sequence B params w))"
  by (simp add: driver_key_sequence_def target_run keys_run split: sum.split jval.split)

lemma restored_run: "adds_run calls w (snd (driver_restore B params w))"
proof (cases "object_of (get_prop params ''application'') ''application''")
  case (Inr application)
  then show ?thesis using restore_run [of w application]
    by (cases "bo_restore B application w") (simp add: driver_restore_def)
qed (simp add: driver_restore_def)

lemma dispatch_run: "adds_run calls w (snd (host_dispatch B call params w))"
  by (simp add: host_dispatch_def capabilities_run permissions_run frontmost_run target_run focus_run capture_run
      sequence_run restored_run cancel_run)

lemma method_run:
  assumes "serve_method B token call request c w = (r, c1, w1)"
  shows "adds_run calls w w1 \<and> cn_answers c1 = cn_answers c"
  using assms capabilities_run [of w] dispatch_run [of w call "request_params request"]
  by (auto simp: serve_method_def Let_def split: if_splits prod.splits)

lemma frame_run:
  assumes "serve_frame B parse token frame c w = (c1, w1)"
  shows "adds_run calls w w1 \<and> (\<exists>a. cn_answers c1 = cn_answers c @ [a])"
  using assms method_run [of token _ _ c w]
  by (auto simp: serve_frame_def Let_def split: sum.splits jval.splits if_splits prod.splits)

lemma step_run:
  assumes "conn_step B parse token e (c, w) = (c1, w1)"
  shows "\<exists>cs answers. calls w1 = calls w @ cs \<and> list_all fair_call cs \<and> cn_answers c1 = cn_answers c @ answers \<and>
    length cs \<le> length answers"
proof (cases e)
  case (Conn_Data chunk)
  then show ?thesis using assms by (auto split: if_splits prod.splits sum.splits)
next
  case Conn_Gone
  then show ?thesis using assms by auto
next
  case Conn_Turn
  show ?thesis
  proof (cases "cn_pending c = [] \<or> cn_destroyed c")
    case True
    then show ?thesis using Conn_Turn assms by (auto simp: Let_def split: list.splits)
  next
    case False
    then obtain frame rest where "cn_pending c = frame # rest" "\<not> cn_destroyed c" by (cases "cn_pending c") auto
    then have "serve_frame B parse token frame (c\<lparr>cn_pending := rest\<rparr>) w = (c1, w1)" using Conn_Turn assms by simp
    from frame_run [OF this] show ?thesis unfolding adds_run_def by force
  qed
qed

lemma conn_runs:
  "run_conn B parse token es (c, w) = (c', w') \<Longrightarrow>
     \<exists>cs answers. calls w' = calls w @ cs \<and> list_all fair_call cs \<and> cn_answers c' = cn_answers c @ answers \<and>
       length cs \<le> length answers"
proof (induction es arbitrary: c w)
  case Nil
  then show ?case by (simp add: run_conn_def)
next
  case (Cons e es)
  obtain c1 w1 where first: "conn_step B parse token e (c, w) = (c1, w1)" by (cases "conn_step B parse token e (c, w)")
  then have "run_conn B parse token es (c1, w1) = (c', w')" using Cons.prems by (simp add: run_conn_def)
  from Cons.IH [OF this] step_run [OF first] obtain cs answers cs1 answers1 where
    "calls w' = calls w1 @ cs" "list_all fair_call cs" "cn_answers c' = cn_answers c1 @ answers" "length cs \<le> length answers"
    "calls w1 = calls w @ cs1" "list_all fair_call cs1" "cn_answers c1 = cn_answers c @ answers1" "length cs1 \<le> length answers1"
    by blast
  then show ?case by (intro exI [of _ "cs1 @ cs"] exI [of _ "answers1 @ answers"]) simp
qed

end

lemma send_events_played: "adds_run xs_calls s (snd (x11_send_key_sequence env t (JArr raws) options s))"
  using send_events_calls [of env t raws options s] by (cases "x11_send_key_sequence env t (JArr raws) options s") (auto simp: adds_run_def)

interpretation x11: native_backend "x11_ops env" xs_calls for env
  by unfold_locales
    (simp_all add: x11_ops_def played_adds played_capabilities played_permissions played_frontmost played_focus played_restore
      played_capture send_events_played)

interpretation no_display: native_backend "unavailable_ops env reason" xs_calls for env reason
  by unfold_locales (simp_all add: unavailable_ops_def Let_def lift_op_def)

lemma backend_conn_runs:
  assumes "run_conn (backend_ops_of env b) parse token es (c, w) = (c', w')"
  shows "\<exists>cs answers. xs_calls w' = xs_calls w @ cs \<and> list_all fair_call cs \<and> cn_answers c' = cn_answers c @ answers \<and>
    length cs \<le> length answers"
proof (cases b)
  case X11_Backend
  with assms show ?thesis by (intro x11.conn_runs) simp
next
  case (Unavailable_Backend reason)
  with assms show ?thesis by (intro no_display.conn_runs) simp
qed

text \<open>The limits of what the helper plays.\<close>

definition within_limits :: "play_event list \<Rightarrow> bool" where
  "within_limits evs \<longleftrightarrow> evs \<noteq> [] \<and> length evs \<le> 4096 \<and> list_all playable evs \<and>
     sum_list (map ne_delay evs) \<le> 60 * 1000 \<and> text_bytes evs \<le> 65536"

definition safe_call :: "helper_call \<Rightarrow> bool" where
  "safe_call c \<longleftrightarrow> (if hc_command c = ''sequence''
     then \<exists>evs. Option.bind (hc_plan c) decode_plan = Some evs \<and> within_limits evs
     else hc_plan c = None)"

definition sums_ok :: "plan_state \<Rightarrow> bool" where
  "sums_ok s \<longleftrightarrow> sum_list (map ne_delay (ps_events s)) \<le> ps_delays s \<and> ps_delays s \<le> 60 * 1000 \<and>
     ps_text_bytes s = text_bytes (ps_events s) \<and> ps_text_bytes s \<le> 65536"

lemma plan_event_sums:
  assumes "plan_event i raw s = Inr s'" "sums_ok s"
  shows "sums_ok s'"
proof -
  obtain ev delays where ev: "read_event i (ps_delays s) raw = Inr (ev, delays)"
    using assms(1) by (auto simp: plan_event_def andthen_eq_Inr)
  show ?thesis
  proof (cases "ne_kind ev = ''text'' \<and> ne_content ev = []")
    case True
    then have "s' = s\<lparr>ps_delays := delays\<rparr>" using assms(1) ev by (simp add: plan_event_def andthen_def)
    then show ?thesis using assms(2) read_event_Inr(1,2) [OF ev] by (auto simp: sums_ok_def)
  next
    case False
    then obtain bytes held where s': "check_content i ev (ps_text_bytes s) = Inr bytes"
        "s' = \<lparr>ps_held = held, ps_text_bytes = bytes, ps_delays = delays, ps_events = ps_events s @ [ev]\<rparr>"
      using assms(1) ev unfolding plan_event_def by (auto simp: andthen_eq_Inr)
    have ok: "ps_text_bytes s = text_bytes (ps_events s)" "text_bytes (ps_events s) \<le> 65536"
      using assms(2) by (auto simp: sums_ok_def)
    show ?thesis
      using check_content_bytes [OF s'(1) [unfolded ok(1)] ok(2)] assms(2) read_event_Inr(1,2) [OF ev]
      by (simp add: s'(2) sums_ok_def)
  qed
qed

lemma plan_events_sums: "plan_events i raws s = Inr s' \<Longrightarrow> sums_ok s \<Longrightarrow> sums_ok s'"
  by (induction raws arbitrary: i s) (auto simp: andthen_eq_Inr intro: plan_event_sums)

lemma accepted_within_limits:
  assumes "validate_and_encode_events (JArr raws) = Inr plan"
  shows "\<exists>evs. decode_plan plan = Some evs \<and> within_limits evs"
proof -
  obtain s where s: "plan_events 0 raws new_plan = Inr s" "ps_events s \<noteq> []" "length raws \<le> 4096"
    "plan = join [LF] (map event_row (ps_events s)) @ [LF]" "list_all playable (ps_events s)"
    using assms by (rule validated_plan)
  have "sums_ok s" using plan_events_sums [OF s(1)] by (simp add: sums_ok_def new_plan_def text_bytes_def)
  moreover have "length (ps_events s) \<le> 4096" using plan_events_length [OF s(1)] s(3) by (simp add: new_plan_def)
  moreover have "decode_plan plan = Some (ps_events s)" using decode_encoded_rows s(2,4,5) by blast
  ultimately show ?thesis using s(2,5) by (auto simp: sums_ok_def within_limits_def)
qed

lemma fair_call_safe: "fair_call c \<Longrightarrow> safe_call c"
  using accepted_within_limits by (fastforce simp: fair_call_def safe_call_def split: if_splits)

definition new_backend_state :: x11_state where
  "new_backend_state = \<lparr>xs_closed = False, xs_calls = [], xs_files = [], xs_names_used = 0\<rparr>"

text \<open>
  C26: Whatever a connection sends, over either backend: the helper is run at most once for an answer, and every
  sequence it is run with decodes to between 1 and 4096 events that are each valid, with at most a minute of delays
  and 64 KiB of text.
\<close>

theorem host_plays_checked_plans:
  "case run_conn (backend_ops_of env b) parse token es (new_conn, new_backend_state) of (c, w) \<Rightarrow>
     list_all safe_call (xs_calls w) \<and> length (xs_calls w) \<le> length (cn_answers c)"
proof -
  obtain c w where run: "run_conn (backend_ops_of env b) parse token es (new_conn, new_backend_state) = (c, w)"
    by (cases "run_conn (backend_ops_of env b) parse token es (new_conn, new_backend_state)")
  from backend_conn_runs [OF run] have "list_all fair_call (xs_calls w)" "length (xs_calls w) \<le> length (cn_answers c)"
    by (auto simp: new_backend_state_def new_conn_def)
  then show ?thesis using run fair_call_safe by (auto simp: list_all_iff)
qed

subsection \<open>Concrete connections\<close>

text \<open>A request without initialization, and a frame that is not counted.\<close>

lemma one_frame:
  "host_push_all [encode_host_frame ''x''] (cn_framer new_conn) = (Inr [''x''], cn_framer new_conn)"
proof -
  have "length (frame_header 1) \<le> 100" by code_simp
  then show ?thesis unfolding new_conn_def default_max_message_def default_max_header_def
    by (simp only: host_conn.select_convs, intro host_frames_round_trip) simp_all
qed

lemma one_push: "host_push (encode_host_frame ''x'') (cn_framer new_conn) = (Inr [''x''], cn_framer new_conn)"
  using one_frame by (auto split: prod.splits sum.splits)

definition example_request :: jval where
  "example_request = JObj [(''jsonrpc'', JStr ''2.0''), (''id'', jnat 7), (''method'', JStr ''driver.frontmost'')]"

lemma example_not_authorizing: "\<not> authorizes (\<lambda>_. Inr example_request) token frame"
  by (simp add: authorizes_def example_request_def)

lemma host_example_run:
  "run_conn B (\<lambda>_. Inr example_request) ''secret'' [Conn_Data (encode_host_frame ''x''), Conn_Turn] (new_conn, w) =
     (new_conn\<lparr>cn_requests := 1, cn_answers :=
        [rpc_failure (jnat 7) (host_error ''E_AUTH_FAILED'' ''Driver connection is not initialized.'')]\<rparr>, w)"
proof -
  have start: "conn_step B (\<lambda>_. Inr example_request) ''secret'' (Conn_Data (encode_host_frame ''x'')) (new_conn, w) =
      (new_conn\<lparr>cn_pending := [''x'']\<rparr>, w)"
    using one_push by (simp add: new_conn_def)
  have "serve_frame B (\<lambda>_. Inr example_request) ''secret'' ''x'' new_conn w =
      (new_conn\<lparr>cn_requests := 1, cn_answers :=
        [rpc_failure (jnat 7) (host_error ''E_AUTH_FAILED'' ''Driver connection is not initialized.'')]\<rparr>, w)"
    by (simp add: serve_frame_def serve_method_def example_request_def request_id_def answer_of_def Let_def
        MAX_REQUESTS_PER_CONNECTION_def new_conn_def)
  then show ?thesis unfolding run_conn_def using start by (simp add: new_conn_def)
qed

definition example_x11 :: x11_env where
  "example_x11 = \<lparr>xe_parse = (\<lambda>_. None), xe_helper = (\<lambda>n call. Spawn_Failed ''no helper''), xe_uinput = False,
     xe_display = Some '':0'', xe_wayland = None, xe_requested = None, xe_helper_exists = True, xe_helper_path = ''/helper'',
     xe_runtime_directory = ''/run'', xe_capture_directory = Inr ''/captures'', xe_names = dec_str,
     xe_write_error = (\<lambda>_. None), xe_chmod_error = (\<lambda>_. None)\<rparr>"

theorem host_needs_token_witness:
  "run_conn (x11_ops example_x11) (\<lambda>_. Inr example_request) ''secret'' [Conn_Data (encode_host_frame ''x''), Conn_Turn]
     (new_conn, new_backend_state) =
     (new_conn\<lparr>cn_requests := 1, cn_answers :=
        [rpc_failure (jnat 7) (host_error ''E_AUTH_FAILED'' ''Driver connection is not initialized.'')]\<rparr>, new_backend_state) \<and>
   new_backend_state = new_backend_state \<and>
   \<not> cn_authorized (new_conn\<lparr>cn_requests := 1, cn_answers :=
        [rpc_failure (jnat 7) (host_error ''E_AUTH_FAILED'' ''Driver connection is not initialized.'')]\<rparr>) \<and>
   list_all is_failure (cn_answers (new_conn\<lparr>cn_requests := 1, cn_answers :=
        [rpc_failure (jnat 7) (host_error ''E_AUTH_FAILED'' ''Driver connection is not initialized.'')]\<rparr>))"
  by (rule conjI, rule host_example_run, rule host_needs_token, rule host_example_run) (simp add: example_not_authorizing)

text \<open>A frame that is no JSON is answered and not counted, so the limit of requests does not stop it.\<close>

lemma malformed_not_counted:
  "parse frame = Inl message \<Longrightarrow> serve_frame B parse token frame c w =
     (c\<lparr>cn_answers := cn_answers c @ [rpc_failure JNull (plain_error message)]\<rparr>, w)"
  by (simp add: serve_frame_def answer_of_def Let_def)

lemma limit_refuses:
  "MAX_REQUESTS_PER_CONNECTION \<le> cn_requests c \<Longrightarrow> \<exists>e. serve_method B token call request c w = (Inl e, c\<lparr>cn_requests := Suc (cn_requests c)\<rparr>, w)"
  by (simp add: serve_method_def Let_def)

end
