(* ===== verification/LinuxRuntime.thy ===== *)
theory LinuxRuntime
  imports JsValue Prelude
begin

text \<open>
  The runtime directory of the Linux host (\<open>apps/linux-host/src/runtime.mjs\<close>): the private directory, the lock file
  as it is taken by processes that interleave at their system calls, the token and the record, and their removal.
\<close>

subsection \<open>The private directory\<close>

text \<open>The directories of the driver and of the captures: the variable of the environment, or a name with the user id in
  the temporary directory.\<close>

definition host_directory :: "(string \<Rightarrow> string) \<Rightarrow> string option \<Rightarrow> string \<Rightarrow> string \<Rightarrow> nat option \<Rightarrow> string" where
  "host_directory resolve variable tmp base_name uid =
     (case variable of
        Some d \<Rightarrow> if d \<noteq> [] then resolve d else tmp @ ''/'' @ base_name @ (case uid of Some n \<Rightarrow> dec_str n | None \<Rightarrow> ''user'')
      | None \<Rightarrow> tmp @ ''/'' @ base_name @ (case uid of Some n \<Rightarrow> dec_str n | None \<Rightarrow> ''user''))"

record dir_stat =
  ds_directory :: bool
  ds_link :: bool
  ds_uid :: nat
  ds_mode :: nat

record 'f dir_calls =
  dc_lstat :: "'f \<Rightarrow> string \<Rightarrow> dir_stat option"
  dc_mkdir :: "string \<Rightarrow> 'f \<Rightarrow> string + 'f"
  dc_chmod :: "string \<Rightarrow> nat \<Rightarrow> 'f \<Rightarrow> string + 'f"

definition no_entry :: "string \<Rightarrow> string" where
  "no_entry d = ''ENOENT: no such file or directory, lstat '' @ d"

definition existing_directory :: "'f dir_calls \<Rightarrow> string \<Rightarrow> 'f \<Rightarrow> string + 'f" where
  "existing_directory C d fs =
     (case dc_lstat C fs d of
        None \<Rightarrow> dc_mkdir C d fs
      | Some st \<Rightarrow>
          if \<not> ds_directory st \<or> ds_link st then Inl (''Runtime path is not a private directory: '' @ d) else Inr fs)"

definition assert_private_directory :: "'f dir_calls \<Rightarrow> nat \<Rightarrow> string \<Rightarrow> 'f \<Rightarrow> string + 'f" where
  "assert_private_directory C uid d fs =
     andthen (existing_directory C d fs) (\<lambda>fs.
     case dc_lstat C fs d of
       None \<Rightarrow> Inl (no_entry d)
     | Some st \<Rightarrow>
         if ds_uid st \<noteq> uid then Inl (''Runtime directory is not owned by the current user: '' @ d)
         else andthen (dc_chmod C d 448 fs) (\<lambda>fs.
           case dc_lstat C fs d of
             None \<Rightarrow> Inl (no_entry d)
           | Some st \<Rightarrow>
               if ds_mode st mod 64 \<noteq> 0 then Inl (''Runtime directory permissions are too broad: '' @ d) else Inr fs))"

lemma private_directory_mode:
  "assert_private_directory C uid d fs = Inr fs' \<Longrightarrow> \<exists>st. dc_lstat C fs' d = Some st \<and> ds_mode st mod 64 = 0"
  unfolding assert_private_directory_def andthen_def by (simp split: sum.splits option.splits if_splits)

subsection \<open>The lock\<close>

text \<open>\<open>Number.parseInt(s.trim(), 10)\<close>, 0 when it is not a number.\<close>

definition parse_owner :: "string \<Rightarrow> nat" where
  "parse_owner s = (let t = trim s; ds = (if starts_with t ''+'' then tl t else t) in dec_val (takeWhile is_digit ds))"

definition lock_text :: "nat \<Rightarrow> string" where
  "lock_text pid = dec_str pid @ [LF]"

definition process_is_alive :: "(nat \<Rightarrow> bool) \<Rightarrow> nat \<Rightarrow> bool" where
  "process_is_alive alive pid \<longleftrightarrow> 0 < pid \<and> alive pid"

datatype lock_place =
    At_Create nat     \<comment> \<open>before \<open>writeFileSync\<close> of an attempt\<close>
  | At_Read nat       \<comment> \<open>the file exists\<close>
  | At_Unlink nat     \<comment> \<open>its owner is not alive\<close>
  | Lock_Held
  | Lock_Failed string

text \<open>One system call of \<open>acquireRuntimeLock\<close>; the state is the content of the lock file.\<close>

fun lock_step :: "(nat \<Rightarrow> bool) \<Rightarrow> string \<Rightarrow> nat \<Rightarrow> lock_place \<times> string option \<Rightarrow> lock_place \<times> string option" where
  "lock_step alive lock_file pid (At_Create attempt, lock) =
     (if 2 \<le> attempt then (Lock_Failed (''Unable to acquire Linux Host runtime lock: '' @ lock_file), lock)
      else (case lock of None \<Rightarrow> (Lock_Held, Some (lock_text pid)) | Some owner \<Rightarrow> (At_Read attempt, lock)))"
| "lock_step alive lock_file pid (At_Read attempt, lock) =
     (let owner = (case lock of Some s \<Rightarrow> parse_owner s | None \<Rightarrow> 0) in
      if process_is_alive alive owner
      then (Lock_Failed (''A Linux Host is already active for this runtime directory (PID '' @ dec_str owner @ '').''), lock)
      else (At_Unlink attempt, lock))"
| "lock_step alive lock_file pid (At_Unlink attempt, lock) = (At_Create (Suc attempt), None)"
| "lock_step alive lock_file pid (Lock_Held, lock) = (Lock_Held, lock)"
| "lock_step alive lock_file pid (Lock_Failed e, lock) = (Lock_Failed e, lock)"

text \<open>Several starting processes, in the order of a schedule of their ids.\<close>

record lock_world =
  lw_places :: "nat \<Rightarrow> lock_place"
  lw_lock :: "string option"

definition world_step :: "(nat \<Rightarrow> bool) \<Rightarrow> string \<Rightarrow> nat \<Rightarrow> lock_world \<Rightarrow> lock_world" where
  "world_step alive lock_file pid w =
     (case lock_step alive lock_file pid (lw_places w pid, lw_lock w) of
        (p, lock) \<Rightarrow> \<lparr>lw_places = (lw_places w)(pid := p), lw_lock = lock\<rparr>)"

definition run_schedule :: "(nat \<Rightarrow> bool) \<Rightarrow> string \<Rightarrow> nat list \<Rightarrow> string option \<Rightarrow> lock_world" where
  "run_schedule alive lock_file pids lock =
     fold (world_step alive lock_file) pids \<lparr>lw_places = (\<lambda>_. At_Create 0), lw_lock = lock\<rparr>"

text \<open>
  When no stale lock is found, the holder is the process whose id the file carries, and nobody removes it.
\<close>

definition lock_fair :: "nat list \<Rightarrow> lock_world \<Rightarrow> bool" where
  "lock_fair pids w \<longleftrightarrow>
     (\<forall>p attempt. lw_places w p \<noteq> At_Unlink attempt) \<and>
     (\<forall>p attempt. lw_places w p = At_Read attempt \<longrightarrow> lw_lock w \<noteq> None) \<and>
     (\<forall>p. lw_places w p = Lock_Held \<longrightarrow> lw_lock w = Some (lock_text p)) \<and>
     (\<forall>s. lw_lock w = Some s \<longrightarrow> (\<exists>p \<in> set pids. s = lock_text p))"

lemma trim_lock_text: "trim (lock_text pid) = dec_str pid"
proof -
  have "\<not> is_ws (hd (dec_str pid))" "\<not> is_ws (last (dec_str pid))"
    by (simp_all add: digit_not_ws dec_str_digits [of _ pid])
  moreover have "is_ws LF" by (simp add: is_ws_def)
  moreover obtain c cs where "dec_str pid = c # cs" by (cases "dec_str pid") auto
  moreover obtain d ds where "rev (dec_str pid) = d # ds" by (cases "rev (dec_str pid)") auto
  ultimately show ?thesis
    unfolding trim_def lock_text_def
    by (metis append_Cons append_Nil dropWhile.simps(2) hd_rev list.sel(1) rev.simps(2) rev_rev_ident rev_append rev_singleton_conv)
qed

lemma parse_lock_text [simp]: "parse_owner (lock_text pid) = pid"
proof -
  have digits: "c \<in> set (dec_str pid) \<Longrightarrow> is_digit c" for c by (rule dec_str_digits)
  have "\<not> starts_with (dec_str pid) ''+''"
  proof (cases "dec_str pid")
    case (Cons c cs)
    then have "is_digit c" using digits [of c] by simp
    then have "c \<noteq> CHR ''+''" by (auto simp: is_digit_def)
    then show ?thesis using Cons by (simp add: starts_with_def)
  qed simp
  moreover have "takeWhile is_digit (dec_str pid) = dec_str pid"
    by (rule takeWhile_eq_all_conv [THEN iffD2]) (blast intro: digits)
  ultimately show ?thesis by (simp only: parse_owner_def trim_lock_text Let_def if_False dec_val_dec_str)
qed

lemma lock_fair_step:
  assumes "lock_fair pids w" "pid \<in> set pids" "\<forall>p \<in> set pids. 0 < p \<and> alive p"
  shows "lock_fair pids (world_step alive lock_file pid w)"
proof (cases "lw_places w pid")
  case (At_Create attempt)
  then show ?thesis using assms
    by (cases "lw_lock w") (auto simp: lock_fair_def world_step_def)
next
  case (At_Read attempt)
  then obtain owner where "owner \<in> set pids" "lw_lock w = Some (lock_text owner)"
    using assms(1) unfolding lock_fair_def by (metis option.exhaust)
  then show ?thesis using At_Read assms by (auto simp: lock_fair_def world_step_def process_is_alive_def)
next
  case Lock_Held
  then have "world_step alive lock_file pid w = w" by (simp add: world_step_def fun_upd_idem)
  then show ?thesis using assms(1) by simp
next
  case (Lock_Failed e)
  then have "world_step alive lock_file pid w = w" by (simp add: world_step_def fun_upd_idem)
  then show ?thesis using assms(1) by simp
next
  case (At_Unlink attempt)
  then show ?thesis using assms(1) by (simp add: lock_fair_def)
qed

lemma run_schedule_fair:
  assumes "set pids \<subseteq> set starters" "\<forall>p \<in> set starters. 0 < p \<and> alive p"
    and "lock = None \<or> (\<exists>p \<in> set starters. lock = Some (lock_text p))"
  shows "lock_fair starters (run_schedule alive lock_file pids lock)"
  using assms(1)
proof (induction pids rule: rev_induct)
  case Nil
  then show ?case using assms(3) by (auto simp: run_schedule_def lock_fair_def)
next
  case (snoc p pids)
  then show ?case
    using lock_fair_step [of starters "run_schedule alive lock_file pids lock" p alive lock_file] assms(2)
    by (simp add: run_schedule_def)
qed



text \<open>With a stale lock two processes can both hold it: each removes the file it has read before the other created its own.\<close>

lemma stale_lock_two_holders:
  "let w = run_schedule (\<lambda>p. p \<noteq> 9) ''l'' [1, 1, 2, 2, 1, 1, 2, 2] (Some (lock_text 9)) in
     lw_places w 1 = Lock_Held \<and> lw_places w 2 = Lock_Held"
  by (simp add: run_schedule_def world_step_def process_is_alive_def)

subsection \<open>The token and the record\<close>

record runtime_env =
  re_pid :: nat
  re_directory :: string
  re_token :: string
  re_now :: string
  re_fail :: "string \<Rightarrow> string option"     \<comment> \<open>the error of removing or writing a file, other than \<open>ENOENT\<close>\<close>

type_synonym runtime_files = "(string \<times> string) list"

text \<open>An operation on the files, with the error it throws; a sequence of them stops at the first error.\<close>

type_synonym files_op = "runtime_files \<Rightarrow> string option \<times> runtime_files"

fun run_ops :: "files_op list \<Rightarrow> files_op" where
  "run_ops [] fs = (None, fs)"
| "run_ops (f # ops) fs = (case f fs of (Some e, fs1) \<Rightarrow> (Some e, fs1) | (None, fs1) \<Rightarrow> run_ops ops fs1)"

record driver_runtime =
  dr_token :: string
  dr_token_file :: string
  dr_record_file :: string
  dr_lock_file :: string
  dr_started_at :: string

definition unlink_if_present :: "runtime_env \<Rightarrow> string \<Rightarrow> files_op" where
  "unlink_if_present env f fs = (case re_fail env f of Some e \<Rightarrow> (Some e, fs) | None \<Rightarrow> (None, AList.delete f fs))"

definition write_private :: "runtime_env \<Rightarrow> string \<Rightarrow> string \<Rightarrow> files_op" where
  "write_private env f content fs = (case re_fail env f of Some e \<Rightarrow> (Some e, fs) | None \<Rightarrow> (None, AList.update f content fs))"

text \<open>\<open>renameSync\<close> of a file that was written.\<close>

definition rename_to :: "runtime_env \<Rightarrow> string \<Rightarrow> string \<Rightarrow> files_op" where
  "rename_to env temporary f fs =
     (case re_fail env f of
        Some e \<Rightarrow> (Some e, fs)
      | None \<Rightarrow> (None, case map_of fs temporary of None \<Rightarrow> fs | Some content \<Rightarrow> AList.update f content (AList.delete temporary fs)))"

definition atomic_private_json :: "runtime_env \<Rightarrow> string \<Rightarrow> string \<Rightarrow> string \<Rightarrow> files_op" where
  "atomic_private_json env temporary f content = run_ops [write_private env temporary content, rename_to env temporary f]"

definition runtime_file :: "runtime_env \<Rightarrow> string \<Rightarrow> string" where
  "runtime_file env name = re_directory env @ ''/'' @ name"

definition new_token_file :: "runtime_env \<Rightarrow> files_op" where
  "new_token_file env = run_ops
     [unlink_if_present env (runtime_file env ''driver.json''), unlink_if_present env (runtime_file env ''token''),
      write_private env (runtime_file env ''token'') (re_token env @ [LF])]"

text \<open>\<open>createDriverRuntime\<close> after the lock was taken; the lock is released when the token cannot be written.\<close>

definition create_driver_runtime :: "runtime_env \<Rightarrow> runtime_files \<Rightarrow> (string + driver_runtime) \<times> runtime_files" where
  "create_driver_runtime env fs =
     (case new_token_file env fs of
        (Some e, fs) \<Rightarrow> (Inl e, snd (unlink_if_present env (runtime_file env ''host.lock'') fs))
      | (None, fs) \<Rightarrow> (Inr \<lparr>dr_token = re_token env, dr_token_file = runtime_file env ''token'',
           dr_record_file = runtime_file env ''driver.json'', dr_lock_file = runtime_file env ''host.lock'',
           dr_started_at = re_now env\<rparr>, fs))"

definition record_json :: "runtime_env \<Rightarrow> driver_runtime \<Rightarrow> nat \<Rightarrow> string \<Rightarrow> jval" where
  "record_json env r port now = JObj
     [(''protocol_version'', JStr ''1.0''), (''pid'', jnat (re_pid env)), (''host'', JStr ''127.0.0.1''), (''port'', jnat port),
      (''token_file'', JStr (dr_token_file r)), (''started_at'', JStr (dr_started_at r)), (''heartbeat_at'', JStr now),
      (''platform'', JStr ''linux'')]"

definition write_record :: "runtime_env \<Rightarrow> (jval \<Rightarrow> string) \<Rightarrow> driver_runtime \<Rightarrow> string \<Rightarrow> nat \<Rightarrow> string \<Rightarrow> files_op" where
  "write_record env stringify r temporary port now =
     atomic_private_json env (runtime_file env temporary) (dr_record_file r) (stringify (record_json env r port now) @ [LF])"

definition release_lock :: "runtime_env \<Rightarrow> driver_runtime \<Rightarrow> files_op" where
  "release_lock env r fs =
     (case map_of fs (dr_lock_file r) of
        None \<Rightarrow> (None, fs)
      | Some s \<Rightarrow> if parse_owner s = re_pid env then unlink_if_present env (dr_lock_file r) fs else (None, fs))"

definition cleanup_runtime :: "runtime_env \<Rightarrow> driver_runtime \<Rightarrow> files_op" where
  "cleanup_runtime env r = run_ops
     [unlink_if_present env (dr_record_file r), unlink_if_present env (dr_token_file r), release_lock env r]"

lemma token_written:
  "create_driver_runtime env fs = (Inr r, fs') \<Longrightarrow>
     map_of fs' (dr_token_file r) = Some (dr_token r @ [LF]) \<and> map_of fs' (dr_record_file r) = None"
  by (auto simp: create_driver_runtime_def new_token_file_def unlink_if_present_def write_private_def runtime_file_def
      split: prod.splits option.splits)

lemma failed_start_releases_lock:
  assumes "create_driver_runtime env fs = (Inl e, fs')" "re_fail env (runtime_file env ''host.lock'') = None"
  shows "map_of fs' (runtime_file env ''host.lock'') = None"
  using assms by (auto simp: create_driver_runtime_def unlink_if_present_def split: prod.splits option.splits)

text \<open>The files of another host are removed by a process whose lock was taken over; only the lock stays.\<close>

lemma cleanup_removes_foreign_files:
  assumes "cleanup_runtime env r fs = (None, fs')" "map_of fs (dr_lock_file r) = Some (lock_text other)" "other \<noteq> re_pid env"
    and "dr_lock_file r \<noteq> dr_record_file r" "dr_lock_file r \<noteq> dr_token_file r"
  shows "map_of fs' (dr_record_file r) = None \<and> map_of fs' (dr_token_file r) = None \<and>
    map_of fs' (dr_lock_file r) = Some (lock_text other)"
  using assms by (auto simp: cleanup_runtime_def unlink_if_present_def release_lock_def split: option.splits)

end
