(* ===== verification/AgentProtocol.thy ===== *)
theory AgentProtocol
  imports JsValue Prelude BenchProfile
begin

text \<open>
  The protocol of the agent experiment (\<open>agent-experiment/src\<close>: \<open>constants\<close>, \<open>errors\<close>, \<open>redaction\<close>, \<open>tool-grants\<close>,
  \<open>protocol\<close>): secret-like keys, the grants of the two sides, the checks of a request and of the lines a driver writes.
  \<open>JSON.parse\<close> is a parameter; an \<open>AgentExperimentError\<close> has a code, a plain \<open>Error\<close> none.
\<close>

subsection \<open>Errors\<close>

record exp_error =
  ax_code :: "string option"
  ax_message :: string
  ax_details :: jval

definition exp_fail :: "string \<Rightarrow> string \<Rightarrow> exp_error" where
  "exp_fail code message = \<lparr>ax_code = Some code, ax_message = message, ax_details = JUndef\<rparr>"

definition require_that :: "bool \<Rightarrow> string \<Rightarrow> string \<Rightarrow> exp_error + unit" where
  "require_that condition code message = (if condition then Inr () else Inl (exp_fail code message))"

definition common_error :: "string \<Rightarrow> exp_error" where
  "common_error message = \<lparr>ax_code = None, ax_message = message, ax_details = JUndef\<rparr>"

definition error_to_object :: "exp_error \<Rightarrow> jval" where
  "error_to_object e =
     (case ax_code e of
        Some code \<Rightarrow> JObj ([(''name'', JStr ''AgentExperimentError''), (''code'', JStr code), (''message'', JStr (ax_message e))] @
          (if ax_details e = JUndef then [] else [(''details'', ax_details e)]))
      | None \<Rightarrow> JObj [(''name'', JStr ''Error''), (''code'', JStr ''E_UNEXPECTED''), (''message'', JStr (ax_message e))])"

subsection \<open>Secret-like keys\<close>

definition key_separator :: "char \<Rightarrow> bool" where
  "key_separator c \<longleftrightarrow> c = CHR ''_'' \<or> c = CHR ''-''"

text \<open>The words of \<open>SECRET_KEY_PATTERN\<close>, with the optional separator written out.\<close>

definition two_words :: "string \<Rightarrow> string \<Rightarrow> string list" where
  "two_words a b = [a @ b, a @ ''_'' @ b, a @ ''-'' @ b]"

definition SECRET_WORDS :: "string list" where
  "SECRET_WORDS = two_words ''api'' ''key'' @ two_words ''access'' ''token'' @ two_words ''refresh'' ''token'' @
     [''authorization'', ''credential'', ''password''] @ two_words ''private'' ''key'' @ [''secret'']"

text \<open>A word of the list between separators or the ends of the key, in any case.\<close>

definition secret_key :: "string \<Rightarrow> bool" where
  "secret_key key =
     (let k = to_lower key in
      list_ex (\<lambda>i. (i = 0 \<or> key_separator (k ! (i - 1))) \<and>
        list_ex (\<lambda>w. starts_with (drop i k) w \<and>
          (let rest = drop (i + length w) k in rest = [] \<or> key_separator (hd rest))) SECRET_WORDS) [0..<length k])"

definition SENSITIVE_WORDS :: "string list" where
  "SENSITIVE_WORDS = [''token'', ''secret'', ''password'', ''passwd'', ''apikey'', ''api_key'', ''api-key'', ''privatekey'',
     ''private_key'', ''private-key'', ''authorization'', ''credential'']"

definition sensitive_env :: "string \<Rightarrow> bool" where
  "sensitive_env key =
     (let k = to_lower key in list_ex (\<lambda>i. list_ex (starts_with (drop i k)) SENSITIVE_WORDS) [0..<length k])"

definition REDACTED :: jval where
  "REDACTED = JStr ''[REDACTED]''"

fun redact :: "string \<Rightarrow> jval \<Rightarrow> jval" where
  "redact key (JArr xs) = (if secret_key key then REDACTED else JArr (map (redact []) xs))"
| "redact key (JObj kvs) = (if secret_key key then REDACTED else JObj (map (\<lambda>(k, v). (k, redact k v)) kvs))"
| "redact key v = (if secret_key key then REDACTED else v)"

text \<open>\<open>assertNoSecretKeys\<close>: the entries of an array have its indices as keys.\<close>

fun no_secret_keys :: "string \<Rightarrow> jval \<Rightarrow> exp_error + unit" and
  no_secret_entries :: "string \<Rightarrow> (string \<times> jval) list \<Rightarrow> exp_error + unit" and
  no_secret_items :: "string \<Rightarrow> nat \<Rightarrow> jval list \<Rightarrow> exp_error + unit" where
  "no_secret_keys path (JObj kvs) = no_secret_entries path kvs"
| "no_secret_keys path (JArr xs) = no_secret_items path 0 xs"
| "no_secret_keys path v = Inr ()"
| "no_secret_entries path [] = Inr ()"
| "no_secret_entries path ((k, v) # kvs) =
     (if secret_key k then Inl (common_error (''Secret-like key is forbidden in protocol output: '' @ path @ ''.'' @ k))
      else andthen (no_secret_keys (path @ ''.'' @ k) v) (\<lambda>_. no_secret_entries path kvs))"
| "no_secret_items path i [] = Inr ()"
| "no_secret_items path i (x # xs) =
     andthen (no_secret_keys (path @ ''.'' @ dec_str i) x) (\<lambda>_. no_secret_items path (Suc i) xs)"

fun has_secret :: "jval \<Rightarrow> bool" where
  "has_secret (JObj kvs) = list_ex (\<lambda>(k, v). secret_key k \<or> has_secret v) kvs"
| "has_secret (JArr xs) = list_ex has_secret xs"
| "has_secret v = False"

lemma no_secret_iff:
  "no_secret_keys path v = Inr () \<longleftrightarrow> \<not> has_secret v"
  "no_secret_entries path kvs = Inr () \<longleftrightarrow> \<not> list_ex (\<lambda>(k, v). secret_key k \<or> has_secret v) kvs"
  "no_secret_items path i xs = Inr () \<longleftrightarrow> \<not> list_ex has_secret xs"
  by (induction path v and path kvs and path i xs rule: no_secret_keys_no_secret_entries_no_secret_items.induct)
    (auto simp: andthen_eq_Inr)

text \<open>In a redacted value every secret-like key has lost its value, at any depth.\<close>

fun redacted :: "jval \<Rightarrow> bool" where
  "redacted (JObj kvs) = list_all (\<lambda>(k, v). if secret_key k then v = REDACTED else redacted v) kvs"
| "redacted (JArr xs) = list_all redacted xs"
| "redacted v = True"

lemma redact_redacted: "redacted (redact key v)"
proof (induction key v rule: redact.induct)
  case (2 key kvs)
  show ?case
  proof (cases "secret_key key")
    case False
    have "if secret_key k then redact k v = REDACTED else redacted (redact k v)" if "(k, v) \<in> set kvs" for k v
    proof (cases "secret_key k")
      case True
      then show ?thesis by (cases v) simp_all
    qed (use 2 [OF False that refl] in simp)
    then show ?thesis using False by (auto simp: list_all_iff)
  qed (simp add: REDACTED_def)
qed (auto simp: list_all_iff REDACTED_def)

subsection \<open>Tool grants\<close>

definition DEFAULT_CANDIDATE_TOOLS :: "string list" where
  "DEFAULT_CANDIDATE_TOOLS = [''emacs_instances'', ''emacs_session_open'', ''emacs_session_close'', ''emacs_observe'', ''emacs_read'',
     ''emacs_navigate'', ''emacs_capabilities'', ''emacs_key_sequence'', ''emacs_command'', ''emacs_edit'', ''emacs_eval'',
     ''emacs_validate'', ''emacs_analyze'', ''emacs_checkpoint'', ''emacs_rollback'', ''emacs_wait'', ''emacs_capture'',
     ''emacs_workflow'', ''emacs_project_rename'', ''emacs_verification'']"

definition create_baseline_grant :: "jval \<Rightarrow> jval \<Rightarrow> jval" where
  "create_baseline_grant network shell = JObj
     [(''kind'', JStr ''filesystem_baseline''), (''workspace_access'', JStr ''read_write''), (''shell_access'', shell),
      (''network_access'', network), (''emacs_operator'', JBool False), (''mcp_config_path'', JNull), (''allowed_emacs_tools'', JArr [])]"

definition absolute :: "string \<Rightarrow> bool" where
  "absolute p \<longleftrightarrow> starts_with p ''/''"

definition create_candidate_grant :: "string \<Rightarrow> string list \<Rightarrow> jval \<Rightarrow> jval \<Rightarrow> exp_error + jval" where
  "create_candidate_grant config_path tools network shell =
     (if \<not> absolute config_path then Inl (common_error ''mcpConfigPath must be absolute'')
      else Inr (JObj
        [(''kind'', JStr ''emacs_operator_candidate''), (''workspace_access'', JStr ''read_write''), (''shell_access'', shell),
         (''network_access'', network), (''emacs_operator'', JBool True), (''mcp_config_path'', JStr config_path),
         (''allowed_emacs_tools'', JArr (map JStr (sort (remdups tools))))]))"

definition nonempty :: "jval \<Rightarrow> bool" where
  "nonempty v \<longleftrightarrow> (case v of JStr s \<Rightarrow> trim s \<noteq> [] | _ \<Rightarrow> False)"

definition absolute_path :: "jval \<Rightarrow> bool" where
  "absolute_path v \<longleftrightarrow> (case v of JStr s \<Rightarrow> absolute s | _ \<Rightarrow> False)"

definition validate_tool_grant :: "jval \<Rightarrow> exp_error + unit" where
  "validate_tool_grant grant =
     andthen (require_that (is_objlike grant) ''E_TOOL_GRANT'' ''tool_grant is required'') (\<lambda>_.
     andthen (require_that (get_prop grant ''kind'' \<in> {JStr ''filesystem_baseline'', JStr ''emacs_operator_candidate''})
       ''E_TOOL_GRANT'' ''Unsupported tool grant kind'') (\<lambda>_.
     andthen (require_that (get_prop grant ''workspace_access'' = JStr ''read_write'') ''E_TOOL_GRANT'' ''workspace_access must be read_write'') (\<lambda>_.
     andthen (require_that (is_string (get_prop grant ''network_access'')) ''E_TOOL_GRANT'' ''network_access is required'') (\<lambda>_.
     andthen (require_that (is_string (get_prop grant ''shell_access'')) ''E_TOOL_GRANT'' ''shell_access is required'') (\<lambda>_.
     if get_prop grant ''kind'' = JStr ''filesystem_baseline'' then
       andthen (require_that (get_prop grant ''emacs_operator'' = JBool False) ''E_TOOL_ISOLATION'' ''Baseline must not receive Emacs Operator'') (\<lambda>_.
       andthen (require_that (\<not> truthy (get_prop grant ''mcp_config_path'')) ''E_TOOL_ISOLATION'' ''Baseline must not receive an MCP config path'') (\<lambda>_.
         require_that (get_prop grant ''allowed_emacs_tools'' = JArr []) ''E_TOOL_ISOLATION'' ''Baseline Emacs tool list must be empty''))
     else
       andthen (require_that (get_prop grant ''emacs_operator'' = JBool True) ''E_TOOL_GRANT'' ''Candidate must enable Emacs Operator'') (\<lambda>_.
       andthen (require_that (nonempty (get_prop grant ''mcp_config_path'') \<and> absolute_path (get_prop grant ''mcp_config_path''))
         ''E_MCP_CONFIG'' ''Candidate requires an absolute MCP config path'') (\<lambda>_.
         require_that (case get_prop grant ''allowed_emacs_tools'' of JArr xs \<Rightarrow> xs \<noteq> [] | _ \<Rightarrow> False)
           ''E_TOOL_GRANT'' ''Candidate requires an allowed Emacs tool list'')))))))"

subsection \<open>Requests\<close>

definition DRIVER_PROTOCOL :: string where
  "DRIVER_PROTOCOL = ''emacs-operator.agent-driver/1''"

definition MIN_TIMEOUT_MS :: nat where
  "MIN_TIMEOUT_MS = 1000"

definition MAX_TIMEOUT_MS :: nat where
  "MAX_TIMEOUT_MS = 3600 * 1000"

definition integer_within :: "rat \<Rightarrow> rat \<Rightarrow> jval \<Rightarrow> bool" where
  "integer_within lo hi v \<longleftrightarrow> (case v of JNum (Fin q) \<Rightarrow> q = of_int \<lfloor>q\<rfloor> \<and> lo \<le> q \<and> q \<le> hi | _ \<Rightarrow> False)"

definition integer_from :: "rat \<Rightarrow> jval \<Rightarrow> bool" where
  "integer_from lo v \<longleftrightarrow> (case v of JNum (Fin q) \<Rightarrow> q = of_int \<lfloor>q\<rfloor> \<and> lo \<le> q | _ \<Rightarrow> False)"

definition REQUEST_FIELDS :: "string list" where
  "REQUEST_FIELDS = [''request_id'', ''run_id'', ''suite_id'', ''suite_revision'', ''suite_digest'', ''task_id'', ''task_digest'', ''prompt'',
     ''workspace'', ''trace_path'']"

fun check_fields :: "string list \<Rightarrow> jval \<Rightarrow> exp_error + unit" where
  "check_fields [] request = Inr ()"
| "check_fields (key # keys) request =
     andthen (require_that (nonempty (get_prop request key)) ''E_REQUEST_FIELD'' (''Missing or invalid request field: '' @ key))
       (\<lambda>_. check_fields keys request)"

definition validate_driver_request :: "jval \<Rightarrow> exp_error + jval" where
  "validate_driver_request request =
     andthen (require_that (is_record request) ''E_REQUEST'' ''Driver request must be an object'') (\<lambda>_.
     andthen (require_that (get_prop request ''protocol_version'' = JStr DRIVER_PROTOCOL) ''E_PROTOCOL_VERSION'' (''Expected '' @ DRIVER_PROTOCOL)) (\<lambda>_.
     andthen (check_fields REQUEST_FIELDS request) (\<lambda>_.
     andthen (require_that (integer_from 1 (get_prop request ''trial'')) ''E_TRIAL'' ''trial must be an integer >= 1'') (\<lambda>_.
     andthen (require_that (integer_within 0 4294967295 (get_prop request ''trial_seed'')) ''E_TRIAL_SEED'' ''trial_seed must be uint32'') (\<lambda>_.
     andthen (require_that (integer_within (of_nat MIN_TIMEOUT_MS) (of_nat MAX_TIMEOUT_MS) (get_prop request ''timeout_ms'')) ''E_TIMEOUT''
       (''timeout_ms must be between '' @ dec_str MIN_TIMEOUT_MS @ '' and '' @ dec_str MAX_TIMEOUT_MS)) (\<lambda>_.
     andthen (require_that (absolute_path (get_prop request ''workspace'')) ''E_WORKSPACE'' ''workspace must be absolute'') (\<lambda>_.
     andthen (require_that (absolute_path (get_prop request ''trace_path'')) ''E_TRACE_PATH'' ''trace_path must be absolute'') (\<lambda>_.
     andthen (validate_tool_grant (get_prop request ''tool_grant'')) (\<lambda>_. Inr request)))))))))"

subsection \<open>What a driver writes\<close>

definition artifact_ok :: "jval \<Rightarrow> bool" where
  "artifact_ok item \<longleftrightarrow> (case item of JStr s \<Rightarrow> trim s \<noteq> [] \<and> \<not> absolute s \<and> ''..'' \<notin> set (split_on CHR ''/'' s) | _ \<Rightarrow> False)"

fun check_artifacts :: "jval list \<Rightarrow> exp_error + unit" where
  "check_artifacts [] = Inr ()"
| "check_artifacts (x # xs) =
     andthen (require_that (artifact_ok x) ''E_ARTIFACT_PATH'' (''Artifact must be workspace-relative: '' @ js_string x)) (\<lambda>_. check_artifacts xs)"

definition usage_ok :: "jval \<Rightarrow> bool" where
  "usage_ok v \<longleftrightarrow> (case v of JNum (Fin q) \<Rightarrow> 0 \<le> q | _ \<Rightarrow> False)"

fun check_usage :: "(string \<times> jval) list \<Rightarrow> exp_error + unit" where
  "check_usage [] = Inr ()"
| "check_usage ((key, v) # kvs) =
     andthen (require_that (usage_ok v) ''E_DRIVER_RESULT'' (''usage.'' @ key @ '' must be a non-negative number'')) (\<lambda>_. check_usage kvs)"

definition validate_driver_result :: "jval \<Rightarrow> exp_error + jval" where
  "validate_driver_result result =
     andthen (require_that (is_objlike result) ''E_DRIVER_RESULT'' ''result object is required'') (\<lambda>_.
     andthen (require_that (get_prop result ''status'' \<in> {JStr ''completed'', JStr ''failed'', JStr ''refused''}) ''E_DRIVER_RESULT'' ''Invalid result.status'') (\<lambda>_.
     andthen (require_that (case get_prop result ''summary'' of JUndef \<Rightarrow> True | JStr s \<Rightarrow> utf8_length s \<le> 65536 | _ \<Rightarrow> False)
       ''E_DRIVER_RESULT'' ''summary must be <= 64 KiB'') (\<lambda>_.
     andthen (case get_prop result ''artifacts'' of JUndef \<Rightarrow> Inr () | JArr xs \<Rightarrow> check_artifacts xs
       | _ \<Rightarrow> Inl (exp_fail ''E_DRIVER_RESULT'' ''artifacts must be an array'')) (\<lambda>_.
     andthen (let usage = get_prop result ''usage'' in
         if usage = JUndef then Inr ()
         else andthen (require_that (is_objlike usage) ''E_DRIVER_RESULT'' ''usage must be an object'') (\<lambda>_. check_usage (fields_of usage))) (\<lambda>_.
     andthen (no_secret_keys ''$'' result) (\<lambda>_. Inr result))))))"

definition validate_driver_envelope :: "string \<Rightarrow> jval \<Rightarrow> exp_error + jval" where
  "validate_driver_envelope request_id envelope =
     andthen (require_that (is_record envelope) ''E_DRIVER_OUTPUT'' ''Driver output line must be a JSON object'') (\<lambda>_.
     andthen (require_that (get_prop envelope ''protocol_version'' = JStr DRIVER_PROTOCOL) ''E_PROTOCOL_VERSION'' ''Driver response protocol mismatch'') (\<lambda>_.
     andthen (require_that (get_prop envelope ''request_id'' = JStr request_id) ''E_REQUEST_ID'' ''Driver response request_id mismatch'') (\<lambda>_.
     andthen (require_that (get_prop envelope ''kind'' \<in> {JStr ''event'', JStr ''result''}) ''E_DRIVER_OUTPUT'' ''Driver envelope kind must be event or result'') (\<lambda>_.
     andthen (no_secret_keys ''$'' envelope) (\<lambda>_.
     if get_prop envelope ''kind'' = JStr ''event'' then
       andthen (require_that (is_objlike (get_prop envelope ''event'')) ''E_DRIVER_EVENT'' ''event envelope requires event object'') (\<lambda>_.
       andthen (require_that (nonempty (get_prop (get_prop envelope ''event'') ''type'')) ''E_DRIVER_EVENT'' ''event.type is required'') (\<lambda>_.
         Inr envelope))
     else andthen (validate_driver_result (get_prop envelope ''result'')) (\<lambda>_. Inr envelope))))))"

text \<open>The lines that are not blank, with the events and the result so far.\<close>

definition driver_lines :: "string \<Rightarrow> string list" where
  "driver_lines out = filter (\<lambda>l. trim l \<noteq> [])
     (map (\<lambda>l. if l \<noteq> [] \<and> last l = CR then butlast l else l) (butlast (split_on LF out)) @ [last (split_on LF out)])"

definition take_envelope :: "nat \<Rightarrow> jval \<Rightarrow> jval list \<times> jval option \<Rightarrow> exp_error + jval list \<times> jval option" where
  "take_envelope max_events envelope acc =
     (case acc of (events, result) \<Rightarrow>
        if get_prop envelope ''kind'' = JStr ''event'' then
          andthen (require_that (length events < max_events) ''E_EVENT_LIMIT'' (''Driver exceeded '' @ dec_str max_events @ '' events''))
            (\<lambda>_. Inr (events @ [get_prop envelope ''event''], result))
        else
          andthen (require_that (result = None) ''E_MULTIPLE_RESULTS'' ''Driver emitted more than one result'')
            (\<lambda>_. Inr (events, Some (get_prop envelope ''result''))))"

fun take_driver_lines :: "(string \<Rightarrow> string + jval) \<Rightarrow> string \<Rightarrow> nat \<Rightarrow> nat \<Rightarrow> string list \<Rightarrow> jval list \<times> jval option \<Rightarrow> exp_error + jval list \<times> jval option" where
  "take_driver_lines parse request_id max_events i [] acc = Inr acc"
| "take_driver_lines parse request_id max_events i (l # ls) acc =
     (case parse l of
        Inl message \<Rightarrow> Inl (common_error (''Invalid JSON on driver stdout line '' @ dec_str (Suc i) @ '': '' @ message))
      | Inr v \<Rightarrow>
          andthen (validate_driver_envelope request_id v) (\<lambda>envelope.
          andthen (take_envelope max_events envelope acc) (take_driver_lines parse request_id max_events (Suc i) ls)))"

definition parse_driver_json_lines :: "(string \<Rightarrow> string + jval) \<Rightarrow> string \<Rightarrow> string \<Rightarrow> nat \<Rightarrow> exp_error + jval list \<times> jval" where
  "parse_driver_json_lines parse out request_id max_events =
     andthen (require_that (driver_lines out \<noteq> []) ''E_DRIVER_OUTPUT'' ''Driver produced no JSONL output'') (\<lambda>_.
     andthen (take_driver_lines parse request_id max_events 0 (driver_lines out) ([], None)) (\<lambda>(events, result).
     case result of
       None \<Rightarrow> Inl (exp_fail ''E_MISSING_RESULT'' ''Driver did not emit a result envelope'')
     | Some r \<Rightarrow> Inr (events, r)))"

subsection \<open>What an accepted output is\<close>

lemma require_that_Inr [simp]: "require_that c code message = Inr u \<longleftrightarrow> c"
  by (simp add: require_that_def)

lemma validate_envelope_Inr:
  assumes "validate_driver_envelope request_id v = Inr e"
  shows "e = v" "\<not> has_secret v" "get_prop v ''request_id'' = JStr request_id"
    "get_prop v ''kind'' = JStr ''event'' \<or> get_prop v ''kind'' = JStr ''result'' \<and> (\<exists>r. validate_driver_result (get_prop v ''result'') = Inr r)"
  using assms by (auto simp: validate_driver_envelope_def andthen_eq_Inr no_secret_iff split: if_splits)

lemma validate_result_Inr:
  assumes "validate_driver_result v = Inr r"
  shows "r = v" "\<not> has_secret v" "get_prop v ''status'' \<in> {JStr ''completed'', JStr ''failed'', JStr ''refused''}"
  using assms by (auto simp: validate_driver_result_def andthen_eq_Inr no_secret_iff)

definition secret_free_result :: "jval \<Rightarrow> bool" where
  "secret_free_result r \<longleftrightarrow> \<not> has_secret r \<and> get_prop r ''status'' \<in> {JStr ''completed'', JStr ''failed'', JStr ''refused''}"

lemma has_secret_prop: "\<not> has_secret v \<Longrightarrow> \<not> has_secret (get_prop v k)"
  by (cases v) (auto split: option.split dest!: map_of_SomeD simp: list_ex_iff)

definition acc_ok :: "nat \<Rightarrow> jval list \<times> jval option \<Rightarrow> bool" where
  "acc_ok max_events acc \<longleftrightarrow> length (fst acc) \<le> max_events \<and> \<not> list_ex has_secret (fst acc) \<and>
     (case snd acc of None \<Rightarrow> True | Some r \<Rightarrow> secret_free_result r)"

definition acc_count :: "jval list \<times> jval option \<Rightarrow> nat" where
  "acc_count acc = length (fst acc) + (case snd acc of None \<Rightarrow> 0 | Some r \<Rightarrow> 1)"

lemma take_envelope_ok:
  assumes "validate_driver_envelope request_id v = Inr e" "take_envelope max_events e acc = Inr acc'" "acc_ok max_events acc"
  shows "acc_ok max_events acc' \<and> acc_count acc' = Suc (acc_count acc)"
proof (cases "get_prop v ''kind'' = JStr ''event''")
  case True
  then show ?thesis
    using assms validate_envelope_Inr(1,2) [OF assms(1)] has_secret_prop
    by (cases acc) (auto simp: take_envelope_def andthen_eq_Inr acc_ok_def acc_count_def split: option.splits)
next
  case False
  then obtain r where "validate_driver_result (get_prop v ''result'') = Inr r"
    using validate_envelope_Inr(4) [OF assms(1)] by blast
  then have "secret_free_result (get_prop v ''result'')"
    using validate_result_Inr by (simp add: secret_free_result_def)
  then show ?thesis
    using assms False validate_envelope_Inr(1) [OF assms(1)]
    by (cases acc) (auto simp: take_envelope_def andthen_eq_Inr acc_ok_def acc_count_def split: option.splits)
qed

lemma take_driver_lines_ok:
  "take_driver_lines parse request_id max_events i ls acc = Inr acc' \<Longrightarrow> acc_ok max_events acc \<Longrightarrow>
     acc_ok max_events acc' \<and> acc_count acc' = acc_count acc + length ls"
proof (induction ls arbitrary: i acc)
  case (Cons l ls)
  obtain v e acc1 where "validate_driver_envelope request_id v = Inr e" "take_envelope max_events e acc = Inr acc1"
    and rest: "take_driver_lines parse request_id max_events (Suc i) ls acc1 = Inr acc'"
    using Cons.prems(1) by (auto simp: andthen_eq_Inr split: sum.splits)
  then have "acc_ok max_events acc1 \<and> acc_count acc1 = Suc (acc_count acc)" using take_envelope_ok Cons.prems(2) by blast
  then show ?case using Cons.IH [OF rest] by simp
qed simp

text \<open>
  The output of a driver that is accepted is accounted for line by line: one line is the result and each other line
  that is not blank is an event, at most as many as permitted; the result has a known status; and no secret-like key
  occurs in an event or in the result at any depth.
\<close>

theorem driver_output_accounted:
  assumes "parse_driver_json_lines parse out request_id max_events = Inr (events, result)"
  shows "length (driver_lines out) = length events + 1 \<and> length events \<le> max_events \<and>
    \<not> list_ex has_secret events \<and> secret_free_result result"
proof -
  obtain acc where "take_driver_lines parse request_id max_events 0 (driver_lines out) ([], None) = Inr acc"
    and acc: "acc = (events, Some result)"
    using assms by (auto simp: parse_driver_json_lines_def andthen_eq_Inr split: option.splits)
  from take_driver_lines_ok [OF this(1)] show ?thesis
    unfolding acc by (simp add: acc_ok_def acc_count_def)
qed

end
