(* ===== verification/AgentTrial.thy ===== *)
theory AgentTrial
  imports AgentProtocol Paths JsNumber
begin

text \<open>
  One trial of the paired experiment (\<open>agent-experiment/src\<close>: \<open>environment\<close>, \<open>canonical\<close>, \<open>order\<close>, \<open>trace\<close>,
  \<open>process-driver\<close>, \<open>mcp-config\<close>, \<open>wrapper\<close>): the environment of a driver, the seed and the order of the sides, the trace,
  the process of a driver as a state machine, and the run of one side with its clean-up. SHA-256 (in hexadecimal),
  \<open>JSON.stringify\<close>, UTF-8, the clock, the fresh names and what a process does are parameters. A driver that cannot be
  started and other errors without a code are not told apart by their names.
\<close>

subsection \<open>The environment of a driver\<close>

definition SAFE_INHERITED_ENV :: "string list" where
  "SAFE_INHERITED_ENV = [''PATH'', ''HOME'', ''TMPDIR'', ''TMP'', ''TEMP'', ''SHELL'', ''LANG'', ''LC_ALL'', ''LC_CTYPE'', ''USER'', ''LOGNAME'',
     ''TERM'', ''COLORTERM'', ''SystemRoot'', ''ComSpec'', ''PATHEXT'']"

type_synonym env_vars = "(string \<times> string) list"

text \<open>\<open>/^(?:EMACS_OPERATOR|MCP)(?:_|$)/i\<close>.\<close>

definition operator_variable :: "string \<Rightarrow> bool" where
  "operator_variable key =
     list_ex (\<lambda>w. let rest = drop (length w) key in
       starts_with (to_lower key) w \<and> (rest = [] \<or> hd rest = CHR ''_'')) [''emacs_operator'', ''mcp'']"

definition inherit_env :: "env_vars \<Rightarrow> string list \<Rightarrow> env_vars" where
  "inherit_env base allowed =
     List.map_filter (\<lambda>k. map_option (\<lambda>v. (k, v)) (map_of base k)) (remdups allowed)"

fun add_env :: "(string \<times> jval) list \<Rightarrow> env_vars \<Rightarrow> exp_error + env_vars" where
  "add_env [] env = Inr env"
| "add_env ((k, v) # kvs) env =
     (case v of
        JStr s \<Rightarrow> add_env kvs (AList.update k s env)
      | _ \<Rightarrow> Inl (exp_fail ''E_ENV_VALUE'' (''Environment value for '' @ k @ '' must be a string'')))"

definition build_driver_environment ::
  "env_vars \<Rightarrow> string list \<Rightarrow> string list \<Rightarrow> (string \<times> jval) list \<Rightarrow> bool \<Rightarrow> exp_error + env_vars" where
  "build_driver_environment base passthrough secrets additions baseline =
     andthen (add_env additions (inherit_env base (SAFE_INHERITED_ENV @ passthrough @ secrets))) (\<lambda>env.
       Inr (if baseline then filter (\<lambda>(k, v). \<not> operator_variable k) env else env))"

definition environment_disclosure :: "env_vars \<Rightarrow> jval" where
  "environment_disclosure env =
     JArr (map (\<lambda>k. JObj [(''name'', JStr k), (''sensitive'', JBool (sensitive_env k))]) (sort (map fst env)))"

lemma baseline_environment:
  assumes "build_driver_environment base passthrough secrets additions True = Inr env"
  shows "list_all (\<lambda>(k, v). \<not> operator_variable k) env"
  using assms by (auto simp: build_driver_environment_def andthen_eq_Inr list_all_iff)

text \<open>The seed of the trial is added under a name of the operator, so it never reaches the driver of the baseline.\<close>

lemma seed_is_operator_variable: "operator_variable ''EMACS_OPERATOR_TRIAL_SEED''" "operator_variable ''EMACS_OPERATOR_AGENT_MODE''"
  by code_simp+

lemma baseline_misses_seed:
  "build_driver_environment base passthrough secrets additions True = Inr env \<Longrightarrow> map_of env ''EMACS_OPERATOR_TRIAL_SEED'' = None"
  using baseline_environment seed_is_operator_variable(1)
  by (fastforce simp: list_all_iff map_of_eq_None_iff)

subsection \<open>Digests\<close>

text \<open>\<open>canonicalize\<close>: an undefined value is nothing in an array and the word in an object.\<close>

fun canonicalize :: "(jval \<Rightarrow> string) \<Rightarrow> jval \<Rightarrow> string" where
  "canonicalize stringify (JArr xs) =
     ''['' @ join '','' (map (\<lambda>x. if x = JUndef then [] else canonicalize stringify x) xs) @ '']''"
| "canonicalize stringify (JObj kvs) =
     ''{'' @ join '','' (map (\<lambda>(k, t). stringify (JStr k) @ '':'' @ t)
       (sort_key fst (map (\<lambda>(k, v). (k, canonicalize stringify v)) kvs))) @ ''}''"
| "canonicalize stringify JUndef = ''undefined''"
| "canonicalize stringify v = stringify v"

definition sha_of :: "(string \<Rightarrow> string) \<Rightarrow> (jval \<Rightarrow> string) \<Rightarrow> jval \<Rightarrow> string" where
  "sha_of sha stringify v = sha (case v of JStr s \<Rightarrow> s | _ \<Rightarrow> canonicalize stringify v)"

definition stable_id :: "(string \<Rightarrow> string) \<Rightarrow> (jval \<Rightarrow> string) \<Rightarrow> string \<Rightarrow> jval \<Rightarrow> string" where
  "stable_id sha stringify kind v = kind @ ''_'' @ take 24 (sha_of sha stringify v)"

text \<open>The fields of a trial between zero bytes.\<close>

definition paired_key :: "string \<Rightarrow> string \<Rightarrow> nat \<Rightarrow> jval \<Rightarrow> string" where
  "paired_key suite_digest task_id trial run_seed =
     suite_digest @ [CHR 0x00] @ task_id @ [CHR 0x00] @ dec_str trial @ [CHR 0x00] @ js_string run_seed"

definition derive_trial_seed :: "(string \<Rightarrow> string) \<Rightarrow> string \<Rightarrow> string \<Rightarrow> nat \<Rightarrow> jval \<Rightarrow> nat" where
  "derive_trial_seed sha suite_digest task_id trial run_seed =
     (case radix_value 16 0 (take 8 (sha (paired_key suite_digest task_id trial run_seed))) of Some n \<Rightarrow> n | None \<Rightarrow> 0)"

subsection \<open>The order of the two sides\<close>

datatype side = Baseline | Candidate

fun side_name :: "side \<Rightarrow> string" where
  "side_name Baseline = ''baseline''"
| "side_name Candidate = ''candidate''"

definition paired_order :: "(string \<Rightarrow> string) \<Rightarrow> string \<Rightarrow> string \<Rightarrow> nat \<Rightarrow> jval \<Rightarrow> side list" where
  "paired_order sha suite_digest task_id trial run_seed =
     (case radix_value 16 0 (take 2 (sha (paired_key suite_digest task_id trial run_seed))) of
        Some n \<Rightarrow> if n mod 2 = 0 then [Baseline, Candidate] else [Candidate, Baseline]
      | None \<Rightarrow> [Candidate, Baseline])"

record schedule_item =
  si_task_id :: jval
  si_task_digest :: jval
  si_trial :: nat
  si_order :: "side list"

definition build_balanced_schedule :: "(string \<Rightarrow> string) \<Rightarrow> string \<Rightarrow> jval list \<Rightarrow> nat \<Rightarrow> jval \<Rightarrow> schedule_item list" where
  "build_balanced_schedule sha suite_digest tasks trials run_seed =
     concat (map (\<lambda>task. map (\<lambda>trial.
       \<lparr>si_task_id = get_prop task ''id'', si_task_digest = get_prop task ''digest'', si_trial = trial,
        si_order = paired_order sha suite_digest (js_string (get_prop task ''id'')) trial run_seed\<rparr>) [1..<Suc trials]) tasks)"

lemma paired_order_both:
  "length (paired_order sha d t n s) = 2" "set (paired_order sha d t n s) = {Baseline, Candidate}"
  "distinct (paired_order sha d t n s)"
  by (auto simp: paired_order_def split: option.splits)

lemma schedule_length: "length (build_balanced_schedule sha d tasks trials s) = length tasks * trials"
  by (induction tasks) (auto simp: build_balanced_schedule_def)

subsection \<open>Traces\<close>

record exp_world =
  ew_sequence :: nat
  ew_path :: string                 \<comment> \<open>the trace file of the trial that runs\<close>
  ew_trace :: "(string \<times> jval) list"  \<comment> \<open>what was appended to which trace file\<close>
  ew_configs :: "string list"       \<comment> \<open>the directories of ephemeral configurations that exist\<close>
  ew_files :: "(string \<times> jval) list"  \<comment> \<open>the JSON files written\<close>
  ew_copies :: "(string \<times> string) list"  \<comment> \<open>the workspaces made, with their fixtures\<close>

definition open_trace :: "string \<Rightarrow> exp_world \<Rightarrow> exp_world" where
  "open_trace path w = w\<lparr>ew_path := path, ew_sequence := 0\<rparr>"

text \<open>\<open>TraceWriter.write\<close>: a prompt is replaced by its digest and its size unless it is to be included.\<close>

definition hide_prompt :: "(string \<Rightarrow> string) \<Rightarrow> bool \<Rightarrow> (string \<times> jval) list \<Rightarrow> (string \<times> jval) list" where
  "hide_prompt sha include payload =
     (case map_of payload ''prompt'' of
        Some (JStr p) \<Rightarrow>
          if include then payload
          else AList.delete ''prompt'' (spread payload [(''prompt_sha256'', JStr (sha p)), (''prompt_bytes'', jnat (utf8_length p))])
      | _ \<Rightarrow> payload)"

definition trace_write :: "(string \<Rightarrow> string) \<Rightarrow> bool \<Rightarrow> string \<Rightarrow> string \<Rightarrow> (string \<times> jval) list \<Rightarrow> exp_world \<Rightarrow> exp_world" where
  "trace_write sha include now type payload w =
     w\<lparr>ew_sequence := Suc (ew_sequence w),
       ew_trace := ew_trace w @ [(ew_path w, JObj [(''sequence'', jnat (Suc (ew_sequence w))), (''timestamp'', JStr now), (''type'', JStr type),
         (''payload'', redact [] (JObj (hide_prompt sha include payload)))])]\<rparr>"

definition trace_text :: "(jval \<Rightarrow> string) \<Rightarrow> string \<Rightarrow> exp_world \<Rightarrow> string" where
  "trace_text stringify path w = concat (map (\<lambda>(p, r). stringify r @ [LF]) (filter (\<lambda>(p, r). p = path) (ew_trace w)))"

definition trace_clean :: "exp_world \<Rightarrow> bool" where
  "trace_clean w \<longleftrightarrow> list_all (\<lambda>(p, r). redacted r) (ew_trace w)"

lemma trace_keys: "\<not> secret_key ''sequence''" "\<not> secret_key ''timestamp''" "\<not> secret_key ''type''" "\<not> secret_key ''payload''"
  by code_simp+

lemma trace_write_clean: "trace_clean w \<Longrightarrow> trace_clean (trace_write sha include now type payload w)"
  using redact_redacted [of "[]" "JObj (hide_prompt sha include payload)"]
  by (simp add: trace_clean_def trace_write_def trace_keys del: redact.simps)

subsection \<open>The process of a driver\<close>

record driver_process =
  dn_stdout :: string
  dn_stderr :: string
  dn_overflow :: "string option"
  dn_timed_out :: bool
  dn_exit :: "(string + nat option \<times> string option) option"
  dn_stops :: nat                    \<comment> \<open>how often the process was told to stop\<close>

datatype driver_process_event =
    Driver_Out string
  | Driver_Err string
  | Driver_Timer
  | Driver_Failed string
  | Driver_Ended "nat option" "string option"

definition new_driver_process :: driver_process where
  "new_driver_process = \<lparr>dn_stdout = [], dn_stderr = [], dn_overflow = None, dn_timed_out = False, dn_exit = None, dn_stops = 0\<rparr>"

definition overflow_at :: "nat \<Rightarrow> string \<Rightarrow> string \<Rightarrow> driver_process \<Rightarrow> driver_process" where
  "overflow_at max_bytes stream collected r =
     (if max_bytes < length collected \<and> dn_overflow r = None
      then r\<lparr>dn_overflow := Some stream, dn_stops := Suc (dn_stops r)\<rparr> else r)"

text \<open>The timer is cleared when the process has ended; only the first end counts.\<close>

fun driver_process_step :: "nat \<Rightarrow> nat \<Rightarrow> driver_process_event \<Rightarrow> driver_process \<Rightarrow> driver_process" where
  "driver_process_step max_out max_err (Driver_Out chunk) r =
     (let s = dn_stdout r @ chunk in overflow_at max_out ''stdout'' s (r\<lparr>dn_stdout := s\<rparr>))"
| "driver_process_step max_out max_err (Driver_Err chunk) r =
     (let s = dn_stderr r @ chunk in overflow_at max_err ''stderr'' s (r\<lparr>dn_stderr := s\<rparr>))"
| "driver_process_step max_out max_err Driver_Timer r =
     (if dn_exit r \<noteq> None then r else r\<lparr>dn_timed_out := True, dn_stops := Suc (dn_stops r)\<rparr>)"
| "driver_process_step max_out max_err (Driver_Failed message) r =
     (if dn_exit r \<noteq> None then r else r\<lparr>dn_exit := Some (Inl message)\<rparr>)"
| "driver_process_step max_out max_err (Driver_Ended code stop) r =
     (if dn_exit r \<noteq> None then r else r\<lparr>dn_exit := Some (Inr (code, stop))\<rparr>)"

definition run_driver :: "nat \<Rightarrow> nat \<Rightarrow> driver_process_event list \<Rightarrow> driver_process" where
  "run_driver max_out max_err es = fold (driver_process_step max_out max_err) es new_driver_process"


text \<open>\<open>truncateText\<close>, with \<open>Buffer.from\<close> and \<open>toString("utf8")\<close> as \<open>encode\<close> and \<open>decode\<close>.\<close>

definition truncate_text :: "(string \<Rightarrow> string) \<Rightarrow> (string \<Rightarrow> string) \<Rightarrow> nat \<Rightarrow> string \<Rightarrow> string \<times> bool" where
  "truncate_text decode encode max_bytes s =
     (let bytes = encode s in
      if length bytes \<le> max_bytes then (decode bytes, False) else (decode (take max_bytes bytes), True))"

definition exit_code_json :: "nat option \<Rightarrow> jval" where
  "exit_code_json code = (case code of None \<Rightarrow> JNull | Some n \<Rightarrow> jnat n)"

text \<open>What the invocation makes of a process that has ended: the timeout first, then the limits, the exit code and the lines.\<close>

definition driver_process_outcome ::
  "(string \<Rightarrow> string) \<Rightarrow> (string \<Rightarrow> string) \<Rightarrow> (string \<Rightarrow> string + jval) \<Rightarrow> string \<Rightarrow> string \<Rightarrow> nat \<Rightarrow> nat \<Rightarrow> nat \<Rightarrow> nat \<Rightarrow>
   nat option \<times> string option \<Rightarrow> driver_process \<Rightarrow> exp_error + jval list \<times> jval" where
  "driver_process_outcome decode encode parse request_id timeout duration max_out max_err max_events ended r =
     (let fail = (\<lambda>code message details. Inl \<lparr>ax_code = Some code, ax_message = message, ax_details = JObj details\<rparr>) in
      if dn_timed_out r
      then fail ''E_DRIVER_TIMEOUT'' (''Driver exceeded '' @ timeout @ '' ms'') [(''duration_ms'', jnat duration)]
      else case dn_overflow r of
        Some stream \<Rightarrow> fail ''E_DRIVER_OUTPUT_LIMIT'' (''Driver exceeded '' @ stream @ '' limit'') [(''stream'', JStr stream)]
      | None \<Rightarrow>
          if fst ended \<noteq> Some 0
          then fail ''E_DRIVER_EXIT'' (''Driver exited with code '' @ js_string (exit_code_json (fst ended)))
            [(''code'', exit_code_json (fst ended)), (''signal'', jopt_str (snd ended)),
             (''stderr'', JStr (fst (truncate_text decode encode max_err (decode (dn_stderr r)))))]
          else parse_driver_json_lines parse (fst (truncate_text decode encode max_out (decode (dn_stdout r)))) request_id max_events)"

lemma driver_overflow:
  "dn_overflow (fold (driver_process_step max_out max_err) es r) = None \<Longrightarrow> length (dn_stdout r) \<le> max_out \<or> dn_overflow r \<noteq> None \<Longrightarrow>
     length (dn_stdout (fold (driver_process_step max_out max_err) es r)) \<le> max_out"
proof (induction es arbitrary: r)
  case (Cons e es)
  have "length (dn_stdout (driver_process_step max_out max_err e r)) \<le> max_out \<or> dn_overflow (driver_process_step max_out max_err e r) \<noteq> None"
    using Cons.prems(2) by (cases e) (auto simp: overflow_at_def Let_def)
  then show ?case using Cons.IH [of "driver_process_step max_out max_err e r"] Cons.prems(1) by simp
qed simp

text \<open>A result comes from the whole output of the driver, not from a part of it, when the output is valid UTF-8.\<close>

lemma driver_result_whole_output:
  assumes "driver_process_outcome decode encode parse request_id timeout duration max_out max_err max_events ended
      (run_driver max_out max_err es) = Inr (events, result)"
    and "encode (decode (dn_stdout (run_driver max_out max_err es))) = dn_stdout (run_driver max_out max_err es)"
  shows "parse_driver_json_lines parse (decode (dn_stdout (run_driver max_out max_err es))) request_id max_events = Inr (events, result)"
    "fst ended = Some 0" "\<not> dn_timed_out (run_driver max_out max_err es)"
proof -
  let ?r = "run_driver max_out max_err es"
  have "dn_overflow ?r = None" and "fst ended = Some 0" and "\<not> dn_timed_out ?r"
    and parsed: "parse_driver_json_lines parse (fst (truncate_text decode encode max_out (decode (dn_stdout ?r)))) request_id max_events =
      Inr (events, result)"
    using assms(1) by (auto simp: driver_process_outcome_def split: option.splits if_splits)
  moreover from this(1) have "length (dn_stdout ?r) \<le> max_out"
    using driver_overflow [of max_out max_err es new_driver_process] by (simp add: run_driver_def new_driver_process_def)
  ultimately show "parse_driver_json_lines parse (decode (dn_stdout ?r)) request_id max_events = Inr (events, result)"
    "fst ended = Some 0" "\<not> dn_timed_out ?r"
    using assms(2) by (simp_all add: truncate_text_def)
qed

subsection \<open>A trial of one side\<close>

record agent_env =
  av_cwd :: string
  av_sha :: "string \<Rightarrow> string"
  av_stringify :: "jval \<Rightarrow> string"
  av_pretty :: "jval \<Rightarrow> string"
  av_now :: string
  av_fresh_id :: string
  av_secret :: string               \<comment> \<open>32 random bytes in hexadecimal\<close>
  av_temp_name :: string            \<comment> \<open>the suffix that \<open>mkdtemp\<close> picks\<close>
  av_temp_root :: string
  av_node :: string
  av_duration :: nat
  av_base_env :: env_vars
  av_is_directory :: "string \<Rightarrow> bool"
  av_fixture :: "string \<Rightarrow> bool"      \<comment> \<open>the fixture exists and can be copied\<close>
  av_driver :: "jval \<Rightarrow> env_vars \<Rightarrow> driver_process_event list"  \<comment> \<open>what the process does, up to its end\<close>
  av_decode :: "string \<Rightarrow> string"
  av_encode :: "string \<Rightarrow> string"
  av_parse :: "string \<Rightarrow> string + jval"

text \<open>Spreading a list of strings; other values that cannot be iterated raise a \<open>TypeError\<close>.\<close>

fun spread_strings :: "jval \<Rightarrow> exp_error + string list" where
  "spread_strings (JArr xs) = Inr (map js_string xs)"
| "spread_strings (JStr s) = Inr (map (\<lambda>c. [c]) s)"
| "spread_strings v = Inl (common_error ''Spread syntax requires ...iterable[Symbol.iterator] to be a function'')"

text \<open>\<open>createEphemeralMcpConfig\<close>: the path and the digest of the configuration. Its directory is removed only by \<open>cleanup\<close>,
  which the caller has once the configuration was made.\<close>

definition mcp_config_value :: "agent_env \<Rightarrow> jval \<Rightarrow> jval \<Rightarrow> jval \<Rightarrow> string list \<Rightarrow> jval" where
  "mcp_config_value env command args vars tools =
     JObj [(''schema_version'', JStr ''1.0''), (''mcpServers'', JObj [(''emacs-operator'', JObj
       [(''transport'', JStr ''stdio''), (''command'', command), (''args'', args),
        (''env'', JObj (spread (fields_of vars) [(''EMACS_OPERATOR_EXPERIMENT_TOKEN'', JStr (av_secret env))])),
        (''allowed_tools'', JArr (map JStr tools))])])]"

definition create_ephemeral_config ::
  "agent_env \<Rightarrow> jval \<Rightarrow> jval \<Rightarrow> jval \<Rightarrow> jval \<Rightarrow> jval \<Rightarrow> exp_world \<Rightarrow> (exp_error + string \<times> string) \<times> exp_world" where
  "create_ephemeral_config env command args vars tools rootdir w =
     (case andthen (require_that (case command of JStr s \<Rightarrow> s \<noteq> [] | _ \<Rightarrow> False) ''E_MCP_COMMAND'' ''MCP command is required'') (\<lambda>_.
          require_that (case args of JArr xs \<Rightarrow> list_all is_string xs | _ \<Rightarrow> False) ''E_MCP_ARGS'' ''MCP args must be strings'') of
        Inl e \<Rightarrow> (Inl e, w)
      | Inr _ \<Rightarrow>
          let directory = path_join (js_string (nullish_or rootdir (JStr (av_temp_root env)))) ''emacs-operator-mcp-'' @ av_temp_name env;
              w = w\<lparr>ew_configs := directory # ew_configs w\<rparr> in
          (case spread_strings tools of
             Inl e \<Rightarrow> (Inl e, w)
           | Inr names \<Rightarrow>
               (Inr (directory, av_sha env (av_pretty env (mcp_config_value env command args vars names) @ [LF])), w)))"

definition config_file :: "string \<Rightarrow> string" where
  "config_file directory = path_join directory ''mcp-config.json''"

definition profile_for_request :: "jval \<Rightarrow> jval" where
  "profile_for_request prof =
     JObj (filter (\<lambda>(k, v). k \<notin> {''command'', ''args'', ''env_passthrough'', ''secret_env_names''}) (fields_of prof))"

definition resolve_field :: "string \<Rightarrow> jval \<Rightarrow> exp_error + jval" where
  "resolve_field cwd v = (case v of JStr s \<Rightarrow> Inr (JStr (path_resolve cwd s))
     | _ \<Rightarrow> Inl (common_error ''The \"paths[0]\" argument must be of type string.''))"

definition DRIVER_TIMEOUT_MS :: nat where
  "DRIVER_TIMEOUT_MS = 180 * 1000"


definition make_request :: "agent_env \<Rightarrow> jval \<Rightarrow> jval \<Rightarrow> jval \<Rightarrow> exp_error + jval" where
  "make_request env base prof grant =
     andthen (resolve_field (av_cwd env) (get_prop base ''workspace'')) (\<lambda>workspace.
     andthen (resolve_field (av_cwd env) (get_prop base ''trace_path'')) (\<lambda>trace_path.
       validate_driver_request (JObj
         [(''protocol_version'', JStr DRIVER_PROTOCOL),
          (''request_id'', nullish_or (get_prop base ''request_id'') (JStr (av_fresh_id env))),
          (''run_id'', get_prop base ''run_id''), (''suite_id'', get_prop base ''suite_id''),
          (''suite_revision'', get_prop base ''suite_revision''), (''suite_digest'', get_prop base ''suite_digest''),
          (''task_id'', get_prop base ''task_id''), (''task_digest'', get_prop base ''task_digest''),
          (''trial'', get_prop base ''trial''), (''trial_seed'', get_prop base ''trial_seed''), (''prompt'', get_prop base ''prompt''),
          (''workspace'', workspace),
          (''timeout_ms'', nullish_or (get_prop base ''timeout_ms'') (nullish_or (get_prop prof ''timeout_ms'') (jnat DRIVER_TIMEOUT_MS))),
          (''trace_path'', trace_path), (''agent_profile'', profile_for_request prof), (''tool_grant'', grant)])))"

text \<open>The grant of a side; the candidate first gets its configuration. The directory to clean up is known once it was made.\<close>

definition grant_of ::
  "agent_env \<Rightarrow> side \<Rightarrow> jval \<Rightarrow> exp_world \<Rightarrow> (exp_error + jval) \<times> (string \<times> string) option \<times> exp_world" where
  "grant_of env sd prof w =
     (let network = nullish_or (get_prop prof ''network_access'') (JStr ''disabled'');
          shell = nullish_or (get_prop prof ''shell_access'') (JStr ''enabled'');
          tools = nullish_or (get_prop prof ''allowed_emacs_tools'') (JArr (map JStr DEFAULT_CANDIDATE_TOOLS));
          mcp = get_prop prof ''mcp'' in
      case sd of
        Baseline \<Rightarrow> (Inr (create_baseline_grant network shell), None, w)
      | Candidate \<Rightarrow>
          (case create_ephemeral_config env (nullish_or (get_prop mcp ''command'') (JStr (av_node env)))
              (nullish_or (get_prop mcp ''args'') (JArr [])) (nullish_or (get_prop mcp ''env'') (JObj [])) tools
              (get_prop prof ''private_runtime_root'') w of
             (Inl e, w) \<Rightarrow> (Inl e, None, w)
           | (Inr (directory, digest), w) \<Rightarrow>
               (andthen (spread_strings tools) (\<lambda>names. create_candidate_grant (config_file directory) names network shell),
                Some (directory, digest), w)))"

definition additions_of :: "side \<Rightarrow> jval \<Rightarrow> (string \<times> string) option \<Rightarrow> (string \<times> jval) list" where
  "additions_of sd base config =
     [(''EMACS_OPERATOR_AGENT_MODE'', JStr (side_name sd)), (''EMACS_OPERATOR_TRIAL_SEED'', JStr (js_string (get_prop base ''trial_seed'')))] @
     (case config of Some (directory, digest) \<Rightarrow> [(''EMACS_OPERATOR_MCP_CONFIG'', JStr (config_file directory))] | None \<Rightarrow> [])"

text \<open>The checks of an invocation, in their order.\<close>

definition driver_args :: "jval \<Rightarrow> jval" where
  "driver_args prof = nullish_or (get_prop prof ''args'') (JArr [])"

definition args_count :: "jval \<Rightarrow> nat" where
  "args_count v = (case v of JArr xs \<Rightarrow> length xs | _ \<Rightarrow> 0)"

definition driver_inputs_ok :: "agent_env \<Rightarrow> jval \<Rightarrow> jval \<Rightarrow> exp_error + unit" where
  "driver_inputs_ok env request prof =
     andthen (validate_driver_request request) (\<lambda>_.
     andthen (require_that (case get_prop prof ''command'' of JStr s \<Rightarrow> s \<noteq> [] | _ \<Rightarrow> False) ''E_DRIVER_COMMAND'' ''Driver command is required'') (\<lambda>_.
     andthen (require_that (case driver_args prof of JArr xs \<Rightarrow> list_all is_string xs | _ \<Rightarrow> False)
       ''E_DRIVER_ARGS'' ''Driver args must be an array of strings'') (\<lambda>_.
       require_that (av_is_directory env (js_string (get_prop request ''workspace''))) ''E_WORKSPACE'' ''Driver workspace does not exist'')))"

definition max_stdout_bytes :: nat where
  "max_stdout_bytes = 1024 * 1024"

definition max_stderr_bytes :: nat where
  "max_stderr_bytes = 1024 * 1024"

definition max_driver_events :: nat where
  "max_driver_events = 10 * 1000"

definition exit_payload :: "agent_env \<Rightarrow> jval \<Rightarrow> nat option \<times> string option \<Rightarrow> driver_process \<Rightarrow> (string \<times> jval) list" where
  "exit_payload env request_id ended r =
     [(''request_id'', request_id), (''code'', exit_code_json (fst ended)), (''signal'', jopt_str (snd ended)),
      (''duration_ms'', jnat (av_duration env)),
      (''stdout_bytes'', jnat (length (dn_stdout r))), (''stderr_bytes'', jnat (length (dn_stderr r))),
      (''stdout_sha256'', JStr (av_sha env (dn_stdout r))), (''stderr_sha256'', JStr (av_sha env (dn_stderr r))),
      (''timed_out'', JBool (dn_timed_out r)), (''overflow'', jopt_str (dn_overflow r))]"

definition process_json :: "agent_env \<Rightarrow> nat option \<times> string option \<Rightarrow> driver_process \<Rightarrow> jval" where
  "process_json env ended r =
     (let err = truncate_text (av_decode env) (av_encode env) max_stderr_bytes (av_decode env (dn_stderr r)) in JObj
      [(''exit_code'', exit_code_json (fst ended)), (''signal'', jopt_str (snd ended)), (''duration_ms'', jnat (av_duration env)),
       (''stdout_bytes'', jnat (length (dn_stdout r))), (''stderr_bytes'', jnat (length (dn_stderr r))),
       (''stdout_sha256'', JStr (av_sha env (dn_stdout r))), (''stderr_sha256'', JStr (av_sha env (dn_stderr r))),
       (''stderr'', JStr (fst err)), (''stderr_truncated'', JBool (snd err))])"

text \<open>The result, the events and the process of an invocation. A process that could not be started leaves no \<open>driver.exit\<close>.\<close>

definition invoke_process_driver ::
  "agent_env \<Rightarrow> bool \<Rightarrow> jval \<Rightarrow> jval \<Rightarrow> env_vars \<Rightarrow> exp_world \<Rightarrow> (exp_error + jval \<times> jval list \<times> jval) \<times> exp_world" where
  "invoke_process_driver env include request prof vars w =
     (let emit = trace_write (av_sha env) include (av_now env); request_id = get_prop request ''request_id'' in
      case driver_inputs_ok env request prof of
        Inl e \<Rightarrow> (Inl e, w)
      | Inr _ \<Rightarrow>
          let w = emit ''driver.spawn'' [(''command'', JStr (path_basename (js_string (get_prop prof ''command'')))),
                (''args_count'', jnat (args_count (driver_args prof))),
                (''workspace'', get_prop request ''workspace''), (''request_id'', request_id)] w;
              r = run_driver max_stdout_bytes max_stderr_bytes (av_driver env request vars) in
          (case dn_exit r of
             None \<Rightarrow> (Inl (common_error ''The process has not ended''), w)
           | Some (Inl message) \<Rightarrow> (Inl (common_error message), w)
           | Some (Inr ended) \<Rightarrow>
               let w = emit ''driver.exit'' (exit_payload env request_id ended r) w in
               (case driver_process_outcome (av_decode env) (av_encode env) (av_parse env) (js_string request_id)
                  (js_string (get_prop request ''timeout_ms'')) (av_duration env) max_stdout_bytes max_stderr_bytes max_driver_events ended r of
                  Inl e \<Rightarrow> (Inl e, w)
                | Inr (events, result) \<Rightarrow>
                    let w = fold (\<lambda>e. emit ''agent.event'' [(''request_id'', request_id), (''event'', e)]) events w in
                    (Inr (result, events, process_json env ended r),
                     emit ''agent.result'' [(''request_id'', request_id), (''result'', result)] w))))"

definition trial_start_payload :: "agent_env \<Rightarrow> jval \<Rightarrow> jval \<Rightarrow> env_vars \<Rightarrow> (string \<times> string) option \<Rightarrow> jval \<Rightarrow> (string \<times> jval) list" where
  "trial_start_payload env request prof vars config grant =
     map (\<lambda>k. (k, get_prop request k)) [''request_id'', ''run_id'', ''task_id'', ''trial'', ''trial_seed'', ''prompt''] @
     [(''tool_profile'', get_prop grant ''kind''), (''profile_digest'', JStr (sha_of (av_sha env) (av_stringify env) (profile_for_request prof))),
      (''environment'', environment_disclosure vars)] @
     (case config of Some (directory, digest) \<Rightarrow> [(''mcp_config_digest'', JStr digest)] | None \<Rightarrow> [])"

definition driver_vars :: "agent_env \<Rightarrow> side \<Rightarrow> jval \<Rightarrow> jval \<Rightarrow> (string \<times> string) option \<Rightarrow> exp_error + env_vars" where
  "driver_vars env sd prof base config =
     andthen (spread_strings (nullish_or (get_prop prof ''env_passthrough'') (JArr []))) (\<lambda>passthrough.
     andthen (spread_strings (nullish_or (get_prop prof ''secret_env_names'') (JArr []))) (\<lambda>secrets.
       build_driver_environment (av_base_env env) passthrough secrets (additions_of sd base config) (sd = Baseline)))"

definition trial_value :: "agent_env \<Rightarrow> jval \<Rightarrow> jval \<Rightarrow> jval \<times> jval list \<times> jval \<Rightarrow> exp_world \<Rightarrow> jval" where
  "trial_value env request grant invocation w =
     (case invocation of (result, events, process) \<Rightarrow> JObj
        [(''status'', get_prop result ''status''), (''summary'', nullish_or (get_prop result ''summary'') (JStr [])),
         (''usage'', get_prop result ''usage''), (''artifacts'', nullish_or (get_prop result ''artifacts'') (JArr [])),
         (''metadata'', nullish_or (get_prop result ''metadata'') (JObj [])), (''driver_events'', JArr events), (''process'', process),
         (''trace_path'', get_prop request ''trace_path''),
         (''trace_sha256'', JStr (av_sha env (trace_text (av_stringify env) (js_string (get_prop request ''trace_path'')) w))),
         (''tool_profile'', get_prop grant ''kind''), (''request_id'', get_prop request ''request_id'')])"

text \<open>The part of a trial that has a grant: the request, the environment, the driver and its value.\<close>

definition trial_with_grant ::
  "agent_env \<Rightarrow> bool \<Rightarrow> side \<Rightarrow> jval \<Rightarrow> jval \<Rightarrow> jval \<Rightarrow> (string \<times> string) option \<Rightarrow> exp_world \<Rightarrow> (exp_error + jval) \<times> exp_world" where
  "trial_with_grant env include sd prof base grant config w =
     (let emit = trace_write (av_sha env) include (av_now env) in
      case andthen (make_request env base prof grant) (\<lambda>request.
          andthen (driver_vars env sd prof base config) (\<lambda>vars. Inr (request, vars))) of
        Inl e \<Rightarrow> (Inl e, w)
      | Inr (request, vars) \<Rightarrow>
          (case invoke_process_driver env include request prof vars
              (emit ''trial.start'' (trial_start_payload env request prof vars config grant) w) of
             (Inl e, w) \<Rightarrow> (Inl e, w)
           | (Inr invocation, w) \<Rightarrow>
               let w = emit ''trial.finish'' [(''request_id'', get_prop request ''request_id''), (''status'', get_prop (fst invocation) ''status'')] w in
               (Inr (trial_value env request grant invocation w), w)))"

definition include_prompt :: "jval \<Rightarrow> bool" where
  "include_prompt prof \<longleftrightarrow> get_prop prof ''include_prompt_in_trace'' = JBool True"

definition trial_error_payload :: "exp_error \<Rightarrow> (string \<times> jval) list" where
  "trial_error_payload e = [(''error'', JObj
     ([(''name'', JStr (if ax_code e = None then ''Error'' else ''AgentExperimentError''))] @
      (case ax_code e of None \<Rightarrow> [] | Some code \<Rightarrow> [(''code'', JStr code)]) @ [(''message'', JStr (ax_message e))]))]"

definition cleanup_config :: "(string \<times> string) option \<Rightarrow> exp_world \<Rightarrow> exp_world" where
  "cleanup_config config w =
     (case config of None \<Rightarrow> w | Some (directory, digest) \<Rightarrow> w\<lparr>ew_configs := filter (\<lambda>d. d \<noteq> directory) (ew_configs w)\<rparr>)"

text \<open>\<open>run\<close>: \<open>catch\<close> notes the error and throws it again, \<open>finally\<close> removes the configuration of this trial.\<close>

definition run_trial_side :: "agent_env \<Rightarrow> side \<Rightarrow> jval \<Rightarrow> jval \<Rightarrow> exp_world \<Rightarrow> (exp_error + jval) \<times> exp_world" where
  "run_trial_side env sd prof base w =
     (case resolve_field (av_cwd env) (get_prop base ''trace_path'') of
        Inl e \<Rightarrow> (Inl e, w)
      | Inr trace_path \<Rightarrow>
          (case grant_of env sd prof (open_trace (js_string trace_path) w) of (granted, config, w) \<Rightarrow>
             (case (case granted of Inl e \<Rightarrow> (Inl e, w)
                  | Inr grant \<Rightarrow> trial_with_grant env (include_prompt prof) sd prof base grant config w) of
                (Inr value, w) \<Rightarrow> (Inr value, cleanup_config config w)
              | (Inl e, w) \<Rightarrow> (Inl e, cleanup_config config
                  (trace_write (av_sha env) (include_prompt prof) (av_now env) ''trial.error'' (trial_error_payload e) w)))))"


subsection \<open>What a trial leaves behind\<close>

lemma open_trace_keeps [simp]: "trace_clean (open_trace p w) = trace_clean w" "ew_configs (open_trace p w) = ew_configs w"
  by (simp_all add: open_trace_def trace_clean_def)

lemma cleanup_keeps [simp]: "trace_clean (cleanup_config config w) = trace_clean w"
  by (simp add: cleanup_config_def trace_clean_def split: option.split)

lemma trace_write_configs [simp]: "ew_configs (trace_write sha include now type payload w) = ew_configs w"
  by (simp add: trace_write_def)

lemma fold_events:
  "trace_clean w \<Longrightarrow> trace_clean (fold (\<lambda>e. trace_write sha include now type (f e)) es w)"
  "ew_configs (fold (\<lambda>e. trace_write sha include now type (f e)) es w) = ew_configs w"
  by (induction es arbitrary: w) (auto intro: trace_write_clean)

lemma invoke_trace:
  assumes "invoke_process_driver env include request prof vars w = (r, w')"
  shows "trace_clean w \<Longrightarrow> trace_clean w'" "ew_configs w' = ew_configs w"
  using assms by (auto simp: invoke_process_driver_def Let_def fold_events(2) intro!: trace_write_clean fold_events(1)
    split: sum.splits option.splits prod.splits)

lemma trial_with_grant_trace:
  assumes "trial_with_grant env include sd prof base grant config w = (r, w')"
  shows "trace_clean w \<Longrightarrow> trace_clean w'" "ew_configs w' = ew_configs w"
  using assms by (auto simp: trial_with_grant_def Let_def intro!: trace_write_clean
    dest: invoke_trace(1) [OF _ trace_write_clean] invoke_trace(2) split: sum.splits prod.splits)

lemma grant_of_trace:
  assumes "grant_of env sd prof w = (granted, config, w')"
  shows "trace_clean w' = trace_clean w"
    "config = None \<Longrightarrow> ew_configs w' = ew_configs w \<or> sd = Candidate \<and> (\<exists>e. granted = Inl e)"
    "config = Some (directory, digest) \<Longrightarrow> ew_configs w' = directory # ew_configs w"
  using assms by (auto simp: grant_of_def create_ephemeral_config_def Let_def trace_clean_def
    split: side.splits sum.splits prod.splits)

lemma trial_trace_clean:
  assumes "run_trial_side env sd prof base w = (r, w')" "trace_clean w"
  shows "trace_clean w'"
proof (cases "resolve_field (av_cwd env) (get_prop base ''trace_path'')")
  case (Inr p)
  obtain granted config w1 where g: "grant_of env sd prof (open_trace (js_string p) w) = (granted, config, w1)"
    by (metis prod_cases3)
  then have "trace_clean w1" using grant_of_trace(1) assms(2) by simp
  then show ?thesis
    using assms(1) Inr g trial_with_grant_trace(1)
    by (auto simp: run_trial_side_def split: sum.splits prod.splits intro!: trace_write_clean)
qed (use assms in \<open>simp add: run_trial_side_def\<close>)

text \<open>The configuration of a trial, which holds a token, is gone after the trial, whatever happened in it.\<close>

lemma trial_config_removed:
  assumes "grant_of env sd prof (open_trace p w) = (granted, Some (directory, digest), w1)"
    and "resolve_field (av_cwd env) (get_prop base ''trace_path'') = Inr (JStr p)"
    and "run_trial_side env sd prof base w = (r, w')"
  shows "ew_configs w' = filter (\<lambda>d. d \<noteq> directory) (ew_configs w)"
  using assms grant_of_trace(3) [OF assms(1)] trial_with_grant_trace(2)
  by (fastforce simp: run_trial_side_def cleanup_config_def split: sum.splits prod.splits)

end
