(* ===== verification/AgentExperiment.thy ===== *)
theory AgentExperiment
  imports AgentTrial
begin

text \<open>
  The paired experiment (\<open>agent-experiment/src\<close>: \<open>experiment\<close>, \<open>preflight\<close>): the checks of a configuration, the loop over
  the schedule, the records and the manifest, and the preflight. The optional callback \<open>onTrial\<close> is not modelled; task ids
  are no objects.
\<close>

subsection \<open>The experiment\<close>

definition EXPERIMENT_SCHEMA_VERSION :: string where
  "EXPERIMENT_SCHEMA_VERSION = ''1.0''"

definition PAIRED_FIELDS :: "string list" where
  "PAIRED_FIELDS = [''provider'', ''model'', ''model_version'', ''prompt_policy'', ''temperature'', ''top_p'', ''max_context_tokens'',
     ''cross_trial_memory'', ''network_access'', ''pairing_key'']"

text \<open>\<open>JSON.stringify\<close> of an undefined value is undefined.\<close>

definition same_json :: "(jval \<Rightarrow> string) \<Rightarrow> jval \<Rightarrow> jval \<Rightarrow> bool" where
  "same_json stringify a b =
     (if a = JUndef \<or> b = JUndef then a = JUndef \<and> b = JUndef else stringify a = stringify b)"

fun check_paired :: "(jval \<Rightarrow> string) \<Rightarrow> string list \<Rightarrow> jval \<Rightarrow> jval \<Rightarrow> exp_error + unit" where
  "check_paired stringify [] b c = Inr ()"
| "check_paired stringify (k # ks) b c =
     andthen (require_that (same_json stringify (get_prop b k) (get_prop c k)) ''E_PROFILE_PAIRING'' (''Paired profile field differs: '' @ k))
       (\<lambda>_. check_paired stringify ks b c)"

definition profile_of :: "jval \<Rightarrow> side \<Rightarrow> jval" where
  "profile_of config sd = get_prop (get_prop config (side_name sd)) ''profile''"

definition validate_pair_config :: "(jval \<Rightarrow> string) \<Rightarrow> jval \<Rightarrow> exp_error + jval" where
  "validate_pair_config stringify config =
     (let suite = get_prop config ''suite''; b = profile_of config Baseline; c = profile_of config Candidate in
      andthen (require_that (get_prop config ''schema_version'' = JStr EXPERIMENT_SCHEMA_VERSION) ''E_EXPERIMENT_SCHEMA''
        (''schema_version must be '' @ EXPERIMENT_SCHEMA_VERSION)) (\<lambda>_.
      andthen (require_that (case get_prop config ''run_seed'' of JNum (Fin q) \<Rightarrow> q = of_int \<lfloor>q\<rfloor> | _ \<Rightarrow> False)
        ''E_RUN_SEED'' ''run_seed must be an integer'') (\<lambda>_.
      andthen (require_that (integer_within 1 100 (get_prop config ''trials'')) ''E_TRIALS'' ''trials must be 1..100'') (\<lambda>_.
      andthen (require_that (is_string (get_prop suite ''id'') \<and> is_string (get_prop suite ''digest'') \<and> is_array (get_prop suite ''tasks''))
        ''E_SUITE'' ''suite id, digest and tasks are required'') (\<lambda>_.
      andthen (require_that (truthy b \<and> truthy c) ''E_PROFILES'' ''baseline.profile and candidate.profile are required'') (\<lambda>_.
      andthen (check_paired stringify PAIRED_FIELDS b c) (\<lambda>_.
      andthen (require_that (\<not> strict_eq (get_prop b ''tool_profile'') (get_prop c ''tool_profile''))
        ''E_PROFILE_PAIRING'' ''Only tool_profile should distinguish baseline and candidate'') (\<lambda>_.
        Inr config))))))))"

text \<open>\<open>createAgent\<close>.\<close>

definition create_agent :: "jval \<Rightarrow> exp_error + jval" where
  "create_agent prof =
     (if \<not> is_objlike prof then Inl (common_error ''Agent profile is required'')
      else case get_prop prof ''command'' of
        JStr (c # cs) \<Rightarrow> Inr prof
      | _ \<Rightarrow> Inl (common_error ''profile.command is required''))"

record paired_record =
  tr_side :: side
  tr_task_id :: jval
  tr_trial :: nat
  tr_seed :: nat
  tr_order :: "side list"
  tr_outcome :: "exp_error + jval"
  tr_duration :: nat
  tr_workspace :: string

definition order_json :: "side list \<Rightarrow> jval" where
  "order_json sides = JArr (map (\<lambda>s. JStr (side_name s)) sides)"

definition outcome_json :: "exp_error + jval \<Rightarrow> jval" where
  "outcome_json r =
     (case r of
        Inr v \<Rightarrow> JObj [(''ok'', JBool True), (''value'', v)]
      | Inl e \<Rightarrow> JObj [(''ok'', JBool False), (''error'', JObj
          [(''name'', JStr (if ax_code e = None then ''Error'' else ''AgentExperimentError'')),
           (''code'', JStr (case ax_code e of Some code \<Rightarrow> code | None \<Rightarrow> ''E_UNEXPECTED'')), (''message'', JStr (ax_message e))])])"

definition paired_record_json :: "paired_record \<Rightarrow> jval" where
  "paired_record_json r = JObj
     [(''side'', JStr (side_name (tr_side r))), (''task_id'', tr_task_id r), (''trial'', jnat (tr_trial r)),
      (''trial_seed'', jnat (tr_seed r)), (''order'', order_json (tr_order r)), (''outcome'', outcome_json (tr_outcome r)),
      (''duration_ms'', jnat (tr_duration r)), (''workspace'', JStr (tr_workspace r))]"

definition write_json :: "string \<Rightarrow> jval \<Rightarrow> exp_world \<Rightarrow> exp_world" where
  "write_json path v w = w\<lparr>ew_files := ew_files w @ [(path, v)]\<rparr>"

definition resolve_two :: "string \<Rightarrow> jval \<Rightarrow> jval \<Rightarrow> exp_error + string" where
  "resolve_two cwd a b =
     (case (a, b) of (JStr x, JStr y) \<Rightarrow> Inr (path_resolve (path_resolve cwd x) y)
      | _ \<Rightarrow> Inl (common_error ''The \"paths[0]\" argument must be of type string.''))"

definition side_suffix :: "schedule_item \<Rightarrow> string \<Rightarrow> side \<Rightarrow> string" where
  "side_suffix item sep sd = js_string (si_task_id item) @ sep @ dec_str (si_trial item) @ ''-'' @ side_name sd"

definition trial_base :: "jval \<Rightarrow> jval \<Rightarrow> schedule_item \<Rightarrow> nat \<Rightarrow> jval \<Rightarrow> string \<Rightarrow> string \<Rightarrow> jval" where
  "trial_base config run_id item seed task workspace trace_path =
     (let suite = get_prop config ''suite'' in JObj
      [(''run_id'', run_id), (''suite_id'', get_prop suite ''id''), (''suite_revision'', get_prop suite ''revision''),
       (''suite_digest'', get_prop suite ''digest''), (''task_id'', si_task_id item), (''task_digest'', si_task_digest item),
       (''trial'', jnat (si_trial item)), (''trial_seed'', jnat seed), (''prompt'', get_prop task ''prompt''),
       (''workspace'', JStr workspace), (''trace_path'', JStr trace_path), (''timeout_ms'', get_prop config ''timeout_ms'')])"

text \<open>One side of a trial: a fresh copy of the fixture, then the agent; its failure is a value of the record.\<close>

definition run_side ::
  "agent_env \<Rightarrow> jval \<Rightarrow> jval \<Rightarrow> string \<Rightarrow> schedule_item \<Rightarrow> jval \<Rightarrow> nat \<Rightarrow> side \<Rightarrow> exp_world \<Rightarrow> (exp_error + paired_record) \<times> exp_world" where
  "run_side env config run_id out_dir item task seed sd w =
     (let factory = get_prop config ''workspace_factory'' in
      case andthen (resolve_two (av_cwd env) (get_prop factory ''root'') (JStr (side_suffix item ''-trial-'' sd))) (\<lambda>workspace.
          andthen (resolve_two (av_cwd env) (get_prop factory ''fixtures_root'') (get_prop task ''fixture'')) (\<lambda>source.
            if av_fixture env source then Inr (workspace, source) else Inl (common_error (''ENOENT: no such file or directory, lstat '' @ source)))) of
        Inl e \<Rightarrow> (Inl e, w)
      | Inr (workspace, source) \<Rightarrow>
          let w = w\<lparr>ew_copies := ew_copies w @ [(workspace, source)]\<rparr>;
              trace_path = path_join (path_join out_dir ''traces'') (side_suffix item ''-'' sd @ ''.jsonl'') in
          (case run_trial_side env sd (profile_of config sd) (trial_base config run_id item seed task workspace trace_path) w of
             (outcome, w) \<Rightarrow> (Inr \<lparr>tr_side = sd, tr_task_id = si_task_id item, tr_trial = si_trial item, tr_seed = seed,
               tr_order = si_order item, tr_outcome = outcome, tr_duration = av_duration env, tr_workspace = workspace\<rparr>, w)))"

text \<open>\<open>env_at k\<close> is what the world gives the \<open>k\<close>-th run.\<close>

fun run_sides ::
  "(nat \<Rightarrow> agent_env) \<Rightarrow> jval \<Rightarrow> jval \<Rightarrow> string \<Rightarrow> schedule_item \<Rightarrow> jval \<Rightarrow> nat \<Rightarrow> nat \<Rightarrow> side list \<Rightarrow> exp_world \<Rightarrow>
   (exp_error + paired_record list) \<times> exp_world" where
  "run_sides env_at config run_id out_dir item task seed k [] w = (Inr [], w)"
| "run_sides env_at config run_id out_dir item task seed k (sd # sds) w =
     (case run_side (env_at k) config run_id out_dir item task seed sd w of
        (Inl e, w) \<Rightarrow> (Inl e, w)
      | (Inr r, w) \<Rightarrow>
          (case run_sides env_at config run_id out_dir item task seed (Suc k) sds w of
             (Inl e, w) \<Rightarrow> (Inl e, w)
           | (Inr rs, w) \<Rightarrow> (Inr (r # rs), w)))"

definition suite_digest_of :: "jval \<Rightarrow> string" where
  "suite_digest_of config = js_string (get_prop (get_prop config ''suite'') ''digest'')"

definition suite_tasks :: "jval \<Rightarrow> jval list" where
  "suite_tasks config = (case get_prop (get_prop config ''suite'') ''tasks'' of JArr xs \<Rightarrow> xs | _ \<Rightarrow> [])"

definition item_seed :: "(string \<Rightarrow> string) \<Rightarrow> jval \<Rightarrow> schedule_item \<Rightarrow> nat" where
  "item_seed sha config item =
     derive_trial_seed sha (suite_digest_of config) (js_string (si_task_id item)) (si_trial item) (get_prop config ''run_seed'')"

fun run_items ::
  "(nat \<Rightarrow> agent_env) \<Rightarrow> jval \<Rightarrow> jval \<Rightarrow> string \<Rightarrow> nat \<Rightarrow> schedule_item list \<Rightarrow> exp_world \<Rightarrow> (exp_error + paired_record list) \<times> exp_world" where
  "run_items env_at config run_id out_dir k [] w = (Inr [], w)"
| "run_items env_at config run_id out_dir k (item # items) w =
     (case List.find (\<lambda>task. strict_eq (get_prop task ''id'') (si_task_id item)) (suite_tasks config) of
        None \<Rightarrow> (Inl (common_error ''Cannot read properties of undefined''), w)
      | Some task \<Rightarrow>
          let seed = item_seed (av_sha (env_at 0)) config item in
          (case run_sides env_at config run_id out_dir item task seed k (si_order item) w of
             (Inl e, w) \<Rightarrow> (Inl e, w)
           | (Inr pair, w) \<Rightarrow>
               let w = write_json (path_join (path_join out_dir ''trials'') (js_string (si_task_id item) @ ''-'' @ dec_str (si_trial item) @ ''.json''))
                     (JObj [(''task_id'', si_task_id item), (''trial'', jnat (si_trial item)), (''trial_seed'', jnat seed),
                       (''order'', order_json (si_order item)), (''results'', JArr (map paired_record_json pair))]) w in
               (case run_items env_at config run_id out_dir (k + length pair) items w of
                  (Inl e, w) \<Rightarrow> (Inl e, w)
                | (Inr rs, w) \<Rightarrow> (Inr (pair @ rs), w))))"


definition length_json :: "jval \<Rightarrow> jval" where
  "length_json v = (case v of JArr xs \<Rightarrow> jnat (length xs) | JStr s \<Rightarrow> jnat (length s) | _ \<Rightarrow> JUndef)"

definition basename_json :: "jval \<Rightarrow> exp_error + jval" where
  "basename_json v = (case v of JStr s \<Rightarrow> Inr (JStr (path_basename s))
     | _ \<Rightarrow> Inl (common_error ''The \"path\" argument must be of type string.''))"

definition strings_json :: "jval \<Rightarrow> exp_error + jval" where
  "strings_json v = map_sum id (\<lambda>xs. JArr (map JStr xs)) (spread_strings (nullish_or v (JArr [])))"

definition sanitize_profile :: "jval \<Rightarrow> exp_error + jval" where
  "sanitize_profile prof =
     andthen (basename_json (get_prop prof ''command'')) (\<lambda>command.
     andthen (strings_json (get_prop prof ''secret_env_names'')) (\<lambda>secrets.
     andthen (strings_json (get_prop prof ''env_passthrough'')) (\<lambda>passthrough.
     andthen (let mcp = get_prop prof ''mcp'' in
         if \<not> truthy mcp then Inr JUndef
         else andthen (basename_json (nullish_or (get_prop mcp ''command'') (JStr []))) (\<lambda>name.
           Inr (JObj [(''command_basename'', name), (''args_count'', length_json (nullish_or (get_prop mcp ''args'') (JArr [])))]))) (\<lambda>mcp.
       Inr (JObj (spread
         (filter (\<lambda>(k, v). k \<notin> {''command'', ''args'', ''secret_env_names'', ''env_passthrough'', ''mcp''}) (fields_of prof))
         [(''command_basename'', command), (''args_count'', length_json (driver_args prof)), (''secret_env_names'', secrets),
          (''env_passthrough'', passthrough), (''mcp'', mcp)]))))))"

definition schedule_json :: "schedule_item list \<Rightarrow> jval" where
  "schedule_json items = JArr (map (\<lambda>i. JObj [(''task_id'', si_task_id i), (''task_digest'', si_task_digest i),
     (''trial'', jnat (si_trial i)), (''order'', order_json (si_order i))]) items)"

definition trials_of :: "jval \<Rightarrow> nat" where
  "trials_of config = (case get_prop config ''trials'' of JNum (Fin q) \<Rightarrow> nat \<lfloor>q\<rfloor> | _ \<Rightarrow> 0)"

definition experiment_schedule :: "(string \<Rightarrow> string) \<Rightarrow> jval \<Rightarrow> schedule_item list" where
  "experiment_schedule sha config =
     build_balanced_schedule sha (suite_digest_of config) (suite_tasks config) (trials_of config) (get_prop config ''run_seed'')"

definition experiment_run_id :: "agent_env \<Rightarrow> jval \<Rightarrow> jval" where
  "experiment_run_id env config =
     nullish_or (get_prop config ''run_id'') (JStr (stable_id (av_sha env) (av_stringify env) ''run''
       (JObj [(''suite'', JStr (suite_digest_of config)), (''seed'', get_prop config ''run_seed''), (''started'', JStr (av_now env))])))"

definition experiment_manifest :: "agent_env \<Rightarrow> jval \<Rightarrow> jval \<Rightarrow> schedule_item list \<Rightarrow> paired_record list \<Rightarrow> exp_error + jval" where
  "experiment_manifest env config run_id items records =
     (let suite = get_prop config ''suite''; seed = get_prop config ''run_seed'' in
      andthen (sanitize_profile (profile_of config Baseline)) (\<lambda>baseline.
      andthen (sanitize_profile (profile_of config Candidate)) (\<lambda>candidate.
        let fields0 =
          [(''schema_version'', JStr EXPERIMENT_SCHEMA_VERSION),
           (''experiment_id'', JStr (stable_id (av_sha env) (av_stringify env) ''exp''
             (JObj [(''suite'', get_prop suite ''digest''), (''seed'', seed),
               (''profiles'', JArr [get_prop (profile_of config Baseline) ''id'', get_prop (profile_of config Candidate) ''id''])]))),
           (''run_id'', run_id),
           (''suite'', JObj [(''id'', get_prop suite ''id''), (''revision'', get_prop suite ''revision''), (''digest'', get_prop suite ''digest'')]),
           (''run_seed'', seed), (''trials'', get_prop config ''trials''), (''schedule'', schedule_json items),
           (''profiles'', JObj [(''baseline'', baseline), (''candidate'', candidate)]),
           (''records'', JArr (map paired_record_json records)),
           (''note'', JStr ''Agent outcomes are execution evidence only. Independent benchmark scoring remains authoritative.'')] in
        Inr (JObj (fields0 @ [(''manifest_sha256'', JStr (sha_of (av_sha env) (av_stringify env) (JObj fields0)))])))))"

text \<open>\<open>runPairedExperiment\<close>: the records with the manifest that holds them.\<close>

definition run_paired_experiment :: "(nat \<Rightarrow> agent_env) \<Rightarrow> jval \<Rightarrow> exp_world \<Rightarrow> (exp_error + paired_record list \<times> jval) \<times> exp_world" where
  "run_paired_experiment env_at config w =
     (let env = env_at 0; items = experiment_schedule (av_sha env) config; run_id = experiment_run_id env config in
      case andthen (validate_pair_config (av_stringify env) config) (\<lambda>_.
          andthen (resolve_field (av_cwd env) (get_prop config ''output_dir'')) (\<lambda>out_dir.
          andthen (create_agent (profile_of config Baseline)) (\<lambda>_.
          andthen (create_agent (profile_of config Candidate)) (\<lambda>_. Inr (js_string out_dir))))) of
        Inl e \<Rightarrow> (Inl e, w)
      | Inr out_dir \<Rightarrow>
          (case run_items env_at config run_id out_dir 0 items w of
             (Inl e, w) \<Rightarrow> (Inl e, w)
           | (Inr records, w) \<Rightarrow>
               (case experiment_manifest env config run_id items records of
                  Inl e \<Rightarrow> (Inl e, w)
                | Inr manifest \<Rightarrow> (Inr (records, manifest), write_json (path_join out_dir ''experiment.json'') manifest w))))"

subsection \<open>Every trial runs on both sides\<close>

definition record_key :: "paired_record \<Rightarrow> jval \<times> nat \<times> side \<times> nat" where
  "record_key r = (tr_task_id r, tr_trial r, tr_side r, tr_seed r)"

definition item_keys :: "(string \<Rightarrow> string) \<Rightarrow> jval \<Rightarrow> schedule_item \<Rightarrow> (jval \<times> nat \<times> side \<times> nat) list" where
  "item_keys sha config item = map (\<lambda>sd. (si_task_id item, si_trial item, sd, item_seed sha config item)) (si_order item)"

lemma write_json_keeps [simp]: "trace_clean (write_json p v w) = trace_clean w"
  by (simp add: write_json_def trace_clean_def)

lemma run_side_record:
  assumes "run_side env config run_id out_dir item task seed sd w = (Inr r, w')"
  shows "record_key r = (si_task_id item, si_trial item, sd, seed)" "trace_clean w \<Longrightarrow> trace_clean w'"
  using assms by (auto simp: run_side_def Let_def record_key_def trace_clean_def split: sum.splits prod.splits
    dest!: trial_trace_clean [unfolded trace_clean_def])

lemma run_sides_records:
  "run_sides env_at config run_id out_dir item task seed k sds w = (Inr rs, w') \<Longrightarrow>
     map record_key rs = map (\<lambda>sd. (si_task_id item, si_trial item, sd, seed)) sds \<and> (trace_clean w \<longrightarrow> trace_clean w')"
  by (induction sds arbitrary: k w rs) (fastforce dest: run_side_record split: sum.splits prod.splits)+

lemma run_items_records:
  "run_items env_at config run_id out_dir k items w = (Inr rs, w') \<Longrightarrow>
     map record_key rs = concat (map (item_keys (av_sha (env_at 0)) config) items) \<and> (trace_clean w \<longrightarrow> trace_clean w')"
proof (induction items arbitrary: k w rs)
  case (Cons item items)
  obtain task pair w1 w2 rs' where
    pair: "run_sides env_at config run_id out_dir item task (item_seed (av_sha (env_at 0)) config item) k (si_order item) w = (Inr pair, w1)"
    and rest: "run_items env_at config run_id out_dir (k + length pair) items w2 = (Inr rs', w')"
    and same: "trace_clean w2 = trace_clean w1" and rs: "rs = pair @ rs'"
    using Cons.prems by (auto simp: Let_def split: option.splits sum.splits prod.splits)
  show ?case using run_sides_records [OF pair] Cons.IH [OF rest] same by (simp add: rs item_keys_def)
qed simp

text \<open>
  C40: An experiment that finishes has one record for each side of each task and trial of the schedule, in the order of the
  schedule, the two sides of a trial next to each other with the same seed, whether the driver failed or not; and every
  line that it added to a trace is redacted.
\<close>

theorem experiment_runs_both_sides:
  assumes "run_paired_experiment env_at config w = (Inr (records, manifest), w')" "trace_clean w"
  shows "map record_key records = concat (map (item_keys (av_sha (env_at 0)) config) (experiment_schedule (av_sha (env_at 0)) config)) \<and>
    length records = 2 * (length (suite_tasks config) * trials_of config) \<and> trace_clean w'"
proof -
  let ?items = "experiment_schedule (av_sha (env_at 0)) config"
  obtain out_dir w1 where
    "run_items env_at config (experiment_run_id (env_at 0) config) out_dir 0 ?items w = (Inr records, w1)"
    and same: "trace_clean w' = trace_clean w1"
    using assms(1) by (auto simp: run_paired_experiment_def Let_def split: sum.splits prod.splits)
  from run_items_records [OF this(1)]
  have keys: "map record_key records = concat (map (item_keys (av_sha (env_at 0)) config) ?items)" and "trace_clean w1"
    using assms(2) by simp_all
  have two: "length (si_order i) = 2" if "i \<in> set ?items" for i
    using that by (auto simp: experiment_schedule_def build_balanced_schedule_def paired_order_both)
  have "length records = (\<Sum>i\<leftarrow>?items. length (item_keys (av_sha (env_at 0)) config i))"
    using arg_cong [OF keys, of length] by (simp add: length_concat comp_def)
  also have "\<dots> = 2 * length ?items"
    using two by (simp add: item_keys_def sum_list_triv cong: map_cong)
  also have "length ?items = length (suite_tasks config) * trials_of config"
    by (simp add: experiment_schedule_def schedule_length)
  finally show ?thesis using keys \<open>trace_clean w1\<close> same by simp
qed


subsection \<open>A driver never stops an experiment\<close>

definition fixtures_exist :: "(nat \<Rightarrow> agent_env) \<Rightarrow> jval \<Rightarrow> bool" where
  "fixtures_exist env_at config \<longleftrightarrow>
     (let factory = get_prop config ''workspace_factory'' in
      is_string (get_prop factory ''root'') \<and> is_string (get_prop factory ''fixtures_root'') \<and>
      list_all (\<lambda>task. is_string (get_prop task ''id'') \<and> is_string (get_prop task ''fixture'')) (suite_tasks config) \<and>
      (\<forall>k p. av_fixture (env_at k) p))"

lemma is_string_iff: "is_string v \<longleftrightarrow> (\<exists>s. v = JStr s)"
  by (cases v) auto

lemma run_sides_return:
  assumes "fixtures_exist env_at config" "task \<in> set (suite_tasks config)"
  shows "\<exists>rs w'. run_sides env_at config run_id out_dir item task seed k sds w = (Inr rs, w')"
proof (induction sds arbitrary: k w)
  case (Cons sd sds)
  have "\<exists>r w'. run_side (env_at k) config run_id out_dir item task seed sd w = (Inr r, w')"
    using assms by (auto simp: run_side_def Let_def fixtures_exist_def list_all_iff is_string_iff resolve_two_def andthen_def split: prod.split)
  then obtain r w1 where "run_side (env_at k) config run_id out_dir item task seed sd w = (Inr r, w1)" by blast
  then show ?case using Cons.IH [of "Suc k" w1] by auto
qed simp

lemma run_items_return:
  assumes fixtures: "fixtures_exist env_at config"
  shows "list_all (\<lambda>i. \<exists>task \<in> set (suite_tasks config). si_task_id i = get_prop task ''id'') items \<Longrightarrow>
    \<exists>rs w'. run_items env_at config run_id out_dir k items w = (Inr rs, w')"
proof (induction items arbitrary: k w)
  case (Cons item items)
  obtain t0 where t0: "t0 \<in> set (suite_tasks config)" "si_task_id item = get_prop t0 ''id''" using Cons.prems by auto
  then have "strict_eq (get_prop t0 ''id'') (si_task_id item)"
    using fixtures by (auto simp: fixtures_exist_def list_all_iff Let_def is_string_iff)
  then obtain task where found: "List.find (\<lambda>task. strict_eq (get_prop task ''id'') (si_task_id item)) (suite_tasks config) = Some task"
    using t0(1) by (metis find_None_iff not_None_eq)
  then have "task \<in> set (suite_tasks config)" by (auto simp: find_Some_iff)
  from run_sides_return [OF fixtures this, of run_id out_dir item "item_seed (av_sha (env_at 0)) config item" k "si_order item" w]
  obtain pair w1 where "run_sides env_at config run_id out_dir item task (item_seed (av_sha (env_at 0)) config item) k (si_order item) w = (Inr pair, w1)"
    by blast
  moreover have "\<exists>rs w'. run_items env_at config run_id out_dir k items w = (Inr rs, w')" for k w using Cons by simp
  ultimately show ?case by (simp add: Let_def found split: prod.split sum.split) (metis Inl_Inr_False prod.inject)
qed simp

lemma schedule_tasks:
  "list_all (\<lambda>i. \<exists>task \<in> set (suite_tasks config). si_task_id i = get_prop task ''id'') (experiment_schedule sha config)"
  by (auto simp: experiment_schedule_def build_balanced_schedule_def list_all_iff)

text \<open>Once the configuration is valid and the fixtures are there, only a profile that cannot be reported stops the experiment.\<close>

lemma experiment_finishes:
  assumes "fixtures_exist env_at config" "validate_pair_config (av_stringify (env_at 0)) config = Inr config"
    "get_prop config ''output_dir'' = JStr out_dir"
    "create_agent (profile_of config Baseline) = Inr b" "create_agent (profile_of config Candidate) = Inr c"
    "sanitize_profile (profile_of config Baseline) = Inr b'" "sanitize_profile (profile_of config Candidate) = Inr c'"
  shows "\<exists>records manifest w'. run_paired_experiment env_at config w = (Inr (records, manifest), w')"
proof -
  let ?dir = "path_resolve (av_cwd (env_at 0)) out_dir"
  obtain rs w1 where "run_items env_at config (experiment_run_id (env_at 0) config) ?dir 0
      (experiment_schedule (av_sha (env_at 0)) config) w = (Inr rs, w1)"
    using run_items_return [OF assms(1) schedule_tasks] by metis
  then show ?thesis
    using assms(2-) by (simp add: run_paired_experiment_def Let_def resolve_field_def andthen_def experiment_manifest_def)
qed

subsection \<open>A small experiment\<close>

definition example_agent_env :: agent_env where
  "example_agent_env = \<lparr>av_cwd = ''/w'', av_sha = (\<lambda>s. ''0a1b2c3d''), av_stringify = js_string, av_pretty = js_string, av_now = ''t'',
     av_fresh_id = ''req_1'', av_secret = ''s'', av_temp_name = ''x'', av_temp_root = ''/tmp'', av_node = ''node'', av_duration = 5,
     av_base_env = [(''PATH'', ''/bin'')], av_is_directory = (\<lambda>p. True), av_fixture = (\<lambda>p. True),
     av_driver = (\<lambda>request vars. [Driver_Failed ''ENOENT'']), av_decode = id, av_encode = id, av_parse = (\<lambda>s. Inl ''bad'')\<rparr>"

definition example_experiment :: jval where
  "example_experiment = JObj
     [(''schema_version'', JStr ''1.0''), (''run_seed'', JNum (Fin 7)), (''trials'', JNum (Fin 1)), (''output_dir'', JStr ''out''),
      (''suite'', JObj [(''id'', JStr ''s''), (''digest'', JStr ''d''),
        (''tasks'', JArr [JObj [(''id'', JStr ''a''), (''digest'', JStr ''e''), (''fixture'', JStr ''f'')]])]),
      (''workspace_factory'', JObj [(''root'', JStr ''/r''), (''fixtures_root'', JStr ''/x'')]),
      (''baseline'', JObj [(''profile'', JObj [(''command'', JStr ''b''), (''tool_profile'', JStr ''one'')])]),
      (''candidate'', JObj [(''profile'', JObj [(''command'', JStr ''c''), (''tool_profile'', JStr ''two'')])])]"

definition empty_world :: exp_world where
  "empty_world = \<lparr>ew_sequence = 0, ew_path = [], ew_trace = [], ew_configs = [], ew_files = [], ew_copies = []\<rparr>"

lemma example_experiment_parts:
  "validate_pair_config js_string example_experiment = Inr example_experiment"
  "create_agent (profile_of example_experiment Baseline) = Inr (profile_of example_experiment Baseline)"
  "create_agent (profile_of example_experiment Candidate) = Inr (profile_of example_experiment Candidate)"
  "\<not> isl (sanitize_profile (profile_of example_experiment Baseline))"
  "\<not> isl (sanitize_profile (profile_of example_experiment Candidate))"
  by code_simp+

lemma example_experiment_finishes:
  "\<exists>records manifest w'. run_paired_experiment (\<lambda>k. example_agent_env) example_experiment empty_world = (Inr (records, manifest), w')"
proof -
  obtain b c where "sanitize_profile (profile_of example_experiment Baseline) = Inr b"
    "sanitize_profile (profile_of example_experiment Candidate) = Inr c"
    using example_experiment_parts(4,5) by (metis isl_def sum.exhaust)
  moreover have "fixtures_exist (\<lambda>k. example_agent_env) example_experiment"
    by (simp add: fixtures_exist_def example_experiment_def example_agent_env_def suite_tasks_def)
  moreover have "get_prop example_experiment ''output_dir'' = JStr ''out''" by (simp add: example_experiment_def)
  moreover have "av_stringify example_agent_env = js_string" by (simp add: example_agent_env_def)
  ultimately show ?thesis using example_experiment_parts(1-3) experiment_finishes [of "\<lambda>k. example_agent_env"] by simp
qed

lemma experiment_runs_both_sides_witness:
  "\<exists>records manifest w'. run_paired_experiment (\<lambda>k. example_agent_env) example_experiment empty_world = (Inr (records, manifest), w') \<and>
     length records = 2 \<and> trace_clean w'"
proof -
  obtain records manifest w' where
    run: "run_paired_experiment (\<lambda>k. example_agent_env) example_experiment empty_world = (Inr (records, manifest), w')"
    using example_experiment_finishes by blast
  have "trace_clean empty_world" by (simp add: trace_clean_def empty_world_def)
  from experiment_runs_both_sides [OF run this] run show ?thesis
    by (auto simp: suite_tasks_def trials_of_def example_experiment_def)
qed


subsection \<open>The preflight\<close>

record preflight_env =
  pv_command :: "string \<Rightarrow> bool"     \<comment> \<open>the file exists, or \<open>which\<close> finds the command\<close>
  pv_exists :: "string \<Rightarrow> bool"
  pv_cwd :: string
  pv_now :: string

definition pass_fail :: "bool \<Rightarrow> jval" where
  "pass_fail b = JStr (if b then ''pass'' else ''fail'')"

definition preflight_command_check :: "preflight_env \<Rightarrow> string \<Rightarrow> jval \<Rightarrow> exp_error + jval" where
  "preflight_command_check pe name command =
     (case command of
        JStr c \<Rightarrow> Inr (JObj [(''name'', JStr name), (''status'', pass_fail (pv_command pe c)), (''command'', JStr (path_basename c))])
      | _ \<Rightarrow> Inl (common_error ''The \"path\" argument must be of type string.''))"

definition fixture_check :: "preflight_env \<Rightarrow> jval \<Rightarrow> jval \<Rightarrow> exp_error + jval" where
  "fixture_check pe fixtures_root task =
     andthen (resolve_two (pv_cwd pe) fixtures_root (get_prop task ''fixture'')) (\<lambda>p.
       Inr (JObj [(''name'', JStr (''fixture:'' @ js_string (get_prop task ''id''))), (''status'', pass_fail (pv_exists pe p))]))"

definition preflight_checks :: "(jval \<Rightarrow> string) \<Rightarrow> preflight_env \<Rightarrow> jval \<Rightarrow> exp_error + jval list" where
  "preflight_checks stringify pe config =
     (case validate_pair_config stringify config of
        Inl e \<Rightarrow> Inr [JObj [(''name'', JStr ''config''), (''status'', JStr ''fail''), (''message'', JStr (ax_message e))]]
      | Inr _ \<Rightarrow>
          (let fixtures_root = get_prop (get_prop config ''workspace_factory'') ''fixtures_root'';
               mcp = get_prop (get_prop (profile_of config Candidate) ''mcp'') ''command'' in
           andthen (all_Inr (map (\<lambda>sd. preflight_command_check pe (side_name sd @ ''.driver_command'') (get_prop (profile_of config sd) ''command''))
             [Baseline, Candidate])) (\<lambda>drivers.
           andthen (if truthy mcp then andthen (preflight_command_check pe ''candidate.mcp_command'' mcp) (\<lambda>c. Inr [c]) else Inr []) (\<lambda>mcps.
           andthen (all_Inr (map (fixture_check pe fixtures_root) (suite_tasks config))) (\<lambda>fixtures.
             Inr ([JObj [(''name'', JStr ''config''), (''status'', JStr ''pass'')]] @ drivers @ mcps @
               [JObj [(''name'', JStr ''fixtures_root''), (''status'', pass_fail (case fixtures_root of JStr p \<Rightarrow> pv_exists pe p | _ \<Rightarrow> False))]] @
               fixtures))))))"

definition preflight :: "(string \<Rightarrow> string) \<Rightarrow> (jval \<Rightarrow> string) \<Rightarrow> preflight_env \<Rightarrow> jval \<Rightarrow> exp_error + jval" where
  "preflight sha stringify pe config =
     andthen (preflight_checks stringify pe config) (\<lambda>checks. Inr (JObj
       [(''schema_version'', JStr ''1.0''), (''generated_at'', JStr (pv_now pe)),
        (''ok'', JBool (list_all (\<lambda>c. get_prop c ''status'' = JStr ''pass'') checks)), (''checks'', JArr checks),
        (''digest'', JStr (sha_of sha stringify (JArr checks)))]))"

lemma pass_fail_pass [simp]: "pass_fail b = JStr ''pass'' \<longleftrightarrow> b"
  by (simp add: pass_fail_def)

text \<open>A preflight that is ok has found a valid configuration, both drivers and every fixture.\<close>

lemma preflight_ok:
  assumes "preflight sha stringify pe config = Inr report" "get_prop report ''ok'' = JBool True"
  shows "\<exists>c. validate_pair_config stringify config = Inr c"
    "\<exists>p. get_prop (profile_of config sd) ''command'' = JStr p \<and> pv_command pe p"
    "task \<in> set (suite_tasks config) \<Longrightarrow> \<exists>p. resolve_two (pv_cwd pe)
       (get_prop (get_prop config ''workspace_factory'') ''fixtures_root'') (get_prop task ''fixture'') = Inr p \<and> pv_exists pe p"
proof -
  obtain checks where checks: "preflight_checks stringify pe config = Inr checks"
    and ok: "list_all (\<lambda>c. get_prop c ''status'' = JStr ''pass'') checks"
    using assms by (auto simp: preflight_def andthen_eq_Inr)
  obtain c where c: "validate_pair_config stringify config = Inr c"
    using checks ok by (cases "validate_pair_config stringify config") (auto simp: preflight_checks_def)
  then show "\<exists>c. validate_pair_config stringify config = Inr c" by blast
  let ?root = "get_prop (get_prop config ''workspace_factory'') ''fixtures_root''"
  let ?command = "\<lambda>sd. preflight_command_check pe (side_name sd @ ''.driver_command'') (get_prop (profile_of config sd) ''command'')"
  obtain b d fixtures where drivers: "?command Baseline = Inr b" "?command Candidate = Inr d"
    and fixtures: "map (fixture_check pe ?root) (suite_tasks config) = map Inr fixtures"
    and "set fixtures \<subseteq> set checks" "{b, d} \<subseteq> set checks"
    using checks c by (auto simp: preflight_checks_def Let_def andthen_eq_Inr all_Inr_iff split: if_splits; blast)
  then have passes: "get_prop b ''status'' = JStr ''pass''" "get_prop d ''status'' = JStr ''pass''"
    "\<And>f. f \<in> set fixtures \<Longrightarrow> get_prop f ''status'' = JStr ''pass''"
    using ok by (auto simp: list_all_iff)
  show "\<exists>p. get_prop (profile_of config sd) ''command'' = JStr p \<and> pv_command pe p"
    using drivers passes(1,2) by (cases sd) (auto simp: preflight_command_check_def split: jval.splits)
  show "\<exists>p. resolve_two (pv_cwd pe) ?root (get_prop task ''fixture'') = Inr p \<and> pv_exists pe p"
    if "task \<in> set (suite_tasks config)"
  proof -
    have "fixture_check pe ?root task \<in> Inr ` set fixtures"
      using that arg_cong [OF fixtures, of set] by auto
    then obtain f where "fixture_check pe ?root task = Inr f" "get_prop f ''status'' = JStr ''pass''" using passes(3) by auto
    then show ?thesis by (auto simp: fixture_check_def andthen_eq_Inr)
  qed
qed

end
