(* ===== verification/Spec2Isabelle.thy ===== *)
theory Spec2Isabelle
  imports RouterTrust Transactions BridgeClientProps DriverProps RenameProps RenameFs AnalysisProps WireProps Rerun Capture BenchRunner BenchAgent BenchSuite LinuxHostProps LinuxRuntime AgentExperiment
begin

text \<open>
  The Emacs Operator: a server that lets an agent operate running Emacs instances, the native host it types and
  captures through on Linux, the libraries for Lisp refactorings, the benchmark that measures agents, and the
  experiment that runs an agent with and without it. The theories of this
  directory translate its TypeScript and JavaScript sources (under \<open>src/packages\<close> and \<open>src/apps/linux-host\<close>) into
  executable definitions and prove what makes them correct.

  \<^bold>\<open>How the parts work together.\<close>
  An agent speaks JSON-RPC lines with \<open>mcp-server/src/server.ts\<close>; \<open>mcpWireServer.ts\<close> turns a \<open>tools/call\<close> into a call of
  \<open>ToolRouter\<close> (\<open>tools/toolRouter.ts\<close>), which checks the arguments (\<open>protocol\<close>), the session and its lease
  (\<open>sessions\<close>), the permissions (\<open>policy\<close>) and answers from an idempotency cache or asks an Emacs instance over a
  bridge client (\<open>bridge-client\<close>), the native host over a driver client (\<open>drivers\<close>), or a library
  (\<open>refactor-intelligence\<close>, \<open>protocol/src/unifiedDiff.ts\<close>). The native host is a process of its own
  (\<open>apps/linux-host\<close>). The benchmark (\<open>benchmark\<close>) runs agents on copies of a fixture and scores what they leave.

  \<^bold>\<open>Conventions.\<close>
  \<open>JsString\<close>, \<open>JsValue\<close> and \<open>JsNumber\<close> are the part of JavaScript the sources use: a string is a list of code units below
  256, a number an exact rational or a special value (no rounding), an object the list of its properties in order, \<open>JUndef\<close>
  the value of an absent property. A \<open>Map\<close> is an association list in insertion order (\<open>Prelude\<close>). A \<open>throw\<close> is the left
  side of a sum, or, where the state matters (\<open>Act\<close>), the left side of a result beside the state in which it was thrown;
  \<open>await\<close> is the sequencing of state-passing functions, and where two activities interleave (RPC clients, connections,
  processes, the lock file) the component is a step function or relation over explicit events. Clocks, random names,
  file systems, processes, sockets, \<open>JSON.parse\<close>, \<open>JSON.stringify\<close>, \<open>RegExp\<close>, \<open>localeCompare\<close> and SHA-256 are parameters,
  fields of an environment record; no property assumes anything of them that is not named in its statement.
  Loops are structural or well-founded recursion, so every function is total and no fuel is used.

  \<^bold>\<open>Protocol and session state\<close> (\<open>packages/protocol\<close>, \<open>packages/mcp-server\<close>).
  \<open>Errors\<close>: the error registry. \<open>Protocol\<close>: records, envelopes and argument validators. \<open>UnifiedDiff\<close>: parser and applier
  of unified diffs; an applied diff is the edit script it describes, and the reversed diff takes it back. \<open>Stores\<close>: the
  contract (a locale) of the two expiring stores, interpreted by \<open>Idempotency\<close> and \<open>Tickets\<close>. \<open>Sessions\<close>: sessions and the
  mutation lease of an instance, with the invariant that a lease belongs to an open session and is exclusive. \<open>Policy\<close>:
  profiles and the path check; it accepts exactly the paths inside the project.

  \<^bold>\<open>The tool router\<close> (\<open>tools/toolRouter.ts\<close>).
  \<open>Act\<close>: the monad of the handlers. \<open>Server\<close>: the state and the environment of the router. \<open>Tools\<close>, \<open>Mutations\<close>, \<open>Editing\<close>:
  the handlers of the reading and the changing tools with their guards in order. \<open>Workflows\<close>, \<open>WorkflowOps\<close>,
  \<open>OrgWorkflows\<close>: the eight workflows over checkpoint, commit and rollback. \<open>Router\<close>: \<open>call\<close> and \<open>dispatch\<close>.
  \<open>RouterEffects\<close>, \<open>StepRelation\<close>, \<open>RouterSafety\<close>, \<open>StepTrace\<close>: locales for relations that every effect, step or workflow
  keeps, so that a property is an interpretation; \<open>ExampleServer\<close> is the environment of the witnesses. \<open>RouterProps\<close>,
  \<open>RouterTrust\<close>: no changing request leaves the server without the session, profile and lease that allow it, evaluation and
  native input need their permissions, a file outside the workspace is not touched. \<open>RouterCalls\<close>, \<open>RouterRuns\<close>: every
  call is answered and audited, a repeated call replays, and every reachable state is consistent. \<open>Transactions\<close>: a
  workflow commits its checkpoint or rolls it back. \<open>Catalog\<close>, \<open>WireServer\<close>, \<open>WireProps\<close>: the catalogue, the methods and the line
  protocol; requests are answered once, in order, whatever the chunks of the input.

  \<^bold>\<open>Clients\<close> (\<open>packages/bridge-client\<close>, \<open>mcp-server/src/drivers\<close>).
  \<open>Runtime\<close>: discovery of instances. \<open>Framing\<close>, \<open>FramingProps\<close>: Content-Length frames. \<open>BridgeClient\<close>, \<open>Driver\<close>: two RPC
  clients; \<open>PendingRequests\<close> is the locale of what both do with promises and timers, interpreted in \<open>BridgeClientProps\<close> and
  \<open>DriverProps\<close>: a request is settled or has its timer, never both. The last part of \<open>Driver\<close>: opening, reuse and closing of driver
  clients. \<open>Base64\<close>, \<open>Capture\<close>: a capture is read only from the private directory.

  \<^bold>\<open>Refactoring\<close> (\<open>packages/refactor-intelligence\<close>).
  \<open>Scanner\<close>, \<open>Brackets\<close>, \<open>ScannerProps\<close>: the tokenizer; its balance check decides the Dyck language. \<open>SymbolSemantics\<close>,
  \<open>RenamePlan\<close>, \<open>RenameText\<close>, \<open>RenameProps\<close>: rename plans; a plan that is made applies and renames exactly the symbol.
  \<open>RenameFs\<close>: on files all or nothing. \<open>Analysis\<close>, \<open>AnalysisProps\<close>: the parameters of an extracted function
  are its free symbols. \<open>Rerun\<close>: guarded reruns are bounded.

  \<^bold>\<open>Benchmark\<close> (\<open>packages/benchmark\<close>).
  \<open>BenchTypes\<close>, \<open>BenchSuite\<close>: suites and their validation. \<open>BenchPaths\<close>, \<open>BenchWorkspace\<close>: safe paths, copies, snapshots,
  violations. \<open>BenchLisp\<close>, \<open>BenchOrg\<close>: the structure checks. \<open>BenchScoring\<close>: check results and scores. \<open>BenchProfile\<close>: agent
  profiles without secrets. \<open>BenchTrace\<close>, \<open>BenchAgent\<close>: traces, results and the process of a command agent. \<open>BenchTrial\<close>,
  \<open>BenchRunner\<close>: a trial and a run with its report. \<open>BenchComparison\<close>: the 32-bit generator and the paired
  comparison.

  \<^bold>\<open>Agent experiment\<close> (\<open>packages/agent-experiment\<close>).
  \<open>AgentProtocol\<close>: requests, grants, redaction and the lines of a driver; accepted output is accounted for line by line.
  \<open>AgentTrial\<close>: environment, trace, process and run of one side; traces are redacted and the configuration of a trial is
  removed. \<open>AgentExperiment\<close>: the schedule, its records and the preflight; every trial runs on both sides with one seed.

  \<^bold>\<open>Linux host\<close> (\<open>apps/linux-host/src\<close>).
  \<open>LinuxEvents\<close>, \<open>LinuxEventsProps\<close>: the plan of a key sequence; the helper decodes exactly the accepted events, and every key
  that is pressed is released. \<open>LinuxBackend\<close>: the helper process, the operations and their queue. \<open>LinuxFraming\<close>: the frames.
  \<open>LinuxHost\<close>, \<open>LinuxHostProps\<close>: a connection over the interface \<open>native_backend\<close> (a locale with two interpretations); without
  the token nothing is reached. \<open>LinuxRuntime\<close>: the lock as interleaved system calls, the token and the record.

  \<^bold>\<open>Bounds.\<close>
  Limits are those of the code (for example 4096 events, 64 KiB of text and a minute of delays for a native plan, 16384
  bytes for a header, 10000 requests for a connection); those the code computes in 32 bits are words
  (\<open>BenchComparison\<close>). Safe integers are bounded where the code asks \<open>Number.isSafeInteger\<close>.

  \<^bold>\<open>What the proofs uncovered.\<close>
  Lemmas beside the properties show where the code departs from its intent, among them \<open>message_without_method_is_fatal\<close>,
  \<open>failed_rename_leaves_temp_file\<close>, \<open>null_parameters_pass_unresolved\<close>, \<open>slash_protects_nothing\<close>, \<open>abort_never_kills\<close>,
  \<open>audit_sequences_collide\<close>, \<open>verifier_not_in_digest\<close>, \<open>confused_keys_stay_down\<close>, \<open>stale_lock_two_holders\<close>,
  \<open>cleanup_removes_foreign_files\<close>, \<open>cancelled_queue_goes_on\<close>, \<open>plan_file_left\<close> and \<open>baseline_misses_seed\<close>.

  \<^bold>\<open>Not modelled.\<close>
  The Emacs Lisp side of the bridge and the C helper of X11 are other languages and appear as parameters; so does the
  macOS host. The acceptance programs (\<open>*Acceptance.ts\<close>, \<open>scripts\<close>), the fake bridge of the test harness and the
  command-line front ends drive the modelled parts and have no contract of their own; the JavaScript files beside the
  sources of \<open>refactor-intelligence\<close> are compiled from them. Rounding of doubles, code units above 255, \<open>__proto__\<close> keys, Windows
  paths and the timing of the event loop beyond the order of events are outside the model.
\<close>

end
